(* ===== verification/Prelude.thy ===== *)
theory Prelude
  imports Main "HOL-Library.Sublist"
begin

text \<open>
  What every component shares: the sentinel errors of \<open>internal/errors/http.go\<close>, the three ways a
  Go call can end (a value, an error, a panic), and the combinators in which the operations on the
  program's state are written.  An operation is a function from the state to an outcome and the
  state afterwards.  The state is kept when an operation fails, as it is in the program: whatever
  was done before the failure has been done.

  The second half is the calculus the components' proofs use: \<open>wp\<close> (what holds of outcome and
  final state), \<open>steps\<close> (every run of the operation is related to its start by a relation) and
  \<open>keeps\<close> (the operation keeps an invariant and its result satisfies a predicate), each with one
  rule per combinator, collected in \<open>wp_rules\<close>, \<open>steps_rules\<close> and \<open>keeps_rules\<close>.
\<close>

named_theorems wp_rules "weakest preconditions of the combinators and primitives"
named_theorems steps_rules "operations whose runs stay in a preorder"
named_theorems keeps_rules "operations that keep an invariant"
named_theorems total_rules "operations that do not return an error"

subsection \<open>Errors\<close>

text \<open>
  The four sentinels carry the text they were wrapped with (\<open>errors.Wrap(errs.X, text)\<close>); every
  other error is \<open>ErrOther\<close>.  \<open>errors.Is(err, errs.X)\<close> is a test of the constructor.
\<close>

datatype err =
    ErrNotFound string
  | ErrValidation string
  | ErrUnprocessableEntity string
  | ErrConflict string
  | ErrOther string

fun IsClientError :: "err \<Rightarrow> bool" where
  "IsClientError (ErrNotFound _) = True"
| "IsClientError (ErrValidation _) = True"
| "IsClientError (ErrUnprocessableEntity _) = True"
| "IsClientError (ErrConflict _) = True"
| "IsClientError (ErrOther _) = False"

fun is_not_found :: "err \<Rightarrow> bool" where
  "is_not_found (ErrNotFound _) = True"
| "is_not_found _ = False"

fun_cases is_not_foundE: "is_not_found e"

definition prefix_text :: "string \<Rightarrow> string \<Rightarrow> string" where
  "prefix_text m s = (if s = [] then m else m @ '': '' @ s)"

text \<open>\<open>err.Error()\<close>: the wrapping text, then the text of the sentinel.\<close>

fun error_text :: "err \<Rightarrow> string" where
  "error_text (ErrNotFound s) =
     (if s = [] then ''no data found matching criteria''
      else s @ '': no data found matching criteria'')"
| "error_text (ErrValidation s) =
     (if s = [] then ''invalid input data'' else s @ '': invalid input data'')"
| "error_text (ErrUnprocessableEntity s) =
     (if s = [] then ''unprocessable entity'' else s @ '': unprocessable entity'')"
| "error_text (ErrConflict s) = (if s = [] then ''conflict'' else s @ '': conflict'')"
| "error_text (ErrOther s) = s"

text \<open>\<open>errors.Wrap(err, m)\<close> for an error that already exists: same sentinel, longer text.\<close>

fun wrap_err :: "string \<Rightarrow> err \<Rightarrow> err" where
  "wrap_err m (ErrNotFound s) = ErrNotFound (prefix_text m s)"
| "wrap_err m (ErrValidation s) = ErrValidation (prefix_text m s)"
| "wrap_err m (ErrUnprocessableEntity s) = ErrUnprocessableEntity (prefix_text m s)"
| "wrap_err m (ErrConflict s) = ErrConflict (prefix_text m s)"
| "wrap_err m (ErrOther s) = ErrOther (prefix_text m s)"

lemma IsClientError_wrap_err [simp]: "IsClientError (wrap_err m e) = IsClientError e"
  by (cases e) auto

text \<open>The repeated step of the services: a missing row becomes an unprocessable entity.\<close>

definition not_found_to_unprocessable :: "err \<Rightarrow> err" where
  "not_found_to_unprocessable e =
     (if is_not_found e then ErrUnprocessableEntity (error_text e) else e)"

subsection \<open>Outcomes and operations\<close>

datatype 'a outcome = Ok 'a | Err err | Panic string

type_synonym ('w, 'a) op = "'w \<Rightarrow> 'a outcome \<times> 'w"

definition ret :: "'a \<Rightarrow> ('w, 'a) op" where
  "ret x = (\<lambda>w. (Ok x, w))"

definition fail :: "err \<Rightarrow> ('w, 'a) op" where
  "fail e = (\<lambda>w. (Err e, w))"

definition lift_outcome :: "'a outcome \<Rightarrow> ('w, 'a) op" where
  "lift_outcome r = (\<lambda>w. (r, w))"

definition bindE :: "('w, 'a) op \<Rightarrow> ('a \<Rightarrow> ('w, 'b) op) \<Rightarrow> ('w, 'b) op" where
  "bindE m k = (\<lambda>w. case m w of
      (Ok x, w') \<Rightarrow> k x w'
    | (Err e, w') \<Rightarrow> (Err e, w')
    | (Panic p, w') \<Rightarrow> (Panic p, w'))"

text \<open>
  \<open>attempt m\<close> is \<open>x, err := m\<close>: the error becomes a value the caller looks at.  A panic is not an
  error value and goes on.
\<close>

definition attempt :: "('w, 'a) op \<Rightarrow> ('w, err + 'a) op" where
  "attempt m = (\<lambda>w. case m w of
      (Ok x, w') \<Rightarrow> (Ok (Inr x), w')
    | (Err e, w') \<Rightarrow> (Ok (Inl e), w')
    | (Panic p, w') \<Rightarrow> (Panic p, w'))"

text \<open>An error that is only logged.\<close>

definition best_effort :: "('w, 'a) op \<Rightarrow> ('w, unit) op" where
  "best_effort m = bindE (attempt m) (\<lambda>_. ret ())"

text \<open>An error that is rewritten on its way up.\<close>

definition map_err :: "(err \<Rightarrow> err) \<Rightarrow> ('w, 'a) op \<Rightarrow> ('w, 'a) op" where
  "map_err f m = (\<lambda>w. case m w of
      (Ok x, w') \<Rightarrow> (Ok x, w')
    | (Err e, w') \<Rightarrow> (Err (f e), w')
    | (Panic p, w') \<Rightarrow> (Panic p, w'))"

definition gets :: "('w \<Rightarrow> 'a) \<Rightarrow> ('w, 'a) op" where
  "gets f = (\<lambda>w. (Ok (f w), w))"

definition modify :: "('w \<Rightarrow> 'w) \<Rightarrow> ('w, unit) op" where
  "modify f = (\<lambda>w. (Ok (), f w))"

definition when_op :: "bool \<Rightarrow> ('w, unit) op \<Rightarrow> ('w, unit) op" where
  "when_op b m = (if b then m else ret ())"

text \<open>\<open>defer f()\<close>: runs however the body ended, and does not change the outcome.\<close>

definition deferred :: "('w \<Rightarrow> 'w) \<Rightarrow> ('w, 'a) op \<Rightarrow> ('w, 'a) op" where
  "deferred f m = (\<lambda>w. (fst (m w), f (snd (m w))))"

text \<open>A \<open>for range\<close> loop with loop variables \<open>s\<close>; a body that fails leaves the loop.\<close>

fun fold_op :: "('a \<Rightarrow> 's \<Rightarrow> ('w, 's) op) \<Rightarrow> 'a list \<Rightarrow> 's \<Rightarrow> ('w, 's) op" where
  "fold_op f [] s = ret s"
| "fold_op f (x # xs) s = bindE (f x s) (fold_op f xs)"

definition for_each :: "('a \<Rightarrow> ('w, unit) op) \<Rightarrow> 'a list \<Rightarrow> ('w, unit) op" where
  "for_each f xs = fold_op (\<lambda>x _. f x) xs ()"

lemma bindE_assoc: "bindE (bindE m k) h = bindE m (\<lambda>x. bindE (k x) h)"
  by (rule ext) (simp add: bindE_def split: prod.split outcome.split)

lemma bindE_ret [simp]: "bindE (ret x) k = k x"
  by (rule ext) (simp add: bindE_def ret_def)

lemma bindE_fail [simp]: "bindE (fail e) k = fail e"
  by (rule ext) (simp add: bindE_def fail_def)

subsection \<open>Weakest preconditions\<close>

definition wp :: "('w, 'a) op \<Rightarrow> ('a outcome \<Rightarrow> 'w \<Rightarrow> bool) \<Rightarrow> 'w \<Rightarrow> bool" where
  "wp m Q w \<longleftrightarrow> Q (fst (m w)) (snd (m w))"

lemma wp_ret [wp_rules]: "wp (ret x) Q w \<longleftrightarrow> Q (Ok x) w"
  by (simp add: wp_def ret_def)

lemma wp_fail [wp_rules]: "wp (fail e) Q w \<longleftrightarrow> Q (Err e) w"
  by (simp add: wp_def fail_def)

lemma wp_lift_outcome [wp_rules]: "wp (lift_outcome r) Q w \<longleftrightarrow> Q r w"
  by (simp add: wp_def lift_outcome_def)

lemma wp_gets [wp_rules]: "wp (gets f) Q w \<longleftrightarrow> Q (Ok (f w)) w"
  by (simp add: wp_def gets_def)

lemma wp_modify [wp_rules]: "wp (modify f) Q w \<longleftrightarrow> Q (Ok ()) (f w)"
  by (simp add: wp_def modify_def)

lemma wp_bindE [wp_rules]:
  "wp (bindE m k) Q w \<longleftrightarrow>
     wp m (\<lambda>r w'. case r of Ok x \<Rightarrow> wp (k x) Q w' | Err e \<Rightarrow> Q (Err e) w' | Panic p \<Rightarrow> Q (Panic p) w') w"
  by (simp add: wp_def bindE_def split: prod.split outcome.split)

lemma wp_attempt [wp_rules]:
  "wp (attempt m) Q w \<longleftrightarrow>
     wp m (\<lambda>r w'. case r of Ok x \<Rightarrow> Q (Ok (Inr x)) w' | Err e \<Rightarrow> Q (Ok (Inl e)) w'
                  | Panic p \<Rightarrow> Q (Panic p) w') w"
  by (simp add: wp_def attempt_def split: prod.split outcome.split)

lemma wp_map_err [wp_rules]:
  "wp (map_err f m) Q w \<longleftrightarrow>
     wp m (\<lambda>r w'. case r of Ok x \<Rightarrow> Q (Ok x) w' | Err e \<Rightarrow> Q (Err (f e)) w'
                  | Panic p \<Rightarrow> Q (Panic p) w') w"
  by (simp add: wp_def map_err_def split: prod.split outcome.split)

lemma wp_best_effort [wp_rules]:
  "wp (best_effort m) Q w \<longleftrightarrow>
     wp m (\<lambda>r w'. case r of Panic p \<Rightarrow> Q (Panic p) w' | _ \<Rightarrow> Q (Ok ()) w') w"
  by (simp add: best_effort_def wp_bindE wp_attempt wp_ret)
     (simp add: wp_def ret_def split: outcome.split)

lemma wp_deferred [wp_rules]: "wp (deferred f m) Q w \<longleftrightarrow> wp m (\<lambda>r w'. Q r (f w')) w"
  by (simp add: wp_def deferred_def)

lemma wp_when_op [wp_rules]: "wp (when_op b m) Q w \<longleftrightarrow> (if b then wp m Q w else Q (Ok ()) w)"
  by (simp add: when_op_def wp_ret)

lemma wp_mono: "wp m Q w \<Longrightarrow> (\<And>r w'. Q r w' \<Longrightarrow> Q' r w') \<Longrightarrow> wp m Q' w"
  by (simp add: wp_def)

lemma wp_conj: "wp m Q w \<Longrightarrow> wp m Q' w \<Longrightarrow> wp m (\<lambda>r w'. Q r w' \<and> Q' r w') w"
  by (simp add: wp_def)

lemma wpD: "wp m Q w \<Longrightarrow> m w = (r, w') \<Longrightarrow> Q r w'"
  by (simp add: wp_def)

lemma wpI: "(\<And>r w'. m w = (r, w') \<Longrightarrow> Q r w') \<Longrightarrow> wp m Q w"
  by (simp add: wp_def prod.collapse)

subsection \<open>Relations between the start and the end of a run\<close>

definition steps :: "('w \<Rightarrow> 'w \<Rightarrow> bool) \<Rightarrow> ('w, 'a) op \<Rightarrow> bool" where
  "steps R m \<longleftrightarrow> (\<forall>w. R w (snd (m w)))"

lemma stepsI: "(\<And>w. R w (snd (m w))) \<Longrightarrow> steps R m"
  by (simp add: steps_def)

lemma stepsD: "steps R m \<Longrightarrow> m w = (r, w') \<Longrightarrow> R w w'"
  by (metis snd_conv steps_def)

text \<open>
  The interface a relation on states has to provide so that it can be followed through an
  operation: it is a preorder.
\<close>

locale run_preorder =
  fixes R :: "'w \<Rightarrow> 'w \<Rightarrow> bool"
  assumes run_refl: "R w w"
    and run_trans: "R u v \<Longrightarrow> R v w \<Longrightarrow> R u w"
begin

lemma steps_ret [steps_rules]: "steps R (ret x)"
  by (simp add: steps_def ret_def run_refl)

lemma steps_fail [steps_rules]: "steps R (fail e)"
  by (simp add: steps_def fail_def run_refl)

lemma steps_lift_outcome [steps_rules]: "steps R (lift_outcome r)"
  by (simp add: steps_def lift_outcome_def run_refl)

lemma steps_gets [steps_rules]: "steps R (gets f)"
  by (simp add: steps_def gets_def run_refl)

lemma steps_modify: "(\<And>w. R w (f w)) \<Longrightarrow> steps R (modify f)"
  by (simp add: steps_def modify_def)

lemma steps_bindE [steps_rules]:
  assumes "steps R m" and "\<And>x. steps R (k x)"
  shows "steps R (bindE m k)"
proof (rule stepsI)
  fix w
  obtain r w' where m: "m w = (r, w')" by (cases "m w")
  have "R w w'" by (rule stepsD [OF assms(1) m])
  moreover have "R w' (snd (k x w'))" for x
    using assms(2) by (simp add: steps_def)
  ultimately show "R w (snd (bindE m k w))"
    by (cases r) (auto simp: bindE_def m intro: run_trans)
qed

lemma steps_attempt [steps_rules]: "steps R m \<Longrightarrow> steps R (attempt m)"
  by (rule stepsI) (auto simp: attempt_def split: prod.split outcome.split dest: stepsD)

lemma steps_map_err [steps_rules]: "steps R m \<Longrightarrow> steps R (map_err f m)"
  by (rule stepsI) (auto simp: map_err_def split: prod.split outcome.split dest: stepsD)

lemma steps_best_effort [steps_rules]: "steps R m \<Longrightarrow> steps R (best_effort m)"
  by (simp add: best_effort_def steps_bindE steps_attempt steps_ret)

lemma steps_when_op [steps_rules]: "steps R m \<Longrightarrow> steps R (when_op b m)"
  by (simp add: when_op_def steps_ret)

lemma steps_deferred: "steps R m \<Longrightarrow> (\<And>w. R w (f w)) \<Longrightarrow> steps R (deferred f m)"
  by (metis (no_types, lifting) deferred_def run_trans snd_conv steps_def)

lemma steps_fold_op [steps_rules]:
  "(\<And>x s. steps R (f x s)) \<Longrightarrow> steps R (fold_op f xs s)"
  by (induction xs arbitrary: s) (simp_all add: steps_ret steps_bindE)

lemma steps_for_each [steps_rules]: "(\<And>x. steps R (f x)) \<Longrightarrow> steps R (for_each f xs)"
  by (simp add: for_each_def steps_fold_op)

lemma steps_if [steps_rules]: "steps R m \<Longrightarrow> steps R n \<Longrightarrow> steps R (if b then m else n)"
  by simp

lemma steps_Let [steps_rules]: "steps R (f x) \<Longrightarrow> steps R (Let x f)"
  by simp

lemma steps_case_option [steps_rules]:
  "steps R m \<Longrightarrow> (\<And>x. steps R (k x)) \<Longrightarrow> steps R (case z of None \<Rightarrow> m | Some x \<Rightarrow> k x)"
  by (cases z) auto

lemma steps_case_sum [steps_rules]:
  "(\<And>x. steps R (m x)) \<Longrightarrow> (\<And>x. steps R (k x)) \<Longrightarrow> steps R (case z of Inl x \<Rightarrow> m x | Inr x \<Rightarrow> k x)"
  by (cases z) auto

lemma steps_case_list [steps_rules]:
  "steps R m \<Longrightarrow> (\<And>x xs. steps R (k x xs)) \<Longrightarrow> steps R (case z of [] \<Rightarrow> m | x # xs \<Rightarrow> k x xs)"
  by (cases z) auto

lemma steps_case_bool [steps_rules]:
  "steps R m \<Longrightarrow> steps R n \<Longrightarrow> steps R (case b of True \<Rightarrow> m | False \<Rightarrow> n)"
  by (cases b) auto

lemma steps_case_prod [steps_rules]:
  "(\<And>x y. steps R (m x y)) \<Longrightarrow> steps R (case z of (x, y) \<Rightarrow> m x y)"
  by (cases z) auto

end

subsection \<open>Invariants\<close>

definition keeps :: "('w \<Rightarrow> bool) \<Rightarrow> ('w, 'a) op \<Rightarrow> ('a \<Rightarrow> bool) \<Rightarrow> bool" where
  "keeps I m Q \<longleftrightarrow> (\<forall>w. I w \<longrightarrow> I (snd (m w)) \<and> (\<forall>x. fst (m w) = Ok x \<longrightarrow> Q x))"

lemma keepsI:
  "(\<And>w r w'. I w \<Longrightarrow> m w = (r, w') \<Longrightarrow> I w' \<and> (\<forall>x. r = Ok x \<longrightarrow> Q x)) \<Longrightarrow> keeps I m Q"
  unfolding keeps_def by (metis prod.collapse)

lemma keeps_inv: "keeps I m Q \<Longrightarrow> I w \<Longrightarrow> m w = (r, w') \<Longrightarrow> I w'"
  by (metis keeps_def snd_conv)

lemma keeps_result: "keeps I m Q \<Longrightarrow> I w \<Longrightarrow> m w = (Ok x, w') \<Longrightarrow> Q x"
  by (metis fst_conv keeps_def)

lemma keeps_weaken: "keeps I m Q \<Longrightarrow> (\<And>x. Q x \<Longrightarrow> Q' x) \<Longrightarrow> keeps I m Q'"
  by (simp add: keeps_def)

lemma keeps_ret [keeps_rules]: "Q x \<Longrightarrow> keeps I (ret x) Q"
  by (simp add: keeps_def ret_def)

lemma keeps_fail [keeps_rules]: "keeps I (fail e) Q"
  by (simp add: keeps_def fail_def)

lemma keeps_Let: "keeps I (f x) Q \<Longrightarrow> keeps I (Let x f) Q"
  by simp

lemma keeps_if: "(b \<Longrightarrow> keeps I m Q) \<Longrightarrow> (\<not> b \<Longrightarrow> keeps I n Q) \<Longrightarrow> keeps I (if b then m else n) Q"
  by simp

lemma keeps_case_option:
  "(z = None \<Longrightarrow> keeps I m Q) \<Longrightarrow> (\<And>x. z = Some x \<Longrightarrow> keeps I (k x) Q) \<Longrightarrow>
     keeps I (case z of None \<Rightarrow> m | Some x \<Rightarrow> k x) Q"
  by (cases z) auto

lemma keeps_case_sum:
  "(\<And>x. z = Inl x \<Longrightarrow> keeps I (m x) Q) \<Longrightarrow> (\<And>x. z = Inr x \<Longrightarrow> keeps I (k x) Q) \<Longrightarrow>
     keeps I (case z of Inl x \<Rightarrow> m x | Inr x \<Rightarrow> k x) Q"
  by (cases z) auto

lemma keeps_case_prod:
  "(\<And>x y. z = (x, y) \<Longrightarrow> keeps I (m x y) Q) \<Longrightarrow> keeps I (case z of (x, y) \<Rightarrow> m x y) Q"
  by (cases z) auto

lemma keeps_lift_outcome [keeps_rules]:
  "(\<And>x. r = Ok x \<Longrightarrow> Q x) \<Longrightarrow> keeps I (lift_outcome r) Q"
  by (simp add: keeps_def lift_outcome_def)

lemma keeps_gets: "(\<And>w. I w \<Longrightarrow> Q (f w)) \<Longrightarrow> keeps I (gets f) Q"
  by (simp add: keeps_def gets_def)

lemma keeps_modify: "(\<And>w. I w \<Longrightarrow> I (f w)) \<Longrightarrow> Q () \<Longrightarrow> keeps I (modify f) Q"
  by (simp add: keeps_def modify_def)

lemma keeps_bindE:
  assumes "keeps I m P" and "\<And>x. P x \<Longrightarrow> keeps I (k x) Q"
  shows "keeps I (bindE m k) Q"
proof (rule keepsI)
  fix w r w' assume "I w" and run: "bindE m k w = (r, w')"
  obtain r1 w1 where m: "m w = (r1, w1)" by (cases "m w")
  have "I w1" by (rule keeps_inv [OF assms(1) \<open>I w\<close> m])
  show "I w' \<and> (\<forall>x. r = Ok x \<longrightarrow> Q x)"
  proof (cases r1)
    case (Ok y)
    then have "P y" using keeps_result [OF assms(1) \<open>I w\<close>] m by simp
    then have "keeps I (k y) Q" by (rule assms(2))
    with \<open>I w1\<close> run m Ok show ?thesis
      by (auto simp: bindE_def dest: keeps_inv keeps_result)
  qed (use run m \<open>I w1\<close> in \<open>auto simp: bindE_def\<close>)
qed

lemma keeps_attempt:
  assumes "keeps I m P" and "\<And>e. Q (Inl e)" and "\<And>x. P x \<Longrightarrow> Q (Inr x)"
  shows "keeps I (attempt m) Q"
proof (rule keepsI)
  fix w r w' assume "I w" and run: "attempt m w = (r, w')"
  obtain r1 w1 where m: "m w = (r1, w1)" by (cases "m w")
  have "I w1" by (rule keeps_inv [OF assms(1) \<open>I w\<close> m])
  then show "I w' \<and> (\<forall>x. r = Ok x \<longrightarrow> Q x)"
    using run m assms(2,3) keeps_result [OF assms(1) \<open>I w\<close>]
    by (cases r1) (auto simp: attempt_def)
qed

lemma keeps_map_err:
  assumes "keeps I m Q" shows "keeps I (map_err f m) Q"
proof (rule keepsI)
  fix w r w' assume "I w" and run: "map_err f m w = (r, w')"
  obtain r1 w1 where m: "m w = (r1, w1)" by (cases "m w")
  show "I w' \<and> (\<forall>x. r = Ok x \<longrightarrow> Q x)"
    using run m keeps_inv [OF assms \<open>I w\<close> m] keeps_result [OF assms \<open>I w\<close>]
    by (cases r1) (auto simp: map_err_def)
qed

lemma keeps_best_effort: "keeps I m P \<Longrightarrow> keeps I (best_effort m) (\<lambda>_. True)"
  unfolding best_effort_def
  by (rule keeps_bindE [where P = "\<lambda>_. True"]) (auto intro: keeps_attempt keeps_ret)

lemma keeps_when_op: "(b \<Longrightarrow> keeps I m Q) \<Longrightarrow> (\<not> b \<Longrightarrow> Q ()) \<Longrightarrow> keeps I (when_op b m) Q"
  by (simp add: when_op_def keeps_ret)

lemma keeps_deferred: "keeps I m Q \<Longrightarrow> (\<And>w. I w \<Longrightarrow> I (f w)) \<Longrightarrow> keeps I (deferred f m) Q"
  by (simp add: keeps_def deferred_def)

lemma keeps_fold_op:
  assumes "P s" and "\<And>x s. x \<in> set xs \<Longrightarrow> P s \<Longrightarrow> keeps I (f x s) P"
  shows "keeps I (fold_op f xs s) P"
  using assms
proof (induction xs arbitrary: s)
  case Nil
  then show ?case by (simp add: keeps_ret)
next
  case (Cons x xs)
  show ?case unfolding fold_op.simps
    by (rule keeps_bindE [where P = P]) (use Cons in auto)
qed

lemma keeps_for_each:
  "(\<And>x. x \<in> set xs \<Longrightarrow> keeps I (f x) (\<lambda>_. True)) \<Longrightarrow> keeps I (for_each f xs) (\<lambda>_. True)"
  unfolding for_each_def by (rule keeps_fold_op) auto

subsection \<open>Taking a run apart\<close>

lemma bindE_OkE:
  assumes "bindE m k w = (Ok y, w')"
  obtains x w1 where "m w = (Ok x, w1)" "k x w1 = (Ok y, w')"
  using assms by (auto simp: bindE_def split: prod.splits outcome.splits)

lemma bindE_ErrE:
  assumes "bindE m k w = (Err e, w')"
  obtains "m w = (Err e, w')" | x w1 where "m w = (Ok x, w1)" "k x w1 = (Err e, w')"
  using assms by (auto simp: bindE_def split: prod.splits outcome.splits)

lemma attempt_Ok: "attempt m w = (Ok r, w') \<Longrightarrow>
    (\<exists>x. r = Inr x \<and> m w = (Ok x, w')) \<or> (\<exists>e. r = Inl e \<and> m w = (Err e, w'))"
  by (auto simp: attempt_def split: prod.splits outcome.splits)

lemma map_err_OkD: "map_err f m w = (Ok x, w') \<Longrightarrow> m w = (Ok x, w')"
  by (auto simp: map_err_def split: prod.splits outcome.splits)

lemma deferred_split: "deferred f m w = (r, w') \<Longrightarrow> \<exists>w1. m w = (r, w1) \<and> w' = f w1"
  by (auto simp: deferred_def prod_eq_iff)

subsection \<open>Operations without errors\<close>

text \<open>An operation that returns no error can only end with a value or panic.\<close>

definition total :: "('w, 'a) op \<Rightarrow> bool" where
  "total m \<longleftrightarrow> (\<forall>w e w'. m w \<noteq> (Err e, w'))"

lemma totalD: "total m \<Longrightarrow> m w = (Err e, w') \<Longrightarrow> P"
  by (simp add: total_def)

lemma total_ret [total_rules]: "total (ret x)"
  by (simp add: total_def ret_def)

lemma total_gets [total_rules]: "total (gets f)"
  by (simp add: total_def gets_def)

lemma total_modify [total_rules]: "total (modify f)"
  by (simp add: total_def modify_def)

lemma total_bindE [total_rules]: "total m \<Longrightarrow> (\<And>x. total (k x)) \<Longrightarrow> total (bindE m k)"
  unfolding total_def by (metis bindE_ErrE)

lemma total_attempt [total_rules]: "total (attempt m)"
  by (auto simp: total_def attempt_def split: prod.split outcome.split)

lemma total_best_effort [total_rules]: "total (best_effort m)"
  unfolding best_effort_def by (intro total_rules)

lemma total_when_op [total_rules]: "total m \<Longrightarrow> total (when_op b m)"
  by (simp add: when_op_def total_ret)

lemma total_if [total_rules]: "total m \<Longrightarrow> total n \<Longrightarrow> total (if b then m else n)"
  by simp

lemma total_Let [total_rules]: "total (f x) \<Longrightarrow> total (Let x f)"
  by simp

lemma total_case_option [total_rules]:
  "total m \<Longrightarrow> (\<And>x. total (k x)) \<Longrightarrow> total (case z of None \<Rightarrow> m | Some x \<Rightarrow> k x)"
  by (cases z) auto

lemma total_case_sum [total_rules]:
  "(\<And>x. total (m x)) \<Longrightarrow> (\<And>x. total (k x)) \<Longrightarrow> total (case z of Inl x \<Rightarrow> m x | Inr x \<Rightarrow> k x)"
  by (cases z) auto

lemma total_case_prod [total_rules]:
  "(\<And>x y. total (m x y)) \<Longrightarrow> total (case z of (x, y) \<Rightarrow> m x y)"
  by (cases z) auto

lemma total_fold_op [total_rules]: "(\<And>x s. total (f x s)) \<Longrightarrow> total (fold_op f xs s)"
  by (induction xs arbitrary: s) (simp_all add: total_ret total_bindE)

lemma total_for_each [total_rules]: "(\<And>x. total (f x)) \<Longrightarrow> total (for_each f xs)"
  by (simp add: for_each_def total_fold_op)

end
