(* ===== verification/Go_Strings.thy ===== *)
theory Go_Strings
  imports Prelude "HOL-Library.Char_ord"
begin

text \<open>
  The parts of Go's \<open>strings\<close> and \<open>strconv\<close> packages the program uses.  A Go string is a sequence
  of bytes, here a list of characters.  White space is \<open>unicode.IsSpace\<close> on UTF-8 text: the
  encodings of all white space runes are listed in \<open>go_spaces\<close>.  Case mapping covers every rune
  whose upper case is an ASCII letter (the ASCII letters, the dotless i and the long s); other
  runes are left alone, which no comparison with an ASCII word can observe.

  The lemmas are the round trips the recurrence rewriting and the query builder rest on: trimming
  twice is trimming once, splitting and joining, printing and reading numbers, and undoing the
  escaping of a pattern.
\<close>

subsection \<open>White space\<close>

definition go_spaces :: "string list" where
  "go_spaces =
     map (map char_of)
      ([[9], [10], [11], [12], [13], [32], [194, 133], [194, 160], [225, 154, 128]]
       @ map (\<lambda>b. [226, 128, b]) ([128..<139] @ [168, 169, 175])
       @ [[226, 129, 159], [227, 128, 128 :: nat]])"

definition first_prefix :: "string list \<Rightarrow> string \<Rightarrow> string option" where
  "first_prefix ws s = find (\<lambda>w. w \<noteq> [] \<and> prefix w s) ws"

lemma first_prefix_Some:
  "first_prefix ws s = Some w \<Longrightarrow> w \<in> set ws \<and> w \<noteq> [] \<and> prefix w s"
  by (auto simp: first_prefix_def find_Some_iff)

lemma first_prefix_None: "first_prefix ws s = None \<longleftrightarrow> (\<forall>w \<in> set ws. w \<noteq> [] \<longrightarrow> \<not> prefix w s)"
  by (auto simp: first_prefix_def find_None_iff)

function strip_with :: "string list \<Rightarrow> string \<Rightarrow> string" where
  "strip_with ws s = (case first_prefix ws s of
      None \<Rightarrow> s
    | Some w \<Rightarrow> strip_with ws (drop (length w) s))"
  by pat_completeness auto
termination
  by (relation "measure (\<lambda>(ws, s). length s)")
     (auto dest!: first_prefix_Some simp: prefix_def)

declare strip_with.simps [simp del]

text \<open>\<open>strings.TrimSpace\<close>: leading white space, then trailing white space (seen from the end).\<close>

definition trim_space :: "string \<Rightarrow> string" where
  "trim_space s = rev (strip_with (map rev go_spaces) (rev (strip_with go_spaces s)))"

lemma strip_with_none: "first_prefix ws s = None \<Longrightarrow> strip_with ws s = s"
  by (simp add: strip_with.simps [of ws s])

lemma strip_with_done: "first_prefix ws (strip_with ws s) = None"
proof (induction ws s rule: strip_with.induct)
  case (1 ws s)
  then show ?case
    by (cases "first_prefix ws s") (simp_all add: strip_with.simps [of ws s])
qed

lemma strip_with_suffix: "suffix (strip_with ws s) s"
proof (induction ws s rule: strip_with.induct)
  case (1 ws s)
  show ?case
  proof (cases "first_prefix ws s")
    case None
    then show ?thesis by (simp add: strip_with_none)
  next
    case (Some w)
    then have "suffix (strip_with ws (drop (length w) s)) (drop (length w) s)"
      by (rule "1.IH")
    then have "suffix (strip_with ws (drop (length w) s)) s"
      by (rule suffix_order.trans) (simp add: suffix_drop)
    with Some show ?thesis by (simp add: strip_with.simps [of ws s])
  qed
qed

lemma trim_space_prefix: "prefix (trim_space s) (strip_with go_spaces s)"
  using strip_with_suffix [of "map rev go_spaces" "rev (strip_with go_spaces s)"]
  by (metis suffix_to_prefix rev_rev_ident trim_space_def)

lemma first_prefix_trim_space: "first_prefix go_spaces (trim_space s) = None"
  using strip_with_done [of go_spaces s] trim_space_prefix [of s]
  unfolding first_prefix_None by (meson prefix_order.trans)

lemma trim_space_idem [simp]: "trim_space (trim_space s) = trim_space s"
proof -
  have "first_prefix (map rev go_spaces) (rev (trim_space s)) = None"
    by (simp add: trim_space_def strip_with_done)
  then show ?thesis
    by (subst trim_space_def) (simp add: strip_with_none first_prefix_trim_space)
qed

lemma trim_space_Nil [simp]: "trim_space [] = []"
  by (simp add: trim_space_def strip_with_none first_prefix_None)

text \<open>\<open>strings.Fields\<close>: the maximal runs of bytes between white space.\<close>

function split_fields_from :: "string \<Rightarrow> string \<Rightarrow> string list" where
  "split_fields_from cur s =
     (case s of
        [] \<Rightarrow> (if cur = [] then [] else [rev cur])
      | c # cs \<Rightarrow>
         (case first_prefix go_spaces s of
            None \<Rightarrow> split_fields_from (c # cur) cs
          | Some w \<Rightarrow> (if cur = [] then [] else [rev cur]) @ split_fields_from [] (drop (length w) s)))"
  by pat_completeness auto
termination
  by (relation "measure (\<lambda>(cur, s). length s)")
     (auto dest!: first_prefix_Some simp: prefix_def)

declare split_fields_from.simps [simp del]

definition split_fields :: "string \<Rightarrow> string list" where
  "split_fields s = split_fields_from [] s"

subsection \<open>Splitting, joining, searching\<close>

fun split_char :: "char \<Rightarrow> string \<Rightarrow> string list" where
  "split_char c [] = [[]]"
| "split_char c (x # xs) =
     (if x = c then [] # split_char c xs
      else (case split_char c xs of [] \<Rightarrow> [[x]] | y # ys \<Rightarrow> (x # y) # ys))"

fun join :: "string \<Rightarrow> string list \<Rightarrow> string" where
  "join sep [] = []"
| "join sep [x] = x"
| "join sep (x # y # ys) = x @ sep @ join sep (y # ys)"

lemma split_char_not_Nil [simp]: "split_char c s \<noteq> []"
  by (cases s) (auto split: list.split)

lemma join_Cons: "ys \<noteq> [] \<Longrightarrow> join sep (x # ys) = x @ sep @ join sep ys"
  by (cases ys) auto

lemma join_split_char [simp]: "join [c] (split_char c s) = s"
proof (induction s)
  case (Cons x xs)
  obtain y ys where y: "split_char c xs = y # ys" by (cases "split_char c xs") auto
  show ?case
    using Cons y by (cases ys) (auto simp: join_Cons)
qed simp

lemma split_char_append:
  "c \<notin> set p \<Longrightarrow> split_char c (p @ s) = (p @ hd (split_char c s)) # tl (split_char c s)"
  by (induction p) (auto split: list.split)

lemma split_char_join:
  "ps \<noteq> [] \<Longrightarrow> \<forall>p \<in> set ps. c \<notin> set p \<Longrightarrow> split_char c (join [c] ps) = ps"
proof (induction ps)
  case (Cons p ps)
  show ?case
  proof (cases "ps = []")
    case True
    with Cons.prems split_char_append [of c p "[]"] show ?thesis by simp
  next
    case False
    with Cons show ?thesis by (simp add: join_Cons split_char_append)
  qed
qed simp

lemma split_char_free: "p \<in> set (split_char c s) \<Longrightarrow> c \<notin> set p"
proof (induction s arbitrary: p)
  case (Cons x xs)
  then show ?case by (auto split: if_splits list.splits)
qed auto

definition trim_prefix :: "string \<Rightarrow> string \<Rightarrow> string" where
  "trim_prefix p s = (if prefix p s then drop (length p) s else s)"

definition contains_sub :: "string \<Rightarrow> string \<Rightarrow> bool" where
  "contains_sub p s = list_ex (prefix p) (suffixes s)"

definition contains_any :: "string \<Rightarrow> string \<Rightarrow> bool" where
  "contains_any cs s = list_ex (\<lambda>c. c \<in> set cs) s"

text \<open>\<open>strings.Cut(s, "c")\<close>: the text before and after the first \<open>c\<close>, if there is one.\<close>

fun cut_char :: "char \<Rightarrow> string \<Rightarrow> (string \<times> string) option" where
  "cut_char c [] = None"
| "cut_char c (x # xs) =
     (if x = c then Some ([], xs)
      else map_option (\<lambda>(a, b). (x # a, b)) (cut_char c xs))"

lemma cut_char_Some: "cut_char c s = Some (a, b) \<Longrightarrow> s = a @ c # b \<and> c \<notin> set a"
  by (induction s arbitrary: a) (auto split: if_splits)

lemma cut_char_append: "c \<notin> set a \<Longrightarrow> cut_char c (a @ c # b) = Some (a, b)"
  by (induction a) auto

text \<open>\<open>strings.Trim(s, "c")\<close> for one character.\<close>

definition trim_char :: "char \<Rightarrow> string \<Rightarrow> string" where
  "trim_char c s = rev (dropWhile (\<lambda>x. x = c) (rev (dropWhile (\<lambda>x. x = c) s)))"

text \<open>The text after the last \<open>c\<close> (\<open>strings.LastIndex\<close> and a slice).\<close>

definition after_last :: "char \<Rightarrow> string \<Rightarrow> string option" where
  "after_last c s =
     (if c \<in> set s then Some (rev (takeWhile (\<lambda>x. x \<noteq> c) (rev s))) else None)"

subsection \<open>Case\<close>

definition upper_char :: "char \<Rightarrow> char" where
  "upper_char c =
     (let n = of_char c :: nat in if 97 \<le> n \<and> n \<le> 122 then char_of (n - 32) else c)"

fun to_upper :: "string \<Rightarrow> string" where
  "to_upper [] = []"
| "to_upper [c] = [upper_char c]"
| "to_upper (c # d # s) =
     (if (of_char c, of_char d) = (196 :: nat, 177 :: nat) then CHR ''I'' # to_upper s
      else if (of_char c, of_char d) = (197 :: nat, 191 :: nat) then CHR ''S'' # to_upper s
      else upper_char c # to_upper (d # s))"

text \<open>
  \<open>strings.EqualFold\<close> against a word without k and s (the only ASCII letters with a non-ASCII
  fold): the same letters up to ASCII case.
\<close>

definition equal_fold :: "string \<Rightarrow> string \<Rightarrow> bool" where
  "equal_fold s t = (map upper_char s = map upper_char t)"

subsection \<open>Numbers\<close>

definition digit :: "nat \<Rightarrow> char" where
  "digit n = char_of (48 + n)"

fun nat_text :: "nat \<Rightarrow> string" where
  "nat_text n = (if n < 10 then [digit n] else nat_text (n div 10) @ [digit (n mod 10)])"

declare nat_text.simps [simp del]

definition itoa :: "int \<Rightarrow> string" where
  "itoa n = (if n < 0 then ''-'' @ nat_text (nat (- n)) else nat_text (nat n))"

definition is_digit :: "char \<Rightarrow> bool" where
  "is_digit c \<longleftrightarrow> 48 \<le> (of_char c :: nat) \<and> (of_char c :: nat) \<le> 57"

definition digits_value :: "string \<Rightarrow> nat" where
  "digits_value s = foldl (\<lambda>v c. 10 * v + (of_char c - 48)) 0 s"

text \<open>\<open>strconv.Atoi\<close>: an optional sign, at least one digit, and a value that fits 64 bits.\<close>

definition atoi :: "string \<Rightarrow> int option" where
  "atoi s =
     (let (neg, ds) = (case s of
            c # cs \<Rightarrow> (if c = CHR ''-'' then (True, cs) else if c = CHR ''+'' then (False, cs)
                        else (False, s))
          | [] \<Rightarrow> (False, []));
          v = (if neg then - int (digits_value ds) else int (digits_value ds))
      in if ds \<noteq> [] \<and> list_all is_digit ds \<and> - (2 ^ 63) \<le> v \<and> v < 2 ^ 63 then Some v else None)"

lemma is_digit_digit [simp]: "n < 10 \<Longrightarrow> is_digit (digit n)"
  by (simp add: is_digit_def digit_def)

lemma of_char_digit [simp]: "n < 10 \<Longrightarrow> of_char (digit n) = 48 + (n :: nat)"
  by (simp add: digit_def)

lemma nat_text_not_Nil [simp]: "nat_text n \<noteq> []"
  by (subst nat_text.simps) simp

lemma nat_text_digits: "list_all is_digit (nat_text n)"
proof (induction n rule: nat_text.induct)
  case (1 n)
  then show ?case by (subst nat_text.simps) auto
qed

lemma digits_value_nat_text [simp]: "digits_value (nat_text n) = n"
proof (induction n rule: nat_text.induct)
  case (1 n)
  show ?case
  proof (cases "n < 10")
    case True
    then show ?thesis by (subst nat_text.simps) (simp add: digits_value_def)
  next
    case False
    with 1 have "digits_value (nat_text (n div 10)) = n div 10" by simp
    with False show ?thesis
      by (subst nat_text.simps) (simp add: digits_value_def)
  qed
qed

lemma not_digit_sign [simp]: "\<not> is_digit (CHR ''-'')" "\<not> is_digit (CHR ''+'')"
  by (simp_all add: is_digit_def)

lemma nat_text_no_sign: "nat_text n = c # cs \<Longrightarrow> c \<noteq> CHR ''-'' \<and> c \<noteq> CHR ''+''"
  using nat_text_digits [of n] by (metis list.pred_inject(2) not_digit_sign)

lemma atoi_itoa: "- (2 ^ 63) \<le> n \<Longrightarrow> n < 2 ^ 63 \<Longrightarrow> atoi (itoa n) = Some n"
proof (cases "n < 0")
  case True
  assume "- (2 ^ 63) \<le> n"
  with True show ?thesis by (simp add: atoi_def itoa_def nat_text_digits)
next
  case False
  assume "n < 2 ^ 63"
  obtain c cs where cs: "nat_text (nat n) = c # cs" by (cases "nat_text (nat n)") auto
  with nat_text_no_sign have "c \<noteq> CHR ''-'' \<and> c \<noteq> CHR ''+''" by blast
  with False \<open>n < 2 ^ 63\<close> cs nat_text_digits [of "nat n"] digits_value_nat_text [of "nat n"]
  show ?thesis by (simp add: atoi_def itoa_def)
qed

lemma itoa_inject: "itoa m = itoa n \<Longrightarrow> 0 \<le> m \<Longrightarrow> 0 \<le> n \<Longrightarrow> m = n"
  by (simp add: itoa_def) (metis digits_value_nat_text nat_0_le)

lemma itoa_chars: "0 \<le> n \<Longrightarrow> c \<in> set (itoa n) \<Longrightarrow> is_digit c"
  using nat_text_digits [of "nat n"] by (auto simp: itoa_def list_all_iff)

subsection \<open>White space and fields\<close>

text \<open>A field none of whose bytes occurs in the encoding of a white space rune.\<close>

definition space_byte :: "char \<Rightarrow> bool" where
  "space_byte c \<longleftrightarrow> c \<in> set (concat go_spaces)"

definition plain_field :: "string \<Rightarrow> bool" where
  "plain_field f \<longleftrightarrow> f \<noteq> [] \<and> list_all (\<lambda>c. \<not> space_byte c) f"

lemma go_spaces_not_Nil: "w \<in> set go_spaces \<Longrightarrow> w \<noteq> []"
  by (auto simp: go_spaces_def)

lemma first_prefix_plain: "\<not> space_byte c \<Longrightarrow> first_prefix go_spaces (c # s) = None"
  by (fastforce simp: first_prefix_None prefix_Cons space_byte_def)

lemma first_prefix_plain_rev:
  "\<not> space_byte c \<Longrightarrow> first_prefix (map rev go_spaces) (c # s) = None"
  by (fastforce simp: first_prefix_None prefix_Cons space_byte_def)

lemma find_skip: "find P xs = None \<Longrightarrow> find P (xs @ ys) = find P ys"
  by (induction xs) (auto split: if_splits)

lemma blank_in_go_spaces: "first_prefix go_spaces (CHR '' '' # s) = Some '' ''"
proof -
  have blank: "char_of (32 :: nat) = CHR '' ''" by code_simp
  have split: "go_spaces = map (map char_of) [[9], [10], [11], [12], [13 :: nat]] @ '' '' #
      map (map char_of) ([[194, 133], [194, 160], [225, 154, 128]]
       @ map (\<lambda>b. [226, 128, b]) ([128..<139] @ [168, 169, 175]) @ [[226, 129, 159], [227, 128, 128]])"
    (is "_ = ?A @ _ # ?B")
    by (simp only: go_spaces_def append_Cons append_Nil list.map blank)
  have "list_all (\<lambda>w. w \<noteq> [] \<and> hd w \<noteq> CHR '' '') ?A" by code_simp
  then have none: "find (\<lambda>w. w \<noteq> [] \<and> prefix w (CHR '' '' # s)) ?A = None"
    by (auto simp: find_None_iff list_all_iff prefix_Cons)
  show ?thesis unfolding first_prefix_def
    by (subst split, subst find_skip [OF none]) simp
qed

lemma split_fields_from_plain:
  "list_all (\<lambda>c. \<not> space_byte c) f \<Longrightarrow>
     split_fields_from cur (f @ s) = split_fields_from (rev f @ cur) s"
proof (induction f arbitrary: cur)
  case (Cons c f)
  then have c: "first_prefix go_spaces (c # f @ s) = None" by (intro first_prefix_plain) simp
  show ?case
    by (subst split_fields_from.simps) (use Cons c in simp)
qed simp

lemma split_fields_join: "list_all plain_field fs \<Longrightarrow> split_fields (join '' '' fs) = fs"
proof (induction fs)
  case Nil
  show ?case by (simp add: split_fields_def split_fields_from.simps)
next
  case (Cons f fs)
  then have f: "f \<noteq> []" "list_all (\<lambda>c. \<not> space_byte c) f"
    by (simp_all add: plain_field_def)
  show ?case
  proof (cases "fs = []")
    case True
    then show ?thesis
      using f split_fields_from_plain [OF f(2), of "[]" "[]"]
      by (simp add: split_fields_def split_fields_from.simps [of "rev f"])
  next
    case False
    have "split_fields (join '' '' (f # fs)) = split_fields_from (rev f) ('' '' @ join '' '' fs)"
      using split_fields_from_plain [OF f(2), of "[]"] False by (simp add: split_fields_def join_Cons)
    also have "\<dots> = f # split_fields (join '' '' fs)"
      using f(1) by (subst split_fields_from.simps) (simp add: blank_in_go_spaces split_fields_def)
    finally show ?thesis using Cons by simp
  qed
qed

lemma join_hd_last:
  "list_all plain_field fs \<Longrightarrow> fs \<noteq> [] \<Longrightarrow>
     (\<exists>c s. join '' '' fs = c # s \<and> \<not> space_byte c) \<and>
     (\<exists>c s. rev (join '' '' fs) = c # s \<and> \<not> space_byte c)"
proof (induction fs)
  case (Cons f fs)
  then have f: "f \<noteq> []" "\<forall>c \<in> set f. \<not> space_byte c"
    by (simp_all add: plain_field_def list_all_iff)
  obtain c s where c: "f = c # s" using f(1) by (cases f) auto
  obtain d t where d: "rev f = d # t" using f(1) by (cases "rev f") auto
  then have "d \<in> set f" by (metis list.set_intros(1) set_rev)
  have cd: "\<not> space_byte c" "\<not> space_byte d"
    using c f(2) \<open>d \<in> set f\<close> by auto
  show ?case
  proof (cases "fs = []")
    case True
    with c d cd show ?thesis by simp
  next
    case False
    then obtain e u where e: "rev (join '' '' fs) = e # u" "\<not> space_byte e"
      using Cons.IH Cons.prems(1) by (metis list.pred_inject(2))
    have "join '' '' (f # fs) = f @ '' '' @ join '' '' fs" using False by (simp add: join_Cons)
    then show ?thesis using c e cd by simp
  qed
qed simp

lemma trim_space_join:
  assumes "list_all plain_field fs" "fs \<noteq> []"
  shows "trim_space (join '' '' fs) = join '' '' fs"
proof -
  from join_hd_last [OF assms] obtain c s d t where
    "join '' '' fs = c # s" "first_prefix go_spaces (c # s) = None"
    "rev (join '' '' fs) = d # t" "first_prefix (map rev go_spaces) (d # t) = None"
    using first_prefix_plain first_prefix_plain_rev by metis
  then show ?thesis by (metis rev_rev_ident strip_with_none trim_space_def)
qed

lemma space_byte_range:
  assumes "space_byte c" shows "of_char c \<le> (32 :: nat) \<or> 128 \<le> (of_char c :: nat)"
proof -
  have "\<forall>w \<in> set go_spaces. \<forall>c \<in> set w. of_char c \<le> (32 :: nat) \<or> 128 \<le> (of_char c :: nat)"
    by (auto simp: go_spaces_def)
  with assms show ?thesis by (auto simp: space_byte_def)
qed

lemma sign_plain [simp]: "\<not> space_byte (CHR ''+'')" "\<not> space_byte (CHR ''-'')" "\<not> space_byte (CHR ''*'')"
  by (auto dest: space_byte_range)

lemma is_digit_plain: "is_digit c \<Longrightarrow> \<not> space_byte c"
  by (auto simp: is_digit_def dest: space_byte_range)

lemma plain_digits: "list_all is_digit f \<Longrightarrow> f \<noteq> [] \<Longrightarrow> plain_field f"
  by (simp add: plain_field_def list_all_iff is_digit_plain)

lemma plain_itoa [simp]: "0 \<le> n \<Longrightarrow> plain_field (itoa n)"
  by (rule plain_digits) (auto simp: itoa_def nat_text_digits)

lemma plain_star [simp]: "plain_field ''*''"
  by (simp add: plain_field_def)

lemma plain_atoi: "atoi s = Some n \<Longrightarrow> plain_field s"
proof -
  assume a: "atoi s = Some n"
  have "s \<noteq> []" using a by (auto simp: atoi_def)
  moreover have "\<forall>c \<in> set s. is_digit c \<or> c = CHR ''+'' \<or> c = CHR ''-''"
    using a by (cases s) (auto simp: atoi_def Let_def list_all_iff split: if_splits)
  ultimately show ?thesis
    using is_digit_plain sign_plain unfolding plain_field_def list_all_iff by blast
qed

end
