(* ===== verification/Go_Time.thy ===== *)
theory Go_Time
  imports Prelude "HOL-Library.Word"
begin

text \<open>
  Go's \<open>time\<close> package as far as the program uses it.  An instant is the number of nanoseconds since
  0001-01-01T00:00:00 UTC, Go's zero time, so \<open>IsZero\<close> is equality with 0 and \<open>Before\<close>, \<open>After\<close> and
  \<open>Equal\<close> are the order of the integers.  The program works in UTC throughout (it calls \<open>UTC()\<close> on
  what it computes, and the timestamp columns have no zone), so an instant has no location here.
  Year, month, day and weekday are those of the proleptic Gregorian calendar.

  A \<open>time.Duration\<close> is a 64-bit count of nanoseconds and wraps around; \<open>duration_of\<close> reads the
  wrapped value.

  The lemmas: every instant lies in the year \<open>Year\<close> names, and building a date from the year, month
  and day of an instant gives the midnight of its day.
\<close>

type_synonym time = int

definition second_ns :: int where "second_ns = 1000000000"
definition minute_ns :: int where "minute_ns = 60 * second_ns"
definition hour_ns :: int where "hour_ns = 60 * minute_ns"
definition day_ns :: int where "day_ns = 24 * hour_ns"

lemmas time_units = second_ns_def minute_ns_def hour_ns_def day_ns_def

definition IsZero :: "time \<Rightarrow> bool" where "IsZero t \<longleftrightarrow> t = 0"

definition Clock_Hour :: "time \<Rightarrow> int" where "Clock_Hour t = (t mod day_ns) div hour_ns"
definition Clock_Minute :: "time \<Rightarrow> int" where "Clock_Minute t = (t mod hour_ns) div minute_ns"
definition Clock_Second :: "time \<Rightarrow> int" where "Clock_Second t = (t mod minute_ns) div second_ns"

definition day_number :: "time \<Rightarrow> int" where "day_number t = t div day_ns"

text \<open>\<open>time.Weekday\<close>, Sunday = 0; the first day of the year 1 is a Monday.\<close>

definition Weekday :: "time \<Rightarrow> int" where "Weekday t = (day_number t + 1) mod 7"

subsection \<open>The calendar\<close>

definition days_before_year :: "int \<Rightarrow> int" where
  "days_before_year y = 365 * (y - 1) + (y - 1) div 4 - (y - 1) div 100 + (y - 1) div 400"

definition is_leap :: "int \<Rightarrow> bool" where
  "is_leap y \<longleftrightarrow> 4 dvd y \<and> (\<not> 100 dvd y \<or> 400 dvd y)"

definition month_lengths :: "bool \<Rightarrow> int list" where
  "month_lengths leap = [31, if leap then 29 else 28, 31, 30, 31, 30, 31, 31, 30, 31, 30, 31]"

text \<open>The year that holds a day: an estimate that is off by at most one, corrected.\<close>

definition year_of_day :: "int \<Rightarrow> int" where
  "year_of_day n =
     (let y = (400 * n) div 146097 + 1
      in if n < days_before_year y then y - 1
         else if days_before_year (y + 1) \<le> n then y + 1 else y)"

fun month_day :: "int list \<Rightarrow> int \<Rightarrow> int \<Rightarrow> int \<times> int" where
  "month_day [] m r = (m, r + 1)"
| "month_day (l # ls) m r = (if r < l then (m, r + 1) else month_day ls (m + 1) (r - l))"

definition Year :: "time \<Rightarrow> int" where "Year t = year_of_day (day_number t)"

definition month_and_day :: "time \<Rightarrow> int \<times> int" where
  "month_and_day t =
     (let y = Year t in month_day (month_lengths (is_leap y)) 1 (day_number t - days_before_year y))"

definition Month :: "time \<Rightarrow> int" where "Month t = fst (month_and_day t)"
definition Day :: "time \<Rightarrow> int" where "Day t = snd (month_and_day t)"

text \<open>\<open>time.Date(y, m, d, h, mi, s, 0, time.UTC)\<close> for a month in range.\<close>

definition Date :: "int \<Rightarrow> int \<Rightarrow> int \<Rightarrow> int \<Rightarrow> int \<Rightarrow> int \<Rightarrow> time" where
  "Date y m d h mi s =
     (days_before_year y + sum_list (take (nat (m - 1)) (month_lengths (is_leap y))) + (d - 1)) * day_ns
       + h * hour_ns + mi * minute_ns + s * second_ns"

lemma div_succ:
  assumes "(0::int) < k"
  shows "(y + 1) div k = y div k + (if k dvd y + 1 then 1 else 0)"
proof -
  have y: "y = k * (y div k) + y mod k" by simp
  have r: "0 \<le> y mod k" "y mod k < k" using assms by simp_all
  show ?thesis
  proof (cases "y mod k = k - 1")
    case True
    with y have e: "y + 1 = k * (y div k + 1)" by (simp add: algebra_simps)
    then have "k dvd y + 1" by (metis dvd_triv_left)
    moreover have "(y + 1) div k = y div k + 1" using assms e by (metis nonzero_mult_div_cancel_left less_irrefl)
    ultimately show ?thesis by simp
  next
    case False
    then have "y mod k + 1 < k" using r by simp
    then have d: "(y + 1) div k = y div k" and m: "(y + 1) mod k = y mod k + 1"
      using y r by (auto intro!: int_div_pos_eq [where r = "y mod k + 1"] int_mod_pos_eq [where q = "y div k"])
    then have "\<not> k dvd y + 1" using r by (auto simp: dvd_eq_mod_eq_0)
    with d show ?thesis by simp
  qed
qed

lemma leap_dvd: "400 dvd (y::int) \<Longrightarrow> 100 dvd y \<and> 4 dvd y" "100 dvd (y::int) \<Longrightarrow> 4 dvd y"
  by (auto intro: dvd_trans [of 100 400] dvd_trans [of 4 400] dvd_trans [of 4 100])

lemma year_length: "days_before_year (y + 1) = days_before_year y + (if is_leap y then 366 else 365)"
proof -
  have step: "y div k = (y - 1) div k + (if k dvd y then 1 else 0)" if "0 < k" for k
    using div_succ [OF that, of "y - 1"] by (simp only: diff_add_cancel)
  have "days_before_year (y + 1) = 365 * y + y div 4 - y div 100 + y div 400"
    by (simp add: days_before_year_def)
  also have "\<dots> = days_before_year y + 365 + (if 4 dvd y then 1 else 0) - (if 100 dvd y then 1 else 0)
      + (if 400 dvd y then 1 else 0)"
    unfolding days_before_year_def step [of 4, OF zero_less_numeral]
      step [of 100, OF zero_less_numeral] step [of 400, OF zero_less_numeral] by (simp only: algebra_simps)
  also have "\<dots> = days_before_year y + (if is_leap y then 366 else 365)"
    using leap_dvd [of y] unfolding is_leap_def by (cases "4 dvd y"; cases "100 dvd y"; cases "400 dvd y") simp_all
  finally show ?thesis .
qed

lemma div_bounds: "(0::int) < k \<Longrightarrow> k * (a div k) \<le> a \<and> a < k * (a div k) + k"
  by (metis add.commute add_strict_right_mono mult_div_mod_eq pos_mod_bound pos_mod_sign
      add_le_same_cancel1 le_add_same_cancel1 order_refl)

lemma year_estimate:
  fixes n :: int
  defines "e \<equiv> (400 * n) div 146097"
  shows "days_before_year e \<le> n" and "n < days_before_year (e + 3)"
proof -
  have e: "146097 * e \<le> 400 * n" "400 * n < 146097 * e + 146097"
    using div_bounds [of 146097 "400 * n"] by (auto simp: e_def)
  have q: "k * (a div k) \<le> a \<and> a < k * (a div k) + k" if "k \<in> {4, 100, 400}" for k a :: int
    using that by (intro div_bounds) auto
  show "days_before_year e \<le> n"
    using e q [of 4 "e - 1"] q [of 100 "e - 1"] q [of 400 "e - 1"]
    unfolding days_before_year_def by simp
  show "n < days_before_year (e + 3)"
    using e q [of 4 "e + 2"] q [of 100 "e + 2"] q [of 400 "e + 2"]
    unfolding days_before_year_def by simp
qed

lemma year_of_day_bounds:
  "days_before_year (year_of_day n) \<le> n" "n < days_before_year (year_of_day n + 1)"
  using year_estimate [of n] by (auto simp: year_of_day_def Let_def algebra_simps)

lemma sum_month_lengths: "sum_list (month_lengths leap) = (if leap then 366 else 365)"
  by (simp add: month_lengths_def)

lemma month_day_sound:
  "0 \<le> r \<Longrightarrow> r < sum_list ls \<Longrightarrow> month_day ls m r = (m', d) \<Longrightarrow>
     m \<le> m' \<and> m' < m + int (length ls) \<and> 1 \<le> d \<and> d \<le> ls ! nat (m' - m) \<and>
     r = sum_list (take (nat (m' - m)) ls) + (d - 1)"
proof (induction ls m r rule: month_day.induct)
  case (2 l ls m r)
  show ?case
  proof (cases "r < l")
    case True
    with 2 show ?thesis by auto
  next
    case False
    with 2 have IH: "m + 1 \<le> m'" "m' < m + 1 + int (length ls)" "1 \<le> d"
      "d \<le> ls ! nat (m' - (m + 1))" "r - l = sum_list (take (nat (m' - (m + 1))) ls) + (d - 1)"
      by auto
    have "nat (m' - m) = Suc (nat (m' - (m + 1)))" using IH(1) by simp
    with IH show ?thesis by simp
  qed
qed simp

lemma month_and_day_sound:
  assumes "month_and_day t = (m, d)"
  shows "1 \<le> m" "m \<le> 12" "1 \<le> d" "d \<le> 31"
    "days_before_year (Year t) + sum_list (take (nat (m - 1)) (month_lengths (is_leap (Year t)))) + (d - 1)
       = day_number t"
proof -
  let ?y = "Year t" and ?r = "day_number t - days_before_year (Year t)"
  have r: "0 \<le> ?r" "?r < sum_list (month_lengths (is_leap ?y))"
    using year_of_day_bounds [of "day_number t"] year_length [of ?y]
    by (auto simp: Year_def sum_month_lengths split: if_splits)
  note s = month_day_sound [OF r assms [unfolded month_and_day_def Let_def]]
  then show "1 \<le> m" "1 \<le> d" by auto
  from s show m12: "m \<le> 12" by (simp add: month_lengths_def)
  have "\<forall>l \<in> set (month_lengths b). l \<le> 31" for b by (simp add: month_lengths_def)
  moreover have "month_lengths (is_leap ?y) ! nat (m - 1) \<in> set (month_lengths (is_leap ?y))"
    using s m12 by (intro nth_mem) (auto simp: month_lengths_def)
  ultimately have "month_lengths (is_leap ?y) ! nat (m - 1) \<le> 31" by blast
  with s show "d \<le> 31" by linarith
  from s show "days_before_year ?y + sum_list (take (nat (m - 1)) (month_lengths (is_leap ?y))) + (d - 1)
       = day_number t" by simp
qed

lemma Month_Day_range: "1 \<le> Month t" "Month t \<le> 12" "1 \<le> Day t" "Day t \<le> 31"
  using month_and_day_sound [of t] by (auto simp: Month_def Day_def prod_eq_iff)

lemma Weekday_range: "0 \<le> Weekday t" "Weekday t < 7"
  by (simp_all add: Weekday_def)

text \<open>The calendar day of an instant, taken apart and put together again.\<close>

lemma Date_of_instant:
  "Date (Year t) (Month t) (Day t) h mi s =
     day_number t * day_ns + h * hour_ns + mi * minute_ns + s * second_ns"
  using month_and_day_sound(5) [of t "Month t" "Day t"]
  by (simp add: Date_def Month_def Day_def)

lemma digit_split:
  assumes "(0::int) \<le> r" "r < m"
  shows "(q * m + r) div m = q" "(q * m + r) mod m = r"
  using assms by (auto intro: int_div_pos_eq int_mod_pos_eq)

lemma digit_range:
  assumes "(0::int) < k" "0 < u"
  shows "0 \<le> (t mod (k * u)) div u" "(t mod (k * u)) div u < k"
proof -
  let ?x = "t mod (k * u)"
  have x: "0 \<le> ?x" "?x < k * u" using assms by simp_all
  show "0 \<le> ?x div u" using x assms by (simp only: pos_imp_zdiv_nonneg_iff)
  have "u * (?x div u) \<le> ?x" using div_bounds [OF assms(2)] by blast
  also have "\<dots> < u * k" using x by (simp only: mult.commute)
  finally show "?x div u < k" using assms(2) by (simp only: mult_less_cancel_left_pos)
qed

lemma units_pos [simp]: "0 < second_ns" "0 < minute_ns" "0 < hour_ns" "0 < day_ns"
  by (simp_all add: time_units)

lemma clock_range:
  "0 \<le> Clock_Hour t" "Clock_Hour t < 24" "0 \<le> Clock_Minute t" "Clock_Minute t < 60"
  "0 \<le> Clock_Second t" "Clock_Second t < 60"
  using digit_range [of 24 hour_ns t, folded day_ns_def]
    digit_range [of 60 minute_ns t, folded hour_ns_def]
    digit_range [of 60 second_ns t, folded minute_ns_def]
  unfolding Clock_Hour_def Clock_Minute_def Clock_Second_def by auto

text \<open>An instant put together from a day and a clock has that day and that clock.\<close>

lemma day_and_clock:
  assumes "0 \<le> h" "h < 24" "0 \<le> mi" "mi < 60" "0 \<le> s" "s < 60"
    and t: "t = n * day_ns + h * hour_ns + mi * minute_ns + s * second_ns"
  shows "day_number t = n" "Clock_Hour t = h" "Clock_Minute t = mi" "Clock_Second t = s"
proof -
  let ?s = "s * second_ns" and ?m = "mi * minute_ns + s * second_ns"
  let ?h = "h * hour_ns + ?m"
  have s: "0 \<le> ?s" "?s < minute_ns" and m: "0 \<le> ?m" "?m < hour_ns" and h: "0 \<le> ?h" "?h < day_ns"
    using assms(1-6) by (simp_all add: time_units)
  have t1: "t = n * day_ns + ?h" using t by simp
  have t2: "t = (24 * n + h) * hour_ns + ?m" using t by (simp add: time_units)
  have t3: "t = (60 * (24 * n + h) + mi) * minute_ns + ?s" using t by (simp add: time_units)
  show "day_number t = n" using digit_split [OF h] by (simp add: day_number_def t1)
  show "Clock_Hour t = h"
    unfolding Clock_Hour_def t1 digit_split(2) [OF h] by (rule digit_split(1) [OF m])
  show "Clock_Minute t = mi"
    unfolding Clock_Minute_def t2 digit_split(2) [OF m] by (rule digit_split(1) [OF s])
  show "Clock_Second t = s"
    unfolding Clock_Second_def t3 digit_split(2) [OF s] by (simp add: second_ns_def)
qed

lemma same_day_date: "day_number t = day_number u \<Longrightarrow> Year t = Year u \<and> Month t = Month u \<and> Day t = Day u \<and> Weekday t = Weekday u"
  by (simp add: Year_def Month_def Day_def month_and_day_def Weekday_def)

subsection \<open>Durations\<close>

text \<open>\<open>time.Duration(n) * unit\<close> in 64 bits.\<close>

definition duration_of :: "int \<Rightarrow> int \<Rightarrow> int" where
  "duration_of n unit = sint (word_of_int n * word_of_int unit :: 64 word)"

lemma duration_of_exact:
  assumes "- (2 ^ 63) \<le> n * unit" and "n * unit < 2 ^ 63"
  shows "duration_of n unit = n * unit"
proof -
  have "duration_of n unit = signed_take_bit 63 (n * unit)"
    unfolding duration_of_def wi_hom_mult sint_sbintrunc' by simp
  also have "\<dots> = n * unit"
    using assms by (intro signed_take_bit_int_eq_self) simp_all
  finally show ?thesis .
qed

end
