(* ===== verification/Models.thy ===== *)
theory Models
  imports Go_Strings Go_Time
begin

text \<open>
  The domain model of \<open>internal/models\<close>: tasks, update requests, history entries, users, messengers
  and calendar links, field by field.  A pointer is an option; an \<open>int64\<close> key is an \<open>int\<close>.  The
  status of a task is a string in the program and is one here, with the six valid values.
\<close>

subsection \<open>Task status\<close>

definition TaskStatusPending :: string where "TaskStatusPending = ''pending''"
definition TaskStatusScheduled :: string where "TaskStatusScheduled = ''scheduled''"
definition TaskStatusDone :: string where "TaskStatusDone = ''done''"
definition TaskStatusRescheduled :: string where "TaskStatusRescheduled = ''rescheduled''"
definition TaskStatusPostponed :: string where "TaskStatusPostponed = ''postponed''"
definition TaskStatusDeleted :: string where "TaskStatusDeleted = ''deleted''"

lemmas status_defs = TaskStatusPending_def TaskStatusScheduled_def TaskStatusDone_def
  TaskStatusRescheduled_def TaskStatusPostponed_def TaskStatusDeleted_def

definition ValidTaskStatuses :: "string list" where
  "ValidTaskStatuses =
     [TaskStatusPending, TaskStatusScheduled, TaskStatusDone, TaskStatusRescheduled,
      TaskStatusPostponed, TaskStatusDeleted]"

text \<open>\<open>IsValid\<close> walks the list of valid statuses and stops at the first that is equal.\<close>

fun status_in :: "string \<Rightarrow> string list \<Rightarrow> bool" where
  "status_in s [] = False"
| "status_in s (v # vs) = (if s = v then True else status_in s vs)"

definition IsValid :: "string \<Rightarrow> bool" where
  "IsValid s = status_in s ValidTaskStatuses"

text \<open>\<open>None\<close> is the nil error.\<close>

definition ValidateTaskStatus :: "string \<Rightarrow> err option" where
  "ValidateTaskStatus status =
     (if \<not> IsValid status
      then Some (ErrOther (''invalid task status: '' @ status @ ''. Valid statuses are: [''
                           @ join '' '' ValidTaskStatuses @ '']''))
      else None)"

lemma status_in_iff [simp]: "status_in s vs \<longleftrightarrow> s \<in> set vs"
  by (induction vs) auto

lemma IsValid_iff: "IsValid s \<longleftrightarrow> s \<in> set ValidTaskStatuses"
  by (simp add: IsValid_def)

lemma IsValid_constants [simp]:
  "IsValid TaskStatusPending" "IsValid TaskStatusScheduled" "IsValid TaskStatusDone"
  "IsValid TaskStatusRescheduled" "IsValid TaskStatusPostponed" "IsValid TaskStatusDeleted"
  by (simp_all add: IsValid_iff ValidTaskStatuses_def)

lemma ValidateTaskStatus_None: "ValidateTaskStatus s = None \<longleftrightarrow> IsValid s"
  by (simp add: ValidateTaskStatus_def)

lemma status_distinct [simp]:
  "TaskStatusDone \<noteq> TaskStatusPending" "TaskStatusDone \<noteq> TaskStatusScheduled"
  "TaskStatusDone \<noteq> TaskStatusRescheduled" "TaskStatusDone \<noteq> TaskStatusPostponed"
  "TaskStatusDone \<noteq> TaskStatusDeleted" "TaskStatusDeleted \<noteq> TaskStatusPending"
  "TaskStatusDeleted \<noteq> TaskStatusScheduled" "TaskStatusDeleted \<noteq> TaskStatusRescheduled"
  "TaskStatusDeleted \<noteq> TaskStatusDone" "TaskStatusPending \<noteq> TaskStatusDone"
  "TaskStatusScheduled \<noteq> TaskStatusDone" "TaskStatusRescheduled \<noteq> TaskStatusDone"
  by (simp_all add: status_defs)

subsection \<open>Tasks\<close>

record task =
  ID :: int
  Title :: string
  Description :: string
  UserID :: int
  MessengerRelatedUserID :: "int option"
  ParentID :: "int option"
  GroupID :: "int option"
  StartDate :: time
  FinishDate :: "time option"
  CronExpression :: "string option"
  RRule :: "string option"
  RequiresConfirmation :: bool
  Muted :: bool
  ShiftFromCompletion :: bool
  SkipDigest :: bool
  PreRemindBeforeSeconds :: "int option"
  Status :: string
  CreatedAt :: time
  DeletedAt :: time
  HistorySource :: string

text \<open>The zero value of the struct (\<open>&models.Task{}\<close>), from which literals are written.\<close>

definition zero_task :: task where
  "zero_task = \<lparr>ID = 0, Title = [], Description = [], UserID = 0, MessengerRelatedUserID = None,
     ParentID = None, GroupID = None, StartDate = 0, FinishDate = None, CronExpression = None,
     RRule = None, RequiresConfirmation = False, Muted = False, ShiftFromCompletion = False,
     SkipDigest = False, PreRemindBeforeSeconds = None, Status = [], CreatedAt = 0, DeletedAt = 0,
     HistorySource = []\<rparr>"

record task_update_request =
  u_Title :: "string option"
  u_Description :: "string option"
  u_Status :: "string option"
  u_StartDate :: "time option"
  u_FinishDate :: "time option"
  u_CronExpression :: "string option"
  u_RRule :: "string option"
  u_RequiresConfirmation :: "bool option"
  u_Muted :: "bool option"
  u_ShiftFromCompletion :: "bool option"
  u_SkipDigest :: "bool option"
  u_PreRemindBeforeSeconds :: "int option"
  u_GroupID :: "int option"

definition no_update :: task_update_request where
  "no_update = \<lparr>u_Title = None, u_Description = None, u_Status = None, u_StartDate = None,
     u_FinishDate = None, u_CronExpression = None, u_RRule = None, u_RequiresConfirmation = None,
     u_Muted = None, u_ShiftFromCompletion = None, u_SkipDigest = None,
     u_PreRemindBeforeSeconds = None, u_GroupID = None\<rparr>"

text \<open>A request to enqueue a task (\<open>ScheduledTask\<close>).\<close>

record scheduled_task =
  s_Action :: string
  s_QueueName :: string
  s_TaskID :: int

definition ScheduledTaskActionSchedule :: string where "ScheduledTaskActionSchedule = ''schedule''"
definition ScheduledTaskActionDelete :: string where "ScheduledTaskActionDelete = ''delete''"

subsection \<open>History\<close>

text \<open>
  A history value is a \<open>map[string]interface{}\<close>, here a list of keys with values; \<open>nil\<close> is \<open>None\<close>.
\<close>

datatype hval = HInt int | HStr string | HBool bool | HTime time

type_synonym hmap = "(string \<times> hval) list"

definition TaskHistoryActionCreated :: string where "TaskHistoryActionCreated = ''created''"
definition TaskHistoryActionUpdated :: string where "TaskHistoryActionUpdated = ''updated''"
definition TaskHistoryActionDeleted :: string where "TaskHistoryActionDeleted = ''deleted''"
definition TaskHistoryActionStatusChanged :: string where
  "TaskHistoryActionStatusChanged = ''status_changed''"
definition TaskHistoryActionAttachmentAdded :: string where
  "TaskHistoryActionAttachmentAdded = ''attachment_added''"
definition TaskHistoryActionAttachmentRemoved :: string where
  "TaskHistoryActionAttachmentRemoved = ''attachment_removed''"

definition TaskHistorySourceKey :: string where "TaskHistorySourceKey = ''source''"

record task_history =
  h_ID :: int
  h_TaskID :: int
  h_UserID :: int
  h_Action :: string
  h_OldValue :: "hmap option"
  h_NewValue :: "hmap option"
  h_CreatedAt :: time

subsection \<open>Users, messengers, calendar links\<close>

record user =
  user_ID :: int
  user_Name :: string
  user_Email :: string
  user_PasswordHash :: string
  user_CreatedAt :: time
  user_DeletedAt :: time
  user_Timezone :: "string option"
  user_LanguageCode :: "string option"
  user_Role :: "string option"
  user_LastActivityAt :: "time option"

record messenger =
  m_ID :: int
  m_Name :: string
  m_CreatedAt :: time

record messenger_related_user =
  mru_ID :: int
  mru_UserID :: "int option"
  mru_MessengerID :: "int option"
  mru_MessengerUserID :: string
  mru_ChatID :: string
  mru_CreatedAt :: time
  mru_UpdatedAt :: "time option"

definition TaskSyncLinkOriginImported :: string where "TaskSyncLinkOriginImported = ''imported''"
definition TaskSyncLinkOriginExported :: string where "TaskSyncLinkOriginExported = ''exported''"

record task_sync_link =
  l_ID :: int
  l_TaskID :: int
  l_Provider :: string
  l_GoogleCalendarID :: string
  l_GoogleEventID :: string
  l_ETag :: "string option"
  l_GoogleUpdatedAt :: "time option"
  l_Origin :: string
  l_SyncEnabled :: bool
  l_ExportOptIn :: bool
  l_CalendarBindingID :: "int option"
  l_DurationSeconds :: "int option"
  l_LastSyncedAt :: "time option"
  l_LastError :: "string option"
  l_CreatedAt :: time
  l_UpdatedAt :: time

subsection \<open>The inventory of schedulable tasks\<close>

record schedulable_inventory_row =
  ir_TaskID :: int
  ir_Messenger :: string
  ir_StartDate :: time
  ir_Title :: string
  ir_CronExpression :: "string option"
  ir_RRule :: "string option"
  ir_ParentID :: "int option"
  ir_PreRemindBeforeSeconds :: "int option"
  ir_RequiresConfirmation :: bool

record schedulable_inventory_item =
  ii_TaskID :: int
  ii_Messenger :: string
  ii_StartDate :: time
  ii_Kind :: string
  ii_HasPre :: bool
  ii_Title :: string

end
