(* ===== verification/App_Models.thy ===== *)
theory App_Models
  imports Models
begin

text \<open>
  The models of \<open>internal/models\<close> beside the tasks: backlog items, targets, task groups, digest
  settings, the requests that update them and users, and the short view of a user's activity.  As in
  \<open>Models\<close>, a pointer is an option and an \<open>int64\<close> key an \<open>int\<close>; the \<open>DeletedAt\<close> of a table is kept
  with its rows.
\<close>

record backlog =
  bl_ID :: int
  bl_Title :: string
  bl_Description :: string
  bl_UserID :: int
  bl_MessengerRelatedUserID :: "int option"
  bl_CreatedAt :: time
  bl_UpdatedAt :: time
  bl_CompletedAt :: "time option"

record backlog_update_request =
  blu_Title :: "string option"
  blu_Description :: "string option"
  blu_CompletedAt :: "time option"

record target =
  tg_ID :: int
  tg_Title :: string
  tg_Description :: string
  tg_UserID :: int
  tg_MessengerRelatedUserID :: "int option"
  tg_CreatedAt :: time
  tg_UpdatedAt :: time
  tg_CompletedAt :: "time option"

record target_update_request =
  tgu_Title :: "string option"
  tgu_Description :: "string option"
  tgu_CompletedAt :: "time option"

record task_group =
  gr_ID :: int
  gr_UserID :: int
  gr_Name :: string
  gr_CreatedAt :: time
  gr_UpdatedAt :: time

record task_group_update_request =
  gru_Name :: "string option"

record digest_settings =
  ds_ID :: int
  ds_UserID :: int
  ds_MessengerRelatedUserID :: "int option"
  ds_Enabled :: bool
  ds_WeekdayTime :: string
  ds_WeekendTime :: string
  ds_CreatedAt :: time
  ds_UpdatedAt :: time

record digest_settings_update_request =
  dsu_Enabled :: "bool option"
  dsu_WeekdayTime :: "string option"
  dsu_WeekendTime :: "string option"
  dsu_MessengerRelatedUserID :: "int option"

record user_update_request =
  uu_Name :: "string option"
  uu_Email :: "string option"
  uu_PasswordHash :: "string option"
  uu_Timezone :: "string option"
  uu_LanguageCode :: "string option"
  uu_Role :: "string option"

record user_activity =
  ua_UserID :: int
  ua_Name :: string
  ua_LastActivityAt :: time

text \<open>\<open>DigestResponse\<close> of \<open>digest_service.go\<close>.\<close>

record digest_response =
  dr_UserID :: int
  dr_MessengerRelatedUserID :: "int option"
  dr_ChatID :: "string option"
  dr_StartDateFrom :: time
  dr_StartDateTo :: time
  dr_CompletedBacklogsCount :: int
  dr_Tasks :: "task list"
  dr_Targets :: "target list"
  dr_Timezone :: string

end
