(* ===== verification/Recurrence.thy ===== *)
theory Recurrence
  imports Models
begin

text \<open>
  Recurrence rules, \<open>internal/service/task_recurrence.go\<close>.  A task carries a cron expression or an
  iCalendar RRULE.  The file computes next occurrences and rewrites a rule so that it follows the
  day on which a task was completed.

  Cron and RRULE themselves are third-party packages (gorhill/cronexpr, teambition/rrule-go): they
  are the fields of \<open>recur_lib\<close>, an argument of every definition that calls them.  What the code
  relies on is stated by \<open>recur_laws\<close>: a next occurrence is the zero time or lies strictly after
  the instant it was asked for, and the zero time has no next cron occurrence.

  Lemmas: the result of every operation on every branch, and for the rewriting what is kept
  (minute and hour of a cron expression, every part of an RRULE that is not named) and what is
  replaced.
\<close>

subsection \<open>The third-party packages\<close>

datatype freq = YEARLY | MONTHLY | WEEKLY | DAILY | HOURLY | MINUTELY | SECONDLY

text \<open>\<open>rrulelib.ROption\<close>; a weekday comes with its ordinal \<open>N()\<close>.\<close>

record roption =
  o_Freq :: freq
  o_Dtstart :: time
  o_Interval :: int
  o_Count :: int
  o_Until :: time
  o_Bysetpos :: "int list"
  o_Bymonth :: "int list"
  o_Bymonthday :: "int list"
  o_Byyearday :: "int list"
  o_Byweekno :: "int list"
  o_Byweekday :: "(int \<times> int) list"
  o_Byhour :: "int list"
  o_Byminute :: "int list"
  o_Bysecond :: "int list"
  o_Byeaster :: "int list"

record recur_lib =
  cron_Parse :: "string \<Rightarrow> bool"
  cron_Next :: "string \<Rightarrow> time \<Rightarrow> time"
  StrToROption :: "string \<Rightarrow> roption option"
  NewRRule :: "roption \<Rightarrow> bool"
  rule_After :: "roption \<Rightarrow> time \<Rightarrow> time"

definition recur_laws :: "recur_lib \<Rightarrow> bool" where
  "recur_laws L \<longleftrightarrow>
     (\<forall>e t. cron_Next L e t = 0 \<or> t < cron_Next L e t) \<and>
     (\<forall>e. cron_Next L e 0 = 0) \<and>
     (\<forall>r t. rule_After L r t = 0 \<or> t < rule_After L r t)"

text \<open>\<open>cronexpr.MustParse(e).Next(t)\<close>: the parse panics on an expression it does not accept.\<close>

definition cron_must_next :: "recur_lib \<Rightarrow> string \<Rightarrow> time \<Rightarrow> time outcome" where
  "cron_must_next L e t =
     (if cron_Parse L e then Ok (cron_Next L e t) else Panic ''cronexpr.MustParse'')"

subsection \<open>The fields of a task\<close>

definition errRecurrenceNotShiftable :: err where
  "errRecurrenceNotShiftable = ErrOther ''recurrence rule cannot be shifted from the completion date''"

definition recurrenceFieldSet :: "string option \<Rightarrow> bool" where
  "recurrenceFieldSet p = (case p of None \<Rightarrow> False | Some s \<Rightarrow> trim_space s \<noteq> [])"

definition recurrenceFieldChanged :: "string option \<Rightarrow> string option \<Rightarrow> bool" where
  "recurrenceFieldChanged updated current =
     (case updated of
        None \<Rightarrow> False
      | Some u \<Rightarrow>
          (let updatedValue = trim_space u;
               currentValue = (case current of None \<Rightarrow> [] | Some c \<Rightarrow> trim_space c)
           in updatedValue \<noteq> currentValue))"

definition validateCronExpressionAndRRuleExclusive :: "string option \<Rightarrow> string option \<Rightarrow> err option" where
  "validateCronExpressionAndRRuleExclusive cronExpr rrule =
     (if recurrenceFieldSet cronExpr \<and> recurrenceFieldSet rrule
      then Some (ErrOther ''cron_expression and rrule cannot both be set'') else None)"

definition isRecurrenceParentWithConfirmation :: "task \<Rightarrow> bool" where
  "isRecurrenceParentWithConfirmation t =
     (if \<not> RequiresConfirmation t then False
      else recurrenceFieldSet (CronExpression t) \<or> recurrenceFieldSet (RRule t))"

definition hasRecurrenceRule :: "task \<Rightarrow> bool" where
  "hasRecurrenceRule t \<longleftrightarrow> recurrenceFieldSet (CronExpression t) \<or> recurrenceFieldSet (RRule t)"

subsection \<open>Next occurrences\<close>

definition with_dtstart :: "time \<Rightarrow> roption \<Rightarrow> roption" where
  "with_dtstart seriesStart opt = (if IsZero (o_Dtstart opt) then opt\<lparr>o_Dtstart := seriesStart\<rparr> else opt)"

definition validateRRuleString :: "recur_lib \<Rightarrow> string \<Rightarrow> time \<Rightarrow> err option" where
  "validateRRuleString L rruleStr seriesStart =
     (case StrToROption L (trim_space rruleStr) of
        None \<Rightarrow> Some (ErrOther ''rrule: wrong format'')
      | Some opt \<Rightarrow>
          (if NewRRule L (with_dtstart seriesStart opt) then None
           else Some (ErrOther ''rrule: invalid rule'')))"

definition nextStartFromRRule :: "recur_lib \<Rightarrow> time \<Rightarrow> string \<Rightarrow> time \<Rightarrow> time outcome" where
  "nextStartFromRRule L now rruleStr seriesStart =
     (case StrToROption L (trim_space rruleStr) of
        None \<Rightarrow> Err (ErrOther ''rrule: wrong format'')
      | Some opt \<Rightarrow>
          (let opt = with_dtstart seriesStart opt in
           if \<not> NewRRule L opt then Err (ErrOther ''rrule: invalid rule'')
           else (let next = rule_After L opt now in
                 if IsZero next then Err (ErrOther ''no occurrence after'') else Ok next)))"

text \<open>The first occurrence strictly after \<open>from\<close>, by the field that is set on the parent.\<close>

definition nextRecurrenceAfter :: "recur_lib \<Rightarrow> task \<Rightarrow> time \<Rightarrow> time outcome" where
  "nextRecurrenceAfter L parent from =
     (if recurrenceFieldSet (CronExpression parent) then
        (case cron_must_next L (the (CronExpression parent)) from of
           Ok nextTime \<Rightarrow>
             (if nextTime < from then cron_must_next L (the (CronExpression parent)) nextTime
              else Ok nextTime)
         | r \<Rightarrow> r)
      else if recurrenceFieldSet (RRule parent) then
        nextStartFromRRule L from (the (RRule parent)) (StartDate parent)
      else Err (ErrOther ''parent task has no recurrence rule''))"

text \<open>
  The start date with which a task is published: its own if that is not past, else the next
  occurrence of its rule or (for a child) of the parent's rule, else the zero time.
\<close>

definition nextExecutableStartDate :: "recur_lib \<Rightarrow> task \<Rightarrow> task option \<Rightarrow> time \<Rightarrow> time outcome" where
  "nextExecutableStartDate L task parent now =
     (if \<not> StartDate task < now then Ok (StartDate task)
      else if isRecurrenceParentWithConfirmation task then Ok 0
      else if recurrenceFieldSet (CronExpression task) then
        cron_must_next L (the (CronExpression task)) now
      else if recurrenceFieldSet (RRule task) then
        nextStartFromRRule L now (the (RRule task)) (StartDate task)
      else (case parent of
              Some p \<Rightarrow> (if ParentID task \<noteq> None \<and> hasRecurrenceRule p
                         then nextRecurrenceAfter L p now else Ok 0)
            | None \<Rightarrow> Ok 0))"

subsection \<open>Following the completion date\<close>

record completion_shift =
  cs_Anchor :: time
  cs_NextStart :: time
  cs_Cron :: "string option"
  cs_RRule :: "string option"

text \<open>The calendar day of the completion with the clock of the completed child.\<close>

definition completionAnchor :: "time \<Rightarrow> time \<Rightarrow> time" where
  "completionAnchor completedAt clock =
     Date (Year completedAt) (Month completedAt) (Day completedAt)
          (Clock_Hour clock) (Clock_Minute clock) (Clock_Second clock)"

definition singleCronNumber :: "string \<Rightarrow> int \<Rightarrow> int \<Rightarrow> bool" where
  "singleCronNumber field low high =
     (if contains_any '',-*/'' field then False
      else (case atoi field of None \<Rightarrow> False | Some n \<Rightarrow> n \<ge> low \<and> n \<le> high))"

definition shiftCronFromCompletion :: "string \<Rightarrow> time \<Rightarrow> string option" where
  "shiftCronFromCompletion expr anchor =
     (case split_fields (trim_space expr) of
        [minute, hour, mday, month, wday] \<Rightarrow>
          (if \<not> singleCronNumber minute 0 59 \<or> \<not> singleCronNumber hour 0 23 then None
           else if mday = ''*'' \<and> month = ''*'' \<and> wday = ''*'' then
             Some (join '' '' [minute, hour, mday, month, wday])
           else if mday = ''*'' \<and> month = ''*'' \<and> singleCronNumber wday 0 7 then
             Some (join '' '' [minute, hour, ''*'', ''*'', itoa (Weekday anchor)])
           else if month = ''*'' \<and> wday = ''*'' \<and> singleCronNumber mday 1 31 then
             Some (join '' '' [minute, hour, itoa (Day anchor), ''*'', ''*''])
           else if wday = ''*'' \<and> singleCronNumber mday 1 31 \<and> singleCronNumber month 1 12 then
             Some (join '' '' [minute, hour, itoa (Day anchor), itoa (Month anchor), ''*''])
           else None)
      | _ \<Rightarrow> None)"

definition rruleWeekdayToken :: "int \<Rightarrow> string" where
  "rruleWeekdayToken wd = [''SU'', ''MO'', ''TU'', ''WE'', ''TH'', ''FR'', ''SA''] ! nat wd"

text \<open>
  \<open>replaceRRuleParts\<close>: the map of replacements shrinks as its keys are met; a part that is not
  \<open>key=value\<close>, or a key that is never met, is an error.
\<close>

fun replace_parts :: "string list \<Rightarrow> (string \<times> string) list \<Rightarrow> (string list \<times> (string \<times> string) list) option" where
  "replace_parts [] repl = Some ([], repl)"
| "replace_parts (p # ps) repl =
     (let part = trim_space p in
      case cut_char (CHR ''='') part of
        None \<Rightarrow> None
      | Some (key, _) \<Rightarrow>
          (if trim_space key = [] then None
           else (let upper = to_upper (trim_space key) in
                 case map_of repl upper of
                   Some next \<Rightarrow>
                     map_option (\<lambda>(out, rest). ((upper @ ''='' @ next) # out, rest))
                       (replace_parts ps (filter (\<lambda>kv. fst kv \<noteq> upper) repl))
                 | None \<Rightarrow> map_option (\<lambda>(out, rest). (part # out, rest)) (replace_parts ps repl))))"

definition replaceRRuleParts :: "string \<Rightarrow> (string \<times> string) list \<Rightarrow> string option" where
  "replaceRRuleParts raw repl =
     (case replace_parts (split_char (CHR '';'') (trim_prefix ''RRULE:'' (trim_space raw))) repl of
        None \<Rightarrow> None
      | Some (out, rest) \<Rightarrow> (if rest \<noteq> [] then None else Some (join '';'' out)))"

text \<open>What may be re-anchored: a plain interval with at most one weekday, month day and month.\<close>

definition rrule_shiftable :: "roption \<Rightarrow> bool" where
  "rrule_shiftable opt \<longleftrightarrow>
     o_Freq opt \<in> {DAILY, WEEKLY, MONTHLY, YEARLY} \<and>
     \<not> (o_Interval opt < 0 \<or> o_Count opt \<noteq> 0 \<or> \<not> IsZero (o_Until opt)) \<and>
     \<not> (length (o_Bysetpos opt) > 0 \<or> length (o_Byyearday opt) > 0 \<or> length (o_Byweekno opt) > 0 \<or>
        length (o_Byhour opt) > 0 \<or> length (o_Byminute opt) > 0 \<or> length (o_Bysecond opt) > 0 \<or>
        length (o_Byeaster opt) > 0) \<and>
     \<not> (length (o_Byweekday opt) > 1 \<or> length (o_Bymonthday opt) > 1 \<or> length (o_Bymonth opt) > 1) \<and>
     \<not> (length (o_Byweekday opt) = 1 \<and> snd (hd (o_Byweekday opt)) \<noteq> 0)"

definition rrule_replacements :: "roption \<Rightarrow> time \<Rightarrow> (string \<times> string) list" where
  "rrule_replacements opt anchor =
     (if length (o_Byweekday opt) = 1 then [(''BYDAY'', rruleWeekdayToken (Weekday anchor))] else []) @
     (if length (o_Bymonthday opt) = 1 then [(''BYMONTHDAY'', itoa (Day anchor))] else []) @
     (if length (o_Bymonth opt) = 1 then [(''BYMONTH'', itoa (Month anchor))] else [])"

definition shiftRRuleFromCompletion :: "recur_lib \<Rightarrow> string \<Rightarrow> time \<Rightarrow> string option" where
  "shiftRRuleFromCompletion L rruleStr anchor =
     (let raw = trim_space rruleStr in
      if contains_sub [CHR 0x0A] raw \<or> contains_sub ''DTSTART'' (to_upper raw) then None
      else (case StrToROption L raw of
              None \<Rightarrow> None
            | Some opt \<Rightarrow>
                (if \<not> rrule_shiftable opt then None
                 else (let repl = rrule_replacements opt anchor in
                       if length repl = 0 then Some (trim_prefix ''RRULE:'' raw)
                       else replaceRRuleParts raw repl))))"

text \<open>
  The errors of \<open>nextRecurrenceAfter\<close> become the one error of this function; a panic would go on,
  but the rewritten cron expression has just been parsed.
\<close>

definition shift_next :: "recur_lib \<Rightarrow> task \<Rightarrow> time \<Rightarrow> (time \<Rightarrow> completion_shift) \<Rightarrow> completion_shift outcome" where
  "shift_next L shifted completedAt result =
     (case nextRecurrenceAfter L shifted completedAt of
        Ok next \<Rightarrow> Ok (result next)
      | Err _ \<Rightarrow> Err errRecurrenceNotShiftable
      | Panic p \<Rightarrow> Panic p)"

definition shiftRecurrenceFromCompletion ::
  "recur_lib \<Rightarrow> task \<Rightarrow> time \<Rightarrow> time \<Rightarrow> completion_shift outcome" where
  "shiftRecurrenceFromCompletion L parent clock completedAt =
     (if \<not> hasRecurrenceRule parent then Err errRecurrenceNotShiftable
      else if recurrenceFieldSet (CronExpression parent) \<and> recurrenceFieldSet (RRule parent)
      then Err errRecurrenceNotShiftable
      else (let anchor = completionAnchor completedAt clock;
                shifted = parent\<lparr>StartDate := anchor\<rparr> in
        if recurrenceFieldSet (CronExpression parent) then
          (case shiftCronFromCompletion (the (CronExpression parent)) anchor of
             None \<Rightarrow> Err errRecurrenceNotShiftable
           | Some cronExpr \<Rightarrow>
               (if \<not> cron_Parse L cronExpr then Err errRecurrenceNotShiftable
                else shift_next L (shifted\<lparr>CronExpression := Some cronExpr\<rparr>) completedAt
                       (\<lambda>next. \<lparr>cs_Anchor = anchor, cs_NextStart = next, cs_Cron = Some cronExpr,
                                cs_RRule = None\<rparr>)))
        else
          (case shiftRRuleFromCompletion L (the (RRule parent)) anchor of
             None \<Rightarrow> Err errRecurrenceNotShiftable
           | Some rruleExpr \<Rightarrow>
               (case validateRRuleString L rruleExpr anchor of
                  Some _ \<Rightarrow> Err errRecurrenceNotShiftable
                | None \<Rightarrow>
                    shift_next L (shifted\<lparr>RRule := Some rruleExpr\<rparr>) completedAt
                       (\<lambda>next. \<lparr>cs_Anchor = anchor, cs_NextStart = next, cs_Cron = None,
                                cs_RRule = Some rruleExpr\<rparr>)))))"

subsection \<open>Occurrences lie ahead\<close>

lemma recur_laws_cron: "recur_laws L \<Longrightarrow> cron_Next L e t = 0 \<or> t < cron_Next L e t"
  by (simp add: recur_laws_def)

lemma recur_laws_zero: "recur_laws L \<Longrightarrow> cron_Next L e 0 = 0"
  by (simp add: recur_laws_def)

lemma recur_laws_rule: "recur_laws L \<Longrightarrow> rule_After L r t = 0 \<or> t < rule_After L r t"
  by (simp add: recur_laws_def)

lemma nextStartFromRRule_after:
  "recur_laws L \<Longrightarrow> nextStartFromRRule L now r s = Ok t \<Longrightarrow> now < t \<and> t \<noteq> 0"
  by (auto simp: nextStartFromRRule_def Let_def IsZero_def split: option.splits if_splits
      dest: recur_laws_rule)

lemma nextStartFromRRule_no_panic: "nextStartFromRRule L now r s \<noteq> Panic p"
  by (auto simp: nextStartFromRRule_def Let_def split: option.splits)

lemma cron_must_next_after:
  "recur_laws L \<Longrightarrow> cron_must_next L e now = Ok t \<Longrightarrow> t = 0 \<or> now < t"
  by (auto simp: cron_must_next_def split: if_splits dest: recur_laws_cron)

lemma cron_must_next_no_Err: "cron_must_next L e now \<noteq> Err x"
  by (simp add: cron_must_next_def)

lemma nextRecurrenceAfter_after:
  assumes L: "recur_laws L" and run: "nextRecurrenceAfter L p from = Ok t"
  shows "t = 0 \<or> from < t"
proof (cases "recurrenceFieldSet (CronExpression p)")
  case True
  let ?e = "the (CronExpression p)"
  obtain n where n: "cron_must_next L ?e from = Ok n"
    using True run by (auto simp: nextRecurrenceAfter_def split: outcome.splits)
  show ?thesis
  proof (cases "n < from")
    case True
    with cron_must_next_after [OF L n] have "n = 0" by simp
    with n run \<open>n < from\<close> \<open>recurrenceFieldSet (CronExpression p)\<close>
    have "cron_must_next L ?e 0 = Ok t" by (simp add: nextRecurrenceAfter_def)
    with recur_laws_zero [OF L] show ?thesis by (auto simp: cron_must_next_def split: if_splits)
  next
    case False
    with n run True have "t = n" by (simp add: nextRecurrenceAfter_def)
    with cron_must_next_after [OF L n] show ?thesis by simp
  qed
next
  case False
  with run nextStartFromRRule_after [OF L] show ?thesis
    by (auto simp: nextRecurrenceAfter_def split: if_splits)
qed

lemma nextExecutableStartDate_not_past:
  assumes "recur_laws L" and "nextExecutableStartDate L task parent now = Ok t"
  shows "t = 0 \<or> now \<le> t"
proof -
  have "StartDate task = t \<and> \<not> t < now \<or> t = 0 \<or> (\<exists>e. cron_must_next L e now = Ok t) \<or>
      (\<exists>r s. nextStartFromRRule L now r s = Ok t) \<or> (\<exists>p. nextRecurrenceAfter L p now = Ok t)"
    using assms(2) unfolding nextExecutableStartDate_def by (auto split: if_splits option.splits)
  then show ?thesis
    using nextStartFromRRule_after [OF assms(1)] cron_must_next_after [OF assms(1)]
      nextRecurrenceAfter_after [OF assms(1)] by (metis linorder_not_less order_less_imp_le)
qed

lemma nextExecutableStartDate_future:
  "now \<le> StartDate task \<Longrightarrow> nextExecutableStartDate L task parent now = Ok (StartDate task)"
  by (simp add: nextExecutableStartDate_def)

lemma recurrenceFieldSet_None [simp]: "\<not> recurrenceFieldSet None"
  by (simp add: recurrenceFieldSet_def)

lemma recurrenceFieldSet_Some: "recurrenceFieldSet p \<Longrightarrow> p = Some (the p)"
  by (cases p) auto

lemma parent_iff:
  "isRecurrenceParentWithConfirmation t \<longleftrightarrow> RequiresConfirmation t \<and> hasRecurrenceRule t"
  by (simp add: isRecurrenceParentWithConfirmation_def hasRecurrenceRule_def)

subsection \<open>The anchor\<close>

lemma completionAnchor_day: "day_number (completionAnchor c k) = day_number c"
  and completionAnchor_hour: "Clock_Hour (completionAnchor c k) = Clock_Hour k"
  and completionAnchor_minute: "Clock_Minute (completionAnchor c k) = Clock_Minute k"
  and completionAnchor_second: "Clock_Second (completionAnchor c k) = Clock_Second k"
  using day_and_clock [of "Clock_Hour k" "Clock_Minute k" "Clock_Second k" "completionAnchor c k" "day_number c"]
    clock_range [of k]
  by (simp_all add: completionAnchor_def Date_of_instant)

subsection \<open>The rewritten cron expression\<close>

lemma singleCronNumber_plain: "singleCronNumber f lo hi \<Longrightarrow> plain_field f"
  by (auto simp: singleCronNumber_def split: if_splits option.splits intro: plain_atoi)

lemma singleCronNumber_itoa:
  assumes "0 \<le> n" "lo \<le> n" "n \<le> hi" "hi < 2 ^ 63"
  shows "singleCronNumber (itoa n) lo hi"
proof -
  have "\<not> contains_any '',-*/'' (itoa n)"
    using itoa_chars [OF assms(1)] by (fastforce simp: contains_any_def list_ex_iff is_digit_def)
  moreover have "atoi (itoa n) = Some n"
    by (rule atoi_itoa) (use assms in linarith)+
  ultimately show ?thesis using assms by (simp add: singleCronNumber_def)
qed
lemma singleCronNumber_not_star [simp]: "\<not> singleCronNumber ''*'' lo hi"
  by (simp add: singleCronNumber_def contains_any_def)

text \<open>
  The fields a rewritten expression has: minute and hour are those of the input, and each day field
  that was a number carries the day of the anchor, each star is still a star.
\<close>

definition day_field :: "string \<Rightarrow> int \<Rightarrow> string" where
  "day_field f n = (if f = ''*'' then f else itoa n)"

lemma shiftCron_fields:
  assumes "shiftCronFromCompletion expr anchor = Some e"
  shows "\<exists>minute hour mday month wday.
     split_fields (trim_space expr) = [minute, hour, mday, month, wday] \<and>
     singleCronNumber minute 0 59 \<and> singleCronNumber hour 0 23 \<and>
     (wday = ''*'' \<or> (mday = ''*'' \<and> month = ''*'')) \<and> (month = ''*'' \<or> mday \<noteq> ''*'') \<and>
     e = join '' '' [minute, hour, day_field mday (Day anchor), day_field month (Month anchor),
                   day_field wday (Weekday anchor)]"
proof -
  obtain minute hour mday month wday where
    fs: "split_fields (trim_space expr) = [minute, hour, mday, month, wday]"
    using assms unfolding shiftCronFromCompletion_def by (auto split: list.splits)
  have "mday \<noteq> ''*''" if "singleCronNumber mday 1 31"
    using that by auto
  then show ?thesis
    using assms fs unfolding shiftCronFromCompletion_def
    by (auto simp: day_field_def split: if_splits)
qed

lemma day_field_plain [simp]: "0 \<le> n \<Longrightarrow> plain_field (day_field f n)"
  by (simp add: day_field_def)

lemma shiftCron_split:
  assumes "shiftCronFromCompletion expr anchor = Some e"
  obtains minute hour mday month wday where
    "split_fields (trim_space expr) = [minute, hour, mday, month, wday]"
    "singleCronNumber minute 0 59" "singleCronNumber hour 0 23"
    "wday = ''*'' \<or> (mday = ''*'' \<and> month = ''*'')" "month = ''*'' \<or> mday \<noteq> ''*''"
    "split_fields (trim_space e) = [minute, hour, day_field mday (Day anchor),
       day_field month (Month anchor), day_field wday (Weekday anchor)]"
proof -
  from shiftCron_fields [OF assms] obtain minute hour mday month wday where
    f: "split_fields (trim_space expr) = [minute, hour, mday, month, wday]"
    "singleCronNumber minute 0 59" "singleCronNumber hour 0 23"
    "wday = ''*'' \<or> (mday = ''*'' \<and> month = ''*'')" "month = ''*'' \<or> mday \<noteq> ''*''"
    and e: "e = join '' '' [minute, hour, day_field mday (Day anchor), day_field month (Month anchor),
                   day_field wday (Weekday anchor)]" (is "_ = join _ ?fs")
    by blast
  have plain: "list_all plain_field ?fs"
    using f Month_Day_range [of anchor] Weekday_range [of anchor] by (simp add: singleCronNumber_plain)
  have "split_fields (trim_space e) = ?fs"
    unfolding e by (subst trim_space_join [OF plain]) (simp_all only: split_fields_join [OF plain] list.simps not_False_eq_True)
  with f that show thesis by blast
qed

lemma itoa_not_star: "0 \<le> n \<Longrightarrow> itoa n \<noteq> ''*''"
  using itoa_chars [of n "CHR ''*''"] by (auto simp: is_digit_def)

lemma day_field_same [simp]: "0 \<le> n \<Longrightarrow> day_field (day_field f n) n = day_field f n"
  by (simp add: day_field_def)

lemma day_field_star [simp]: "0 \<le> n \<Longrightarrow> day_field f n = ''*'' \<longleftrightarrow> f = ''*''"
  by (simp add: day_field_def itoa_not_star)

text \<open>The rewritten expression is itself of a kind that can be followed, and is a fixed point.\<close>

lemma shiftCron_stable:
  assumes s: "shiftCronFromCompletion expr anchor = Some e" and d: "day_number a = day_number anchor"
  shows "shiftCronFromCompletion e a = Some e"
proof -
  from shiftCron_fields [OF s] obtain minute hour mday month wday where
    f: "singleCronNumber minute 0 59" "singleCronNumber hour 0 23"
    "wday = ''*'' \<or> (mday = ''*'' \<and> month = ''*'')" "month = ''*'' \<or> mday \<noteq> ''*''"
    and e: "e = join '' '' [minute, hour, day_field mday (Day anchor), day_field month (Month anchor),
                   day_field wday (Weekday anchor)]" (is "_ = join _ ?fs")
    by blast
  note r = Month_Day_range [of anchor] Weekday_range [of anchor]
  have plain: "list_all plain_field ?fs" using f r by (simp add: singleCronNumber_plain)
  have split: "split_fields (trim_space e) = ?fs"
    unfolding e by (subst trim_space_join [OF plain]) (simp_all only: split_fields_join [OF plain] list.simps not_False_eq_True)
  have nums: "singleCronNumber (itoa (Weekday anchor)) 0 7" "singleCronNumber (itoa (Day anchor)) 1 31"
    "singleCronNumber (itoa (Month anchor)) 1 12"
    by (rule singleCronNumber_itoa; use r in simp)+
  have same: "Weekday a = Weekday anchor" "Month a = Month anchor" "Day a = Day anchor"
    using same_day_date [OF d] by simp_all
  show ?thesis
    unfolding shiftCronFromCompletion_def split
    using f e nums r same itoa_not_star [of "Weekday anchor"] itoa_not_star [of "Day anchor"]
      itoa_not_star [of "Month anchor"]
    by (cases "wday = ''*''"; cases "mday = ''*''"; cases "month = ''*''")
       (simp_all add: day_field_def)
qed

subsection \<open>The rewritten RRULE\<close>

definition part_key :: "string \<Rightarrow> string" where
  "part_key p = (case cut_char (CHR ''='') (trim_space p) of
      None \<Rightarrow> [] | Some (k, _) \<Rightarrow> to_upper (trim_space k))"

text \<open>What the rewriting does to the part at a position: the first part with a replaced key gets the
  new value, every other part is kept (without the white space around it).\<close>

definition replaced_part :: "(string \<times> string) list \<Rightarrow> string list \<Rightarrow> string \<Rightarrow> string" where
  "replaced_part repl before p =
     (case map_of repl (part_key p) of
        Some v \<Rightarrow> (if part_key p \<in> part_key ` set before then trim_space p
                   else part_key p @ ''='' @ v)
      | None \<Rightarrow> trim_space p)"

lemma map_of_filter_key:
  "map_of (filter (\<lambda>kv. fst kv \<noteq> a) xs) k = (if k = a then None else map_of xs k)"
  by (induction xs) auto

lemma replace_parts_spec:
  "replace_parts ps repl = Some (out, rest) \<Longrightarrow>
     length out = length ps \<and>
     (\<forall>i < length ps. out ! i = replaced_part repl (take i ps) (ps ! i)) \<and>
     rest = filter (\<lambda>kv. fst kv \<notin> part_key ` set ps) repl"
proof (induction ps arbitrary: repl out rest)
  case Nil
  then show ?case by simp
next
  case (Cons p ps)
  obtain k v where cut: "cut_char (CHR ''='') (trim_space p) = Some (k, v)" and k: "trim_space k \<noteq> []"
    using Cons.prems by (auto simp: Let_def split: option.splits if_splits)
  have key: "part_key p = to_upper (trim_space k)" by (simp add: part_key_def cut)
  show ?case
  proof (cases "map_of repl (part_key p)")
    case None
    with Cons.prems cut k key obtain out' where
      r: "replace_parts ps repl = Some (out', rest)" and out: "out = trim_space p # out'"
      by (auto simp: Let_def)
    have same: "replaced_part repl (p # b) q = replaced_part repl b q" for b q
      using None by (auto simp: replaced_part_def split: option.splits)
    have keep: "fst kv \<noteq> part_key p" if "kv \<in> set repl" for kv
      using None that by (metis image_eqI map_of_eq_None_iff)
    have "length out' = length ps"
      "\<forall>i < length ps. out' ! i = replaced_part repl (take i ps) (ps ! i)"
      "rest = filter (\<lambda>kv. fst kv \<notin> part_key ` set ps) repl" using Cons.IH [OF r] by auto
    moreover have "replaced_part repl [] p = trim_space p" using None by (simp add: replaced_part_def)
    ultimately show ?thesis using out keep
      by (auto simp: nth_Cons same split: nat.splits intro!: filter_cong)
  next
    case (Some n)
    let ?repl = "filter (\<lambda>kv. fst kv \<noteq> part_key p) repl"
    from Some Cons.prems cut k key obtain out' where
      r: "replace_parts ps ?repl = Some (out', rest)" and out: "out = (part_key p @ ''='' @ n) # out'"
      by (auto simp: Let_def)
    have same: "replaced_part repl (p # b) q = replaced_part ?repl b q" for b q
      using Some by (auto simp: replaced_part_def map_of_filter_key split: option.splits)
    have "length out' = length ps"
      "\<forall>i < length ps. out' ! i = replaced_part ?repl (take i ps) (ps ! i)"
      "rest = filter (\<lambda>kv. fst kv \<notin> part_key ` set ps) ?repl" using Cons.IH [OF r] by auto
    moreover have "replaced_part repl [] p = part_key p @ ''='' @ n"
      using Some by (simp add: replaced_part_def)
    ultimately show ?thesis using out
      by (auto simp: nth_Cons same split: nat.splits intro!: filter_cong)
  qed
qed

lemma set_trim_space: "set (trim_space s) \<subseteq> set s"
  using strip_with_suffix [of "map rev go_spaces" "rev (strip_with go_spaces s)"]
    strip_with_suffix [of go_spaces s]
  unfolding trim_space_def by (metis set_mono_suffix set_rev subset_trans)

lemma replaceRRuleParts_parts:
  assumes run: "replaceRRuleParts raw repl = Some e"
    and free: "\<forall>(k, v) \<in> set repl. CHR '';'' \<notin> set k \<and> CHR '';'' \<notin> set v"
  defines "ps \<equiv> split_char (CHR '';'') (trim_prefix ''RRULE:'' (trim_space raw))"
  shows "split_char (CHR '';'') e = map (\<lambda>i. replaced_part repl (take i ps) (ps ! i)) [0..<length ps]"
    and "fst ` set repl \<subseteq> part_key ` set ps"
proof -
  obtain out where r: "replace_parts ps repl = Some (out, [])" and e: "e = join '';'' out"
    using run by (auto simp: replaceRRuleParts_def ps_def split: option.splits if_splits)
  note spec = replace_parts_spec [OF r]
  have out: "out = map (\<lambda>i. replaced_part repl (take i ps) (ps ! i)) [0..<length ps]"
    using spec by (auto intro: nth_equalityI)
  have parts: "CHR '';'' \<notin> set (trim_space p)" if "p \<in> set ps" for p
    using that split_char_free set_trim_space unfolding ps_def by blast
  have "CHR '';'' \<notin> set (replaced_part repl b p)" if "p \<in> set ps" for b p
  proof (cases "map_of repl (part_key p)")
    case (Some v)
    then have "(part_key p, v) \<in> set repl" by (rule map_of_SomeD)
    then show ?thesis using Some free parts [OF that] by (auto simp: replaced_part_def)
  qed (use parts [OF that] in \<open>simp add: replaced_part_def\<close>)
  then have "\<forall>p \<in> set out. CHR '';'' \<notin> set p" by (auto simp: out)
  moreover have "out \<noteq> []" using spec by (auto simp: ps_def)
  ultimately show "split_char (CHR '';'') e = map (\<lambda>i. replaced_part repl (take i ps) (ps ! i)) [0..<length ps]"
    unfolding e out [symmetric] by (intro split_char_join) auto
  show "fst ` set repl \<subseteq> part_key ` set ps"
    using spec filter_empty_conv [of "\<lambda>kv. fst kv \<notin> part_key ` set ps" repl] by force
qed

subsection \<open>Following a completion\<close>

lemma shift_next_Ok:
  "shift_next L p c f = Ok s \<Longrightarrow> \<exists>n. nextRecurrenceAfter L p c = Ok n \<and> s = f n"
  by (auto simp: shift_next_def split: outcome.splits)

lemma shiftRecurrence_Ok:
  assumes "shiftRecurrenceFromCompletion L parent clock completedAt = Ok s"
  shows "cs_Anchor s = completionAnchor completedAt clock \<and>
     (\<exists>p. nextRecurrenceAfter L p completedAt = Ok (cs_NextStart s)) \<and>
     (recurrenceFieldSet (CronExpression parent) \<longrightarrow> cs_RRule s = None \<and>
        (\<exists>e. cs_Cron s = Some e \<and> cron_Parse L e \<and>
             shiftCronFromCompletion (the (CronExpression parent)) (cs_Anchor s) = Some e)) \<and>
     (\<not> recurrenceFieldSet (CronExpression parent) \<longrightarrow> cs_Cron s = None \<and>
        (\<exists>e. cs_RRule s = Some e \<and>
             shiftRRuleFromCompletion L (the (RRule parent)) (cs_Anchor s) = Some e))"
proof (cases "recurrenceFieldSet (CronExpression parent)")
  case True
  then show ?thesis using assms
    by (fastforce simp: shiftRecurrenceFromCompletion_def Let_def dest!: shift_next_Ok
        split: if_splits option.splits)
next
  case False
  then show ?thesis using assms
    by (fastforce simp: shiftRecurrenceFromCompletion_def Let_def dest!: shift_next_Ok
        split: if_splits option.splits)
qed

lemma nextRecurrenceAfter_panic:
  "nextRecurrenceAfter L p from = Panic x \<Longrightarrow>
     recurrenceFieldSet (CronExpression p) \<and> \<not> cron_Parse L (the (CronExpression p))"
  by (auto simp: nextRecurrenceAfter_def cron_must_next_def nextStartFromRRule_no_panic
      split: if_splits outcome.splits)

lemma shiftRecurrence_no_panic: "shiftRecurrenceFromCompletion L parent clock completedAt \<noteq> Panic x"
proof (cases "recurrenceFieldSet (CronExpression parent)")
  case True
  then show ?thesis
    by (auto simp: shiftRecurrenceFromCompletion_def Let_def shift_next_def
        dest!: nextRecurrenceAfter_panic split: option.splits outcome.splits)
next
  case False
  then show ?thesis
    by (auto simp: shiftRecurrenceFromCompletion_def Let_def shift_next_def
        dest!: nextRecurrenceAfter_panic split: option.splits outcome.splits)
qed

lemma shiftRecurrence_rejects:
  "\<not> hasRecurrenceRule parent \<or>
   (recurrenceFieldSet (CronExpression parent) \<and> recurrenceFieldSet (RRule parent)) \<Longrightarrow>
   shiftRecurrenceFromCompletion L parent clock completedAt = Err errRecurrenceNotShiftable"
  by (auto simp: shiftRecurrenceFromCompletion_def)

end
