(* ===== verification/Calendar_Models.thy ===== *)
theory Calendar_Models
  imports Models Recurrence
begin

text \<open>
  The data of the calendar synchronisation: bindings, accounts and outbox items
  (\<open>internal/models/calendar_binding.go\<close>, \<open>google_account.go\<close>, \<open>sync_outbox.go\<close>), the events of the
  Google client (\<open>pkg/googlecalendar/client.go\<close>), and the reading of an all-day date, which the code
  leaves to \<open>time.ParseInLocation\<close>.

  The JSON payload of an outbox item is the record of its four fields; a field that was not written
  reads back as zero.  A map of strings is a list of keys with values.  \<open>cb_DeletedAt\<close> is the column of
  the row: null while the binding is live (the struct field is never read).
\<close>

subsection \<open>Bindings\<close>

definition CalendarBindingDirectionImport :: string where "CalendarBindingDirectionImport = ''import''"
definition CalendarBindingDirectionExport :: string where "CalendarBindingDirectionExport = ''export''"
definition CalendarBindingDirectionBoth :: string where "CalendarBindingDirectionBoth = ''both''"

definition CalendarBindingStatusActive :: string where "CalendarBindingStatusActive = ''active''"
definition CalendarBindingStatusError :: string where "CalendarBindingStatusError = ''error''"
definition CalendarBindingStatusDisconnected :: string where
  "CalendarBindingStatusDisconnected = ''disconnected''"

definition CalendarDeletePolicySoftDeleteImported :: string where
  "CalendarDeletePolicySoftDeleteImported = ''soft_delete_imported''"
definition CalendarDeletePolicyMuteImported :: string where
  "CalendarDeletePolicyMuteImported = ''mute_imported''"
definition CalendarDeletePolicyKeep :: string where "CalendarDeletePolicyKeep = ''keep''"

lemmas direction_defs = CalendarBindingDirectionImport_def CalendarBindingDirectionExport_def
  CalendarBindingDirectionBoth_def
lemmas policy_defs = CalendarDeletePolicySoftDeleteImported_def CalendarDeletePolicyMuteImported_def
  CalendarDeletePolicyKeep_def

record calendar_binding =
  cb_ID :: int
  cb_UserID :: int
  cb_GoogleAccountID :: int
  cb_GoogleCalendarID :: string
  cb_CalendarSummary :: "string option"
  cb_Direction :: string
  cb_GroupID :: "int option"
  cb_MessengerRelatedUserID :: "int option"
  cb_SyncToken :: "string option"
  cb_LastSyncedAt :: "time option"
  cb_LastError :: "string option"
  cb_Status :: string
  cb_DeletePolicy :: string
  cb_SyncAttempts :: int
  cb_NextRetryAt :: "time option"
  cb_CreatedAt :: time
  cb_UpdatedAt :: time
  cb_DeletedAt :: "time option"

record google_account =
  ga_ID :: int
  ga_UserID :: int
  ga_GoogleSub :: string
  ga_Email :: string
  ga_AccessTokenEnc :: string
  ga_RefreshTokenEnc :: string
  ga_TokenExpiry :: time
  ga_Scopes :: string
  ga_RevokedAt :: "time option"
  ga_CreatedAt :: time
  ga_UpdatedAt :: time

subsection \<open>The outbox\<close>

definition SyncOutboxStatusPending :: string where "SyncOutboxStatusPending = ''pending''"
definition SyncOutboxStatusProcessing :: string where "SyncOutboxStatusProcessing = ''processing''"
definition SyncOutboxStatusDone :: string where "SyncOutboxStatusDone = ''done''"
definition SyncOutboxStatusFailed :: string where "SyncOutboxStatusFailed = ''failed''"

lemmas outbox_status_defs = SyncOutboxStatusPending_def SyncOutboxStatusProcessing_def
  SyncOutboxStatusDone_def SyncOutboxStatusFailed_def

lemma outbox_status_distinct [simp]:
  "SyncOutboxStatusPending \<noteq> SyncOutboxStatusProcessing" "SyncOutboxStatusPending \<noteq> SyncOutboxStatusDone"
  "SyncOutboxStatusPending \<noteq> SyncOutboxStatusFailed" "SyncOutboxStatusProcessing \<noteq> SyncOutboxStatusPending"
  "SyncOutboxStatusDone \<noteq> SyncOutboxStatusPending" "SyncOutboxStatusFailed \<noteq> SyncOutboxStatusPending"
  "SyncOutboxStatusProcessing \<noteq> SyncOutboxStatusDone" "SyncOutboxStatusProcessing \<noteq> SyncOutboxStatusFailed"
  "SyncOutboxStatusDone \<noteq> SyncOutboxStatusFailed" "SyncOutboxStatusDone \<noteq> SyncOutboxStatusProcessing"
  "SyncOutboxStatusFailed \<noteq> SyncOutboxStatusDone" "SyncOutboxStatusFailed \<noteq> SyncOutboxStatusProcessing"
  by (simp_all add: outbox_status_defs)

record outboxPayload =
  pl_TaskID :: int
  pl_BindingID :: int
  pl_LinkID :: int
  pl_Action :: string

record sync_outbox =
  ob_ID :: int
  ob_Kind :: string
  ob_Payload :: outboxPayload
  ob_Attempts :: int
  ob_NextRetryAt :: time
  ob_LastError :: "string option"
  ob_Status :: string
  ob_CreatedAt :: time
  ob_UpdatedAt :: time

subsection \<open>Events\<close>

definition PrivateExtendedPropertyTaskID :: string where
  "PrivateExtendedPropertyTaskID = ''goreminder_task_id''"

record event_date_time =
  dt_DateTime :: "time option"
  dt_Date :: string
  dt_TimeZone :: string

record event =
  e_ID :: string
  e_Summary :: string
  e_Description :: string
  e_Start :: event_date_time
  e_End :: event_date_time
  e_Status :: string
  e_ETag :: string
  e_Updated :: time
  e_Recurrence :: "string list"
  e_ExtendedProperties :: "(string \<times> string) list option"

record calendar =
  cal_ID :: string
  cal_Summary :: string
  cal_Primary :: bool

record list_events_opts =
  lo_SyncToken :: string
  lo_TimeMin :: "time option"
  lo_TimeMax :: "time option"
  lo_PageToken :: string
  lo_MaxResults :: int

record event_list_result =
  lr_Events :: "event list"
  lr_NextPageToken :: string
  lr_NextSyncToken :: string

subsection \<open>All-day dates\<close>

text \<open>\<open>time.ParseInLocation("2006-01-02", s, time.UTC)\<close>: four, two and two digits with two dashes,
  a month and a day of that month.\<close>

definition parse_date :: "string \<Rightarrow> time option" where
  "parse_date s =
     (if length s \<noteq> 10 \<or> s ! 4 \<noteq> CHR ''-'' \<or> s ! 7 \<noteq> CHR ''-'' \<or>
         \<not> list_all is_digit (take 4 s @ take 2 (drop 5 s) @ drop 8 s) then None
      else
      (let y = int (digits_value (take 4 s)); m = int (digits_value (take 2 (drop 5 s)));
           d = int (digits_value (drop 8 s)) in
       if 1 \<le> m \<and> m \<le> 12 \<and> 1 \<le> d \<and> d \<le> month_lengths (is_leap y) ! nat (m - 1)
       then Some (Date y m d 0 0 0) else None))"

text \<open>\<open>a.Sub(b)\<close> stops at the ends of the 64-bit range.\<close>

definition time_Sub :: "time \<Rightarrow> time \<Rightarrow> int" where
  "time_Sub a b = max (- (2 ^ 63)) (min (2 ^ 63 - 1) (a - b))"

text \<open>\<open>int(d.Seconds())\<close> drops the fraction.\<close>

definition whole_seconds :: "int \<Rightarrow> int" where
  "whole_seconds d = (if d < 0 then - ((- d) div second_ns) else d div second_ns)"

subsection \<open>Lower case\<close>

text \<open>\<open>strings.ToLower\<close> as far as a comparison with an ASCII word can see: the ASCII letters, the
  capital i with a dot and the Kelvin sign.\<close>

definition lower_byte :: "char \<Rightarrow> char" where
  "lower_byte c = (let n = of_char c :: nat in if 65 \<le> n \<and> n \<le> 90 then char_of (n + 32) else c)"

fun to_lower :: "string \<Rightarrow> string" where
  "to_lower [] = []"
| "to_lower (c # s) =
     (if prefix (map char_of [196, 176 :: nat]) (c # s) then CHR ''i'' # to_lower (drop 1 s)
      else if prefix (map char_of [226, 132, 170 :: nat]) (c # s) then CHR ''k'' # to_lower (drop 2 s)
      else lower_byte c # to_lower s)"

end
