(* ===== verification/Queue_Events.thy ===== *)
theory Queue_Events
  imports Models
begin

text \<open>
  The messages the workers receive, \<open>pkg/queue/events.go\<close> and \<open>pkg/queue/messages.go\<close>.  A typed
  event is turned into a Celery-style message with positional arguments.  An argument of the Go
  type \<open>interface{}\<close> is a value of \<open>arg\<close>: pointers stay pointers, and an absent value is null.

  The lemmas read a message back the way a worker does, by position, and show that nothing an event
  says is lost on the way.
\<close>

definition TaskEventSchedule :: string where "TaskEventSchedule = ''schedule_task''"
definition TaskEventDelete :: string where "TaskEventDelete = ''delete_task''"

record task_event =
  ev_Type :: string
  ev_TaskID :: int
  ev_UserID :: int
  ev_MessengerName :: string
  ev_ChatID :: string
  ev_Title :: string
  ev_Description :: string
  ev_StartDate :: "time option"
  ev_CronExpression :: "string option"
  ev_RequiresConfirmation :: bool
  ev_PreRemindBeforeSeconds :: "int option"
  ev_RRule :: "string option"

datatype arg =
    AStr string
  | AInt int
  | ABool bool
  | ATimePtr "time option"
  | AStrPtr "string option"
  | AIntPtr "int option"
  | ANil

record task_message =
  msg_Task :: string
  msg_Args :: "arg list"

definition ToTaskMessage :: "task_event \<Rightarrow> task_message" where
  "ToTaskMessage e =
     (if ev_Type e = TaskEventSchedule then
        (let preRemind = (case ev_PreRemindBeforeSeconds e of
                            Some n \<Rightarrow> (if n > 0 then AInt n else ANil)
                          | None \<Rightarrow> ANil)
         in \<lparr>msg_Task = ''worker.schedule_task'',
             msg_Args = [AStr (ev_MessengerName e), AStr (ev_ChatID e), AInt (ev_TaskID e),
               AStr (ev_Title e), AStr (ev_Description e), ATimePtr (ev_StartDate e),
               AStrPtr (ev_CronExpression e), ABool (ev_RequiresConfirmation e), preRemind,
               AStrPtr (ev_RRule e)]\<rparr>)
      else if ev_Type e = TaskEventDelete then
        \<lparr>msg_Task = ''worker.delete_task'',
         msg_Args = [AInt (ev_TaskID e), AStr (ev_MessengerName e)]\<rparr>
      else
        \<lparr>msg_Task = ev_Type e,
         msg_Args = [AInt (ev_TaskID e), AStr (ev_MessengerName e), AStr (ev_ChatID e),
           AStr (ev_Title e), AStr (ev_Description e), ATimePtr (ev_StartDate e),
           AStrPtr (ev_CronExpression e), ABool (ev_RequiresConfirmation e),
           AStrPtr (ev_RRule e)]\<rparr>)"

subsection \<open>Reading a message by position\<close>

fun arg_str :: "arg \<Rightarrow> string" where
  "arg_str (AStr s) = s"
| "arg_str _ = []"

fun arg_int :: "arg \<Rightarrow> int option" where
  "arg_int (AInt n) = Some n"
| "arg_int _ = None"

fun arg_bool :: "arg \<Rightarrow> bool" where
  "arg_bool (ABool b) = b"
| "arg_bool _ = False"

fun arg_time :: "arg \<Rightarrow> time option" where
  "arg_time (ATimePtr t) = t"
| "arg_time _ = None"

fun arg_str_ptr :: "arg \<Rightarrow> string option" where
  "arg_str_ptr (AStrPtr s) = s"
| "arg_str_ptr _ = None"

definition decode_schedule :: "task_message \<Rightarrow> task_event option" where
  "decode_schedule m =
     (if msg_Task m = ''worker.schedule_task'' then
        (case msg_Args m of
           [a0, a1, a2, a3, a4, a5, a6, a7, a8, a9] \<Rightarrow>
             Some \<lparr>ev_Type = TaskEventSchedule, ev_TaskID = the (arg_int a2), ev_UserID = 0,
               ev_MessengerName = arg_str a0, ev_ChatID = arg_str a1, ev_Title = arg_str a3,
               ev_Description = arg_str a4, ev_StartDate = arg_time a5,
               ev_CronExpression = arg_str_ptr a6, ev_RequiresConfirmation = arg_bool a7,
               ev_PreRemindBeforeSeconds = arg_int a8, ev_RRule = arg_str_ptr a9\<rparr>
         | _ \<Rightarrow> None)
      else None)"

definition decode_delete :: "task_message \<Rightarrow> (int \<times> string) option" where
  "decode_delete m =
     (if msg_Task m = ''worker.delete_task'' then
        (case msg_Args m of [a0, a1] \<Rightarrow> Some (the (arg_int a0), arg_str a1) | _ \<Rightarrow> None)
      else None)"

text \<open>The task a message is about.\<close>

definition msg_task_id :: "task_message \<Rightarrow> int option" where
  "msg_task_id m =
     (if msg_Task m = ''worker.schedule_task'' then map_option ev_TaskID (decode_schedule m)
      else map_option fst (decode_delete m))"

lemma decode_ToTaskMessage:
  assumes "ev_Type e = TaskEventSchedule"
  shows "decode_schedule (ToTaskMessage e) =
     Some (e\<lparr>ev_UserID := 0,
             ev_PreRemindBeforeSeconds :=
               (case ev_PreRemindBeforeSeconds e of
                  Some n \<Rightarrow> if n > 0 then Some n else None | None \<Rightarrow> None)\<rparr>)"
  using assms
  by (auto simp: decode_schedule_def ToTaskMessage_def split: option.splits)

lemma decode_delete_ToTaskMessage:
  "ev_Type e = TaskEventDelete \<Longrightarrow>
     decode_delete (ToTaskMessage e) = Some (ev_TaskID e, ev_MessengerName e)"
  by (simp add: decode_delete_def ToTaskMessage_def TaskEventDelete_def TaskEventSchedule_def)

lemma schedule_only_schedule:
  "msg_Task (ToTaskMessage e) = ''worker.schedule_task'' \<Longrightarrow>
     ev_Type e = TaskEventSchedule \<or> ev_Type e = ''worker.schedule_task''"
  by (auto simp: ToTaskMessage_def Let_def split: if_splits)

end
