(* ===== verification/World.thy ===== *)
theory World
  imports Models Queue_Events
begin

text \<open>
  The state the services act on: the tables of the database, the transaction that is open, the
  messages that have reached the broker, the calls that have reached the calendar hook and the
  attachment service, the clock, and what the environment is going to do.

  A pooled statement reads and writes the committed rows \<open>tasks\<close>.  A statement of the open
  transaction sees the committed rows under \<open>tx\<close>, the rows the transaction has written (newest
  first); a commit merges them.  A pooled \<open>UPDATE\<close> of a row the open transaction has written waits
  for a lock its own request holds: it returns only when the context is cancelled, which also rolls
  the transaction back, and every later call of the request fails.

  Every call that leaves the process takes the next entry of \<open>faults\<close> and fails, without effect,
  if it is true; every \<open>time.Now()\<close> takes the next entry of \<open>ticks\<close> and moves the clock on by that
  many microseconds, the resolution of the database.  A theorem that quantifies over all states
  therefore quantifies over all patterns of failures and all clocks.  One request runs at a time.
\<close>

subsection \<open>The state\<close>

record row =
  r_task :: task
  r_updated_at :: "time option"
  r_deleted_at :: "time option"

record user_row =
  ur_user :: user
  ur_deleted :: bool

record user_messenger_row =
  um_related :: messenger_related_user
  um_deleted :: bool

record world =
  tasks :: "row list"
  tx :: "row list option"
  cancelled :: bool
  next_id :: int
  users :: "user_row list"
  messengers :: "messenger list"
  user_messengers :: "user_messenger_row list"
  sync_links :: "task_sync_link list"
  history :: "task_history list"
  queue :: "task_message list"
  exports :: "(int \<times> string) list"
  purges :: "(int \<times> int list) list"
  clock :: time
  ticks :: "nat list"
  faults :: "bool list"

type_synonym 'a wop = "(world, 'a) op"

subsection \<open>The clock and the outside\<close>

definition tick :: "world \<Rightarrow> world" where
  "tick w = w\<lparr>clock := clock w + 1000 * int (case ticks w of [] \<Rightarrow> 0 | n # _ \<Rightarrow> n),
              ticks := tl (ticks w)\<rparr>"

text \<open>\<open>time.Now().UTC()\<close>.\<close>

definition time_Now :: "time wop" where
  "time_Now = (\<lambda>w. (Ok (clock (tick w)), tick w))"

text \<open>A call that leaves the process; \<open>text\<close> is what its error is wrapped with.\<close>

definition external :: "string \<Rightarrow> unit wop" where
  "external text = (\<lambda>w.
     if cancelled w then (Err (ErrOther ''context canceled''), w)
     else (case faults w of
             [] \<Rightarrow> (Ok (), w)
           | f # fs \<Rightarrow> (if f then Err (ErrOther text) else Ok (), w\<lparr>faults := fs\<rparr>)))"

subsection \<open>Rows\<close>

definition row_id :: "row \<Rightarrow> int" where "row_id r = ID (r_task r)"

definition live :: "row \<Rightarrow> bool" where "live r \<longleftrightarrow> r_deleted_at r = None"

text \<open>A row as the transaction that wrote \<open>ov\<close> sees it.\<close>

definition tx_view :: "row list \<Rightarrow> row \<Rightarrow> row" where
  "tx_view ov r = (case find (\<lambda>v. row_id v = row_id r) ov of Some v \<Rightarrow> v | None \<Rightarrow> r)"

definition update_rows :: "(row \<Rightarrow> bool) \<Rightarrow> (row \<Rightarrow> row) \<Rightarrow> row list \<Rightarrow> row list" where
  "update_rows P f rs = map (\<lambda>r. if P r then f r else r) rs"

text \<open>Does the open transaction hold a row that a pooled statement has to lock?\<close>

definition lock_held :: "world \<Rightarrow> (row \<Rightarrow> bool) \<Rightarrow> bool" where
  "lock_held w P = (case tx w of
      None \<Rightarrow> False
    | Some ov \<Rightarrow> list_ex (\<lambda>r. P r \<and> list_ex (\<lambda>v. row_id v = row_id r) ov) (tasks w))"

definition wait_for_cancel :: "world \<Rightarrow> world" where
  "wait_for_cancel w = w\<lparr>tx := None, cancelled := True\<rparr>"

subsection \<open>Statements\<close>

text \<open>\<open>SELECT\<close> of one row, of many rows, \<open>UPDATE\<close> and \<open>INSERT ... RETURNING id\<close> on the pool.\<close>

definition pool_get :: "(row \<Rightarrow> bool) \<Rightarrow> string \<Rightarrow> string \<Rightarrow> task wop" where
  "pool_get P missing failure =
     bindE (external failure) (\<lambda>_.
     bindE (gets tasks) (\<lambda>rs.
     case find P rs of Some r \<Rightarrow> ret (r_task r) | None \<Rightarrow> fail (ErrNotFound missing)))"

definition pool_select :: "(world \<Rightarrow> row \<Rightarrow> bool) \<Rightarrow> string \<Rightarrow> task list wop" where
  "pool_select P failure =
     bindE (external failure) (\<lambda>_. gets (\<lambda>w. map r_task (filter (P w) (tasks w))))"

definition pool_write :: "(row \<Rightarrow> bool) \<Rightarrow> (row \<Rightarrow> row) \<Rightarrow> string \<Rightarrow> unit wop" where
  "pool_write P f failure =
     bindE (external failure) (\<lambda>_ w.
       if lock_held w P then (Err (ErrOther (failure @ '': context canceled'')), wait_for_cancel w)
       else (Ok (), w\<lparr>tasks := update_rows P f (tasks w)\<rparr>))"

definition pool_insert :: "(int \<Rightarrow> time \<Rightarrow> row) \<Rightarrow> string \<Rightarrow> int wop" where
  "pool_insert f failure =
     bindE (external failure) (\<lambda>_ w.
       (Ok (next_id w), w\<lparr>tasks := tasks w @ [f (next_id w) (clock w)], next_id := next_id w + 1\<rparr>))"

definition tx_done :: string where
  "tx_done = ''sql: transaction has already been committed or rolled back''"

definition tx_write :: "(row \<Rightarrow> bool) \<Rightarrow> (row \<Rightarrow> row) \<Rightarrow> string \<Rightarrow> unit wop" where
  "tx_write P f failure =
     bindE (external failure) (\<lambda>_ w.
       case tx w of
         None \<Rightarrow> (Err (ErrOther (failure @ '': '' @ tx_done)), w)
       | Some ov \<Rightarrow>
           (Ok (), w\<lparr>tx := Some (map f (filter P (map (tx_view ov) (tasks w))) @ ov)\<rparr>))"

text \<open>\<open>BeginTxx\<close>, \<open>Commit\<close> and \<open>Rollback\<close>.  A transaction is over after a commit that failed.\<close>

definition BeginTxx :: "unit wop" where
  "BeginTxx = bindE (external ''failed to begin transaction'') (\<lambda>_. modify (\<lambda>w. w\<lparr>tx := Some []\<rparr>))"

definition Rollback :: "world \<Rightarrow> world" where
  "Rollback w = w\<lparr>tx := None\<rparr>"

definition merge_tx :: "world \<Rightarrow> world" where
  "merge_tx w = (case tx w of
      None \<Rightarrow> w
    | Some ov \<Rightarrow> w\<lparr>tasks := map (tx_view ov) (tasks w), tx := None\<rparr>)"

definition Commit :: "unit wop" where
  "Commit =
     bindE (attempt (external ''failed to commit transaction'')) (\<lambda>r w.
       case r of
         Inl e \<Rightarrow> (Err e, Rollback w)
       | Inr _ \<Rightarrow>
           (if tx w = None then (Err (ErrOther (''failed to commit transaction: '' @ tx_done)), w)
            else (Ok (), merge_tx w)))"

end
