(* ===== verification/Calendar_Fields.thy ===== *)
theory Calendar_Fields
  imports Calendar_Models World
begin

text \<open>
  The pure part of the calendar synchronisation: \<open>internal/service/calendar_sync_helpers.go\<close> and the
  snapshots of \<open>calendar_sync_history.go\<close>.  Reading an event (start, end, duration, rule), writing
  one, the translation of a cron expression to an RRULE, the retry delays, and the small decisions
  the import and the export share.  \<open>cron.ParseStandard\<close> is the parameter \<open>standard\<close>.

  Its lemmas are in \<open>Calendar_Translation\<close>.
\<close>

subsection \<open>Retry delays\<close>

definition OutboxKindExportUpsert :: string where "OutboxKindExportUpsert = ''export_upsert''"
definition OutboxKindExportDelete :: string where "OutboxKindExportDelete = ''export_delete''"

definition maxOutboxAttempts :: int where "maxOutboxAttempts = 8"
definition MaxBindingSyncAttempts :: int where "MaxBindingSyncAttempts = 8"

definition outboxBackoffSteps :: "int list" where
  "outboxBackoffSteps = [1 * minute_ns, 5 * minute_ns, 30 * minute_ns, 2 * hour_ns]"

definition OutboxBackoff :: "int \<Rightarrow> int" where
  "OutboxBackoff attempts =
     (if attempts \<le> 0 then outboxBackoffSteps ! 0
      else (let idx = attempts - 1 in
        if idx \<ge> int (length outboxBackoffSteps)
        then outboxBackoffSteps ! (length outboxBackoffSteps - 1)
        else outboxBackoffSteps ! nat idx))"

definition BindingSyncBackoff :: "int \<Rightarrow> int" where
  "BindingSyncBackoff attempts = OutboxBackoff attempts"

subsection \<open>Reading an event\<close>

definition EventStartTime :: "event \<Rightarrow> time outcome" where
  "EventStartTime ev =
     (case dt_DateTime (e_Start ev) of
        Some t \<Rightarrow> Ok t
      | None \<Rightarrow>
          (if dt_Date (e_Start ev) \<noteq> [] then
             (case parse_date (dt_Date (e_Start ev)) of
                Some t \<Rightarrow> Ok t
              | None \<Rightarrow> Err (ErrOther ''parse all-day start''))
           else Err (ErrOther ''event has no start'')))"

definition EventEndTime :: "event \<Rightarrow> time option" where
  "EventEndTime ev =
     (case dt_DateTime (e_End ev) of
        Some t \<Rightarrow> Some t
      | None \<Rightarrow> (if dt_Date (e_End ev) \<noteq> [] then parse_date (dt_Date (e_End ev)) else None))"

definition EventDurationSeconds :: "event \<Rightarrow> int option" where
  "EventDurationSeconds ev =
     (case EventStartTime ev of
        Ok start \<Rightarrow>
          (case EventEndTime ev of
             None \<Rightarrow> None
           | Some e \<Rightarrow> (let secs = whole_seconds (time_Sub e start) in if secs < 0 then None else Some secs))
      | _ \<Rightarrow> None)"

fun RecurrenceToRRule :: "string list \<Rightarrow> string option" where
  "RecurrenceToRRule [] = None"
| "RecurrenceToRRule (line # rest) =
     (if prefix ''RRULE:'' (to_upper (trim_space line)) then
        (let rule = trim_space (drop (length ''RRULE:'') line) in
         if rule = [] then RecurrenceToRRule rest else Some rule)
      else RecurrenceToRRule rest)"

definition RRuleToRecurrence :: "string option \<Rightarrow> string list" where
  "RRuleToRecurrence rrule =
     (case rrule of
        None \<Rightarrow> []
      | Some r \<Rightarrow>
          (if trim_space r = [] then []
           else (let rule = trim_space r in
             if prefix ''RRULE:'' (to_upper rule) then [rule] else [''RRULE:'' @ rule])))"

definition TaskIDFromExtendedProperties :: "(string \<times> string) list option \<Rightarrow> int option" where
  "TaskIDFromExtendedProperties props =
     (case props of
        None \<Rightarrow> None
      | Some ps \<Rightarrow>
          (case map_of ps PrivateExtendedPropertyTaskID of
             None \<Rightarrow> None
           | Some raw \<Rightarrow> (if raw = [] then None else atoi raw)))"

subsection \<open>Cron expressions as RRULEs\<close>

definition cronDowByDay :: "string list" where
  "cronDowByDay = [''SU'', ''MO'', ''TU'', ''WE'', ''TH'', ''FR'', ''SA'']"

text \<open>A comma list of numbers and ranges; the pieces are read from left to right.\<close>

fun expand_pieces :: "int \<Rightarrow> int \<Rightarrow> string list \<Rightarrow> int list option" where
  "expand_pieces lo hi [] = Some []"
| "expand_pieces lo hi (p # ps) =
     (let piece = trim_space p in
      if piece = [] then None
      else if CHR ''-'' \<in> set piece then
        (case split_char (CHR ''-'') piece of
           [a, b] \<Rightarrow>
             (case (atoi (trim_space a), atoi (trim_space b)) of
                (Some rangeLo, Some rangeHi) \<Rightarrow>
                  (if rangeLo > rangeHi \<or> rangeLo < lo \<or> rangeHi > hi then None
                   else map_option (\<lambda>ns. [rangeLo..rangeHi] @ ns) (expand_pieces lo hi ps))
              | _ \<Rightarrow> None)
         | _ \<Rightarrow> None)
      else
        (case atoi piece of
           None \<Rightarrow> None
         | Some n \<Rightarrow> (if n < lo \<or> n > hi then None
                      else map_option (\<lambda>ns. n # ns) (expand_pieces lo hi ps))))"

definition expandCronIntList :: "string \<Rightarrow> int \<Rightarrow> int \<Rightarrow> int list option" where
  "expandCronIntList field lo hi =
     (if field = ''*'' \<or> prefix ''*/'' field then None
      else expand_pieces lo hi (split_char (CHR '','') field))"

definition cronFieldToCSV :: "string \<Rightarrow> int \<Rightarrow> int \<Rightarrow> string option" where
  "cronFieldToCSV field lo hi =
     (case expandCronIntList field lo hi of
        None \<Rightarrow> None
      | Some parts \<Rightarrow> (if parts = [] then None else Some (join '','' (map itoa parts))))"

definition cronDowTokenToNumber :: "string \<Rightarrow> int option" where
  "cronDowTokenToNumber t =
     (let tok = to_lower (trim_space t) in
      if tok \<in> set [''0'', ''7'', ''sun'', ''sunday''] then Some 0
      else if tok \<in> set [''1'', ''mon'', ''monday''] then Some 1
      else if tok \<in> set [''2'', ''tue'', ''tuesday''] then Some 2
      else if tok \<in> set [''3'', ''wed'', ''wednesday''] then Some 3
      else if tok \<in> set [''4'', ''thu'', ''thursday''] then Some 4
      else if tok \<in> set [''5'', ''fri'', ''friday''] then Some 5
      else if tok \<in> set [''6'', ''sat'', ''saturday''] then Some 6
      else (case atoi tok of
              None \<Rightarrow> None
            | Some n \<Rightarrow> (if n < 0 \<or> n > 7 then None else Some n)))"

fun dow_pieces :: "string list \<Rightarrow> int list option" where
  "dow_pieces [] = Some []"
| "dow_pieces (p # ps) =
     (let piece = trim_space p in
      if piece = [] then None
      else if CHR ''-'' \<in> set piece then
        (case split_char (CHR ''-'') piece of
           [a, b] \<Rightarrow>
             (case (cronDowTokenToNumber a, cronDowTokenToNumber b) of
                (Some lo, Some hi) \<Rightarrow>
                  (if lo > hi then None else map_option (\<lambda>ns. [lo..hi] @ ns) (dow_pieces ps))
              | _ \<Rightarrow> None)
         | _ \<Rightarrow> None)
      else
        (case cronDowTokenToNumber piece of
           None \<Rightarrow> None
         | Some n \<Rightarrow> map_option (\<lambda>ns. n # ns) (dow_pieces ps)))"

text \<open>The names in the order of the numbers, each once.\<close>

fun dow_names :: "int list \<Rightarrow> string list \<Rightarrow> string list option" where
  "dow_names [] names = Some names"
| "dow_names (n # ns) names =
     (let n = (if n = 7 then 0 else n) in
      if n < 0 \<or> n > 6 then None
      else (let name = cronDowByDay ! nat n in
        if name \<in> set names then dow_names ns names else dow_names ns (names @ [name])))"

definition cronDowToByDay :: "string \<Rightarrow> string option" where
  "cronDowToByDay field =
     (if field = ''*'' \<or> prefix ''*/'' field then None
      else (case dow_pieces (split_char (CHR '','') field) of
              None \<Rightarrow> None
            | Some nums \<Rightarrow>
                (if nums = [] then None else map_option (join '','') (dow_names nums []))))"

definition cron_rule :: "string \<Rightarrow> string \<Rightarrow> string \<Rightarrow> string option" where
  "cron_rule mday month dow =
     (if mday = ''*'' \<and> month = ''*'' \<and> dow = ''*'' then Some ''FREQ=DAILY''
      else if mday = ''*'' \<and> month = ''*'' \<and> dow \<noteq> ''*'' then
        map_option (\<lambda>byday. ''FREQ=WEEKLY;BYDAY='' @ byday) (cronDowToByDay dow)
      else if mday \<noteq> ''*'' \<and> month = ''*'' \<and> dow = ''*'' then
        map_option (\<lambda>byMonthDay. ''FREQ=MONTHLY;BYMONTHDAY='' @ byMonthDay) (cronFieldToCSV mday 1 31)
      else if mday \<noteq> ''*'' \<and> month \<noteq> ''*'' \<and> dow = ''*'' then
        (case cronFieldToCSV mday 1 31 of
           None \<Rightarrow> None
         | Some byMonthDay \<Rightarrow>
             map_option (\<lambda>byMonth. ''FREQ=YEARLY;BYMONTH='' @ byMonth @ '';BYMONTHDAY='' @ byMonthDay)
               (cronFieldToCSV month 1 12))
      else None)"

definition CronExpressionToRRule :: "(string \<Rightarrow> bool) \<Rightarrow> string \<Rightarrow> string option" where
  "CronExpressionToRRule standard expr =
     (let cronExpr = trim_space expr in
      if cronExpr = [] then None
      else if \<not> standard cronExpr then None
      else (case split_fields cronExpr of
              [minute, hour, mday, month, dow] \<Rightarrow>
                (if prefix ''*/'' minute \<or> prefix ''*/'' hour then None
                 else if contains_any ''-,'' minute \<or> contains_any ''-,'' hour then None
                 else cron_rule mday month dow)
            | _ \<Rightarrow> None))"

subsection \<open>Events and tasks\<close>

definition untitled :: string where "untitled = ''(untitled event)''"

text \<open>The task an event describes, at the instant \<open>now\<close> and with the start that was found.\<close>

definition event_task ::
  "event \<Rightarrow> time \<Rightarrow> time \<Rightarrow> int \<Rightarrow> int option \<Rightarrow> int option \<Rightarrow> task" where
  "event_task ev start now userID groupID mru =
     (let title = trim_space (e_Summary ev);
          t = zero_task\<lparr>Title := (if title = [] then untitled else title),
                Description := e_Description ev, UserID := userID, GroupID := groupID,
                MessengerRelatedUserID := mru, StartDate := start,
                RRule := RecurrenceToRRule (e_Recurrence ev)\<rparr> in
      if start > now then t\<lparr>Status := TaskStatusScheduled\<rparr>
      else t\<lparr>Status := TaskStatusDone,
             FinishDate := Some (case EventEndTime ev of
                 Some e \<Rightarrow> (if \<not> e > now then e else if \<not> start > now then start else now)
               | None \<Rightarrow> (if \<not> start > now then start else now))\<rparr>)"

definition MapEventToTaskFields ::
  "recur_lib \<Rightarrow> event \<Rightarrow> int \<Rightarrow> int option \<Rightarrow> int option \<Rightarrow> task wop" where
  "MapEventToTaskFields L ev userID groupID mru =
     bindE (lift_outcome (EventStartTime ev)) (\<lambda>start.
     bindE time_Now (\<lambda>now.
     bindE (case RecurrenceToRRule (e_Recurrence ev) of
              None \<Rightarrow> ret start
            | Some rrule \<Rightarrow>
                (if start > now then ret start
                 else bindE (attempt (lift_outcome (nextStartFromRRule L now rrule start))) (\<lambda>r.
                   ret (case r of Inl _ \<Rightarrow> start | Inr next \<Rightarrow> next)))) (\<lambda>start.
     ret (event_task ev start now userID groupID mru))))"

definition keepExportedReminderOpen :: "string \<Rightarrow> string \<Rightarrow> bool" where
  "keepExportedReminderOpen origin mappedStatus \<longleftrightarrow>
     origin = TaskSyncLinkOriginExported \<and> mappedStatus = TaskStatusDone"

definition applyImportedDeliveryChat :: "task \<Rightarrow> int option \<Rightarrow> task" where
  "applyImportedDeliveryChat t bindingMRU =
     (if MessengerRelatedUserID t \<noteq> None \<or> bindingMRU = None then t
      else t\<lparr>MessengerRelatedUserID := bindingMRU\<rparr>)"

definition ApplyDeletePolicy :: "string \<Rightarrow> bool \<times> bool" where
  "ApplyDeletePolicy policy =
     (if policy = CalendarDeletePolicyMuteImported then (False, True)
      else if policy = CalendarDeletePolicyKeep then (False, False)
      else (True, False))"

definition bindingAllowsTaskExport :: "string \<Rightarrow> bool" where
  "bindingAllowsTaskExport direction \<longleftrightarrow>
     direction = CalendarBindingDirectionExport \<or> direction = CalendarBindingDirectionBoth"

definition ShouldExportTask :: "task \<Rightarrow> bool" where
  "ShouldExportTask t \<longleftrightarrow> ParentID t = None"

definition taskMatchesExportBindingGroup :: "task \<Rightarrow> calendar_binding \<Rightarrow> bool" where
  "taskMatchesExportBindingGroup t b \<longleftrightarrow>
     (case cb_GroupID b of None \<Rightarrow> True | Some g \<Rightarrow> GroupID t = Some g)"

definition no_event :: event where
  "no_event = \<lparr>e_ID = [], e_Summary = [], e_Description = [],
     e_Start = \<lparr>dt_DateTime = None, dt_Date = [], dt_TimeZone = []\<rparr>,
     e_End = \<lparr>dt_DateTime = None, dt_Date = [], dt_TimeZone = []\<rparr>,
     e_Status = [], e_ETag = [], e_Updated = 0, e_Recurrence = [], e_ExtendedProperties = None\<rparr>"

definition BuildExportEvent :: "(string \<Rightarrow> bool) \<Rightarrow> task \<Rightarrow> int \<Rightarrow> int option \<Rightarrow> event" where
  "BuildExportEvent standard t durationMinutes existingDurationSeconds =
     (let durationMinutes = (if durationMinutes \<le> 0 then 30 else durationMinutes);
          start = StartDate t;
          dur = (case existingDurationSeconds of
                   Some s \<Rightarrow> (if s > 0 then Some (duration_of s second_ns) else None)
                 | None \<Rightarrow> None);
          dur = (case dur of
                   Some d \<Rightarrow> d
                 | None \<Rightarrow> (case FinishDate t of
                     Some f \<Rightarrow> (if f > start then time_Sub f start else duration_of durationMinutes minute_ns)
                   | None \<Rightarrow> duration_of durationMinutes minute_ns));
          rrule = (if \<not> recurrenceFieldSet (RRule t) \<and> recurrenceFieldSet (CronExpression t)
                   then CronExpressionToRRule standard (the (CronExpression t)) else RRule t) in
      no_event\<lparr>e_Summary := Title t, e_Description := Description t,
        e_Start := \<lparr>dt_DateTime = Some start, dt_Date = [], dt_TimeZone = ''UTC''\<rparr>,
        e_End := \<lparr>dt_DateTime = Some (start + dur), dt_Date = [], dt_TimeZone = ''UTC''\<rparr>,
        e_Recurrence := RRuleToRecurrence rrule,
        e_ExtendedProperties := Some [(PrivateExtendedPropertyTaskID, itoa (ID t))]\<rparr>)"

subsection \<open>Snapshots\<close>

definition TaskHistorySourceGoogleCalendar :: string where
  "TaskHistorySourceGoogleCalendar = ''google_calendar_import''"

definition calendarTaskHistoryMap :: "task \<Rightarrow> hmap" where
  "calendarTaskHistoryMap t =
     [(''id'', HInt (ID t)), (''title'', HStr (Title t)), (''description'', HStr (Description t)),
      (''status'', HStr (Status t)), (''requires_confirmation'', HBool (RequiresConfirmation t)),
      (''muted'', HBool (Muted t)), (TaskHistorySourceKey, HStr TaskHistorySourceGoogleCalendar)]
     @ (if \<not> IsZero (StartDate t) then [(''start_date'', HTime (StartDate t))] else [])
     @ (case FinishDate t of None \<Rightarrow> [] | Some f \<Rightarrow> [(''finish_date'', HTime f)])
     @ (case CronExpression t of None \<Rightarrow> [] | Some c \<Rightarrow> [(''cron_expression'', HStr c)])
     @ (case RRule t of None \<Rightarrow> [] | Some r \<Rightarrow> [(''rrule'', HStr r)])
     @ (case MessengerRelatedUserID t of None \<Rightarrow> [] | Some i \<Rightarrow> [(''messenger_related_user_id'', HInt i)])
     @ (case ParentID t of None \<Rightarrow> [] | Some i \<Rightarrow> [(''parent_id'', HInt i)])
     @ (case GroupID t of None \<Rightarrow> [] | Some i \<Rightarrow> [(''group_id'', HInt i)])"

definition recurrencePtrsEqual :: "string option \<Rightarrow> string option \<Rightarrow> bool" where
  "recurrencePtrsEqual a b \<longleftrightarrow>
     (case (a, b) of
        (None, None) \<Rightarrow> True
      | (Some x, Some y) \<Rightarrow> x = y
      | _ \<Rightarrow> False)"

text \<open>Two pointers of which one is nil, or whose values differ.\<close>

definition ptr_differs :: "'a option \<Rightarrow> 'a option \<Rightarrow> bool" where
  "ptr_differs a b \<longleftrightarrow>
     (a = None) \<noteq> (b = None) \<or> (case (a, b) of (Some x, Some y) \<Rightarrow> x \<noteq> y | _ \<Rightarrow> False)"

definition calendarImportedFieldsChanged :: "task \<Rightarrow> task \<Rightarrow> bool" where
  "calendarImportedFieldsChanged before after \<longleftrightarrow>
     Title before \<noteq> Title after \<or> Description before \<noteq> Description after \<or>
     StartDate before \<noteq> StartDate after \<or> \<not> recurrencePtrsEqual (RRule before) (RRule after) \<or>
     Status before \<noteq> Status after \<or> ptr_differs (FinishDate before) (FinishDate after) \<or>
     ptr_differs (GroupID before) (GroupID after) \<or>
     ptr_differs (MessengerRelatedUserID before) (MessengerRelatedUserID after) \<or>
     Muted before \<noteq> Muted after"

definition with_source :: "hmap \<Rightarrow> hmap" where
  "with_source m =
     (if TaskHistorySourceKey \<in> fst ` set m
      then map (\<lambda>(k, v). if k = TaskHistorySourceKey then (k, HStr TaskHistorySourceGoogleCalendar) else (k, v)) m
      else m @ [(TaskHistorySourceKey, HStr TaskHistorySourceGoogleCalendar)])"

end
