(* ===== verification/Pre_Remind.thy ===== *)
theory Pre_Remind
  imports Models
begin

text \<open>
  The preliminary reminder of \<open>internal/service/task_pre_remind.go\<close>: an offset in seconds before
  the start date, at most thirty days, where zero in a request clears it.  The lemmas: what a valid
  offset is, that applying a request keeps a task's offset valid and changes no other field, and
  that an offset that was accepted can be subtracted from a start date in 64-bit nanoseconds.
\<close>

definition maxPreRemindBeforeSeconds :: int where
  "maxPreRemindBeforeSeconds = 30 * 24 * 60 * 60"

definition validatePreRemindBeforeSeconds :: "int option \<Rightarrow> err option" where
  "validatePreRemindBeforeSeconds v =
     (case v of
        None \<Rightarrow> None
      | Some n \<Rightarrow>
          (if n < 0 then Some (ErrOther ''pre_remind_before_seconds must be >= 0'')
           else if n > maxPreRemindBeforeSeconds then
             Some (ErrOther (''pre_remind_before_seconds must be <= ''
                             @ itoa maxPreRemindBeforeSeconds @ '' (30 days)''))
           else None))"

text \<open>The task is updated through its pointer; here it is returned, next to the error.\<close>

definition applyPreRemindBeforeSecondsUpdate :: "task \<Rightarrow> int option \<Rightarrow> task \<times> err option" where
  "applyPreRemindBeforeSecondsUpdate task incoming =
     (case incoming of
        None \<Rightarrow> (task, None)
      | Some n \<Rightarrow>
          (case validatePreRemindBeforeSeconds incoming of
             Some e \<Rightarrow> (task, Some e)
           | None \<Rightarrow>
               (if n = 0 then (task\<lparr>PreRemindBeforeSeconds := None\<rparr>, None)
                else (task\<lparr>PreRemindBeforeSeconds := Some n\<rparr>, None))))"

definition preRemindBeforeSecondsEqual :: "int option \<Rightarrow> int option \<Rightarrow> bool" where
  "preRemindBeforeSecondsEqual a b =
     (if a = None \<and> b = None then True
      else if a = None \<or> b = None then False
      else the a = the b)"

definition clonePreRemindBeforeSeconds :: "int option \<Rightarrow> int option" where
  "clonePreRemindBeforeSeconds v =
     (case v of None \<Rightarrow> None | Some n \<Rightarrow> (if n \<le> 0 then None else Some n))"

subsection \<open>Valid offsets\<close>

text \<open>An offset that a stored task may carry: none, or positive and within the cap.\<close>

definition pre_remind_ok :: "int option \<Rightarrow> bool" where
  "pre_remind_ok v = (case v of None \<Rightarrow> True | Some n \<Rightarrow> 0 < n \<and> n \<le> maxPreRemindBeforeSeconds)"

lemma pre_remind_ok_None [simp]: "pre_remind_ok None"
  by (simp add: pre_remind_ok_def)

lemma validatePreRemind_None:
  "validatePreRemindBeforeSeconds v = None \<longleftrightarrow>
     (\<forall>n. v = Some n \<longrightarrow> 0 \<le> n \<and> n \<le> maxPreRemindBeforeSeconds)"
  by (auto simp: validatePreRemindBeforeSeconds_def split: option.splits)

lemma applyPreRemind_ok:
  "applyPreRemindBeforeSecondsUpdate t v = (t', e) \<Longrightarrow> pre_remind_ok (PreRemindBeforeSeconds t) \<Longrightarrow>
     pre_remind_ok (PreRemindBeforeSeconds t')"
  by (auto simp: applyPreRemindBeforeSecondsUpdate_def validatePreRemindBeforeSeconds_def
      pre_remind_ok_def split: option.splits if_splits)

lemma applyPreRemind_frame:
  "applyPreRemindBeforeSecondsUpdate t v = (t', e) \<Longrightarrow>
     \<exists>p. t' = t\<lparr>PreRemindBeforeSeconds := p\<rparr> \<and> (e \<noteq> None \<longrightarrow> t' = t)"
  by (auto simp: applyPreRemindBeforeSecondsUpdate_def split: option.splits if_splits intro: exI [of _ "PreRemindBeforeSeconds t"])

lemma applyPreRemind_value:
  "applyPreRemindBeforeSecondsUpdate t (Some n) = (t', None) \<Longrightarrow>
     PreRemindBeforeSeconds t' = (if n = 0 then None else Some n)"
  by (auto simp: applyPreRemindBeforeSecondsUpdate_def split: option.splits if_splits)

lemma clonePreRemind_ok: "pre_remind_ok v \<Longrightarrow> clonePreRemindBeforeSeconds v = v"
  by (auto simp: pre_remind_ok_def clonePreRemindBeforeSeconds_def split: option.splits)

lemma preRemindEqual_iff [simp]: "preRemindBeforeSecondsEqual a b \<longleftrightarrow> a = b"
  by (cases a; cases b) (auto simp: preRemindBeforeSecondsEqual_def)

lemma pre_remind_duration:
  "pre_remind_ok (Some n) \<Longrightarrow> duration_of n second_ns = n * second_ns"
  by (rule duration_of_exact)
     (simp_all add: pre_remind_ok_def maxPreRemindBeforeSeconds_def second_ns_def)

end
