(* ===== verification/Task_Repository.thy ===== *)
theory Task_Repository
  imports World
begin

text \<open>
  \<open>internal/repository/task_repository.go\<close>: the statements on the table of tasks.  A statement is
  modelled by the rows it selects and the columns it writes; the builder that prints it is not.
  \<open>INSERT\<close> and \<open>UPDATE\<close> write exactly the columns named in the code: an update does not touch the
  owner, the messenger, the creation time and the deletion time of a row.

  What the database does with the text of an \<open>ORDER BY\<close> clause and with letter case is not the
  program's: it is the argument \<open>db_lib\<close>.

  Lemmas: what each statement returns and leaves behind, soft deletion, and the two texts the
  repository builds itself, the stable \<open>ORDER BY\<close> clause and the escaped search pattern.
\<close>

record db_lib =
  order_by :: "string \<Rightarrow> task list \<Rightarrow> task list"
  lower_char :: "char \<Rightarrow> char"

subsection \<open>Creating and reading\<close>

text \<open>The columns of the \<open>INSERT\<close>; the id and the creation time come from the database.\<close>

definition inserted_row :: "task \<Rightarrow> int \<Rightarrow> time \<Rightarrow> row" where
  "inserted_row t i now =
     \<lparr>r_task = t\<lparr>ID := i, CreatedAt := now, DeletedAt := 0, HistorySource := []\<rparr>,
      r_updated_at = None, r_deleted_at = None\<rparr>"

definition repo_CreateTask :: "task \<Rightarrow> int wop" where
  "repo_CreateTask t = pool_insert (inserted_row t) ''failed to insert task''"

definition no_task_found :: string where
  "no_task_found = ''no task found for passed id''"

definition repo_GetTaskByID :: "int \<Rightarrow> task wop" where
  "repo_GetTaskByID i =
     pool_get (\<lambda>r. live r \<and> row_id r = i \<and> Status (r_task r) \<noteq> ''done'')
       no_task_found ''failed to get task by id''"

definition repo_GetTaskByIDWithoutStatusFilter :: "int \<Rightarrow> task wop" where
  "repo_GetTaskByIDWithoutStatusFilter i =
     pool_get (\<lambda>r. live r \<and> row_id r = i) no_task_found ''failed to get task by id''"

definition repo_GetTasksByUserID :: "int \<Rightarrow> task list wop" where
  "repo_GetTasksByUserID u =
     pool_select (\<lambda>_ r. live r \<and> UserID (r_task r) = u \<and>
         ((CronExpression (r_task r) = None \<and> RRule (r_task r) = None) \<or>
          ParentID (r_task r) \<noteq> None))
       ''failed to get tasks by user id''"

definition repo_GetChildTasksByParentID :: "int \<Rightarrow> task list wop" where
  "repo_GetChildTasksByParentID p =
     pool_select (\<lambda>_ r. live r \<and> ParentID (r_task r) = Some p)
       ''failed to get child tasks by parent id''"

subsection \<open>Updating and deleting\<close>

text \<open>The columns of the \<open>UPDATE\<close>.\<close>

definition set_columns :: "task \<Rightarrow> time \<Rightarrow> row \<Rightarrow> row" where
  "set_columns t now r = r\<lparr>r_task := (r_task r)\<lparr>Title := Title t, Description := Description t,
       Status := Status t, StartDate := StartDate t, FinishDate := FinishDate t,
       CronExpression := CronExpression t, RRule := RRule t,
       RequiresConfirmation := RequiresConfirmation t, Muted := Muted t,
       ShiftFromCompletion := ShiftFromCompletion t, SkipDigest := SkipDigest t,
       PreRemindBeforeSeconds := PreRemindBeforeSeconds t, ParentID := ParentID t,
       GroupID := GroupID t\<rparr>, r_updated_at := Some now\<rparr>"

definition repo_UpdateTask :: "task \<Rightarrow> unit wop" where
  "repo_UpdateTask t =
     bindE time_Now (\<lambda>now.
     pool_write (\<lambda>r. live r \<and> row_id r = ID t) (set_columns t now)
       ''failed to execute update query for task'')"

definition repo_UpdateTaskWithTx :: "task \<Rightarrow> unit wop" where
  "repo_UpdateTaskWithTx t =
     bindE time_Now (\<lambda>now.
     tx_write (\<lambda>r. live r \<and> row_id r = ID t) (set_columns t now)
       ''failed to execute update query for task'')"

definition soft_delete :: "time \<Rightarrow> row \<Rightarrow> row" where
  "soft_delete now r =
     r\<lparr>r_deleted_at := Some now, r_task := (r_task r)\<lparr>Status := ''deleted''\<rparr>\<rparr>"

definition repo_DeleteTask :: "int \<Rightarrow> unit wop" where
  "repo_DeleteTask i =
     bindE time_Now (\<lambda>now.
     pool_write (\<lambda>r. live r \<and> row_id r = i) (soft_delete now)
       ''failed to execute soft delete query for task'')"

definition repo_DeleteTaskWithTx :: "int \<Rightarrow> unit wop" where
  "repo_DeleteTaskWithTx i =
     bindE time_Now (\<lambda>now.
     tx_write (\<lambda>r. live r \<and> row_id r = i) (soft_delete now)
       ''failed to execute soft delete query for task'')"

definition repo_DeleteChildTasks :: "int \<Rightarrow> unit wop" where
  "repo_DeleteChildTasks p =
     bindE time_Now (\<lambda>now.
     pool_write (\<lambda>r. live r \<and> ParentID (r_task r) = Some p) (soft_delete now)
       ''failed to execute soft delete query for child tasks'')"

definition repo_DeleteChildTasksWithTx :: "int \<Rightarrow> unit wop" where
  "repo_DeleteChildTasksWithTx p =
     bindE time_Now (\<lambda>now.
     tx_write (\<lambda>r. live r \<and> ParentID (r_task r) = Some p) (soft_delete now)
       ''failed to execute soft delete query for child tasks'')"

subsection \<open>Tasks that are overdue\<close>

definition imported :: "world \<Rightarrow> int \<Rightarrow> bool" where
  "imported w i = list_ex (\<lambda>l. l_TaskID l = i \<and> l_Origin l = TaskSyncLinkOriginImported) (sync_links w)"

definition needs_rescheduling :: "time \<Rightarrow> world \<Rightarrow> row \<Rightarrow> bool" where
  "needs_rescheduling now w r \<longleftrightarrow>
     (let t = r_task r in
      live r \<and>
      (Status t = TaskStatusScheduled \<or> Status t = TaskStatusRescheduled \<or>
       Status t = TaskStatusPostponed) \<and>
      ((CronExpression t = None \<and> RRule t = None) \<or> ParentID t \<noteq> None) \<and>
      StartDate t < now \<and> \<not> imported w (ID t))"

definition repo_GetTasksNeedingRescheduling :: "task list wop" where
  "repo_GetTasksNeedingRescheduling =
     bindE time_Now (\<lambda>now.
     pool_select (needs_rescheduling now) ''failed to get tasks needing rescheduling'')"

definition cron_needs_rescheduling :: "time \<Rightarrow> world \<Rightarrow> row \<Rightarrow> bool" where
  "cron_needs_rescheduling now w r \<longleftrightarrow>
     (let t = r_task r in
      live r \<and> Status t = TaskStatusScheduled \<and>
      (CronExpression t \<noteq> None \<or> RRule t \<noteq> None) \<and> \<not> RequiresConfirmation t \<and>
      StartDate t < now \<and> \<not> imported w (ID t))"

definition repo_GetTasksWithCronNeedingRescheduling :: "task list wop" where
  "repo_GetTasksWithCronNeedingRescheduling =
     bindE time_Now (\<lambda>now.
     pool_select (cron_needs_rescheduling now)
       ''failed to get tasks with cron needing rescheduling'')"

subsection \<open>Texts the repository builds\<close>

text \<open>\<open>orderByIncludesColumn\<close>: does one of the terms sort by the column itself?\<close>

definition order_term_name :: "string \<Rightarrow> string" where
  "order_term_name field =
     (let name = trim_char (CHR 0x22) (hd (split_fields field)) in
      case after_last (CHR ''.'') name of
        Some rest \<Rightarrow> trim_char (CHR 0x22) rest
      | None \<Rightarrow> name)"

fun order_terms_include :: "string list \<Rightarrow> string \<Rightarrow> bool" where
  "order_terms_include [] column = False"
| "order_terms_include (part # parts) column =
     (let field = trim_space part in
      if field = [] then order_terms_include parts column
      else if equal_fold (order_term_name field) column then True
      else order_terms_include parts column)"

definition orderByIncludesColumn :: "string \<Rightarrow> string \<Rightarrow> bool" where
  "orderByIncludesColumn orderBy column = order_terms_include (split_char (CHR '','') orderBy) column"

definition stableOrderBy :: "string \<Rightarrow> string" where
  "stableOrderBy orderBy =
     (let orderBy = trim_space orderBy;
          orderBy = (if orderBy = [] then ''created_at DESC'' else orderBy) in
      if orderByIncludesColumn orderBy ''id'' then orderBy else orderBy @ '', id ASC'')"

definition replace_char :: "char \<Rightarrow> string \<Rightarrow> string \<Rightarrow> string" where
  "replace_char c by_text s = concat (map (\<lambda>x. if x = c then by_text else [x]) s)"

definition escapeLikePattern :: "string \<Rightarrow> string" where
  "escapeLikePattern s =
     replace_char (CHR ''_'') [CHR 0x5C, CHR ''_'']
       (replace_char (CHR ''%'') [CHR 0x5C, CHR ''%'']
         (replace_char (CHR 0x5C) [CHR 0x5C, CHR 0x5C] s))"

text \<open>SQL \<open>LIKE\<close> with the default escape character, and \<open>ILIKE\<close>.\<close>

fun like_match :: "string \<Rightarrow> string \<Rightarrow> bool" where
  "like_match [] s = (s = [])"
| "like_match (c # p) s =
     (if c = CHR ''%'' then list_ex (like_match p) (suffixes s)
      else if c = CHR ''_'' then (case s of [] \<Rightarrow> False | _ # xs \<Rightarrow> like_match p xs)
      else if c = CHR 0x5C then
        (case p of [] \<Rightarrow> False
         | d # q \<Rightarrow> (case s of [] \<Rightarrow> False | x # xs \<Rightarrow> x = d \<and> like_match q xs))
      else (case s of [] \<Rightarrow> False | x # xs \<Rightarrow> x = c \<and> like_match p xs))"

definition ilike :: "db_lib \<Rightarrow> string \<Rightarrow> string \<Rightarrow> bool" where
  "ilike D pattern s = like_match (map (lower_char D) pattern) (map (lower_char D) s)"

subsection \<open>Pages of tasks\<close>

text \<open>The arguments the two listing queries share; \<open>q_UserID\<close> is a filter only for all tasks.\<close>

record task_query =
  q_page :: int
  q_pageSize :: int
  q_orderBy :: string
  q_UserID :: "int option"
  q_startDateFrom :: "time option"
  q_startDateTo :: "time option"
  q_createdAtFrom :: "time option"
  q_createdAtTo :: "time option"
  q_requiresConfirmation :: "bool option"
  q_status :: "string option"
  q_statusNot :: "string option"
  q_cronExpression :: "string option"
  q_cronExpressionIsNull :: "bool option"
  q_excludeCronWithConfirmation :: "bool option"
  q_messengerRelatedUserIDs :: "int list option"
  q_externalProvider :: "string option"
  q_title :: "string option"
  q_excludeSkipDigest :: "bool option"

definition text_given :: "string option \<Rightarrow> (string \<Rightarrow> bool) \<Rightarrow> bool" where
  "text_given v P = (case v of None \<Rightarrow> True | Some s \<Rightarrow> s = [] \<or> P s)"

definition value_given :: "'a option \<Rightarrow> ('a \<Rightarrow> bool) \<Rightarrow> bool" where
  "value_given v P = (case v of None \<Rightarrow> True | Some x \<Rightarrow> P x)"

definition linked_to :: "world \<Rightarrow> int \<Rightarrow> string \<Rightarrow> bool" where
  "linked_to w i provider = list_ex (\<lambda>l. l_TaskID l = i \<and> l_Provider l = provider) (sync_links w)"

definition common_filter :: "task_query \<Rightarrow> world \<Rightarrow> task \<Rightarrow> bool" where
  "common_filter q w t \<longleftrightarrow>
     text_given (q_status q) (\<lambda>s. Status t = s) \<and>
     text_given (q_statusNot q) (\<lambda>s. Status t \<noteq> s) \<and>
     value_given (q_startDateFrom q) (\<lambda>d. d \<le> StartDate t) \<and>
     value_given (q_startDateTo q) (\<lambda>d. StartDate t \<le> d) \<and>
     text_given (q_cronExpression q) (\<lambda>s. CronExpression t = Some s) \<and>
     value_given (q_cronExpressionIsNull q) (\<lambda>b. (CronExpression t = None) = b) \<and>
     value_given (q_requiresConfirmation q) (\<lambda>b. RequiresConfirmation t = b) \<and>
     value_given (q_excludeCronWithConfirmation q)
       (\<lambda>b. b \<longrightarrow> (CronExpression t = None \<and> RRule t = None) \<or> \<not> RequiresConfirmation t) \<and>
     text_given (q_externalProvider q) (linked_to w (ID t))"

definition user_tasks_filter :: "db_lib \<Rightarrow> int \<Rightarrow> task_query \<Rightarrow> world \<Rightarrow> row \<Rightarrow> bool" where
  "user_tasks_filter D u q w r \<longleftrightarrow>
     (let t = r_task r in
      live r \<and> UserID t = u \<and> common_filter q w t \<and>
      value_given (q_createdAtFrom q) (\<lambda>d. d \<le> CreatedAt t) \<and>
      value_given (q_createdAtTo q) (\<lambda>d. CreatedAt t \<le> d) \<and>
      value_given (q_messengerRelatedUserIDs q)
        (\<lambda>ids. length ids > 0 \<longrightarrow> (\<exists>m \<in> set ids. MessengerRelatedUserID t = Some m)) \<and>
      text_given (q_title q) (\<lambda>s. ilike D (''%'' @ escapeLikePattern s @ ''%'') (Title t)) \<and>
      value_given (q_excludeSkipDigest q) (\<lambda>b. b \<longrightarrow> \<not> SkipDigest t))"

definition all_tasks_filter :: "task_query \<Rightarrow> world \<Rightarrow> row \<Rightarrow> bool" where
  "all_tasks_filter q w r \<longleftrightarrow>
     live r \<and> common_filter q w (r_task r) \<and>
     value_given (q_UserID q) (\<lambda>u. UserID (r_task r) = u)"

text \<open>\<open>LIMIT\<close> and \<open>OFFSET\<close>: the product is taken in 64 bits and printed as an unsigned number; one
  the database cannot read as a signed 64-bit number is an error.\<close>

definition page_or_first :: "int \<Rightarrow> int" where
  "page_or_first page = (if page < 1 then 1 else page)"

definition size_or_default :: "int \<Rightarrow> int" where
  "size_or_default pageSize = (if pageSize < 1 then 50 else pageSize)"

definition page_offset :: "int \<Rightarrow> int \<Rightarrow> int" where
  "page_offset page pageSize = duration_of (page - 1) pageSize"

definition select_page :: "db_lib \<Rightarrow> task_query \<Rightarrow> (world \<Rightarrow> row \<Rightarrow> bool) \<Rightarrow> string \<Rightarrow> task list wop" where
  "select_page D q P failure =
     (let pageSize = size_or_default (q_pageSize q);
          offset = page_offset (page_or_first (q_page q)) pageSize;
          orderBy = (if q_orderBy q = [] then ''created_at DESC'' else q_orderBy q) in
      bindE (pool_select P failure) (\<lambda>rows.
      if offset < 0 then fail (ErrOther failure)
      else ret (take (nat pageSize) (drop (nat offset) (order_by D (stableOrderBy orderBy) rows)))))"

definition count_rows :: "(world \<Rightarrow> row \<Rightarrow> bool) \<Rightarrow> int wop" where
  "count_rows P =
     bindE (pool_select P ''failed to get total count'') (\<lambda>rows. ret (int (length rows)))"

definition repo_GetTasksByUserIDWithPagination ::
  "db_lib \<Rightarrow> int \<Rightarrow> task_query \<Rightarrow> (task list \<times> int) wop" where
  "repo_GetTasksByUserIDWithPagination D u q =
     bindE (count_rows (user_tasks_filter D u q)) (\<lambda>totalCount.
     bindE (select_page D q (user_tasks_filter D u q) ''failed to get tasks by user id'') (\<lambda>ts.
     ret (ts, totalCount)))"

definition repo_GetAllTasks :: "db_lib \<Rightarrow> task_query \<Rightarrow> (task list \<times> int) wop" where
  "repo_GetAllTasks D q =
     bindE (count_rows (all_tasks_filter q)) (\<lambda>totalCount.
     bindE (select_page D q (all_tasks_filter q) ''failed to get tasks'') (\<lambda>ts.
     ret (ts, totalCount)))"

subsection \<open>The inventory\<close>

definition schedulable :: "time \<Rightarrow> row \<Rightarrow> bool" where
  "schedulable now r \<longleftrightarrow>
     (let t = r_task r in
      live r \<and> \<not> Muted t \<and>
      Status t \<in> {''scheduled'', ''rescheduled'', ''postponed''} \<and>
      MessengerRelatedUserID t \<noteq> None \<and>
      \<not> (RequiresConfirmation t \<and> ParentID t = None \<and>
         (CronExpression t \<noteq> None \<or> RRule t \<noteq> None)) \<and>
      (CronExpression t \<noteq> None \<or> RRule t \<noteq> None \<or> now \<le> StartDate t \<or>
       (\<not> RequiresConfirmation t \<and> CronExpression t = None \<and> RRule t = None)))"

text \<open>The join with \<open>user_messengers\<close> (deleted or not) and \<open>messengers\<close>.\<close>

definition inventory_join :: "world \<Rightarrow> task \<Rightarrow> schedulable_inventory_row list" where
  "inventory_join w t =
     concat (map (\<lambda>um. map (\<lambda>m.
         \<lparr>ir_TaskID = ID t, ir_Messenger = m_Name m, ir_StartDate = StartDate t,
          ir_Title = Title t, ir_CronExpression = CronExpression t, ir_RRule = RRule t,
          ir_ParentID = ParentID t, ir_PreRemindBeforeSeconds = PreRemindBeforeSeconds t,
          ir_RequiresConfirmation = RequiresConfirmation t\<rparr>)
         (filter (\<lambda>m. mru_MessengerID (um_related um) = Some (m_ID m)) (messengers w)))
       (filter (\<lambda>um. MessengerRelatedUserID t = Some (mru_ID (um_related um))) (user_messengers w)))"

definition repo_GetSchedulableInventory :: "schedulable_inventory_row list wop" where
  "repo_GetSchedulableInventory =
     bindE time_Now (\<lambda>now.
     bindE (external ''failed to get schedulable inventory'') (\<lambda>_.
     gets (\<lambda>w. concat (map (inventory_join w)
       (sort_key ID (map r_task (filter (schedulable now) (tasks w))))))))"

end
