(* ===== verification/Collaborators.thy ===== *)
theory Collaborators
  imports World
begin

text \<open>
  What the task service calls besides the table of tasks: users and messengers
  (\<open>user_repository.go\<close>, \<open>messenger_repository.go\<close>), the history (\<open>task_history_repository.go\<close>), the
  calendar links (\<open>task_sync_link_repository.go\<close>), the activity tracker (\<open>activity_tracker.go\<close>), the
  publisher (\<open>pkg/queue\<close>), the calendar hook and the attachment service.

  Publisher, tracker and hook are Go interfaces with a real and a no-op implementation; each is a
  datatype of implementations here.  The first two are also stated as locales, whose assumptions
  are all a caller relies on, and both implementations of each are interpretations.
\<close>

subsection \<open>Users and messengers\<close>

definition GetUserByID :: "int \<Rightarrow> user wop" where
  "GetUserByID i =
     bindE (external ''failed to get user by id'') (\<lambda>_.
     bindE (gets users) (\<lambda>us.
     case find (\<lambda>u. \<not> ur_deleted u \<and> user_ID (ur_user u) = i) us of
       Some u \<Rightarrow> ret (ur_user u)
     | None \<Rightarrow> fail (ErrNotFound ''no user found for passed id'')))"

text \<open>\<open>GREATEST(COALESCE(last_activity_at, '-infinity'), at)\<close>.\<close>

definition touched :: "time \<Rightarrow> user \<Rightarrow> user" where
  "touched at u = u\<lparr>user_LastActivityAt :=
     Some (case user_LastActivityAt u of None \<Rightarrow> at | Some t \<Rightarrow> max t at)\<rparr>"

definition TouchLastActivity :: "int \<Rightarrow> time \<Rightarrow> unit wop" where
  "TouchLastActivity i at =
     bindE (external ''failed to touch user last activity'') (\<lambda>_.
     modify (\<lambda>w. w\<lparr>users := map (\<lambda>u. if user_ID (ur_user u) = i \<and> \<not> ur_deleted u
                                     then u\<lparr>ur_user := touched at (ur_user u)\<rparr> else u) (users w)\<rparr>))"

text \<open>Only the name and the creation time are selected.\<close>

definition GetMessengerByID :: "int \<Rightarrow> messenger wop" where
  "GetMessengerByID i =
     bindE (external ''failed to get messenger by id'') (\<lambda>_.
     bindE (gets messengers) (\<lambda>ms.
     case find (\<lambda>m. m_ID m = i) ms of
       Some m \<Rightarrow> ret (m\<lparr>m_ID := 0\<rparr>)
     | None \<Rightarrow> fail (ErrNotFound ''no messenger found for passed id'')))"

definition GetMessengerRelatedUserByID :: "int \<Rightarrow> messenger_related_user wop" where
  "GetMessengerRelatedUserByID i =
     bindE (external ''failed to get messenger-related user by id'') (\<lambda>_.
     bindE (gets user_messengers) (\<lambda>us.
     case find (\<lambda>u. \<not> um_deleted u \<and> mru_ID (um_related u) = i) us of
       Some u \<Rightarrow> ret (um_related u)
     | None \<Rightarrow> fail (ErrNotFound ''no messenger-related user found for passed id'')))"

definition GetMessengerRelatedUserIDsByMessengerUserID :: "int option \<Rightarrow> string \<Rightarrow> int list wop" where
  "GetMessengerRelatedUserIDsByMessengerUserID userID messengerUserID =
     (if messengerUserID = [] then ret []
      else bindE (external ''failed to get messenger-related user ids'') (\<lambda>_.
        gets (\<lambda>w. map (\<lambda>u. mru_ID (um_related u))
          (filter (\<lambda>u. \<not> um_deleted u \<and> mru_MessengerUserID (um_related u) = messengerUserID \<and>
                       (case userID of None \<Rightarrow> True | Some i \<Rightarrow> mru_UserID (um_related u) = Some i))
                  (user_messengers w)))))"

subsection \<open>History and calendar links\<close>

text \<open>The id comes from the database, the time from \<open>time.Now()\<close>.\<close>

definition CreateTaskHistory :: "task_history \<Rightarrow> unit wop" where
  "CreateTaskHistory h =
     bindE time_Now (\<lambda>now.
     bindE (external ''failed to insert task history'') (\<lambda>_.
     modify (\<lambda>w. w\<lparr>history := history w @
       [h\<lparr>h_ID := int (length (history w)) + 1, h_CreatedAt := now\<rparr>]\<rparr>)))"

definition newest_first :: "task_history list \<Rightarrow> task_history list" where
  "newest_first hs = sort_key (\<lambda>h. - h_CreatedAt h) hs"

definition GetTaskHistoryByTaskID :: "int \<Rightarrow> task_history list wop" where
  "GetTaskHistoryByTaskID i =
     bindE (external ''failed to get task history by task id'') (\<lambda>_.
     gets (\<lambda>w. newest_first (filter (\<lambda>h. h_TaskID h = i) (history w))))"

definition GetTaskHistoryByUserID :: "int \<Rightarrow> int \<Rightarrow> int \<Rightarrow> task_history list wop" where
  "GetTaskHistoryByUserID u limit offset =
     (let limit = (if limit \<le> 0 then 50 else limit);
          offset = (if offset < 0 then 0 else offset) in
      bindE (external ''failed to get task history by user id'') (\<lambda>_.
      gets (\<lambda>w. take (nat limit) (drop (nat offset)
        (newest_first (filter (\<lambda>h. h_UserID h = u) (history w)))))))"

text \<open>\<open>ORDER BY id DESC LIMIT 1\<close>: the link with the greatest id.\<close>

definition latest_link :: "task_sync_link list \<Rightarrow> task_sync_link option" where
  "latest_link ls = (case sort_key (\<lambda>l. - l_ID l) ls of [] \<Rightarrow> None | l # _ \<Rightarrow> Some l)"

definition GetByTaskID :: "int \<Rightarrow> task_sync_link wop" where
  "GetByTaskID i =
     bindE (external ''failed to get sync link by task'') (\<lambda>_.
     bindE (gets (\<lambda>w. filter (\<lambda>l. l_TaskID l = i) (sync_links w))) (\<lambda>ls.
     case latest_link ls of
       Some l \<Rightarrow> ret l
     | None \<Rightarrow> fail (ErrNotFound ''no sync link found for task'')))"

subsection \<open>Publisher, tracker, hook, attachments\<close>

datatype publisher = Producer | NoopPublisher

fun Publish :: "publisher \<Rightarrow> task_message \<Rightarrow> unit wop" where
  "Publish NoopPublisher m = ret ()"
| "Publish Producer m =
     bindE (external ''failed to publish message'') (\<lambda>_.
     modify (\<lambda>w. w\<lparr>queue := queue w @ [m]\<rparr>))"

datatype activity_tracker = PostgresActivityTracker | NoopActivityTracker

fun Touch :: "activity_tracker \<Rightarrow> int \<Rightarrow> time \<Rightarrow> unit wop" where
  "Touch NoopActivityTracker u at = ret ()"
| "Touch PostgresActivityTracker u at = TouchLastActivity u at"

definition touchUserActivity :: "activity_tracker option \<Rightarrow> int \<Rightarrow> unit wop" where
  "touchUserActivity tracker userID =
     (case tracker of
        None \<Rightarrow> ret ()
      | Some t \<Rightarrow>
          (if userID \<le> 0 then ret ()
           else bindE time_Now (\<lambda>now. best_effort (Touch t userID now))))"

datatype export_hook = CalendarSyncHook | NoopCalendarExportHook

text \<open>The hook is told; what the calendar service does with it is that service's.\<close>

fun OnTaskChanged :: "export_hook \<Rightarrow> int \<Rightarrow> string \<Rightarrow> unit wop" where
  "OnTaskChanged NoopCalendarExportHook i action = ret ()"
| "OnTaskChanged CalendarSyncHook i action =
     modify (\<lambda>w. w\<lparr>exports := exports w @ [(i, action)]\<rparr>)"

definition PurgeByTask :: "int \<Rightarrow> int list \<Rightarrow> unit wop" where
  "PurgeByTask i children =
     bindE (external ''attachments: purge failed'') (\<lambda>_.
     modify (\<lambda>w. w\<lparr>purges := purges w @ [(i, children)]\<rparr>))"

text \<open>\<open>time.Sleep(d)\<close>: at least \<open>d\<close> passes.\<close>

definition Sleep :: "time \<Rightarrow> unit wop" where
  "Sleep d = modify (\<lambda>w. w\<lparr>clock := clock w + d\<rparr>)"

subsection \<open>What the callers rely on\<close>

text \<open>
  A publisher either takes a message or it does not; it takes it at most once, an error means that
  it did not, and it touches nothing but the queue (and what the environment decides).
\<close>

locale publisher_contract =
  fixes publish :: "task_message \<Rightarrow> unit wop"
  assumes takes: "publish m w = (r, w') \<Longrightarrow>
      \<exists>ms fs. w' = w\<lparr>queue := queue w @ ms, faults := fs\<rparr> \<and> (ms = [] \<or> (ms = [m] \<and> r = Ok ()))"
    and no_panic: "publish m w \<noteq> (Panic p, w')"
begin

lemma publish_queue:
  "publish m w = (r, w') \<Longrightarrow> \<exists>ms. subseq ms [m] \<and> queue w' = queue w @ ms"
  using takes [of m w r w'] by (auto intro: list_emb_Nil)

text \<open>A loop that publishes leaves its messages in order, each at most once.\<close>

lemma publish_all:
  "for_each publish ms w = (r, w') \<Longrightarrow> \<exists>ns. subseq ns ms \<and> queue w' = queue w @ ns"
proof (induction ms arbitrary: w)
  case Nil
  then show ?case by (auto simp: for_each_def ret_def)
next
  case (Cons m ms)
  obtain r1 w1 where m: "publish m w = (r1, w1)" by fastforce
  obtain ms1 where q: "subseq ms1 [m]" "queue w1 = queue w @ ms1" using publish_queue [OF m] by blast
  show ?case
  proof (cases r1)
    case (Ok x)
    then have "for_each publish ms w1 = (r, w')"
      using Cons.prems m by (simp add: for_each_def bindE_def)
    then obtain ns where "subseq ns ms" "queue w' = queue w1 @ ns" using Cons.IH by blast
    then show ?thesis using q list_emb_append_mono [OF q(1)] by force
  next
    case (Err e)
    then have "w' = w1" using Cons.prems m by (simp add: for_each_def bindE_def)
    then show ?thesis using q list_emb_append_mono [OF q(1) list_emb_Nil [of _ ms]] by auto
  next
    case (Panic p)
    then show ?thesis using m no_panic by blast
  qed
qed

end

text \<open>The producer also takes every message it does not reject.\<close>

locale reliable_publisher = publisher_contract +
  assumes takes_all: "publish m w = (Ok (), w') \<Longrightarrow> queue w' = queue w @ [m]"
begin

lemma publish_all_Ok: "for_each publish ms w = (Ok (), w') \<Longrightarrow> queue w' = queue w @ ms"
proof (induction ms arbitrary: w)
  case (Cons m ms)
  obtain x w1 where "publish m w = (Ok x, w1)" "for_each publish ms w1 = (Ok (), w')"
    using Cons.prems by (auto simp: for_each_def elim!: bindE_OkE)
  then show ?case using Cons.IH takes_all by fastforce
qed (simp add: for_each_def ret_def)

end

lemma external_world: "external text w = (r, w') \<Longrightarrow> \<exists>fs. w' = w\<lparr>faults := fs\<rparr>"
  by (auto simp: external_def split: if_splits list.splits intro: exI [of _ "faults w"])

lemma external_no_panic: "external text w \<noteq> (Panic p, w')"
  by (auto simp: external_def split: list.split)

interpretation producer: reliable_publisher "Publish Producer"
proof
  fix m w r w' assume run: "Publish Producer m w = (r, w')"
  obtain r1 w1 where e: "external ''failed to publish message'' w = (r1, w1)" by fastforce
  then obtain fs where w1: "w1 = w\<lparr>faults := fs\<rparr>" using external_world by blast
  show "\<exists>ms fs. w' = w\<lparr>queue := queue w @ ms, faults := fs\<rparr> \<and> (ms = [] \<or> (ms = [m] \<and> r = Ok ()))"
  proof (cases r1)
    case (Ok x)
    then show ?thesis using run e w1
      by (auto simp: bindE_def modify_def intro!: exI [of _ "[m]"] exI [of _ fs])
  next
    case (Err x)
    then show ?thesis using run e w1
      by (auto simp: bindE_def intro!: exI [of _ "[]"] exI [of _ fs])
  qed (use e external_no_panic in \<open>auto\<close>)
next
  show "Publish Producer m w \<noteq> (Panic p, w')" for m w p w'
    by (auto simp: bindE_def modify_def external_no_panic split: prod.split outcome.split)
  show "queue w' = queue w @ [m]" if "Publish Producer m w = (Ok (), w')" for m w w'
    using that by (auto simp: modify_def elim!: bindE_OkE dest!: external_world)
qed

interpretation noop_publisher: publisher_contract "Publish NoopPublisher"
proof
  fix m w r w' assume "Publish NoopPublisher m w = (r, w')"
  then have "w' = w\<lparr>queue := queue w @ [], faults := faults w\<rparr>" by (simp add: ret_def)
  then show "\<exists>ms fs. w' = w\<lparr>queue := queue w @ ms, faults := fs\<rparr> \<and> (ms = [] \<or> (ms = [m] \<and> r = Ok ()))"
    by blast
qed (simp add: ret_def)

text \<open>
  A tracker raises the last activity of one user, or does nothing; nobody's is ever lowered.
\<close>

definition activity_le :: "user_row \<Rightarrow> user_row \<Rightarrow> bool" where
  "activity_le u v \<longleftrightarrow>
     ur_deleted v = ur_deleted u \<and>
     (\<exists>a. ur_user v = (ur_user u)\<lparr>user_LastActivityAt := a\<rparr> \<and>
          (case user_LastActivityAt (ur_user u) of None \<Rightarrow> True | Some t \<Rightarrow> \<exists>t'. a = Some t' \<and> t \<le> t'))"

lemma activity_le_refl [simp]: "activity_le u u"
  by (auto simp: activity_le_def split: option.split
      intro: exI [of _ "user_LastActivityAt (ur_user u)"])

lemma activity_le_touched: "activity_le u (u\<lparr>ur_user := touched at (ur_user u)\<rparr>)"
  by (auto simp: activity_le_def touched_def split: option.split)

locale tracker_contract =
  fixes touch :: "int \<Rightarrow> time \<Rightarrow> unit wop"
  assumes raises: "touch u at w = (r, w') \<Longrightarrow>
      \<exists>us fs. w' = w\<lparr>users := us, faults := fs\<rparr> \<and> list_all2 activity_le (users w) us"
begin

lemma touch_best_effort:
  "best_effort (touch u at) w = (r, w') \<Longrightarrow> list_all2 activity_le (users w) (users w')"
  by (auto simp: best_effort_def bindE_def attempt_def ret_def dest!: raises
      split: prod.splits outcome.splits)

end

lemma all_activity_le_refl [simp]: "list_all2 activity_le us us"
  by (simp add: list.rel_refl)

interpretation pg_tracker: tracker_contract "Touch PostgresActivityTracker"
proof
  fix i at w r w' assume run: "Touch PostgresActivityTracker i at w = (r, w')"
  define raise :: "user_row list \<Rightarrow> user_row list" where "raise = map (\<lambda>u. if user_ID (ur_user u) = i \<and> \<not> ur_deleted u
      then u\<lparr>ur_user := touched at (ur_user u)\<rparr> else u)"
  have le: "list_all2 activity_le us (raise us)" for us
    unfolding raise_def by (induction us) (simp_all add: activity_le_touched)
  obtain r1 w1 where e: "external ''failed to touch user last activity'' w = (r1, w1)" by fastforce
  then obtain fs where w1: "w1 = w\<lparr>faults := fs\<rparr>" using external_world by blast
  have "w' = w\<lparr>users := raise (users w), faults := fs\<rparr> \<or> w' = w\<lparr>users := users w, faults := fs\<rparr>"
    using run e w1
    by (cases r1) (auto simp: TouchLastActivity_def bindE_def modify_def raise_def)
  then show "\<exists>us fs. w' = w\<lparr>users := us, faults := fs\<rparr> \<and> list_all2 activity_le (users w) us"
    using le all_activity_le_refl by blast
qed

interpretation noop_tracker: tracker_contract "Touch NoopActivityTracker"
proof
  fix i at w r w' assume "Touch NoopActivityTracker i at w = (r, w')"
  then have "w' = w\<lparr>users := users w, faults := faults w\<rparr>" by (simp add: ret_def)
  then show "\<exists>us fs. w' = w\<lparr>users := us, faults := fs\<rparr> \<and> list_all2 activity_le (users w) us"
    using all_activity_le_refl by blast
qed

lemma touchUserActivity_raises:
  assumes run: "touchUserActivity a i w = (r, w')"
  shows "list_all2 activity_le (users w) (users w')"
proof (cases "a = None \<or> i \<le> 0")
  case True
  then have "w' = w" using run by (auto simp: touchUserActivity_def ret_def split: option.splits)
  then show ?thesis by simp
next
  case False
  then obtain t where "best_effort (Touch t i (clock (tick w))) (tick w) = (r, w')"
    using run by (auto simp: touchUserActivity_def time_Now_def bindE_def)
  then have "list_all2 activity_le (users (tick w)) (users w')"
    by (cases t) (metis pg_tracker.touch_best_effort, metis noop_tracker.touch_best_effort)
  then show ?thesis by (simp add: tick_def)
qed

end
