(* ===== verification/Runs.thy ===== *)
theory Runs
  imports Task_Repository Collaborators
begin

text \<open>
  What the services rely on when a relation between the state before and after a run is followed
  through them.  The locales name the operations a service calls as assumptions on the relation;
  each service operation is followed once, inside the smallest locale it needs, and the theorems
  about it come from the interpretations below:

  \<^item> \<open>world_le\<close>, the relation of every run: rows keep their key, owner and messenger, a deleted row
    never changes again, keys are not used twice, and the logs only grow;
  \<^item> equal tables, for everything up to a commit;
  \<^item> a queue that grows by delete messages only.
\<close>

subsection \<open>The interfaces\<close>

text \<open>Operations that neither write a task nor publish.\<close>

locale silent_run = run_preorder R for R :: "world \<Rightarrow> world \<Rightarrow> bool" +
  assumes time_Now [steps_rules]: "steps R time_Now"
    and external [steps_rules]: "steps R (external text)"
    and history [steps_rules]: "steps R (CreateTaskHistory h)"
    and touch [steps_rules]: "steps R (Touch a u at)"
    and hook [steps_rules]: "steps R (OnTaskChanged x i action)"
    and purge [steps_rules]: "steps R (PurgeByTask i cs)"
    and sleep: "0 \<le> d \<Longrightarrow> steps R (Sleep d)"
begin

lemma pool_get [steps_rules]: "steps R (pool_get P missing failure)"
  unfolding pool_get_def by (intro steps_rules)

lemma pool_select [steps_rules]: "steps R (pool_select P failure)"
  unfolding pool_select_def by (intro steps_rules)

lemma repo_get [steps_rules]:
  "steps R (repo_GetTaskByID i)" "steps R (repo_GetTaskByIDWithoutStatusFilter i)"
  "steps R (repo_GetChildTasksByParentID i)" "steps R repo_GetTasksNeedingRescheduling"
  "steps R repo_GetTasksWithCronNeedingRescheduling" "steps R repo_GetSchedulableInventory"
  unfolding repo_GetTaskByID_def repo_GetTaskByIDWithoutStatusFilter_def
    repo_GetChildTasksByParentID_def repo_GetTasksNeedingRescheduling_def
    repo_GetTasksWithCronNeedingRescheduling_def repo_GetSchedulableInventory_def
  by (intro steps_rules)+

lemma lookups [steps_rules]:
  "steps R (GetUserByID i)" "steps R (GetMessengerByID i)"
  "steps R (GetMessengerRelatedUserByID i)" "steps R (GetByTaskID i)"
  unfolding GetUserByID_def GetMessengerByID_def GetMessengerRelatedUserByID_def GetByTaskID_def
  by (intro steps_rules)+

lemma touchUserActivity [steps_rules]: "steps R (touchUserActivity a u)"
  unfolding touchUserActivity_def by (intro steps_rules)

end

text \<open>Operations that do not write a task and publish nothing but deletes.\<close>

locale quiet_run = silent_run +
  assumes publish_delete: "msg_Task m = ''worker.delete_task'' \<Longrightarrow> steps R (Publish p m)"

text \<open>Writing inside a transaction.\<close>

locale tx_run = quiet_run +
  assumes update_in_tx [steps_rules]: "steps R (repo_UpdateTaskWithTx t)"
    and delete_in_tx [steps_rules]: "steps R (repo_DeleteTaskWithTx i)"
    and delete_children_in_tx [steps_rules]: "steps R (repo_DeleteChildTasksWithTx i)"
    and rollback: "R w (Rollback w)"
begin

lemma deferred_rollback [steps_rules]: "steps R m \<Longrightarrow> steps R (deferred Rollback m)"
  by (rule steps_deferred [OF _ rollback])

end

text \<open>Writing the committed rows.\<close>

locale store_run = tx_run +
  assumes create [steps_rules]: "steps R (repo_CreateTask t)"
    and update [steps_rules]: "steps R (repo_UpdateTask t)"
    and delete [steps_rules]: "steps R (repo_DeleteTask i)"
    and commit [steps_rules]: "steps R Commit"

text \<open>Opening a transaction, and publishing anything.\<close>

locale begin_run = store_run +
  assumes begin_tx [steps_rules]: "steps R BeginTxx"

locale publish_run = store_run +
  assumes publish [steps_rules]: "steps R (Publish p m)"

locale service_run = publish_run + begin_run

subsection \<open>From changes of the state to operations\<close>

text \<open>
  A relation that is a preorder and allows the single changes of the state allows the operations:
  what an instance has to show are statements about record updates.
\<close>

locale state_run = run_preorder R for R :: "world \<Rightarrow> world \<Rightarrow> bool" +
  assumes on_tick: "R w (tick w)"
    and on_faults: "R w (w\<lparr>faults := fs\<rparr>)"
    and on_history: "R w (w\<lparr>history := history w @ [h]\<rparr>)"
    and on_users: "R w (w\<lparr>users := us\<rparr>)"
    and on_exports: "R w (w\<lparr>exports := exports w @ [x]\<rparr>)"
    and on_purges: "R w (w\<lparr>purges := purges w @ [y]\<rparr>)"
    and on_clock: "0 \<le> d \<Longrightarrow> R w (w\<lparr>clock := clock w + d\<rparr>)"
    and on_delete_message: "msg_Task m = ''worker.delete_task'' \<Longrightarrow> R w (w\<lparr>queue := queue w @ [m]\<rparr>)"
    and on_begin: "R w (w\<lparr>tx := Some []\<rparr>)"
    and on_end: "R w (w\<lparr>tx := None\<rparr>)"
    and on_cancel: "R w (w\<lparr>tx := None, cancelled := True\<rparr>)"
begin

lemma state_time_Now [steps_rules]: "steps R time_Now"
  by (simp add: steps_def time_Now_def on_tick)

lemma state_external [steps_rules]: "steps R (external text)"
  by (auto simp: steps_def external_def run_refl on_faults split: list.split)

lemma state_BeginTxx [steps_rules]: "steps R BeginTxx"
  unfolding BeginTxx_def by (intro steps_rules steps_modify on_begin)

end

sublocale state_run \<subseteq> quiet_run
proof
  show "steps R (CreateTaskHistory h)" for h
    unfolding CreateTaskHistory_def by (intro steps_rules steps_modify on_history)
  show "steps R (Touch a u at)" for a u at
    by (cases a) (auto simp: TouchLastActivity_def intro!: steps_rules steps_modify on_users)
  show "steps R (OnTaskChanged x i action)" for x i action
    by (cases x) (auto intro!: steps_rules steps_modify on_exports)
  show "steps R (PurgeByTask i cs)" for i cs
    unfolding PurgeByTask_def by (intro steps_rules steps_modify on_purges)
  show "steps R (Sleep d)" if "0 \<le> d" for d
    unfolding Sleep_def by (intro steps_modify on_clock that)
  show "steps R (Publish p m)" if "msg_Task m = ''worker.delete_task''" for p m
    by (cases p) (auto intro!: steps_rules steps_modify on_delete_message that)
qed (intro steps_rules)+

text \<open>The statements of a transaction change its overlay only.\<close>

locale overlay_run = state_run +
  assumes on_overlay: "tx w = Some ov \<Longrightarrow>
    R w (w\<lparr>tx := Some (map f (filter P (map (tx_view ov) (tasks w))) @ ov)\<rparr>)"
begin

lemma state_tx_write [steps_rules]: "steps R (tx_write P f failure)"
  unfolding tx_write_def
  by (intro steps_bindE steps_rules stepsI) (auto simp: run_refl on_overlay split: option.split)

end

sublocale overlay_run \<subseteq> tx_run
proof
  show "R w (Rollback w)" for w
    by (simp add: Rollback_def on_end)
qed (unfold repo_UpdateTaskWithTx_def repo_DeleteTaskWithTx_def repo_DeleteChildTasksWithTx_def,
     (intro steps_rules)+)

subsection \<open>Equal tables, and a queue of deletes\<close>

definition same_tasks :: "world \<Rightarrow> world \<Rightarrow> bool" where
  "same_tasks w w' \<longleftrightarrow> tasks w' = tasks w \<and> next_id w' = next_id w"

definition only_deletes :: "world \<Rightarrow> world \<Rightarrow> bool" where
  "only_deletes w w' \<longleftrightarrow>
     (\<exists>ms. queue w' = queue w @ ms \<and> (\<forall>m \<in> set ms. msg_Task m = ''worker.delete_task''))"

lemma only_deletes_refl: "queue w' = queue w \<Longrightarrow> only_deletes w w'"
  by (simp add: only_deletes_def)

lemma only_deletes_snoc:
  "queue w' = queue w @ [m] \<Longrightarrow> msg_Task m = ''worker.delete_task'' \<Longrightarrow> only_deletes w w'"
  by (simp add: only_deletes_def)

lemma only_deletes_trans: "only_deletes u v \<Longrightarrow> only_deletes v w \<Longrightarrow> only_deletes u w"
  by (auto simp: only_deletes_def)

lemma queue_tick [simp]: "queue (tick w) = queue w" "tasks (tick w) = tasks w"
  "next_id (tick w) = next_id w" "tx (tick w) = tx w" "cancelled (tick w) = cancelled w"
  "faults (tick w) = faults w" "history (tick w) = history w" "exports (tick w) = exports w"
  "purges (tick w) = purges w" "users (tick w) = users w" "messengers (tick w) = messengers w"
  "user_messengers (tick w) = user_messengers w" "sync_links (tick w) = sync_links w"
  by (simp_all add: tick_def)

lemma clock_tick: "clock w \<le> clock (tick w)"
  by (simp add: tick_def)

interpretation same_tasks: overlay_run same_tasks
  by unfold_locales (simp_all add: same_tasks_def)

lemma same_tasks_publish: "steps same_tasks (Publish p m)"
  by (cases p) (auto intro!: steps_rules same_tasks.steps_modify simp: same_tasks_def)

interpretation only_deletes: overlay_run only_deletes
  by unfold_locales (auto intro: only_deletes_refl only_deletes_snoc only_deletes_trans)

interpretation only_deletes: begin_run only_deletes
proof
  show "steps only_deletes (repo_CreateTask t)" for t
    unfolding repo_CreateTask_def pool_insert_def
    by (intro only_deletes.steps_bindE only_deletes.external stepsI) (simp add: only_deletes_refl)
  show "steps only_deletes Commit"
    unfolding Commit_def
    by (intro only_deletes.steps_bindE only_deletes.steps_attempt only_deletes.external stepsI)
       (auto simp: only_deletes_refl Rollback_def merge_tx_def split: sum.split option.split)
  show "steps only_deletes BeginTxx" by (rule only_deletes.state_BeginTxx)
qed (unfold repo_UpdateTask_def repo_DeleteTask_def pool_write_def,
     (intro only_deletes.steps_bindE only_deletes.external only_deletes.time_Now stepsI,
      simp add: only_deletes_refl wait_for_cancel_def)+)

subsection \<open>The relation of every run\<close>

text \<open>
  \<open>row_le r v\<close>: \<open>v\<close> is what \<open>r\<close> may become.  \<open>store_wf\<close>: keys are unique and below the next key,
  and what the open transaction has written are rows of the table that have become what they may.
\<close>

definition row_le :: "row \<Rightarrow> row \<Rightarrow> bool" where
  "row_le r v \<longleftrightarrow>
     row_id v = row_id r \<and> UserID (r_task v) = UserID (r_task r) \<and>
     MessengerRelatedUserID (r_task v) = MessengerRelatedUserID (r_task r) \<and>
     CreatedAt (r_task v) = CreatedAt (r_task r) \<and> (\<not> live r \<longrightarrow> v = r)"

definition overlay_wf :: "row list \<Rightarrow> row list \<Rightarrow> bool" where
  "overlay_wf rs ov \<longleftrightarrow> (\<forall>v \<in> set ov. \<forall>r \<in> set rs. row_id v = row_id r \<longrightarrow> row_le r v)"

definition store_wf :: "world \<Rightarrow> bool" where
  "store_wf w \<longleftrightarrow>
     distinct (map row_id (tasks w)) \<and> (\<forall>r \<in> set (tasks w). row_id r < next_id w) \<and>
     (case tx w of None \<Rightarrow> True
      | Some ov \<Rightarrow> overlay_wf (tasks w) ov \<and> (\<forall>v \<in> set ov. row_id v < next_id w))"

definition rows_le :: "row list \<Rightarrow> row list \<Rightarrow> int \<Rightarrow> bool" where
  "rows_le rs rs' n \<longleftrightarrow>
     length rs \<le> length rs' \<and> (\<forall>i < length rs. row_le (rs ! i) (rs' ! i)) \<and>
     (\<forall>i < length rs'. length rs \<le> i \<longrightarrow> n \<le> row_id (rs' ! i))"

definition logs_le :: "world \<Rightarrow> world \<Rightarrow> bool" where
  "logs_le w w' \<longleftrightarrow>
     prefix (history w) (history w') \<and> prefix (queue w) (queue w') \<and>
     prefix (exports w) (exports w') \<and> prefix (purges w) (purges w') \<and> clock w \<le> clock w' \<and>
     messengers w' = messengers w \<and> user_messengers w' = user_messengers w \<and>
     sync_links w' = sync_links w"

definition world_le :: "world \<Rightarrow> world \<Rightarrow> bool" where
  "world_le w w' \<longleftrightarrow>
     (store_wf w \<longrightarrow>
        store_wf w' \<and> rows_le (tasks w) (tasks w') (next_id w) \<and> next_id w \<le> next_id w' \<and>
        logs_le w w')"

lemma row_le_refl [simp]: "row_le r r"
  by (simp add: row_le_def)

lemma row_le_trans: "row_le r s \<Longrightarrow> row_le s t \<Longrightarrow> row_le r t"
  by (auto simp: row_le_def live_def)

lemma row_le_set_columns [simp]: "live r \<Longrightarrow> row_le r (set_columns t now r)"
  by (simp add: row_le_def set_columns_def row_id_def)

lemma row_le_soft_delete [simp]: "live r \<Longrightarrow> row_le r (soft_delete now r)"
  by (simp add: row_le_def soft_delete_def row_id_def)

lemma row_le_id: "row_le r v \<Longrightarrow> row_id v = row_id r"
  by (simp add: row_le_def)

lemma rows_le_map: "(\<And>r. r \<in> set rs \<Longrightarrow> row_le r (f r)) \<Longrightarrow> rows_le rs (map f rs) n"
  by (simp add: rows_le_def)

lemma rows_le_append: "(\<And>r. r \<in> set new \<Longrightarrow> n \<le> row_id r) \<Longrightarrow> rows_le rs (rs @ new) n"
  by (simp add: rows_le_def nth_append)

lemma rows_le_refl [simp]: "rows_le rs rs n"
  by (simp add: rows_le_def)

lemma rows_le_trans:
  assumes ab: "rows_le a b m" and bc: "rows_le b c n" and "m \<le> n"
  shows "rows_le a c m"
proof -
  have "m \<le> row_id (c ! i)" if i: "length a \<le> i" "i < length c" for i
  proof (cases "i < length b")
    case True
    then have "row_id (c ! i) = row_id (b ! i)" using bc row_le_id by (simp add: rows_le_def)
    then show ?thesis using True ab i by (simp add: rows_le_def)
  next
    case False
    then have "n \<le> row_id (c ! i)" using bc i by (simp add: rows_le_def)
    then show ?thesis using \<open>m \<le> n\<close> by simp
  qed
  moreover have "row_le (a ! i) (c ! i)" if "i < length a" for i
    using ab bc that row_le_trans [of "a ! i" "b ! i" "c ! i"] by (simp add: rows_le_def)
  ultimately show ?thesis using ab bc by (simp add: rows_le_def)
qed

lemma logs_le_refl [simp]: "logs_le w w"
  by (simp add: logs_le_def)

lemma logs_le_trans: "logs_le u v \<Longrightarrow> logs_le v w \<Longrightarrow> logs_le u w"
  unfolding logs_le_def by (auto intro: prefix_order.trans)

lemma world_leI:
  "(store_wf w \<Longrightarrow> store_wf w' \<and> rows_le (tasks w) (tasks w') (next_id w) \<and>
     next_id w \<le> next_id w' \<and> logs_le w w') \<Longrightarrow> world_le w w'"
  by (simp add: world_le_def)

lemma world_le_trans: "world_le u v \<Longrightarrow> world_le v w \<Longrightarrow> world_le u w"
  unfolding world_le_def using rows_le_trans logs_le_trans by (metis order.trans)

lemma store_wf_same:
  "tasks w' = tasks w \<Longrightarrow> next_id w' = next_id w \<Longrightarrow> tx w' = tx w \<or> tx w' = None \<or> tx w' = Some [] \<Longrightarrow>
     store_wf w \<Longrightarrow> store_wf w'"
  by (auto simp: store_wf_def overlay_wf_def split: option.splits)

lemma world_le_same:
  "tasks w' = tasks w \<Longrightarrow> next_id w' = next_id w \<Longrightarrow>
     tx w' = tx w \<or> tx w' = None \<or> tx w' = Some [] \<Longrightarrow> logs_le w w' \<Longrightarrow> world_le w w'"
  using store_wf_same by (simp add: world_le_def)

lemma world_le_refl: "world_le w w"
  by (simp add: world_le_def)

interpretation world_le: state_run world_le
proof
  show "world_le w w" for w by (rule world_le_refl)
  show "world_le u w" if "world_le u v" "world_le v w" for u v w
    using that by (rule world_le_trans)
qed (rule world_le_same; simp add: logs_le_def clock_tick)+

lemma tx_view_cases: "tx_view ov r = r \<or> (tx_view ov r \<in> set ov \<and> row_id (tx_view ov r) = row_id r)"
  by (auto simp: tx_view_def find_Some_iff in_set_conv_nth split: option.split)

lemma row_id_tx_view [simp]: "row_id (tx_view ov r) = row_id r"
  using tx_view_cases [of ov r] by auto

lemma row_le_tx_view: "overlay_wf rs ov \<Longrightarrow> r \<in> set rs \<Longrightarrow> row_le r (tx_view ov r)"
  using tx_view_cases [of ov r] by (auto simp: overlay_wf_def)

lemma same_row: "distinct (map row_id rs) \<Longrightarrow> r \<in> set rs \<Longrightarrow> s \<in> set rs \<Longrightarrow> row_id r = row_id s \<Longrightarrow> r = s"
  by (meson distinct_map inj_onD)

text \<open>A change of live rows that \<open>row_le\<close> allows.\<close>

definition proper_write :: "(row \<Rightarrow> bool) \<Rightarrow> (row \<Rightarrow> row) \<Rightarrow> bool" where
  "proper_write P f \<longleftrightarrow> (\<forall>r. P r \<longrightarrow> row_le r (f r))"

lemma proper_writes [simp]:
  "proper_write (\<lambda>r. live r \<and> P r) (set_columns t now)"
  "proper_write (\<lambda>r. live r \<and> P r) (soft_delete now)"
  by (simp_all add: proper_write_def)

lemma world_le_overlay:
  assumes f: "proper_write P f" and ov: "tx w = Some ov"
  shows "world_le w (w\<lparr>tx := Some (map f (filter P (map (tx_view ov) (tasks w))) @ ov)\<rparr>)"
proof (rule world_leI)
  assume wf: "store_wf w"
  have view: "row_le r (f (tx_view ov r))" if "r \<in> set (tasks w)" "P (tx_view ov r)" for r
    using that f wf ov row_le_tx_view [of "tasks w" ov r]
    by (auto simp: proper_write_def store_wf_def intro: row_le_trans)
  have "overlay_wf (tasks w) (map f (filter P (map (tx_view ov) (tasks w))))"
    unfolding overlay_wf_def
  proof (intro ballI impI)
    fix v r assume v: "v \<in> set (map f (filter P (map (tx_view ov) (tasks w))))"
      and r: "r \<in> set (tasks w)" and id: "row_id v = row_id r"
    then obtain s where s: "s \<in> set (tasks w)" "P (tx_view ov s)" "v = f (tx_view ov s)" by auto
    have "row_id v = row_id s" using row_le_id [OF view [OF s(1,2)]] s(3) by simp
    then have "s = r" using same_row wf s(1) r id by (metis store_wf_def)
    then show "row_le r v" using view s by simp
  qed
  moreover have "row_id (f (tx_view ov r)) < next_id w" if "r \<in> set (tasks w)" "P (tx_view ov r)" for r
    using row_le_id [OF view [OF that]] that(1) wf by (simp add: store_wf_def)
  ultimately show "store_wf (w\<lparr>tx := Some (map f (filter P (map (tx_view ov) (tasks w))) @ ov)\<rparr>) \<and>
      rows_le (tasks w) (tasks (w\<lparr>tx := Some (map f (filter P (map (tx_view ov) (tasks w))) @ ov)\<rparr>)) (next_id w) \<and>
      next_id w \<le> next_id (w\<lparr>tx := Some (map f (filter P (map (tx_view ov) (tasks w))) @ ov)\<rparr>) \<and>
      logs_le w (w\<lparr>tx := Some (map f (filter P (map (tx_view ov) (tasks w))) @ ov)\<rparr>)"
    using wf ov by (auto simp: store_wf_def overlay_wf_def logs_le_def)
qed

lemma steps_tx_write: "proper_write P f \<Longrightarrow> steps world_le (tx_write P f failure)"
  unfolding tx_write_def
  by (intro world_le.steps_bindE steps_rules stepsI)
     (auto simp: world_le_refl world_le_overlay split: option.split)

lemma world_le_pool_write:
  assumes f: "proper_write P f" and free: "\<not> lock_held w P"
  shows "world_le w (w\<lparr>tasks := update_rows P f (tasks w)\<rparr>)"
proof (rule world_leI)
  assume wf: "store_wf w"
  have le: "row_le r (if P r then f r else r)" for r
    using f by (simp add: proper_write_def)
  have ids: "row_id (if P r then f r else r) = row_id r" for r
    using row_le_id [OF le] .
  have map_ids: "map row_id (update_rows P f (tasks w)) = map row_id (tasks w)"
    using ids by (simp add: update_rows_def)
  have ov: "overlay_wf (update_rows P f (tasks w)) ov" if "tx w = Some ov" for ov
    unfolding overlay_wf_def
  proof (intro ballI impI)
    fix v s assume v: "v \<in> set ov" and s: "s \<in> set (update_rows P f (tasks w))" and id: "row_id v = row_id s"
    then obtain r where r: "r \<in> set (tasks w)" "s = (if P r then f r else r)"
      by (auto simp: update_rows_def)
    then have "row_id v = row_id r" using id ids by metis
    then have "\<not> P r" using free that v r(1) by (auto simp: lock_held_def list_ex_iff)
    then show "row_le s v" using r wf that v \<open>row_id v = row_id r\<close>
      by (auto simp: store_wf_def overlay_wf_def)
  qed
  have "row_id s < next_id w" if "s \<in> set (update_rows P f (tasks w))" for s
  proof -
    from that obtain r where r: "r \<in> set (tasks w)" "s = (if P r then f r else r)"
      by (auto simp: update_rows_def)
    have "row_id s = row_id r" unfolding r(2) by (rule ids)
    then show ?thesis using r(1) wf by (simp add: store_wf_def)
  qed
  moreover have "rows_le (tasks w) (update_rows P f (tasks w)) (next_id w)"
    unfolding update_rows_def by (rule rows_le_map) (rule le)
  ultimately show "store_wf (w\<lparr>tasks := update_rows P f (tasks w)\<rparr>) \<and>
      rows_le (tasks w) (tasks (w\<lparr>tasks := update_rows P f (tasks w)\<rparr>)) (next_id w) \<and>
      next_id w \<le> next_id (w\<lparr>tasks := update_rows P f (tasks w)\<rparr>) \<and>
      logs_le w (w\<lparr>tasks := update_rows P f (tasks w)\<rparr>)"
    using wf ov by (auto simp: store_wf_def logs_le_def map_ids split: option.splits)
qed

lemma steps_pool_write: "proper_write P f \<Longrightarrow> steps world_le (pool_write P f failure)"
  unfolding pool_write_def
  by (intro world_le.steps_bindE steps_rules stepsI)
     (auto simp: wait_for_cancel_def world_le_pool_write world_le.on_cancel)

lemma world_le_insert:
  assumes id: "row_id r = next_id w"
  shows "world_le w (w\<lparr>tasks := tasks w @ [r], next_id := next_id w + 1\<rparr>)"
proof (rule world_leI)
  assume wf: "store_wf w"
  have "row_id s \<noteq> row_id r" if "s \<in> set (tasks w)" for s
    using wf that id by (auto simp: store_wf_def)
  moreover have "row_id v \<noteq> row_id r" if "tx w = Some ov" "v \<in> set ov" for v ov
    using wf that id by (auto simp: store_wf_def)
  ultimately show "store_wf (w\<lparr>tasks := tasks w @ [r], next_id := next_id w + 1\<rparr>) \<and>
      rows_le (tasks w) (tasks (w\<lparr>tasks := tasks w @ [r], next_id := next_id w + 1\<rparr>)) (next_id w) \<and>
      next_id w \<le> next_id (w\<lparr>tasks := tasks w @ [r], next_id := next_id w + 1\<rparr>) \<and>
      logs_le w (w\<lparr>tasks := tasks w @ [r], next_id := next_id w + 1\<rparr>)"
    using wf id
    by (auto simp: store_wf_def overlay_wf_def logs_le_def intro!: rows_le_append
        split: option.splits)
qed

lemma world_le_merge: "world_le w (merge_tx w)"
proof (rule world_leI)
  assume wf: "store_wf w"
  show "store_wf (merge_tx w) \<and> rows_le (tasks w) (tasks (merge_tx w)) (next_id w) \<and>
      next_id w \<le> next_id (merge_tx w) \<and> logs_le w (merge_tx w)"
  proof (cases "tx w")
    case None
    with wf show ?thesis by (simp add: merge_tx_def)
  next
    case (Some ov)
    with wf have "overlay_wf (tasks w) ov" by (simp add: store_wf_def)
    then have "rows_le (tasks w) (map (tx_view ov) (tasks w)) (next_id w)"
      by (intro rows_le_map row_le_tx_view)
    moreover have "map row_id (map (tx_view ov) (tasks w)) = map row_id (tasks w)" by simp
    ultimately show ?thesis using wf Some
      by (auto simp: merge_tx_def store_wf_def logs_le_def comp_def)
  qed
qed

lemma steps_Commit: "steps world_le Commit"
  unfolding Commit_def
  by (intro world_le.steps_bindE world_le.steps_attempt world_le.external stepsI)
     (auto simp: Rollback_def world_le_refl world_le_merge world_le.on_end split: sum.split)

interpretation world_le: service_run world_le
proof
  show "steps world_le BeginTxx" by (rule world_le.state_BeginTxx)
  show "world_le w (Rollback w)" for w
    by (simp add: Rollback_def world_le.on_end)
  show "steps world_le (repo_CreateTask t)" for t
    unfolding repo_CreateTask_def pool_insert_def
    by (intro world_le.steps_bindE steps_rules stepsI)
       (simp add: world_le_insert inserted_row_def row_id_def)
  show "steps world_le (Publish p m)" for p m
    by (cases p) (auto intro!: steps_rules world_le.steps_modify world_le_same simp: logs_le_def)
  show "steps world_le Commit" by (rule steps_Commit)
qed (unfold repo_UpdateTask_def repo_UpdateTaskWithTx_def repo_DeleteTaskWithTx_def
       repo_DeleteChildTasksWithTx_def repo_DeleteTask_def,
     (intro world_le.steps_bindE steps_rules steps_pool_write steps_tx_write proper_writes)+)

subsection \<open>No transaction is left open\<close>

definition tx_closed :: "world \<Rightarrow> world \<Rightarrow> bool" where
  "tx_closed w w' \<longleftrightarrow> (tx w = None \<longrightarrow> tx w' = None)"

lemma tx_closed_same: "tx w' = tx w \<Longrightarrow> tx_closed w w'" "tx w' = None \<Longrightarrow> tx_closed w w'"
  by (simp_all add: tx_closed_def)

lemma tx_closed_trans: "tx_closed u v \<Longrightarrow> tx_closed v w \<Longrightarrow> tx_closed u w"
  by (simp add: tx_closed_def)

interpretation tx_closed: run_preorder tx_closed
  by unfold_locales (auto simp: tx_closed_def)

lemma steps_tx_closed_basic [steps_rules]:
  "steps tx_closed time_Now" "steps tx_closed (external text)"
  by (auto simp: steps_def time_Now_def external_def tx_closed_same split: list.split)

interpretation tx_closed: publish_run tx_closed
proof
  show "steps tx_closed (CreateTaskHistory h)" for h
    unfolding CreateTaskHistory_def
    by (intro steps_rules tx_closed.steps_modify) (simp add: tx_closed_same)
  show "steps tx_closed (Touch a u at)" for a u at
    by (cases a) (auto simp: TouchLastActivity_def tx_closed_def intro!: steps_rules tx_closed.steps_modify)
  show "steps tx_closed (OnTaskChanged x i action)" for x i action
    by (cases x) (auto simp: tx_closed_def intro!: steps_rules tx_closed.steps_modify)
  show "steps tx_closed (PurgeByTask i cs)" for i cs
    unfolding PurgeByTask_def by (intro steps_rules tx_closed.steps_modify) (simp add: tx_closed_same)
  show "steps tx_closed (Sleep d)" for d
    unfolding Sleep_def by (intro tx_closed.steps_modify) (simp add: tx_closed_same)
  have p: "steps tx_closed (Publish p m)" for p m
    by (cases p) (auto simp: tx_closed_def intro!: steps_rules tx_closed.steps_modify)
  show "steps tx_closed (Publish p m)" if "msg_Task m = ''worker.delete_task''" for p m
    by (rule p)
  show "steps tx_closed (Publish p m)" for p m
    by (rule p)
  show "steps tx_closed (repo_CreateTask t)" for t
    unfolding repo_CreateTask_def pool_insert_def
    by (intro steps_rules stepsI) (simp add: tx_closed_same)
  show "steps tx_closed Commit"
    unfolding Commit_def
    by (intro steps_rules stepsI)
       (auto simp: Rollback_def merge_tx_def tx_closed_same split: sum.split option.split)
  show "tx_closed w (Rollback w)" for w
    by (simp add: Rollback_def tx_closed_same)
  show "steps tx_closed (repo_UpdateTask t)" "steps tx_closed (repo_DeleteTask i)" for t i
    unfolding repo_UpdateTask_def repo_DeleteTask_def pool_write_def
    by (intro steps_rules stepsI; simp add: tx_closed_same wait_for_cancel_def)+
qed (unfold repo_UpdateTaskWithTx_def repo_DeleteTaskWithTx_def repo_DeleteChildTasksWithTx_def
       tx_write_def, (intro steps_rules stepsI; simp add: tx_closed_def split: option.split)+)

lemma deferred_closes: "steps tx_closed (deferred Rollback m)"
  by (simp add: steps_def deferred_def Rollback_def tx_closed_same)

lemma begin_deferred_closes: "steps tx_closed (bindE BeginTxx (\<lambda>_. deferred Rollback m))"
proof (rule stepsI)
  fix w
  obtain r w' where e: "external ''failed to begin transaction'' w = (r, w')" by fastforce
  then have "tx w' = tx w" by (auto simp: external_def split: if_splits list.splits)
  with e show "tx_closed w (snd (bindE BeginTxx (\<lambda>_. deferred Rollback m) w))"
    by (cases r) (auto simp: BeginTxx_def bindE_def modify_def deferred_def Rollback_def tx_closed_same)
qed

subsection \<open>Errors that leave the table as it was\<close>

text \<open>\<open>unchanged_on_error m\<close>: when \<open>m\<close> returns an error, no task row has been written.\<close>

named_theorems unchanged_rules "operations that write no task when they return an error"

definition unchanged_on_error :: "'a wop \<Rightarrow> bool" where
  "unchanged_on_error m \<longleftrightarrow> (\<forall>w e w'. m w = (Err e, w') \<longrightarrow> tasks w' = tasks w)"

lemma unchangedD: "unchanged_on_error m \<Longrightarrow> m w = (Err e, w') \<Longrightarrow> tasks w' = tasks w"
  by (simp add: unchanged_on_error_def)

lemma unchanged_same: "steps same_tasks m \<Longrightarrow> unchanged_on_error m"
  unfolding unchanged_on_error_def by (metis stepsD same_tasks_def)

lemma unchanged_then:
  assumes "steps same_tasks m" and "\<And>x. unchanged_on_error (k x)"
  shows "unchanged_on_error (bindE m k)"
  unfolding unchanged_on_error_def
proof (intro allI impI)
  fix w e w' assume "bindE m k w = (Err e, w')"
  then show "tasks w' = tasks w"
  proof (cases rule: bindE_ErrE)
    case 1
    then show ?thesis using stepsD [OF assms(1)] by (simp add: same_tasks_def)
  next
    case (2 x w1)
    then have "tasks w1 = tasks w" using stepsD [OF assms(1)] by (simp add: same_tasks_def)
    then show ?thesis using unchangedD [OF assms(2) 2(2)] by simp
  qed
qed

lemma unchanged_write: "unchanged_on_error m \<Longrightarrow> (\<And>x. total (k x)) \<Longrightarrow> unchanged_on_error (bindE m k)"
  unfolding unchanged_on_error_def by (metis bindE_ErrE totalD)

lemma unchanged_if: "unchanged_on_error m \<Longrightarrow> unchanged_on_error n \<Longrightarrow> unchanged_on_error (if b then m else n)"
  by simp

lemma unchanged_Let: "unchanged_on_error (f x) \<Longrightarrow> unchanged_on_error (Let x f)"
  by simp

lemma unchanged_total: "total m \<Longrightarrow> unchanged_on_error m"
  by (simp add: total_def unchanged_on_error_def)

lemma unchanged_rollback: "unchanged_on_error m \<Longrightarrow> unchanged_on_error (deferred Rollback m)"
  unfolding unchanged_on_error_def by (auto dest!: deferred_split simp: Rollback_def)

lemma unchanged_Commit [unchanged_rules]: "unchanged_on_error Commit"
  by (auto simp: unchanged_on_error_def Commit_def bindE_def attempt_def external_def Rollback_def
      split: prod.splits outcome.splits list.splits if_splits)

lemma unchanged_pool_write: "unchanged_on_error (pool_write P f failure)"
  unfolding pool_write_def
  by (rule unchanged_then [OF same_tasks.external])
     (auto simp: unchanged_on_error_def wait_for_cancel_def split: if_splits)

lemma unchanged_repo [unchanged_rules]:
  "unchanged_on_error (repo_UpdateTask t)" "unchanged_on_error (repo_DeleteTask i)"
  "unchanged_on_error (repo_CreateTask t)"
proof -
  show "unchanged_on_error (repo_UpdateTask t)" "unchanged_on_error (repo_DeleteTask i)"
    unfolding repo_UpdateTask_def repo_DeleteTask_def
    by (intro unchanged_then [OF same_tasks.time_Now] unchanged_pool_write)+
  show "unchanged_on_error (repo_CreateTask t)"
    unfolding repo_CreateTask_def pool_insert_def
    by (rule unchanged_then [OF same_tasks.external]) (simp add: unchanged_on_error_def)
qed

text \<open>What only looks, tells and logs.\<close>

lemma total_time_Now [total_rules]: "total time_Now"
  by (simp add: total_def time_Now_def)

lemma total_touchUserActivity [total_rules]: "total (touchUserActivity a u)"
  unfolding touchUserActivity_def by (intro total_rules)

lemma total_OnTaskChanged [total_rules]: "total (OnTaskChanged x i action)"
  by (cases x) (auto intro!: total_rules)

lemma total_Sleep [total_rules]: "total (Sleep d)"
  unfolding Sleep_def by (intro total_rules)

subsection \<open>The transaction as a table\<close>

text \<open>
  \<open>tx_table w\<close> is the table the open transaction would commit.  A statement of the transaction acts
  on it as a plain update, a commit makes it the table, and a rollback forgets it.
\<close>

definition tx_table :: "world \<Rightarrow> row list" where
  "tx_table w = (case tx w of None \<Rightarrow> tasks w | Some ov \<Rightarrow> map (tx_view ov) (tasks w))"

lemma tx_view_append:
  "tx_view (us @ ov) r =
     (case find (\<lambda>v. row_id v = row_id r) us of Some v \<Rightarrow> v | None \<Rightarrow> tx_view ov r)"
  by (induction us) (auto simp: tx_view_def split: option.split)

lemma find_written:
  assumes rs: "distinct (map row_id rs)" and r: "r \<in> set rs"
    and f: "\<And>r. P r \<Longrightarrow> row_id (f r) = row_id r"
  shows "find (\<lambda>v. row_id v = row_id r) (map f (filter P (map (tx_view ov) rs))) =
    (if P (tx_view ov r) then Some (f (tx_view ov r)) else None)"
  using rs r
proof (induction rs)
  case (Cons s rs)
  show ?case
  proof (cases "row_id s = row_id r")
    case True
    with Cons.prems have "s = r" by (auto simp: image_iff)
    have "find (\<lambda>v. row_id v = row_id r) (map f (filter P (map (tx_view ov) rs))) = None"
      using Cons.prems(1) True by (auto simp: find_None_iff f image_iff)
    then show ?thesis using \<open>s = r\<close> by (simp add: f)
  next
    case False
    with Cons have "find (\<lambda>v. row_id v = row_id r) (map f (filter P (map (tx_view ov) rs))) =
        (if P (tx_view ov r) then Some (f (tx_view ov r)) else None)" by auto
    then show ?thesis using False by (simp add: f)
  qed
qed simp

lemma tx_table_write:
  assumes run: "tx_write P f failure w = (Ok (), w')" and rs: "distinct (map row_id (tasks w))"
    and f: "\<And>r. P r \<Longrightarrow> row_id (f r) = row_id r"
  shows "tx w' \<noteq> None \<and> tasks w' = tasks w \<and> tx_table w' = update_rows P f (tx_table w)"
proof -
  obtain ov where ov: "tx w = Some ov" and w': "tasks w' = tasks w"
    "tx w' = Some (map f (filter P (map (tx_view ov) (tasks w))) @ ov)"
    using run
    by (auto simp: tx_write_def bindE_def external_def split: if_splits list.splits option.splits)
  have "tx_view (map f (filter P (map (tx_view ov) (tasks w))) @ ov) r =
      (if P (tx_view ov r) then f (tx_view ov r) else tx_view ov r)" if "r \<in> set (tasks w)" for r
    using find_written [OF rs that f, where ov = ov] by (simp add: tx_view_append)
  then show ?thesis using ov w' by (simp add: tx_table_def update_rows_def)
qed

lemma Commit_Ok: "Commit w = (Ok (), w') \<Longrightarrow> tx w \<noteq> None \<and> tasks w' = tx_table w \<and> tx w' = None"
  by (auto simp: Commit_def bindE_def attempt_def external_def merge_tx_def tx_table_def
      split: prod.splits outcome.splits list.splits if_splits option.splits)

lemma update_rows_ids [simp]:
  "(\<And>r. P r \<Longrightarrow> row_id (f r) = row_id r) \<Longrightarrow> map row_id (update_rows P f rs) = map row_id rs"
  by (simp add: update_rows_def)

end
