(* ===== verification/Task_Store.thy ===== *)
theory Task_Store
  imports Runs
begin

text \<open>
  The two ways the repository writes a task, on the pool and in a transaction (\<open>UpdateTask\<close> and
  \<open>UpdateTaskWithTx\<close>, and so on), behind one interface: a table and a statement that updates the
  rows it selects.  The pooled statement acts on the committed rows, the other on the rows the open
  transaction would commit.  What the statements of the repository leave behind is proved once.

  The second half follows both tables through the operations that only read, tell and log.
\<close>

subsection \<open>The interface\<close>

locale row_store =
  fixes table :: "world \<Rightarrow> row list"
    and stmt :: "(row \<Rightarrow> bool) \<Rightarrow> (row \<Rightarrow> row) \<Rightarrow> string \<Rightarrow> unit wop"
  assumes writes: "stmt P f failure w = (Ok (), w') \<Longrightarrow> distinct (map row_id (tasks w)) \<Longrightarrow>
      (\<And>r. P r \<Longrightarrow> row_id (f r) = row_id r) \<Longrightarrow> table w' = update_rows P f (table w)"
    and ids: "map row_id (table w) = map row_id (tasks w)"
    and on_tick: "table (tick w) = table w"
begin

lemma write_now:
  assumes run: "bindE time_Now (\<lambda>now. stmt P (f now) failure) w = (Ok (), w')"
    and d: "distinct (map row_id (tasks w))" and f: "\<And>now r. P r \<Longrightarrow> row_id (f now r) = row_id r"
  shows "table w' = update_rows P (f (clock (tick w))) (table w)"
proof -
  have "stmt P (f (clock (tick w))) failure (tick w) = (Ok (), w')"
    using run by (simp add: time_Now_def bindE_def)
  then show ?thesis using writes [OF _ _ f] d by (simp add: on_tick)
qed

lemma update_now:
  "bindE time_Now (\<lambda>now. stmt (\<lambda>r. live r \<and> row_id r = ID t) (set_columns t now) failure) w = (Ok (), w') \<Longrightarrow>
     distinct (map row_id (tasks w)) \<Longrightarrow>
     table w' = update_rows (\<lambda>r. live r \<and> row_id r = ID t) (set_columns t (clock (tick w))) (table w)"
  by (erule write_now) (simp_all add: set_columns_def row_id_def)

lemma delete_now:
  "bindE time_Now (\<lambda>now. stmt (\<lambda>r. live r \<and> Q r) (soft_delete now) failure) w = (Ok (), w') \<Longrightarrow>
     distinct (map row_id (tasks w)) \<Longrightarrow>
     table w' = update_rows (\<lambda>r. live r \<and> Q r) (soft_delete (clock (tick w))) (table w)"
  by (erule write_now) (simp_all add: soft_delete_def row_id_def)

end

lemma pool_write_Ok:
  assumes "pool_write P f failure w = (Ok (), w')"
  shows "tasks w' = update_rows P f (tasks w) \<and> tx w' = tx w"
  using assms
  by (auto simp: pool_write_def dest!: external_world split: if_splits elim!: bindE_OkE)

interpretation pool_store: row_store tasks pool_write
  by unfold_locales (simp_all add: pool_write_Ok)

lemma tx_table_tick [simp]: "tx_table (tick w) = tx_table w"
  by (cases "tx w") (simp_all add: tx_table_def)

lemma tx_table_ids [simp]: "map row_id (tx_table w) = map row_id (tasks w)"
  by (cases "tx w") (simp_all add: tx_table_def comp_def)

interpretation tx_store: row_store tx_table tx_write
  by unfold_locales (simp_all add: tx_table_write)

lemmas repo_writes =
  pool_store.update_now [where failure = "''failed to execute update query for task''",
    folded repo_UpdateTask_def]
  pool_store.delete_now [where failure = "''failed to execute soft delete query for task''" and
    Q = "\<lambda>r. row_id r = i" for i, folded repo_DeleteTask_def]

lemmas repo_tx_writes =
  tx_store.update_now [where failure = "''failed to execute update query for task''",
    folded repo_UpdateTaskWithTx_def]
  tx_store.delete_now [where failure = "''failed to execute soft delete query for task''" and
    Q = "\<lambda>r. row_id r = i" for i, folded repo_DeleteTaskWithTx_def]
  tx_store.delete_now [where failure = "''failed to execute soft delete query for child tasks''" and
    Q = "\<lambda>r. ParentID (r_task r) = Some i" for i, folded repo_DeleteChildTasksWithTx_def]

subsection \<open>Runs that write no task\<close>

definition same_store :: "world \<Rightarrow> world \<Rightarrow> bool" where
  "same_store w w' \<longleftrightarrow> tasks w' = tasks w \<and> next_id w' = next_id w \<and> tx w' = tx w"

lemma same_storeD: "same_store w w' \<Longrightarrow> tasks w' = tasks w \<and> tx_table w' = tx_table w \<and> tx w' = tx w"
  by (cases "tx w") (simp_all add: same_store_def tx_table_def)

interpretation same_store: run_preorder same_store
  by unfold_locales (simp_all add: same_store_def)

lemma same_store_basic [steps_rules]:
  "steps same_store time_Now" "steps same_store (external text)"
  by (auto simp: steps_def time_Now_def external_def same_store_def split: list.split)

lemma same_store_publish [steps_rules]: "steps same_store (Publish p m)"
  by (cases p) (auto simp: same_store_def intro!: steps_rules same_store.steps_modify)

interpretation same_store: quiet_run same_store
proof
  show "steps same_store (CreateTaskHistory h)" for h
    unfolding CreateTaskHistory_def
    by (intro steps_rules same_store.steps_modify) (simp add: same_store_def)
  show "steps same_store (Touch a u at)" for a u at
    by (cases a) (auto simp: TouchLastActivity_def same_store_def intro!: steps_rules same_store.steps_modify)
  show "steps same_store (OnTaskChanged x j action)" for x j action
    by (cases x) (auto simp: same_store_def intro!: steps_rules same_store.steps_modify)
  show "steps same_store (PurgeByTask j cs)" for j cs
    unfolding PurgeByTask_def by (intro steps_rules same_store.steps_modify) (simp add: same_store_def)
  show "steps same_store (Sleep d)" for d
    unfolding Sleep_def by (intro same_store.steps_modify) (simp add: same_store_def)
qed (intro steps_rules)+

lemma BeginTxx_Ok:
  "BeginTxx w = (Ok (), w') \<Longrightarrow> tasks w' = tasks w \<and> tx w' = Some [] \<and> tx_table w' = tasks w \<and> queue w' = queue w"
  by (auto simp: BeginTxx_def modify_def tx_table_def tx_view_def map_idI dest!: external_world elim!: bindE_OkE)

lemma update_rows_live:
  "(\<And>r. P r \<Longrightarrow> \<not> live (f r)) \<Longrightarrow> r \<in> set (update_rows P f rs) \<Longrightarrow> live r \<Longrightarrow> r \<in> set rs \<and> \<not> P r"
  by (auto simp: update_rows_def split: if_splits)

lemma not_live_soft_delete [simp]: "\<not> live (soft_delete now r)"
  by (simp add: live_def soft_delete_def)

lemma row_id_soft_delete [simp]: "row_id (soft_delete now r) = row_id r"
  by (simp add: row_id_def soft_delete_def)

lemma row_id_set_columns [simp]: "row_id (set_columns t now r) = row_id r"
  by (simp add: row_id_def set_columns_def)

lemma live_set_columns [simp]: "live (set_columns t now r) = live r"
  by (simp add: live_def set_columns_def)

subsection \<open>Runs that publish nothing\<close>

definition same_queue :: "world \<Rightarrow> world \<Rightarrow> bool" where
  "same_queue w w' \<longleftrightarrow> queue w' = queue w"

interpretation same_queue: run_preorder same_queue
  by unfold_locales (simp_all add: same_queue_def)

lemma same_queue_basic [steps_rules]:
  "steps same_queue time_Now" "steps same_queue (external text)"
  by (auto simp: steps_def time_Now_def external_def same_queue_def split: list.split)

interpretation same_queue: silent_run same_queue
proof
  show "steps same_queue (CreateTaskHistory h)" for h
    unfolding CreateTaskHistory_def
    by (intro steps_rules same_queue.steps_modify) (simp add: same_queue_def)
  show "steps same_queue (Touch a u at)" for a u at
    by (cases a) (auto simp: TouchLastActivity_def same_queue_def intro!: steps_rules same_queue.steps_modify)
  show "steps same_queue (OnTaskChanged x j action)" for x j action
    by (cases x) (auto simp: same_queue_def intro!: steps_rules same_queue.steps_modify)
  show "steps same_queue (PurgeByTask j cs)" for j cs
    unfolding PurgeByTask_def by (intro steps_rules same_queue.steps_modify) (simp add: same_queue_def)
  show "steps same_queue (Sleep d)" for d
    unfolding Sleep_def by (intro same_queue.steps_modify) (simp add: same_queue_def)
qed (intro steps_rules)+

lemma same_queue_statements [steps_rules]:
  "steps same_queue (repo_UpdateTaskWithTx t)" "steps same_queue (repo_DeleteTaskWithTx i)"
  "steps same_queue (repo_DeleteChildTasksWithTx i)" "steps same_queue (repo_UpdateTask t)"
  "steps same_queue (repo_DeleteTask i)" "steps same_queue (repo_CreateTask t)"
  "steps same_queue BeginTxx" "steps same_queue Commit"
proof -
  have t: "steps same_queue (tx_write P f failure)" for P f failure
    unfolding tx_write_def
    by (intro steps_rules stepsI) (auto simp: same_queue_def split: option.split)
  have p: "steps same_queue (pool_write P f failure)" for P f failure
    unfolding pool_write_def
    by (intro steps_rules stepsI) (auto simp: same_queue_def wait_for_cancel_def)
  show "steps same_queue (repo_UpdateTaskWithTx t)" "steps same_queue (repo_DeleteTaskWithTx i)"
    "steps same_queue (repo_DeleteChildTasksWithTx i)" "steps same_queue (repo_UpdateTask t)"
    "steps same_queue (repo_DeleteTask i)"
    unfolding repo_UpdateTaskWithTx_def repo_DeleteTaskWithTx_def repo_DeleteChildTasksWithTx_def
      repo_UpdateTask_def repo_DeleteTask_def
    by (intro steps_rules t p)+
  show "steps same_queue (repo_CreateTask t)"
    unfolding repo_CreateTask_def pool_insert_def
    by (intro steps_rules stepsI) (simp add: same_queue_def)
  show "steps same_queue BeginTxx"
    unfolding BeginTxx_def by (intro steps_rules same_queue.steps_modify) (simp add: same_queue_def)
  show "steps same_queue Commit"
    unfolding Commit_def
    by (intro steps_rules stepsI)
       (auto simp: same_queue_def Rollback_def merge_tx_def split: sum.split option.split)
qed

end
