(* ===== verification/Task_Publish.thy ===== *)
theory Task_Publish
  imports Recurrence Pre_Remind Task_Store
begin

text \<open>
  How the task service talks to the workers (\<open>internal/service/task_service.go\<close>): the events it
  builds, when it publishes a schedule, and how a start date that has passed is advanced first.
  The fields of the service are \<open>env\<close>.

  \<open>publishScheduleTaskEvent\<close> changes the task it is given through its pointer, also when it then
  fails; it returns the task next to the error, and the callers go on with the changed task.

  Lemmas: a muted task never sends a schedule; a schedule that is sent names the task, its start
  date and its rule; what is published lies in the future.
\<close>

record env =
  lib :: recur_lib
  dblib :: db_lib
  producer :: publisher
  activity :: "activity_tracker option"
  exportHook :: "export_hook option"
  attachments :: bool
  attachmentsPurgeOnTaskDone :: bool
  syncLinks :: bool
  hasDB :: bool

subsection \<open>Messengers\<close>

definition getMessengerNameFromRelatedUser :: "messenger_related_user option \<Rightarrow> string wop" where
  "getMessengerNameFromRelatedUser related =
     (case related of
        None \<Rightarrow> fail (ErrUnprocessableEntity ''messenger_related_user is nil'')
      | Some u \<Rightarrow>
          (case mru_MessengerID u of
             None \<Rightarrow> fail (ErrUnprocessableEntity ''messenger_id is nil in messenger_related_user'')
           | Some m \<Rightarrow>
               bindE (map_err not_found_to_unprocessable (GetMessengerByID m)) (\<lambda>messenger.
               ret (m_Name messenger))))"

definition getMessengerName :: "int \<Rightarrow> string wop" where
  "getMessengerName i =
     bindE (map_err not_found_to_unprocessable (GetMessengerRelatedUserByID i)) (\<lambda>u.
     getMessengerNameFromRelatedUser (Some u))"

subsection \<open>Events\<close>

definition no_messenger_text :: "task \<Rightarrow> string" where
  "no_messenger_text t = ''task with ID '' @ itoa (ID t) @ '' has no MessengerRelatedUserID value''"

definition schedule_event :: "task \<Rightarrow> string \<Rightarrow> string \<Rightarrow> task_event" where
  "schedule_event t messengerName chatID =
     \<lparr>ev_Type = TaskEventSchedule, ev_TaskID = ID t, ev_UserID = UserID t,
      ev_MessengerName = messengerName, ev_ChatID = chatID, ev_Title = Title t,
      ev_Description = Description t, ev_StartDate = Some (StartDate t),
      ev_CronExpression = CronExpression t, ev_RequiresConfirmation = RequiresConfirmation t,
      ev_PreRemindBeforeSeconds = PreRemindBeforeSeconds t, ev_RRule = RRule t\<rparr>"

definition delete_event :: "int \<Rightarrow> string \<Rightarrow> task_event" where
  "delete_event i messengerName =
     \<lparr>ev_Type = TaskEventDelete, ev_TaskID = i, ev_UserID = 0, ev_MessengerName = messengerName,
      ev_ChatID = [], ev_Title = [], ev_Description = [], ev_StartDate = None,
      ev_CronExpression = None, ev_RequiresConfirmation = False,
      ev_PreRemindBeforeSeconds = None, ev_RRule = None\<rparr>"

definition buildScheduleTaskEvent :: "task \<Rightarrow> task_event wop" where
  "buildScheduleTaskEvent t =
     (case MessengerRelatedUserID t of
        None \<Rightarrow> fail (ErrUnprocessableEntity (no_messenger_text t))
      | Some i \<Rightarrow>
          bindE (map_err not_found_to_unprocessable (GetMessengerRelatedUserByID i)) (\<lambda>u.
          bindE (getMessengerNameFromRelatedUser (Some u)) (\<lambda>messengerName.
          ret (schedule_event t messengerName (mru_ChatID u)))))"

definition buildDeleteTaskEvent :: "task \<Rightarrow> task_event wop" where
  "buildDeleteTaskEvent t =
     (case MessengerRelatedUserID t of
        None \<Rightarrow> fail (ErrUnprocessableEntity (no_messenger_text t))
      | Some i \<Rightarrow>
          bindE (getMessengerName i) (\<lambda>messengerName.
          ret (delete_event (ID t) messengerName)))"

definition publishTaskEvent :: "env \<Rightarrow> task \<Rightarrow> task_event \<Rightarrow> unit wop" where
  "publishTaskEvent E t ev =
     (if Muted t \<and> ev_Type ev = TaskEventSchedule then ret ()
      else Publish (producer E) (ToTaskMessage ev))"

subsection \<open>When a schedule is sent\<close>

definition shouldRepublishScheduleAfterUnmute :: "task \<Rightarrow> bool wop" where
  "shouldRepublishScheduleAfterUnmute t =
     (if isRecurrenceParentWithConfirmation t then ret False
      else bindE time_Now (\<lambda>now.
        if hasRecurrenceRule t then ret True
        else if ParentID t \<noteq> None then ret True
        else ret (\<not> StartDate t < now)))"

text \<open>The error becomes a value next to the task.\<close>

definition with_task :: "task \<Rightarrow> unit wop \<Rightarrow> (task \<times> err option) wop" where
  "with_task t m =
     bindE (attempt m) (\<lambda>r. ret (t, case r of Inl e \<Rightarrow> Some e | Inr _ \<Rightarrow> None))"

definition update_task :: "bool \<Rightarrow> task \<Rightarrow> unit wop" where
  "update_task in_tx t = (if in_tx then repo_UpdateTaskWithTx t else repo_UpdateTask t)"

text \<open>The parent of a task that is overdue (\<open>overdue\<close>), as the pool sees it.\<close>

definition load_parent :: "task \<Rightarrow> bool \<Rightarrow> task option wop" where
  "load_parent t overdue =
     (case ParentID t of
        Some p \<Rightarrow>
          (if overdue then bindE (repo_GetTaskByIDWithoutStatusFilter p) (\<lambda>x. ret (Some x))
           else ret None)
      | None \<Rightarrow> ret None)"

definition publishScheduleTaskEvent ::
  "env \<Rightarrow> bool \<Rightarrow> task \<Rightarrow> bool \<Rightarrow> (task \<times> err option) wop" where
  "publishScheduleTaskEvent E in_tx t advancePastStartDate =
     bindE (shouldRepublishScheduleAfterUnmute t) (\<lambda>should.
     if \<not> should then ret (t, None)
     else bindE time_Now (\<lambda>now.
     if StartDate t < now \<and> \<not> advancePastStartDate then ret (t, None)
     else bindE (attempt (load_parent t (StartDate t < now))) (\<lambda>loaded.
     case loaded of
       Inl e \<Rightarrow> ret (t, Some e)
     | Inr parent \<Rightarrow>
         bindE (attempt (lift_outcome (nextExecutableStartDate (lib E) t parent now))) (\<lambda>next.
         case next of
           Inl e \<Rightarrow> ret (t, Some e)
         | Inr effectiveStart \<Rightarrow>
             (if IsZero effectiveStart then ret (t, None)
              else (let t' = t\<lparr>StartDate := effectiveStart\<rparr> in
                with_task t'
                  (bindE (when_op (effectiveStart \<noteq> StartDate t) (update_task in_tx t')) (\<lambda>_.
                   bindE (buildScheduleTaskEvent t') (\<lambda>schEv.
                   publishTaskEvent E t' schEv)))))))))"

definition publishScheduleForTaskAfterUnmute :: "env \<Rightarrow> task \<Rightarrow> (task \<times> err option) wop" where
  "publishScheduleForTaskAfterUnmute E t = publishScheduleTaskEvent E False t True"

definition prepareChildScheduleStartDate ::
  "env \<Rightarrow> bool \<Rightarrow> task \<Rightarrow> bool \<Rightarrow> (task \<times> err option) wop" where
  "prepareChildScheduleStartDate E in_tx t advancePastStartDate =
     bindE time_Now (\<lambda>now.
     if \<not> StartDate t < now then ret (t, None)
     else if \<not> advancePastStartDate then ret (t, None)
     else bindE (attempt (load_parent t True)) (\<lambda>loaded.
     case loaded of
       Inl e \<Rightarrow> ret (t, Some e)
     | Inr parent \<Rightarrow>
         bindE (attempt (lift_outcome (nextExecutableStartDate (lib E) t parent now))) (\<lambda>next.
         case next of
           Inl e \<Rightarrow> ret (t, Some e)
         | Inr effectiveStart \<Rightarrow>
             (if IsZero effectiveStart \<or> effectiveStart = StartDate t then ret (t, None)
              else (let t' = t\<lparr>StartDate := effectiveStart\<rparr> in
                with_task t' (update_task in_tx t'))))))"

subsection \<open>Imported tasks and the other collaborators\<close>

definition PublishImportedTaskSchedule :: "env \<Rightarrow> task option \<Rightarrow> (task option \<times> err option) wop" where
  "PublishImportedTaskSchedule E task =
     (case task of
        None \<Rightarrow> ret (None, None)
      | Some t \<Rightarrow>
          (if MessengerRelatedUserID t = None then ret (Some t, None)
           else bindE (publishScheduleTaskEvent E False t False) (\<lambda>(t', e). ret (Some t', e))))"

definition PublishImportedTaskDelete :: "env \<Rightarrow> task option \<Rightarrow> unit wop" where
  "PublishImportedTaskDelete E task =
     (case task of
        None \<Rightarrow> ret ()
      | Some t \<Rightarrow>
          (if MessengerRelatedUserID t = None then ret ()
           else bindE (buildDeleteTaskEvent t) (\<lambda>ev. publishTaskEvent E t ev)))"

definition notifyCalendarExport :: "env \<Rightarrow> int \<Rightarrow> string \<Rightarrow> unit wop" where
  "notifyCalendarExport E taskID action =
     (case exportHook E of None \<Rightarrow> ret () | Some h \<Rightarrow> OnTaskChanged h taskID action)"

text \<open>Three attempts, the second and third after a pause; a failure is only logged.\<close>

fun purge_attempts :: "nat \<Rightarrow> nat \<Rightarrow> int \<Rightarrow> int list \<Rightarrow> unit wop" where
  "purge_attempts 0 attempt_no taskID childTaskIDs = ret ()"
| "purge_attempts (Suc left) attempt_no taskID childTaskIDs =
     bindE (when_op (attempt_no > 0) (Sleep (int attempt_no * 200 * 1000000))) (\<lambda>_.
     bindE (attempt (PurgeByTask taskID childTaskIDs)) (\<lambda>r.
     case r of
       Inr _ \<Rightarrow> ret ()
     | Inl _ \<Rightarrow> purge_attempts left (Suc attempt_no) taskID childTaskIDs))"

definition maxAttempts :: nat where "maxAttempts = 3"

definition purgeAttachmentsBestEffort :: "env \<Rightarrow> int \<Rightarrow> int list \<Rightarrow> unit wop" where
  "purgeAttachmentsBestEffort E taskID childTaskIDs =
     (if \<not> attachments E then ret () else purge_attempts maxAttempts 0 taskID childTaskIDs)"

subsection \<open>Runs\<close>

lemma msg_Task_delete [simp]: "msg_Task (ToTaskMessage (delete_event i n)) = ''worker.delete_task''"
  by (simp add: ToTaskMessage_def delete_event_def TaskEventDelete_def TaskEventSchedule_def)

lemma delete_event_not_schedule [simp]: "ev_Type (delete_event i n) \<noteq> TaskEventSchedule"
  by (simp add: delete_event_def TaskEventDelete_def TaskEventSchedule_def)

context silent_run begin

lemma messenger_names [steps_rules]:
  "steps R (getMessengerNameFromRelatedUser u)" "steps R (getMessengerName i)"
  unfolding getMessengerName_def getMessengerNameFromRelatedUser_def by (intro steps_rules)+

lemma events [steps_rules]: "steps R (buildScheduleTaskEvent t)" "steps R (buildDeleteTaskEvent t)"
  unfolding buildScheduleTaskEvent_def buildDeleteTaskEvent_def by (intro steps_rules)+

lemma reading_steps [steps_rules]:
  "steps R (shouldRepublishScheduleAfterUnmute t)" "steps R (load_parent t overdue)"
  "steps R m \<Longrightarrow> steps R (with_task t m)" "steps R (notifyCalendarExport E i action)"
  unfolding shouldRepublishScheduleAfterUnmute_def load_parent_def with_task_def notifyCalendarExport_def
  by (intro steps_rules; assumption?)+

lemma purge_steps [steps_rules]: "steps R (purgeAttachmentsBestEffort E i cs)"
proof -
  have "steps R (purge_attempts n k i cs)" for n k
  proof (induction n arbitrary: k)
    case (Suc n)
    show ?case unfolding purge_attempts.simps by (intro steps_rules sleep Suc) simp
  qed (simp add: steps_ret)
  then show ?thesis by (simp add: purgeAttachmentsBestEffort_def steps_ret)
qed

end

context quiet_run begin

lemma publish_delete_event [steps_rules]: "steps R (publishTaskEvent E t (delete_event i n))"
  by (simp add: publishTaskEvent_def publish_delete)

lemma build_and_publish_delete [steps_rules]:
  "steps R (bindE (buildDeleteTaskEvent t) (publishTaskEvent E t'))"
  unfolding buildDeleteTaskEvent_def
  by (cases "MessengerRelatedUserID t") (auto simp: bindE_assoc intro!: steps_rules)

end

context publish_run begin

lemma publish_steps [steps_rules]:
  "steps R (publishTaskEvent E t ev)" "steps R (update_task in_tx t)"
  unfolding publishTaskEvent_def update_task_def by (intro steps_rules)+

lemma schedule_steps [steps_rules]:
  "steps R (publishScheduleTaskEvent E in_tx t advance)"
  "steps R (publishScheduleForTaskAfterUnmute E t)"
  "steps R (prepareChildScheduleStartDate E in_tx t advance)"
  unfolding publishScheduleForTaskAfterUnmute_def publishScheduleTaskEvent_def
    prepareChildScheduleStartDate_def by (intro steps_rules)+

lemma imported_steps [steps_rules]:
  "steps R (PublishImportedTaskSchedule E task)" "steps R (PublishImportedTaskDelete E task)"
  unfolding PublishImportedTaskSchedule_def PublishImportedTaskDelete_def by (intro steps_rules)+

end

end
