(* ===== verification/Calendar_Store.thy ===== *)
theory Calendar_Store
  imports Calendar_Fields Task_Publish
begin

text \<open>
  The state of the calendar service and the statements of its repositories:
  \<open>calendar_binding_repository.go\<close>, \<open>google_account_repository.go\<close>, \<open>sync_outbox_repository.go\<close> and
  the statements of \<open>task_sync_link_repository.go\<close> the task service does not use.

  The state holds the state of the task service (\<open>core\<close>, with the tasks, the history, the queue and
  the links) and the tables of the calendar.  The unique constraints of
  \<open>migrations/20260921100000_add_task_groups_and_calendar_sync.sql\<close> and the reference of a link to a
  task make a statement fail; the other references are among the faults of \<open>core\<close>.

  Google is its next reply: \<open>replies\<close> lists what the client is going to return, call by call, and
  \<open>google\<close> collects the calls that succeeded.  A theorem about all states speaks about every
  behaviour of the API in a finite run; when no reply is left, a call fails.
\<close>

subsection \<open>The state\<close>

datatype google_call =
    GListCalendars
  | GGetCalendar string
  | GListEvents string list_events_opts
  | GCreateEvent string event
  | GPatchEvent string string event
  | GDeleteEvent string string

record google_reply =
  g_error :: "string option"
  g_calendars :: "calendar list"
  g_calendar :: "calendar option"
  g_page :: event_list_result
  g_event :: event

record cal_world =
  core :: world
  bindings :: "calendar_binding list"
  accounts :: "google_account list"
  outbox :: "sync_outbox list"
  next_binding :: int
  next_link :: int
  next_outbox :: int
  replies :: "google_reply list"
  google :: "google_call list"

type_synonym 'a cop = "(cal_world, 'a) op"

definition in_core :: "'a wop \<Rightarrow> 'a cop" where
  "in_core m = (\<lambda>v. (fst (m (core v)), v\<lparr>core := snd (m (core v))\<rparr>))"

abbreviation cal_external :: "string \<Rightarrow> unit cop" where "cal_external text \<equiv> in_core (external text)"
abbreviation cal_now :: "time cop" where "cal_now \<equiv> in_core time_Now"

text \<open>A call of the Google client; an error comes with the text of the API.\<close>

definition google_op :: "google_call \<Rightarrow> string \<Rightarrow> (google_reply \<Rightarrow> 'a) \<Rightarrow> 'a cop" where
  "google_op call text f = (\<lambda>v.
     case replies v of
       [] \<Rightarrow> (Err (ErrOther (text @ '': no reply'')), v)
     | r # rs \<Rightarrow>
         (case g_error r of
            Some m \<Rightarrow> (Err (ErrOther (text @ '': '' @ m)), v\<lparr>replies := rs\<rparr>)
          | None \<Rightarrow> (Ok (f r), v\<lparr>replies := rs, google := google v @ [call]\<rparr>)))"

text \<open>The fields of \<open>CalendarSyncService\<close>.  \<open>c_range\<close> is the order in which Go walks through a map.\<close>

record cal_env =
  c_lib :: recur_lib
  c_standard :: "string \<Rightarrow> bool"
  c_decrypt :: "string \<Rightarrow> string option"
  c_windowDays :: int
  c_durationMinutes :: int
  c_scheduler :: "env option"
  c_history :: bool
  c_range :: "int list \<Rightarrow> int list"

subsection \<open>Links\<close>

definition TaskSyncProviderGoogleCalendar :: string where
  "TaskSyncProviderGoogleCalendar = ''google_calendar''"

definition event_key :: "task_sync_link \<Rightarrow> string \<times> string \<times> string" where
  "event_key l = (l_Provider l, l_GoogleCalendarID l, l_GoogleEventID l)"

definition task_key :: "task_sync_link \<Rightarrow> int \<times> string \<times> string" where
  "task_key l = (l_TaskID l, l_Provider l, l_GoogleEventID l)"

text \<open>\<open>uq_task_sync_links_task_provider_event\<close> and \<open>uq_task_sync_links_provider_calendar_event\<close>.\<close>

definition link_conflict :: "task_sync_link \<Rightarrow> task_sync_link list \<Rightarrow> bool" where
  "link_conflict l ls = list_ex (\<lambda>x. event_key x = event_key l \<or> task_key x = task_key l) ls"

definition links :: "cal_world \<Rightarrow> task_sync_link list" where
  "links v = sync_links (core v)"

definition set_links :: "task_sync_link list \<Rightarrow> cal_world \<Rightarrow> cal_world" where
  "set_links ls v = v\<lparr>core := (core v)\<lparr>sync_links := ls\<rparr>\<rparr>"

definition link_Create :: "task_sync_link \<Rightarrow> int cop" where
  "link_Create l =
     (let l = (if l_Provider l = [] then l\<lparr>l_Provider := TaskSyncProviderGoogleCalendar\<rparr> else l) in
      bindE (cal_external ''failed to create task sync link'') (\<lambda>_ v.
        if \<not> list_ex (\<lambda>r. row_id r = l_TaskID l) (tasks (core v)) \<or> link_conflict l (links v)
        then (Err (ErrOther ''failed to create task sync link: constraint''), v)
        else (Ok (next_link v),
              (set_links (links v @ [l\<lparr>l_ID := next_link v, l_CreatedAt := clock (core v),
                                       l_UpdatedAt := clock (core v)\<rparr>]) v)\<lparr>next_link := next_link v + 1\<rparr>)))"

definition GetByEvent :: "string \<Rightarrow> string \<Rightarrow> string \<Rightarrow> task_sync_link cop" where
  "GetByEvent provider calendarID eventID =
     bindE (cal_external ''failed to get sync link by event'') (\<lambda>_.
     bindE (gets links) (\<lambda>ls.
     case find (\<lambda>l. event_key l = (provider, calendarID, eventID)) ls of
       Some l \<Rightarrow> ret l
     | None \<Rightarrow> fail (ErrNotFound ''no sync link found for event'')))"

definition ListByBindingID :: "int \<Rightarrow> task_sync_link list cop" where
  "ListByBindingID i =
     bindE (cal_external ''failed to list sync links by binding'') (\<lambda>_.
     gets (\<lambda>v. sort_key l_ID (filter (\<lambda>l. l_CalendarBindingID l = Some i) (links v))))"

definition ListByCalendarIDAndOrigin :: "string \<Rightarrow> string \<Rightarrow> task_sync_link list cop" where
  "ListByCalendarIDAndOrigin calendarID origin =
     bindE (cal_external ''failed to list sync links by calendar'') (\<lambda>_.
     gets (\<lambda>v. sort_key l_ID (filter (\<lambda>l. l_GoogleCalendarID l = calendarID \<and> l_Origin l = origin) (links v))))"

definition ListTaskIDsByProvider :: "int \<Rightarrow> string \<Rightarrow> int list cop" where
  "ListTaskIDsByProvider userID provider =
     bindE (cal_external ''failed to list task ids by provider'') (\<lambda>_.
     gets (\<lambda>v. map l_TaskID (filter (\<lambda>l. l_Provider l = provider \<and>
       list_ex (\<lambda>r. row_id r = l_TaskID l \<and> UserID (r_task r) = userID \<and> live r) (tasks (core v))) (links v))))"

text \<open>The columns an update writes: not the task and not the provider.\<close>

definition link_columns :: "task_sync_link \<Rightarrow> time \<Rightarrow> task_sync_link \<Rightarrow> task_sync_link" where
  "link_columns l now x = x\<lparr>l_GoogleCalendarID := l_GoogleCalendarID l,
     l_GoogleEventID := l_GoogleEventID l, l_ETag := l_ETag l, l_GoogleUpdatedAt := l_GoogleUpdatedAt l,
     l_Origin := l_Origin l, l_SyncEnabled := l_SyncEnabled l, l_ExportOptIn := l_ExportOptIn l,
     l_CalendarBindingID := l_CalendarBindingID l, l_DurationSeconds := l_DurationSeconds l,
     l_LastSyncedAt := l_LastSyncedAt l, l_LastError := l_LastError l, l_UpdatedAt := now\<rparr>"

text \<open>An \<open>UPDATE ... WHERE id = i\<close> of a table with the key \<open>key\<close>.\<close>

definition update_key :: "('a \<Rightarrow> int) \<Rightarrow> int \<Rightarrow> ('a \<Rightarrow> 'a) \<Rightarrow> 'a list \<Rightarrow> 'a list" where
  "update_key key i f xs = map (\<lambda>x. if key x = i then f x else x) xs"

definition link_Update :: "task_sync_link \<Rightarrow> unit cop" where
  "link_Update l =
     bindE cal_now (\<lambda>now.
     bindE (cal_external ''failed to update sync link'') (\<lambda>_ v.
       if \<not> list_ex (\<lambda>x. l_ID x = l_ID l) (links v) then
         (Err (ErrNotFound ''no sync link found for id''), v)
       else if list_ex (\<lambda>x. l_ID x = l_ID l \<and>
                 link_conflict (link_columns l now x) (filter (\<lambda>y. l_ID y \<noteq> l_ID l) (links v))) (links v) then
         (Err (ErrOther ''failed to update sync link: constraint''), v)
       else (Ok (), set_links (update_key l_ID (l_ID l) (link_columns l now) (links v)) v)))"

definition link_Delete :: "int \<Rightarrow> unit cop" where
  "link_Delete i =
     bindE (cal_external ''failed to delete sync link'') (\<lambda>_ v.
       if \<not> list_ex (\<lambda>x. l_ID x = i) (links v) then (Err (ErrNotFound ''no sync link found for id''), v)
       else (Ok (), set_links (filter (\<lambda>x. l_ID x \<noteq> i) (links v)) v))"

definition SetSyncEnabled :: "int \<Rightarrow> bool \<Rightarrow> unit cop" where
  "SetSyncEnabled i enabled =
     bindE cal_now (\<lambda>now.
     bindE (cal_external ''failed to set sync enabled'') (\<lambda>_ v.
       if \<not> list_ex (\<lambda>x. l_ID x = i) (links v) then (Err (ErrNotFound ''no sync link found for id''), v)
       else (Ok (), set_links (update_key l_ID i
               (\<lambda>x. x\<lparr>l_SyncEnabled := enabled, l_UpdatedAt := now\<rparr>) (links v)) v)))"

subsection \<open>Bindings\<close>

definition binding_live :: "calendar_binding \<Rightarrow> bool" where
  "binding_live b \<longleftrightarrow> cb_DeletedAt b = None"

definition with_defaults :: "calendar_binding \<Rightarrow> calendar_binding" where
  "with_defaults b =
     b\<lparr>cb_Direction := (if cb_Direction b = [] then CalendarBindingDirectionImport else cb_Direction b),
       cb_Status := (if cb_Status b = [] then CalendarBindingStatusActive else cb_Status b),
       cb_DeletePolicy := (if cb_DeletePolicy b = [] then CalendarDeletePolicySoftDeleteImported
                           else cb_DeletePolicy b)\<rparr>"

text \<open>What an insert stores; the unique key counts deleted bindings too.\<close>

definition binding_row :: "calendar_binding \<Rightarrow> int \<Rightarrow> time \<Rightarrow> calendar_binding" where
  "binding_row b i now =
     b\<lparr>cb_ID := i, cb_SyncToken := None, cb_LastSyncedAt := None, cb_LastError := None,
       cb_SyncAttempts := 0, cb_NextRetryAt := None, cb_CreatedAt := now, cb_UpdatedAt := now,
       cb_DeletedAt := None\<rparr>"

definition binding_Create :: "calendar_binding \<Rightarrow> (int \<times> calendar_binding) cop" where
  "binding_Create b =
     (let b = with_defaults b in
      bindE (cal_external ''failed to create calendar binding'') (\<lambda>_ v.
        if list_ex (\<lambda>x. cb_GoogleAccountID x = cb_GoogleAccountID b \<and>
                        cb_GoogleCalendarID x = cb_GoogleCalendarID b) (bindings v)
        then (Err (ErrOther ''failed to create calendar binding: constraint''), v)
        else (Ok (next_binding v, b\<lparr>cb_CreatedAt := clock (core v), cb_UpdatedAt := clock (core v)\<rparr>),
              v\<lparr>bindings := bindings v @ [binding_row b (next_binding v) (clock (core v))],
                next_binding := next_binding v + 1\<rparr>)))"

definition binding_GetByID :: "int \<Rightarrow> calendar_binding cop" where
  "binding_GetByID i =
     bindE (cal_external ''failed to get calendar binding'') (\<lambda>_.
     bindE (gets bindings) (\<lambda>bs.
     case find (\<lambda>b. cb_ID b = i \<and> binding_live b) bs of
       Some b \<Rightarrow> ret b
     | None \<Rightarrow> fail (ErrNotFound ''no calendar binding found for id'')))"

definition binding_ListByUserID :: "int \<Rightarrow> calendar_binding list cop" where
  "binding_ListByUserID userID =
     bindE (cal_external ''failed to list calendar bindings'') (\<lambda>_.
     gets (\<lambda>v. sort_key cb_ID (filter (\<lambda>b. cb_UserID b = userID \<and> binding_live b) (bindings v))))"

definition CountByGroupID :: "int \<Rightarrow> int cop" where
  "CountByGroupID groupID =
     bindE (cal_external ''failed to count bindings by group'') (\<lambda>_.
     gets (\<lambda>v. int (length (filter (\<lambda>b. cb_GroupID b = Some groupID \<and> binding_live b) (bindings v)))))"

definition binding_columns :: "calendar_binding \<Rightarrow> time \<Rightarrow> calendar_binding \<Rightarrow> calendar_binding" where
  "binding_columns b now x = x\<lparr>cb_CalendarSummary := cb_CalendarSummary b, cb_Direction := cb_Direction b,
     cb_GroupID := cb_GroupID b, cb_MessengerRelatedUserID := cb_MessengerRelatedUserID b,
     cb_SyncToken := cb_SyncToken b, cb_LastSyncedAt := cb_LastSyncedAt b, cb_LastError := cb_LastError b,
     cb_Status := cb_Status b, cb_DeletePolicy := cb_DeletePolicy b, cb_SyncAttempts := cb_SyncAttempts b,
     cb_NextRetryAt := cb_NextRetryAt b, cb_UpdatedAt := now\<rparr>"

text \<open>An update of the live binding \<open>i\<close>; \<open>missing\<close> tells whether no row is an error.\<close>

definition binding_write :: "int \<Rightarrow> string \<Rightarrow> bool \<Rightarrow> (time \<Rightarrow> calendar_binding \<Rightarrow> calendar_binding) \<Rightarrow> unit cop" where
  "binding_write i failure missing f =
     bindE cal_now (\<lambda>now.
     bindE (cal_external failure) (\<lambda>_ v.
       if missing \<and> \<not> list_ex (\<lambda>b. cb_ID b = i \<and> binding_live b) (bindings v)
       then (Err (ErrNotFound ''no calendar binding found for id''), v)
       else (Ok (), v\<lparr>bindings := update_key cb_ID i (\<lambda>b. if binding_live b then f now b else b) (bindings v)\<rparr>)))"

definition binding_Update :: "calendar_binding \<Rightarrow> unit cop" where
  "binding_Update b = binding_write (cb_ID b) ''failed to update calendar binding'' True (binding_columns b)"

definition binding_SoftDelete :: "int \<Rightarrow> unit cop" where
  "binding_SoftDelete i = binding_write i ''failed to soft delete calendar binding'' True
     (\<lambda>now b. b\<lparr>cb_DeletedAt := Some now, cb_Status := CalendarBindingStatusDisconnected, cb_UpdatedAt := now\<rparr>)"

definition ClearSyncToken :: "int \<Rightarrow> unit cop" where
  "ClearSyncToken i = binding_write i ''failed to clear sync token'' False
     (\<lambda>now b. b\<lparr>cb_SyncToken := None, cb_UpdatedAt := now\<rparr>)"

definition importing :: "calendar_binding \<Rightarrow> bool" where
  "importing b \<longleftrightarrow>
     cb_Direction b = CalendarBindingDirectionImport \<or> cb_Direction b = CalendarBindingDirectionBoth"

definition ListActiveForSync :: "calendar_binding list cop" where
  "ListActiveForSync =
     bindE (cal_external ''failed to list active bindings'') (\<lambda>_.
     gets (\<lambda>v. sort_key cb_ID (filter (\<lambda>b. binding_live b \<and>
       cb_Status b = CalendarBindingStatusActive \<and> importing b) (bindings v))))"

definition due_for_sync :: "time \<Rightarrow> int \<Rightarrow> calendar_binding \<Rightarrow> bool" where
  "due_for_sync now cap b \<longleftrightarrow>
     binding_live b \<and> importing b \<and>
     (cb_Status b = CalendarBindingStatusActive \<or>
      cb_Status b = CalendarBindingStatusError \<and> cb_SyncAttempts b < cap \<and>
      (case cb_NextRetryAt b of None \<Rightarrow> True | Some t \<Rightarrow> t \<le> now))"

definition ListDueForSync :: "time \<Rightarrow> int \<Rightarrow> calendar_binding list cop" where
  "ListDueForSync now cap =
     (let cap = (if cap \<le> 0 then 8 else cap) in
      bindE (cal_external ''failed to list due bindings'') (\<lambda>_.
      gets (\<lambda>v. sort_key cb_ID (filter (due_for_sync now cap) (bindings v)))))"

subsection \<open>Accounts\<close>

definition account_GetByUserID :: "int \<Rightarrow> google_account cop" where
  "account_GetByUserID userID =
     bindE (cal_external ''failed to get google account by user id'') (\<lambda>_.
     bindE (gets (\<lambda>v. sort_key (\<lambda>a. - ga_ID a)
       (filter (\<lambda>a. ga_UserID a = userID \<and> ga_RevokedAt a = None) (accounts v)))) (\<lambda>found.
     case found of
       a # _ \<Rightarrow> ret a
     | [] \<Rightarrow> fail (ErrNotFound ''no google account found for user'')))"

definition account_GetByID :: "int \<Rightarrow> google_account cop" where
  "account_GetByID i =
     bindE (cal_external ''failed to get google account by id'') (\<lambda>_.
     bindE (gets accounts) (\<lambda>found.
     case find (\<lambda>a. ga_ID a = i) found of
       Some a \<Rightarrow> ret a
     | None \<Rightarrow> fail (ErrNotFound ''no google account found for id'')))"

definition account_Revoke :: "int \<Rightarrow> unit cop" where
  "account_Revoke i =
     bindE cal_now (\<lambda>now.
     bindE (cal_external ''failed to revoke google account'') (\<lambda>_ v.
       if \<not> list_ex (\<lambda>a. ga_ID a = i) (accounts v)
       then (Err (ErrNotFound ''no google account found for id''), v)
       else (Ok (), v\<lparr>accounts := update_key ga_ID i (\<lambda>a. a\<lparr>ga_RevokedAt := Some now,
               ga_AccessTokenEnc := [], ga_RefreshTokenEnc := [], ga_UpdatedAt := now\<rparr>) (accounts v)\<rparr>)))"

subsection \<open>The outbox\<close>

definition Enqueue :: "string \<Rightarrow> outboxPayload \<Rightarrow> int cop" where
  "Enqueue kind payload =
     bindE cal_now (\<lambda>now.
     bindE (cal_external ''failed to enqueue outbox item'') (\<lambda>_ v.
       (Ok (next_outbox v),
        v\<lparr>outbox := outbox v @ [\<lparr>ob_ID = next_outbox v, ob_Kind = kind, ob_Payload = payload,
              ob_Attempts = 0, ob_NextRetryAt = now, ob_LastError = None,
              ob_Status = SyncOutboxStatusPending, ob_CreatedAt = clock (core v),
              ob_UpdatedAt = clock (core v)\<rparr>],
          next_outbox := next_outbox v + 1\<rparr>)))"

definition outbox_due :: "time \<Rightarrow> sync_outbox \<Rightarrow> bool" where
  "outbox_due now x \<longleftrightarrow> ob_Status x = SyncOutboxStatusPending \<and> ob_NextRetryAt x \<le> now"

text \<open>One transaction: until its commit nothing has changed.\<close>

definition ClaimDue :: "int \<Rightarrow> sync_outbox list cop" where
  "ClaimDue limit =
     (let limit = (if limit \<le> 0 then 50 else limit) in
      bindE (cal_external ''failed to begin claim due transaction'') (\<lambda>_.
      bindE cal_now (\<lambda>now.
      bindE (cal_external ''failed to select due outbox items'') (\<lambda>_.
      bindE (gets (\<lambda>v. take (nat limit) (sort_key ob_ID (filter (outbox_due now) (outbox v))))) (\<lambda>items.
      if items = [] then ret []
      else bindE cal_now (\<lambda>now2.
        bindE (cal_external ''failed to mark outbox items processing'') (\<lambda>_.
        bindE (cal_external ''failed to commit claim due'') (\<lambda>_.
        bindE (modify (\<lambda>v. v\<lparr>outbox := map (\<lambda>x. if ob_ID x \<in> set (map ob_ID items)
            then x\<lparr>ob_Status := SyncOutboxStatusProcessing, ob_UpdatedAt := now2\<rparr> else x) (outbox v)\<rparr>)) (\<lambda>_.
        ret (map (\<lambda>x. x\<lparr>ob_Status := SyncOutboxStatusProcessing\<rparr>) items))))))))))"

definition outbox_write :: "int \<Rightarrow> string \<Rightarrow> (time \<Rightarrow> sync_outbox \<Rightarrow> sync_outbox) \<Rightarrow> unit cop" where
  "outbox_write i failure f =
     bindE cal_now (\<lambda>now.
     bindE (cal_external failure) (\<lambda>_ v.
       if \<not> list_ex (\<lambda>x. ob_ID x = i) (outbox v)
       then (Err (ErrNotFound ''no outbox item found for id''), v)
       else (Ok (), v\<lparr>outbox := update_key ob_ID i (f now) (outbox v)\<rparr>)))"

definition updateStatus :: "int \<Rightarrow> string \<Rightarrow> string \<Rightarrow> unit cop" where
  "updateStatus i status lastError =
     outbox_write i ''failed to update outbox status''
       (\<lambda>now x. let x = x\<lparr>ob_Status := status, ob_UpdatedAt := now\<rparr> in
          if lastError \<noteq> [] then x\<lparr>ob_LastError := Some lastError\<rparr> else x)"

definition MarkDone :: "int \<Rightarrow> unit cop" where
  "MarkDone i = updateStatus i SyncOutboxStatusDone []"

definition MarkFailed :: "int \<Rightarrow> string \<Rightarrow> unit cop" where
  "MarkFailed i lastError = updateStatus i SyncOutboxStatusFailed lastError"

definition MarkRetry :: "int \<Rightarrow> int \<Rightarrow> time \<Rightarrow> string \<Rightarrow> unit cop" where
  "MarkRetry i attempts nextRetryAt lastError =
     outbox_write i ''failed to mark outbox retry''
       (\<lambda>now x. x\<lparr>ob_Status := SyncOutboxStatusPending, ob_Attempts := attempts,
          ob_NextRetryAt := nextRetryAt, ob_LastError := Some lastError, ob_UpdatedAt := now\<rparr>)"

definition CountPending :: "int cop" where
  "CountPending =
     bindE (cal_external ''failed to count pending outbox'') (\<lambda>_.
     gets (\<lambda>v. int (length (filter (\<lambda>x. ob_Status x = SyncOutboxStatusPending \<or>
                                        ob_Status x = SyncOutboxStatusProcessing) (outbox v)))))"

text \<open>The items whose payload names a task of the user, deleted or not.\<close>

definition outbox_of :: "int \<Rightarrow> cal_world \<Rightarrow> sync_outbox list" where
  "outbox_of userID v = filter (\<lambda>x. list_ex (\<lambda>r. row_id r = pl_TaskID (ob_Payload x) \<and>
     UserID (r_task r) = userID) (tasks (core v))) (outbox v)"

definition CountByUserID :: "int \<Rightarrow> (int \<times> int \<times> int) cop" where
  "CountByUserID userID =
     bindE (cal_external ''failed to count outbox by user'') (\<lambda>_.
     gets (\<lambda>v. let n = (\<lambda>s. int (length (filter (\<lambda>x. ob_Status x = s) (outbox_of userID v)))) in
       (n SyncOutboxStatusPending, n SyncOutboxStatusProcessing, n SyncOutboxStatusFailed)))"

end
