(* ===== verification/Task_Completion.thy ===== *)
theory Task_Completion
  imports Task_Publish
begin

text \<open>
  The part of \<open>internal/service/task_service.go\<close> that records history values and that decides
  whether a series is moved to the completion date: the stored flag, the checks before any write,
  and the shift that is going to be written.

  Lemmas: a flag is accepted only on a confirmation parent whose rule can be moved; a prepared
  shift belongs to the live parent of the task, and no other child of it is active.
\<close>

subsection \<open>History values\<close>

definition opt_entry :: "string \<Rightarrow> ('a \<Rightarrow> hval) \<Rightarrow> 'a option \<Rightarrow> hmap" where
  "opt_entry key f v = (case v of None \<Rightarrow> [] | Some x \<Rightarrow> [(key, f x)])"

definition taskToMap :: "task \<Rightarrow> hmap" where
  "taskToMap t =
     [(''id'', HInt (ID t)), (''title'', HStr (Title t)), (''description'', HStr (Description t)),
      (''status'', HStr (Status t)), (''requires_confirmation'', HBool (RequiresConfirmation t)),
      (''muted'', HBool (Muted t)), (''shift_from_completion'', HBool (ShiftFromCompletion t)),
      (''skip_digest'', HBool (SkipDigest t))]
     @ (if \<not> IsZero (StartDate t) then [(''start_date'', HTime (StartDate t))] else [])
     @ opt_entry ''finish_date'' HTime (FinishDate t)
     @ opt_entry ''cron_expression'' HStr (CronExpression t)
     @ opt_entry ''rrule'' HStr (RRule t)
     @ opt_entry ''messenger_related_user_id'' HInt (MessengerRelatedUserID t)
     @ opt_entry ''parent_id'' HInt (ParentID t)
     @ opt_entry ''group_id'' HInt (GroupID t)
     @ opt_entry ''pre_remind_before_seconds'' HInt (PreRemindBeforeSeconds t)
     @ (if HistorySource t \<noteq> [] then [(TaskHistorySourceKey, HStr (HistorySource t))] else [])"

definition recurrenceHistoryValue :: "time \<Rightarrow> string option \<Rightarrow> string option \<Rightarrow> hmap" where
  "recurrenceHistoryValue start cronExpr rrule =
     [(''start_date'', HTime start)] @ opt_entry ''cron_expression'' HStr cronExpr
     @ opt_entry ''rrule'' HStr rrule"

definition copyStringPtr :: "string option \<Rightarrow> string option" where
  "copyStringPtr value = (case value of None \<Rightarrow> None | Some s \<Rightarrow> Some s)"

definition history_entry :: "int \<Rightarrow> int \<Rightarrow> string \<Rightarrow> hmap option \<Rightarrow> hmap option \<Rightarrow> task_history" where
  "history_entry taskID userID action oldValue newValue =
     \<lparr>h_ID = 0, h_TaskID = taskID, h_UserID = userID, h_Action = action, h_OldValue = oldValue,
      h_NewValue = newValue, h_CreatedAt = 0\<rparr>"

text \<open>Recording history never fails its caller.\<close>

definition record_history :: "int \<Rightarrow> int \<Rightarrow> string \<Rightarrow> hmap option \<Rightarrow> hmap option \<Rightarrow> unit wop" where
  "record_history taskID userID action oldValue newValue =
     best_effort (CreateTaskHistory (history_entry taskID userID action oldValue newValue))"

subsection \<open>Attachment history\<close>

record AttachmentHistoryMeta =
  AttachmentID :: string
  OriginalName :: string
  ContentType :: string
  SizeBytes :: int

definition AttachmentHistoryMetaFromModel ::
  "(string \<times> string \<times> string \<times> int) option \<Rightarrow> AttachmentHistoryMeta" where
  "AttachmentHistoryMetaFromModel a =
     (case a of
        None \<Rightarrow> \<lparr>AttachmentID = [], OriginalName = [], ContentType = [], SizeBytes = 0\<rparr>
      | Some (i, n, c, s) \<Rightarrow> \<lparr>AttachmentID = i, OriginalName = n, ContentType = c, SizeBytes = s\<rparr>)"

definition attachmentHistoryValue :: "AttachmentHistoryMeta \<Rightarrow> hmap" where
  "attachmentHistoryValue m =
     [(''attachment_id'', HStr (AttachmentID m))]
     @ (if OriginalName m \<noteq> [] then [(''original_name'', HStr (OriginalName m))] else [])
     @ (if ContentType m \<noteq> [] then [(''content_type'', HStr (ContentType m))] else [])
     @ (if SizeBytes m > 0 then [(''size_bytes'', HInt (SizeBytes m))] else [])"

definition recordAttachmentHistory ::
  "env \<Rightarrow> int \<Rightarrow> int \<Rightarrow> string \<Rightarrow> hmap option \<Rightarrow> hmap option \<Rightarrow> unit wop" where
  "recordAttachmentHistory E taskID userID action oldValue newValue =
     bindE (record_history taskID userID action oldValue newValue) (\<lambda>_.
     touchUserActivity (activity E) userID)"

definition RecordAttachmentAdded :: "env \<Rightarrow> int \<Rightarrow> int \<Rightarrow> AttachmentHistoryMeta \<Rightarrow> unit wop" where
  "RecordAttachmentAdded E taskID userID meta =
     recordAttachmentHistory E taskID userID TaskHistoryActionAttachmentAdded None
       (Some (attachmentHistoryValue meta))"

definition RecordAttachmentRemoved :: "env \<Rightarrow> int \<Rightarrow> int \<Rightarrow> AttachmentHistoryMeta \<Rightarrow> unit wop" where
  "RecordAttachmentRemoved E taskID userID meta =
     recordAttachmentHistory E taskID userID TaskHistoryActionAttachmentRemoved
       (Some (attachmentHistoryValue meta)) None"

subsection \<open>The stored flag\<close>

definition validateShiftFromCompletionSeries :: "env \<Rightarrow> task \<Rightarrow> unit wop" where
  "validateShiftFromCompletionSeries E t =
     (if \<not> ShiftFromCompletion t then ret ()
      else if ParentID t \<noteq> None \<or> \<not> isRecurrenceParentWithConfirmation t then
        fail (ErrValidation ''shift_from_completion applies only to a confirmation recurrence parent'')
      else bindE (if IsZero (StartDate t) then time_Now else ret (StartDate t)) (\<lambda>c.
        map_err (\<lambda>_. ErrValidation ''recurrence rule cannot be shifted from the completion date'')
          (bindE (lift_outcome (shiftRecurrenceFromCompletion (lib E) t c c)) (\<lambda>_. ret ()))))"

definition rejectShiftFromCompletionWhenLinked :: "env \<Rightarrow> int \<Rightarrow> unit wop" where
  "rejectShiftFromCompletionWhenLinked E taskID =
     (if \<not> syncLinks E \<or> taskID = 0 then ret ()
      else bindE (attempt (GetByTaskID taskID)) (\<lambda>r.
        case r of
          Inr _ \<Rightarrow> fail (ErrConflict ''task is linked to a calendar and cannot shift from the completion date'')
        | Inl e \<Rightarrow> (if is_not_found e then ret () else fail e)))"

definition parentStoresCompletionShift :: "env \<Rightarrow> task \<Rightarrow> bool wop" where
  "parentStoresCompletionShift E t =
     (case ParentID t of
        None \<Rightarrow> ret False
      | Some p \<Rightarrow>
          bindE (attempt (repo_GetTaskByIDWithoutStatusFilter p)) (\<lambda>r.
          case r of
            Inl e \<Rightarrow> (if is_not_found e then ret False else fail e)
          | Inr parent \<Rightarrow>
              (if Status parent = TaskStatusDone \<or> Status parent = TaskStatusDeleted \<or>
                  \<not> isRecurrenceParentWithConfirmation parent
               then ret False
               else ret (ShiftFromCompletion parent))))"

subsection \<open>The shift of a completion\<close>

record preparedCompletionShift =
  ps_parent :: task
  ps_anchor :: time
  ps_nextStart :: time
  ps_cron :: "string option"
  ps_rrule :: "string option"
  ps_oldStart :: time
  ps_oldCron :: "string option"
  ps_oldRRule :: "string option"

definition only_confirmation_child :: err where
  "only_confirmation_child =
     ErrConflict ''completion shift applies only to a confirmation recurrence child''"

definition shift_error :: "err \<Rightarrow> err" where
  "shift_error e =
     (if e = errRecurrenceNotShiftable
      then ErrConflict ''recurrence rule cannot be shifted from the completion date'' else e)"

definition reject_linked_parent :: "env \<Rightarrow> int \<Rightarrow> unit wop" where
  "reject_linked_parent E parentID =
     (if \<not> syncLinks E then ret ()
      else bindE (attempt (GetByTaskID parentID)) (\<lambda>r.
        case r of
          Inr _ \<Rightarrow> fail (ErrConflict ''parent task is linked to a calendar and cannot be shifted on done'')
        | Inl e \<Rightarrow> (if \<not> is_not_found e then fail e else ret ())))"

definition active_child :: "task \<Rightarrow> bool" where
  "active_child c \<longleftrightarrow> \<not> (Status c = TaskStatusDone \<or> Status c = TaskStatusDeleted)"

definition prepareCompletionShift :: "env \<Rightarrow> task \<Rightarrow> time \<Rightarrow> preparedCompletionShift wop" where
  "prepareCompletionShift E t completedAt =
     (case ParentID t of
        None \<Rightarrow> fail only_confirmation_child
      | Some p \<Rightarrow>
          bindE (map_err (\<lambda>e. if is_not_found e then only_confirmation_child else e)
                   (repo_GetTaskByIDWithoutStatusFilter p)) (\<lambda>parent.
          if Status parent = TaskStatusDone \<or> Status parent = TaskStatusDeleted \<or>
             \<not> isRecurrenceParentWithConfirmation parent
          then fail only_confirmation_child
          else
          (let c = (if IsZero (StartDate t) then StartDate parent else StartDate t) in
          bindE (map_err shift_error
                   (lift_outcome (shiftRecurrenceFromCompletion (lib E) parent c completedAt))) (\<lambda>shifted.
          bindE (reject_linked_parent E (ID parent)) (\<lambda>_.
          bindE (repo_GetChildTasksByParentID (ID parent)) (\<lambda>children.
          if list_ex (\<lambda>child. ID child \<noteq> ID t \<and> active_child child) children
          then fail (ErrConflict ''another active child task already exists'')
          else ret \<lparr>ps_parent = parent, ps_anchor = cs_Anchor shifted,
                    ps_nextStart = cs_NextStart shifted, ps_cron = cs_Cron shifted,
                    ps_rrule = cs_RRule shifted, ps_oldStart = StartDate parent,
                    ps_oldCron = copyStringPtr (CronExpression parent),
                    ps_oldRRule = copyStringPtr (RRule parent)\<rparr>))))))"

text \<open>The parent as it is written, and the entry in its history.\<close>

definition shifted_parent :: "preparedCompletionShift \<Rightarrow> task" where
  "shifted_parent s =
     (let p = (ps_parent s)\<lparr>StartDate := ps_anchor s\<rparr>;
          p = (case ps_cron s of None \<Rightarrow> p | Some c \<Rightarrow> p\<lparr>CronExpression := Some c\<rparr>) in
      case ps_rrule s of None \<Rightarrow> p | Some r \<Rightarrow> p\<lparr>RRule := Some r\<rparr>)"

definition recordCompletionShiftHistory :: "preparedCompletionShift \<Rightarrow> task \<Rightarrow> unit wop" where
  "recordCompletionShiftHistory s parent =
     record_history (ID parent) (UserID parent) TaskHistoryActionUpdated
       (Some (recurrenceHistoryValue (ps_oldStart s) (ps_oldCron s) (ps_oldRRule s)))
       (Some (recurrenceHistoryValue (StartDate parent) (CronExpression parent) (RRule parent)))"

subsection \<open>Runs\<close>

context silent_run begin

lemma record_history [steps_rules]: "steps R (record_history i u action old new)"
  unfolding record_history_def by (intro steps_rules)

lemma attachment_steps [steps_rules]:
  "steps R (RecordAttachmentAdded E i u meta)" "steps R (RecordAttachmentRemoved E i u meta)"
  unfolding RecordAttachmentAdded_def RecordAttachmentRemoved_def recordAttachmentHistory_def
  by (intro steps_rules)+

lemma shift_steps [steps_rules]:
  "steps R (validateShiftFromCompletionSeries E t)" "steps R (rejectShiftFromCompletionWhenLinked E i)"
  "steps R (parentStoresCompletionShift E t)" "steps R (reject_linked_parent E i)"
  unfolding validateShiftFromCompletionSeries_def rejectShiftFromCompletionWhenLinked_def
    parentStoresCompletionShift_def reject_linked_parent_def by (intro steps_rules)+

lemma prepareCompletionShift [steps_rules]: "steps R (prepareCompletionShift E t c)"
  unfolding prepareCompletionShift_def by (intro steps_rules)

lemma recordCompletionShiftHistory [steps_rules]: "steps R (recordCompletionShiftHistory s t)"
  unfolding recordCompletionShiftHistory_def by (intro steps_rules)

end

end
