(* ===== verification/Calendar_Import.thy ===== *)
theory Calendar_Import
  imports Calendar_Store Task_Completion
begin

text \<open>
  \<open>CalendarSyncService\<close> (\<open>internal/service/calendar_sync_service.go\<close>): accounts and bindings, and the
  import of events.  An event becomes a task with a link, a known event changes its task, a cancelled
  event is handled by the delete policy of the binding.

  \<open>importEvents\<close> reads pages until Google sends no page token, and starts over without the sync token
  when Google has forgotten it.  It changes the binding it is given also when it fails, and returns
  it next to the error.  Every round takes one reply of Google, so as many rounds as there are
  replies, and one, are enough.

  Connecting an account (\<open>StartOAuth\<close>, \<open>HandleOAuthCallback\<close>) is in \<open>Calendar_OAuth\<close>.
\<close>

subsection \<open>Accounts and the client\<close>

definition decryptToken :: "cal_env \<Rightarrow> google_account \<Rightarrow> (string \<times> string) cop" where
  "decryptToken E a =
     (case c_decrypt E (ga_AccessTokenEnc a) of
        None \<Rightarrow> fail (ErrOther ''decrypt access token'')
      | Some access \<Rightarrow>
          (case c_decrypt E (ga_RefreshTokenEnc a) of
             None \<Rightarrow> fail (ErrOther ''decrypt refresh token'')
           | Some refresh \<Rightarrow> ret (access, refresh)))"

definition clientForAccount :: "cal_env \<Rightarrow> google_account \<Rightarrow> google_account cop" where
  "clientForAccount E a =
     bindE (decryptToken E a) (\<lambda>_.
     bindE (cal_external ''create calendar client'') (\<lambda>_. ret a))"

definition not_connected :: "err \<Rightarrow> err" where
  "not_connected e =
     (if is_not_found e then ErrUnprocessableEntity ''google account not connected'' else e)"

definition clientForUser :: "cal_env \<Rightarrow> int \<Rightarrow> google_account cop" where
  "clientForUser E userID =
     bindE (map_err not_connected (account_GetByUserID userID)) (\<lambda>a. clientForAccount E a)"

definition clientForAccountID :: "cal_env \<Rightarrow> int \<Rightarrow> google_account cop" where
  "clientForAccountID E accountID =
     bindE (account_GetByID accountID) (\<lambda>a.
     if ga_RevokedAt a \<noteq> None then fail (ErrUnprocessableEntity ''google account revoked'')
     else clientForAccount E a)"

definition ListGoogleCalendars :: "cal_env \<Rightarrow> int \<Rightarrow> calendar list cop" where
  "ListGoogleCalendars E userID =
     bindE (clientForUser E userID) (\<lambda>_. google_op GListCalendars ''list calendars'' g_calendars)"

record create_binding_request =
  cr_UserID :: int
  cr_GoogleCalendarID :: string
  cr_CalendarSummary :: "string option"
  cr_Direction :: string
  cr_GroupID :: "int option"
  cr_MessengerRelatedUserID :: "int option"
  cr_DeletePolicy :: string

definition check_binding_messenger :: "create_binding_request \<Rightarrow> unit cop" where
  "check_binding_messenger req =
     (case cr_MessengerRelatedUserID req of
        None \<Rightarrow> ret ()
      | Some i \<Rightarrow>
          bindE (map_err (\<lambda>e. if is_not_found e
                              then ErrUnprocessableEntity ''messenger_related_user_id not found'' else e)
                   (in_core (GetMessengerRelatedUserByID i))) (\<lambda>mru.
          if mru_UserID mru \<noteq> Some (cr_UserID req)
          then fail (ErrValidation ''messenger_related_user_id does not belong to user'') else ret ()))"

definition CreateBinding :: "create_binding_request \<Rightarrow> calendar_binding cop" where
  "CreateBinding req =
     bindE (map_err not_connected (account_GetByUserID (cr_UserID req))) (\<lambda>account.
     if trim_space (cr_GoogleCalendarID req) = [] then fail (ErrValidation ''google_calendar_id is required'')
     else
     bindE (check_binding_messenger req) (\<lambda>_.
     bindE (binding_Create \<lparr>cb_ID = 0, cb_UserID = cr_UserID req, cb_GoogleAccountID = ga_ID account,
              cb_GoogleCalendarID = cr_GoogleCalendarID req, cb_CalendarSummary = cr_CalendarSummary req,
              cb_Direction = (if cr_Direction req = [] then CalendarBindingDirectionImport
                              else cr_Direction req),
              cb_GroupID = cr_GroupID req, cb_MessengerRelatedUserID = cr_MessengerRelatedUserID req,
              cb_SyncToken = None, cb_LastSyncedAt = None, cb_LastError = None,
              cb_Status = CalendarBindingStatusActive,
              cb_DeletePolicy = (if cr_DeletePolicy req = [] then CalendarDeletePolicySoftDeleteImported
                                 else cr_DeletePolicy req),
              cb_SyncAttempts = 0, cb_NextRetryAt = None, cb_CreatedAt = 0, cb_UpdatedAt = 0,
              cb_DeletedAt = None\<rparr>) (\<lambda>(i, b).
     ret (b\<lparr>cb_ID := i\<rparr>))))"

subsection \<open>What happens to imported tasks\<close>

definition imported_schedule :: "cal_env \<Rightarrow> task \<Rightarrow> unit cop" where
  "imported_schedule E t =
     (case c_scheduler E of
        None \<Rightarrow> ret ()
      | Some S \<Rightarrow>
          in_core (bindE (PublishImportedTaskSchedule S (Some t)) (\<lambda>(_, e).
            case e of None \<Rightarrow> ret () | Some x \<Rightarrow> fail x)))"

definition imported_delete :: "cal_env \<Rightarrow> task \<Rightarrow> unit cop" where
  "imported_delete E t =
     (case c_scheduler E of
        None \<Rightarrow> ret ()
      | Some S \<Rightarrow> in_core (PublishImportedTaskDelete S (Some t)))"

definition recordImportedTaskHistory ::
  "cal_env \<Rightarrow> string \<Rightarrow> task \<Rightarrow> hmap option \<Rightarrow> hmap option \<Rightarrow> unit cop" where
  "recordImportedTaskHistory E action t oldValue newValue =
     (if \<not> c_history E then ret ()
      else in_core (record_history (ID t) (UserID t) action
             (map_option with_source oldValue) (map_option with_source newValue)))"

definition applyImportedDeletePolicy :: "cal_env \<Rightarrow> string \<Rightarrow> task \<Rightarrow> unit cop" where
  "applyImportedDeletePolicy E policy t =
     (let (softDelete, mute) = ApplyDeletePolicy policy in
      if softDelete then
        bindE (best_effort (imported_delete E t)) (\<lambda>_.
        bindE (in_core (repo_DeleteTask (ID t))) (\<lambda>_.
        recordImportedTaskHistory E TaskHistoryActionDeleted t (Some (calendarTaskHistoryMap t))
          (Some [(''status'', HStr TaskStatusDeleted)])))
      else if mute \<and> \<not> Muted t then
        bindE (best_effort (imported_delete E t)) (\<lambda>_.
        bindE (in_core (repo_UpdateTask (t\<lparr>Muted := True\<rparr>))) (\<lambda>_.
        recordImportedTaskHistory E TaskHistoryActionUpdated (t\<lparr>Muted := True\<rparr>)
          (Some (calendarTaskHistoryMap t)) (Some (calendarTaskHistoryMap (t\<lparr>Muted := True\<rparr>)))))
      else ret ())"

subsection \<open>Removing bindings\<close>

definition drop_imported :: "cal_env \<Rightarrow> calendar_binding \<Rightarrow> task_sync_link \<Rightarrow> unit cop" where
  "drop_imported E b l =
     (if l_Origin l \<noteq> TaskSyncLinkOriginImported then ret ()
      else bindE (attempt (in_core (repo_GetTaskByIDWithoutStatusFilter (l_TaskID l)))) (\<lambda>r.
        case r of
          Inl e \<Rightarrow> (if is_not_found e then ret () else fail e)
        | Inr t \<Rightarrow> applyImportedDeletePolicy E (cb_DeletePolicy b) t))"

definition DeleteBinding :: "cal_env \<Rightarrow> int \<Rightarrow> unit cop" where
  "DeleteBinding E bindingID =
     bindE (binding_GetByID bindingID) (\<lambda>b.
     bindE (ListByBindingID bindingID) (\<lambda>ls.
     bindE (for_each (drop_imported E b) ls) (\<lambda>_.
     binding_SoftDelete bindingID)))"

definition revoke_remote :: "cal_env \<Rightarrow> google_account \<Rightarrow> unit cop" where
  "revoke_remote E a =
     bindE (attempt (decryptToken E a)) (\<lambda>r.
     case r of
       Inl _ \<Rightarrow> ret ()
     | Inr (access, _) \<Rightarrow>
         (if access \<noteq> [] then best_effort (cal_external ''revoke'') else ret ()))"

definition DisconnectGoogle :: "cal_env \<Rightarrow> int \<Rightarrow> unit cop" where
  "DisconnectGoogle E userID =
     bindE (account_GetByUserID userID) (\<lambda>a.
     bindE (binding_ListByUserID userID) (\<lambda>bs.
     bindE (for_each (\<lambda>b. DeleteBinding E (cb_ID b)) bs) (\<lambda>_.
     bindE (revoke_remote E a) (\<lambda>_.
     account_Revoke (ga_ID a)))))"

subsection \<open>Importing one event\<close>

definition applyCancelledEvent :: "cal_env \<Rightarrow> calendar_binding \<Rightarrow> task_sync_link \<Rightarrow> unit cop" where
  "applyCancelledEvent E b l =
     bindE (attempt (in_core (repo_GetTaskByIDWithoutStatusFilter (l_TaskID l)))) (\<lambda>r.
     case r of
       Inl e \<Rightarrow> (if is_not_found e then link_Delete (l_ID l) else fail e)
     | Inr t \<Rightarrow> applyImportedDeletePolicy E (cb_DeletePolicy b) t)"

definition event_link :: "calendar_binding \<Rightarrow> event \<Rightarrow> int \<Rightarrow> string \<Rightarrow> time \<Rightarrow> task_sync_link" where
  "event_link b ev taskID origin now =
     \<lparr>l_ID = 0, l_TaskID = taskID, l_Provider = TaskSyncProviderGoogleCalendar,
      l_GoogleCalendarID = cb_GoogleCalendarID b, l_GoogleEventID = e_ID ev,
      l_ETag = Some (e_ETag ev), l_GoogleUpdatedAt = Some (e_Updated ev), l_Origin = origin,
      l_SyncEnabled = True, l_ExportOptIn = False, l_CalendarBindingID = Some (cb_ID b),
      l_DurationSeconds = EventDurationSeconds ev, l_LastSyncedAt = Some now, l_LastError = None,
      l_CreatedAt = 0, l_UpdatedAt = 0\<rparr>"

text \<open>The link to go on with; \<open>None\<close> when the event is done with: the echo of an export whose link was
  missing gets its link and nothing else.\<close>

definition find_link ::
  "calendar_binding \<Rightarrow> event \<Rightarrow> task_sync_link option \<Rightarrow> task_sync_link option option cop" where
  "find_link b ev link =
     (case (link, TaskIDFromExtendedProperties (e_ExtendedProperties ev)) of
        (None, Some taskID) \<Rightarrow>
          (if taskID > 0 then
             bindE (attempt (in_core (GetByTaskID taskID))) (\<lambda>r.
             case r of
               Inr existing \<Rightarrow> ret (Some (Some existing))
             | Inl e \<Rightarrow>
                 (if is_not_found e then
                    bindE cal_now (\<lambda>now.
                    bindE (link_Create (event_link b ev taskID TaskSyncLinkOriginExported now)) (\<lambda>_.
                    ret None))
                  else fail e))
           else ret (Some None))
      | _ \<Rightarrow> ret (Some link))"

definition create_imported :: "cal_env \<Rightarrow> calendar_binding \<Rightarrow> event \<Rightarrow> task \<Rightarrow> time \<Rightarrow> unit cop" where
  "create_imported E b ev mapped now =
     bindE (in_core (repo_CreateTask mapped)) (\<lambda>taskID.
     let t = mapped\<lparr>ID := taskID\<rparr> in
     bindE (recordImportedTaskHistory E TaskHistoryActionCreated t None (Some (calendarTaskHistoryMap t))) (\<lambda>_.
     bindE (link_Create (event_link b ev taskID TaskSyncLinkOriginImported now)) (\<lambda>_.
     best_effort (imported_schedule E t))))"

definition schedule_changed :: "task \<Rightarrow> task \<Rightarrow> bool" where
  "schedule_changed t mapped \<longleftrightarrow>
     StartDate t \<noteq> StartDate mapped \<or> \<not> recurrencePtrsEqual (RRule t) (RRule mapped) \<or>
     Title t \<noteq> Title mapped \<or> Description t \<noteq> Description mapped"

definition was_scheduled :: "task \<Rightarrow> bool" where
  "was_scheduled t \<longleftrightarrow>
     Status t = TaskStatusScheduled \<or> Status t = TaskStatusRescheduled \<or> Status t = TaskStatusPostponed"

text \<open>The task after the event: a passed echo of an own export (\<open>keepOpen\<close>) keeps status, start and rule.\<close>

definition merge_event :: "bool \<Rightarrow> task \<Rightarrow> task \<Rightarrow> task" where
  "merge_event keepOpen mapped t =
     (let t = applyImportedDeliveryChat
                (t\<lparr>Title := Title mapped, Description := Description mapped, GroupID := GroupID mapped\<rparr>)
                (MessengerRelatedUserID mapped) in
      if keepOpen then t
      else (let t = t\<lparr>StartDate := StartDate mapped, RRule := RRule mapped, Status := Status mapped\<rparr> in
        if Status mapped = TaskStatusDone then t\<lparr>FinishDate := FinishDate mapped\<rparr>
        else if Status mapped = TaskStatusScheduled then t\<lparr>FinishDate := None\<rparr>
        else t))"

definition non_status_changed :: "task \<Rightarrow> task \<Rightarrow> bool" where
  "non_status_changed old t \<longleftrightarrow>
     Title old \<noteq> Title t \<or> Description old \<noteq> Description t \<or> StartDate old \<noteq> StartDate t \<or>
     \<not> recurrencePtrsEqual (RRule old) (RRule t) \<or> ptr_differs (GroupID old) (GroupID t) \<or>
     ptr_differs (MessengerRelatedUserID old) (MessengerRelatedUserID t) \<or>
     ptr_differs (FinishDate old) (FinishDate t)"

definition save_imported :: "cal_env \<Rightarrow> task \<Rightarrow> task \<Rightarrow> unit cop" where
  "save_imported E old t =
     (if \<not> calendarImportedFieldsChanged old t then ret ()
      else bindE (in_core (repo_UpdateTask t)) (\<lambda>_.
        bindE (when_op (Status old \<noteq> Status t)
                 (recordImportedTaskHistory E TaskHistoryActionStatusChanged t
                    (Some [(''status'', HStr (Status old))]) (Some [(''status'', HStr (Status t))]))) (\<lambda>_.
        when_op (non_status_changed old t \<or> Status old = Status t)
          (recordImportedTaskHistory E TaskHistoryActionUpdated t
             (Some (calendarTaskHistoryMap old)) (Some (calendarTaskHistoryMap t))))))"

definition republish_imported :: "cal_env \<Rightarrow> bool \<Rightarrow> task \<Rightarrow> task \<Rightarrow> task \<Rightarrow> unit cop" where
  "republish_imported E keepOpen old mapped t =
     (if keepOpen \<or> MessengerRelatedUserID t = None then ret ()
      else if Status mapped = TaskStatusScheduled \<and> (schedule_changed old mapped \<or> \<not> was_scheduled old)
      then best_effort (imported_schedule E t)
      else if was_scheduled old \<and> Status mapped \<noteq> TaskStatusScheduled
      then best_effort (imported_delete E t)
      else ret ())"

text \<open>The task of a known event; it is created again when it is gone.  The result is the link.\<close>

definition update_imported :: "cal_env \<Rightarrow> task_sync_link \<Rightarrow> task \<Rightarrow> task_sync_link cop" where
  "update_imported E l mapped =
     bindE (attempt (in_core (repo_GetTaskByIDWithoutStatusFilter (l_TaskID l)))) (\<lambda>r.
     case r of
       Inl e \<Rightarrow>
         (if \<not> is_not_found e then fail e
          else bindE (in_core (repo_CreateTask mapped)) (\<lambda>taskID.
            let t = mapped\<lparr>ID := taskID\<rparr> in
            bindE (recordImportedTaskHistory E TaskHistoryActionCreated t None
                     (Some (calendarTaskHistoryMap t))) (\<lambda>_.
            bindE (best_effort (imported_schedule E t)) (\<lambda>_.
            ret (l\<lparr>l_TaskID := taskID\<rparr>)))))
     | Inr old \<Rightarrow>
         (let keepOpen = keepExportedReminderOpen (l_Origin l) (Status mapped);
              t = merge_event keepOpen mapped old in
          bindE (save_imported E old t) (\<lambda>_.
          bindE (republish_imported E keepOpen old mapped t) (\<lambda>_.
          ret l))))"

definition refreshed_link :: "calendar_binding \<Rightarrow> event \<Rightarrow> time \<Rightarrow> task_sync_link \<Rightarrow> task_sync_link" where
  "refreshed_link b ev now l = l\<lparr>l_ETag := Some (e_ETag ev), l_GoogleUpdatedAt := Some (e_Updated ev),
     l_DurationSeconds := EventDurationSeconds ev, l_LastSyncedAt := Some now, l_LastError := None,
     l_CalendarBindingID := Some (cb_ID b)\<rparr>"

definition upsertImportedEvent :: "cal_env \<Rightarrow> calendar_binding \<Rightarrow> event \<Rightarrow> unit cop" where
  "upsertImportedEvent E b ev =
     bindE (attempt (GetByEvent TaskSyncProviderGoogleCalendar (cb_GoogleCalendarID b) (e_ID ev))) (\<lambda>r.
     bindE (case r of
              Inr l \<Rightarrow> ret (Some l)
            | Inl e \<Rightarrow> (if is_not_found e then ret None else fail e)) (\<lambda>link.
     if equal_fold (e_Status ev) ''cancelled'' then
       (case link of None \<Rightarrow> ret () | Some l \<Rightarrow> applyCancelledEvent E b l)
     else bindE (find_link b ev link) (\<lambda>found.
       case found of
         None \<Rightarrow> ret ()
       | Some link \<Rightarrow>
           bindE (map_err (wrap_err ''map event to task'')
                    (in_core (MapEventToTaskFields (c_lib E) ev (cb_UserID b) (cb_GroupID b)
                                (cb_MessengerRelatedUserID b)))) (\<lambda>mapped.
           bindE cal_now (\<lambda>now.
           case link of
             None \<Rightarrow> create_imported E b ev mapped now
           | Some l \<Rightarrow>
               bindE (update_imported E l mapped) (\<lambda>l.
               link_Update (refreshed_link b ev now l)))))))"

subsection \<open>Importing a calendar\<close>

definition window_days :: "cal_env \<Rightarrow> int" where
  "window_days E = (if c_windowDays E \<le> 0 then 90 else c_windowDays E)"

definition list_opts :: "cal_env \<Rightarrow> calendar_binding \<Rightarrow> string \<Rightarrow> list_events_opts cop" where
  "list_opts E b pageToken =
     (let opts = \<lparr>lo_SyncToken = [], lo_TimeMin = None, lo_TimeMax = None, lo_PageToken = pageToken,
                  lo_MaxResults = 250\<rparr> in
      if cb_SyncToken b \<noteq> None \<and> cb_SyncToken b \<noteq> Some []
      then ret (opts\<lparr>lo_SyncToken := the (cb_SyncToken b)\<rparr>)
      else bindE cal_now (\<lambda>now.
        ret (opts\<lparr>lo_TimeMin := Some (now - window_days E * day_ns),
                  lo_TimeMax := Some (now + window_days E * day_ns)\<rparr>)))"

definition IsSyncTokenInvalid :: "err \<Rightarrow> bool" where
  "IsSyncTokenInvalid e \<longleftrightarrow>
     contains_sub ''410'' (error_text e) \<or> contains_sub ''Sync token is no longer valid'' (error_text e) \<or>
     contains_sub ''fullSyncRequired'' (error_text e)"

fun import_pages ::
  "cal_env \<Rightarrow> nat \<Rightarrow> calendar_binding \<Rightarrow> string \<Rightarrow> (calendar_binding \<times> err option) cop" where
  "import_pages E 0 b pageToken = ret (b, Some (ErrOther ''no reply''))"
| "import_pages E (Suc n) b pageToken =
     bindE (list_opts E b pageToken) (\<lambda>opts.
     bindE (attempt (google_op (GListEvents (cb_GoogleCalendarID b) opts) ''list events'' g_page)) (\<lambda>r.
     case r of
       Inl e \<Rightarrow>
         (if IsSyncTokenInvalid e then
            bindE (best_effort (ClearSyncToken (cb_ID b))) (\<lambda>_.
            import_pages E n (b\<lparr>cb_SyncToken := None\<rparr>) [])
          else ret (b, Some e))
     | Inr page \<Rightarrow>
         bindE (attempt (for_each (upsertImportedEvent E b) (lr_Events page))) (\<lambda>u.
         case u of
           Inl e \<Rightarrow> ret (b, Some e)
         | Inr _ \<Rightarrow>
             (if lr_NextPageToken page \<noteq> [] then import_pages E n b (lr_NextPageToken page)
              else ret (if lr_NextSyncToken page \<noteq> []
                        then b\<lparr>cb_SyncToken := Some (lr_NextSyncToken page)\<rparr> else b, None)))))"

definition importEvents :: "cal_env \<Rightarrow> calendar_binding \<Rightarrow> (calendar_binding \<times> err option) cop" where
  "importEvents E b = (\<lambda>v. import_pages E (Suc (length (replies v))) b [] v)"

definition markBindingError :: "calendar_binding \<Rightarrow> err \<Rightarrow> unit cop" where
  "markBindingError b e =
     bindE cal_now (\<lambda>now.
     best_effort (binding_Update (b\<lparr>cb_LastError := Some (error_text e),
       cb_Status := CalendarBindingStatusError, cb_SyncAttempts := cb_SyncAttempts b + 1,
       cb_NextRetryAt := Some (now + BindingSyncBackoff (cb_SyncAttempts b + 1))\<rparr>)))"

definition markBindingSynced :: "calendar_binding \<Rightarrow> unit cop" where
  "markBindingSynced b =
     bindE cal_now (\<lambda>now.
     best_effort (binding_Update (b\<lparr>cb_LastSyncedAt := Some now, cb_LastError := None,
       cb_Status := CalendarBindingStatusActive, cb_SyncAttempts := 0, cb_NextRetryAt := None\<rparr>)))"

definition refreshBindingCalendarSummary :: "calendar_binding \<Rightarrow> calendar_binding cop" where
  "refreshBindingCalendarSummary b =
     bindE (attempt (google_op (GGetCalendar (cb_GoogleCalendarID b)) ''get calendar'' g_calendar)) (\<lambda>r.
     case r of
       Inr (Some c) \<Rightarrow>
         (if cal_Summary c = [] \<or> cb_CalendarSummary b = Some (cal_Summary c) then ret b
          else (let b = b\<lparr>cb_CalendarSummary := Some (cal_Summary c)\<rparr> in
            bindE (best_effort (binding_Update b)) (\<lambda>_. ret b)))
     | _ \<Rightarrow> ret b)"

definition SyncBinding :: "cal_env \<Rightarrow> int \<Rightarrow> unit cop" where
  "SyncBinding E bindingID =
     bindE (binding_GetByID bindingID) (\<lambda>b.
     bindE (attempt (clientForAccountID E (cb_GoogleAccountID b))) (\<lambda>c.
     case c of
       Inl e \<Rightarrow> bindE (when_op (importing b) (markBindingError b e)) (\<lambda>_. fail e)
     | Inr _ \<Rightarrow>
         bindE (refreshBindingCalendarSummary b) (\<lambda>b.
         if \<not> importing b then ret ()
         else bindE (importEvents E b) (\<lambda>(b, e).
           case e of
             Some x \<Rightarrow> bindE (markBindingError b x) (\<lambda>_. fail x)
           | None \<Rightarrow> markBindingSynced b))))"

end
