(* ===== verification/Calendar_Export.thy ===== *)
theory Calendar_Export
  imports Calendar_Import
begin

text \<open>
  The export side of \<open>CalendarSyncService\<close> (\<open>internal/service/calendar_sync_service.go\<close>): what a local
  change puts into the outbox, what processing the outbox does at Google, and the rounds of
  \<open>calendar_sync_scheduler.go\<close>.

  The two sets of binding ids of \<open>EnqueueExport\<close> are lists without duplicates; \<open>c_range\<close> is the order in
  which Go walks through them.
\<close>

subsection \<open>Into the outbox\<close>

definition payload :: "int \<Rightarrow> int \<Rightarrow> int \<Rightarrow> string \<Rightarrow> outboxPayload" where
  "payload taskID bindingID linkID action =
     \<lparr>pl_TaskID = taskID, pl_BindingID = bindingID, pl_LinkID = linkID, pl_Action = action\<rparr>"

definition insert_id :: "int \<Rightarrow> int list \<Rightarrow> int list" where
  "insert_id i xs = (if i \<in> set xs then xs else xs @ [i])"

definition enqueueExportDeleteByExportedLink :: "int \<Rightarrow> unit cop" where
  "enqueueExportDeleteByExportedLink taskID =
     bindE (attempt (in_core (GetByTaskID taskID))) (\<lambda>r.
     case r of
       Inl e \<Rightarrow> (if is_not_found e then ret () else fail e)
     | Inr l \<Rightarrow>
         (if l_Origin l \<noteq> TaskSyncLinkOriginExported then ret ()
          else bindE (Enqueue OutboxKindExportDelete (payload taskID 0 (l_ID l) [])) (\<lambda>_. ret ())))"

text \<open>The binding of a link, if the link takes part in the export.\<close>

definition exporting_binding :: "task_sync_link \<Rightarrow> calendar_binding option cop" where
  "exporting_binding l =
     (case (l_SyncEnabled l, l_CalendarBindingID l) of
        (True, Some i) \<Rightarrow>
          bindE (attempt (binding_GetByID i)) (\<lambda>r.
          ret (case r of
                 Inl _ \<Rightarrow> None
               | Inr b \<Rightarrow> (if bindingAllowsTaskExport (cb_Direction b) then Some b else None)))
      | _ \<Rightarrow> ret None)"

definition enqueueExportDeleteForGoneTask :: "int \<Rightarrow> unit cop" where
  "enqueueExportDeleteForGoneTask taskID =
     bindE (attempt (in_core (GetByTaskID taskID))) (\<lambda>r.
     case r of
       Inl e \<Rightarrow> (if is_not_found e then ret () else fail e)
     | Inr l \<Rightarrow>
         bindE (exporting_binding l) (\<lambda>found.
         case found of
           Some b \<Rightarrow>
             bindE (Enqueue OutboxKindExportDelete (payload taskID (cb_ID b) 0 ''deleted'')) (\<lambda>_. ret ())
         | None \<Rightarrow>
             (if l_Origin l \<noteq> TaskSyncLinkOriginExported then ret ()
              else bindE (Enqueue OutboxKindExportDelete (payload taskID 0 (l_ID l) [])) (\<lambda>_. ret ()))))"

text \<open>What the link of the task asks for: ids to upsert and ids to delete.\<close>

definition link_targets :: "task \<Rightarrow> int \<Rightarrow> string \<Rightarrow> (int list \<times> int list) cop" where
  "link_targets t taskID action =
     bindE (attempt (in_core (GetByTaskID taskID))) (\<lambda>r.
     case r of
       Inl _ \<Rightarrow> ret ([], [])
     | Inr l \<Rightarrow>
         bindE (exporting_binding l) (\<lambda>found.
         ret (case found of
                None \<Rightarrow> ([], [])
              | Some b \<Rightarrow>
                  (if action = ''deleted'' then ([], [cb_ID b])
                   else if \<not> taskMatchesExportBindingGroup t b \<and> \<not> l_ExportOptIn l then ([], [cb_ID b])
                   else ([cb_ID b], [])))))"

text \<open>What the bindings of the owner ask for, on top of it.\<close>

fun binding_targets ::
  "task \<Rightarrow> string \<Rightarrow> calendar_binding list \<Rightarrow> int list \<times> int list \<Rightarrow> int list \<times> int list" where
  "binding_targets t action [] (ups, dels) = (ups, dels)"
| "binding_targets t action (b # bs) (ups, dels) =
     (if \<not> bindingAllowsTaskExport (cb_Direction b) then binding_targets t action bs (ups, dels)
      else if \<not> taskMatchesExportBindingGroup t b then binding_targets t action bs (ups, dels)
      else if action = ''deleted'' then binding_targets t action bs (ups, insert_id (cb_ID b) dels)
      else binding_targets t action bs (insert_id (cb_ID b) ups, dels))"

definition enqueue_all :: "string \<Rightarrow> int \<Rightarrow> string \<Rightarrow> int list \<Rightarrow> unit cop" where
  "enqueue_all kind taskID action ids =
     for_each (\<lambda>i. bindE (Enqueue kind (payload taskID i 0 action)) (\<lambda>_. ret ())) ids"

definition EnqueueExport :: "cal_env \<Rightarrow> int \<Rightarrow> string \<Rightarrow> unit cop" where
  "EnqueueExport E taskID action =
     bindE (attempt (in_core (repo_GetTaskByIDWithoutStatusFilter taskID))) (\<lambda>r.
     case r of
       Inl e \<Rightarrow>
         (if action = ''deleted'' \<and> is_not_found e then enqueueExportDeleteForGoneTask taskID else fail e)
     | Inr t \<Rightarrow>
         (if \<not> ShouldExportTask t then ret ()
          else bindE (link_targets t taskID action) (\<lambda>by_link.
            bindE (binding_ListByUserID (UserID t)) (\<lambda>bs.
            let (ups, dels) = binding_targets t action bs by_link;
                ups = filter (\<lambda>i. i \<notin> set dels) ups in
            bindE (enqueue_all OutboxKindExportUpsert taskID action (c_range E ups)) (\<lambda>_.
            bindE (enqueue_all OutboxKindExportDelete taskID ''deleted'' (c_range E dels)) (\<lambda>_.
            when_op (ups = [] \<and> dels = [] \<and> action = ''deleted'')
              (enqueueExportDeleteByExportedLink taskID)))))))"

text \<open>The hook of the task service; a failure is only logged.\<close>

definition calendar_OnTaskChanged :: "cal_env \<Rightarrow> int \<Rightarrow> string \<Rightarrow> unit cop" where
  "calendar_OnTaskChanged E taskID action = best_effort (EnqueueExport E taskID action)"

subsection \<open>Opting in\<close>

definition pending_link :: "calendar_binding \<Rightarrow> int \<Rightarrow> int \<Rightarrow> task_sync_link" where
  "pending_link b taskID bindingID =
     \<lparr>l_ID = 0, l_TaskID = taskID, l_Provider = TaskSyncProviderGoogleCalendar,
      l_GoogleCalendarID = cb_GoogleCalendarID b, l_GoogleEventID = ''pending-'' @ itoa taskID,
      l_ETag = None, l_GoogleUpdatedAt = None, l_Origin = TaskSyncLinkOriginExported,
      l_SyncEnabled = True, l_ExportOptIn = True, l_CalendarBindingID = Some bindingID,
      l_DurationSeconds = None, l_LastSyncedAt = None, l_LastError = None, l_CreatedAt = 0,
      l_UpdatedAt = 0\<rparr>"

definition opted_in :: "calendar_binding \<Rightarrow> int \<Rightarrow> task_sync_link \<Rightarrow> task_sync_link" where
  "opted_in b bindingID l = l\<lparr>l_SyncEnabled := True, l_ExportOptIn := True,
     l_CalendarBindingID := Some bindingID, l_GoogleCalendarID := cb_GoogleCalendarID b,
     l_Origin := (if l_Origin l = [] then TaskSyncLinkOriginExported else l_Origin l)\<rparr>"

definition EnableTaskExport :: "cal_env \<Rightarrow> int \<Rightarrow> int \<Rightarrow> task_sync_link cop" where
  "EnableTaskExport E taskID bindingID =
     bindE (in_core (repo_GetTaskByIDWithoutStatusFilter taskID)) (\<lambda>t.
     if \<not> ShouldExportTask t
     then fail (ErrValidation ''confirmation child tasks cannot be exported individually'')
     else bindE (binding_GetByID bindingID) (\<lambda>b.
     if cb_UserID b \<noteq> UserID t then fail (ErrUnprocessableEntity ''binding does not belong to task owner'')
     else if \<not> bindingAllowsTaskExport (cb_Direction b)
     then fail (ErrValidation ''binding direction must be export or both'')
     else bindE (attempt (in_core (GetByTaskID taskID))) (\<lambda>r.
     bindE (case r of
              Inl e \<Rightarrow>
                (if \<not> is_not_found e then fail e
                 else (let l = pending_link b taskID bindingID in
                   bindE (link_Create l) (\<lambda>i. ret (l\<lparr>l_ID := i\<rparr>))))
            | Inr l \<Rightarrow>
                (let l = opted_in b bindingID l in bindE (link_Update l) (\<lambda>_. ret l))) (\<lambda>l.
     bindE (EnqueueExport E taskID ''updated'') (\<lambda>_. ret l)))))"

subsection \<open>Out of the outbox\<close>

definition patched_link :: "event \<Rightarrow> time \<Rightarrow> task_sync_link \<Rightarrow> task_sync_link" where
  "patched_link ev now l =
     (let l = l\<lparr>l_ETag := Some (e_ETag ev), l_GoogleUpdatedAt := Some (e_Updated ev),
                l_LastSyncedAt := Some now, l_LastError := None\<rparr> in
      case EventDurationSeconds ev of None \<Rightarrow> l | Some d \<Rightarrow> l\<lparr>l_DurationSeconds := Some d\<rparr>)"

definition exported_link :: "calendar_binding \<Rightarrow> event \<Rightarrow> time \<Rightarrow> task_sync_link \<Rightarrow> task_sync_link" where
  "exported_link b ev now l = l\<lparr>l_GoogleEventID := e_ID ev, l_GoogleCalendarID := cb_GoogleCalendarID b,
     l_ETag := Some (e_ETag ev), l_GoogleUpdatedAt := Some (e_Updated ev),
     l_Origin := TaskSyncLinkOriginExported, l_SyncEnabled := True, l_CalendarBindingID := Some (cb_ID b),
     l_DurationSeconds := EventDurationSeconds ev, l_LastSyncedAt := Some now, l_LastError := None\<rparr>"

definition patchable :: "calendar_binding \<Rightarrow> task_sync_link \<Rightarrow> bool" where
  "patchable b l \<longleftrightarrow>
     l_GoogleEventID l \<noteq> [] \<and> \<not> prefix ''pending-'' (l_GoogleEventID l) \<and>
     l_GoogleCalendarID l = cb_GoogleCalendarID b"

text \<open>The event at Google and the link, for a task that may be exported to the binding.\<close>

definition write_event ::
  "cal_env \<Rightarrow> calendar_binding \<Rightarrow> task \<Rightarrow> task_sync_link option \<Rightarrow> unit cop" where
  "write_event E b t link =
     (let ev = BuildExportEvent (c_standard E) t (c_durationMinutes E)
                 (case link of None \<Rightarrow> None | Some l \<Rightarrow> l_DurationSeconds l) in
      bindE cal_now (\<lambda>now.
      case link of
        Some l \<Rightarrow>
          (if patchable b l then
             bindE (google_op (GPatchEvent (cb_GoogleCalendarID b) (l_GoogleEventID l) ev) ''patch event'' g_event) (\<lambda>updated.
             link_Update (patched_link updated now l))
           else
             bindE (google_op (GCreateEvent (cb_GoogleCalendarID b) ev) ''create event'' g_event) (\<lambda>created.
             link_Update (exported_link b created now l)))
      | None \<Rightarrow>
          bindE (google_op (GCreateEvent (cb_GoogleCalendarID b) ev) ''create event'' g_event) (\<lambda>created.
          bindE (link_Create (event_link b created (ID t) TaskSyncLinkOriginExported now)) (\<lambda>_. ret ()))))"

definition exportUpsert :: "cal_env \<Rightarrow> outboxPayload \<Rightarrow> unit cop" where
  "exportUpsert E p =
     bindE (in_core (repo_GetTaskByIDWithoutStatusFilter (pl_TaskID p))) (\<lambda>t.
     if \<not> ShouldExportTask t then ret ()
     else bindE (binding_GetByID (pl_BindingID p)) (\<lambda>b.
     if \<not> bindingAllowsTaskExport (cb_Direction b) then ret ()
     else bindE (clientForAccountID E (cb_GoogleAccountID b)) (\<lambda>_.
     bindE (attempt (in_core (GetByTaskID (ID t)))) (\<lambda>r.
     bindE (case r of
              Inr l \<Rightarrow> ret (Some l)
            | Inl e \<Rightarrow> (if is_not_found e then ret None else fail e)) (\<lambda>link.
     write_event E b t link)))))"

text \<open>The account of a binding; zero when the binding cannot be read.\<close>

definition account_of :: "int \<Rightarrow> int cop" where
  "account_of bindingID =
     bindE (attempt (binding_GetByID bindingID)) (\<lambda>r.
     ret (case r of Inl _ \<Rightarrow> 0 | Inr b \<Rightarrow> cb_GoogleAccountID b))"

definition already_gone :: "err \<Rightarrow> bool" where
  "already_gone e \<longleftrightarrow> contains_sub ''404'' (error_text e) \<or> contains_sub ''Not Found'' (error_text e)"

definition exportDelete :: "cal_env \<Rightarrow> outboxPayload \<Rightarrow> unit cop" where
  "exportDelete E p =
     bindE (if pl_TaskID p > 0 then
              bindE (attempt (in_core (GetByTaskID (pl_TaskID p)))) (\<lambda>r.
              case r of
                Inr l \<Rightarrow> ret (Some l)
              | Inl e \<Rightarrow> (if is_not_found e then ret None else fail e))
            else ret None) (\<lambda>link.
     case link of
       None \<Rightarrow> ret ()
     | Some l \<Rightarrow>
         bindE (case l_CalendarBindingID l of None \<Rightarrow> ret 0 | Some i \<Rightarrow> account_of i) (\<lambda>a.
         bindE (if a = 0 \<and> pl_BindingID p > 0 then account_of (pl_BindingID p) else ret a) (\<lambda>accountID.
         if accountID = 0 then best_effort (link_Delete (l_ID l))
         else bindE (clientForAccountID E accountID) (\<lambda>_.
           bindE (attempt (google_op (GDeleteEvent (l_GoogleCalendarID l) (l_GoogleEventID l))
                    ''delete event'' (\<lambda>_. ()))) (\<lambda>d.
           case d of
             Inl e \<Rightarrow> (if already_gone e then link_Delete (l_ID l) else fail e)
           | Inr _ \<Rightarrow> link_Delete (l_ID l))))))"

definition processOutboxItem :: "cal_env \<Rightarrow> sync_outbox \<Rightarrow> unit cop" where
  "processOutboxItem E item =
     (if ob_Kind item = OutboxKindExportUpsert then exportUpsert E (ob_Payload item)
      else if ob_Kind item = OutboxKindExportDelete then exportDelete E (ob_Payload item)
      else fail (ErrOther ''unknown outbox kind''))"

definition settle_item :: "cal_env \<Rightarrow> sync_outbox \<Rightarrow> unit cop" where
  "settle_item E item =
     bindE (attempt (processOutboxItem E item)) (\<lambda>r.
     case r of
       Inr _ \<Rightarrow> best_effort (MarkDone (ob_ID item))
     | Inl e \<Rightarrow>
         (let attempts = ob_Attempts item + 1 in
          if attempts \<ge> maxOutboxAttempts then best_effort (MarkFailed (ob_ID item) (error_text e))
          else bindE cal_now (\<lambda>now.
            best_effort (MarkRetry (ob_ID item) attempts (now + OutboxBackoff attempts) (error_text e)))))"

definition ProcessOutbox :: "cal_env \<Rightarrow> unit cop" where
  "ProcessOutbox E =
     bindE (ClaimDue 50) (\<lambda>items.
     bindE (attempt CountPending) (\<lambda>_.
     for_each (settle_item E) items))"

subsection \<open>Rounds, and the status\<close>

definition sync_interval :: "int \<Rightarrow> int" where
  "sync_interval interval = (if interval \<le> 0 then 5 * minute_ns else interval)"

definition runOnce :: "cal_env \<Rightarrow> unit cop" where
  "runOnce E =
     bindE cal_now (\<lambda>now.
     bindE (attempt (ListDueForSync now MaxBindingSyncAttempts)) (\<lambda>r.
     bindE (case r of
              Inl _ \<Rightarrow> ret ()
            | Inr bs \<Rightarrow> for_each (\<lambda>b. best_effort (SyncBinding E (cb_ID b))) bs) (\<lambda>_.
     best_effort (ProcessOutbox E))))"

record calendar_sync_status =
  cs_Bindings :: "calendar_binding list"
  cs_Pending :: int
  cs_Processing :: int
  cs_Failed :: int

definition GetSyncStatus :: "int \<Rightarrow> calendar_sync_status cop" where
  "GetSyncStatus userID =
     bindE (map_err not_found_to_unprocessable (in_core (GetUserByID userID))) (\<lambda>_.
     bindE (binding_ListByUserID userID) (\<lambda>bs.
     bindE (CountByUserID userID) (\<lambda>(p, q, f).
     ret \<lparr>cs_Bindings = bs, cs_Pending = p, cs_Processing = q, cs_Failed = f\<rparr>)))"

end
