(* ===== verification/App_Store.thy ===== *)
theory App_Store
  imports App_Models Calendar_Export
begin

text \<open>
  The state of the whole application, and the statements its smaller repositories are made of.

  The state is the one of the calendar service (\<open>cal\<close>, which holds the one of the task service with
  users, messengers and chats) and the tables of backlog items, targets, task groups and digest
  settings, each with the next value of its sequence.  Statements of all tables share the clock, the
  failures and the queue of the task service.

  Backlog items, targets and groups are kept by the same statements (\<open>INSERT\<close>, \<open>SELECT\<close> of a row that
  is not deleted, \<open>UPDATE\<close>, soft delete, and a page with its count).  These are written once for a
  \<open>soft_table\<close>, which says where the rows are, and once for any list of rows.  The laws of a table in
  the state are the locale \<open>table_laws\<close>; the repositories' correctness is proved in it once: with
  respect to the map from keys to live rows, each statement is the operation of a finite map.
\<close>

subsection \<open>The state\<close>

record 'a stored =
  s_item :: 'a
  s_deleted_at :: "time option"

record app_world =
  cal :: cal_world
  backlog_rows :: "backlog stored list"
  target_rows :: "target stored list"
  group_rows :: "task_group stored list"
  digest_rows :: "digest_settings list"
  next_backlog :: int
  next_target :: int
  next_group :: int
  next_digest :: int
  next_user :: int
  next_messenger :: int
  next_chat :: int
  user_purges :: "int list"

type_synonym 'a aop = "(app_world, 'a) op"

definition in_cal :: "'a cop \<Rightarrow> 'a aop" where
  "in_cal m = (\<lambda>u. (fst (m (cal u)), u\<lparr>cal := snd (m (cal u))\<rparr>))"

abbreviation in_task :: "'a wop \<Rightarrow> 'a aop" where "in_task m \<equiv> in_cal (in_core m)"
abbreviation app_external :: "string \<Rightarrow> unit aop" where "app_external text \<equiv> in_task (external text)"
abbreviation app_now :: "time aop" where "app_now \<equiv> in_task time_Now"
abbreviation app_core :: "app_world \<Rightarrow> world" where "app_core u \<equiv> core (cal u)"

definition set_core :: "(world \<Rightarrow> world) \<Rightarrow> app_world \<Rightarrow> app_world" where
  "set_core f u = u\<lparr>cal := (cal u)\<lparr>core := f (core (cal u))\<rparr>\<rparr>"

text \<open>The fields of the services.  \<open>a_db\<close> and the three orders are what the database does with the text
  of an \<open>ORDER BY\<close> clause.\<close>

record app_env =
  a_db :: db_lib
  a_backlog_order :: "string \<Rightarrow> backlog list \<Rightarrow> backlog list"
  a_target_order :: "string \<Rightarrow> target list \<Rightarrow> target list"
  a_group_order :: "string \<Rightarrow> task_group list \<Rightarrow> task_group list"
  a_digest_order :: "string \<Rightarrow> digest_settings list \<Rightarrow> digest_settings list"
  a_user_order :: "string \<Rightarrow> user list \<Rightarrow> user list"
  a_messenger_order :: "string \<Rightarrow> messenger list \<Rightarrow> messenger list"
  a_chat_order :: "string \<Rightarrow> messenger_related_user list \<Rightarrow> messenger_related_user list"
  a_producer :: publisher
  a_activity :: activity_tracker
  a_attachments :: bool
  a_bindings :: bool
  maxUsers :: int

definition app_touch :: "app_env \<Rightarrow> int \<Rightarrow> unit aop" where
  "app_touch E userID = in_task (touchUserActivity (Some (a_activity E)) userID)"

subsection \<open>A page of rows\<close>

text \<open>The count, then \<open>ORDER BY ... LIMIT ... OFFSET ...\<close>: two statements of every listing.\<close>

definition list_page ::
  "(app_world \<Rightarrow> 'a list) \<Rightarrow> (string \<Rightarrow> 'a list \<Rightarrow> 'a list) \<Rightarrow> int \<Rightarrow> int \<Rightarrow> string \<Rightarrow> string \<Rightarrow> string \<Rightarrow>
     ('a list \<times> int) aop" where
  "list_page rows order page pageSize orderBy count_failure failure =
     (let pageSize = size_or_default pageSize;
          offset = page_offset (page_or_first page) pageSize;
          orderBy = (if orderBy = [] then ''created_at DESC'' else orderBy) in
      bindE (app_external count_failure) (\<lambda>_.
      bindE (gets (\<lambda>u. int (length (rows u)))) (\<lambda>totalCount.
      bindE (app_external failure) (\<lambda>_.
      if offset < 0 then fail (ErrOther failure)
      else gets (\<lambda>u. (take (nat pageSize) (drop (nat offset) (order orderBy (rows u))), totalCount))))))"

subsection \<open>Tables with soft deletion\<close>

record 'a soft_table =
  st_rows :: "app_world \<Rightarrow> 'a stored list"
  st_put :: "'a stored list \<Rightarrow> app_world \<Rightarrow> app_world"
  st_next :: "app_world \<Rightarrow> int"
  st_step :: "app_world \<Rightarrow> app_world"
  st_key :: "'a \<Rightarrow> int"

definition s_live :: "'a stored \<Rightarrow> bool" where "s_live x \<longleftrightarrow> s_deleted_at x = None"

definition live_items :: "'a soft_table \<Rightarrow> app_world \<Rightarrow> 'a list" where
  "live_items T u = map s_item (filter s_live (st_rows T u))"

definition soft_insert :: "'a soft_table \<Rightarrow> (int \<Rightarrow> time \<Rightarrow> 'a) \<Rightarrow> string \<Rightarrow> int aop" where
  "soft_insert T mk failure =
     bindE (app_external failure) (\<lambda>_ u.
       (Ok (st_next T u),
        st_step T (st_put T (st_rows T u @
          [\<lparr>s_item = mk (st_next T u) (clock (app_core u)), s_deleted_at = None\<rparr>]) u)))"

definition has_key :: "'a soft_table \<Rightarrow> int \<Rightarrow> 'a stored \<Rightarrow> bool" where
  "has_key T i x \<longleftrightarrow> s_live x \<and> st_key T (s_item x) = i"

definition soft_get :: "'a soft_table \<Rightarrow> int \<Rightarrow> string \<Rightarrow> string \<Rightarrow> 'a aop" where
  "soft_get T i missing failure =
     bindE (app_external failure) (\<lambda>_.
     bindE (gets (st_rows T)) (\<lambda>rs.
     case find (has_key T i) rs of
       Some x \<Rightarrow> ret (s_item x)
     | None \<Rightarrow> fail (ErrNotFound missing)))"

text \<open>\<open>time.Now()\<close> is taken when the statement is built, and no row is no error.\<close>

definition soft_update :: "'a soft_table \<Rightarrow> int \<Rightarrow> (time \<Rightarrow> 'a \<Rightarrow> 'a) \<Rightarrow> string \<Rightarrow> unit aop" where
  "soft_update T i f failure =
     bindE app_now (\<lambda>now.
     bindE (app_external failure) (\<lambda>_.
     modify (\<lambda>u. st_put T (map (\<lambda>x. if has_key T i x then x\<lparr>s_item := f now (s_item x)\<rparr> else x)
                               (st_rows T u)) u)))"

text \<open>\<open>RowsAffected\<close> decides whether there was such a row.\<close>

definition soft_remove :: "'a soft_table \<Rightarrow> int \<Rightarrow> string \<Rightarrow> string \<Rightarrow> unit aop" where
  "soft_remove T i missing failure =
     bindE app_now (\<lambda>now.
     bindE (app_external failure) (\<lambda>_ u.
       if list_ex (has_key T i) (st_rows T u)
       then (Ok (), st_put T (map (\<lambda>x. if has_key T i x then x\<lparr>s_deleted_at := Some now\<rparr> else x)
                                  (st_rows T u)) u)
       else (Err (ErrNotFound missing), u)))"

subsection \<open>The laws of a table\<close>

locale table_laws =
  fixes T :: "'a soft_table"
  assumes rows_put: "st_rows T (st_put T xs u) = xs"
    and put_put: "st_put T xs (st_put T ys u) = st_put T xs u"
    and put_rows: "st_put T (st_rows T u) u = u"
    and rows_step: "st_rows T (st_step T u) = st_rows T u"
    and next_put: "st_next T (st_put T xs u) = st_next T u"
    and next_step: "st_next T (st_step T u) = st_next T u + 1"
    and cal_put: "cal (st_put T xs u) = cal u"
    and cal_step: "cal (st_step T u) = cal u"
    and rows_cal: "st_rows T (u\<lparr>cal := v\<rparr>) = st_rows T u"
    and next_cal: "st_next T (u\<lparr>cal := v\<rparr>) = st_next T u"
begin

lemmas table_simps = rows_put put_put put_rows rows_step next_put next_step cal_put cal_step rows_cal next_cal

end

definition backlog_table :: "backlog soft_table" where
  "backlog_table = \<lparr>st_rows = backlog_rows, st_put = (\<lambda>xs u. u\<lparr>backlog_rows := xs\<rparr>),
     st_next = next_backlog, st_step = (\<lambda>u. u\<lparr>next_backlog := next_backlog u + 1\<rparr>), st_key = bl_ID\<rparr>"

definition target_table :: "target soft_table" where
  "target_table = \<lparr>st_rows = target_rows, st_put = (\<lambda>xs u. u\<lparr>target_rows := xs\<rparr>),
     st_next = next_target, st_step = (\<lambda>u. u\<lparr>next_target := next_target u + 1\<rparr>), st_key = tg_ID\<rparr>"

definition group_table :: "task_group soft_table" where
  "group_table = \<lparr>st_rows = group_rows, st_put = (\<lambda>xs u. u\<lparr>group_rows := xs\<rparr>),
     st_next = next_group, st_step = (\<lambda>u. u\<lparr>next_group := next_group u + 1\<rparr>), st_key = gr_ID\<rparr>"

interpretation backlogs: table_laws backlog_table
  by unfold_locales (simp_all add: backlog_table_def)

interpretation target_items: table_laws target_table
  by unfold_locales (simp_all add: target_table_def)

interpretation groups: table_laws group_table
  by unfold_locales (simp_all add: group_table_def)

end
