(* ===== verification/App_People.thy ===== *)
theory App_People
  imports App_Store
begin

text \<open>
  Users, messengers and chats: the statements of \<open>user_repository.go\<close> and \<open>messenger_repository.go\<close>
  the task service does not use, \<open>user_service.go\<close> and \<open>messenger_service.go\<close>.

  A deleted user or chat is marked; when it was deleted is not kept.  The name of a messenger is
  unique, and so is the triple of user, messenger and chat, deleted rows counted
  (\<open>migrations/20250111133257_add_messengers_tables.sql\<close>).  A nil pointer in a condition is
  \<open>IS NULL\<close>.
\<close>

subsection \<open>The repository of users\<close>

definition user_live :: "user_row \<Rightarrow> bool" where "user_live x \<longleftrightarrow> \<not> ur_deleted x"

definition repo_CreateUser :: "user \<Rightarrow> int aop" where
  "repo_CreateUser user =
     bindE (app_external ''failed to insert user'') (\<lambda>_ u.
       (Ok (next_user u),
        (set_core (\<lambda>w. w\<lparr>users := users w @
          [\<lparr>ur_user = user\<lparr>user_ID := next_user u, user_CreatedAt := clock w, user_DeletedAt := 0,
                           user_LastActivityAt := None\<rparr>, ur_deleted = False\<rparr>]\<rparr>) u)
        \<lparr>next_user := next_user u + 1\<rparr>))"

definition user_columns :: "user \<Rightarrow> user \<Rightarrow> user" where
  "user_columns new old = old\<lparr>user_Name := user_Name new, user_Email := user_Email new,
     user_PasswordHash := user_PasswordHash new, user_Timezone := user_Timezone new,
     user_LanguageCode := user_LanguageCode new, user_Role := user_Role new\<rparr>"

definition map_user :: "int \<Rightarrow> (user_row \<Rightarrow> user_row) \<Rightarrow> world \<Rightarrow> world" where
  "map_user i f w = w\<lparr>users := map (\<lambda>x. if user_live x \<and> user_ID (ur_user x) = i then f x else x) (users w)\<rparr>"

definition repo_UpdateUser :: "user \<Rightarrow> unit aop" where
  "repo_UpdateUser user =
     bindE app_now (\<lambda>_.
     bindE (app_external ''failed to execute update query for user'') (\<lambda>_.
     modify (set_core (map_user (user_ID user) (\<lambda>x. x\<lparr>ur_user := user_columns user (ur_user x)\<rparr>)))))"

definition repo_DeleteUser :: "int \<Rightarrow> unit aop" where
  "repo_DeleteUser i =
     bindE app_now (\<lambda>_.
     bindE (app_external ''failed to execute soft delete query for user'') (\<lambda>_.
     modify (set_core (map_user i (\<lambda>x. x\<lparr>ur_deleted := True\<rparr>)))))"

definition live_users :: "app_world \<Rightarrow> user list" where
  "live_users u = map ur_user (filter user_live (users (app_core u)))"

definition CountActiveUsers :: "int aop" where
  "CountActiveUsers =
     bindE (app_external ''failed to count active users'') (\<lambda>_. gets (\<lambda>u. int (length (live_users u))))"

definition repo_GetAllUsers :: "app_env \<Rightarrow> int \<Rightarrow> int \<Rightarrow> string \<Rightarrow> (user list \<times> int) aop" where
  "repo_GetAllUsers E page pageSize orderBy =
     list_page live_users (a_user_order E) page pageSize orderBy
       ''failed to get total count'' ''failed to get users''"

definition activity_limit :: "int \<Rightarrow> int" where
  "activity_limit limit = (if limit < 1 then 100 else if limit > 100 then 100 else limit)"

definition activity_of :: "user \<Rightarrow> user_activity option" where
  "activity_of x = map_option (\<lambda>at. \<lparr>ua_UserID = user_ID x, ua_Name = user_Name x, ua_LastActivityAt = at\<rparr>)
     (user_LastActivityAt x)"

definition ListRecentActivity :: "int \<Rightarrow> user_activity list aop" where
  "ListRecentActivity limit =
     bindE (app_external ''failed to list recent user activity'') (\<lambda>_.
     gets (\<lambda>u. take (nat (activity_limit limit))
       (sort_key (\<lambda>a. - ua_LastActivityAt a) (List.map_filter activity_of (live_users u)))))"

fun ListRecent :: "activity_tracker \<Rightarrow> int \<Rightarrow> user_activity list aop" where
  "ListRecent NoopActivityTracker limit = ret []"
| "ListRecent PostgresActivityTracker limit = ListRecentActivity limit"

subsection \<open>The repository of messengers\<close>

definition repo_CreateMessenger :: "messenger \<Rightarrow> int aop" where
  "repo_CreateMessenger m =
     bindE (app_external ''failed to insert messenger'') (\<lambda>_ u.
       if list_ex (\<lambda>x. m_Name x = m_Name m) (messengers (app_core u))
       then (Err (ErrOther ''failed to insert messenger: unique''), u)
       else (Ok (next_messenger u),
         (set_core (\<lambda>w. w\<lparr>messengers := messengers w @
            [m\<lparr>m_ID := next_messenger u, m_CreatedAt := clock w\<rparr>]\<rparr>) u)
         \<lparr>next_messenger := next_messenger u + 1\<rparr>))"

definition GetMessengerIDByName :: "string \<Rightarrow> int aop" where
  "GetMessengerIDByName name =
     bindE (app_external ''failed to get messenger id by name'') (\<lambda>_.
     bindE (gets (\<lambda>u. messengers (app_core u))) (\<lambda>ms.
     case find (\<lambda>m. m_Name m = name) ms of
       Some m \<Rightarrow> ret (m_ID m)
     | None \<Rightarrow> fail (ErrNotFound ''no messenger found for passed name'')))"

definition chat_key :: "messenger_related_user \<Rightarrow> int option \<times> int option \<times> string" where
  "chat_key m = (mru_UserID m, mru_MessengerID m, mru_ChatID m)"

text \<open>\<open>user_id\<close> and \<open>messenger_id\<close> are \<open>NOT NULL\<close>.\<close>

definition chat_rejected :: "messenger_related_user \<Rightarrow> world \<Rightarrow> bool" where
  "chat_rejected m w \<longleftrightarrow>
     mru_UserID m = None \<or> mru_MessengerID m = None \<or>
     list_ex (\<lambda>x. chat_key (um_related x) = chat_key m) (user_messengers w)"

definition repo_CreateMessengerRelatedUser :: "messenger_related_user \<Rightarrow> int aop" where
  "repo_CreateMessengerRelatedUser m =
     bindE (app_external ''failed to insert messenger-related user'') (\<lambda>_ u.
       if chat_rejected m (app_core u)
       then (Err (ErrOther ''failed to insert messenger-related user: constraint''), u)
       else (Ok (next_chat u),
         (set_core (\<lambda>w. w\<lparr>user_messengers := user_messengers w @
            [\<lparr>um_related = m\<lparr>mru_ID := next_chat u, mru_CreatedAt := clock w,
                             mru_UpdatedAt := None\<rparr>, um_deleted = False\<rparr>]\<rparr>) u)
         \<lparr>next_chat := next_chat u + 1\<rparr>))"

definition live_chats :: "app_world \<Rightarrow> messenger_related_user list" where
  "live_chats u = map um_related (filter (\<lambda>x. \<not> um_deleted x) (user_messengers (app_core u)))"

definition repo_GetMessengerRelatedUser ::
  "string \<Rightarrow> string \<Rightarrow> int option \<Rightarrow> int option \<Rightarrow> messenger_related_user aop" where
  "repo_GetMessengerRelatedUser chatID messengerUserID userID messengerID =
     bindE (app_external ''failed to get messenger-related user'') (\<lambda>_.
     bindE (gets live_chats) (\<lambda>cs.
     case find (\<lambda>m. mru_ChatID m = chatID \<and> mru_MessengerUserID m = messengerUserID \<and>
                    mru_UserID m = userID \<and> mru_MessengerID m = messengerID) cs of
       Some m \<Rightarrow> ret m
     | None \<Rightarrow> fail (ErrNotFound
         ''no messenger-related user found for passed chatID, messengerUserID, userID and messengerID'')))"

definition repo_GetUserID :: "string \<Rightarrow> int aop" where
  "repo_GetUserID messengerUserID =
     bindE (app_external ''failed to get user id by messenger user id'') (\<lambda>_.
     bindE (gets live_chats) (\<lambda>cs.
     case find (\<lambda>m. mru_MessengerUserID m = messengerUserID) cs of
       None \<Rightarrow> fail (ErrNotFound ''no user found for passed messenger user id'')
     | Some m \<Rightarrow>
         (case mru_UserID m of
            None \<Rightarrow> fail (ErrOther ''failed to get user id by messenger user id'')
          | Some i \<Rightarrow> ret i)))"

definition drop_chats :: "int \<Rightarrow> world \<Rightarrow> world" where
  "drop_chats i w = w\<lparr>user_messengers := map (\<lambda>x. if \<not> um_deleted x \<and> mru_UserID (um_related x) = Some i
     then x\<lparr>um_deleted := True\<rparr> else x) (user_messengers w)\<rparr>"

definition DeleteMessengerRelatedUserByUserID :: "int \<Rightarrow> unit aop" where
  "DeleteMessengerRelatedUserByUserID i =
     bindE app_now (\<lambda>_.
     bindE (app_external ''failed to execute soft delete query for messenger-related user'') (\<lambda>_.
     modify (set_core (drop_chats i))))"

definition repo_GetAllMessengers :: "app_env \<Rightarrow> int \<Rightarrow> int \<Rightarrow> string \<Rightarrow> (messenger list \<times> int) aop" where
  "repo_GetAllMessengers E page pageSize orderBy =
     list_page (\<lambda>u. messengers (app_core u)) (a_messenger_order E) page pageSize orderBy
       ''failed to get total count'' ''failed to get messengers''"

definition repo_GetAllMessengerRelatedUsers ::
  "app_env \<Rightarrow> int \<Rightarrow> int \<Rightarrow> string \<Rightarrow> int option \<Rightarrow> string option \<Rightarrow> (messenger_related_user list \<times> int) aop" where
  "repo_GetAllMessengerRelatedUsers E page pageSize orderBy userID chatID =
     list_page (\<lambda>u. filter (\<lambda>m. value_given userID (\<lambda>i. mru_UserID m = Some i) \<and>
                                text_given chatID (\<lambda>c. mru_ChatID m = c)) (live_chats u))
       (a_chat_order E) page pageSize orderBy
       ''failed to get total count'' ''failed to get messenger-related users''"

end
