(* ===== verification/App_Accounts.thy ===== *)
theory App_Accounts
  imports App_People
begin

text \<open>
  \<open>internal/service/user_service.go\<close> and \<open>internal/service/messenger_service.go\<close>.
\<close>

subsection \<open>Users\<close>

definition missing_is_unprocessable :: "'a aop \<Rightarrow> 'a aop" where
  "missing_is_unprocessable m = map_err not_found_to_unprocessable m"

definition user_getMessengerName :: "int \<Rightarrow> string aop" where
  "user_getMessengerName messengerRelatedUserID =
     bindE (in_task (GetMessengerRelatedUserByID messengerRelatedUserID)) (\<lambda>mru.
     case mru_MessengerID mru of
       None \<Rightarrow> fail (ErrUnprocessableEntity ''messenger_id is nil in messenger_related_user'')
     | Some i \<Rightarrow>
         bindE (missing_is_unprocessable (in_task (GetMessengerByID i))) (\<lambda>m. ret (m_Name m)))"

definition check_user_limit :: "app_env \<Rightarrow> unit aop" where
  "check_user_limit E =
     when_op (maxUsers E > 0)
       (bindE CountActiveUsers (\<lambda>activeCount.
        if activeCount \<ge> maxUsers E
        then fail (ErrConflict (''user limit reached ('' @ itoa activeCount @ ''/'' @ itoa (maxUsers E) @ '')''))
        else ret ()))"

definition CreateUser :: "app_env \<Rightarrow> user \<Rightarrow> int aop" where
  "CreateUser E user =
     (if user_Name user = [] then fail (ErrOther ''user data is incomplete'')
      else bindE (check_user_limit E) (\<lambda>_.
        bindE (repo_CreateUser user) (\<lambda>userID.
        bindE (app_touch E userID) (\<lambda>_. ret userID))))"

definition GetUser :: "int \<Rightarrow> user aop" where
  "GetUser userID = in_task (GetUserByID userID)"

definition given :: "'a option \<Rightarrow> 'a \<Rightarrow> 'a" where
  "given new old = (case new of None \<Rightarrow> old | Some x \<Rightarrow> x)"

definition given_ptr :: "'a option \<Rightarrow> 'a option \<Rightarrow> 'a option" where
  "given_ptr new old = (case new of None \<Rightarrow> old | Some x \<Rightarrow> Some x)"

definition updated_user :: "user_update_request \<Rightarrow> user \<Rightarrow> user" where
  "updated_user r x = x\<lparr>user_Name := given (uu_Name r) (user_Name x),
     user_Email := given (uu_Email r) (user_Email x),
     user_PasswordHash := given (uu_PasswordHash r) (user_PasswordHash x),
     user_Timezone := given_ptr (uu_Timezone r) (user_Timezone x),
     user_LanguageCode := given_ptr (uu_LanguageCode r) (user_LanguageCode x),
     user_Role := given_ptr (uu_Role r) (user_Role x)\<rparr>"

definition UpdateUser :: "app_env \<Rightarrow> int \<Rightarrow> user_update_request \<Rightarrow> user aop" where
  "UpdateUser E userID req =
     bindE (in_task (GetUserByID userID)) (\<lambda>old.
     let user = updated_user req old in
     bindE (repo_UpdateUser user) (\<lambda>_.
     bindE (app_touch E userID) (\<lambda>_. ret user)))"

text \<open>The loop over the tasks of a user: a row that cannot be deleted or announced is passed over, a
  message that cannot be sent ends the deletion.\<close>

definition drop_task :: "app_env \<Rightarrow> task \<Rightarrow> unit aop" where
  "drop_task E t =
     bindE (best_effort (in_task (repo_DeleteTask (ID t)))) (\<lambda>_.
     case MessengerRelatedUserID t of
       None \<Rightarrow> ret ()
     | Some i \<Rightarrow>
         bindE (attempt (user_getMessengerName i)) (\<lambda>r.
         case r of
           Inl _ \<Rightarrow> ret ()
         | Inr messengerName \<Rightarrow>
             in_task (Publish (a_producer E) (ToTaskMessage (delete_event (ID t) messengerName)))))"

definition PurgeByUser :: "int \<Rightarrow> unit aop" where
  "PurgeByUser i =
     bindE (app_external ''attachments: purge failed'') (\<lambda>_.
     modify (\<lambda>u. u\<lparr>user_purges := user_purges u @ [i]\<rparr>))"

fun user_purge_attempts :: "nat \<Rightarrow> nat \<Rightarrow> int \<Rightarrow> unit aop" where
  "user_purge_attempts 0 attempt_no userID = ret ()"
| "user_purge_attempts (Suc left) attempt_no userID =
     bindE (when_op (attempt_no > 0) (in_task (Sleep (int attempt_no * 200 * 1000000)))) (\<lambda>_.
     bindE (attempt (PurgeByUser userID)) (\<lambda>r.
     case r of
       Inr _ \<Rightarrow> ret ()
     | Inl _ \<Rightarrow> user_purge_attempts left (Suc attempt_no) userID))"

definition purgeUserAttachmentsBestEffort :: "app_env \<Rightarrow> int \<Rightarrow> unit aop" where
  "purgeUserAttachmentsBestEffort E userID =
     (if \<not> a_attachments E then ret () else user_purge_attempts 3 0 userID)"

definition DeleteUser :: "app_env \<Rightarrow> int \<Rightarrow> unit aop" where
  "DeleteUser E userID =
     bindE (in_task (GetUserByID userID)) (\<lambda>_.
     bindE (in_task (repo_GetTasksByUserID userID)) (\<lambda>ts.
     bindE (for_each (drop_task E) ts) (\<lambda>_.
     bindE (DeleteMessengerRelatedUserByUserID userID) (\<lambda>_.
     bindE (repo_DeleteUser userID) (\<lambda>_.
     purgeUserAttachmentsBestEffort E userID)))))"

definition GetAllUsers :: "app_env \<Rightarrow> int \<Rightarrow> int \<Rightarrow> string \<Rightarrow> (user list \<times> int) aop" where
  "GetAllUsers E page pageSize orderBy = repo_GetAllUsers E page pageSize orderBy"

definition GetRecentUserActivity :: "app_env \<Rightarrow> int \<Rightarrow> user_activity list aop" where
  "GetRecentUserActivity E limit = ListRecent (a_activity E) (activity_limit limit)"

subsection \<open>Messengers and chats\<close>

definition CreateMessenger :: "messenger \<Rightarrow> int aop" where
  "CreateMessenger m =
     (if m_Name m = [] then fail (ErrOther ''messenger data is incomplete'') else repo_CreateMessenger m)"

definition GetMessenger :: "int \<Rightarrow> messenger aop" where
  "GetMessenger i = in_task (GetMessengerByID i)"

definition check_given :: "('a \<Rightarrow> 'b aop) \<Rightarrow> 'a option \<Rightarrow> unit aop" where
  "check_given get i = (case i of
      None \<Rightarrow> ret ()
    | Some x \<Rightarrow> bindE (missing_is_unprocessable (get x)) (\<lambda>_. ret ()))"

definition check_user :: "int \<Rightarrow> unit aop" where
  "check_user i = bindE (missing_is_unprocessable (in_task (GetUserByID i))) (\<lambda>_. ret ())"

definition check_chat :: "int option \<Rightarrow> unit aop" where
  "check_chat i = check_given (\<lambda>x. in_task (GetMessengerRelatedUserByID x)) i"

definition CreateMessengerRelatedUser :: "app_env \<Rightarrow> messenger_related_user \<Rightarrow> int aop" where
  "CreateMessengerRelatedUser E m =
     (if mru_MessengerUserID m = [] \<or> mru_ChatID m = [] then fail (ErrOther ''messenger_user data is incomplete'')
      else case (mru_UserID m, mru_MessengerID m) of
        (Some userID, Some messengerID) \<Rightarrow>
          bindE (check_user userID) (\<lambda>_.
          bindE (missing_is_unprocessable (GetMessenger messengerID)) (\<lambda>_.
          bindE (repo_CreateMessengerRelatedUser m) (\<lambda>i.
          bindE (app_touch E userID) (\<lambda>_. ret i))))
      | _ \<Rightarrow> fail (ErrOther ''messenger_user data is incomplete''))"

definition GetMessengerRelatedUser ::
  "string \<Rightarrow> string \<Rightarrow> int option \<Rightarrow> int option \<Rightarrow> messenger_related_user aop" where
  "GetMessengerRelatedUser chatID messengerUserID userID messengerID =
     bindE (check_given GetUser userID) (\<lambda>_.
     bindE (check_given GetMessenger messengerID) (\<lambda>_.
     repo_GetMessengerRelatedUser chatID messengerUserID userID messengerID))"

definition GetUserID :: "string \<Rightarrow> int aop" where
  "GetUserID messengerUserID = repo_GetUserID messengerUserID"

definition GetAllMessengers :: "app_env \<Rightarrow> int \<Rightarrow> int \<Rightarrow> string \<Rightarrow> (messenger list \<times> int) aop" where
  "GetAllMessengers E page pageSize orderBy = repo_GetAllMessengers E page pageSize orderBy"

definition GetAllMessengerRelatedUsers ::
  "app_env \<Rightarrow> int \<Rightarrow> int \<Rightarrow> string \<Rightarrow> int option \<Rightarrow> string option \<Rightarrow> (messenger_related_user list \<times> int) aop" where
  "GetAllMessengerRelatedUsers E page pageSize orderBy userID chatID =
     repo_GetAllMessengerRelatedUsers E page pageSize orderBy userID chatID"

end
