(* ===== verification/App_Backlogs.thy ===== *)
theory App_Backlogs
  imports App_Accounts
begin

text \<open>
  Backlog items: \<open>backlog_repository.go\<close> and \<open>backlog_service.go\<close>, each statement one of \<open>App_Store\<close>.
  A batch of items is a text that is cut at a separator with \<open>strings.Split\<close>.
\<close>

subsection \<open>Cutting a text\<close>

text \<open>\<open>strings.Split(s, sep)\<close> for a separator that is not empty; \<open>acc\<close> is the part read so far.\<close>

function split_on :: "string \<Rightarrow> string \<Rightarrow> string \<Rightarrow> string list" where
  "split_on sep acc [] = [acc]"
| "split_on sep acc (c # s) =
     (if sep \<noteq> [] \<and> prefix sep (c # s) then acc # split_on sep [] (drop (length sep) (c # s))
      else split_on sep (acc @ [c]) s)"
  by pat_completeness auto
termination
  by (relation "measure (\<lambda>(sep, acc, s). length s)") auto

definition strings_Split :: "string \<Rightarrow> string \<Rightarrow> string list" where
  "strings_Split s sep = split_on sep [] s"

subsection \<open>Backlog items\<close>

definition repo_CreateBacklog :: "backlog \<Rightarrow> int aop" where
  "repo_CreateBacklog b =
     soft_insert backlog_table
       (\<lambda>i now. b\<lparr>bl_ID := i, bl_CreatedAt := now, bl_UpdatedAt := now, bl_CompletedAt := None\<rparr>)
       ''failed to insert backlog''"

definition repo_GetBacklogByID :: "int \<Rightarrow> backlog aop" where
  "repo_GetBacklogByID i =
     soft_get backlog_table i ''no backlog found for passed id'' ''failed to get backlog by id''"

definition chat_filter :: "int list option \<Rightarrow> int option \<Rightarrow> bool" where
  "chat_filter ids m \<longleftrightarrow> value_given ids (\<lambda>is. length is > 0 \<longrightarrow> (\<exists>i \<in> set is. m = Some i))"

definition repo_GetAllBacklogs ::
  "app_env \<Rightarrow> int \<Rightarrow> int \<Rightarrow> string \<Rightarrow> int option \<Rightarrow> bool option \<Rightarrow> int list option \<Rightarrow> (backlog list \<times> int) aop" where
  "repo_GetAllBacklogs E page pageSize orderBy userID completed chats =
     list_page (\<lambda>u. filter (\<lambda>b. value_given userID (\<lambda>i. bl_UserID b = i) \<and>
                                chat_filter chats (bl_MessengerRelatedUserID b) \<and>
                                value_given completed (\<lambda>c. (bl_CompletedAt b \<noteq> None) = c))
                     (live_items backlog_table u))
       (a_backlog_order E) page pageSize orderBy
       ''failed to get total count of backlogs'' ''failed to get all backlogs''"

definition repo_UpdateBacklog :: "backlog \<Rightarrow> unit aop" where
  "repo_UpdateBacklog b =
     soft_update backlog_table (bl_ID b)
       (\<lambda>now x. x\<lparr>bl_Title := bl_Title b, bl_Description := bl_Description b,
                  bl_CompletedAt := bl_CompletedAt b, bl_UpdatedAt := now\<rparr>)
       ''failed to execute update query for backlog''"

definition repo_DeleteBacklog :: "int \<Rightarrow> unit aop" where
  "repo_DeleteBacklog i =
     soft_remove backlog_table i ''no backlog found for passed id''
       ''failed to execute delete query for backlog''"

definition completed_between :: "int \<Rightarrow> time \<Rightarrow> time \<Rightarrow> backlog \<Rightarrow> bool" where
  "completed_between userID startDate endDate b \<longleftrightarrow>
     bl_UserID b = userID \<and>
     (case bl_CompletedAt b of None \<Rightarrow> False | Some t \<Rightarrow> startDate \<le> t \<and> t \<le> endDate)"

definition GetCompletedBacklogsCount :: "int \<Rightarrow> time \<Rightarrow> time \<Rightarrow> int aop" where
  "GetCompletedBacklogsCount userID startDate endDate =
     bindE (app_external ''failed to get completed backlogs count'') (\<lambda>_.
     gets (\<lambda>u. int (length (filter (completed_between userID startDate endDate) (live_items backlog_table u)))))"

text \<open>The service.\<close>

definition CreateBacklog :: "app_env \<Rightarrow> backlog \<Rightarrow> int aop" where
  "CreateBacklog E b =
     bindE (check_user (bl_UserID b)) (\<lambda>_.
     bindE (check_chat (bl_MessengerRelatedUserID b)) (\<lambda>_.
     bindE (repo_CreateBacklog b) (\<lambda>i.
     bindE (app_touch E (bl_UserID b)) (\<lambda>_. ret i))))"

definition batch_item :: "int \<Rightarrow> int option \<Rightarrow> string \<Rightarrow> backlog" where
  "batch_item userID chat line =
     \<lparr>bl_ID = 0, bl_Title = line, bl_Description = [], bl_UserID = userID,
      bl_MessengerRelatedUserID = chat, bl_CreatedAt = 0, bl_UpdatedAt = 0, bl_CompletedAt = None\<rparr>"

definition create_line :: "int \<Rightarrow> int option \<Rightarrow> string \<Rightarrow> int list \<Rightarrow> int list aop" where
  "create_line userID chat line createdIDs =
     (let line = trim_space line in
      if line = [] then ret createdIDs
      else bindE (attempt (repo_CreateBacklog (batch_item userID chat line))) (\<lambda>r.
        case r of Inl _ \<Rightarrow> ret createdIDs | Inr i \<Rightarrow> ret (createdIDs @ [i])))"

definition CreateBacklogsBatch :: "app_env \<Rightarrow> string \<Rightarrow> string \<Rightarrow> int \<Rightarrow> int option \<Rightarrow> int list aop" where
  "CreateBacklogsBatch E items separator userID chat =
     bindE (check_user userID) (\<lambda>_.
     bindE (check_chat chat) (\<lambda>_.
     let separator = (if separator = [] then [CHR 0x0A] else separator) in
     bindE (fold_op (create_line userID chat) (strings_Split items separator) []) (\<lambda>createdIDs.
     if createdIDs = [] then fail (ErrUnprocessableEntity ''no valid items to create'')
     else bindE (app_touch E userID) (\<lambda>_. ret createdIDs))))"

definition GetBacklogByID :: "int \<Rightarrow> backlog aop" where
  "GetBacklogByID i = repo_GetBacklogByID i"

text \<open>The chats of a messenger user, for the listings that filter by one; \<open>Some []\<close> ends the listing.\<close>

definition chats_of :: "int option \<Rightarrow> string option \<Rightarrow> int list option aop" where
  "chats_of userID messengerUserID =
     (case messengerUserID of
        None \<Rightarrow> ret None
      | Some m \<Rightarrow>
          (if m = [] then ret None
           else bindE (in_task (GetMessengerRelatedUserIDsByMessengerUserID userID m)) (\<lambda>ids. ret (Some ids))))"

definition GetAllBacklogs ::
  "app_env \<Rightarrow> int \<Rightarrow> int \<Rightarrow> string \<Rightarrow> int option \<Rightarrow> bool option \<Rightarrow> string option \<Rightarrow> (backlog list \<times> int) aop" where
  "GetAllBacklogs E page pageSize orderBy userID completed messengerUserID =
     bindE (chats_of userID messengerUserID) (\<lambda>chats.
     if chats = Some [] then ret ([], 0)
     else repo_GetAllBacklogs E (page_or_first page) (size_or_default pageSize)
       (if orderBy = [] then ''created_at DESC'' else orderBy) userID completed chats)"

definition changed_backlog :: "backlog_update_request \<Rightarrow> backlog \<Rightarrow> backlog" where
  "changed_backlog r b = b\<lparr>bl_Title := given (blu_Title r) (bl_Title b),
     bl_Description := given (blu_Description r) (bl_Description b),
     bl_CompletedAt := given_ptr (blu_CompletedAt r) (bl_CompletedAt b)\<rparr>"

definition UpdateBacklog :: "app_env \<Rightarrow> int \<Rightarrow> backlog_update_request \<Rightarrow> backlog aop" where
  "UpdateBacklog E i r =
     bindE (repo_GetBacklogByID i) (\<lambda>old.
     if blu_Title r = Some [] then fail (ErrValidation ''title cannot be empty'')
     else bindE (repo_UpdateBacklog (changed_backlog r old)) (\<lambda>_.
       bindE (app_touch E (bl_UserID old)) (\<lambda>_. ret (changed_backlog r old))))"

definition DeleteBacklog :: "app_env \<Rightarrow> int \<Rightarrow> unit aop" where
  "DeleteBacklog E i =
     bindE (repo_GetBacklogByID i) (\<lambda>old.
     bindE (repo_DeleteBacklog i) (\<lambda>_.
     app_touch E (bl_UserID old)))"

end
