(* ===== verification/App_Targets.thy ===== *)
theory App_Targets
  imports App_Backlogs
begin

text \<open>
  Targets and task groups: \<open>target_repository.go\<close>, \<open>task_group_repository.go\<close>, \<open>target_service.go\<close> and
  \<open>task_group_service.go\<close>.  A group that a calendar binding refers to cannot be deleted.
\<close>

subsection \<open>Targets\<close>

definition repo_CreateTarget :: "target \<Rightarrow> int aop" where
  "repo_CreateTarget t =
     soft_insert target_table
       (\<lambda>i now. t\<lparr>tg_ID := i, tg_CreatedAt := now, tg_UpdatedAt := now, tg_CompletedAt := None\<rparr>)
       ''failed to insert target''"

definition repo_GetTargetByID :: "int \<Rightarrow> target aop" where
  "repo_GetTargetByID i =
     soft_get target_table i ''no target found for passed id'' ''failed to get target by id''"

definition repo_GetAllTargets ::
  "app_env \<Rightarrow> int \<Rightarrow> int \<Rightarrow> string \<Rightarrow> int option \<Rightarrow> int list option \<Rightarrow> (target list \<times> int) aop" where
  "repo_GetAllTargets E page pageSize orderBy userID chats =
     list_page (\<lambda>u. filter (\<lambda>t. value_given userID (\<lambda>i. tg_UserID t = i) \<and>
                                chat_filter chats (tg_MessengerRelatedUserID t))
                     (live_items target_table u))
       (a_target_order E) page pageSize orderBy
       ''failed to get total count of targets'' ''failed to get all targets''"

definition repo_UpdateTarget :: "target \<Rightarrow> unit aop" where
  "repo_UpdateTarget t =
     soft_update target_table (tg_ID t)
       (\<lambda>now x. x\<lparr>tg_Title := tg_Title t, tg_Description := tg_Description t,
                  tg_CompletedAt := tg_CompletedAt t, tg_UpdatedAt := now\<rparr>)
       ''failed to execute update query for target''"

definition repo_DeleteTarget :: "int \<Rightarrow> unit aop" where
  "repo_DeleteTarget i =
     soft_remove target_table i ''no target found for passed id''
       ''failed to execute delete query for target''"

definition CreateTarget :: "app_env \<Rightarrow> target \<Rightarrow> int aop" where
  "CreateTarget E t =
     bindE (check_user (tg_UserID t)) (\<lambda>_.
     bindE (check_chat (tg_MessengerRelatedUserID t)) (\<lambda>_.
     bindE (repo_CreateTarget t) (\<lambda>i.
     bindE (app_touch E (tg_UserID t)) (\<lambda>_. ret i))))"

definition GetTargetByID :: "int \<Rightarrow> target aop" where
  "GetTargetByID i = repo_GetTargetByID i"

definition GetAllTargets ::
  "app_env \<Rightarrow> int \<Rightarrow> int \<Rightarrow> string \<Rightarrow> int option \<Rightarrow> string option \<Rightarrow> (target list \<times> int) aop" where
  "GetAllTargets E page pageSize orderBy userID messengerUserID =
     bindE (chats_of userID messengerUserID) (\<lambda>chats.
     if chats = Some [] then ret ([], 0)
     else repo_GetAllTargets E (page_or_first page) (size_or_default pageSize)
       (if orderBy = [] then ''created_at DESC'' else orderBy) userID chats)"

definition changed_target :: "target_update_request \<Rightarrow> target \<Rightarrow> target" where
  "changed_target r t = t\<lparr>tg_Title := given (tgu_Title r) (tg_Title t),
     tg_Description := given (tgu_Description r) (tg_Description t),
     tg_CompletedAt := given_ptr (tgu_CompletedAt r) (tg_CompletedAt t)\<rparr>"

definition UpdateTarget :: "app_env \<Rightarrow> int \<Rightarrow> target_update_request \<Rightarrow> target aop" where
  "UpdateTarget E i r =
     bindE (repo_GetTargetByID i) (\<lambda>old.
     if tgu_Title r = Some [] then fail (ErrValidation ''title cannot be empty'')
     else bindE (repo_UpdateTarget (changed_target r old)) (\<lambda>_.
       bindE (app_touch E (tg_UserID old)) (\<lambda>_. ret (changed_target r old))))"

definition DeleteTarget :: "app_env \<Rightarrow> int \<Rightarrow> unit aop" where
  "DeleteTarget E i =
     bindE (repo_GetTargetByID i) (\<lambda>old.
     bindE (repo_DeleteTarget i) (\<lambda>_.
     app_touch E (tg_UserID old)))"

subsection \<open>Task groups\<close>

definition repo_CreateTaskGroup :: "task_group \<Rightarrow> int aop" where
  "repo_CreateTaskGroup g =
     soft_insert group_table (\<lambda>i now. g\<lparr>gr_ID := i, gr_CreatedAt := now, gr_UpdatedAt := now\<rparr>)
       ''failed to insert task group''"

definition repo_GetTaskGroupByID :: "int \<Rightarrow> task_group aop" where
  "repo_GetTaskGroupByID i =
     soft_get group_table i ''no task group found for passed id'' ''failed to get task group by id''"

definition repo_GetAllTaskGroups ::
  "app_env \<Rightarrow> int \<Rightarrow> int \<Rightarrow> string \<Rightarrow> int option \<Rightarrow> (task_group list \<times> int) aop" where
  "repo_GetAllTaskGroups E page pageSize orderBy userID =
     list_page (\<lambda>u. filter (\<lambda>g. value_given userID (\<lambda>i. gr_UserID g = i)) (live_items group_table u))
       (a_group_order E) page pageSize orderBy
       ''failed to get total count of task groups'' ''failed to get all task groups''"

definition repo_UpdateTaskGroup :: "task_group \<Rightarrow> unit aop" where
  "repo_UpdateTaskGroup g =
     soft_update group_table (gr_ID g) (\<lambda>now x. x\<lparr>gr_Name := gr_Name g, gr_UpdatedAt := now\<rparr>)
       ''failed to execute update query for task group''"

definition repo_DeleteTaskGroup :: "int \<Rightarrow> unit aop" where
  "repo_DeleteTaskGroup i =
     soft_remove group_table i ''no task group found for passed id''
       ''failed to execute delete query for task group''"

definition CreateTaskGroup :: "app_env \<Rightarrow> task_group \<Rightarrow> int aop" where
  "CreateTaskGroup E g =
     (if gr_Name g = [] then fail (ErrValidation ''name cannot be empty'')
      else bindE (check_user (gr_UserID g)) (\<lambda>_.
        bindE (repo_CreateTaskGroup g) (\<lambda>i.
        bindE (app_touch E (gr_UserID g)) (\<lambda>_. ret i))))"

definition GetTaskGroupByID :: "int \<Rightarrow> task_group aop" where
  "GetTaskGroupByID i = repo_GetTaskGroupByID i"

definition GetAllTaskGroups ::
  "app_env \<Rightarrow> int \<Rightarrow> int \<Rightarrow> string \<Rightarrow> int option \<Rightarrow> (task_group list \<times> int) aop" where
  "GetAllTaskGroups E page pageSize orderBy userID =
     repo_GetAllTaskGroups E (page_or_first page) (size_or_default pageSize)
       (if orderBy = [] then ''created_at DESC'' else orderBy) userID"

definition UpdateTaskGroup :: "app_env \<Rightarrow> int \<Rightarrow> task_group_update_request \<Rightarrow> task_group aop" where
  "UpdateTaskGroup E i r =
     bindE (repo_GetTaskGroupByID i) (\<lambda>old.
     if gru_Name r = Some [] then fail (ErrValidation ''name cannot be empty'')
     else (let g = old\<lparr>gr_Name := given (gru_Name r) (gr_Name old)\<rparr> in
       bindE (repo_UpdateTaskGroup g) (\<lambda>_.
       bindE (app_touch E (gr_UserID old)) (\<lambda>_. ret g))))"

text \<open>\<open>a_bindings\<close>: the repository of bindings is there.\<close>

definition DeleteTaskGroup :: "app_env \<Rightarrow> int \<Rightarrow> unit aop" where
  "DeleteTaskGroup E i =
     bindE (repo_GetTaskGroupByID i) (\<lambda>old.
     bindE (when_op (a_bindings E)
              (bindE (in_cal (CountByGroupID i)) (\<lambda>n.
               if n > 0 then fail (ErrConflict
                 ''cannot delete task group while calendar bindings reference it; delete or reassign those bindings first'')
               else ret ()))) (\<lambda>_.
     bindE (repo_DeleteTaskGroup i) (\<lambda>_.
     app_touch E (gr_UserID old))))"

end
