(* ===== verification/App_Digests.thy ===== *)
theory App_Digests
  imports App_Targets
begin

text \<open>
  \<open>digest_settings_repository.go\<close> and \<open>digest_service.go\<close>: when a user gets digests, and what is in one.

  Settings are deleted for good.  The pair of user and chat is unique in the table, except that two
  rows without a chat do not count as equal (\<open>migrations/20251212185029_add_digest_settings_table.sql\<close>).
  \<open>time.Parse\<close> is written out for the one layout that is used; its own text is left out of the error.
  The zone of the user only decides in which zone the default start and end are printed, so it does
  not occur; the text of the zone is passed on.
\<close>

subsection \<open>Times of day\<close>

definition digit_of :: "char \<Rightarrow> int" where "digit_of c = int (of_char c) - 48"

text \<open>\<open>getnum(s, fixed)\<close> of the standard library: one or two digits, two when \<open>fixed\<close>.\<close>

fun getnum :: "bool \<Rightarrow> string \<Rightarrow> (int \<times> string) option" where
  "getnum fixed [] = None"
| "getnum fixed [c] = (if is_digit c \<and> \<not> fixed then Some (digit_of c, []) else None)"
| "getnum fixed (c # d # s) =
     (if \<not> is_digit c then None
      else if is_digit d then Some (10 * digit_of c + digit_of d, s)
      else if fixed then None
      else Some (digit_of c, d # s))"

text \<open>\<open>time.Parse("15:04", s)\<close>: the hour and the minute.\<close>

definition parse_clock :: "string \<Rightarrow> (int \<times> int) option" where
  "parse_clock s =
     (case getnum False s of
        Some (hour, CHR '':'' # rest) \<Rightarrow>
          (if hour < 0 \<or> 24 \<le> hour then None
           else (case getnum True rest of
                   Some (minute, []) \<Rightarrow> (if minute < 0 \<or> 60 \<le> minute then None else Some (hour, minute))
                 | _ \<Rightarrow> None))
      | _ \<Rightarrow> None)"

definition validateTimeFormat :: "string \<Rightarrow> err option" where
  "validateTimeFormat timeStr =
     (if parse_clock timeStr = None
      then Some (ErrOther ''time must be in HH:MM format (e.g., 07:00, 10:00)'') else None)"

definition check_clock :: "string \<Rightarrow> unit aop" where
  "check_clock timeStr = (case validateTimeFormat timeStr of
      None \<Rightarrow> ret ()
    | Some e \<Rightarrow> fail (ErrValidation (error_text e)))"

subsection \<open>The repository\<close>

definition digest_key :: "digest_settings \<Rightarrow> int \<times> int option" where
  "digest_key d = (ds_UserID d, ds_MessengerRelatedUserID d)"

text \<open>\<open>UNIQUE(user_id, messenger_related_user_id)\<close>.\<close>

definition digest_conflict :: "int \<times> int option \<Rightarrow> digest_settings list \<Rightarrow> bool" where
  "digest_conflict k ds \<longleftrightarrow> snd k \<noteq> None \<and> list_ex (\<lambda>d. digest_key d = k) ds"

definition repo_CreateDigestSettings :: "digest_settings \<Rightarrow> int aop" where
  "repo_CreateDigestSettings s =
     bindE (app_external ''failed to insert digest settings'') (\<lambda>_ u.
       if digest_conflict (digest_key s) (digest_rows u)
       then (Err (ErrOther ''failed to insert digest settings: unique''), u)
       else (Ok (next_digest u),
         u\<lparr>digest_rows := digest_rows u @ [s\<lparr>ds_ID := next_digest u,
             ds_CreatedAt := clock (app_core u), ds_UpdatedAt := clock (app_core u)\<rparr>],
           next_digest := next_digest u + 1\<rparr>))"

definition digest_found :: "(digest_settings \<Rightarrow> bool) \<Rightarrow> string \<Rightarrow> string \<Rightarrow> digest_settings aop" where
  "digest_found P missing failure =
     bindE (app_external failure) (\<lambda>_.
     bindE (gets digest_rows) (\<lambda>ds.
     case find P ds of Some d \<Rightarrow> ret d | None \<Rightarrow> fail (ErrNotFound missing)))"

definition GetDigestSettingsByUserID :: "int \<Rightarrow> int option \<Rightarrow> digest_settings aop" where
  "GetDigestSettingsByUserID userID chat =
     digest_found (\<lambda>d. digest_key d = (userID, chat)) ''no digest settings found for user''
       ''failed to get digest settings by user id''"

definition GetDigestSettingsByID :: "int \<Rightarrow> digest_settings aop" where
  "GetDigestSettingsByID i =
     digest_found (\<lambda>d. ds_ID d = i) ''no digest settings found for id''
       ''failed to get digest settings by id''"

definition digest_columns :: "digest_settings \<Rightarrow> time \<Rightarrow> digest_settings \<Rightarrow> digest_settings" where
  "digest_columns s now d = d\<lparr>ds_Enabled := ds_Enabled s, ds_WeekdayTime := ds_WeekdayTime s,
     ds_WeekendTime := ds_WeekendTime s, ds_MessengerRelatedUserID := ds_MessengerRelatedUserID s,
     ds_UpdatedAt := now\<rparr>"

definition repo_UpdateDigestSettings :: "digest_settings \<Rightarrow> unit aop" where
  "repo_UpdateDigestSettings s =
     bindE app_now (\<lambda>now.
     bindE (app_external ''failed to execute update query for digest settings'') (\<lambda>_ u.
       if list_ex (\<lambda>d. ds_ID d = ds_ID s \<and>
            digest_conflict (digest_key (digest_columns s now d))
              (filter (\<lambda>x. ds_ID x \<noteq> ds_ID s) (digest_rows u))) (digest_rows u)
       then (Err (ErrOther ''failed to execute update query for digest settings: unique''), u)
       else (Ok (), u\<lparr>digest_rows := map (\<lambda>d. if ds_ID d = ds_ID s then digest_columns s now d else d)
                                         (digest_rows u)\<rparr>)))"

definition repo_DeleteDigestSettings :: "int \<Rightarrow> int option \<Rightarrow> unit aop" where
  "repo_DeleteDigestSettings userID chat =
     bindE (app_external ''failed to execute delete query for digest settings'') (\<lambda>_ u.
       if list_ex (\<lambda>d. digest_key d = (userID, chat)) (digest_rows u)
       then (Ok (), u\<lparr>digest_rows := filter (\<lambda>d. digest_key d \<noteq> (userID, chat)) (digest_rows u)\<rparr>)
       else (Err (ErrNotFound ''no digest settings found for user''), u))"

definition repo_GetAllDigestSettings ::
  "app_env \<Rightarrow> int \<Rightarrow> int \<Rightarrow> string \<Rightarrow> int option \<Rightarrow> int list option \<Rightarrow> (digest_settings list \<times> int) aop" where
  "repo_GetAllDigestSettings E page pageSize orderBy userID chats =
     list_page (\<lambda>u. filter (\<lambda>d. value_given userID (\<lambda>i. ds_UserID d = i) \<and>
                                chat_filter chats (ds_MessengerRelatedUserID d)) (digest_rows u))
       (a_digest_order E) page pageSize orderBy
       ''failed to get total count of digest settings'' ''failed to get all digest settings''"

subsection \<open>The service: settings\<close>

definition digest_message :: "string \<Rightarrow> digest_settings \<Rightarrow> task_message" where
  "digest_message name s =
     \<lparr>msg_Task = name, msg_Args = [AInt (ds_UserID s), AIntPtr (ds_MessengerRelatedUserID s),
        ABool (ds_Enabled s), AStr (ds_WeekdayTime s), AStr (ds_WeekendTime s)]\<rparr>"

definition tell_worker :: "app_env \<Rightarrow> task_message \<Rightarrow> unit aop" where
  "tell_worker E m = best_effort (in_task (Publish (a_producer E) m))"

definition CreateDigestSettings :: "app_env \<Rightarrow> digest_settings \<Rightarrow> int aop" where
  "CreateDigestSettings E s =
     bindE (check_user (ds_UserID s)) (\<lambda>_.
     bindE (check_chat (ds_MessengerRelatedUserID s)) (\<lambda>_.
     bindE (check_clock (ds_WeekdayTime s)) (\<lambda>_.
     bindE (check_clock (ds_WeekendTime s)) (\<lambda>_.
     bindE (attempt (GetDigestSettingsByUserID (ds_UserID s) (ds_MessengerRelatedUserID s))) (\<lambda>r.
     case r of
       Inr _ \<Rightarrow> fail (ErrUnprocessableEntity ''digest settings already exist for this user and messenger'')
     | Inl e \<Rightarrow>
         (if \<not> is_not_found e then fail e
          else bindE (repo_CreateDigestSettings s) (\<lambda>settingsID.
            bindE (tell_worker E (digest_message ''worker.create_digest_settings'' s)) (\<lambda>_.
            bindE (app_touch E (ds_UserID s)) (\<lambda>_. ret settingsID)))))))))"

definition GetDigestSettings :: "int \<Rightarrow> int option \<Rightarrow> digest_settings aop" where
  "GetDigestSettings userID chat = GetDigestSettingsByUserID userID chat"

definition check_given_clock :: "string option \<Rightarrow> unit aop" where
  "check_given_clock t = (case t of None \<Rightarrow> ret () | Some s \<Rightarrow> check_clock s)"

definition changed_digest :: "digest_settings_update_request \<Rightarrow> digest_settings \<Rightarrow> digest_settings" where
  "changed_digest r d = d\<lparr>ds_Enabled := given (dsu_Enabled r) (ds_Enabled d),
     ds_WeekdayTime := given (dsu_WeekdayTime r) (ds_WeekdayTime d),
     ds_WeekendTime := given (dsu_WeekendTime r) (ds_WeekendTime d),
     ds_MessengerRelatedUserID := given_ptr (dsu_MessengerRelatedUserID r) (ds_MessengerRelatedUserID d)\<rparr>"

definition UpdateDigestSettings ::
  "app_env \<Rightarrow> int \<Rightarrow> int option \<Rightarrow> digest_settings_update_request \<Rightarrow> digest_settings aop" where
  "UpdateDigestSettings E userID chat r =
     bindE (GetDigestSettingsByUserID userID chat) (\<lambda>old.
     bindE (check_given_clock (dsu_WeekdayTime r)) (\<lambda>_.
     bindE (check_given_clock (dsu_WeekendTime r)) (\<lambda>_.
     bindE (check_chat (dsu_MessengerRelatedUserID r)) (\<lambda>_.
     let new = changed_digest r old in
     bindE (repo_UpdateDigestSettings new) (\<lambda>_.
     bindE (tell_worker E (digest_message ''worker.update_digest_settings'' new)) (\<lambda>_.
     bindE (app_touch E userID) (\<lambda>_. ret new)))))))"

definition DeleteDigestSettings :: "app_env \<Rightarrow> int \<Rightarrow> int option \<Rightarrow> unit aop" where
  "DeleteDigestSettings E userID chat =
     bindE (GetDigestSettingsByUserID userID chat) (\<lambda>old.
     bindE (repo_DeleteDigestSettings userID chat) (\<lambda>_.
     bindE (tell_worker E \<lparr>msg_Task = ''worker.delete_digest_settings'',
              msg_Args = [AInt (ds_UserID old), AIntPtr (ds_MessengerRelatedUserID old)]\<rparr>) (\<lambda>_.
     app_touch E userID)))"

definition GetAllDigestSettings ::
  "app_env \<Rightarrow> int \<Rightarrow> int \<Rightarrow> string \<Rightarrow> int option \<Rightarrow> string option \<Rightarrow> (digest_settings list \<times> int) aop" where
  "GetAllDigestSettings E page pageSize orderBy userID messengerUserID =
     bindE (chats_of userID messengerUserID) (\<lambda>chats.
     if chats = Some [] then ret ([], 0)
     else repo_GetAllDigestSettings E (page_or_first page) (size_or_default pageSize)
       (if orderBy = [] then ''created_at DESC'' else orderBy) userID chats)"

subsection \<open>The service: a digest\<close>

definition digest_query :: "time option \<Rightarrow> time option \<Rightarrow> task_query" where
  "digest_query startDateFrom startDateTo =
     \<lparr>q_page = 1, q_pageSize = 1000, q_orderBy = ''start_date ASC'', q_UserID = None,
      q_startDateFrom = startDateFrom, q_startDateTo = startDateTo, q_createdAtFrom = None,
      q_createdAtTo = None, q_requiresConfirmation = None, q_status = None, q_statusNot = None,
      q_cronExpression = None, q_cronExpressionIsNull = None, q_excludeCronWithConfirmation = None,
      q_messengerRelatedUserIDs = None, q_externalProvider = None, q_title = None,
      q_excludeSkipDigest = Some True\<rparr>"

text \<open>\<open>Truncate(24 * time.Hour)\<close> rounds down to a multiple of a day since the zero time.\<close>

definition Truncate_day :: "time \<Rightarrow> time" where "Truncate_day t = t - t mod day_ns"

definition resolve_chat :: "int \<Rightarrow> int option \<Rightarrow> string option \<Rightarrow> int option aop" where
  "resolve_chat userID chat messengerUserID =
     (case (chat, messengerUserID) of
        (None, Some m) \<Rightarrow>
          (if m = [] then ret None
           else bindE (in_task (GetMessengerRelatedUserIDsByMessengerUserID (Some userID) m)) (\<lambda>ids.
             case ids of
               [] \<Rightarrow> ret None
             | [i] \<Rightarrow> ret (Some i)
             | _ \<Rightarrow> fail (ErrUnprocessableEntity
                     ''multiple messenger-related users found for provided messenger_user_id'')))
      | _ \<Rightarrow> ret chat)"

definition chat_id_of :: "int option \<Rightarrow> string option aop" where
  "chat_id_of chat = (case chat of
      None \<Rightarrow> ret None
    | Some i \<Rightarrow>
        bindE (attempt (in_task (GetMessengerRelatedUserByID i))) (\<lambda>r.
        ret (case r of Inl _ \<Rightarrow> None | Inr m \<Rightarrow> Some (mru_ChatID m))))"

definition GetDigest ::
  "app_env \<Rightarrow> int \<Rightarrow> int option \<Rightarrow> string option \<Rightarrow> time option \<Rightarrow> time option \<Rightarrow> digest_response aop" where
  "GetDigest E userID chat messengerUserID startDateFrom startDateTo =
     bindE (missing_is_unprocessable (GetUser userID)) (\<lambda>user.
     bindE (case (startDateFrom, startDateTo) of
              (Some a, Some b) \<Rightarrow> GetCompletedBacklogsCount userID a b
            | _ \<Rightarrow> ret 0) (\<lambda>completedCount.
     bindE (in_task (repo_GetTasksByUserIDWithPagination (a_db E) userID
              (digest_query startDateFrom startDateTo))) (\<lambda>(ts, _).
     bindE (repo_GetAllTargets E 1 1000 ''created_at DESC'' (Some userID) None) (\<lambda>(tgs, _).
     bindE (case startDateFrom of
              Some a \<Rightarrow> ret a | None \<Rightarrow> bindE app_now (\<lambda>now. ret (Truncate_day now))) (\<lambda>startFrom.
     bindE (case startDateTo of Some b \<Rightarrow> ret b | None \<Rightarrow> app_now) (\<lambda>startTo.
     bindE (resolve_chat userID chat messengerUserID) (\<lambda>chat.
     bindE (chat_id_of chat) (\<lambda>chatID.
     ret \<lparr>dr_UserID = userID, dr_MessengerRelatedUserID = chat, dr_ChatID = chatID,
          dr_StartDateFrom = startFrom, dr_StartDateTo = startTo,
          dr_CompletedBacklogsCount = completedCount, dr_Tasks = ts, dr_Targets = tgs,
          dr_Timezone = (case user_Timezone user of
                           None \<Rightarrow> ''UTC'' | Some z \<Rightarrow> if z = [] then ''UTC'' else z)\<rparr>))))))))"

end
