(* ===== verification/Http_Validation.thy ===== *)
theory Http_Validation
  imports App_Digests
begin

text \<open>
  \<open>internal/api/validation\<close>: what a request has to look like before a service sees it.

  A request is what Gin reads from it: path and query parameters, headers and form fields by name, the
  empty string when there is none.  \<open>http_lib\<close> holds what is decided outside the repository: the
  regular expressions of \<open>govalidator\<close>, the cron parser, the email tag of the validator library and
  whether it hands a custom validator the pointed-to value, the Unicode table of printable runes, and
  the texts of library errors.  \<open>strconv.ParseInt\<close>, \<open>strconv.ParseBool\<close>, \<open>utf8.ValidString\<close>, the range
  loop over a string, and \<open>time.Parse\<close> and \<open>Format\<close> for RFC 3339 are written out.
\<close>

subsection \<open>Requests and libraries\<close>

record http_request =
  rq_Method :: string
  rq_Path :: string
  rq_Param :: "string \<Rightarrow> string"
  rq_Query :: "string \<Rightarrow> string"
  rq_Header :: "string \<Rightarrow> string"
  rq_PostForm :: "string \<Rightarrow> string"

text \<open>An entry of \<open>validator.ValidationErrors\<close>.\<close>

record field_error =
  fe_Field :: string
  fe_Tag :: string
  fe_Param :: string

record http_lib =
  hl_IsInt :: "string \<Rightarrow> bool"
  hl_IsPrintableASCII :: "string \<Rightarrow> bool"
  hl_IsEmail :: "string \<Rightarrow> bool"
  hl_IsURL :: "string \<Rightarrow> bool"
  hl_IsUUID :: "string \<Rightarrow> bool"
  hl_IsPrint :: "nat \<Rightarrow> bool"
  hl_cron :: "string \<Rightarrow> bool"
  hl_email :: "string \<Rightarrow> bool"
  hl_deref :: bool
  hl_error :: "string \<Rightarrow> string \<Rightarrow> string"
  hl_field_errors :: "field_error list \<Rightarrow> string"

definition quoted :: "string \<Rightarrow> string" where "quoted s = CHR 0x27 # s @ [CHR 0x27]"
definition backquoted :: "string \<Rightarrow> string" where "backquoted s = CHR 0x60 # s @ [CHR 0x60]"

subsection \<open>Numbers and names\<close>

definition ValidateInt64Param :: "http_lib \<Rightarrow> http_request \<Rightarrow> string \<Rightarrow> string + int" where
  "ValidateInt64Param L c name =
     (let v = rq_Param c name in
      if v = [] then Inl (''parameter '' @ quoted name @ '' is required'')
      else if \<not> hl_IsInt L v then Inl (''parameter '' @ quoted name @ '' must be a valid integer'')
      else (case atoi v of
              None \<Rightarrow> Inl (''parameter '' @ quoted name @ '' must be a valid int64: '' @ hl_error L ''ParseInt'' v)
            | Some value \<Rightarrow>
                (if value \<le> 0 then Inl (''parameter '' @ quoted name @ '' must be greater than 0'')
                 else Inr value)))"

definition ValidateStringParam :: "http_lib \<Rightarrow> http_request \<Rightarrow> string \<Rightarrow> bool \<Rightarrow> string + string" where
  "ValidateStringParam L c name required =
     (let v = rq_Param c name in
      if required \<and> v = [] then Inl (''parameter '' @ quoted name @ '' is required'')
      else if v \<noteq> [] \<and> \<not> hl_IsPrintableASCII L v
      then Inl (''parameter '' @ quoted name @ '' contains invalid characters'')
      else Inr v)"

text \<open>The tail the two validators of integers in the query share.\<close>

definition int64_query :: "http_lib \<Rightarrow> string \<Rightarrow> string \<Rightarrow> int \<Rightarrow> string + int" where
  "int64_query L name v minValue =
     (if \<not> hl_IsInt L v then Inl (''query parameter '' @ quoted name @ '' must be a valid integer'')
      else (case atoi v of
              None \<Rightarrow> Inl (''query parameter '' @ quoted name @ '' must be a valid int64: ''
                           @ hl_error L ''ParseInt'' v)
            | Some value \<Rightarrow>
                (if value < minValue
                 then Inl (''query parameter '' @ quoted name @ '' must be greater than or equal to ''
                           @ itoa minValue)
                 else Inr value)))"

definition ValidateInt64Query :: "http_lib \<Rightarrow> http_request \<Rightarrow> string \<Rightarrow> int \<Rightarrow> int \<Rightarrow> string + int" where
  "ValidateInt64Query L c name defaultValue minValue =
     (let v = rq_Query c name in if v = [] then Inr defaultValue else int64_query L name v minValue)"

definition ValidateOptionalInt64Query :: "http_lib \<Rightarrow> http_request \<Rightarrow> string \<Rightarrow> int \<Rightarrow> string + int option" where
  "ValidateOptionalInt64Query L c name minValue =
     (let v = rq_Query c name in
      if v = [] then Inr None
      else (case int64_query L name v minValue of Inl m \<Rightarrow> Inl m | Inr value \<Rightarrow> Inr (Some value)))"

definition ValidateStringQuery :: "http_lib \<Rightarrow> http_request \<Rightarrow> string \<Rightarrow> bool \<Rightarrow> string + string" where
  "ValidateStringQuery L c name required =
     (let v = rq_Query c name in
      if required \<and> v = [] then Inl (''query parameter '' @ quoted name @ '' is required'')
      else if v \<noteq> [] \<and> \<not> hl_IsPrintableASCII L v
      then Inl (''query parameter '' @ quoted name @ '' contains invalid characters'')
      else Inr v)"

definition ValidateOptionalStringQuery :: "http_lib \<Rightarrow> http_request \<Rightarrow> string \<Rightarrow> string + string" where
  "ValidateOptionalStringQuery L c name =
     (let v = rq_Query c name in
      if v \<noteq> [] \<and> \<not> hl_IsPrintableASCII L v
      then Inl (''query parameter '' @ quoted name @ '' contains invalid characters'')
      else Inr v)"

text \<open>\<open>strconv.ParseBool\<close>.\<close>

definition parse_bool :: "string \<Rightarrow> bool option" where
  "parse_bool s =
     (if s \<in> {''1'', ''t'', ''T'', ''TRUE'', ''true'', ''True''} then Some True
      else if s \<in> {''0'', ''f'', ''F'', ''FALSE'', ''false'', ''False''} then Some False
      else None)"

definition ValidateOptionalBoolQuery :: "http_lib \<Rightarrow> http_request \<Rightarrow> string \<Rightarrow> string + bool option" where
  "ValidateOptionalBoolQuery L c name =
     (let v = rq_Query c name in
      if v = [] then Inr None
      else (case parse_bool v of
              None \<Rightarrow> Inl (''query parameter '' @ quoted name @ '' must be a valid boolean (true/false): ''
                           @ hl_error L ''ParseBool'' v)
            | Some value \<Rightarrow> Inr (Some value)))"

definition ValidateEmail :: "http_lib \<Rightarrow> string \<Rightarrow> string option" where
  "ValidateEmail L s = (if \<not> hl_IsEmail L s then Some (''invalid email format: '' @ s) else None)"

definition ValidateURL :: "http_lib \<Rightarrow> string \<Rightarrow> string option" where
  "ValidateURL L s = (if \<not> hl_IsURL L s then Some (''invalid URL format: '' @ s) else None)"

definition ValidateUUID :: "http_lib \<Rightarrow> string \<Rightarrow> string option" where
  "ValidateUUID L s = (if \<not> hl_IsUUID L s then Some (''invalid UUID format: '' @ s) else None)"

subsection \<open>Printable UTF-8\<close>

text \<open>
  The runes of valid UTF-8, read byte by byte: \<open>k\<close> continuation bytes are still to come, the next one
  between \<open>lo\<close> and \<open>hi\<close>, and \<open>acc\<close> holds the bits so far.  \<open>None\<close> is an invalid encoding.
\<close>

fun utf8_from :: "nat \<Rightarrow> nat \<Rightarrow> nat \<Rightarrow> nat \<Rightarrow> string \<Rightarrow> nat list option" where
  "utf8_from k lo hi acc [] = (if k = 0 then Some [] else None)"
| "utf8_from k lo hi acc (c # s) =
     (let n = of_char c in
      if k = 0 then
        (if n < 128 then map_option (Cons n) (utf8_from 0 128 191 0 s)
         else if 194 \<le> n \<and> n \<le> 223 then utf8_from 1 128 191 (n - 192) s
         else if n = 224 then utf8_from 2 160 191 0 s
         else if n = 237 then utf8_from 2 128 159 13 s
         else if 225 \<le> n \<and> n \<le> 239 then utf8_from 2 128 191 (n - 224) s
         else if n = 240 then utf8_from 3 144 191 0 s
         else if 241 \<le> n \<and> n \<le> 243 then utf8_from 3 128 191 (n - 240) s
         else if n = 244 then utf8_from 3 128 143 4 s
         else None)
      else if lo \<le> n \<and> n \<le> hi then
        (if k = 1 then map_option (Cons (64 * acc + (n - 128))) (utf8_from 0 128 191 0 s)
         else utf8_from (k - 1) 128 191 (64 * acc + (n - 128)) s)
      else None)"

definition utf8_runes :: "string \<Rightarrow> nat list option" where
  "utf8_runes s = utf8_from 0 128 191 0 s"

definition isPrintableUTF8 :: "http_lib \<Rightarrow> string \<Rightarrow> bool" where
  "isPrintableUTF8 L s =
     (case utf8_runes s of None \<Rightarrow> False | Some runes \<Rightarrow> list_all (hl_IsPrint L) runes)"

definition ValidateOptionalUTF8StringQuery :: "http_lib \<Rightarrow> http_request \<Rightarrow> string \<Rightarrow> string + string" where
  "ValidateOptionalUTF8StringQuery L c name =
     (let v = rq_Query c name in
      if v \<noteq> [] \<and> \<not> isPrintableUTF8 L v
      then Inl (''query parameter '' @ quoted name @ '' contains invalid characters'')
      else Inr v)"

subsection \<open>RFC 3339\<close>

text \<open>
  \<open>time.Parse(time.RFC3339, s)\<close>: a year of four digits, the other numbers of two (the hour also of
  one), a fraction of a second behind a point or a comma, of which nine digits count, and \<open>Z\<close> or an
  offset of up to 24 hours and 60 minutes.  The day has to be one of the month.
\<close>

fun expect :: "char \<Rightarrow> string \<Rightarrow> string option" where
  "expect c [] = None"
| "expect c (x # xs) = (if x = c then Some xs else None)"

definition number_in :: "bool \<Rightarrow> int \<Rightarrow> int \<Rightarrow> string \<Rightarrow> (int \<times> string) option" where
  "number_in fixed lo hi s = (case getnum fixed s of
      None \<Rightarrow> None
    | Some (n, rest) \<Rightarrow> (if lo \<le> n \<and> n \<le> hi then Some (n, rest) else None))"

definition parse_year :: "string \<Rightarrow> (int \<times> string) option" where
  "parse_year s =
     (if length s < 4 \<or> \<not> list_all is_digit (take 4 s) then None
      else Some (int (digits_value (take 4 s)), drop 4 s))"

definition parse_fraction :: "string \<Rightarrow> int \<times> string" where
  "parse_fraction s =
     (case s of
        p # d # _ \<Rightarrow>
          (if (p = CHR ''.'' \<or> p = CHR '','') \<and> is_digit d then
             (let ds = takeWhile is_digit (tl s); kept = take 9 ds in
              (int (digits_value kept) * 10 ^ (9 - length kept), drop (length ds) (tl s)))
           else (0, s))
      | _ \<Rightarrow> (0, s))"

text \<open>The offset, in seconds east of UTC, and the end of the text.\<close>

definition parse_zone :: "string \<Rightarrow> int option" where
  "parse_zone s =
     (if s = ''Z'' then Some 0
      else if length s \<noteq> 6 \<or> s ! 3 \<noteq> CHR '':'' then None
      else (case (number_in True 0 24 (take 2 (drop 1 s)), number_in True 0 60 (drop 4 s)) of
              (Some (hr, _), Some (mm, _)) \<Rightarrow>
                (if hd s = CHR ''+'' then Some ((hr * 60 + mm) * 60)
                 else if hd s = CHR ''-'' then Some (- ((hr * 60 + mm) * 60))
                 else None)
            | _ \<Rightarrow> None))"

definition parse_rfc3339_day :: "string \<Rightarrow> ((int \<times> int \<times> int) \<times> string) option" where
  "parse_rfc3339_day s =
     Option.bind (parse_year s) (\<lambda>(y, s).
     Option.bind (expect CHR ''-'' s) (\<lambda>s.
     Option.bind (number_in True 1 12 s) (\<lambda>(m, s).
     Option.bind (expect CHR ''-'' s) (\<lambda>s.
     Option.bind (getnum True s) (\<lambda>(d, s). Some ((y, m, d), s))))))"

definition parse_time_of_day :: "string \<Rightarrow> ((int \<times> int \<times> int) \<times> string) option" where
  "parse_time_of_day s =
     Option.bind (number_in False 0 23 s) (\<lambda>(h, s).
     Option.bind (expect CHR '':'' s) (\<lambda>s.
     Option.bind (number_in True 0 59 s) (\<lambda>(mi, s).
     Option.bind (expect CHR '':'' s) (\<lambda>s.
     Option.bind (number_in True 0 59 s) (\<lambda>(sec, s). Some ((h, mi, sec), s))))))"

definition parse_rfc3339 :: "string \<Rightarrow> time option" where
  "parse_rfc3339 s =
     Option.bind (parse_rfc3339_day s) (\<lambda>((y, m, d), s).
     Option.bind (expect CHR ''T'' s) (\<lambda>s.
     Option.bind (parse_time_of_day s) (\<lambda>((h, mi, sec), s).
     (let (nsec, zone_text) = parse_fraction s in
      Option.bind (parse_zone zone_text) (\<lambda>zone.
      if d < 1 \<or> d > month_lengths (is_leap y) ! nat (m - 1) then None
      else Some (Date y m d h mi sec + nsec - zone * second_ns))))))"

definition ValidateOptionalTimeQuery :: "http_lib \<Rightarrow> http_request \<Rightarrow> string \<Rightarrow> string + time option" where
  "ValidateOptionalTimeQuery L c name =
     (let v = rq_Query c name in
      if v = [] then Inr None
      else (case parse_rfc3339 v of
              None \<Rightarrow> Inl (''query parameter '' @ quoted name @ '' must be a valid RFC3339 time format: ''
                           @ hl_error L ''Parse'' v)
            | Some t \<Rightarrow> Inr (Some t)))"

text \<open>\<open>t.UTC().Format(time.RFC3339)\<close>, for the year 0 and later.\<close>

definition two_digits :: "int \<Rightarrow> string" where
  "two_digits n = [digit (nat n div 10), digit (nat n mod 10)]"

definition pad_year :: "int \<Rightarrow> string" where
  "pad_year y = replicate (4 - length (nat_text (nat y))) CHR ''0'' @ nat_text (nat y)"

definition format_rfc3339 :: "time \<Rightarrow> string" where
  "format_rfc3339 t =
     pad_year (Year t) @ ''-'' @ two_digits (Month t) @ ''-'' @ two_digits (Day t) @ ''T'' @
     two_digits (Clock_Hour t) @ '':'' @ two_digits (Clock_Minute t) @ '':'' @ two_digits (Clock_Second t) @ ''Z''"

subsection \<open>Custom validators\<close>

text \<open>What \<open>reflect\<close> tells of a field: its kind and its value.\<close>

datatype field_value =
    FString string
  | FTime time
  | FPtr "field_value option"
  | FOther

text \<open>The part two of the validators share: the string a field holds, if it holds one.\<close>

fun string_field :: "field_value \<Rightarrow> string option option" where
  "string_field (FString s) = Some (Some s)"
| "string_field (FPtr None) = Some None"
| "string_field (FPtr (Some (FString s))) = Some (Some s)"
| "string_field _ = None"

definition string_validator :: "(string \<Rightarrow> bool) \<Rightarrow> field_value \<Rightarrow> bool" where
  "string_validator ok f =
     (case string_field f of
        None \<Rightarrow> False
      | Some None \<Rightarrow> True
      | Some (Some s) \<Rightarrow> s = [] \<or> ok s)"

definition validateCronExpression :: "http_lib \<Rightarrow> field_value \<Rightarrow> bool" where
  "validateCronExpression L f = string_validator (hl_cron L) f"

definition validateTaskStatus :: "field_value \<Rightarrow> bool" where
  "validateTaskStatus f = string_validator (\<lambda>s. ValidateTaskStatus s = None) f"

text \<open>\<open>time.Now()\<close> is asked only when there is a date to compare.\<close>

definition future_enough :: "time \<Rightarrow> bool aop" where
  "future_enough d =
     (if IsZero d then ret False else bindE app_now (\<lambda>now. ret (d > now \<or> d = now)))"

fun validateFutureDate :: "field_value \<Rightarrow> bool aop" where
  "validateFutureDate (FTime d) = (if IsZero d then ret True else future_enough d)"
| "validateFutureDate (FPtr None) = ret True"
| "validateFutureDate (FPtr (Some (FTime d))) = future_enough d"
| "validateFutureDate _ = ret False"

text \<open>A field behind a pointer, as the validator library hands it on.\<close>

definition pointed :: "http_lib \<Rightarrow> field_value option \<Rightarrow> field_value" where
  "pointed L v = (case v of
      None \<Rightarrow> FPtr None
    | Some x \<Rightarrow> (if hl_deref L then x else FPtr (Some x)))"

subsection \<open>Texts of validation errors\<close>

definition field_message :: "field_error \<Rightarrow> string" where
  "field_message e =
     (let field = ''field '' @ quoted (fe_Field e) in
      if fe_Tag e = ''required'' then field @ '' is required''
      else if fe_Tag e = ''cron'' then field @ '' must be a valid cron expression''
      else if fe_Tag e = ''task_status''
      then field @ '' must be a valid task status (pending, scheduled, done, rescheduled, postponed, deleted)''
      else if fe_Tag e = ''future_date'' then field @ '' must be a date in the future (UTC)''
      else if fe_Tag e = ''email'' then field @ '' must be a valid email address''
      else if fe_Tag e = ''min'' then field @ '' must be at least '' @ fe_Param e
      else if fe_Tag e = ''max'' then field @ '' must be at most '' @ fe_Param e
      else field @ '' failed validation for tag '' @ quoted (fe_Tag e))"

datatype bind_error = Malformed string | FieldErrors "field_error list"

text \<open>\<open>err.Error()\<close> of what \<open>ShouldBindJSON\<close> returns.\<close>

fun bind_error_text :: "http_lib \<Rightarrow> bind_error \<Rightarrow> string" where
  "bind_error_text L (Malformed m) = m"
| "bind_error_text L (FieldErrors es) = hl_field_errors L es"

fun GetValidationErrors :: "http_lib \<Rightarrow> bind_error \<Rightarrow> string" where
  "GetValidationErrors L (Malformed m) = m"
| "GetValidationErrors L (FieldErrors es) = join ''; '' (map field_message es)"

text \<open>The text \<open>HandleValidationError\<close> answers with.\<close>

definition validation_text :: "http_lib \<Rightarrow> bind_error \<Rightarrow> string" where
  "validation_text L e =
     (let t = GetValidationErrors L e in if t \<noteq> [] then t else bind_error_text L e)"

subsection \<open>Pages\<close>

text \<open>\<open>(totalCount + pageSize - 1) / pageSize\<close> on 64-bit integers, and at least 1.\<close>

definition int64 :: "int \<Rightarrow> int" where
  "int64 n = sint (word_of_int n :: 64 word)"

definition quot :: "int \<Rightarrow> int \<Rightarrow> int" where
  "quot a b = (if a < 0 then - ((- a) div b) else a div b)"

definition total_pages :: "int \<Rightarrow> int \<Rightarrow> int" where
  "total_pages totalCount pageSize =
     (let n = quot (int64 (totalCount + pageSize - 1)) pageSize in if n = 0 then 1 else n)"

end
