(* ===== verification/Http_Forms.thy ===== *)
theory Http_Forms
  imports Http_Validation
begin

text \<open>
  The bodies of requests (\<open>internal/api/dto\<close>), the rules of their \<open>binding\<close> tags, and the mappers that
  turn them into models (\<open>internal/api/dto/mapper\<close>).

  A body is what \<open>encoding/json\<close> makes of the bytes: an error text, or the struct.  \<open>bind_json\<close> is
  \<open>ShouldBindJSON\<close>: the struct is checked field by field, the tags of a field in their order until one
  fails, and all failures are reported.  Only \<open>future_date\<close> looks at the clock.
\<close>

type_synonym 'd json = "string + 'd"

definition bind_json :: "('d \<Rightarrow> field_error list aop) \<Rightarrow> 'd json \<Rightarrow> (bind_error + 'd) aop" where
  "bind_json rules body =
     (case body of
        Inl m \<Rightarrow> ret (Inl (Malformed m))
      | Inr d \<Rightarrow> bindE (rules d) (\<lambda>es. ret (if es = [] then Inr d else Inl (FieldErrors es))))"

definition tag_failed :: "string \<Rightarrow> string \<Rightarrow> string \<Rightarrow> field_error list" where
  "tag_failed field tag param = [\<lparr>fe_Field = field, fe_Tag = tag, fe_Param = param\<rparr>]"

definition required :: "string \<Rightarrow> bool \<Rightarrow> field_error list" where
  "required field present = (if present then [] else tag_failed field ''required'' [])"

text \<open>\<open>omitempty\<close> and one more tag, on a pointer.\<close>

definition when_given :: "'a option \<Rightarrow> ('a \<Rightarrow> bool) \<Rightarrow> string \<Rightarrow> string \<Rightarrow> field_error list" where
  "when_given v ok field tag =
     (case v of None \<Rightarrow> [] | Some x \<Rightarrow> (if ok x then [] else tag_failed field tag []))"

subsection \<open>Tasks\<close>

record create_task_request =
  ct_Title :: string
  ct_Description :: string
  ct_UserID :: int
  ct_MessengerRelatedUserID :: "int option"
  ct_GroupID :: "int option"
  ct_StartDate :: time
  ct_FinishDate :: "time option"
  ct_CronExpression :: "string option"
  ct_RRule :: "string option"
  ct_RequiresConfirmation :: bool
  ct_Muted :: bool
  ct_ShiftFromCompletion :: bool
  ct_SkipDigest :: bool
  ct_PreRemindBeforeSeconds :: "int option"
  ct_Status :: string

definition cron_tag_rule :: "http_lib \<Rightarrow> string option \<Rightarrow> field_error list" where
  "cron_tag_rule L v =
     when_given v (\<lambda>s. validateCronExpression L (pointed L (Some (FString s)))) ''CronExpression'' ''cron''"

definition create_task_rules :: "http_lib \<Rightarrow> create_task_request \<Rightarrow> field_error list aop" where
  "create_task_rules L r =
     bindE (validateFutureDate (FTime (ct_StartDate r))) (\<lambda>future.
     ret (required ''Title'' (ct_Title r \<noteq> []) @ required ''UserID'' (ct_UserID r \<noteq> 0) @
          (if future then [] else tag_failed ''StartDate'' ''future_date'' []) @
          cron_tag_rule L (ct_CronExpression r) @
          (if ct_Status r = [] \<or> validateTaskStatus (FString (ct_Status r)) then []
           else tag_failed ''Status'' ''task_status'' [])))"

definition normalizePreRemindBeforeSeconds :: "int option \<Rightarrow> int option" where
  "normalizePreRemindBeforeSeconds v =
     (case v of None \<Rightarrow> None | Some n \<Rightarrow> (if n \<le> 0 then None else Some n))"

definition CreateTaskRequestToModel :: "create_task_request \<Rightarrow> task" where
  "CreateTaskRequestToModel r = zero_task\<lparr>Title := ct_Title r, Description := ct_Description r,
     UserID := ct_UserID r, MessengerRelatedUserID := ct_MessengerRelatedUserID r, GroupID := ct_GroupID r,
     StartDate := ct_StartDate r, FinishDate := ct_FinishDate r, CronExpression := ct_CronExpression r,
     RRule := ct_RRule r, RequiresConfirmation := ct_RequiresConfirmation r, Muted := ct_Muted r,
     ShiftFromCompletion := ct_ShiftFromCompletion r, SkipDigest := ct_SkipDigest r,
     PreRemindBeforeSeconds := normalizePreRemindBeforeSeconds (ct_PreRemindBeforeSeconds r),
     Status := (if ct_Status r = [] then TaskStatusPending else ct_Status r)\<rparr>"

record update_task_request =
  ut_Title :: "string option"
  ut_Description :: "string option"
  ut_Status :: "string option"
  ut_StartDate :: "time option"
  ut_FinishDate :: "time option"
  ut_RequiresConfirmation :: "bool option"
  ut_Muted :: "bool option"
  ut_ShiftFromCompletion :: "bool option"
  ut_SkipDigest :: "bool option"
  ut_PreRemindBeforeSeconds :: "int option"
  ut_CronExpression :: "string option"
  ut_RRule :: "string option"
  ut_GroupID :: "int option"

definition update_task_rules :: "http_lib \<Rightarrow> update_task_request \<Rightarrow> field_error list aop" where
  "update_task_rules L r =
     bindE (case ut_StartDate r of
              None \<Rightarrow> ret True
            | Some d \<Rightarrow> validateFutureDate (pointed L (Some (FTime d)))) (\<lambda>future.
     ret (when_given (ut_Status r) (\<lambda>s. validateTaskStatus (pointed L (Some (FString s)))) ''Status'' ''task_status'' @
          (if future then [] else tag_failed ''StartDate'' ''future_date'' []) @
          cron_tag_rule L (ut_CronExpression r)))"

definition UpdateTaskRequestToModel :: "update_task_request \<Rightarrow> task_update_request" where
  "UpdateTaskRequestToModel r =
     \<lparr>u_Title = ut_Title r, u_Description = ut_Description r, u_Status = ut_Status r,
      u_StartDate = ut_StartDate r, u_FinishDate = ut_FinishDate r, u_CronExpression = ut_CronExpression r,
      u_RRule = ut_RRule r, u_RequiresConfirmation = ut_RequiresConfirmation r, u_Muted = ut_Muted r,
      u_ShiftFromCompletion = ut_ShiftFromCompletion r, u_SkipDigest = ut_SkipDigest r,
      u_PreRemindBeforeSeconds = ut_PreRemindBeforeSeconds r, u_GroupID = ut_GroupID r\<rparr>"

record queue_task_request =
  qt_Action :: string
  qt_QueueName :: string
  qt_TaskID :: int

definition queue_task_rules :: "queue_task_request \<Rightarrow> field_error list aop" where
  "queue_task_rules r =
     ret (required ''Action'' (qt_Action r \<noteq> []) @ required ''QueueName'' (qt_QueueName r \<noteq> []) @
          required ''TaskID'' (qt_TaskID r \<noteq> 0))"

definition QueueTaskRequestToModel :: "queue_task_request \<Rightarrow> scheduled_task" where
  "QueueTaskRequestToModel r =
     \<lparr>s_Action = qt_Action r, s_QueueName = qt_QueueName r, s_TaskID = qt_TaskID r\<rparr>"

subsection \<open>Users and messengers\<close>

record create_user_request =
  cu_Name :: string
  cu_Email :: string
  cu_PasswordHash :: string
  cu_Timezone :: "string option"
  cu_LanguageCode :: "string option"
  cu_Role :: "string option"

definition create_user_rules :: "create_user_request \<Rightarrow> field_error list aop" where
  "create_user_rules r = ret (required ''Name'' (cu_Name r \<noteq> []))"

definition CreateUserRequestToModel :: "create_user_request \<Rightarrow> user" where
  "CreateUserRequestToModel r =
     \<lparr>user_ID = 0, user_Name = cu_Name r, user_Email = cu_Email r, user_PasswordHash = cu_PasswordHash r,
      user_CreatedAt = 0, user_DeletedAt = 0, user_Timezone = cu_Timezone r,
      user_LanguageCode = cu_LanguageCode r, user_Role = cu_Role r, user_LastActivityAt = None\<rparr>"

record update_user_body =
  uub_Name :: "string option"
  uub_Email :: "string option"
  uub_PasswordHash :: "string option"
  uub_Timezone :: "string option"
  uub_LanguageCode :: "string option"
  uub_Role :: "string option"

definition update_user_rules :: "http_lib \<Rightarrow> update_user_body \<Rightarrow> field_error list aop" where
  "update_user_rules L r = ret (when_given (uub_Email r) (hl_email L) ''Email'' ''email'')"

definition UpdateUserRequestToModel :: "update_user_body \<Rightarrow> user_update_request" where
  "UpdateUserRequestToModel r =
     \<lparr>uu_Name = uub_Name r, uu_Email = uub_Email r, uu_PasswordHash = uub_PasswordHash r,
      uu_Timezone = uub_Timezone r, uu_LanguageCode = uub_LanguageCode r, uu_Role = uub_Role r\<rparr>"

record create_messenger_request =
  cm_Name :: string

definition create_messenger_rules :: "create_messenger_request \<Rightarrow> field_error list aop" where
  "create_messenger_rules r = ret (required ''Name'' (cm_Name r \<noteq> []))"

definition CreateMessengerRequestToModel :: "create_messenger_request \<Rightarrow> messenger" where
  "CreateMessengerRequestToModel r = \<lparr>m_ID = 0, m_Name = cm_Name r, m_CreatedAt = 0\<rparr>"

record create_chat_request =
  cc_UserID :: "int option"
  cc_MessengerID :: "int option"
  cc_MessengerUserID :: string
  cc_ChatID :: string

definition create_chat_rules :: "create_chat_request \<Rightarrow> field_error list aop" where
  "create_chat_rules r =
     ret (required ''UserID'' (cc_UserID r \<noteq> None) @ required ''MessengerID'' (cc_MessengerID r \<noteq> None) @
          required ''MessengerUserID'' (cc_MessengerUserID r \<noteq> []) @ required ''ChatID'' (cc_ChatID r \<noteq> []))"

definition CreateMessengerRelatedUserRequestToModel :: "create_chat_request \<Rightarrow> messenger_related_user" where
  "CreateMessengerRelatedUserRequestToModel r =
     \<lparr>mru_ID = 0, mru_UserID = cc_UserID r, mru_MessengerID = cc_MessengerID r,
      mru_MessengerUserID = cc_MessengerUserID r, mru_ChatID = cc_ChatID r, mru_CreatedAt = 0,
      mru_UpdatedAt = None\<rparr>"

subsection \<open>Backlog items, targets, groups, digest settings\<close>

record create_backlog_request =
  cbk_Title :: string
  cbk_Description :: string
  cbk_UserID :: int
  cbk_MessengerRelatedUserID :: "int option"

definition create_backlog_rules :: "create_backlog_request \<Rightarrow> field_error list aop" where
  "create_backlog_rules r =
     ret (required ''Title'' (cbk_Title r \<noteq> []) @ required ''UserID'' (cbk_UserID r \<noteq> 0))"

definition CreateBacklogRequestToModel :: "create_backlog_request \<Rightarrow> backlog" where
  "CreateBacklogRequestToModel r =
     \<lparr>bl_ID = 0, bl_Title = cbk_Title r, bl_Description = cbk_Description r, bl_UserID = cbk_UserID r,
      bl_MessengerRelatedUserID = cbk_MessengerRelatedUserID r, bl_CreatedAt = 0, bl_UpdatedAt = 0,
      bl_CompletedAt = None\<rparr>"

record create_batch_request =
  cbt_Items :: string
  cbt_Separator :: string
  cbt_UserID :: int
  cbt_MessengerRelatedUserID :: "int option"

definition create_batch_rules :: "create_batch_request \<Rightarrow> field_error list aop" where
  "create_batch_rules r =
     ret (required ''Items'' (cbt_Items r \<noteq> []) @ required ''UserID'' (cbt_UserID r \<noteq> 0))"

record update_backlog_body =
  ubb_Title :: "string option"
  ubb_Description :: "string option"
  ubb_CompletedAt :: "time option"

definition UpdateBacklogRequestToModel :: "update_backlog_body \<Rightarrow> backlog_update_request" where
  "UpdateBacklogRequestToModel r =
     \<lparr>blu_Title = ubb_Title r, blu_Description = ubb_Description r, blu_CompletedAt = ubb_CompletedAt r\<rparr>"

record create_target_request =
  ctg_Title :: string
  ctg_Description :: string
  ctg_UserID :: int
  ctg_MessengerRelatedUserID :: "int option"

definition create_target_rules :: "create_target_request \<Rightarrow> field_error list aop" where
  "create_target_rules r =
     ret (required ''Title'' (ctg_Title r \<noteq> []) @ required ''UserID'' (ctg_UserID r \<noteq> 0))"

definition CreateTargetRequestToModel :: "create_target_request \<Rightarrow> target" where
  "CreateTargetRequestToModel r =
     \<lparr>tg_ID = 0, tg_Title = ctg_Title r, tg_Description = ctg_Description r, tg_UserID = ctg_UserID r,
      tg_MessengerRelatedUserID = ctg_MessengerRelatedUserID r, tg_CreatedAt = 0, tg_UpdatedAt = 0,
      tg_CompletedAt = None\<rparr>"

record update_target_body =
  utb_Title :: "string option"
  utb_Description :: "string option"
  utb_CompletedAt :: "time option"

definition UpdateTargetRequestToModel :: "update_target_body \<Rightarrow> target_update_request" where
  "UpdateTargetRequestToModel r =
     \<lparr>tgu_Title = utb_Title r, tgu_Description = utb_Description r, tgu_CompletedAt = utb_CompletedAt r\<rparr>"

record create_group_request =
  cg_Name :: string
  cg_UserID :: int

definition create_group_rules :: "create_group_request \<Rightarrow> field_error list aop" where
  "create_group_rules r =
     ret (required ''Name'' (cg_Name r \<noteq> []) @ required ''UserID'' (cg_UserID r \<noteq> 0))"

definition CreateTaskGroupRequestToModel :: "create_group_request \<Rightarrow> task_group" where
  "CreateTaskGroupRequestToModel r =
     \<lparr>gr_ID = 0, gr_UserID = cg_UserID r, gr_Name = cg_Name r, gr_CreatedAt = 0, gr_UpdatedAt = 0\<rparr>"

record update_group_body =
  ugb_Name :: "string option"

definition UpdateTaskGroupRequestToModel :: "update_group_body \<Rightarrow> task_group_update_request" where
  "UpdateTaskGroupRequestToModel r = \<lparr>gru_Name = ugb_Name r\<rparr>"

record create_digest_request =
  cd_UserID :: int
  cd_MessengerRelatedUserID :: "int option"
  cd_Enabled :: bool
  cd_WeekdayTime :: string
  cd_WeekendTime :: string

definition create_digest_rules :: "create_digest_request \<Rightarrow> field_error list aop" where
  "create_digest_rules r =
     ret (required ''UserID'' (cd_UserID r \<noteq> 0) @ required ''WeekdayTime'' (cd_WeekdayTime r \<noteq> []) @
          required ''WeekendTime'' (cd_WeekendTime r \<noteq> []))"

definition CreateDigestSettingsRequestToModel :: "create_digest_request \<Rightarrow> digest_settings" where
  "CreateDigestSettingsRequestToModel r =
     \<lparr>ds_ID = 0, ds_UserID = cd_UserID r, ds_MessengerRelatedUserID = cd_MessengerRelatedUserID r,
      ds_Enabled = cd_Enabled r, ds_WeekdayTime = cd_WeekdayTime r, ds_WeekendTime = cd_WeekendTime r,
      ds_CreatedAt = 0, ds_UpdatedAt = 0\<rparr>"

record update_digest_body =
  udb_Enabled :: "bool option"
  udb_WeekdayTime :: "string option"
  udb_WeekendTime :: "string option"
  udb_MessengerRelatedUserID :: "int option"

definition UpdateDigestSettingsRequestToModel :: "update_digest_body \<Rightarrow> digest_settings_update_request" where
  "UpdateDigestSettingsRequestToModel r =
     \<lparr>dsu_Enabled = udb_Enabled r, dsu_WeekdayTime = udb_WeekdayTime r, dsu_WeekendTime = udb_WeekendTime r,
      dsu_MessengerRelatedUserID = udb_MessengerRelatedUserID r\<rparr>"

subsection \<open>Calendar and attachments\<close>

record create_binding_body =
  cbb_GoogleCalendarID :: string
  cbb_CalendarSummary :: "string option"
  cbb_Direction :: string
  cbb_GroupID :: "int option"
  cbb_MessengerRelatedUserID :: "int option"
  cbb_DeletePolicy :: string

definition create_binding_rules :: "create_binding_body \<Rightarrow> field_error list aop" where
  "create_binding_rules r = ret (required ''GoogleCalendarID'' (cbb_GoogleCalendarID r \<noteq> []))"

record enable_export_body =
  eeb_CalendarBindingID :: int

definition enable_export_rules :: "enable_export_body \<Rightarrow> field_error list aop" where
  "enable_export_rules r = ret (required ''CalendarBindingID'' (eeb_CalendarBindingID r \<noteq> 0))"

record init_attachment_request =
  ia_OriginalName :: string
  ia_ContentType :: string
  ia_SizeBytes :: int
  ia_IdempotencyKey :: string

definition init_attachment_rules :: "init_attachment_request \<Rightarrow> field_error list aop" where
  "init_attachment_rules r =
     ret (required ''OriginalName'' (ia_OriginalName r \<noteq> []) @
          required ''ContentType'' (ia_ContentType r \<noteq> []) @
          (if ia_SizeBytes r = 0 then tag_failed ''SizeBytes'' ''required'' []
           else if ia_SizeBytes r > 0 then [] else tag_failed ''SizeBytes'' ''gt'' ''0''))"

text \<open>A body without rules.\<close>

definition no_rules :: "'d \<Rightarrow> field_error list aop" where
  "no_rules d = ret []"

end
