(* ===== verification/Token_Cipher.thy ===== *)
theory Token_Cipher
  imports Go_Strings
begin

text \<open>
  \<open>pkg/crypto/token_cipher.go\<close>: the key and the format of an encrypted token.

  AES-GCM and SHA-256 are libraries: \<open>gcm\<close> holds the two operations of an AEAD with its nonce size,
  \<open>sha256\<close> is an argument.  What the code relies on is \<open>gcm_laws\<close>: opening what was sealed under the
  same nonce gives the plaintext.  The bytes the random reader delivers are an argument too.
\<close>

subsection \<open>Keys\<close>

definition hex_value :: "char \<Rightarrow> nat option" where
  "hex_value c = (let n = of_char c :: nat in
     if 48 \<le> n \<and> n \<le> 57 then Some (n - 48)
     else if 97 \<le> n \<and> n \<le> 102 then Some (n - 87)
     else if 65 \<le> n \<and> n \<le> 70 then Some (n - 55)
     else None)"

text \<open>\<open>hex.DecodeString\<close>.\<close>

fun hex_decode :: "string \<Rightarrow> string option" where
  "hex_decode [] = Some []"
| "hex_decode [c] = None"
| "hex_decode (a # b # s) =
     (case (hex_value a, hex_value b, hex_decode s) of
        (Some x, Some y, Some r) \<Rightarrow> Some (char_of (16 * x + y) # r)
      | _ \<Rightarrow> None)"

definition deriveKey :: "(string \<Rightarrow> string) \<Rightarrow> string \<Rightarrow> string" where
  "deriveKey sha256 secret =
     (let plain = (if length secret = 32 then secret else sha256 secret) in
      if length secret = 64
      then (case hex_decode secret of
              Some decoded \<Rightarrow> if length decoded = 32 then decoded else plain
            | None \<Rightarrow> plain)
      else plain)"

text \<open>\<open>aes.NewCipher\<close> takes keys of 16, 24 or 32 bytes.\<close>

definition NewTokenCipher :: "(string \<Rightarrow> string) \<Rightarrow> string \<Rightarrow> string + string" where
  "NewTokenCipher sha256 secret =
     (if secret = [] then Inl ''token encryption key is empty''
      else (let key = deriveKey sha256 secret in
        if length key \<notin> {16, 24, 32} then Inl ''create aes cipher'' else Inr key))"

subsection \<open>Encryption\<close>

record gcm =
  gcm_seal :: "string \<Rightarrow> string \<Rightarrow> string"
  gcm_open :: "string \<Rightarrow> string \<Rightarrow> string option"
  gcm_nonce_size :: nat

definition Encrypt :: "gcm \<Rightarrow> string option \<Rightarrow> string \<Rightarrow> string option" where
  "Encrypt G random plaintext =
     (case random of
        None \<Rightarrow> None
      | Some bytes \<Rightarrow>
          (let nonce = take (gcm_nonce_size G) bytes in
           if length nonce < gcm_nonce_size G then None else Some (nonce @ gcm_seal G nonce plaintext)))"

definition Decrypt :: "gcm \<Rightarrow> string \<Rightarrow> string option" where
  "Decrypt G ciphertext =
     (if length ciphertext < gcm_nonce_size G then None
      else gcm_open G (take (gcm_nonce_size G) ciphertext) (drop (gcm_nonce_size G) ciphertext))"

definition gcm_laws :: "gcm \<Rightarrow> bool" where
  "gcm_laws G \<longleftrightarrow> 0 < gcm_nonce_size G \<and>
     (\<forall>nonce p. length nonce = gcm_nonce_size G \<longrightarrow> gcm_open G nonce (gcm_seal G nonce p) = Some p)"

lemma Decrypt_Encrypt: "gcm_laws G \<Longrightarrow> Encrypt G r p = Some c \<Longrightarrow> Decrypt G c = Some p"
  by (auto simp: gcm_laws_def Encrypt_def Decrypt_def Let_def split: option.splits if_splits)

text \<open>A ciphertext starts with the nonce, so it is never empty, whatever was encrypted.\<close>

lemma Encrypt_not_Nil: "gcm_laws G \<Longrightarrow> Encrypt G r p = Some c \<Longrightarrow> c \<noteq> []"
  by (auto simp: gcm_laws_def Encrypt_def Let_def split: option.splits if_splits)

lemma deriveKey_length: "(\<And>s. length (sha256 s) = 32) \<Longrightarrow> length (deriveKey sha256 secret) = 32"
  by (simp add: deriveKey_def Let_def split: option.split)

lemma NewTokenCipher_key:
  "(\<And>s. length (sha256 s) = 32) \<Longrightarrow> secret \<noteq> [] \<Longrightarrow>
     NewTokenCipher sha256 secret = Inr (deriveKey sha256 secret)"
  by (simp add: NewTokenCipher_def deriveKey_length)

end
