(* ===== verification/Calendar_OAuth.thy ===== *)
theory Calendar_OAuth
  imports Token_Cipher App_Store Calendar_Import
begin

text \<open>
  Connecting a Google account: \<open>StartOAuth\<close>, \<open>HandleOAuthCallback\<close> and \<open>fetchUserInfo\<close> of
  \<open>calendar_sync_service.go\<close>, and the statements of \<open>google_account_repository.go\<close> that write tokens.

  The OAuth library and Google's endpoint for user information are what they answer
  (\<open>oauth_answers\<close>).  The URL of the consent page is a function of the \<open>state\<close> parameter.  The next
  value of the sequence of \<open>google_accounts\<close> and the random bytes of the two encryptions are given too.
\<close>

subsection \<open>What is answered\<close>

record oauth_token =
  ot_AccessToken :: string
  ot_RefreshToken :: string
  ot_Expiry :: time

record google_user_info =
  ui_ID :: string
  ui_Email :: string

datatype user_info_reply =
    FetchFailed string
  | ReadFailed string
  | UserInfoReply int string "string + google_user_info"

record oauth_answers =
  oa_exchange :: "string + oauth_token"
  oa_userinfo :: user_info_reply
  oa_random_access :: "string option"
  oa_random_refresh :: "string option"
  oa_next_id :: int

record oauth_config =
  oc_url :: "string \<Rightarrow> string"
  oc_Scopes :: "string list"
  oc_cipher :: gcm

subsection \<open>The repository\<close>

definition same_account :: "google_account \<Rightarrow> google_account \<Rightarrow> bool" where
  "same_account a x \<longleftrightarrow> ga_UserID x = ga_UserID a \<and> ga_GoogleSub x = ga_GoogleSub a"

text \<open>\<open>ON CONFLICT (user_id, google_sub) DO UPDATE\<close>: an empty refresh token leaves the stored one.\<close>

definition reconnected :: "google_account \<Rightarrow> time \<Rightarrow> google_account \<Rightarrow> google_account" where
  "reconnected a now x = x\<lparr>ga_Email := ga_Email a, ga_AccessTokenEnc := ga_AccessTokenEnc a,
     ga_RefreshTokenEnc := (if ga_RefreshTokenEnc a = [] then ga_RefreshTokenEnc x else ga_RefreshTokenEnc a),
     ga_TokenExpiry := ga_TokenExpiry a, ga_Scopes := ga_Scopes a, ga_RevokedAt := None, ga_UpdatedAt := now\<rparr>"

definition account_Upsert :: "int \<Rightarrow> google_account \<Rightarrow> google_account cop" where
  "account_Upsert serial a =
     bindE cal_now (\<lambda>now.
     bindE (cal_external ''failed to upsert google account'') (\<lambda>_ v.
       case find (same_account a) (accounts v) of
         Some x \<Rightarrow>
           (Ok (a\<lparr>ga_ID := ga_ID x, ga_CreatedAt := ga_CreatedAt x, ga_UpdatedAt := now\<rparr>),
            v\<lparr>accounts := map (\<lambda>y. if same_account a y then reconnected a now y else y) (accounts v)\<rparr>)
       | None \<Rightarrow>
           (let new = a\<lparr>ga_ID := serial, ga_RevokedAt := None, ga_CreatedAt := now, ga_UpdatedAt := now\<rparr> in
            (Ok (a\<lparr>ga_ID := serial, ga_CreatedAt := now, ga_UpdatedAt := now\<rparr>),
             v\<lparr>accounts := accounts v @ [new]\<rparr>))))"

definition token_columns :: "string \<Rightarrow> string \<Rightarrow> time \<Rightarrow> string \<Rightarrow> time \<Rightarrow> google_account \<Rightarrow> google_account" where
  "token_columns accessEnc refreshEnc expiry scopes now x = x\<lparr>ga_AccessTokenEnc := accessEnc,
     ga_TokenExpiry := expiry, ga_UpdatedAt := now,
     ga_RefreshTokenEnc := (if refreshEnc = [] then ga_RefreshTokenEnc x else refreshEnc),
     ga_Scopes := (if scopes = [] then ga_Scopes x else scopes)\<rparr>"

definition account_UpdateTokens :: "int \<Rightarrow> string \<Rightarrow> string \<Rightarrow> time \<Rightarrow> string \<Rightarrow> unit cop" where
  "account_UpdateTokens i accessEnc refreshEnc expiry scopes =
     bindE cal_now (\<lambda>now.
     bindE (cal_external ''failed to update google account tokens'') (\<lambda>_.
     modify (\<lambda>v. v\<lparr>accounts := update_key ga_ID i (token_columns accessEnc refreshEnc expiry scopes now)
                                (accounts v)\<rparr>)))"

subsection \<open>The service\<close>

definition StartOAuth :: "oauth_config \<Rightarrow> int \<Rightarrow> string cop" where
  "StartOAuth conf userID =
     bindE (map_err not_found_to_unprocessable (in_core (GetUserByID userID))) (\<lambda>_.
     ret (oc_url conf (itoa userID)))"

definition fetchUserInfo :: "user_info_reply \<Rightarrow> google_user_info cop" where
  "fetchUserInfo reply =
     (case reply of
        FetchFailed m \<Rightarrow> fail (ErrOther (''fetch userinfo: '' @ m))
      | ReadFailed m \<Rightarrow> fail (ErrOther (''read userinfo body: '' @ m))
      | UserInfoReply status body decoded \<Rightarrow>
          (if status \<ge> 300
           then fail (ErrOther (''userinfo status '' @ itoa status @ '': '' @ body))
           else (case decoded of
                   Inl m \<Rightarrow> fail (ErrOther (''decode userinfo: '' @ m))
                 | Inr info \<Rightarrow>
                     (if ui_ID info = [] then fail (ErrOther ''userinfo missing id'') else ret info))))"

definition encrypted :: "gcm \<Rightarrow> string option \<Rightarrow> string \<Rightarrow> string \<Rightarrow> string cop" where
  "encrypted G random text plaintext =
     (case Encrypt G random plaintext of
        None \<Rightarrow> fail (ErrOther (text @ '': generate nonce''))
      | Some c \<Rightarrow> ret c)"

definition callback_account :: "oauth_config \<Rightarrow> int \<Rightarrow> google_user_info \<Rightarrow> oauth_token \<Rightarrow> string \<Rightarrow> string \<Rightarrow> google_account" where
  "callback_account conf userID info token accessEnc refreshEnc =
     \<lparr>ga_ID = 0, ga_UserID = userID, ga_GoogleSub = ui_ID info, ga_Email = ui_Email info,
      ga_AccessTokenEnc = accessEnc, ga_RefreshTokenEnc = refreshEnc, ga_TokenExpiry = ot_Expiry token,
      ga_Scopes = join '' '' (oc_Scopes conf), ga_RevokedAt = None, ga_CreatedAt = 0, ga_UpdatedAt = 0\<rparr>"

definition HandleOAuthCallback :: "oauth_config \<Rightarrow> oauth_answers \<Rightarrow> string \<Rightarrow> google_account cop" where
  "HandleOAuthCallback conf A state =
     (case atoi state of
        None \<Rightarrow> fail (ErrValidation ''invalid oauth state'')
      | Some userID \<Rightarrow>
          (if userID \<le> 0 then fail (ErrValidation ''invalid oauth state'')
           else bindE (map_err not_found_to_unprocessable (in_core (GetUserByID userID))) (\<lambda>_.
             case oa_exchange A of
               Inl m \<Rightarrow> fail (ErrOther (''oauth token exchange failed: '' @ m))
             | Inr token \<Rightarrow>
                 bindE (fetchUserInfo (oa_userinfo A)) (\<lambda>info.
                 bindE (encrypted (oc_cipher conf) (oa_random_access A) ''encrypt access token'' (ot_AccessToken token)) (\<lambda>accessEnc.
                 bindE (encrypted (oc_cipher conf) (oa_random_refresh A) ''encrypt refresh token'' (ot_RefreshToken token)) (\<lambda>refreshEnc.
                 account_Upsert (oa_next_id A) (callback_account conf userID info token accessEnc refreshEnc)))))))"

subsection \<open>What a callback leaves behind\<close>

lemma encrypted_Ok: "encrypted G random msg p v = (Ok c, v') \<Longrightarrow> Encrypt G random p = Some c \<and> v' = v"
  by (auto simp: encrypted_def fail_def ret_def split: option.splits)

lemma fetchUserInfo_Ok:
  "fetchUserInfo reply v = (Ok info, v') \<Longrightarrow> ui_ID info \<noteq> [] \<and> v' = v \<and> (\<exists>status body. reply = UserInfoReply status body (Inr info) \<and> status < 300)"
  by (auto simp: fetchUserInfo_def fail_def ret_def split: user_info_reply.splits sum.splits if_splits)

lemma in_core_tables: "in_core m v = (r, v') \<Longrightarrow>
    accounts v' = accounts v \<and> bindings v' = bindings v \<and> outbox v' = outbox v"
  by (auto simp: in_core_def)

text \<open>
  After an upsert the user has the account with the tokens it was given, and an empty refresh token
  is the only one that does not replace the stored one.  No account of another user changes.
\<close>

definition stored_account :: "google_account \<Rightarrow> google_account \<Rightarrow> bool" where
  "stored_account a x \<longleftrightarrow> same_account a x \<and> ga_Email x = ga_Email a \<and> ga_AccessTokenEnc x = ga_AccessTokenEnc a \<and>
     (ga_RefreshTokenEnc a \<noteq> [] \<longrightarrow> ga_RefreshTokenEnc x = ga_RefreshTokenEnc a) \<and>
     ga_TokenExpiry x = ga_TokenExpiry a \<and> ga_RevokedAt x = None"

lemma filter_map_same:
  "(\<And>y. y \<in> set xs \<Longrightarrow> P y \<Longrightarrow> f y = y) \<Longrightarrow> (\<And>y. y \<in> set xs \<Longrightarrow> P (f y) = P y) \<Longrightarrow> filter P (map f xs) = filter P xs"
  by (induction xs) auto

lemma account_Upsert_Ok:
  assumes run: "account_Upsert serial a v = (Ok b, v')"
  shows "(\<exists>x \<in> set (accounts v'). stored_account a x) \<and>
    filter (\<lambda>x. ga_UserID x \<noteq> ga_UserID a) (accounts v') = filter (\<lambda>x. ga_UserID x \<noteq> ga_UserID a) (accounts v) \<and>
    ga_UserID b = ga_UserID a \<and> ga_AccessTokenEnc b = ga_AccessTokenEnc a \<and> ga_RefreshTokenEnc b = ga_RefreshTokenEnc a"
proof -
  from run obtain now v1 where clk: "cal_now v = (Ok now, v1)" and rest:
    "bindE (cal_external ''failed to upsert google account'') (\<lambda>_ v.
       case find (same_account a) (accounts v) of
         Some x \<Rightarrow>
           (Ok (a\<lparr>ga_ID := ga_ID x, ga_CreatedAt := ga_CreatedAt x, ga_UpdatedAt := now\<rparr>),
            v\<lparr>accounts := map (\<lambda>y. if same_account a y then reconnected a now y else y) (accounts v)\<rparr>)
       | None \<Rightarrow>
           (let new = a\<lparr>ga_ID := serial, ga_RevokedAt := None, ga_CreatedAt := now, ga_UpdatedAt := now\<rparr> in
            (Ok (a\<lparr>ga_ID := serial, ga_CreatedAt := now, ga_UpdatedAt := now\<rparr>),
             v\<lparr>accounts := accounts v @ [new]\<rparr>))) v1 = (Ok b, v')"
    unfolding account_Upsert_def by (rule bindE_OkE)
  have 1: "accounts v1 = accounts v" using in_core_tables [OF clk] by simp
  from rest obtain v2 where ext: "cal_external ''failed to upsert google account'' v1 = (Ok (), v2)" and end_:
    "(case find (same_account a) (accounts v2) of
         Some x \<Rightarrow>
           (Ok (a\<lparr>ga_ID := ga_ID x, ga_CreatedAt := ga_CreatedAt x, ga_UpdatedAt := now\<rparr>),
            v2\<lparr>accounts := map (\<lambda>y. if same_account a y then reconnected a now y else y) (accounts v2)\<rparr>)
       | None \<Rightarrow>
           (let new = a\<lparr>ga_ID := serial, ga_RevokedAt := None, ga_CreatedAt := now, ga_UpdatedAt := now\<rparr> in
            (Ok (a\<lparr>ga_ID := serial, ga_CreatedAt := now, ga_UpdatedAt := now\<rparr>),
             v2\<lparr>accounts := accounts v2 @ [new]\<rparr>))) = (Ok b, v')"
    by (rule bindE_OkE) auto
  have 2: "accounts v2 = accounts v" using in_core_tables [OF ext] 1 by simp
  show ?thesis
  proof (cases "find (same_account a) (accounts v)")
    case None
    let ?new = "a\<lparr>ga_ID := serial, ga_RevokedAt := None, ga_CreatedAt := now, ga_UpdatedAt := now\<rparr>"
    have v': "accounts v' = accounts v @ [?new]"
      and b: "b = a\<lparr>ga_ID := serial, ga_CreatedAt := now, ga_UpdatedAt := now\<rparr>"
      using end_ None 2 by (auto simp: Let_def)
    have "stored_account a ?new" by (simp add: stored_account_def same_account_def)
    then show ?thesis unfolding v' b by simp
  next
    case (Some x)
    then have x: "x \<in> set (accounts v)" "same_account a x" by (auto simp: find_Some_iff)
    have v': "accounts v' = map (\<lambda>y. if same_account a y then reconnected a now y else y) (accounts v)"
      and b: "b = a\<lparr>ga_ID := ga_ID x, ga_CreatedAt := ga_CreatedAt x, ga_UpdatedAt := now\<rparr>"
      using end_ Some 2 by auto
    have "stored_account a (reconnected a now x)"
      using x(2) by (simp add: stored_account_def same_account_def reconnected_def)
    moreover have "reconnected a now x \<in> set (accounts v')" unfolding v' using x by (force simp: image_iff)
    moreover have "filter (\<lambda>x. ga_UserID x \<noteq> ga_UserID a) (accounts v') = filter (\<lambda>x. ga_UserID x \<noteq> ga_UserID a) (accounts v)"
      unfolding v' by (rule filter_map_same) (auto simp: same_account_def reconnected_def)
    ultimately show ?thesis unfolding b by auto
  qed
qed

lemma HandleOAuthCallback_Ok:
  assumes run: "HandleOAuthCallback conf A state v = (Ok b, v')" and laws: "gcm_laws (oc_cipher conf)"
  obtains userID token info where "atoi state = Some userID" "0 < userID" "oa_exchange A = Inr token"
    "ga_UserID b = userID"
    "Decrypt (oc_cipher conf) (ga_AccessTokenEnc b) = Some (ot_AccessToken token)"
    "Decrypt (oc_cipher conf) (ga_RefreshTokenEnc b) = Some (ot_RefreshToken token)"
    "\<exists>x \<in> set (accounts v'). ga_UserID x = userID \<and> ga_RevokedAt x = None \<and>
       ga_AccessTokenEnc x = ga_AccessTokenEnc b \<and> ga_RefreshTokenEnc x = ga_RefreshTokenEnc b"
    "filter (\<lambda>x. ga_UserID x \<noteq> userID) (accounts v') = filter (\<lambda>x. ga_UserID x \<noteq> userID) (accounts v)"
proof -
  from run obtain userID token where state: "atoi state = Some userID" "0 < userID" and token: "oa_exchange A = Inr token"
    by (auto simp: HandleOAuthCallback_def fail_def bindE_def split: option.splits if_splits sum.splits prod.splits outcome.splits)
  let ?rest = "bindE (fetchUserInfo (oa_userinfo A)) (\<lambda>info.
       bindE (encrypted (oc_cipher conf) (oa_random_access A) ''encrypt access token'' (ot_AccessToken token)) (\<lambda>accessEnc.
       bindE (encrypted (oc_cipher conf) (oa_random_refresh A) ''encrypt refresh token'' (ot_RefreshToken token)) (\<lambda>refreshEnc.
       account_Upsert (oa_next_id A) (callback_account conf userID info token accessEnc refreshEnc))))"
  have "bindE (map_err not_found_to_unprocessable (in_core (GetUserByID userID))) (\<lambda>_. ?rest) v = (Ok b, v')"
    using run state token by (simp add: HandleOAuthCallback_def)
  then obtain u v1 where user: "map_err not_found_to_unprocessable (in_core (GetUserByID userID)) v = (Ok u, v1)"
    and "?rest v1 = (Ok b, v')" by (rule bindE_OkE)
  then obtain info accessEnc refreshEnc where
    enc: "Encrypt (oc_cipher conf) (oa_random_access A) (ot_AccessToken token) = Some accessEnc"
      "Encrypt (oc_cipher conf) (oa_random_refresh A) (ot_RefreshToken token) = Some refreshEnc" and
    up: "account_Upsert (oa_next_id A) (callback_account conf userID info token accessEnc refreshEnc) v1 = (Ok b, v')"
    by (auto elim!: bindE_OkE dest!: fetchUserInfo_Ok encrypted_Ok)
  let ?a = "callback_account conf userID info token accessEnc refreshEnc"
  have a: "ga_UserID ?a = userID" "ga_AccessTokenEnc ?a = accessEnc" "ga_RefreshTokenEnc ?a = refreshEnc"
    by (simp_all add: callback_account_def)
  have refresh: "ga_RefreshTokenEnc ?a \<noteq> []" using Encrypt_not_Nil [OF laws enc(2)] a by simp
  note stored = account_Upsert_Ok [OF up, unfolded a]
  have "accounts v1 = accounts v" using in_core_tables [OF map_err_OkD [OF user]] by simp
  moreover obtain x where "x \<in> set (accounts v')" "stored_account ?a x" using stored by blast
  ultimately show ?thesis
    using that [OF state token] stored enc Decrypt_Encrypt [OF laws] refresh a
    by (auto simp: stored_account_def same_account_def)
qed

end
