(* ===== verification/App_Ics.thy ===== *)
theory App_Ics
  imports App_Digests Task_Create
begin

text \<open>
  The one-shot import of an .ics file: \<open>pkg/ics/parse.go\<close> and \<open>ics_import_service.go\<close>.

  The library that reads the file is not part of the program: a calendar is what it returns, an error
  or the to-dos and events in order, each event with the properties the code asks for and the
  results of \<open>GetStartAt\<close> and \<open>GetEndAt\<close>.  An instant comes with the offset of its zone, which the
  code uses once, to take the calendar day of an all-day event.
\<close>

subsection \<open>What the library returns\<close>

record ical_property =
  ip_Value :: string
  ip_Parameters :: "(string \<times> string list) list"

record vevent =
  ve_UniqueId :: "ical_property option"
  ve_DtStart :: "ical_property option"
  ve_DtEnd :: "ical_property option"
  ve_Summary :: "ical_property option"
  ve_Description :: "ical_property option"
  ve_Rrules :: "ical_property list"
  ve_StartAt :: "string + time \<times> int"
  ve_EndAt :: "string + time \<times> int"

record vcalendar =
  vc_Todos :: nat
  vc_Events :: "vevent list"

subsection \<open>Reading an event\<close>

record ics_event =
  ie_UID :: string
  ie_Summary :: string
  ie_Description :: string
  ie_Start :: time
  ie_End :: "time option"
  ie_AllDay :: bool
  ie_Recurrence :: "string list"

record ics_error =
  ix_Index :: nat
  ix_UID :: string
  ix_Message :: string

definition isAllDayDTStart :: "vevent \<Rightarrow> bool" where
  "isAllDayDTStart ev =
     (case ve_DtStart ev of
        None \<Rightarrow> False
      | Some p \<Rightarrow>
          list_ex (\<lambda>(k, vals). equal_fold k ''VALUE'' \<and> list_ex (\<lambda>v. equal_fold v ''DATE'') vals) (ip_Parameters p) \<or>
          (let val = trim_space (ip_Value p) in length val = 8 \<and> \<not> contains_any ''T:'' val))"

text \<open>\<open>time.ParseInLocation("20060102", s, time.UTC)\<close> for eight characters.\<close>

definition parse_day :: "string \<Rightarrow> time option" where
  "parse_day s =
     (if \<not> list_all is_digit s then None
      else (let y = int (digits_value (take 4 s)); m = int (digits_value (take 2 (drop 4 s)));
                d = int (digits_value (drop 6 s)) in
        if 1 \<le> m \<and> m \<le> 12 \<and> 1 \<le> d \<and> d \<le> month_lengths (is_leap y) ! nat (m - 1)
        then Some (Date y m d 0 0 0) else None))"

definition allDayDateUTC :: "ical_property option \<Rightarrow> time option" where
  "allDayDateUTC prop =
     (case prop of
        None \<Rightarrow> None
      | Some p \<Rightarrow>
          (let val = trim_space (ip_Value p) in
           if length val < 8 then None else parse_day (take 8 val)))"

text \<open>The day of an instant in its own zone, at midnight UTC.\<close>

definition pinned_day :: "time \<times> int \<Rightarrow> time" where
  "pinned_day at = (let t = fst at + snd at in Date (Year t) (Month t) (Day t) 0 0 0)"

definition event_start :: "vevent \<Rightarrow> string + time" where
  "event_start ev =
     (if isAllDayDTStart ev then
        (case allDayDateUTC (ve_DtStart ev) of
           Some t \<Rightarrow> Inr t
         | None \<Rightarrow> (case ve_StartAt ev of Inl m \<Rightarrow> Inl (''DTSTART: '' @ m) | Inr at \<Rightarrow> Inr (pinned_day at)))
      else (case ve_StartAt ev of Inl m \<Rightarrow> Inl (''DTSTART: '' @ m) | Inr at \<Rightarrow> Inr (fst at)))"

definition event_end :: "vevent \<Rightarrow> time option" where
  "event_end ev =
     (if isAllDayDTStart ev then allDayDateUTC (ve_DtEnd ev)
      else (case ve_EndAt ev of Inl _ \<Rightarrow> None | Inr at \<Rightarrow> Some (fst at)))"

definition value_of :: "ical_property option \<Rightarrow> string" where
  "value_of p = (case p of None \<Rightarrow> [] | Some x \<Rightarrow> ip_Value x)"

text \<open>The first rule that is not blank.\<close>

fun first_rrule :: "ical_property list \<Rightarrow> string list" where
  "first_rrule [] = []"
| "first_rrule (p # ps) =
     (let val = trim_space (ip_Value p) in
      if val = [] then first_rrule ps
      else if prefix ''RRULE:'' (to_upper val) then [val]
      else [''RRULE:'' @ val])"

definition mapVEvent :: "nat \<Rightarrow> vevent \<Rightarrow> ics_error + ics_event" where
  "mapVEvent index ev =
     (let uid = trim_space (value_of (ve_UniqueId ev)) in
      case event_start ev of
        Inl m \<Rightarrow> Inl \<lparr>ix_Index = index, ix_UID = uid, ix_Message = m\<rparr>
      | Inr start \<Rightarrow>
          Inr \<lparr>ie_UID = uid, ie_Summary = value_of (ve_Summary ev),
               ie_Description = value_of (ve_Description ev), ie_Start = start, ie_End = event_end ev,
               ie_AllDay = isAllDayDTStart ev, ie_Recurrence = first_rrule (ve_Rrules ev)\<rparr>)"

record parse_result =
  pr_Events :: "ics_event list"
  pr_SkippedTODO :: nat
  pr_Errors :: "ics_error list"

fun map_events :: "nat \<Rightarrow> vevent list \<Rightarrow> ics_event list \<times> ics_error list" where
  "map_events i [] = ([], [])"
| "map_events i (ev # evs) =
     (let (es, xs) = map_events (Suc i) evs in
      case mapVEvent i ev of Inl x \<Rightarrow> (es, x # xs) | Inr e \<Rightarrow> (e # es, xs))"

definition ics_Parse :: "string + vcalendar \<Rightarrow> string + parse_result" where
  "ics_Parse file =
     (case file of
        Inl m \<Rightarrow> Inl (''parse calendar: '' @ m)
      | Inr c \<Rightarrow>
          (let (es, xs) = map_events 0 (vc_Events c) in
           Inr \<lparr>pr_Events = es, pr_SkippedTODO = vc_Todos c, pr_Errors = xs\<rparr>))"

subsection \<open>The import\<close>

definition pad_number :: "nat \<Rightarrow> int \<Rightarrow> string" where
  "pad_number n i = (let s = nat_text (nat i) in replicate (n - length s) (CHR ''0'') @ s)"

text \<open>\<open>t.Format("2006-01-02")\<close>, for a year that is not negative.\<close>

definition format_date :: "time \<Rightarrow> string" where
  "format_date t = pad_number 4 (Year t) @ ''-'' @ pad_number 2 (Month t) @ ''-'' @ pad_number 2 (Day t)"

definition google_date_time :: "bool \<Rightarrow> time \<Rightarrow> event_date_time" where
  "google_date_time allDay t =
     (if allDay then \<lparr>dt_DateTime = None, dt_Date = format_date t, dt_TimeZone = []\<rparr>
      else \<lparr>dt_DateTime = Some t, dt_Date = [], dt_TimeZone = ''UTC''\<rparr>)"

definition icsEventToGoogle :: "ics_event \<Rightarrow> event" where
  "icsEventToGoogle ev =
     \<lparr>e_ID = ie_UID ev, e_Summary = ie_Summary ev, e_Description = ie_Description ev,
      e_Start = google_date_time (ie_AllDay ev) (ie_Start ev),
      e_End = (case ie_End ev of
                 None \<Rightarrow> \<lparr>dt_DateTime = None, dt_Date = [], dt_TimeZone = []\<rparr>
               | Some t \<Rightarrow> google_date_time (ie_AllDay ev) t),
      e_Status = [], e_ETag = [], e_Updated = 0, e_Recurrence = ie_Recurrence ev,
      e_ExtendedProperties = None\<rparr>"

record ics_options =
  io_UserID :: int
  io_GroupID :: "int option"
  io_MessengerRelatedUserID :: "int option"

record ics_result =
  im_CreatedTaskIDs :: "int list"
  im_SkippedTODO :: nat
  im_Errors :: "ics_error list"

definition TaskHistorySourceICSImport :: string where "TaskHistorySourceICSImport = ''ics_import''"

definition check_group :: "ics_options \<Rightarrow> unit aop" where
  "check_group opts =
     (case io_GroupID opts of
        None \<Rightarrow> ret ()
      | Some i \<Rightarrow>
          bindE (map_err (\<lambda>e. if is_not_found e then ErrUnprocessableEntity ''group_id not found'' else e)
                   (repo_GetTaskGroupByID i)) (\<lambda>g.
          if gr_UserID g \<noteq> io_UserID opts
          then fail (ErrValidation ''group_id does not belong to user'') else ret ()))"

definition check_import_chat :: "ics_options \<Rightarrow> unit aop" where
  "check_import_chat opts =
     (case io_MessengerRelatedUserID opts of
        None \<Rightarrow> ret ()
      | Some i \<Rightarrow>
          bindE (missing_is_unprocessable (in_task (GetMessengerRelatedUserByID i))) (\<lambda>m.
          if mru_UserID m \<noteq> Some (io_UserID opts)
          then fail (ErrValidation ''messenger_related_user_id does not belong to user'') else ret ()))"

definition imported_task :: "task \<Rightarrow> task" where
  "imported_task t = t\<lparr>RequiresConfirmation := False, HistorySource := TaskHistorySourceICSImport\<rparr>"

definition item_failed :: "nat \<Rightarrow> ics_event \<Rightarrow> err \<Rightarrow> ics_result \<Rightarrow> ics_result" where
  "item_failed i ev e res =
     res\<lparr>im_Errors := im_Errors res @ [\<lparr>ix_Index = i, ix_UID = ie_UID ev, ix_Message = error_text e\<rparr>]\<rparr>"

definition import_event :: "env \<Rightarrow> ics_options \<Rightarrow> nat \<times> ics_event \<Rightarrow> ics_result \<Rightarrow> ics_result aop" where
  "import_event S opts = (\<lambda>(i, ev) res.
     bindE (attempt (in_task (MapEventToTaskFields (lib S) (icsEventToGoogle ev) (io_UserID opts)
              (io_GroupID opts) (io_MessengerRelatedUserID opts)))) (\<lambda>r.
     case r of
       Inl e \<Rightarrow> ret (item_failed i ev e res)
     | Inr mapped \<Rightarrow>
         (let t = imported_task mapped in
          bindE (attempt (in_task (CreateTask S t))) (\<lambda>c.
          case c of
            Inl e \<Rightarrow> ret (item_failed i ev e res)
          | Inr (taskID, _) \<Rightarrow>
              bindE (best_effort (in_task (PublishImportedTaskSchedule S (Some (t\<lparr>ID := taskID\<rparr>))))) (\<lambda>_.
              ret (res\<lparr>im_CreatedTaskIDs := im_CreatedTaskIDs res @ [taskID]\<rparr>))))))"

definition ics_Import :: "env \<Rightarrow> string + vcalendar \<Rightarrow> ics_options \<Rightarrow> ics_result aop" where
  "ics_Import S file opts =
     (if io_UserID opts \<le> 0 then fail (ErrValidation ''user_id is required'')
      else bindE (check_user (io_UserID opts)) (\<lambda>_.
        bindE (check_group opts) (\<lambda>_.
        bindE (check_import_chat opts) (\<lambda>_.
        case ics_Parse file of
          Inl m \<Rightarrow> fail (ErrValidation (''invalid ics: '' @ m))
        | Inr parsed \<Rightarrow>
            fold_op (import_event S opts) (List.enumerate 0 (pr_Events parsed))
              \<lparr>im_CreatedTaskIDs = [], im_SkippedTODO = pr_SkippedTODO parsed,
               im_Errors = pr_Errors parsed\<rparr>))))"

end
