(* ===== verification/Attachments_Client.thy ===== *)
theory Attachments_Client
  imports Models
begin

text \<open>
  \<open>pkg/attachments\<close>: the client of the attachment service, as the handlers see it (\<open>att_client\<close>), the
  client that is used when attachments are switched off, and the one that calls the service by gRPC.

  The generated gRPC stub is what it answers (\<open>grpc_api\<close>), a function of the request; a deadline shows
  as an error of the stub.  A pointer to an attachment is an option.  The two purging calls are calls
  that leave the process in \<open>World\<close> and \<open>App_Accounts\<close>.
\<close>

subsection \<open>Errors\<close>

text \<open>A sentinel of \<open>errors.go\<close> with the text it was wrapped with.\<close>

datatype att_error =
    AttDisabled
  | AttUnavailable string
  | AttNotFound
  | AttValidation string
  | AttConflict string
  | AttPayloadTooLarge string

fun att_error_text :: "att_error \<Rightarrow> string" where
  "att_error_text AttDisabled = ''attachments disabled''"
| "att_error_text (AttUnavailable m) = m @ '': attachments service unavailable''"
| "att_error_text AttNotFound = ''attachment not found''"
| "att_error_text (AttValidation m) = m @ '': validation failed''"
| "att_error_text (AttConflict m) = m @ '': conflict''"
| "att_error_text (AttPayloadTooLarge m) = m @ '': payload too large''"

subsection \<open>The interface\<close>

record attachment =
  at_ID :: string
  at_TaskID :: int
  at_UserID :: int
  at_OriginalName :: string
  at_ContentType :: string
  at_SizeBytes :: int
  at_Status :: string
  at_CreatedAt :: time

record upload_direct_input =
  ud_TaskID :: int
  ud_UserID :: int
  ud_OriginalName :: string
  ud_ContentType :: string
  ud_Data :: string
  ud_IdempotencyKey :: string

record init_upload_input =
  iu_TaskID :: int
  iu_UserID :: int
  iu_OriginalName :: string
  iu_ContentType :: string
  iu_SizeBytes :: int
  iu_IdempotencyKey :: string

record init_upload_result =
  ir_AttachmentID :: string
  ir_UploadTaskID :: int
  ir_Status :: string
  ir_UploadURL :: string
  ir_ExpiresAt :: time
  ir_RequiredHeaders :: "(string \<times> string) list"

record download_url =
  du_DownloadURL :: string
  du_ExpiresAt :: time

record download_direct_result =
  dl_Data :: string
  dl_ContentType :: string
  dl_OriginalName :: string
  dl_SizeBytes :: int

record att_client =
  InitUpload :: "init_upload_input \<Rightarrow> att_error + init_upload_result"
  UploadDirect :: "upload_direct_input \<Rightarrow> att_error + attachment option"
  CompleteUpload :: "int \<Rightarrow> string \<Rightarrow> att_error + attachment option"
  ListAttachments :: "int \<Rightarrow> att_error + attachment list"
  GetDownloadURL :: "int \<Rightarrow> string \<Rightarrow> att_error + download_url"
  DownloadDirect :: "int \<Rightarrow> string \<Rightarrow> att_error + download_direct_result"
  DeleteAttachment :: "int \<Rightarrow> string \<Rightarrow> att_error option"

definition noopClient :: att_client where
  "noopClient = \<lparr>InitUpload = (\<lambda>_. Inl AttDisabled), UploadDirect = (\<lambda>_. Inl AttDisabled),
     CompleteUpload = (\<lambda>_ _. Inl AttDisabled), ListAttachments = (\<lambda>_. Inl AttDisabled),
     GetDownloadURL = (\<lambda>_ _. Inl AttDisabled), DownloadDirect = (\<lambda>_ _. Inl AttDisabled),
     DeleteAttachment = (\<lambda>_ _. Some AttDisabled)\<rparr>"

subsection \<open>gRPC\<close>

datatype grpc_code = GNotFound | GInvalidArgument | GFailedPrecondition | GResourceExhausted | GUnavailable
  | GDeadlineExceeded | GOtherCode

datatype grpc_error = GrpcStatus grpc_code string | NoStatus string

fun mapGRPCError :: "grpc_error \<Rightarrow> att_error" where
  "mapGRPCError (NoStatus m) = AttUnavailable m"
| "mapGRPCError (GrpcStatus code m) =
     (case code of
        GNotFound \<Rightarrow> AttNotFound
      | GInvalidArgument \<Rightarrow> AttValidation m
      | GFailedPrecondition \<Rightarrow> AttConflict m
      | GResourceExhausted \<Rightarrow> AttPayloadTooLarge m
      | GUnavailable \<Rightarrow> AttUnavailable m
      | GDeadlineExceeded \<Rightarrow> AttUnavailable m
      | GOtherCode \<Rightarrow> AttUnavailable m)"

record proto_attachment =
  pa_Id :: string
  pa_TaskId :: int
  pa_UserId :: int
  pa_OriginalName :: string
  pa_ContentType :: string
  pa_SizeBytes :: int
  pa_Status :: string
  pa_CreatedAt :: "time option"

text \<open>A missing timestamp is the zero time.\<close>

definition as_time :: "time option \<Rightarrow> time" where
  "as_time t = (case t of None \<Rightarrow> 0 | Some x \<Rightarrow> x)"

definition protoToAttachment :: "proto_attachment option \<Rightarrow> attachment option" where
  "protoToAttachment a =
     (case a of
        None \<Rightarrow> None
      | Some p \<Rightarrow> Some \<lparr>at_ID = pa_Id p, at_TaskID = pa_TaskId p, at_UserID = pa_UserId p,
          at_OriginalName = pa_OriginalName p, at_ContentType = pa_ContentType p, at_SizeBytes = pa_SizeBytes p,
          at_Status = pa_Status p, at_CreatedAt = as_time (pa_CreatedAt p)\<rparr>)"

record init_upload_reply =
  iy_AttachmentId :: string
  iy_TaskId :: int
  iy_Status :: string
  iy_UploadUrl :: string
  iy_ExpiresAt :: "time option"
  iy_RequiredHeaders :: "(string \<times> string) list"

record grpc_api =
  api_InitUpload :: "init_upload_input \<Rightarrow> grpc_error + init_upload_reply"
  api_UploadDirect :: "upload_direct_input \<Rightarrow> grpc_error + proto_attachment option"
  api_CompleteUpload :: "int \<Rightarrow> string \<Rightarrow> grpc_error + proto_attachment option"
  api_ListAttachments :: "int \<Rightarrow> grpc_error + proto_attachment option list"
  api_GetDownloadURL :: "int \<Rightarrow> string \<Rightarrow> grpc_error + (string \<times> time option)"
  api_DownloadDirect :: "int \<Rightarrow> string \<Rightarrow> grpc_error + download_direct_result"
  api_DeleteAttachment :: "int \<Rightarrow> string \<Rightarrow> grpc_error option"

definition grpc_result :: "('a \<Rightarrow> 'b) \<Rightarrow> grpc_error + 'a \<Rightarrow> att_error + 'b" where
  "grpc_result f r = (case r of Inl e \<Rightarrow> Inl (mapGRPCError e) | Inr x \<Rightarrow> Inr (f x))"

definition grpc_InitUpload :: "grpc_api \<Rightarrow> init_upload_input \<Rightarrow> att_error + init_upload_result" where
  "grpc_InitUpload A req =
     grpc_result (\<lambda>r. \<lparr>ir_AttachmentID = iy_AttachmentId r, ir_UploadTaskID = iy_TaskId r,
       ir_Status = iy_Status r, ir_UploadURL = iy_UploadUrl r, ir_ExpiresAt = as_time (iy_ExpiresAt r),
       ir_RequiredHeaders = iy_RequiredHeaders r\<rparr>) (api_InitUpload A req)"

definition grpc_UploadDirect :: "grpc_api \<Rightarrow> upload_direct_input \<Rightarrow> att_error + attachment option" where
  "grpc_UploadDirect A req = grpc_result protoToAttachment (api_UploadDirect A req)"

definition grpc_CompleteUpload :: "grpc_api \<Rightarrow> int \<Rightarrow> string \<Rightarrow> att_error + attachment option" where
  "grpc_CompleteUpload A taskID attachmentID =
     grpc_result protoToAttachment (api_CompleteUpload A taskID attachmentID)"

definition grpc_ListAttachments :: "grpc_api \<Rightarrow> int \<Rightarrow> att_error + attachment list" where
  "grpc_ListAttachments A taskID =
     grpc_result (List.map_filter protoToAttachment) (api_ListAttachments A taskID)"

definition grpc_GetDownloadURL :: "grpc_api \<Rightarrow> int \<Rightarrow> string \<Rightarrow> att_error + download_url" where
  "grpc_GetDownloadURL A taskID attachmentID =
     grpc_result (\<lambda>(url, t). \<lparr>du_DownloadURL = url, du_ExpiresAt = as_time t\<rparr>)
       (api_GetDownloadURL A taskID attachmentID)"

definition grpc_DownloadDirect :: "grpc_api \<Rightarrow> int \<Rightarrow> string \<Rightarrow> att_error + download_direct_result" where
  "grpc_DownloadDirect A taskID attachmentID = grpc_result id (api_DownloadDirect A taskID attachmentID)"

definition grpc_DeleteAttachment :: "grpc_api \<Rightarrow> int \<Rightarrow> string \<Rightarrow> att_error option" where
  "grpc_DeleteAttachment A taskID attachmentID =
     map_option mapGRPCError (api_DeleteAttachment A taskID attachmentID)"

definition grpcClient :: "grpc_api \<Rightarrow> att_client" where
  "grpcClient A = \<lparr>InitUpload = grpc_InitUpload A, UploadDirect = grpc_UploadDirect A,
     CompleteUpload = grpc_CompleteUpload A, ListAttachments = grpc_ListAttachments A,
     GetDownloadURL = grpc_GetDownloadURL A, DownloadDirect = grpc_DownloadDirect A,
     DeleteAttachment = grpc_DeleteAttachment A\<rparr>"

end
