(* ===== verification/Http_Replies.thy ===== *)
theory Http_Replies
  imports Http_Forms Calendar_OAuth App_Ics Attachments_Client
begin

text \<open>
  What a request is answered with: the response structs of \<open>internal/api/dto\<close>, the mappers that fill
  them (\<open>internal/api/dto/mapper\<close>), and the two shapes every handler is made of.  \<open>checked\<close> answers a
  value that did not pass its validator with 400 and goes on otherwise; \<open>answer\<close> calls a service and
  turns its error into a status.

  A reply is a status and a body.  A handler is an operation on the state of the application that never
  returns an error: it ends with a reply, or panics with the service it calls.
\<close>

subsection \<open>Tasks\<close>

record task_external_response =
  ex_Provider :: string
  ex_CalendarID :: string
  ex_EventID :: string
  ex_Origin :: string
  ex_SyncEnabled :: bool
  ex_ExportOptIn :: bool
  ex_LastSyncedAt :: "time option"
  ex_LastError :: "string option"
  ex_CalendarBindingID :: "int option"

definition TaskSyncLinkToExternalResponse :: "task_sync_link \<Rightarrow> task_external_response" where
  "TaskSyncLinkToExternalResponse l =
     \<lparr>ex_Provider = l_Provider l, ex_CalendarID = l_GoogleCalendarID l, ex_EventID = l_GoogleEventID l,
      ex_Origin = l_Origin l, ex_SyncEnabled = l_SyncEnabled l, ex_ExportOptIn = l_ExportOptIn l,
      ex_LastSyncedAt = l_LastSyncedAt l, ex_LastError = l_LastError l,
      ex_CalendarBindingID = l_CalendarBindingID l\<rparr>"

record task_response =
  tr_ID :: int
  tr_Title :: string
  tr_Description :: string
  tr_UserID :: int
  tr_MessengerRelatedUserID :: "int option"
  tr_ParentID :: "int option"
  tr_GroupID :: "int option"
  tr_StartDate :: time
  tr_FinishDate :: "time option"
  tr_CronExpression :: "string option"
  tr_RRule :: "string option"
  tr_RequiresConfirmation :: bool
  tr_Muted :: bool
  tr_ShiftFromCompletion :: bool
  tr_SkipDigest :: bool
  tr_PreRemindBeforeSeconds :: "int option"
  tr_Status :: string
  tr_CreatedAt :: time
  tr_External :: "task_external_response option"

definition TaskModelToResponse :: "task \<Rightarrow> task_response" where
  "TaskModelToResponse t =
     \<lparr>tr_ID = ID t, tr_Title = Title t, tr_Description = Description t, tr_UserID = UserID t,
      tr_MessengerRelatedUserID = MessengerRelatedUserID t, tr_ParentID = ParentID t, tr_GroupID = GroupID t,
      tr_StartDate = StartDate t, tr_FinishDate = FinishDate t, tr_CronExpression = CronExpression t,
      tr_RRule = RRule t, tr_RequiresConfirmation = RequiresConfirmation t, tr_Muted = Muted t,
      tr_ShiftFromCompletion = ShiftFromCompletion t, tr_SkipDigest = SkipDigest t,
      tr_PreRemindBeforeSeconds = PreRemindBeforeSeconds t, tr_Status = Status t,
      tr_CreatedAt = CreatedAt t, tr_External = None\<rparr>"

definition TasksModelToResponse :: "task list \<Rightarrow> task_response list" where
  "TasksModelToResponse ts = map TaskModelToResponse ts"

record task_marked_done_response =
  td_ID :: int
  td_Title :: string
  td_Description :: string
  td_UserID :: int
  td_MessengerRelatedUserID :: "int option"
  td_ParentID :: "int option"
  td_GroupID :: "int option"
  td_StartDate :: time
  td_FinishDate :: "time option"
  td_CronExpression :: "string option"
  td_RRule :: "string option"
  td_RequiresConfirmation :: bool
  td_Muted :: bool
  td_ShiftFromCompletion :: bool
  td_SkipDigest :: bool
  td_PreRemindBeforeSeconds :: "int option"
  td_CreatedAt :: time

definition TaskModelToMarkedDoneResponse :: "task \<Rightarrow> task_marked_done_response" where
  "TaskModelToMarkedDoneResponse t =
     \<lparr>td_ID = ID t, td_Title = Title t, td_Description = Description t, td_UserID = UserID t,
      td_MessengerRelatedUserID = MessengerRelatedUserID t, td_ParentID = ParentID t, td_GroupID = GroupID t,
      td_StartDate = StartDate t, td_FinishDate = FinishDate t, td_CronExpression = CronExpression t,
      td_RRule = RRule t, td_RequiresConfirmation = RequiresConfirmation t, td_Muted = Muted t,
      td_ShiftFromCompletion = ShiftFromCompletion t, td_SkipDigest = SkipDigest t,
      td_PreRemindBeforeSeconds = PreRemindBeforeSeconds t, td_CreatedAt = CreatedAt t\<rparr>"

record attachment_response =
  ar_ID :: string
  ar_TaskID :: int
  ar_OriginalName :: string
  ar_ContentType :: string
  ar_SizeBytes :: int
  ar_Status :: string
  ar_CreatedAt :: time

definition attachment_to_response :: "attachment \<Rightarrow> attachment_response" where
  "attachment_to_response a =
     \<lparr>ar_ID = at_ID a, ar_TaskID = at_TaskID a, ar_OriginalName = at_OriginalName a,
      ar_ContentType = at_ContentType a, ar_SizeBytes = at_SizeBytes a, ar_Status = at_Status a,
      ar_CreatedAt = at_CreatedAt a\<rparr>"

text \<open>An empty list is the nil slice.\<close>

definition AttachmentsToResponse :: "attachment list \<Rightarrow> attachment_response list" where
  "AttachmentsToResponse xs = map attachment_to_response xs"

text \<open>The detailed response has the fields of the short one, and the attachments.\<close>

record task_detail_response =
  tdr_Task :: task_response
  tdr_Attachments :: "attachment_response list"
  tdr_External :: "task_external_response option"

definition TaskModelToDetailResponse :: "task \<Rightarrow> attachment_response list \<Rightarrow> task_detail_response" where
  "TaskModelToDetailResponse t atts =
     \<lparr>tdr_Task = TaskModelToResponse t, tdr_Attachments = atts, tdr_External = None\<rparr>"

record task_history_response =
  hr_ID :: int
  hr_TaskID :: int
  hr_UserID :: int
  hr_Action :: string
  hr_OldValue :: "hmap option"
  hr_NewValue :: "hmap option"
  hr_CreatedAt :: string

definition TaskHistoryModelToResponse :: "task_history \<Rightarrow> task_history_response" where
  "TaskHistoryModelToResponse h =
     \<lparr>hr_ID = h_ID h, hr_TaskID = h_TaskID h, hr_UserID = h_UserID h, hr_Action = h_Action h,
      hr_OldValue = h_OldValue h, hr_NewValue = h_NewValue h, hr_CreatedAt = format_rfc3339 (h_CreatedAt h)\<rparr>"

definition TaskHistoriesModelToResponse :: "task_history list \<Rightarrow> task_history_response list" where
  "TaskHistoriesModelToResponse hs = map TaskHistoryModelToResponse hs"

subsection \<open>Users and messengers\<close>

record user_response =
  usr_ID :: int
  usr_Name :: string
  usr_Email :: string
  usr_Timezone :: "string option"
  usr_LanguageCode :: "string option"
  usr_Role :: "string option"
  usr_CreatedAt :: string
  usr_LastActivityAt :: "string option"

definition UserModelToResponse :: "user \<Rightarrow> user_response" where
  "UserModelToResponse u =
     \<lparr>usr_ID = user_ID u, usr_Name = user_Name u, usr_Email = user_Email u, usr_Timezone = user_Timezone u,
      usr_LanguageCode = user_LanguageCode u, usr_Role = user_Role u,
      usr_CreatedAt = format_rfc3339 (user_CreatedAt u),
      usr_LastActivityAt = map_option format_rfc3339 (user_LastActivityAt u)\<rparr>"

record user_activity_response =
  uar_UserID :: int
  uar_Name :: string
  uar_LastActivityAt :: string

definition UserActivityModelToResponse :: "user_activity \<Rightarrow> user_activity_response" where
  "UserActivityModelToResponse a =
     \<lparr>uar_UserID = ua_UserID a, uar_Name = ua_Name a, uar_LastActivityAt = format_rfc3339 (ua_LastActivityAt a)\<rparr>"

record messenger_response =
  mr_Name :: string
  mr_CreatedAt :: string

definition MessengerModelToResponse :: "messenger \<Rightarrow> messenger_response" where
  "MessengerModelToResponse m = \<lparr>mr_Name = m_Name m, mr_CreatedAt = format_rfc3339 (m_CreatedAt m)\<rparr>"

record chat_response =
  chr_ID :: int
  chr_UserID :: "int option"
  chr_MessengerID :: "int option"
  chr_MessengerUserID :: string
  chr_ChatID :: string
  chr_CreatedAt :: string
  chr_UpdatedAt :: "string option"

definition MessengerRelatedUserModelToResponse :: "messenger_related_user \<Rightarrow> chat_response" where
  "MessengerRelatedUserModelToResponse m =
     \<lparr>chr_ID = mru_ID m, chr_UserID = mru_UserID m, chr_MessengerID = mru_MessengerID m,
      chr_MessengerUserID = mru_MessengerUserID m, chr_ChatID = mru_ChatID m,
      chr_CreatedAt = format_rfc3339 (mru_CreatedAt m),
      chr_UpdatedAt = map_option format_rfc3339 (mru_UpdatedAt m)\<rparr>"

subsection \<open>Backlog items, targets, groups, digests\<close>

record backlog_response =
  br_ID :: int
  br_Title :: string
  br_Description :: string
  br_UserID :: int
  br_MessengerRelatedUserID :: "int option"
  br_CreatedAt :: time
  br_UpdatedAt :: time
  br_CompletedAt :: "time option"

definition BacklogModelToResponse :: "backlog \<Rightarrow> backlog_response" where
  "BacklogModelToResponse b =
     \<lparr>br_ID = bl_ID b, br_Title = bl_Title b, br_Description = bl_Description b, br_UserID = bl_UserID b,
      br_MessengerRelatedUserID = bl_MessengerRelatedUserID b, br_CreatedAt = bl_CreatedAt b,
      br_UpdatedAt = bl_UpdatedAt b, br_CompletedAt = bl_CompletedAt b\<rparr>"

definition BacklogsModelToResponse :: "backlog list \<Rightarrow> backlog_response list" where
  "BacklogsModelToResponse bs = map BacklogModelToResponse bs"

record target_response =
  tgr_ID :: int
  tgr_Title :: string
  tgr_Description :: string
  tgr_UserID :: int
  tgr_MessengerRelatedUserID :: "int option"
  tgr_CreatedAt :: time
  tgr_UpdatedAt :: time
  tgr_CompletedAt :: "time option"

definition TargetModelToResponse :: "target \<Rightarrow> target_response" where
  "TargetModelToResponse t =
     \<lparr>tgr_ID = tg_ID t, tgr_Title = tg_Title t, tgr_Description = tg_Description t, tgr_UserID = tg_UserID t,
      tgr_MessengerRelatedUserID = tg_MessengerRelatedUserID t, tgr_CreatedAt = tg_CreatedAt t,
      tgr_UpdatedAt = tg_UpdatedAt t, tgr_CompletedAt = tg_CompletedAt t\<rparr>"

definition TargetsModelToResponse :: "target list \<Rightarrow> target_response list" where
  "TargetsModelToResponse ts = map TargetModelToResponse ts"

record group_response =
  grr_ID :: int
  grr_UserID :: int
  grr_Name :: string
  grr_CreatedAt :: time
  grr_UpdatedAt :: time

definition TaskGroupModelToResponse :: "task_group \<Rightarrow> group_response" where
  "TaskGroupModelToResponse g =
     \<lparr>grr_ID = gr_ID g, grr_UserID = gr_UserID g, grr_Name = gr_Name g, grr_CreatedAt = gr_CreatedAt g,
      grr_UpdatedAt = gr_UpdatedAt g\<rparr>"

definition TaskGroupsModelToResponse :: "task_group list \<Rightarrow> group_response list" where
  "TaskGroupsModelToResponse gs = map TaskGroupModelToResponse gs"

record digest_settings_response =
  dsr_ID :: int
  dsr_UserID :: int
  dsr_MessengerRelatedUserID :: "int option"
  dsr_Enabled :: bool
  dsr_WeekdayTime :: string
  dsr_WeekendTime :: string
  dsr_CreatedAt :: string
  dsr_UpdatedAt :: string

definition DigestSettingsModelToResponse :: "digest_settings \<Rightarrow> digest_settings_response" where
  "DigestSettingsModelToResponse d =
     \<lparr>dsr_ID = ds_ID d, dsr_UserID = ds_UserID d, dsr_MessengerRelatedUserID = ds_MessengerRelatedUserID d,
      dsr_Enabled = ds_Enabled d, dsr_WeekdayTime = ds_WeekdayTime d, dsr_WeekendTime = ds_WeekendTime d,
      dsr_CreatedAt = format_rfc3339 (ds_CreatedAt d), dsr_UpdatedAt = format_rfc3339 (ds_UpdatedAt d)\<rparr>"

definition DigestSettingsModelsToResponse :: "digest_settings list \<Rightarrow> digest_settings_response list" where
  "DigestSettingsModelsToResponse ds = map DigestSettingsModelToResponse ds"

record digest_dto =
  dd_UserID :: int
  dd_MessengerRelatedUserID :: "int option"
  dd_ChatID :: "string option"
  dd_StartDateFrom :: time
  dd_StartDateTo :: time
  dd_CompletedBacklogsCount :: int
  dd_Tasks :: "task_response list"
  dd_Targets :: "target_response list"
  dd_Timezone :: string

definition DigestServiceResponseToDTO :: "digest_response \<Rightarrow> digest_dto" where
  "DigestServiceResponseToDTO d =
     \<lparr>dd_UserID = dr_UserID d, dd_MessengerRelatedUserID = dr_MessengerRelatedUserID d,
      dd_ChatID = dr_ChatID d, dd_StartDateFrom = dr_StartDateFrom d, dd_StartDateTo = dr_StartDateTo d,
      dd_CompletedBacklogsCount = dr_CompletedBacklogsCount d,
      dd_Tasks = map TaskModelToResponse (dr_Tasks d), dd_Targets = map TargetModelToResponse (dr_Targets d),
      dd_Timezone = dr_Timezone d\<rparr>"

subsection \<open>Calendar\<close>

record google_account_response =
  gar_ID :: int
  gar_UserID :: int
  gar_GoogleSub :: string
  gar_Email :: string
  gar_Scopes :: string
  gar_RevokedAt :: "time option"
  gar_CreatedAt :: time

definition GoogleAccountToResponse :: "google_account \<Rightarrow> google_account_response" where
  "GoogleAccountToResponse a =
     \<lparr>gar_ID = ga_ID a, gar_UserID = ga_UserID a, gar_GoogleSub = ga_GoogleSub a, gar_Email = ga_Email a,
      gar_Scopes = ga_Scopes a, gar_RevokedAt = ga_RevokedAt a, gar_CreatedAt = ga_CreatedAt a\<rparr>"

record binding_response =
  bdr_ID :: int
  bdr_UserID :: int
  bdr_GoogleAccountID :: int
  bdr_GoogleCalendarID :: string
  bdr_CalendarSummary :: "string option"
  bdr_Direction :: string
  bdr_GroupID :: "int option"
  bdr_MessengerRelatedUserID :: "int option"
  bdr_LastSyncedAt :: "time option"
  bdr_LastError :: "string option"
  bdr_Status :: string
  bdr_DeletePolicy :: string
  bdr_SyncAttempts :: int
  bdr_NextRetryAt :: "time option"
  bdr_CreatedAt :: time
  bdr_UpdatedAt :: time

definition CalendarBindingToResponse :: "calendar_binding \<Rightarrow> binding_response" where
  "CalendarBindingToResponse b =
     \<lparr>bdr_ID = cb_ID b, bdr_UserID = cb_UserID b, bdr_GoogleAccountID = cb_GoogleAccountID b,
      bdr_GoogleCalendarID = cb_GoogleCalendarID b, bdr_CalendarSummary = cb_CalendarSummary b,
      bdr_Direction = cb_Direction b, bdr_GroupID = cb_GroupID b,
      bdr_MessengerRelatedUserID = cb_MessengerRelatedUserID b, bdr_LastSyncedAt = cb_LastSyncedAt b,
      bdr_LastError = cb_LastError b, bdr_Status = cb_Status b, bdr_DeletePolicy = cb_DeletePolicy b,
      bdr_SyncAttempts = cb_SyncAttempts b, bdr_NextRetryAt = cb_NextRetryAt b,
      bdr_CreatedAt = cb_CreatedAt b, bdr_UpdatedAt = cb_UpdatedAt b\<rparr>"

definition CalendarBindingsToResponse :: "calendar_binding list \<Rightarrow> binding_response list" where
  "CalendarBindingsToResponse bs = map CalendarBindingToResponse bs"

record calendar_item =
  ci_ID :: string
  ci_Summary :: string
  ci_Primary :: bool

definition GoogleCalendarsToResponse :: "calendar list \<Rightarrow> calendar_item list" where
  "GoogleCalendarsToResponse cs =
     map (\<lambda>c. \<lparr>ci_ID = cal_ID c, ci_Summary = cal_Summary c, ci_Primary = cal_Primary c\<rparr>) cs"

subsection \<open>Replies\<close>

record pagination =
  pg_Page :: int
  pg_PageSize :: int
  pg_TotalPages :: int
  pg_TotalCount :: int

definition page_of :: "int \<Rightarrow> int \<Rightarrow> int \<Rightarrow> pagination" where
  "page_of page pageSize totalCount =
     \<lparr>pg_Page = page, pg_PageSize = pageSize, pg_TotalPages = total_pages totalCount pageSize,
      pg_TotalCount = totalCount\<rparr>"

text \<open>The JSON bodies.  \<open>BError\<close> is \<open>gin.H{"error": ...}\<close>, \<open>BProblem\<close> has a message beside the error.\<close>

datatype (plugins only:) body =
    BNone
  | BError string
  | BProblem string string
  | BId int
  | BUserId int
  | BIds "int list" int
  | BTaskCreated int int
  | BTask task_response
  | BTaskDetail task_detail_response
  | BTaskDone task_marked_done_response
  | BTasks "task_response list" pagination
  | BHistory "task_history_response list"
  | BHistoryModels "task_history list"
  | BInventory "schedulable_inventory_item list" int
  | BUser user_response
  | BUsers "user_response list" pagination
  | BActivity "user_activity_response list"
  | BMessenger messenger_response
  | BMessengers "messenger_response list" pagination
  | BChat chat_response
  | BChats "chat_response list" pagination
  | BBacklog backlog_response
  | BBacklogs "backlog_response list" pagination
  | BTarget target_response
  | BTargets "target_response list" pagination
  | BGroup group_response
  | BGroups "group_response list" pagination
  | BDigestSettings digest_settings_response
  | BAllDigestSettings "digest_settings_response list" pagination
  | BDigest digest_dto
  | BUrl string
  | BAccount google_account_response
  | BCalendars "calendar_item list"
  | BBinding binding_response
  | BBindings "binding_response list"
  | BSyncStatus "binding_response list" int int int
  | BExternal task_external_response
  | BStatus string
  | BNotReady string
  | BImport "int list" nat "ics_error list" int
  | BAttachment attachment_response
  | BAttachments "attachment_response list"
  | BUpload init_upload_result
  | BDownload string time
  | BContent string string string
  | BVersion string

datatype reply = Reply (reply_status: int) (reply_body: body)

type_synonym handler = "reply aop"

definition refused :: "int \<Rightarrow> string \<Rightarrow> reply" where
  "refused status m = Reply status (BError m)"

definition refused_with :: "int \<Rightarrow> err \<Rightarrow> reply" where
  "refused_with status e = refused status (error_text e)"

text \<open>A value that has to pass a validator; \<open>HandleValidationError\<close> answers for the one that fails.\<close>

definition checked :: "string + 'a \<Rightarrow> ('a \<Rightarrow> handler) \<Rightarrow> handler" where
  "checked v k = (case v of Inl m \<Rightarrow> ret (refused 400 m) | Inr x \<Rightarrow> k x)"

definition with_body ::
  "(bind_error \<Rightarrow> string) \<Rightarrow> ('d \<Rightarrow> field_error list aop) \<Rightarrow> 'd json \<Rightarrow> ('d \<Rightarrow> handler) \<Rightarrow> handler" where
  "with_body explain rules body k =
     bindE (bind_json rules body) (\<lambda>r. case r of
         Inl e \<Rightarrow> ret (refused 400 (explain e))
       | Inr d \<Rightarrow> k d)"

text \<open>The call of a service: its error is answered by \<open>on_error\<close>.\<close>

definition answer :: "(err \<Rightarrow> reply) \<Rightarrow> 'a aop \<Rightarrow> ('a \<Rightarrow> handler) \<Rightarrow> handler" where
  "answer on_error m k =
     bindE (attempt m) (\<lambda>r. case r of Inl e \<Rightarrow> ret (on_error e) | Inr x \<Rightarrow> k x)"

definition ok :: "int \<Rightarrow> body \<Rightarrow> handler" where
  "ok status b = ret (Reply status b)"

text \<open>\<open>strconv.ParseInt\<close> or \<open>strconv.Atoi\<close> with a text of the handler for what is no number.\<close>

definition int_or :: "string \<Rightarrow> string \<Rightarrow> string + int" where
  "int_or m s = (case atoi s of None \<Rightarrow> Inl m | Some n \<Rightarrow> Inr n)"

definition opt_int_or :: "string \<Rightarrow> string \<Rightarrow> string + int option" where
  "opt_int_or m s =
     (if s = [] then Inr None else (case atoi s of None \<Rightarrow> Inl m | Some n \<Rightarrow> Inr (Some n)))"

definition positive_or :: "string \<Rightarrow> string \<Rightarrow> string + int" where
  "positive_or m s =
     (case atoi s of None \<Rightarrow> Inl m | Some n \<Rightarrow> (if n \<le> 0 then Inl m else Inr n))"

text \<open>A pointer to a string that is not empty.\<close>

definition filter_text :: "string \<Rightarrow> string option" where
  "filter_text s = (if s = [] then None else Some s)"

text \<open>The parameters all listings read: page, size and order.\<close>

definition with_page :: "http_lib \<Rightarrow> http_request \<Rightarrow> (int \<Rightarrow> int \<Rightarrow> handler) \<Rightarrow> handler" where
  "with_page L c k =
     checked (ValidateInt64Query L c ''page'' 1 1) (\<lambda>page.
     checked (ValidateInt64Query L c ''page_size'' 50 1) (\<lambda>pageSize. k page pageSize))"

definition with_order :: "http_lib \<Rightarrow> http_request \<Rightarrow> (string \<Rightarrow> handler) \<Rightarrow> handler" where
  "with_order L c k =
     checked (ValidateOptionalStringQuery L c ''order_by'') (\<lambda>orderBy.
     k (if orderBy = [] then ''created_at DESC'' else orderBy))"

text \<open>The tables of errors several handlers share.\<close>

definition any_error :: "err \<Rightarrow> reply" where
  "any_error e = refused_with 500 e"

fun create_error :: "err \<Rightarrow> reply" where
  "create_error (ErrValidation m) = refused_with 400 (ErrValidation m)"
| "create_error (ErrUnprocessableEntity m) = refused_with 422 (ErrUnprocessableEntity m)"
| "create_error e = refused_with 500 e"

text \<open>Only a missing row, with a text of the handler.\<close>

fun get_error :: "string \<Rightarrow> err \<Rightarrow> reply" where
  "get_error missing (ErrNotFound m) = refused 404 missing"
| "get_error missing e = refused_with 500 e"

fun update_error :: "string \<Rightarrow> err \<Rightarrow> reply" where
  "update_error missing (ErrValidation m) = refused_with 400 (ErrValidation m)"
| "update_error missing (ErrNotFound m) = refused 404 missing"
| "update_error missing (ErrUnprocessableEntity m) = refused_with 422 (ErrUnprocessableEntity m)"
| "update_error missing e = refused_with 500 e"

definition missing_row :: "string \<Rightarrow> int \<Rightarrow> string" where
  "missing_row what i = what @ '' with id '' @ backquoted (itoa i) @ '' not found''"

end
