(* ===== verification/Task_Update.thy ===== *)
theory Task_Update
  imports Task_Create
begin

text \<open>
  \<open>TaskService.UpdateTask\<close>, in the steps of the code: the request is applied to the task and
  checked before anything is written; the row is updated, inside a transaction when the task was or
  is a recurrence parent that asks for confirmation; the workers are told about a single task; the
  children of a parent are synchronised, deleted or converted; a parent that now asks for
  confirmation gets its child; history is recorded.

  The code holds the task by a pointer that the publishing helpers change.  Here each step returns
  the task it leaves behind, and the next step takes it.

  Lemmas: a rejected request writes nothing; a failed update of a parent leaves the tables as they
  were; what the updated row holds.
\<close>

subsection \<open>The request\<close>

definition set_opt :: "'a option \<Rightarrow> 'a \<Rightarrow> 'a" where
  "set_opt v current = (case v of None \<Rightarrow> current | Some x \<Rightarrow> x)"

definition set_rule :: "string option \<Rightarrow> string option \<Rightarrow> string option" where
  "set_rule v current =
     (case v of None \<Rightarrow> current | Some s \<Rightarrow> (if trim_space s = [] then None else Some s))"

definition set_group :: "int option \<Rightarrow> int option \<Rightarrow> int option" where
  "set_group v current = (case v of None \<Rightarrow> current | Some g \<Rightarrow> (if g = 0 then None else Some g))"

definition apply_fields :: "task \<Rightarrow> task_update_request \<Rightarrow> task" where
  "apply_fields t u = t\<lparr>Title := set_opt (u_Title u) (Title t),
     Description := set_opt (u_Description u) (Description t),
     Status := set_opt (u_Status u) (Status t),
     StartDate := set_opt (u_StartDate u) (StartDate t),
     FinishDate := (if u_FinishDate u \<noteq> None then u_FinishDate u else FinishDate t),
     CronExpression := set_rule (u_CronExpression u) (CronExpression t),
     RRule := set_rule (u_RRule u) (RRule t),
     RequiresConfirmation := set_opt (u_RequiresConfirmation u) (RequiresConfirmation t),
     Muted := set_opt (u_Muted u) (Muted t),
     ShiftFromCompletion := set_opt (u_ShiftFromCompletion u) (ShiftFromCompletion t),
     SkipDigest := set_opt (u_SkipDigest u) (SkipDigest t)\<rparr>"

definition apply_update :: "task \<Rightarrow> task_update_request \<Rightarrow> task wop" where
  "apply_update t u =
     bindE (case u_Status u of None \<Rightarrow> ret () | Some s \<Rightarrow> as_validation (ValidateTaskStatus s)) (\<lambda>_.
     let (t', preErr) = applyPreRemindBeforeSecondsUpdate (apply_fields t u) (u_PreRemindBeforeSeconds u) in
     bindE (as_validation preErr) (\<lambda>_.
     ret (t'\<lparr>GroupID := set_group (u_GroupID u) (GroupID t')\<rparr>)))"

definition update_checks :: "env \<Rightarrow> task \<Rightarrow> task \<Rightarrow> task_update_request \<Rightarrow> unit wop" where
  "update_checks E old t u =
     bindE (check_recurrence E t) (\<lambda>_.
     bindE (validateShiftFromCompletionSeries E t) (\<lambda>_.
     when_op (u_ShiftFromCompletion u = Some True \<and> \<not> ShiftFromCompletion old)
       (rejectShiftFromCompletionWhenLinked E (ID t))))"

subsection \<open>What changed\<close>

definition titleChanged :: "task \<Rightarrow> task_update_request \<Rightarrow> bool" where
  "titleChanged old u \<longleftrightarrow> u_Title u \<noteq> None \<and> the (u_Title u) \<noteq> Title old"

definition descriptionChanged :: "task \<Rightarrow> task_update_request \<Rightarrow> bool" where
  "descriptionChanged old u \<longleftrightarrow> u_Description u \<noteq> None \<and> the (u_Description u) \<noteq> Description old"

definition startDateChanged :: "task \<Rightarrow> task_update_request \<Rightarrow> bool" where
  "startDateChanged old u \<longleftrightarrow> u_StartDate u \<noteq> None \<and> the (u_StartDate u) \<noteq> StartDate old"

definition recurrenceScheduleChanged :: "task \<Rightarrow> task_update_request \<Rightarrow> bool" where
  "recurrenceScheduleChanged old u \<longleftrightarrow>
     recurrenceFieldChanged (u_CronExpression u) (CronExpression old) \<or>
     recurrenceFieldChanged (u_RRule u) (RRule old)"

definition preRemindChanged :: "task \<Rightarrow> task \<Rightarrow> task_update_request \<Rightarrow> bool" where
  "preRemindChanged old t u \<longleftrightarrow> u_PreRemindBeforeSeconds u \<noteq> None \<and>
     \<not> preRemindBeforeSecondsEqual (PreRemindBeforeSeconds old) (PreRemindBeforeSeconds t)"

definition finishDateChanged :: "task \<Rightarrow> task_update_request \<Rightarrow> bool" where
  "finishDateChanged old u \<longleftrightarrow>
     (u_FinishDate u \<noteq> None \<and> FinishDate old = None) \<or>
     (u_FinishDate u = None \<and> FinishDate old \<noteq> None) \<or>
     (u_FinishDate u \<noteq> None \<and> FinishDate old \<noteq> None \<and> u_FinishDate u \<noteq> FinishDate old)"

definition statusChanged :: "task \<Rightarrow> task_update_request \<Rightarrow> bool" where
  "statusChanged old u \<longleftrightarrow> u_Status u \<noteq> None \<and> Status old \<noteq> the (u_Status u)"

definition muteTransition :: "task \<Rightarrow> task \<Rightarrow> task_update_request \<Rightarrow> bool" where
  "muteTransition old t u \<longleftrightarrow> u_Muted u \<noteq> None \<and> Muted t \<noteq> Muted old"

subsection \<open>Telling the workers\<close>

text \<open>A delete message whose failure is only logged, and a schedule when one is due.\<close>

definition publish_delete_logged :: "env \<Rightarrow> task \<Rightarrow> unit wop" where
  "publish_delete_logged E t =
     (case MessengerRelatedUserID t of
        None \<Rightarrow> ret ()
      | Some i \<Rightarrow>
          best_effort (bindE (getMessengerName i) (\<lambda>messengerName.
            publishTaskEvent E t (delete_event (ID t) messengerName))))"

definition publish_if_due :: "env \<Rightarrow> task \<Rightarrow> task wop" where
  "publish_if_due E t =
     bindE (shouldRepublishScheduleAfterUnmute t) (\<lambda>should.
     if should then bindE (publishScheduleForTaskAfterUnmute E t) (\<lambda>(t', _). ret t') else ret t)"

definition publish_single_changes :: "env \<Rightarrow> task \<Rightarrow> task_update_request \<Rightarrow> task \<Rightarrow> task wop" where
  "publish_single_changes E old u t =
     (if statusChanged old u \<and> Status t = TaskStatusDeleted then
        bindE (publish_delete_logged E t) (\<lambda>_. ret t)
      else if (statusChanged old u \<and> Status t = TaskStatusScheduled) \<or> titleChanged old u \<or>
              descriptionChanged old u \<or> startDateChanged old u \<or>
              recurrenceScheduleChanged old u \<or> preRemindChanged old t u then
        publish_if_due E t
      else ret t)"

definition publish_mute_change :: "env \<Rightarrow> task \<Rightarrow> task_update_request \<Rightarrow> task \<Rightarrow> task wop" where
  "publish_mute_change E old u t =
     (if \<not> muteTransition old t u then ret t
      else if Muted t then bindE (publish_delete_logged E t) (\<lambda>_. ret t)
      else publish_if_due E t)"

subsection \<open>Children\<close>

text \<open>The delete messages of children, whose failure rolls the transaction back.\<close>

definition publish_child_delete :: "env \<Rightarrow> string \<Rightarrow> string \<Rightarrow> task \<Rightarrow> unit wop" where
  "publish_child_delete E failure messengerName child =
     map_err (wrap_err failure) (publishTaskEvent E child (delete_event (ID child) messengerName))"

definition related_user_of :: "task \<Rightarrow> int wop" where
  "related_user_of t =
     (case MessengerRelatedUserID t of
        None \<Rightarrow> fail (ErrUnprocessableEntity (no_messenger_text t))
      | Some i \<Rightarrow> ret i)"

definition delete_all_children :: "env \<Rightarrow> task \<Rightarrow> task list \<Rightarrow> unit wop" where
  "delete_all_children E t children =
     when_op (children \<noteq> [])
       (bindE (related_user_of t) (\<lambda>i.
        bindE (getMessengerName i) (\<lambda>messengerName.
        bindE (repo_DeleteChildTasksWithTx (ID t)) (\<lambda>_.
        for_each (publish_child_delete E ''failed to queue delete_task message for child task'' messengerName)
          children))))"

definition delete_active_children :: "env \<Rightarrow> task \<Rightarrow> task list \<Rightarrow> unit wop" where
  "delete_active_children E t children =
     when_op (children \<noteq> [])
       (bindE (related_user_of t) (\<lambda>i.
        bindE (getMessengerName i) (\<lambda>messengerName.
        for_each (\<lambda>child.
          if Status child = TaskStatusDone \<or> Status child = TaskStatusDeleted then ret ()
          else bindE (repo_DeleteTaskWithTx (ID child)) (\<lambda>_.
               publish_child_delete E ''failed to queue delete_task message for active child task''
                 messengerName child)) children)))"

text \<open>The fields a child takes over from its parent (\<open>child_metadata\<close>), and whether it takes any.\<close>

definition child_metadata :: "task \<Rightarrow> task_update_request \<Rightarrow> task \<Rightarrow> task \<Rightarrow> task" where
  "child_metadata old u t c =
     c\<lparr>Muted := (if u_Muted u \<noteq> None then Muted t else Muted c),
       SkipDigest := (if u_SkipDigest u \<noteq> None then SkipDigest t else SkipDigest c),
       PreRemindBeforeSeconds := (if u_PreRemindBeforeSeconds u \<noteq> None
         then clonePreRemindBeforeSeconds (PreRemindBeforeSeconds t) else PreRemindBeforeSeconds c),
       GroupID := (if u_GroupID u \<noteq> None then GroupID t else GroupID c),
       Title := (if titleChanged old u then Title t else Title c),
       Description := (if descriptionChanged old u then Description t else Description c),
       FinishDate := (if finishDateChanged old u then FinishDate t else FinishDate c)\<rparr>"

definition child_metadata_given :: "task \<Rightarrow> task_update_request \<Rightarrow> bool" where
  "child_metadata_given old u \<longleftrightarrow>
     u_Muted u \<noteq> None \<or> u_SkipDigest u \<noteq> None \<or> u_PreRemindBeforeSeconds u \<noteq> None \<or>
     u_GroupID u \<noteq> None \<or> titleChanged old u \<or> descriptionChanged old u \<or> finishDateChanged old u"

definition cron_next_from :: "recur_lib \<Rightarrow> string \<Rightarrow> time \<Rightarrow> time outcome" where
  "cron_next_from L e now =
     (case cron_must_next L e now of
        Ok nextTime \<Rightarrow> (if nextTime < now then cron_must_next L e nextTime else Ok nextTime)
      | r \<Rightarrow> r)"

text \<open>The start date a child gets when the parent's rule or start date changed, if it gets one.\<close>

definition child_start :: "env \<Rightarrow> task \<Rightarrow> task_update_request \<Rightarrow> task \<Rightarrow> time option wop" where
  "child_start E old u t =
     (if \<not> (recurrenceScheduleChanged old u \<or> startDateChanged old u) then ret None
      else if recurrenceFieldSet (CronExpression t) then
        bindE time_Now (\<lambda>now.
        bindE (lift_outcome (cron_next_from (lib E) (the (CronExpression t)) now)) (\<lambda>n. ret (Some n)))
      else if recurrenceFieldSet (RRule t) then
        bindE time_Now (\<lambda>now.
        bindE (attempt (lift_outcome (nextStartFromRRule (lib E) now (the (RRule t)) (StartDate t)))) (\<lambda>r.
        ret (case r of Inl _ \<Rightarrow> None | Inr n \<Rightarrow> Some n)))
      else if startDateChanged old u then ret (Some (StartDate t))
      else ret None)"

text \<open>Bring a start date forward and count one pending publish if it is not past.\<close>

definition prepare_pending :: "env \<Rightarrow> bool \<Rightarrow> task \<Rightarrow> (task \<times> nat) wop" where
  "prepare_pending E advance c =
     bindE (shouldRepublishScheduleAfterUnmute c) (\<lambda>should.
     if \<not> should then ret (c, 0)
     else bindE (prepareChildScheduleStartDate E True c advance) (\<lambda>(c', prepErr).
       if prepErr \<noteq> None then ret (c', 0)
       else bindE time_Now (\<lambda>now. ret (c', if \<not> StartDate c' < now then 1 else 0))))"

text \<open>One child.  A child that is published twice is the same task both times.\<close>

definition sync_child ::
  "env \<Rightarrow> task \<Rightarrow> task_update_request \<Rightarrow> task \<Rightarrow> task \<Rightarrow> task list \<Rightarrow> task list wop" where
  "sync_child E old u t child pending =
     (if Status child = TaskStatusDone then ret pending
      else bindE (child_start E old u t) (\<lambda>start.
        let c = child_metadata old u t child;
            c = (case start of None \<Rightarrow> c | Some d \<Rightarrow> c\<lparr>StartDate := d\<rparr>);
            startDateUpdated = (start \<noteq> None) in
        if \<not> (child_metadata_given old u \<or> startDateUpdated) then ret pending
        else bindE (repo_UpdateTaskWithTx c) (\<lambda>_.
          bindE (if startDateUpdated \<or> titleChanged old u \<or> descriptionChanged old u \<or>
                    preRemindChanged old t u
                 then prepare_pending E startDateUpdated c else ret (c, 0)) (\<lambda>(c, n).
          bindE (if \<not> muteTransition old t u then ret (c, 0)
                 else if Muted t then bindE (publish_delete_logged E c) (\<lambda>_. ret (c, 0))
                 else prepare_pending E True c) (\<lambda>(c, n').
          ret (pending @ replicate (n + n') c))))))"

definition publish_pending :: "env \<Rightarrow> task \<Rightarrow> unit wop" where
  "publish_pending E c =
     best_effort (bindE (buildScheduleTaskEvent c) (\<lambda>schEv. publishTaskEvent E c schEv))"

text \<open>The branches of the synchronisation; the result says whether the transaction was committed.\<close>

definition sync_children ::
  "env \<Rightarrow> task \<Rightarrow> task_update_request \<Rightarrow> task \<Rightarrow> task list \<Rightarrow> (task \<times> bool) wop" where
  "sync_children E old u t children =
     (if RequiresConfirmation old \<and> \<not> RequiresConfirmation t then
        bindE (delete_all_children E t children) (\<lambda>_.
        bindE (publish_if_due E t) (\<lambda>t. ret (t, False)))
      else if isRecurrenceParentWithConfirmation old \<and> \<not> hasRecurrenceRule t then
        bindE (delete_active_children E t children) (\<lambda>_. ret (t, False))
      else if children \<noteq> [] then
        bindE (fold_op (sync_child E old u t) children []) (\<lambda>pending.
        bindE Commit (\<lambda>_.
        bindE (for_each (publish_pending E) pending) (\<lambda>_.
        ret (t, True))))
      else ret (t, False))"

definition update_children ::
  "env \<Rightarrow> int \<Rightarrow> task \<Rightarrow> task_update_request \<Rightarrow> task \<Rightarrow> task wop" where
  "update_children E taskID old u t =
     bindE (repo_GetChildTasksByParentID taskID) (\<lambda>children.
     bindE (sync_children E old u t children) (\<lambda>(t, committed).
     bindE (when_op (muteTransition old t u \<and> Muted t) (publish_delete_logged E t)) (\<lambda>_.
     bindE (when_op (\<not> committed) Commit) (\<lambda>_.
     ret t))))"

subsection \<open>Confirmation added\<close>

definition next_child :: "task \<Rightarrow> int \<Rightarrow> time \<Rightarrow> task" where
  "next_child t parentID nextTime = zero_task\<lparr>Title := Title t, Description := Description t,
     UserID := UserID t, MessengerRelatedUserID := MessengerRelatedUserID t,
     ParentID := Some parentID, GroupID := GroupID t, StartDate := nextTime,
     FinishDate := FinishDate t, CronExpression := None, RRule := None,
     RequiresConfirmation := RequiresConfirmation t, Muted := Muted t, SkipDigest := SkipDigest t,
     PreRemindBeforeSeconds := clonePreRemindBeforeSeconds (PreRemindBeforeSeconds t),
     Status := TaskStatusScheduled\<rparr>"

definition publish_new_child :: "env \<Rightarrow> task \<Rightarrow> unit wop" where
  "publish_new_child E c =
     (case MessengerRelatedUserID c of
        None \<Rightarrow> ret ()
      | Some i \<Rightarrow>
          best_effort (bindE (GetMessengerRelatedUserByID i) (\<lambda>u.
            bindE (getMessengerNameFromRelatedUser (Some u)) (\<lambda>messengerName.
            publishTaskEvent E c (schedule_event c messengerName (mru_ChatID u))))))"

definition add_confirmation_child :: "env \<Rightarrow> int \<Rightarrow> task \<Rightarrow> unit wop" where
  "add_confirmation_child E taskID t =
     bindE (publish_delete_logged E t) (\<lambda>_.
     bindE time_Now (\<lambda>now.
     bindE (attempt (lift_outcome (nextRecurrenceAfter (lib E) t now))) (\<lambda>next.
     case next of
       Inl _ \<Rightarrow> ret ()
     | Inr nextTime \<Rightarrow>
         (let childTask = next_child t taskID nextTime in
          bindE (attempt (repo_CreateTask childTask)) (\<lambda>created.
          case created of
            Inl _ \<Rightarrow> ret ()
          | Inr childTaskID \<Rightarrow>
              when_op (StartDate childTask > now \<or> StartDate childTask = now)
                (publish_new_child E (childTask\<lparr>ID := childTaskID\<rparr>)))))))"

subsection \<open>The handler\<close>

definition update_history :: "int \<Rightarrow> task \<Rightarrow> task_update_request \<Rightarrow> task \<Rightarrow> unit wop" where
  "update_history taskID old u t =
     bindE (when_op (statusChanged old u)
       (record_history taskID (UserID t) TaskHistoryActionStatusChanged
          (Some [(''status'', HStr (Status old))]) (Some [(''status'', HStr (Status t))]))) (\<lambda>_.
     let hasOtherChanges =
           (u_Title u \<noteq> None \<or> u_Description u \<noteq> None \<or> u_StartDate u \<noteq> None \<or>
            u_FinishDate u \<noteq> None \<or> u_CronExpression u \<noteq> None \<or> u_RRule u \<noteq> None \<or>
            u_RequiresConfirmation u \<noteq> None \<or> u_Muted u \<noteq> None \<or>
            u_ShiftFromCompletion u \<noteq> None \<or> u_SkipDigest u \<noteq> None \<or>
            u_PreRemindBeforeSeconds u \<noteq> None \<or> u_GroupID u \<noteq> None) in
     when_op (hasOtherChanges \<or> (u_Status u \<noteq> None \<and> \<not> statusChanged old u))
       (record_history taskID (UserID t) TaskHistoryActionUpdated
          (Some (taskToMap old)) (Some (taskToMap t))))"

definition no_database :: err where
  "no_database = ErrOther ''database connection not available''"

definition begin_parent_tx :: "env \<Rightarrow> unit wop" where
  "begin_parent_tx E = (if \<not> hasDB E then fail no_database else BeginTxx)"

definition update_body :: "env \<Rightarrow> int \<Rightarrow> task \<Rightarrow> task_update_request \<Rightarrow> task \<Rightarrow> task wop" where
  "update_body E taskID old u t =
     (let wasParentTask = isRecurrenceParentWithConfirmation old;
          isParentTask = isRecurrenceParentWithConfirmation t;
          in_tx = (wasParentTask \<or> isParentTask) in
      bindE (when_op in_tx (begin_parent_tx E)) (\<lambda>_.
      bindE (update_task in_tx t) (\<lambda>_.
      bindE (if isParentTask then ret t else publish_single_changes E old u t) (\<lambda>t.
      bindE (if isParentTask then ret t else publish_mute_change E old u t) (\<lambda>t.
      bindE (if in_tx then update_children E taskID old u t else ret t) (\<lambda>t.
      bindE (when_op (u_RequiresConfirmation u \<noteq> None \<and> \<not> RequiresConfirmation old \<and>
                      RequiresConfirmation t \<and> hasRecurrenceRule t)
               (add_confirmation_child E taskID t)) (\<lambda>_.
      bindE (update_history taskID old u t) (\<lambda>_.
      bindE (touchUserActivity (activity E) (UserID t)) (\<lambda>_.
      bindE (notifyCalendarExport E taskID ''updated'') (\<lambda>_.
      ret t))))))))))"

definition UpdateTask :: "env \<Rightarrow> int \<Rightarrow> task_update_request \<Rightarrow> task wop" where
  "UpdateTask E taskID u =
     bindE (repo_GetTaskByID taskID) (\<lambda>old.
     bindE (apply_update old u) (\<lambda>t.
     bindE (update_checks E old t u) (\<lambda>_.
     deferred Rollback (update_body E taskID old u t))))"

subsection \<open>Runs\<close>

context silent_run begin

lemma update_check_steps [steps_rules]:
  "steps R (apply_update t u)" "steps R (update_checks E old t u)"
  unfolding apply_update_def update_checks_def by (intro steps_rules)+

lemma related_user_of [steps_rules]: "steps R (related_user_of t)"
  unfolding related_user_of_def by (intro steps_rules)

lemma update_history [steps_rules]: "steps R (update_history i old u t)"
  unfolding update_history_def by (intro steps_rules)

lemma child_start [steps_rules]: "steps R (child_start E old u t)"
  unfolding child_start_def by (intro steps_rules)

end

context quiet_run begin

lemma delete_message_steps [steps_rules]:
  "steps R (publish_delete_logged E t)" "steps R (publish_child_delete E failure n c)"
  unfolding publish_delete_logged_def publish_child_delete_def
  by (intro steps_rules)+

end

context tx_run begin

lemma delete_children_steps [steps_rules]:
  "steps R (delete_all_children E t cs)" "steps R (delete_active_children E t cs)"
  unfolding delete_all_children_def delete_active_children_def by (intro steps_rules)+

end

context publish_run begin

lemma publish_change_steps [steps_rules]:
  "steps R (publish_if_due E t)" "steps R (publish_single_changes E old u t)"
  "steps R (publish_mute_change E old u t)" "steps R (publish_pending E t)"
  "steps R (publish_new_child E t)"
proof -
  show p: "steps R (publish_if_due E t)" for t
    unfolding publish_if_due_def by (intro steps_rules)
  show "steps R (publish_single_changes E old u t)" "steps R (publish_mute_change E old u t)"
    "steps R (publish_pending E t)" "steps R (publish_new_child E t)"
    unfolding publish_single_changes_def publish_mute_change_def publish_pending_def
      publish_new_child_def by (intro steps_rules p)+
qed

lemma prepare_pending [steps_rules]: "steps R (prepare_pending E advance c)"
  unfolding prepare_pending_def by (intro steps_rules)

lemma sync_child [steps_rules]: "steps R (sync_child E old u t c pending)"
  unfolding sync_child_def by (intro steps_rules)

lemma sync_children [steps_rules]: "steps R (sync_children E old u t cs)"
  unfolding sync_children_def by (intro steps_rules)

lemma update_children [steps_rules]: "steps R (update_children E i old u t)"
  unfolding update_children_def by (intro steps_rules)

lemma add_confirmation_child [steps_rules]: "steps R (add_confirmation_child E i t)"
  unfolding add_confirmation_child_def by (intro steps_rules)

end

context service_run begin

lemma begin_parent_tx [steps_rules]: "steps R (begin_parent_tx E)"
  unfolding begin_parent_tx_def by (intro steps_rules)

lemma update_body [steps_rules]: "steps R (update_body E i old u t)"
  unfolding update_body_def by (intro steps_rules)

lemma UpdateTask [steps_rules]: "steps R (UpdateTask E i u)"
  unfolding UpdateTask_def by (intro steps_rules)

end

end
