(* ===== verification/Task_Lifecycle.thy ===== *)
theory Task_Lifecycle
  imports Task_Update
begin

text \<open>
  The operations of \<open>TaskService\<close> that end, silence or complete a task: \<open>DeleteTask\<close>,
  \<open>MuteTask\<close>, \<open>UnmuteTask\<close> and \<open>MarkTaskAsDone\<close>.  Deleting and completing write the row and queue
  the delete message inside one transaction, so that a failure of either leaves both undone.

  Lemmas: a delete or a completion that fails before its commit leaves the tables as they were;
  completing a done task does nothing; a prepared shift is written together with the completion.
\<close>

subsection \<open>Deleting\<close>

definition after_delete :: "env \<Rightarrow> task \<Rightarrow> int list \<Rightarrow> unit wop" where
  "after_delete E t childTaskIDs =
     bindE (record_history (ID t) (UserID t) TaskHistoryActionDeleted (Some (taskToMap t)) None) (\<lambda>_.
     bindE (touchUserActivity (activity E) (UserID t)) (\<lambda>_.
     bindE (purgeAttachmentsBestEffort E (ID t) childTaskIDs) (\<lambda>_.
     notifyCalendarExport E (ID t) ''deleted'')))"

definition delete_without_db :: "env \<Rightarrow> task \<Rightarrow> unit wop" where
  "delete_without_db E t =
     (if hasRecurrenceRule t
      then fail (ErrOther ''database connection not available for transactional delete of parent task'')
      else bindE (repo_DeleteTask (ID t)) (\<lambda>_. after_delete E t []))"

definition delete_children_in_tx :: "env \<Rightarrow> task \<Rightarrow> int list wop" where
  "delete_children_in_tx E t =
     bindE (repo_GetChildTasksByParentID (ID t)) (\<lambda>children.
     bindE (delete_all_children E t children) (\<lambda>_.
     ret (map ID children)))"

definition queue_delete :: "env \<Rightarrow> task \<Rightarrow> unit wop" where
  "queue_delete E t =
     bindE (related_user_of t) (\<lambda>i.
     bindE (getMessengerName i) (\<lambda>messengerName.
     map_err (wrap_err ''failed to queue delete_task message'')
       (publishTaskEvent E t (delete_event (ID t) messengerName))))"

definition delete_in_tx :: "env \<Rightarrow> task \<Rightarrow> int list wop" where
  "delete_in_tx E t =
     bindE (if hasRecurrenceRule t then delete_children_in_tx E t else ret []) (\<lambda>childTaskIDs.
     bindE (repo_DeleteTaskWithTx (ID t)) (\<lambda>_.
     bindE (queue_delete E t) (\<lambda>_.
     bindE Commit (\<lambda>_.
     ret childTaskIDs))))"

definition DeleteTask :: "env \<Rightarrow> int \<Rightarrow> unit wop" where
  "DeleteTask E taskID =
     bindE (repo_GetTaskByIDWithoutStatusFilter taskID) (\<lambda>t.
     if \<not> hasDB E then delete_without_db E t
     else bindE BeginTxx (\<lambda>_.
       deferred Rollback
         (bindE (delete_in_tx E t) (\<lambda>childTaskIDs. after_delete E t childTaskIDs))))"

subsection \<open>Muting and unmuting\<close>

definition active_children :: "int \<Rightarrow> task list wop" where
  "active_children taskID =
     bindE (attempt (repo_GetChildTasksByParentID taskID)) (\<lambda>r.
     ret (case r of Inl _ \<Rightarrow> [] | Inr children \<Rightarrow> filter active_child children))"

definition mute_child :: "env \<Rightarrow> task \<Rightarrow> unit wop" where
  "mute_child E c =
     (let c = c\<lparr>Muted := True\<rparr> in
      best_effort
        (bindE (repo_UpdateTask c) (\<lambda>_.
         bindE (buildDeleteTaskEvent c) (\<lambda>delEv.
         publishTaskEvent E c delEv))))"

definition unmute_child :: "env \<Rightarrow> task \<Rightarrow> unit wop" where
  "unmute_child E c =
     (let c = c\<lparr>Muted := False\<rparr> in
      best_effort
        (bindE (repo_UpdateTask c) (\<lambda>_.
         bindE (publishScheduleForTaskAfterUnmute E c) (\<lambda>_. ret ()))))"

definition finish_mute :: "env \<Rightarrow> int \<Rightarrow> task \<Rightarrow> task \<Rightarrow> task wop" where
  "finish_mute E taskID old t =
     bindE (record_history taskID (UserID t) TaskHistoryActionUpdated
              (Some (taskToMap old)) (Some (taskToMap t))) (\<lambda>_.
     bindE (touchUserActivity (activity E) (UserID t)) (\<lambda>_.
     ret t))"

definition MuteTask :: "env \<Rightarrow> int \<Rightarrow> task wop" where
  "MuteTask E taskID =
     bindE (repo_GetTaskByIDWithoutStatusFilter taskID) (\<lambda>old.
     if Status old = TaskStatusDeleted then fail (ErrNotFound ''task not found or deleted'')
     else if Muted old then ret old
     else (let t = old\<lparr>Muted := True\<rparr> in
       bindE (repo_UpdateTask t) (\<lambda>_.
       bindE (when_op (isRecurrenceParentWithConfirmation t)
                (bindE (active_children taskID) (\<lambda>children. for_each (mute_child E) children))) (\<lambda>_.
       bindE (best_effort (bindE (buildDeleteTaskEvent t) (\<lambda>delEv. publishTaskEvent E t delEv))) (\<lambda>_.
       finish_mute E taskID old t)))))"

definition UnmuteTask :: "env \<Rightarrow> int \<Rightarrow> task wop" where
  "UnmuteTask E taskID =
     bindE (repo_GetTaskByIDWithoutStatusFilter taskID) (\<lambda>old.
     if Status old = TaskStatusDeleted then fail (ErrNotFound ''task not found or deleted'')
     else if \<not> Muted old then ret old
     else (let t = old\<lparr>Muted := False\<rparr> in
       bindE (repo_UpdateTask t) (\<lambda>_.
       bindE (when_op (isRecurrenceParentWithConfirmation t)
                (bindE (active_children taskID) (\<lambda>children. for_each (unmute_child E) children))) (\<lambda>_.
       bindE (publishScheduleForTaskAfterUnmute E t) (\<lambda>(t, _).
       finish_mute E taskID old t)))))"

subsection \<open>Completing\<close>

definition completion_shift :: "env \<Rightarrow> task \<Rightarrow> bool option \<Rightarrow> time \<Rightarrow> preparedCompletionShift option wop" where
  "completion_shift E t shiftFromCompletion now =
     bindE (case shiftFromCompletion of
              Some b \<Rightarrow> ret b
            | None \<Rightarrow> parentStoresCompletionShift E t) (\<lambda>applyShift.
     if applyShift then bindE (prepareCompletionShift E t now) (\<lambda>s. ret (Some s))
     else ret None)"

definition done_task :: "task \<Rightarrow> time \<Rightarrow> task" where
  "done_task t now = t\<lparr>Status := TaskStatusDone, FinishDate := Some now\<rparr>"

definition done_in_tx :: "env \<Rightarrow> task \<Rightarrow> preparedCompletionShift option \<Rightarrow> unit wop" where
  "done_in_tx E t shift =
     bindE (repo_UpdateTaskWithTx t) (\<lambda>_.
     bindE (case shift of None \<Rightarrow> ret () | Some s \<Rightarrow> repo_UpdateTaskWithTx (shifted_parent s)) (\<lambda>_.
     bindE (queue_delete E t) (\<lambda>_.
     Commit)))"

text \<open>The parent and the start date of the next child, if the series goes on.\<close>

definition next_occurrence :: "env \<Rightarrow> int \<Rightarrow> preparedCompletionShift option \<Rightarrow> (task \<times> time) option wop" where
  "next_occurrence E parentID shift =
     (case shift of
        Some s \<Rightarrow> ret (Some (shifted_parent s, ps_nextStart s))
      | None \<Rightarrow>
          bindE (attempt (repo_GetTaskByIDWithoutStatusFilter parentID)) (\<lambda>r.
          case r of
            Inl _ \<Rightarrow> ret None
          | Inr loaded \<Rightarrow>
              (if Status loaded \<noteq> TaskStatusDone \<and> isRecurrenceParentWithConfirmation loaded then
                 bindE time_Now (\<lambda>now.
                 bindE (attempt (lift_outcome (nextRecurrenceAfter (lib E) loaded now))) (\<lambda>next.
                 ret (case next of Inl _ \<Rightarrow> None | Inr nextTime \<Rightarrow> Some (loaded, nextTime))))
               else ret None)))"

definition create_next_child :: "env \<Rightarrow> task \<Rightarrow> preparedCompletionShift option \<Rightarrow> unit wop" where
  "create_next_child E t shift =
     (case ParentID t of
        None \<Rightarrow> ret ()
      | Some parentID \<Rightarrow>
          bindE (next_occurrence E parentID shift) (\<lambda>next.
          case next of
            None \<Rightarrow> ret ()
          | Some (parentTask, nextTime) \<Rightarrow>
              (if Status parentTask \<noteq> TaskStatusDone \<and>
                  isRecurrenceParentWithConfirmation parentTask \<and> \<not> IsZero nextTime then
                 (let childTask = next_child parentTask parentID nextTime in
                  bindE (attempt (repo_CreateTask childTask)) (\<lambda>created.
                  case created of
                    Inl _ \<Rightarrow> ret ()
                  | Inr childTaskID \<Rightarrow> publish_new_child E (childTask\<lparr>ID := childTaskID\<rparr>)))
               else ret ())))"

text \<open>The children of a parent that is done, in a transaction of their own.\<close>

definition done_child :: "task \<Rightarrow> time \<Rightarrow> task \<Rightarrow> task" where
  "done_child t now c =
     (let finish = (if FinishDate t \<noteq> None then FinishDate t else FinishDate c) in
      c\<lparr>Title := Title t, Description := Description t, Status := TaskStatusDone,
        FinishDate := (if finish = None then Some now else finish)\<rparr>)"

definition finish_child :: "env \<Rightarrow> task \<Rightarrow> string \<Rightarrow> time \<Rightarrow> task \<Rightarrow> unit wop" where
  "finish_child E t messengerName now c =
     (if \<not> active_child c then ret ()
      else (let c = done_child t now c in
        bindE (repo_UpdateTaskWithTx c) (\<lambda>_.
        publishTaskEvent E c (delete_event (ID c) messengerName))))"

definition finish_children_in_tx :: "env \<Rightarrow> task \<Rightarrow> string \<Rightarrow> task list \<Rightarrow> unit wop" where
  "finish_children_in_tx E t messengerName children =
     bindE BeginTxx (\<lambda>_.
       deferred Rollback
         (bindE time_Now (\<lambda>now.
          bindE (for_each (finish_child E t messengerName now) children) (\<lambda>_.
          Commit))))"

definition finish_children :: "env \<Rightarrow> task \<Rightarrow> unit wop" where
  "finish_children E t =
     (if \<not> hasRecurrenceRule t then ret ()
      else bindE (related_user_of t) (\<lambda>i.
        bindE (getMessengerName i) (\<lambda>messengerName.
        bindE (attempt (repo_GetChildTasksByParentID (ID t))) (\<lambda>r.
        case r of
          Inl _ \<Rightarrow> ret ()
        | Inr children \<Rightarrow>
            (if children = [] \<or> \<not> hasDB E then ret ()
             else best_effort (finish_children_in_tx E t messengerName children))))))"

definition purgeAttachmentsAfterTaskDone :: "env \<Rightarrow> int \<Rightarrow> unit wop" where
  "purgeAttachmentsAfterTaskDone E taskID =
     bindE (attempt (repo_GetChildTasksByParentID taskID)) (\<lambda>r.
     purgeAttachmentsBestEffort E taskID
       (case r of Inl _ \<Rightarrow> [] | Inr children \<Rightarrow> map ID children))"

definition after_done :: "env \<Rightarrow> task \<Rightarrow> string \<Rightarrow> preparedCompletionShift option \<Rightarrow> task wop" where
  "after_done E t oldStatus shift =
     bindE (case shift of None \<Rightarrow> ret ()
            | Some s \<Rightarrow> recordCompletionShiftHistory s (shifted_parent s)) (\<lambda>_.
     bindE (create_next_child E t shift) (\<lambda>_.
     bindE (finish_children E t) (\<lambda>_.
     bindE (record_history (ID t) (UserID t) TaskHistoryActionStatusChanged
              (Some [(''status'', HStr oldStatus)]) (Some [(''status'', HStr (Status t))])) (\<lambda>_.
     bindE (when_op (attachmentsPurgeOnTaskDone E) (purgeAttachmentsAfterTaskDone E (ID t))) (\<lambda>_.
     bindE (touchUserActivity (activity E) (UserID t)) (\<lambda>_.
     ret t))))))"

definition MarkTaskAsDone :: "env \<Rightarrow> int \<Rightarrow> bool option \<Rightarrow> task wop" where
  "MarkTaskAsDone E taskID shiftFromCompletion =
     bindE (repo_GetTaskByIDWithoutStatusFilter taskID) (\<lambda>t.
     if Status t = TaskStatusDone then ret t
     else bindE time_Now (\<lambda>now.
       bindE (completion_shift E t shiftFromCompletion now) (\<lambda>shift.
       if \<not> hasDB E then fail no_database
       else bindE BeginTxx (\<lambda>_.
         deferred Rollback
           (bindE (done_in_tx E (done_task t now) shift) (\<lambda>_.
            after_done E (done_task t now) (Status t) shift))))))"

subsection \<open>Runs\<close>

context silent_run begin

lemma after_delete [steps_rules]: "steps R (after_delete E t cs)"
  unfolding after_delete_def by (intro steps_rules)

lemma finish_mute [steps_rules]: "steps R (finish_mute E i old t)"
  unfolding finish_mute_def by (intro steps_rules)

lemma completion_shift [steps_rules]: "steps R (completion_shift E t b now)"
  unfolding completion_shift_def by (intro steps_rules)

lemma active_children [steps_rules]: "steps R (active_children i)"
  unfolding active_children_def by (intro steps_rules)

lemma next_occurrence [steps_rules]: "steps R (next_occurrence E p shift)"
  unfolding next_occurrence_def by (intro steps_rules)

lemma purgeAttachmentsAfterTaskDone [steps_rules]: "steps R (purgeAttachmentsAfterTaskDone E i)"
  unfolding purgeAttachmentsAfterTaskDone_def by (intro steps_rules)

end

context quiet_run begin

lemma queue_delete [steps_rules]: "steps R (queue_delete E t)"
  unfolding queue_delete_def by (intro steps_rules)

end

context tx_run begin

lemma children_in_tx_steps [steps_rules]: "steps R (delete_children_in_tx E t)"
  unfolding delete_children_in_tx_def by (intro steps_rules)

lemma finish_child [steps_rules]: "steps R (finish_child E t n now c)"
  unfolding finish_child_def by (intro steps_rules)

end

context store_run begin

lemma delete_steps [steps_rules]:
  "steps R (delete_without_db E t)" "steps R (delete_in_tx E t)"
  unfolding delete_without_db_def delete_in_tx_def by (intro steps_rules)+

lemma mute_steps [steps_rules]: "steps R (mute_child E c)" "steps R (MuteTask E i)"
  unfolding MuteTask_def mute_child_def by (intro steps_rules)+

lemma done_in_tx [steps_rules]: "steps R (done_in_tx E t shift)"
  unfolding done_in_tx_def by (intro steps_rules)

end

context begin_run begin

lemma DeleteTask [steps_rules]: "steps R (DeleteTask E i)"
  unfolding DeleteTask_def by (intro steps_rules)

lemma finish_children [steps_rules]:
  "steps R (finish_children_in_tx E t n cs)" "steps R (finish_children E t)"
  unfolding finish_children_def finish_children_in_tx_def by (intro steps_rules)+

end

context publish_run begin

lemma unmute_steps [steps_rules]: "steps R (unmute_child E c)" "steps R (UnmuteTask E i)"
  unfolding UnmuteTask_def unmute_child_def by (intro steps_rules)+

lemma create_next_child [steps_rules]: "steps R (create_next_child E t shift)"
  unfolding create_next_child_def by (intro steps_rules)

end

context service_run begin

lemma after_done [steps_rules]: "steps R (after_done E t s shift)"
  unfolding after_done_def by (intro steps_rules)

lemma MarkTaskAsDone [steps_rules]: "steps R (MarkTaskAsDone E i b)"
  unfolding MarkTaskAsDone_def by (intro steps_rules)

end

end
