(* ===== verification/Task_Invariant.thy ===== *)
theory Task_Invariant
  imports Task_Reschedule
begin

text \<open>
  The invariant of the table of tasks: no row has both a cron expression and an RRULE, a preliminary
  reminder is positive and within the cap, and the status is one of the six.  It holds for the
  committed rows and for what the open transaction has written, and every operation of the service
  keeps it, whatever fails on the way.
\<close>

subsection \<open>The invariant\<close>

definition task_ok :: "task \<Rightarrow> bool" where
  "task_ok t \<longleftrightarrow>
     \<not> (recurrenceFieldSet (CronExpression t) \<and> recurrenceFieldSet (RRule t)) \<and>
     pre_remind_ok (PreRemindBeforeSeconds t) \<and> IsValid (Status t)"

definition rows_ok :: "row list \<Rightarrow> bool" where
  "rows_ok rs \<longleftrightarrow> (\<forall>r \<in> set rs. task_ok (r_task r))"

definition store_ok :: "world \<Rightarrow> bool" where
  "store_ok w \<longleftrightarrow> rows_ok (tasks w) \<and> (case tx w of None \<Rightarrow> True | Some ov \<Rightarrow> rows_ok ov)"

lemma rows_ok_simps [simp]:
  "rows_ok []" "rows_ok (r # rs) \<longleftrightarrow> task_ok (r_task r) \<and> rows_ok rs"
  "rows_ok (rs @ ss) \<longleftrightarrow> rows_ok rs \<and> rows_ok ss"
  by (auto simp: rows_ok_def)

lemma rows_ok_map: "(\<And>r. r \<in> set rs \<Longrightarrow> task_ok (r_task (f r))) \<Longrightarrow> rows_ok (map f rs)"
  by (auto simp: rows_ok_def)

lemma rows_okD: "rows_ok rs \<Longrightarrow> r \<in> set rs \<Longrightarrow> task_ok (r_task r)"
  by (simp add: rows_ok_def)

lemma task_ok_frame:
  "task_ok t \<Longrightarrow> CronExpression t' = CronExpression t \<Longrightarrow> RRule t' = RRule t \<Longrightarrow>
     PreRemindBeforeSeconds t' = PreRemindBeforeSeconds t \<Longrightarrow> Status t' = Status t \<Longrightarrow> task_ok t'"
  by (simp add: task_ok_def)

lemma task_ok_updates [simp]:
  "task_ok (t\<lparr>StartDate := d\<rparr>) = task_ok t" "task_ok (t\<lparr>Muted := b\<rparr>) = task_ok t"
  "task_ok (t\<lparr>ID := i\<rparr>) = task_ok t" "task_ok (t\<lparr>GroupID := g\<rparr>) = task_ok t"
  "task_ok (t\<lparr>FinishDate := f\<rparr>) = task_ok t" "task_ok (t\<lparr>Title := s\<rparr>) = task_ok t"
  "task_ok (t\<lparr>Description := s\<rparr>) = task_ok t" "task_ok (t\<lparr>SkipDigest := b\<rparr>) = task_ok t"
  by (simp_all add: task_ok_def)

lemma task_ok_inserted [simp]: "task_ok (r_task (inserted_row t i now)) = task_ok t"
  by (simp add: inserted_row_def task_ok_def)

lemma task_ok_set_columns [simp]: "task_ok (r_task (set_columns t now r)) = task_ok t"
  by (simp add: set_columns_def task_ok_def)

lemma IsValid_deleted [simp]: "IsValid ''deleted''"
  using IsValid_constants(6) by (simp add: TaskStatusDeleted_def)

lemma task_ok_soft_delete [simp]: "task_ok (r_task r) \<Longrightarrow> task_ok (r_task (soft_delete now r))"
  by (simp add: soft_delete_def task_ok_def)

lemma task_ok_tx_view: "rows_ok ov \<Longrightarrow> task_ok (r_task r) \<Longrightarrow> task_ok (r_task (tx_view ov r))"
  using tx_view_cases [of ov r] by (auto dest: rows_okD)

subsection \<open>Runs that leave the store alone\<close>

definition quiet_store :: "world \<Rightarrow> world \<Rightarrow> bool" where
  "quiet_store w w' \<longleftrightarrow>
     tasks w' = tasks w \<and> (tx w' = tx w \<or> tx w' = None \<or> tx w' = Some [])"

interpretation quiet_store: state_run quiet_store
  by unfold_locales (auto simp: quiet_store_def)

lemma quiet_publish [steps_rules]: "steps quiet_store (Publish p m)"
  by (cases p) (auto intro!: steps_rules quiet_store.steps_modify simp: quiet_store_def)

lemma quiet_publishTaskEvent [steps_rules]: "steps quiet_store (publishTaskEvent E t ev)"
  unfolding publishTaskEvent_def by (intro steps_rules)

lemma store_ok_quiet: "store_ok w \<Longrightarrow> quiet_store w w' \<Longrightarrow> store_ok w'"
  by (auto simp: store_ok_def quiet_store_def split: option.splits)

lemma keeps_quiet:
  assumes "steps quiet_store m" and "\<And>w x w'. m w = (Ok x, w') \<Longrightarrow> Q x"
  shows "keeps store_ok m Q"
  by (rule keepsI) (use assms store_ok_quiet in \<open>auto dest: stepsD\<close>)

lemma keeps_quiet_True: "steps quiet_store m \<Longrightarrow> keeps store_ok m (\<lambda>_. True)"
  by (rule keeps_quiet) simp_all

text \<open>Sequencing when the first result does not matter, and when the first run is quiet.\<close>

lemma keeps_then: "keeps I m (\<lambda>_. True) \<Longrightarrow> (\<And>x. keeps I (k x) Q) \<Longrightarrow> keeps I (bindE m k) Q"
  by (rule keeps_bindE)

lemma keeps_quiet_then:
  "steps quiet_store m \<Longrightarrow> (\<And>x. keeps store_ok (k x) Q) \<Longrightarrow> keeps store_ok (bindE m k) Q"
  by (rule keeps_then [OF keeps_quiet_True])

lemma keeps_attempt_Inr:
  "keeps I m P \<Longrightarrow> keeps I (attempt m) (\<lambda>r. \<forall>x. r = Inr x \<longrightarrow> P x)"
  by (rule keeps_attempt) auto

lemma keeps_attempt_True: "keeps I m P \<Longrightarrow> keeps I (attempt m) (\<lambda>_. True)"
  by (rule keeps_attempt) auto

lemma keeps_True: "keeps I m P \<Longrightarrow> keeps I m (\<lambda>_. True)"
  by (erule keeps_weaken) simp

subsection \<open>The repository\<close>

lemma keeps_pool_get: "keeps store_ok (pool_get P missing failure) task_ok"
  unfolding pool_get_def
  by (rule keeps_quiet_then [OF quiet_store.external], rule keepsI)
     (auto simp: bindE_def gets_def ret_def fail_def store_ok_def find_Some_iff
       split: option.splits dest!: rows_okD intro: nth_mem)

lemma keeps_pool_select: "keeps store_ok (pool_select P failure) (\<lambda>ts. \<forall>t \<in> set ts. task_ok t)"
  unfolding pool_select_def
  by (rule keeps_quiet_then [OF quiet_store.external], rule keepsI)
     (auto simp: gets_def store_ok_def dest: rows_okD)

lemma keeps_repo_get [keeps_rules]:
  "keeps store_ok (repo_GetTaskByID i) task_ok"
  "keeps store_ok (repo_GetTaskByIDWithoutStatusFilter i) task_ok"
  "keeps store_ok (repo_GetChildTasksByParentID i) (\<lambda>ts. \<forall>t \<in> set ts. task_ok t)"
  "keeps store_ok repo_GetTasksNeedingRescheduling (\<lambda>ts. \<forall>t \<in> set ts. task_ok t)"
  "keeps store_ok repo_GetTasksWithCronNeedingRescheduling (\<lambda>ts. \<forall>t \<in> set ts. task_ok t)"
  unfolding repo_GetTaskByID_def repo_GetTaskByIDWithoutStatusFilter_def
    repo_GetChildTasksByParentID_def repo_GetTasksNeedingRescheduling_def
    repo_GetTasksWithCronNeedingRescheduling_def
  by (rule keeps_pool_get keeps_pool_select keeps_quiet_then [OF quiet_store.time_Now])+

lemma keeps_pool_write:
  assumes "\<And>r. task_ok (r_task r) \<Longrightarrow> task_ok (r_task (f r))"
  shows "keeps store_ok (pool_write P f failure) (\<lambda>_. True)"
  unfolding pool_write_def
  by (rule keeps_quiet_then [OF quiet_store.external], rule keepsI)
     (auto simp: store_ok_def wait_for_cancel_def update_rows_def assms intro!: rows_ok_map
       dest: rows_okD split: if_splits)

lemma keeps_tx_write:
  assumes "\<And>r. task_ok (r_task r) \<Longrightarrow> task_ok (r_task (f r))"
  shows "keeps store_ok (tx_write P f failure) (\<lambda>_. True)"
  unfolding tx_write_def
  by (rule keeps_quiet_then [OF quiet_store.external], rule keepsI)
     (auto simp: store_ok_def intro!: rows_ok_map assms task_ok_tx_view
       intro: rows_okD split: option.splits)

lemma keeps_repo_update [keeps_rules]:
  "task_ok t \<Longrightarrow> keeps store_ok (repo_UpdateTask t) (\<lambda>_. True)"
  "task_ok t \<Longrightarrow> keeps store_ok (repo_UpdateTaskWithTx t) (\<lambda>_. True)"
  "task_ok t \<Longrightarrow> keeps store_ok (update_task in_tx t) (\<lambda>_. True)"
  unfolding repo_UpdateTask_def repo_UpdateTaskWithTx_def update_task_def
  by (auto intro!: keeps_quiet_then [OF quiet_store.time_Now] keeps_pool_write keeps_tx_write)

lemma keeps_repo_delete [keeps_rules]:
  "keeps store_ok (repo_DeleteTask i) (\<lambda>_. True)"
  "keeps store_ok (repo_DeleteTaskWithTx i) (\<lambda>_. True)"
  "keeps store_ok (repo_DeleteChildTasksWithTx i) (\<lambda>_. True)"
  unfolding repo_DeleteTask_def repo_DeleteTaskWithTx_def repo_DeleteChildTasksWithTx_def
  by (auto intro!: keeps_quiet_then [OF quiet_store.time_Now] keeps_pool_write keeps_tx_write)

lemma keeps_repo_create [keeps_rules]:
  "task_ok t \<Longrightarrow> keeps store_ok (repo_CreateTask t) (\<lambda>_. True)"
  unfolding repo_CreateTask_def pool_insert_def
  by (rule keeps_quiet_then [OF quiet_store.external], rule keepsI) (auto simp: store_ok_def)

lemma keeps_tx [keeps_rules]:
  "keeps store_ok BeginTxx (\<lambda>_. True)" "keeps store_ok Commit (\<lambda>_. True)"
proof -
  show "keeps store_ok BeginTxx (\<lambda>_. True)"
    unfolding BeginTxx_def
    by (intro keeps_quiet_True steps_rules quiet_store.steps_modify quiet_store.on_begin)
  show "keeps store_ok Commit (\<lambda>_. True)"
    unfolding Commit_def
  proof (rule keeps_then [OF keeps_attempt_True [OF keeps_quiet_True [OF quiet_store.external]]])
    show "keeps store_ok (\<lambda>w. case r of Inl e \<Rightarrow> (Err e, Rollback w)
        | Inr _ \<Rightarrow> if tx w = None then (Err (ErrOther (''failed to commit transaction: '' @ tx_done)), w)
                   else (Ok (), merge_tx w)) (\<lambda>_. True)" for r :: "err + unit"
      by (rule keepsI)
         (auto simp: store_ok_def Rollback_def merge_tx_def task_ok_tx_view intro!: rows_ok_map
           split: sum.splits option.splits if_splits dest: rows_okD)
  qed
qed

lemma store_ok_Rollback: "store_ok w \<Longrightarrow> store_ok (Rollback w)"
  by (simp add: store_ok_def Rollback_def)

lemma keeps_rollback: "keeps store_ok m Q \<Longrightarrow> keeps store_ok (deferred Rollback m) Q"
  by (rule keeps_deferred) (auto intro: store_ok_Rollback)

subsection \<open>Publishing\<close>

lemmas keeps_cases = keeps_Let keeps_if keeps_case_option keeps_case_sum keeps_case_prod keeps_ret
  keeps_fail

lemma keeps_with_task:
  "keeps I m P \<Longrightarrow> (\<And>e. Q (t, e)) \<Longrightarrow> keeps I (with_task t m) Q"
  unfolding with_task_def by (rule keeps_then [OF keeps_attempt_True]) (auto intro: keeps_ret)

lemma keeps_when_True:
  "(b \<Longrightarrow> keeps I m P) \<Longrightarrow> keeps I (when_op b m) (\<lambda>_. True)"
  by (rule keeps_when_op) (auto intro: keeps_True)

lemma keeps_publishSchedule:
  assumes "task_ok t"
  shows "keeps store_ok (publishScheduleTaskEvent E in_tx t advance) (\<lambda>(t', _). task_ok t')"
proof -
  have send: "keeps store_ok (with_task t' (bindE (when_op b (update_task in_tx t')) (\<lambda>_.
      bindE (buildScheduleTaskEvent t') (publishTaskEvent E t')))) (\<lambda>(t', _). task_ok t')"
    if "task_ok t'" for t' b
  proof (rule keeps_with_task)
    show "keeps store_ok (bindE (when_op b (update_task in_tx t')) (\<lambda>_.
        bindE (buildScheduleTaskEvent t') (publishTaskEvent E t'))) (\<lambda>_. True)"
      by (rule keeps_then [OF keeps_when_True [OF keeps_repo_update(3) [OF that]]],
          rule keeps_quiet_True, intro steps_rules)
  qed (simp add: that)
  show ?thesis
    unfolding publishScheduleTaskEvent_def
    by (intro keeps_quiet_then steps_rules keeps_cases send) (simp_all add: assms)
qed

lemma keeps_publishAfterUnmute:
  "task_ok t \<Longrightarrow> keeps store_ok (publishScheduleForTaskAfterUnmute E t) (\<lambda>(t', _). task_ok t')"
  unfolding publishScheduleForTaskAfterUnmute_def by (rule keeps_publishSchedule)

lemma keeps_prepareChild:
  assumes "task_ok t"
  shows "keeps store_ok (prepareChildScheduleStartDate E in_tx t advance) (\<lambda>(t', _). task_ok t')"
  unfolding prepareChildScheduleStartDate_def
  by (intro keeps_quiet_then steps_rules keeps_cases keeps_with_task [OF keeps_repo_update(3)])
     (simp_all add: assms)

lemma keeps_publish_if_due:
  assumes "task_ok t" shows "keeps store_ok (publish_if_due E t) task_ok"
  unfolding publish_if_due_def
  by (rule keeps_quiet_then, intro steps_rules, rule keeps_if,
      rule keeps_bindE [OF keeps_publishAfterUnmute [OF assms]])
     (auto intro!: keeps_ret assms)

subsection \<open>Creating\<close>

lemma as_validation_Ok: "as_validation e w = (Ok x, w') \<Longrightarrow> e = None"
  by (simp add: as_validation_def fail_def split: option.splits)

lemma keeps_as_validation: "keeps store_ok (as_validation e) (\<lambda>_. e = None)"
  by (rule keeps_quiet) (auto intro!: steps_rules dest: as_validation_Ok)

lemma keeps_check_recurrence:
  "keeps store_ok (check_recurrence E t)
     (\<lambda>_. \<not> (recurrenceFieldSet (CronExpression t) \<and> recurrenceFieldSet (RRule t)))"
  unfolding check_recurrence_def
  by (rule keeps_bindE [OF keeps_as_validation])
     (auto simp: validateCronExpressionAndRRuleExclusive_def split: if_splits
       intro!: keeps_when_op keeps_weaken [OF keeps_as_validation])

lemma keeps_check_status: "keeps store_ok (check_status t) (\<lambda>t'. IsValid (Status t') \<and> t' = t\<lparr>Status := Status t'\<rparr>)"
  unfolding check_status_def
  by (intro keeps_if keeps_bindE [OF keeps_as_validation] keeps_ret)
     (simp_all add: ValidateTaskStatus_None)

lemma keeps_create_checks:
  "keeps store_ok (create_checks E t) task_ok"
proof -
  have ok: "task_ok (if PreRemindBeforeSeconds u = Some 0 then u\<lparr>PreRemindBeforeSeconds := None\<rparr> else u)"
    if "IsValid (Status u)" "\<not> (recurrenceFieldSet (CronExpression u) \<and> recurrenceFieldSet (RRule u))"
      "validatePreRemindBeforeSeconds (PreRemindBeforeSeconds u) = None" for u
    using that by (auto simp: task_ok_def pre_remind_ok_def validatePreRemind_None split: option.splits)
  show ?thesis
    unfolding create_checks_def
    apply (rule keeps_quiet_then, intro steps_rules)
    apply (rule keeps_bindE [OF keeps_check_status])
    apply (rule keeps_quiet_then, intro steps_rules)
    apply (rule keeps_bindE [OF keeps_check_recurrence])
    apply (rule keeps_bindE [OF keeps_as_validation])
    apply (rule keeps_quiet_then, intro steps_rules)
    apply (rule keeps_ret, rule ok; simp)
    done
qed

lemma task_ok_child:
  "task_ok t \<Longrightarrow> task_ok (first_child t i)" "task_ok t \<Longrightarrow> task_ok (next_child t i d)"
  by (auto simp: task_ok_def first_child_def next_child_def zero_task_def clonePreRemind_ok)

lemma keeps_CreateTask: "keeps store_ok (CreateTask E t) (\<lambda>_. True)"
  unfolding CreateTask_def
proof (rule keeps_bindE [OF keeps_create_checks])
  fix u assume u: "task_ok u"
  have child: "keeps store_ok (if isRecurrenceParentWithConfirmation v
      then bindE (attempt (repo_CreateTask (first_child v i))) (\<lambda>r. ret (case r of Inr c \<Rightarrow> c | Inl _ \<Rightarrow> 0))
      else ret 0) (\<lambda>_. True)" if "task_ok v" for v i
    by (rule keeps_if, rule keeps_then [OF keeps_attempt_True [OF keeps_repo_create]])
       (auto intro: keeps_ret task_ok_child that)
  show "keeps store_ok (bindE (repo_CreateTask u) (\<lambda>taskID. let t = u\<lparr>ID := taskID\<rparr> in
     bindE (record_history taskID (UserID t) TaskHistoryActionCreated None (Some (taskToMap t))) (\<lambda>_.
     bindE (if isRecurrenceParentWithConfirmation t
            then bindE (attempt (repo_CreateTask (first_child t taskID))) (\<lambda>r.
                   ret (case r of Inr childTaskID \<Rightarrow> childTaskID | Inl _ \<Rightarrow> 0))
            else ret 0) (\<lambda>childTaskID.
     bindE (touchUserActivity (activity E) (UserID t)) (\<lambda>_.
     bindE (notifyCalendarExport E taskID ''created'') (\<lambda>_.
     ret (taskID, childTaskID)))))) ) (\<lambda>_. True)"
    apply (rule keeps_then [OF keeps_repo_create [OF u]], rule keeps_Let)
    apply (rule keeps_quiet_then, intro steps_rules)
    apply (rule keeps_then [OF child], simp add: u)
    apply (rule keeps_quiet_True, intro steps_rules)
    done
qed

subsection \<open>Updating\<close>

lemma keeps_apply_update:
  assumes "task_ok old"
  shows "keeps store_ok (apply_update old u)
           (\<lambda>t. IsValid (Status t) \<and> pre_remind_ok (PreRemindBeforeSeconds t))"
proof -
  have status: "keeps store_ok (case u_Status u of None \<Rightarrow> ret () | Some s \<Rightarrow> as_validation (ValidateTaskStatus s))
      (\<lambda>_. IsValid (Status (apply_fields old u)))"
    using assms by (cases "u_Status u")
      (auto simp: apply_fields_def set_opt_def task_ok_def ValidateTaskStatus_None
        intro: keeps_ret keeps_weaken [OF keeps_as_validation])
  show ?thesis
    unfolding apply_update_def
  proof (rule keeps_bindE [OF status], rule keeps_Let, rule keeps_case_prod)
    fix v :: unit and t' e
    assume valid: "IsValid (Status (apply_fields old u))"
      and run: "applyPreRemindBeforeSecondsUpdate (apply_fields old u) (u_PreRemindBeforeSeconds u) = (t', e)"
    have "pre_remind_ok (PreRemindBeforeSeconds (apply_fields old u))"
      using assms by (simp add: apply_fields_def task_ok_def)
    then have "pre_remind_ok (PreRemindBeforeSeconds t')" by (rule applyPreRemind_ok [OF run])
    moreover have "Status t' = Status (apply_fields old u)" using applyPreRemind_frame [OF run] by auto
    ultimately show "keeps store_ok (bindE (as_validation e)
        (\<lambda>_. ret (t'\<lparr>GroupID := set_group (u_GroupID u) (GroupID t')\<rparr>)))
        (\<lambda>t. IsValid (Status t) \<and> pre_remind_ok (PreRemindBeforeSeconds t))"
      using valid by (intro keeps_quiet_then steps_rules keeps_ret) simp
  qed
qed

lemma keeps_update_checks:
  "keeps store_ok (update_checks E old t u)
     (\<lambda>_. \<not> (recurrenceFieldSet (CronExpression t) \<and> recurrenceFieldSet (RRule t)))"
  unfolding update_checks_def
  by (rule keeps_bindE [OF keeps_check_recurrence], rule keeps_quiet)
     (auto intro!: steps_rules)

lemma keeps_publish_single:
  assumes "task_ok t" shows "keeps store_ok (publish_single_changes E old u t) task_ok"
  unfolding publish_single_changes_def
  by (intro keeps_if keeps_quiet_then steps_rules keeps_ret keeps_publish_if_due assms)

lemma keeps_publish_mute:
  assumes "task_ok t" shows "keeps store_ok (publish_mute_change E old u t) task_ok"
  unfolding publish_mute_change_def
  by (intro keeps_if keeps_quiet_then steps_rules keeps_ret keeps_publish_if_due assms)

lemma task_ok_child_metadata: "task_ok t \<Longrightarrow> task_ok c \<Longrightarrow> task_ok (child_metadata old u t c)"
  by (auto simp: task_ok_def child_metadata_def clonePreRemind_ok)

lemma keeps_prepare_pending:
  assumes "task_ok c" shows "keeps store_ok (prepare_pending E advance c) (\<lambda>(c', _). task_ok c')"
  unfolding prepare_pending_def
  apply (rule keeps_quiet_then, intro steps_rules)
  apply (rule keeps_if, rule keeps_ret, simp add: assms)
  apply (rule keeps_bindE [OF keeps_prepareChild [OF assms]])
  apply (rule keeps_case_prod, rule keeps_if, rule keeps_ret, simp)
  apply (rule keeps_quiet_then, intro steps_rules, rule keeps_ret, simp)
  done

lemma keeps_sync_child:
  assumes t: "task_ok t" and c: "task_ok c"
  shows "keeps store_ok (sync_child E old u t c pending) (\<lambda>_. True)"
proof -
  have second: "keeps store_ok
      (if \<not> muteTransition old t u then ret (d, 0)
       else if Muted t then bindE (publish_delete_logged E d) (\<lambda>_. ret (d, 0))
       else prepare_pending E True d) (\<lambda>_. True)" if "task_ok d" for d
    by (intro keeps_if keeps_ret keeps_quiet_then steps_rules keeps_True [OF keeps_prepare_pending [OF that]]) simp_all
  have "keeps store_ok (bindE (repo_UpdateTaskWithTx c) (\<lambda>_.
          bindE (if b then prepare_pending E b' c else ret (c, 0)) (\<lambda>(c, n).
          bindE (if \<not> muteTransition old t u then ret (c, 0)
                 else if Muted t then bindE (publish_delete_logged E c) (\<lambda>_. ret (c, 0))
                 else prepare_pending E True c) (\<lambda>(c, n').
          ret (pending @ replicate (n + n') c))))) (\<lambda>_. True)" if "task_ok c" for c b b'
    apply (rule keeps_then [OF keeps_repo_update(2) [OF that]])
    apply (rule keeps_bindE [where P = "\<lambda>(c', _). task_ok c'"])
     apply (rule keeps_if, rule keeps_prepare_pending [OF that], rule keeps_ret, simp add: that)
    apply (rule keeps_case_prod, rule keeps_then [OF second], simp)
    apply (intro keeps_case_prod keeps_ret, simp)
    done
  note body = this
  show ?thesis
    unfolding sync_child_def
    apply (rule keeps_if, rule keeps_ret, simp)
    apply (rule keeps_quiet_then, intro steps_rules)
    apply (intro keeps_Let keeps_if keeps_ret body, simp)
    subgoal for start
      using task_ok_child_metadata [OF t c] by (cases start) simp_all
    done
qed

lemma keeps_sync_children:
  assumes t: "task_ok t" and cs: "\<forall>c \<in> set cs. task_ok c"
  shows "keeps store_ok (sync_children E old u t cs) (\<lambda>(t', _). task_ok t')"
proof -
  have del: "keeps store_ok (delete_all_children E t cs) (\<lambda>_. True)"
    unfolding delete_all_children_def
    apply (rule keeps_when_True)
    apply (rule keeps_quiet_then, intro steps_rules)
    apply (rule keeps_quiet_then, intro steps_rules)
    apply (rule keeps_then [OF keeps_repo_delete(3)])
    apply (rule keeps_quiet_True, intro steps_rules)
    done
  have act: "keeps store_ok (delete_active_children E t cs) (\<lambda>_. True)"
    unfolding delete_active_children_def
    apply (rule keeps_when_True)
    apply (rule keeps_quiet_then, intro steps_rules)
    apply (rule keeps_quiet_then, intro steps_rules)
    apply (rule keeps_for_each, rule keeps_if, rule keeps_ret, simp)
    apply (rule keeps_then [OF keeps_repo_delete(2)])
    apply (rule keeps_quiet_True, intro steps_rules)
    done
  have sync: "keeps store_ok (fold_op (sync_child E old u t) cs []) (\<lambda>_. True)"
    by (rule keeps_fold_op) (use cs in \<open>auto intro: keeps_sync_child t\<close>)
  show ?thesis
    unfolding sync_children_def
    apply (rule keeps_if)
     apply (rule keeps_then [OF del], rule keeps_bindE [OF keeps_publish_if_due [OF t]], rule keeps_ret, simp)
    apply (rule keeps_if, rule keeps_then [OF act], rule keeps_ret, simp add: t)
    apply (rule keeps_if, rule keeps_then [OF sync], rule keeps_then [OF keeps_tx(2)])
     apply (rule keeps_quiet_then)
      apply (unfold publish_pending_def, intro steps_rules, rule keeps_ret, simp add: t)
    apply (rule keeps_ret, simp add: t)
    done
qed

lemma keeps_update_children:
  assumes "task_ok t" shows "keeps store_ok (update_children E i old u t) task_ok"
  unfolding update_children_def
  apply (rule keeps_bindE [OF keeps_repo_get(3)])
  apply (rule keeps_bindE [OF keeps_sync_children [OF assms]], assumption)
  apply (rule keeps_case_prod)
  apply (rule keeps_quiet_then, intro steps_rules)
  apply (rule keeps_then [OF keeps_when_True [OF keeps_tx(2)]])
  apply (rule keeps_ret, simp)
  done

lemma steps_publish_new_child [steps_rules]: "steps quiet_store (publish_new_child E c)"
  unfolding publish_new_child_def by (intro steps_rules)

lemma keeps_add_confirmation_child:
  assumes "task_ok t" shows "keeps store_ok (add_confirmation_child E i t) (\<lambda>_. True)"
  unfolding add_confirmation_child_def
  by (intro keeps_quiet_then steps_rules keeps_case_sum keeps_ret keeps_Let
      keeps_then [OF keeps_attempt_True [OF keeps_repo_create]] keeps_quiet_True task_ok_child assms) simp_all

lemma keeps_update_body:
  assumes "task_ok t" shows "keeps store_ok (update_body E i old u t) (\<lambda>_. True)"
  unfolding update_body_def
  apply (intro keeps_Let)
  apply (rule keeps_then [OF keeps_when_True [where P = "\<lambda>_. True"]])
   apply (unfold begin_parent_tx_def, intro keeps_if keeps_fail keeps_tx)
  apply (rule keeps_then [OF keeps_repo_update(3) [OF assms]])
  apply (rule keeps_bindE [where P = task_ok])
   apply (intro keeps_if keeps_ret keeps_publish_single assms)
  apply (rule keeps_bindE [where P = task_ok])
   apply (intro keeps_if keeps_ret keeps_publish_mute; assumption)
  apply (rule keeps_bindE [where P = task_ok])
   apply (intro keeps_if keeps_ret keeps_update_children; assumption)
  apply (rule keeps_then [OF keeps_when_True [OF keeps_add_confirmation_child]], assumption)
  apply (intro keeps_quiet_True steps_rules)
  done

lemma keeps_UpdateTask: "keeps store_ok (UpdateTask E i u) (\<lambda>_. True)"
  unfolding UpdateTask_def
  apply (rule keeps_bindE [OF keeps_repo_get(1)])
  apply (rule keeps_bindE [OF keeps_apply_update], assumption)
  apply (rule keeps_bindE [OF keeps_update_checks])
  apply (rule keeps_rollback, rule keeps_update_body)
  apply (simp add: task_ok_def)
  done

lemma keeps_best: "keeps I m (\<lambda>_. True) \<Longrightarrow> keeps I (best_effort m) (\<lambda>_. True)"
  by (rule keeps_best_effort)

subsection \<open>Deleting, muting, completing\<close>

lemma keeps_DeleteTask: "keeps store_ok (DeleteTask E i) (\<lambda>_. True)"
proof -
  have children: "keeps store_ok (delete_children_in_tx E t) (\<lambda>_. True)" for t
    unfolding delete_children_in_tx_def delete_all_children_def
    apply (rule keeps_quiet_then, intro steps_rules)
    apply (rule keeps_then [OF keeps_when_True])
     apply (rule keeps_quiet_then, intro steps_rules)
     apply (rule keeps_quiet_then, intro steps_rules)
     apply (rule keeps_then [OF keeps_repo_delete(3)])
     apply (rule keeps_quiet_True, intro steps_rules)
    apply (rule keeps_ret, simp)
    done
  have in_tx: "keeps store_ok (delete_in_tx E t) (\<lambda>_. True)" for t
    unfolding delete_in_tx_def
    by (intro keeps_then [OF keeps_if [OF children keeps_ret]] keeps_then [OF keeps_repo_delete(2)]
        keeps_quiet_then [OF quiet_store.queue_delete] keeps_then [OF keeps_tx(2)] keeps_ret) simp_all
  have no_db: "keeps store_ok (delete_without_db E t) (\<lambda>_. True)" for t
    unfolding delete_without_db_def
    by (intro keeps_if keeps_fail keeps_then [OF keeps_repo_delete(1)] keeps_quiet_True steps_rules)
  show ?thesis
    unfolding DeleteTask_def
    by (intro keeps_then [OF keeps_True [OF keeps_repo_get(2)]] keeps_if no_db
        keeps_then [OF keeps_tx(1)] keeps_rollback keeps_then [OF in_tx] keeps_quiet_True steps_rules)
qed

lemma keeps_active_children: "keeps store_ok (active_children i) (\<lambda>ts. \<forall>t \<in> set ts. task_ok t)"
  unfolding active_children_def
  by (rule keeps_bindE [OF keeps_attempt_Inr [OF keeps_repo_get(3)]])
     (auto intro!: keeps_ret split: sum.split)

lemma keeps_mute_child: "task_ok c \<Longrightarrow> keeps store_ok (mute_child E c) (\<lambda>_. True)"
  unfolding mute_child_def
  by (intro keeps_Let keeps_best keeps_then [OF keeps_repo_update(1)] keeps_quiet_True steps_rules) simp

lemma keeps_unmute_child: "task_ok c \<Longrightarrow> keeps store_ok (unmute_child E c) (\<lambda>_. True)"
  unfolding unmute_child_def
  by (intro keeps_Let keeps_best keeps_then [OF keeps_repo_update(1)]
      keeps_then [OF keeps_True [OF keeps_publishAfterUnmute]] keeps_ret) simp_all

lemma keeps_MuteTask: "keeps store_ok (MuteTask E i) (\<lambda>_. True)"
  unfolding MuteTask_def
  apply (rule keeps_bindE [OF keeps_repo_get(2)])
  apply (intro keeps_if keeps_fail keeps_ret keeps_Let, simp)
  apply (rule keeps_then [OF keeps_repo_update(1)], simp)
  apply (rule keeps_then [OF keeps_when_True])
   apply (rule keeps_bindE [OF keeps_active_children], rule keeps_for_each, rule keeps_mute_child, simp)
  apply (intro keeps_quiet_True steps_rules)
  done

lemma keeps_UnmuteTask: "keeps store_ok (UnmuteTask E i) (\<lambda>_. True)"
  unfolding UnmuteTask_def
  apply (rule keeps_bindE [OF keeps_repo_get(2)])
  apply (intro keeps_if keeps_fail keeps_ret keeps_Let, simp)
  apply (rule keeps_then [OF keeps_repo_update(1)], simp)
  apply (rule keeps_then [OF keeps_when_True])
   apply (rule keeps_bindE [OF keeps_active_children], rule keeps_for_each, rule keeps_unmute_child, simp)
  apply (rule keeps_then [OF keeps_True [OF keeps_publishAfterUnmute]], simp)
  apply (intro keeps_quiet_True steps_rules)
  done

lemma keeps_prepareCompletionShift:
  "keeps store_ok (prepareCompletionShift E t c) (\<lambda>s. task_ok (shifted_parent s))"
proof -
  have ok: "task_ok (shifted_parent \<lparr>ps_parent = p, ps_anchor = cs_Anchor s, ps_nextStart = cs_NextStart s,
      ps_cron = cs_Cron s, ps_rrule = cs_RRule s, ps_oldStart = StartDate p,
      ps_oldCron = copyStringPtr (CronExpression p), ps_oldRRule = copyStringPtr (RRule p)\<rparr>)"
    if p: "task_ok p" and run: "shiftRecurrenceFromCompletion (lib E) p k c = Ok s" for p k s
  proof (cases "recurrenceFieldSet (CronExpression p)")
    case True
    then have "\<not> recurrenceFieldSet (RRule p)"
      using shiftRecurrence_rejects [of p] run by fastforce
    then show ?thesis using shiftRecurrence_Ok [OF run] True p
      by (auto simp: shifted_parent_def task_ok_def split: option.split)
  next
    case False
    then show ?thesis using shiftRecurrence_Ok [OF run] p
      by (auto simp: shifted_parent_def task_ok_def split: option.split)
  qed
  have shift: "keeps store_ok (map_err f (lift_outcome r)) (\<lambda>s. r = Ok s)" for f and r :: "completion_shift outcome"
    by (intro keeps_map_err keeps_lift_outcome)
  show ?thesis
    unfolding prepareCompletionShift_def
    apply (intro keeps_case_option keeps_fail)
    apply (rule keeps_bindE [OF keeps_map_err [OF keeps_repo_get(2)]])
    apply (intro keeps_if keeps_fail keeps_Let)
    apply (rule keeps_bindE [OF shift])
    apply (rule keeps_quiet_then, intro steps_rules)
    apply (rule keeps_quiet_then, intro steps_rules)
    apply (intro keeps_if keeps_fail keeps_ret ok; assumption)
    done
qed

lemma keeps_completion_shift:
  "keeps store_ok (completion_shift E t b now) (\<lambda>r. \<forall>s. r = Some s \<longrightarrow> task_ok (shifted_parent s))"
  unfolding completion_shift_def
  by (rule keeps_quiet_then, intro steps_rules, rule keeps_if,
      rule keeps_bindE [OF keeps_prepareCompletionShift]) (auto intro: keeps_ret)

lemma keeps_done_in_tx:
  assumes "task_ok t" "\<forall>s. shift = Some s \<longrightarrow> task_ok (shifted_parent s)"
  shows "keeps store_ok (done_in_tx E t shift) (\<lambda>_. True)"
  unfolding done_in_tx_def
  apply (rule keeps_then [OF keeps_repo_update(2) [OF assms(1)]])
  apply (rule keeps_then [where m = "case shift of None \<Rightarrow> ret () | Some s \<Rightarrow> repo_UpdateTaskWithTx (shifted_parent s)"])
   apply (rule keeps_case_option, rule keeps_ret, simp, rule keeps_repo_update(2), simp add: assms(2))
  apply (rule keeps_quiet_then, intro steps_rules, rule keeps_tx(2))
  done

lemma keeps_create_next_child:
  assumes "\<forall>s. shift = Some s \<longrightarrow> task_ok (shifted_parent s)"
  shows "keeps store_ok (create_next_child E t shift) (\<lambda>_. True)"
proof -
  have next_ok: "keeps store_ok (next_occurrence E p shift) (\<lambda>r. \<forall>q d. r = Some (q, d) \<longrightarrow> task_ok q)" for p
    unfolding next_occurrence_def
    apply (rule keeps_case_option)
     apply (rule keeps_bindE [OF keeps_attempt_Inr [OF keeps_repo_get(2)]])
     apply (rule keeps_case_sum, rule keeps_ret, simp, rule keeps_if)
      apply (rule keeps_quiet_then, intro steps_rules)
      apply (rule keeps_quiet_then, intro steps_rules)
      apply (rule keeps_ret, simp split: sum.split)
     apply (rule keeps_ret, simp)
    apply (rule keeps_ret, simp add: assms)
    done
  show ?thesis
    unfolding create_next_child_def
    apply (intro keeps_case_option keeps_ret keeps_bindE [OF next_ok] keeps_case_prod keeps_if keeps_Let; simp?)
    apply (rule keeps_then [OF keeps_attempt_True [OF keeps_repo_create]], rule task_ok_child, simp)
    apply (intro keeps_quiet_True steps_rules)
    done
qed

lemma task_ok_done [simp]: "task_ok t \<Longrightarrow> task_ok (done_task t now)" "task_ok c \<Longrightarrow> task_ok (done_child t now c)"
  by (simp_all add: task_ok_def done_task_def done_child_def Let_def)

lemma keeps_finish_children: "keeps store_ok (finish_children E t) (\<lambda>_. True)"
proof -
  have child: "keeps store_ok (finish_child E t n now c) (\<lambda>_. True)" if "task_ok c" for n now c
    unfolding finish_child_def
    by (intro keeps_if keeps_ret keeps_Let keeps_then [OF keeps_repo_update(2)] keeps_quiet_True steps_rules)
       (simp_all add: that)
  have in_tx: "keeps store_ok (finish_children_in_tx E t n cs) (\<lambda>_. True)"
    if "\<forall>c \<in> set cs. task_ok c" for n cs
    unfolding finish_children_in_tx_def
    by (intro keeps_then [OF keeps_tx(1)] keeps_rollback keeps_quiet_then [OF quiet_store.time_Now]
        keeps_then [OF keeps_for_each] child keeps_tx(2)) (use that in auto)
  show ?thesis
    unfolding finish_children_def
    apply (rule keeps_if, rule keeps_ret, simp)
    apply (rule keeps_quiet_then, intro steps_rules)
    apply (rule keeps_quiet_then, intro steps_rules)
    apply (rule keeps_bindE [OF keeps_attempt_Inr [OF keeps_repo_get(3)]])
    apply (intro keeps_case_sum keeps_if keeps_ret keeps_best in_tx; simp)
    done
qed

lemma keeps_MarkTaskAsDone: "keeps store_ok (MarkTaskAsDone E i b) (\<lambda>_. True)"
proof -
  have after: "keeps store_ok (after_done E t s shift) (\<lambda>_. True)"
    if "\<forall>s. shift = Some s \<longrightarrow> task_ok (shifted_parent s)" for t s shift
    unfolding after_done_def
    apply (rule keeps_quiet_then, intro steps_rules)
    apply (rule keeps_then [OF keeps_create_next_child [OF that]])
    apply (rule keeps_then [OF keeps_finish_children])
    apply (intro keeps_quiet_True steps_rules)
    done
  show ?thesis
    unfolding MarkTaskAsDone_def
    apply (rule keeps_bindE [OF keeps_repo_get(2)])
    apply (rule keeps_if, rule keeps_ret, simp)
    apply (rule keeps_quiet_then, intro steps_rules)
    apply (rule keeps_bindE [OF keeps_completion_shift])
    apply (rule keeps_if, rule keeps_fail)
    apply (rule keeps_then [OF keeps_tx(1)])
    apply (rule keeps_rollback)
    apply (rule keeps_then [OF keeps_done_in_tx after]; simp)
    done
qed

subsection \<open>Rescheduling\<close>

lemma IsValid_rescheduled: "task_ok t \<Longrightarrow> task_ok (t\<lparr>StartDate := d, Status := TaskStatusRescheduled\<rparr>)"
  by (simp add: task_ok_def)

lemma keeps_RescheduleTask: "task_ok t \<Longrightarrow> keeps store_ok (RescheduleTask E t) (\<lambda>_. True)"
  unfolding RescheduleTask_def publish_rescheduled_def
  apply (rule keeps_quiet_then, intro steps_rules)
  apply (rule keeps_quiet_then, intro steps_rules)
  apply (rule keeps_quiet_then, intro steps_rules)
  apply (rule keeps_then [OF keeps_repo_update(1)], simp add: IsValid_rescheduled)
  apply (intro keeps_quiet_True steps_rules)
  done

lemma keeps_reschedule_cron: "task_ok t \<Longrightarrow> keeps store_ok (reschedule_cron E t) (\<lambda>_. True)"
  unfolding reschedule_cron_def
  by (intro keeps_quiet_then steps_rules keeps_case_option keeps_ret keeps_best keeps_repo_update(1)) simp_all

lemma keeps_RunScheduledRescheduling: "keeps store_ok (RunScheduledRescheduling E) (\<lambda>_. True)"
  unfolding RunScheduledRescheduling_def RescheduleTasks_def RescheduleCronTasks_def
  apply (rule keeps_bindE [OF keeps_repo_get(4)])
  apply (rule keeps_if, rule keeps_ret, simp)
  apply (rule keeps_then)
   apply (rule keeps_for_each, rule keeps_best, rule keeps_RescheduleTask, simp)
  apply (rule keeps_bindE [OF keeps_repo_get(5)])
  apply (rule keeps_if, rule keeps_for_each, rule keeps_reschedule_cron, simp)
  apply (rule keeps_ret, simp)
  done

end
