(* ===== verification/Service_Machine.thy ===== *)
theory Service_Machine
  imports Task_Invariant
begin

text \<open>
  The task service as a state machine.  A request arrives with a fresh context and runs to its end;
  between requests the clock, the failures to come and the tables of the other services change as
  they like.  Reachable states start from an empty table of tasks.

  Lemmas: what holds of every reachable state, and what every run leaves of the rows there were.
\<close>

datatype request =
    ReqCreate task
  | ReqUpdate int task_update_request
  | ReqDelete int
  | ReqMute int
  | ReqUnmute int
  | ReqDone int "bool option"
  | ReqQueue scheduled_task
  | ReqDailyRun
  | ReqAttachmentAdded int int AttachmentHistoryMeta
  | ReqAttachmentRemoved int int AttachmentHistoryMeta

definition discard :: "'a wop \<Rightarrow> unit wop" where
  "discard m = bindE m (\<lambda>_. ret ())"

fun handle :: "env \<Rightarrow> request \<Rightarrow> unit wop" where
  "handle E (ReqCreate t) = discard (CreateTask E t)"
| "handle E (ReqUpdate i u) = discard (UpdateTask E i u)"
| "handle E (ReqDelete i) = DeleteTask E i"
| "handle E (ReqMute i) = discard (MuteTask E i)"
| "handle E (ReqUnmute i) = discard (UnmuteTask E i)"
| "handle E (ReqDone i b) = discard (MarkTaskAsDone E i b)"
| "handle E (ReqQueue st) = QueueTask E st"
| "handle E ReqDailyRun = RunScheduledRescheduling E"
| "handle E (ReqAttachmentAdded i u m) = RecordAttachmentAdded E i u m"
| "handle E (ReqAttachmentRemoved i u m) = RecordAttachmentRemoved E i u m"

definition arrive :: "world \<Rightarrow> world" where
  "arrive w = w\<lparr>cancelled := False\<rparr>"

inductive machine_step :: "env \<Rightarrow> world \<Rightarrow> world \<Rightarrow> bool" for E where
  serve: "handle E q (arrive w) = (r, w') \<Longrightarrow> machine_step E w w'"
| outside: "0 \<le> d \<Longrightarrow> machine_step E w (w\<lparr>clock := clock w + d, ticks := ts, faults := fs,
     users := us, messengers := ms, user_messengers := ums, sync_links := ls\<rparr>)"

inductive_cases machine_stepE: "machine_step E w w'"
inductive_simps machine_step_simps: "machine_step E w w'"

definition initial :: "world \<Rightarrow> bool" where
  "initial w \<longleftrightarrow> tasks w = [] \<and> tx w = None"

inductive reachable :: "env \<Rightarrow> world \<Rightarrow> bool" for E where
  start: "initial w \<Longrightarrow> reachable E w"
| step: "reachable E w \<Longrightarrow> machine_step E w w' \<Longrightarrow> reachable E w'"

subsection \<open>Every operation, in every relation\<close>

context service_run begin

lemma handle [steps_rules]: "steps R (handle E q)"
  by (cases q) (auto simp: discard_def intro!: steps_rules)

end

lemma steps_closed_transactions:
  "steps tx_closed (UpdateTask E i u)" "steps tx_closed (DeleteTask E i)"
  "steps tx_closed (MarkTaskAsDone E i b)"
proof -
  show "steps tx_closed (UpdateTask E i u)"
    unfolding UpdateTask_def by (intro steps_rules deferred_closes)
  show "steps tx_closed (DeleteTask E i)"
    unfolding DeleteTask_def by (intro steps_rules begin_deferred_closes)
  show "steps tx_closed (MarkTaskAsDone E i b)"
    unfolding MarkTaskAsDone_def by (intro steps_rules begin_deferred_closes)
qed

lemma steps_closed_handle: "steps tx_closed (handle E q)"
  by (cases q) (auto simp: discard_def intro!: steps_rules steps_closed_transactions)

lemma keeps_handle: "keeps store_ok (handle E q) (\<lambda>_. True)"
proof (cases q)
  case (ReqQueue st)
  have "steps quiet_store (QueueTask E st)"
    unfolding QueueTask_def by (intro steps_rules)
  then show ?thesis using ReqQueue by (simp add: keeps_quiet_True)
qed (auto simp: discard_def keeps_DeleteTask keeps_RunScheduledRescheduling
    intro!: keeps_quiet_True steps_rules
      keeps_then [OF keeps_CreateTask] keeps_then [OF keeps_UpdateTask] keeps_then [OF keeps_MuteTask]
      keeps_then [OF keeps_UnmuteTask] keeps_then [OF keeps_MarkTaskAsDone] keeps_ret)

subsection \<open>The invariant of the machine\<close>

definition machine_inv :: "world \<Rightarrow> bool" where
  "machine_inv w \<longleftrightarrow> store_wf w \<and> store_ok w \<and> tx w = None"

lemma machine_inv_initial: "initial w \<Longrightarrow> machine_inv w"
  by (simp add: machine_inv_def initial_def store_wf_def store_ok_def)

lemma arrive_same [simp]:
  "store_wf (arrive w) = store_wf w" "store_ok (arrive w) = store_ok w" "tx (arrive w) = tx w"
  "tasks (arrive w) = tasks w" "next_id (arrive w) = next_id w"
  by (cases "tx w"; simp add: arrive_def store_wf_def store_ok_def)+

lemma machine_inv_outside:
  "tasks w' = tasks w \<Longrightarrow> next_id w' = next_id w \<Longrightarrow> tx w' = tx w \<Longrightarrow> machine_inv w \<Longrightarrow> machine_inv w'"
  by (cases "tx w") (simp_all add: machine_inv_def store_wf_def store_ok_def)

lemma machine_step_rows:
  assumes step: "machine_step E w w'" and inv: "machine_inv w"
  shows "machine_inv w' \<and> rows_le (tasks w) (tasks w') (next_id w) \<and> next_id w \<le> next_id w'"
  using step
proof cases
  case (serve q r)
  have "world_le (arrive w) w'" by (rule stepsD [OF world_le.handle serve])
  moreover have "store_ok w'"
    using keeps_inv [OF keeps_handle _ serve] inv by (simp add: machine_inv_def)
  moreover have "tx w' = None"
    using stepsD [OF steps_closed_handle serve] inv by (simp add: machine_inv_def tx_closed_def)
  ultimately show ?thesis using inv by (simp add: machine_inv_def world_le_def)
next
  case (outside d ts fs us ms ums ls)
  have "machine_inv w'" by (rule machine_inv_outside [OF _ _ _ inv]) (simp_all add: outside)
  then show ?thesis by (simp add: outside)
qed

lemma reachable_inv: "reachable E w \<Longrightarrow> machine_inv w"
  by (induction rule: reachable.induct) (auto intro: machine_inv_initial dest: machine_step_rows)

lemma steps_rows:
  assumes "(machine_step E)\<^sup>*\<^sup>* w w'" and "machine_inv w"
  shows "machine_inv w' \<and> rows_le (tasks w) (tasks w') (next_id w) \<and> next_id w \<le> next_id w'"
  using assms
proof (induction rule: rtranclp_induct)
  case base
  then show ?case by simp
next
  case (step v u)
  then show ?case using machine_step_rows [OF step(2)] rows_le_trans by fastforce
qed

end
