(* ===== verification/Calendar_Runs.thy ===== *)
theory Calendar_Runs
  imports Calendar_Export Service_Machine
begin

text \<open>
  Relations between the states before and after a run of the calendar service.  As for the task
  service, the locales name what a relation has to allow, each operation is followed once in the
  smallest of them, and a relation on the state of the task service (\<open>C\<close>) comes with each.
\<close>

subsection \<open>The interfaces\<close>

text \<open>Reading, the history, and calls of Google.\<close>

locale calendar_reads = run_preorder R + core: silent_run C
  for R :: "cal_world \<Rightarrow> cal_world \<Rightarrow> bool" and C :: "world \<Rightarrow> world \<Rightarrow> bool" +
  assumes on_core: "C (core v) w' \<Longrightarrow> R v (v\<lparr>core := w'\<rparr>)"
    and on_reply: "replies v = r # rs \<Longrightarrow> g_error r = Some m \<Longrightarrow> R v (v\<lparr>replies := rs\<rparr>)"
    and on_call: "replies v = r # rs \<Longrightarrow> g_error r = None \<Longrightarrow>
      R v (v\<lparr>replies := rs, google := google v @ [call]\<rparr>)"
begin

lemma in_core [steps_rules]: "steps C m \<Longrightarrow> steps R (in_core m)"
  by (simp add: steps_def in_core_def on_core)

lemma google_op [steps_rules]: "steps R (google_op call text f)"
  by (auto simp: steps_def google_op_def run_refl intro: on_reply on_call split: list.split option.split)

lemma link_reads [steps_rules]:
  "steps R (GetByEvent p c e)" "steps R (ListByBindingID i)" "steps R (ListByCalendarIDAndOrigin c orig)"
  "steps R (ListTaskIDsByProvider i p)"
  unfolding GetByEvent_def ListByBindingID_def ListByCalendarIDAndOrigin_def ListTaskIDsByProvider_def
  by (intro steps_rules)+

lemma binding_reads [steps_rules]:
  "steps R (binding_GetByID i)" "steps R (binding_ListByUserID i)" "steps R (CountByGroupID i)"
  "steps R ListActiveForSync" "steps R (ListDueForSync now cap)"
  unfolding binding_GetByID_def binding_ListByUserID_def CountByGroupID_def ListActiveForSync_def
    ListDueForSync_def by (intro steps_rules)+

lemma account_reads [steps_rules]: "steps R (account_GetByUserID i)" "steps R (account_GetByID i)"
  unfolding account_GetByUserID_def account_GetByID_def by (intro steps_rules)+

lemma outbox_reads [steps_rules]: "steps R CountPending" "steps R (CountByUserID i)"
  unfolding CountPending_def CountByUserID_def by (intro steps_rules)+

lemma client_steps [steps_rules]:
  "steps R (decryptToken E a)" "steps R (clientForAccount E a)" "steps R (clientForUser E i)"
  "steps R (clientForAccountID E i)" "steps R (ListGoogleCalendars E i)" "steps R (revoke_remote E a)"
  unfolding ListGoogleCalendars_def clientForUser_def clientForAccountID_def revoke_remote_def
    clientForAccount_def decryptToken_def by (intro steps_rules)+

lemma recordImportedTaskHistory [steps_rules]: "steps R (recordImportedTaskHistory E action t x y)"
  unfolding recordImportedTaskHistory_def by (intro steps_rules)

lemma check_binding_messenger [steps_rules]: "steps R (check_binding_messenger req)"
  unfolding check_binding_messenger_def by (intro steps_rules)

lemma export_reads [steps_rules]:
  "steps R (exporting_binding l)" "steps R (link_targets t i action)" "steps R (account_of i)"
  unfolding exporting_binding_def link_targets_def account_of_def
  by (intro steps_rules; simp add: steps_ret split: bool.split option.split; intro steps_rules allI impI)+

lemma list_opts [steps_rules]: "steps R (list_opts E b p)"
  unfolding list_opts_def by (intro steps_rules)

end

text \<open>Writing links, bindings, and both; creating a binding and revoking an account.\<close>

locale link_run = calendar_reads +
  assumes link_create [steps_rules]: "steps R (link_Create l)"
    and link_update [steps_rules]: "steps R (link_Update l)"
    and link_delete [steps_rules]: "steps R (link_Delete i)"

locale binding_run = calendar_reads +
  assumes binding_update [steps_rules]: "steps R (binding_Update b)"
    and binding_remove [steps_rules]: "steps R (binding_SoftDelete i)"
    and binding_clear [steps_rules]: "steps R (ClearSyncToken i)"

text \<open>Writing tasks.\<close>

locale calendar_tasks = calendar_reads + core: publish_run C
begin

lemma imported_steps [steps_rules]:
  "steps R (imported_schedule E t)" "steps R (imported_delete E t)"
  unfolding imported_schedule_def imported_delete_def by (intro steps_rules)+

lemma applyImportedDeletePolicy [steps_rules]: "steps R (applyImportedDeletePolicy E p t)"
  unfolding applyImportedDeletePolicy_def by (intro steps_rules)

lemma drop_imported [steps_rules]: "steps R (drop_imported E b l)"
  unfolding drop_imported_def by (intro steps_rules)

lemma save_steps [steps_rules]:
  "steps R (save_imported E old t)" "steps R (republish_imported E k old mapped t)"
  "steps R (update_imported E l mapped)"
  unfolding save_imported_def republish_imported_def update_imported_def by (intro steps_rules)+

end

locale removal_run = calendar_tasks + binding_run +
  assumes account_revoke [steps_rules]: "steps R (account_Revoke i)"
begin

lemma removal_steps [steps_rules]: "steps R (DeleteBinding E i)" "steps R (DisconnectGoogle E i)"
  unfolding DisconnectGoogle_def DeleteBinding_def by (intro steps_rules)+

end

locale import_run = calendar_tasks + link_run + binding_run
begin

lemma MapEventToTaskFields [steps_rules]: "steps C (MapEventToTaskFields L ev u g m)"
  unfolding MapEventToTaskFields_def by (intro steps_rules)

lemma event_steps [steps_rules]:
  "steps R (applyCancelledEvent E b l)" "steps R (find_link b ev link)"
  "steps R (create_imported E b ev mapped now)"
  unfolding applyCancelledEvent_def create_imported_def find_link_def
  by (intro steps_rules; auto split: option.split intro!: steps_rules)+

lemma upsertImportedEvent [steps_rules]: "steps R (upsertImportedEvent E b ev)"
  unfolding upsertImportedEvent_def by (intro steps_rules)

lemma import_pages [steps_rules]: "steps R (import_pages E n b p)"
proof (induction n arbitrary: b p)
  case (Suc n)
  show ?case unfolding import_pages.simps by (intro steps_rules Suc)
qed (simp add: steps_ret)

lemma importEvents [steps_rules]: "steps R (importEvents E b)"
  unfolding importEvents_def steps_def using import_pages unfolding steps_def by blast

lemma binding_marks [steps_rules]:
  "steps R (markBindingError b e)" "steps R (markBindingSynced b)"
  "steps R (refreshBindingCalendarSummary b)"
  unfolding markBindingError_def markBindingSynced_def refreshBindingCalendarSummary_def
  by (intro steps_rules; auto split: sum.split option.split intro!: steps_rules)+

lemma SyncBinding [steps_rules]: "steps R (SyncBinding E i)"
  unfolding SyncBinding_def by (intro steps_rules)

end

text \<open>Writing events at Google, and the links to them.\<close>

context link_run begin

lemma write_event [steps_rules]: "steps R (write_event E b t l)"
  unfolding write_event_def by (intro steps_rules)

lemma export_steps [steps_rules]:
  "steps R (exportUpsert E p)" "steps R (exportDelete E p)" "steps R (processOutboxItem E item)"
  unfolding exportUpsert_def exportDelete_def processOutboxItem_def by (intro steps_rules)+

end

text \<open>The outbox.\<close>

locale enqueue_run = calendar_reads +
  assumes enqueue [steps_rules]: "steps R (Enqueue kind p)"
begin

lemma enqueue_steps [steps_rules]:
  "steps R (enqueueExportDeleteByExportedLink i)" "steps R (enqueueExportDeleteForGoneTask i)"
  "steps R (enqueue_all kind i action ids)"
  unfolding enqueueExportDeleteByExportedLink_def enqueueExportDeleteForGoneTask_def enqueue_all_def
  by (intro steps_rules)+

lemma EnqueueExport [steps_rules]: "steps R (EnqueueExport E i action)"
  unfolding EnqueueExport_def by (intro steps_rules)

lemma calendar_OnTaskChanged [steps_rules]: "steps R (calendar_OnTaskChanged E i action)"
  unfolding calendar_OnTaskChanged_def by (intro steps_rules)

end

locale opt_in_run = enqueue_run + link_run
begin

lemma EnableTaskExport [steps_rules]: "steps R (EnableTaskExport E i b)"
  unfolding EnableTaskExport_def by (intro steps_rules)

end

locale settle_run = link_run +
  assumes mark_done [steps_rules]: "steps R (MarkDone i)"
    and mark_failed [steps_rules]: "steps R (MarkFailed i text)"
    and mark_retry: "n < maxOutboxAttempts \<Longrightarrow> steps R (MarkRetry i n at text)"
    and claim [steps_rules]: "steps R (ClaimDue n)"
begin

lemma settle_item [steps_rules]: "steps R (settle_item E item)"
  unfolding settle_item_def Let_def
proof (intro steps_bindE steps_attempt steps_case_sum, goal_cases)
  case (2 x e)
  then show ?case by (cases "ob_Attempts item + 1 \<ge> maxOutboxAttempts") (auto intro!: steps_rules mark_retry)
qed (intro steps_rules)+

lemma ProcessOutbox [steps_rules]: "steps R (ProcessOutbox E)"
  unfolding ProcessOutbox_def by (intro steps_rules)

end

locale round_run = import_run + settle_run
begin

lemma runOnce [steps_rules]: "steps R (runOnce E)"
  unfolding runOnce_def by (intro steps_rules)

end

locale calendar_run = round_run + removal_run + opt_in_run +
  assumes binding_create [steps_rules]: "steps R (binding_Create b)"
begin

lemma CreateBinding [steps_rules]: "steps R (CreateBinding req)"
  unfolding CreateBinding_def by (intro steps_rules)

end

end
