(* ===== verification/Calendar_Invariant.thy ===== *)
theory Calendar_Invariant
  imports Calendar_Runs
begin

text \<open>
  The invariant of the calendar tables and what every operation of the calendar service leaves of
  them: the interpretation of \<open>calendar_run\<close> with the relation \<open>cal_le\<close>.
\<close>

subsection \<open>The relation on the state of the task service\<close>

definition core_le :: "world \<Rightarrow> world \<Rightarrow> bool" where
  "core_le w w' \<longleftrightarrow> world_le w w' \<and> tx_closed w w'"

lemma steps_core_le: "steps core_le m \<longleftrightarrow> steps world_le m \<and> steps tx_closed m"
  by (auto simp: steps_def core_le_def)

interpretation core_le: run_preorder core_le
proof
  show "core_le w w" for w by (simp add: core_le_def world_le_refl tx_closed_def)
  show "core_le u w" if "core_le u v" "core_le v w" for u v w
    using that by (auto simp: core_le_def tx_closed_def intro: world_le_trans)
qed

interpretation core_le: publish_run core_le
proof
  show "steps core_le (Sleep d)" if "0 \<le> d" for d
    by (simp add: steps_core_le world_le.sleep tx_closed.sleep that)
  show "core_le w (Rollback w)" for w
    by (simp add: core_le_def world_le.rollback tx_closed.rollback)
qed (simp add: steps_core_le; intro conjI steps_rules)+

subsection \<open>The tables\<close>

definition links_wf :: "cal_world \<Rightarrow> bool" where
  "links_wf v \<longleftrightarrow>
     distinct (map l_ID (links v)) \<and> distinct (map event_key (links v)) \<and>
     distinct (map task_key (links v)) \<and>
     (\<forall>l \<in> set (links v). l_ID l < next_link v \<and> l_TaskID l \<in> row_id ` set (tasks (core v)))"

definition bindings_wf :: "cal_world \<Rightarrow> bool" where
  "bindings_wf v \<longleftrightarrow>
     distinct (map cb_ID (bindings v)) \<and>
     distinct (map (\<lambda>b. (cb_GoogleAccountID b, cb_GoogleCalendarID b)) (bindings v)) \<and>
     (\<forall>b \<in> set (bindings v). cb_ID b < next_binding v)"

definition item_ok :: "sync_outbox \<Rightarrow> bool" where
  "item_ok x \<longleftrightarrow>
     ob_Attempts x < maxOutboxAttempts \<and>
     ob_Status x \<in> {SyncOutboxStatusPending, SyncOutboxStatusProcessing, SyncOutboxStatusDone,
                    SyncOutboxStatusFailed}"

definition outbox_wf :: "cal_world \<Rightarrow> bool" where
  "outbox_wf v \<longleftrightarrow>
     distinct (map ob_ID (outbox v)) \<and> (\<forall>x \<in> set (outbox v). ob_ID x < next_outbox v \<and> item_ok x)"

definition cal_wf :: "cal_world \<Rightarrow> bool" where
  "cal_wf v \<longleftrightarrow> store_wf (core v) \<and> links_wf v \<and> bindings_wf v \<and> outbox_wf v"

text \<open>A binding keeps its key, owner, account and calendar, and a deleted one never changes.\<close>

definition binding_le :: "calendar_binding \<Rightarrow> calendar_binding \<Rightarrow> bool" where
  "binding_le b c \<longleftrightarrow>
     cb_ID c = cb_ID b \<and> cb_UserID c = cb_UserID b \<and> cb_GoogleAccountID c = cb_GoogleAccountID b \<and>
     cb_GoogleCalendarID c = cb_GoogleCalendarID b \<and> (\<not> binding_live b \<longrightarrow> c = b)"

text \<open>An item keeps what it asks for.\<close>

definition item_le :: "sync_outbox \<Rightarrow> sync_outbox \<Rightarrow> bool" where
  "item_le x y \<longleftrightarrow> ob_ID y = ob_ID x \<and> ob_Kind y = ob_Kind x \<and> ob_Payload y = ob_Payload x"

text \<open>\<open>grows le xs ys\<close>: the elements stay in their place, and more may follow.\<close>

definition grows :: "('a \<Rightarrow> 'a \<Rightarrow> bool) \<Rightarrow> 'a list \<Rightarrow> 'a list \<Rightarrow> bool" where
  "grows le xs ys \<longleftrightarrow> length xs \<le> length ys \<and> (\<forall>k < length xs. le (xs ! k) (ys ! k))"

lemma grows_refl: "(\<And>x. le x x) \<Longrightarrow> grows le xs xs"
  by (simp add: grows_def)

lemma grows_trans:
  "(\<And>x y z. le x y \<Longrightarrow> le y z \<Longrightarrow> le x z) \<Longrightarrow> grows le xs ys \<Longrightarrow> grows le ys zs \<Longrightarrow> grows le xs zs"
  unfolding grows_def by (metis order.strict_trans2 order.trans)

lemma grows_snoc: "(\<And>x. le x x) \<Longrightarrow> grows le xs (xs @ ys)"
  by (simp add: grows_def nth_append)

lemma grows_map: "(\<And>x. le x (f x)) \<Longrightarrow> grows le xs (map f xs)"
  by (simp add: grows_def)

lemma binding_le_refl [simp]: "binding_le b b"
  by (simp add: binding_le_def)

lemma binding_le_trans: "binding_le b c \<Longrightarrow> binding_le c d \<Longrightarrow> binding_le b d"
  by (auto simp: binding_le_def binding_live_def)

lemma item_le_refl [simp]: "item_le x x"
  by (simp add: item_le_def)

lemma item_le_trans: "item_le x y \<Longrightarrow> item_le y z \<Longrightarrow> item_le x z"
  by (simp add: item_le_def)

lemma binding_rows_trans:
  "grows binding_le as bs \<Longrightarrow> grows binding_le bs cs \<Longrightarrow> grows binding_le as cs"
  by (rule grows_trans [of binding_le]) (rule binding_le_trans)

lemma item_rows_trans: "grows item_le as bs \<Longrightarrow> grows item_le bs cs \<Longrightarrow> grows item_le as cs"
  by (rule grows_trans [of item_le]) (rule item_le_trans)

definition cal_le :: "cal_world \<Rightarrow> cal_world \<Rightarrow> bool" where
  "cal_le v v' \<longleftrightarrow>
     tx_closed (core v) (core v') \<and>
     (cal_wf v \<longrightarrow>
        cal_wf v' \<and> rows_le (tasks (core v)) (tasks (core v')) (next_id (core v)) \<and>
        next_id (core v) \<le> next_id (core v') \<and>
        grows binding_le (bindings v) (bindings v') \<and> grows item_le (outbox v) (outbox v') \<and>
        prefix (google v) (google v') \<and> suffix (replies v') (replies v) \<and>
        next_link v \<le> next_link v' \<and> clock (core v) \<le> clock (core v'))"

lemma cal_leI:
  "tx_closed (core v) (core v') \<Longrightarrow>
   (cal_wf v \<Longrightarrow> cal_wf v' \<and> rows_le (tasks (core v)) (tasks (core v')) (next_id (core v)) \<and>
        next_id (core v) \<le> next_id (core v') \<and>
        grows binding_le (bindings v) (bindings v') \<and> grows item_le (outbox v) (outbox v') \<and>
        prefix (google v) (google v') \<and> suffix (replies v') (replies v) \<and>
        next_link v \<le> next_link v' \<and> clock (core v) \<le> clock (core v')) \<Longrightarrow> cal_le v v'"
  by (simp add: cal_le_def)

lemma cal_le_refl: "cal_le v v"
  by (simp add: cal_le_def tx_closed_def grows_refl)

lemma cal_le_trans: "cal_le u v \<Longrightarrow> cal_le v w \<Longrightarrow> cal_le u w"
proof (rule cal_leI)
  assume uv: "cal_le u v" and vw: "cal_le v w"
  then show "tx_closed (core u) (core w)"
    unfolding cal_le_def by (blast intro: tx_closed_trans)
  assume "cal_wf u"
  note a = uv [unfolded cal_le_def, THEN conjunct2, rule_format, OF this]
  then have "cal_wf v" by simp
  note b = vw [unfolded cal_le_def, THEN conjunct2, rule_format, OF this]
  have "rows_le (tasks (core u)) (tasks (core w)) (next_id (core u))"
    using a b rows_le_trans by blast
  moreover have "grows binding_le (bindings u) (bindings w)"
    using a b binding_rows_trans by blast
  moreover have "grows item_le (outbox u) (outbox w)"
    using a b item_rows_trans by blast
  moreover have "prefix (google u) (google w)" "suffix (replies w) (replies u)"
    using a b prefix_order.trans suffix_order.trans by blast+
  moreover have "next_id (core u) \<le> next_id (core w)" "next_link u \<le> next_link w"
    "clock (core u) \<le> clock (core w)"
    using a b order.trans by blast+
  ultimately show "cal_wf w \<and> rows_le (tasks (core u)) (tasks (core w)) (next_id (core u)) \<and>
        next_id (core u) \<le> next_id (core w) \<and>
        grows binding_le (bindings u) (bindings w) \<and> grows item_le (outbox u) (outbox w) \<and>
        prefix (google u) (google w) \<and> suffix (replies w) (replies u) \<and>
        next_link u \<le> next_link w \<and> clock (core u) \<le> clock (core w)"
    using b by blast
qed

interpretation cal_le: run_preorder cal_le
  by unfold_locales (rule cal_le_refl, rule cal_le_trans)

subsection \<open>One statement at a time\<close>

lemma rows_le_ids: "rows_le rs rs' n \<Longrightarrow> row_id ` set rs \<subseteq> row_id ` set rs'"
proof
  fix i assume le: "rows_le rs rs' n" and "i \<in> row_id ` set rs"
  then obtain k where k: "k < length rs" "i = row_id (rs ! k)"
    by (auto simp: in_set_conv_nth)
  then have "row_le (rs ! k) (rs' ! k)" "k < length rs'" using le by (simp_all add: rows_le_def)
  then show "i \<in> row_id ` set rs'" using k(2) row_le_id nth_mem by (metis imageI)
qed

lemma cal_wf_core:
  assumes wf: "cal_wf v" and le: "world_le (core v) w'"
  shows "cal_wf (v\<lparr>core := w'\<rparr>)"
proof -
  have w: "store_wf w'" "rows_le (tasks (core v)) (tasks w') (next_id (core v))"
    "sync_links w' = sync_links (core v)"
    using wf le by (auto simp: cal_wf_def world_le_def logs_le_def)
  with wf rows_le_ids [OF w(2)] show ?thesis
    by (auto simp: cal_wf_def links_wf_def links_def bindings_wf_def outbox_wf_def)
qed

lemma cal_le_core: "core_le (core v) w' \<Longrightarrow> cal_le v (v\<lparr>core := w'\<rparr>)"
  using cal_wf_core [of v w']
  by (auto simp: cal_le_def core_le_def world_le_def logs_le_def cal_wf_def grows_refl)

text \<open>Changes that leave the state of the task service to itself, but for the links.\<close>

lemma cal_le_tables:
  assumes "tasks (core v') = tasks (core v)" "next_id (core v') = next_id (core v)" "tx (core v') = tx (core v)"
    "clock (core v') = clock (core v)"
    and "cal_wf v \<Longrightarrow> links_wf v' \<and> bindings_wf v' \<and> outbox_wf v' \<and>
      grows binding_le (bindings v) (bindings v') \<and> grows item_le (outbox v) (outbox v') \<and>
      prefix (google v) (google v') \<and> suffix (replies v') (replies v) \<and> next_link v \<le> next_link v'"
  shows "cal_le v v'"
proof (rule cal_leI)
  show "tx_closed (core v) (core v')" using assms(3) by (rule tx_closed_same)
  assume wf: "cal_wf v"
  moreover have "store_wf (core v')"
    using wf assms by (auto simp: cal_wf_def intro: store_wf_same [of "core v'" "core v"])
  ultimately show "cal_wf v' \<and> rows_le (tasks (core v)) (tasks (core v')) (next_id (core v)) \<and>
        next_id (core v) \<le> next_id (core v') \<and>
        grows binding_le (bindings v) (bindings v') \<and> grows item_le (outbox v) (outbox v') \<and>
        prefix (google v) (google v') \<and> suffix (replies v') (replies v) \<and>
        next_link v \<le> next_link v' \<and> clock (core v) \<le> clock (core v')"
    using assms by (simp add: cal_wf_def)
qed

lemmas tables_wf = cal_wf_def links_wf_def bindings_wf_def outbox_wf_def links_def set_links_def

interpretation cal_le: calendar_reads cal_le core_le
proof
  show "cal_le v (v\<lparr>core := w'\<rparr>)" if "core_le (core v) w'" for v w'
    using that by (rule cal_le_core)
  show "cal_le v (v\<lparr>replies := rs\<rparr>)" if "replies v = r # rs" for v r rs
    by (rule cal_le_tables) (auto simp: tables_wf grows_refl that suffix_def)
  show "cal_le v (v\<lparr>replies := rs, google := google v @ [call]\<rparr>)" if "replies v = r # rs" for v r rs call
    by (rule cal_le_tables) (auto simp: tables_wf grows_refl that suffix_def)
qed

subsubsection \<open>Links\<close>

lemma conflict_free:
  "\<not> link_conflict l ls \<longleftrightarrow> event_key l \<notin> event_key ` set ls \<and> task_key l \<notin> task_key ` set ls"
  by (auto simp: link_conflict_def list_ex_iff image_iff)

lemma update_key_keys: "(\<And>x. g (f x) = g x) \<Longrightarrow> map g (update_key key i f xs) = map g xs"
  by (simp add: update_key_def)

text \<open>A unique constraint after an update of one row.\<close>

lemma distinct_update_key:
  assumes ids: "distinct (map key xs)" and keys: "distinct (map g xs)"
    and fresh: "\<And>x. x \<in> set xs \<Longrightarrow> key x = i \<Longrightarrow> g (f x) \<notin> g ` set (filter (\<lambda>y. key y \<noteq> i) xs)"
  shows "distinct (map g (update_key key i f xs))"
  using assms
proof (induction xs)
  case (Cons x xs)
  show ?case
  proof (cases "key x = i")
    case True
    have others: "key y \<noteq> i" if "y \<in> set xs" for y
    proof -
      have "key x \<notin> key ` set xs" using Cons.prems(1) by simp
      then show ?thesis using imageI [OF that, of key] True by metis
    qed
    then have "update_key key i f xs = xs"
      by (auto simp: update_key_def intro!: map_idI)
    moreover have "filter (\<lambda>y. key y \<noteq> i) (x # xs) = xs"
      using others True by (simp add: filter_id_conv)
    ultimately show ?thesis
      using Cons.prems True by (auto simp: update_key_def)
  next
    case False
    have "g x \<notin> set (map g (update_key key i f xs))"
    proof
      assume "g x \<in> set (map g (update_key key i f xs))"
      then obtain y where y: "y \<in> set xs" "g x = g (if key y = i then f y else y)"
        by (auto simp: update_key_def)
      show False
      proof (cases "key y = i")
        case True
        then have "g (f y) \<notin> g ` set (filter (\<lambda>z. key z \<noteq> i) (x # xs))" using Cons.prems(3) y(1) by simp
        then show False using y(2) True False by auto
      qed (use y Cons.prems(2) in auto)
    qed
    moreover have "distinct (map g (update_key key i f xs))"
      by (rule Cons.IH) (use Cons.prems False in auto)
    ultimately show ?thesis using False unfolding update_key_def by (simp del: set_map)
  qed
qed (simp add: update_key_def)

lemma links_set_links [simp]: "links (set_links ls v) = ls"
  by (simp add: links_def set_links_def)

lemma event_key_updates [simp]:
  "event_key (l\<lparr>l_ID := i\<rparr>) = event_key l" "event_key (l\<lparr>l_CreatedAt := t\<rparr>) = event_key l"
  "event_key (l\<lparr>l_UpdatedAt := t\<rparr>) = event_key l"
  "task_key (l\<lparr>l_ID := i\<rparr>) = task_key l" "task_key (l\<lparr>l_CreatedAt := t\<rparr>) = task_key l"
  "task_key (l\<lparr>l_UpdatedAt := t\<rparr>) = task_key l"
  by (simp_all add: event_key_def task_key_def)

text \<open>The links after a change that keeps the table well-formed; nothing else has changed.\<close>

lemma cal_le_links:
  assumes "cal_wf v \<Longrightarrow> links_wf (set_links ls v\<lparr>next_link := n\<rparr>)" and "next_link v \<le> n"
  shows "cal_le v (set_links ls v\<lparr>next_link := n\<rparr>)"
  by (rule cal_le_tables) (use assms in \<open>simp_all add: tables_wf grows_refl\<close>)

lemma cal_le_set_links:
  assumes "cal_wf v \<Longrightarrow> links_wf (set_links ls v)"
  shows "cal_le v (set_links ls v)"
  by (rule cal_le_tables) (use assms in \<open>simp_all add: tables_wf grows_refl\<close>)

lemma cal_le_link_insert:
  assumes free: "\<not> link_conflict l (links v)" and task: "list_ex (\<lambda>r. row_id r = l_TaskID l) (tasks (core v))"
  shows "cal_le v (set_links (links v @ [l\<lparr>l_ID := next_link v, l_CreatedAt := t, l_UpdatedAt := t'\<rparr>]) v
    \<lparr>next_link := next_link v + 1\<rparr>)"
proof (rule cal_le_links)
  let ?l = "l\<lparr>l_ID := next_link v, l_CreatedAt := t, l_UpdatedAt := t'\<rparr>"
  let ?v = "set_links (links v @ [?l]) v\<lparr>next_link := next_link v + 1\<rparr>"
  assume wf: "cal_wf v"
  have ls: "links ?v = links v @ [?l]" by (simp add: links_def set_links_def)
  have "distinct (map l_ID (links v @ [?l]))" using wf by (auto simp: cal_wf_def links_wf_def)
  moreover have "distinct (map event_key (links v @ [?l]))" "distinct (map task_key (links v @ [?l]))"
    using wf free by (auto simp: cal_wf_def links_wf_def conflict_free)
  moreover have "l_TaskID l \<in> row_id ` set (tasks (core v))"
    using task by (auto simp: list_ex_iff intro: rev_image_eqI)
  ultimately show "links_wf ?v"
    using wf unfolding links_wf_def ls cal_wf_def by (auto simp: set_links_def)
qed simp

lemma steps_link_Create: "steps cal_le (link_Create l)"
  unfolding link_Create_def Let_def
  by (intro cal_le.steps_bindE cal_le.in_core core_le.external stepsI)
     (auto simp: cal_le_refl intro!: cal_le_link_insert)

lemma link_columns_keys [simp]:
  "l_ID (link_columns l now x) = l_ID x" "l_TaskID (link_columns l now x) = l_TaskID x"
  by (simp_all add: link_columns_def)

lemma cal_le_link_update:
  assumes free: "\<not> list_ex (\<lambda>x. l_ID x = i \<and> link_conflict (f x) (filter (\<lambda>y. l_ID y \<noteq> i) (links v))) (links v)"
    and f: "\<And>x. l_ID (f x) = l_ID x" "\<And>x. l_TaskID (f x) = l_TaskID x"
  shows "cal_le v (set_links (update_key l_ID i f (links v)) v)"
proof (rule cal_le_set_links)
  assume wf: "cal_wf v"
  then have d: "distinct (map l_ID (links v))" "distinct (map event_key (links v))"
    "distinct (map task_key (links v))" by (simp_all add: cal_wf_def links_wf_def)
  have "distinct (map event_key (update_key l_ID i f (links v)))"
    by (rule distinct_update_key [OF d(1,2)]) (use free in \<open>auto simp: list_ex_iff conflict_free\<close>)
  moreover have "distinct (map task_key (update_key l_ID i f (links v)))"
    by (rule distinct_update_key [OF d(1,3)]) (use free in \<open>auto simp: list_ex_iff conflict_free\<close>)
  moreover have "distinct (map l_ID (update_key l_ID i f (links v)))"
    using d(1) by (simp add: update_key_keys f)
  ultimately show "links_wf (set_links (update_key l_ID i f (links v)) v)"
    using wf unfolding links_wf_def cal_wf_def
    by (auto simp: set_links_def links_def update_key_def f)
qed

lemma steps_link_Update: "steps cal_le (link_Update l)"
  unfolding link_Update_def
  by (intro cal_le.steps_bindE cal_le.in_core core_le.external core_le.time_Now stepsI)
     (auto simp: cal_le_refl intro!: cal_le_link_update)

text \<open>An update that writes none of the key columns.\<close>

lemma cal_le_link_touch:
  assumes f: "\<And>x. l_ID (f x) = l_ID x" "\<And>x. l_TaskID (f x) = l_TaskID x"
    "\<And>x. event_key (f x) = event_key x" "\<And>x. task_key (f x) = task_key x"
  shows "cal_le v (set_links (update_key l_ID i f (links v)) v)"
proof (rule cal_le_set_links)
  let ?ls = "update_key l_ID i f (links v)"
  assume wf: "cal_wf v"
  have keys: "map l_ID ?ls = map l_ID (links v)" "map event_key ?ls = map event_key (links v)"
    "map task_key ?ls = map task_key (links v)"
    by (rule update_key_keys, rule f)+
  show "links_wf (set_links ?ls v)"
    unfolding links_wf_def links_set_links keys
    using wf by (auto simp: cal_wf_def links_wf_def set_links_def update_key_def f)
qed

lemma steps_SetSyncEnabled: "steps cal_le (SetSyncEnabled i enabled)"
  unfolding SetSyncEnabled_def
  by (intro cal_le.steps_bindE cal_le.in_core core_le.external core_le.time_Now stepsI)
     (auto simp: cal_le_refl event_key_def task_key_def intro!: cal_le_link_touch)

lemma distinct_map_filter: "distinct (map g xs) \<Longrightarrow> distinct (map g (filter P xs))"
  by (induction xs) auto

lemma steps_link_Delete: "steps cal_le (link_Delete i)"
  unfolding link_Delete_def
proof (intro cal_le.steps_bindE cal_le.in_core core_le.external stepsI)
  fix v
  have "cal_le v (set_links (filter (\<lambda>x. l_ID x \<noteq> i) (links v)) v)"
    by (rule cal_le_set_links)
       (auto simp: cal_wf_def links_wf_def set_links_def links_def intro: distinct_map_filter)
  then show "cal_le v (snd (if \<not> list_ex (\<lambda>x. l_ID x = i) (links v)
      then (Err (ErrNotFound ''no sync link found for id''), v)
      else (Ok (), set_links (filter (\<lambda>x. l_ID x \<noteq> i) (links v)) v)))"
    by (simp add: cal_le_refl)
qed

subsubsection \<open>Bindings and accounts\<close>

lemma binding_write_props:
  assumes "\<And>now b. binding_live b \<Longrightarrow> binding_le b (f now b)"
  shows "steps cal_le (binding_write i failure missing f)"
proof -
  let ?f = "\<lambda>now b. if binding_live b then f now b else b"
  have le: "binding_le b (?f now b)" for now b
    using assms by simp
  have ids: "binding_live b \<Longrightarrow> cb_ID (f now b) = cb_ID b" for now b
    using assms by (simp add: binding_le_def)
  have keys: "cb_ID (?f now b) = cb_ID b"
    "(cb_GoogleAccountID (?f now b), cb_GoogleCalendarID (?f now b)) =
     (cb_GoogleAccountID b, cb_GoogleCalendarID b)" for now b
    using le [of b now] by (auto simp: binding_le_def)
  have "cal_le v (v\<lparr>bindings := update_key cb_ID i (?f now) (bindings v)\<rparr>)" for v now
  proof (rule cal_le_tables)
    let ?v = "v\<lparr>bindings := update_key cb_ID i (?f now) (bindings v)\<rparr>"
    assume wf: "cal_wf v"
    have "grows binding_le (bindings v) (bindings ?v)"
      unfolding update_key_def by (simp, rule grows_map) (use le in auto)
    moreover have "map cb_ID (bindings ?v) = map cb_ID (bindings v)"
      using keys(1) by (simp add: update_key_keys)
    moreover have "map (\<lambda>b. (cb_GoogleAccountID b, cb_GoogleCalendarID b)) (bindings ?v) =
        map (\<lambda>b. (cb_GoogleAccountID b, cb_GoogleCalendarID b)) (bindings v)"
      using keys(2) by (simp add: update_key_keys)
    moreover have "\<forall>b \<in> set (bindings ?v). cb_ID b < next_binding v"
      using wf ids by (auto simp: cal_wf_def bindings_wf_def update_key_def)
    ultimately show "links_wf ?v \<and> bindings_wf ?v \<and> outbox_wf ?v \<and>
        grows binding_le (bindings v) (bindings ?v) \<and> grows item_le (outbox v) (outbox ?v) \<and>
        prefix (google v) (google ?v) \<and> suffix (replies ?v) (replies v) \<and> next_link v \<le> next_link ?v"
      using wf unfolding bindings_wf_def cal_wf_def links_wf_def outbox_wf_def
      by (simp add: grows_refl links_def)
  qed simp_all
  then show ?thesis
    unfolding binding_write_def
    by (intro cal_le.steps_bindE cal_le.in_core core_le.external core_le.time_Now stepsI)
       (auto simp: cal_le_refl)
qed

lemma steps_binding_writes:
  "steps cal_le (binding_Update b)" "steps cal_le (binding_SoftDelete i)" "steps cal_le (ClearSyncToken i)"
  unfolding binding_Update_def binding_SoftDelete_def ClearSyncToken_def
  by (rule binding_write_props; simp add: binding_le_def binding_columns_def)+

lemma steps_account_Revoke: "steps cal_le (account_Revoke i)"
  unfolding account_Revoke_def
  by (intro cal_le.steps_bindE cal_le.in_core core_le.external core_le.time_Now stepsI)
     (auto simp: cal_le_refl tables_wf grows_refl intro!: cal_le_tables)

lemma steps_binding_Create: "steps cal_le (binding_Create b)"
proof -
  have "cal_le v (v\<lparr>bindings := bindings v @ [binding_row c (next_binding v) t],
      next_binding := next_binding v + 1\<rparr>)"
    if free: "\<not> list_ex (\<lambda>x. cb_GoogleAccountID x = cb_GoogleAccountID c \<and>
      cb_GoogleCalendarID x = cb_GoogleCalendarID c) (bindings v)" for v c t
  proof (rule cal_le_tables)
    let ?v = "v\<lparr>bindings := bindings v @ [binding_row c (next_binding v) t],
      next_binding := next_binding v + 1\<rparr>"
    assume wf: "cal_wf v"
    have "(cb_GoogleAccountID c, cb_GoogleCalendarID c) \<notin>
        (\<lambda>b. (cb_GoogleAccountID b, cb_GoogleCalendarID b)) ` set (bindings v)"
      using free by (auto simp: list_ex_iff)
    then have "bindings_wf ?v"
      using wf by (auto simp: cal_wf_def bindings_wf_def binding_row_def)
    then show "links_wf ?v \<and> bindings_wf ?v \<and> outbox_wf ?v \<and>
        grows binding_le (bindings v) (bindings ?v) \<and> grows item_le (outbox v) (outbox ?v) \<and>
        prefix (google v) (google ?v) \<and> suffix (replies ?v) (replies v) \<and> next_link v \<le> next_link ?v"
      using wf by (simp add: cal_wf_def links_wf_def outbox_wf_def links_def grows_refl grows_snoc)
  qed simp_all
  then show ?thesis
    unfolding binding_Create_def Let_def
    by (intro cal_le.steps_bindE cal_le.in_core core_le.external stepsI) (auto simp: cal_le_refl)
qed

subsubsection \<open>The outbox\<close>

lemma cal_le_outbox:
  assumes "cal_wf v \<Longrightarrow> outbox_wf (v\<lparr>outbox := xs, next_outbox := n\<rparr>)" "grows item_le (outbox v) xs"
  shows "cal_le v (v\<lparr>outbox := xs, next_outbox := n\<rparr>)"
  by (rule cal_le_tables) (use assms in \<open>simp_all add: cal_wf_def links_wf_def bindings_wf_def links_def grows_refl\<close>)

lemma outbox_wf_snoc:
  assumes "outbox_wf v" "ob_ID x = next_outbox v" "item_ok x"
  shows "outbox_wf (v\<lparr>outbox := outbox v @ [x], next_outbox := next_outbox v + 1\<rparr>)"
proof -
  have "ob_ID y < next_outbox v" if "y \<in> set (outbox v)" for y
    using assms(1) that by (simp add: outbox_wf_def)
  then show ?thesis using assms by (fastforce simp: outbox_wf_def)
qed

lemma steps_Enqueue: "steps cal_le (Enqueue kind p)"
  unfolding Enqueue_def
  by (intro cal_le.steps_bindE cal_le.in_core core_le.external core_le.time_Now stepsI)
     (auto simp: cal_wf_def item_ok_def maxOutboxAttempts_def grows_snoc intro!: cal_le_outbox outbox_wf_snoc)

lemma cal_le_outbox_map:
  assumes "\<And>x. item_le x (f x)" "\<And>x. item_ok x \<Longrightarrow> item_ok (f x)"
  shows "cal_le v (v\<lparr>outbox := map f (outbox v)\<rparr>)"
proof -
  have ids: "ob_ID \<circ> f = ob_ID"
    using assms(1) by (simp add: item_le_def fun_eq_iff)
  have "cal_le v (v\<lparr>outbox := map f (outbox v), next_outbox := next_outbox v\<rparr>)"
  proof (rule cal_le_outbox)
    assume "cal_wf v"
    then show "outbox_wf (v\<lparr>outbox := map f (outbox v), next_outbox := next_outbox v\<rparr>)"
      using assms by (auto simp: outbox_wf_def cal_wf_def ids item_le_def)
  qed (rule grows_map, rule assms(1))
  then show ?thesis by simp
qed

lemma steps_outbox_write:
  assumes "\<And>now x. item_le x (f now x)" "\<And>now x. item_ok x \<Longrightarrow> item_ok (f now x)"
  shows "steps cal_le (outbox_write i failure f)"
  unfolding outbox_write_def update_key_def
  by (intro cal_le.steps_bindE cal_le.in_core core_le.external core_le.time_Now stepsI)
     (auto simp: cal_le_refl assms intro!: cal_le_outbox_map)

lemma steps_marks:
  "steps cal_le (MarkDone i)" "steps cal_le (MarkFailed i text)"
  "n < maxOutboxAttempts \<Longrightarrow> steps cal_le (MarkRetry i n at text)"
  unfolding MarkDone_def MarkFailed_def MarkRetry_def updateStatus_def
  by (rule steps_outbox_write; simp add: item_le_def item_ok_def Let_def)+

lemma steps_ClaimDue: "steps cal_le (ClaimDue n)"
proof -
  have "steps cal_le (modify (\<lambda>v. v\<lparr>outbox := map (\<lambda>x. if ob_ID x \<in> A
      then x\<lparr>ob_Status := SyncOutboxStatusProcessing, ob_UpdatedAt := now\<rparr> else x) (outbox v)\<rparr>))" for A now
    by (rule cal_le.steps_modify) (rule cal_le_outbox_map; simp add: item_le_def item_ok_def)
  then show ?thesis
    unfolding ClaimDue_def
    by (intro cal_le.steps_Let cal_le.steps_bindE cal_le.steps_if cal_le.steps_gets cal_le.steps_ret
        cal_le.in_core core_le.external core_le.time_Now)
qed

interpretation cal_le: calendar_run cal_le core_le
  by unfold_locales
     (rule steps_link_Create steps_link_Update steps_link_Delete steps_binding_writes steps_account_Revoke
        steps_Enqueue steps_marks steps_ClaimDue steps_binding_Create; assumption?)+

end
