(* ===== verification/Calendar_Machine.thy ===== *)
theory Calendar_Machine
  imports Calendar_Invariant
begin

text \<open>
  Task service and calendar service together, as one state machine on the state of both.  A request
  of the task service runs on its part of the state; the hook it calls (\<open>OnTaskChanged\<close>) is a request
  of its own that may follow for any task and any action.  Between requests the clock, the failures
  to come, the replies of Google, the accounts and the users change as they like.
\<close>

datatype cal_request =
    CalTask request
  | CalChanged int string
  | CalCreateBinding create_binding_request
  | CalDeleteBinding int
  | CalDisconnect int
  | CalEnableExport int int
  | CalSync int
  | CalOutbox
  | CalRound

definition drop_result :: "'a cop \<Rightarrow> unit cop" where
  "drop_result m = bindE m (\<lambda>_. ret ())"

fun cal_handle :: "env \<Rightarrow> cal_env \<Rightarrow> cal_request \<Rightarrow> unit cop" where
  "cal_handle S E (CalTask q) = in_core (handle S q)"
| "cal_handle S E (CalChanged i action) = calendar_OnTaskChanged E i action"
| "cal_handle S E (CalCreateBinding req) = drop_result (CreateBinding req)"
| "cal_handle S E (CalDeleteBinding i) = DeleteBinding E i"
| "cal_handle S E (CalDisconnect i) = DisconnectGoogle E i"
| "cal_handle S E (CalEnableExport i b) = drop_result (EnableTaskExport E i b)"
| "cal_handle S E (CalSync i) = SyncBinding E i"
| "cal_handle S E CalOutbox = ProcessOutbox E"
| "cal_handle S E CalRound = runOnce E"

definition cal_arrive :: "cal_world \<Rightarrow> cal_world" where
  "cal_arrive v = v\<lparr>core := arrive (core v)\<rparr>"

inductive cal_step :: "env \<Rightarrow> cal_env \<Rightarrow> cal_world \<Rightarrow> cal_world \<Rightarrow> bool" for S E where
  cal_serve: "cal_handle S E q (cal_arrive v) = (r, v') \<Longrightarrow> cal_step S E v v'"
| cal_outside: "0 \<le> d \<Longrightarrow> cal_step S E v (v\<lparr>core := (core v)\<lparr>clock := clock (core v) + d, ticks := ts,
     faults := fs, users := us, messengers := ms, user_messengers := ums\<rparr>,
     accounts := as, replies := rs\<rparr>)"

inductive_simps cal_step_simps: "cal_step S E v v'"

definition cal_initial :: "cal_world \<Rightarrow> bool" where
  "cal_initial v \<longleftrightarrow> initial (core v) \<and> links v = [] \<and> bindings v = [] \<and> outbox v = []"

inductive cal_reachable :: "env \<Rightarrow> cal_env \<Rightarrow> cal_world \<Rightarrow> bool" for S E where
  cal_start: "cal_initial v \<Longrightarrow> cal_reachable S E v"
| cal_next: "cal_reachable S E v \<Longrightarrow> cal_step S E v v' \<Longrightarrow> cal_reachable S E v'"

definition cal_inv :: "cal_world \<Rightarrow> bool" where
  "cal_inv v \<longleftrightarrow> cal_wf v \<and> tx (core v) = None"

lemma cal_inv_initial: "cal_initial v \<Longrightarrow> cal_inv v"
  by (simp add: cal_initial_def cal_inv_def initial_def tables_wf store_wf_def)

lemma steps_core_handle: "steps core_le (handle S q)"
  by (simp add: steps_core_le world_le.handle steps_closed_handle)

context calendar_run begin

lemma cal_handle: "(\<And>t. steps C (handle S t)) \<Longrightarrow> steps R (cal_handle S E q)"
  by (cases q) (auto simp: drop_result_def intro!: steps_rules)

end

lemma steps_cal_handle: "steps cal_le (cal_handle S E q)"
  by (rule cal_le.cal_handle) (rule steps_core_handle)

lemma cal_arrive_inv: "cal_inv v \<Longrightarrow> cal_inv (cal_arrive v)"
  by (simp add: cal_inv_def cal_arrive_def tables_wf) (simp add: arrive_def)

text \<open>What a step leaves: the invariant, the rows, the bindings and what the items ask for.\<close>

definition cal_grows :: "cal_world \<Rightarrow> cal_world \<Rightarrow> bool" where
  "cal_grows v v' \<longleftrightarrow>
     rows_le (tasks (core v)) (tasks (core v')) (next_id (core v)) \<and>
     next_id (core v) \<le> next_id (core v') \<and>
     grows binding_le (bindings v) (bindings v') \<and> grows item_le (outbox v) (outbox v') \<and>
     prefix (google v) (google v') \<and> clock (core v) \<le> clock (core v')"

lemma cal_step_grows:
  assumes step: "cal_step S E v v'" and inv: "cal_inv v"
  shows "cal_inv v' \<and> cal_grows v v'"
  using step
proof cases
  case (cal_serve q r)
  have "cal_le (cal_arrive v) v'" by (rule stepsD [OF steps_cal_handle cal_serve])
  with cal_arrive_inv [OF inv] show ?thesis
    by (simp add: cal_le_def cal_inv_def cal_grows_def tx_closed_def)
       (simp add: cal_arrive_def arrive_def)
next
  case (cal_outside d ts fs us ms ums as rs)
  then show ?thesis using inv
    by (auto simp: cal_inv_def tables_wf cal_grows_def grows_refl intro: store_wf_same)
qed

lemma cal_reachable_inv: "cal_reachable S E v \<Longrightarrow> cal_inv v"
  by (induction rule: cal_reachable.induct) (auto intro: cal_inv_initial dest: cal_step_grows)

lemma cal_grows_refl: "cal_grows v v"
  by (simp add: cal_grows_def grows_refl)

lemma cal_grows_trans: "cal_grows u v \<Longrightarrow> cal_grows v w \<Longrightarrow> cal_grows u w"
  unfolding cal_grows_def
  by (intro conjI; (elim conjE)?;
      blast intro: rows_le_trans binding_rows_trans item_rows_trans prefix_order.trans order.trans)

lemma cal_steps_grow:
  assumes "(cal_step S E)\<^sup>*\<^sup>* v v'" and "cal_inv v"
  shows "cal_inv v' \<and> cal_grows v v'"
  using assms
proof (induction rule: rtranclp_induct)
  case base
  then show ?case by (simp add: cal_grows_refl)
next
  case (step w u)
  then show ?case using cal_step_grows [OF step(2)] cal_grows_trans by blast
qed

end
