(* ===== verification/Calendar_Outbox.thy ===== *)
theory Calendar_Outbox
  imports Calendar_Machine
begin

text \<open>
  What processing the outbox does to its items, and what everything else leaves alone: one item is
  settled at a time, an item that was not due is not touched, and sending events to Google writes
  neither a task nor a binding.
\<close>

subsection \<open>What the export of one item leaves alone\<close>

definition same_core :: "world \<Rightarrow> world \<Rightarrow> bool" where
  "same_core w w' \<longleftrightarrow> tasks w' = tasks w \<and> next_id w' = next_id w \<and> tx w' = tx w \<and>
     queue w' = queue w \<and> sync_links w' = sync_links w \<and> clock w \<le> clock w'"

interpretation same_core: run_preorder same_core
  by unfold_locales (auto simp: same_core_def)

interpretation same_core: silent_run same_core
proof
  show now: "steps same_core time_Now"
    by (simp add: steps_def time_Now_def same_core_def clock_tick)
  show ext: "steps same_core (external msg)" for msg
    by (auto simp: steps_def external_def same_core_def split: list.split)
  show "steps same_core (CreateTaskHistory h)" for h
    unfolding CreateTaskHistory_def
    by (intro same_core.steps_bindE ext now same_core.steps_modify) (simp add: same_core_def)
  show "steps same_core (Touch a u at)" for a u at
    by (cases a) (auto simp: TouchLastActivity_def same_core_def
        intro!: same_core.steps_bindE same_core.steps_ret ext same_core.steps_modify)
  show "steps same_core (OnTaskChanged x i action)" for x i action
    by (cases x) (auto simp: same_core_def intro!: same_core.steps_ret same_core.steps_modify)
  show "steps same_core (PurgeByTask i cs)" for i cs
    unfolding PurgeByTask_def
    by (intro same_core.steps_bindE ext same_core.steps_modify) (simp add: same_core_def)
  show "steps same_core (Sleep d)" if "0 \<le> d" for d
    unfolding Sleep_def by (rule same_core.steps_modify) (simp add: same_core_def that)
qed

text \<open>Reading: no table changes.\<close>

definition same_tables :: "cal_world \<Rightarrow> cal_world \<Rightarrow> bool" where
  "same_tables v v' \<longleftrightarrow> tasks (core v') = tasks (core v) \<and> next_id (core v') = next_id (core v) \<and>
     links v' = links v \<and> tx (core v') = tx (core v) \<and> bindings v' = bindings v \<and>
     next_link v' = next_link v \<and> outbox v' = outbox v \<and> next_outbox v' = next_outbox v"

lemma same_tables_refl [simp]: "same_tables v v"
  by (simp add: same_tables_def)

lemma same_tables_trans: "same_tables u v \<Longrightarrow> same_tables v w \<Longrightarrow> same_tables u w"
  by (simp add: same_tables_def)

interpretation same_tables: calendar_reads same_tables same_core
  by unfold_locales (auto simp: same_tables_def same_core_def links_def)

text \<open>Writing links only.\<close>

definition no_task_written :: "world \<Rightarrow> world \<Rightarrow> bool" where
  "no_task_written w w' \<longleftrightarrow> tasks w' = tasks w \<and> queue w' = queue w \<and> clock w \<le> clock w'"

definition only_links :: "cal_world \<Rightarrow> cal_world \<Rightarrow> bool" where
  "only_links v v' \<longleftrightarrow>
     no_task_written (core v) (core v') \<and> outbox v' = outbox v \<and> bindings v' = bindings v \<and>
     accounts v' = accounts v"

interpretation only_links: calendar_reads only_links same_core
  by unfold_locales (auto simp: only_links_def no_task_written_def same_core_def)

interpretation only_links: link_run only_links same_core
proof
  show "steps only_links (link_Create l)" for l
    unfolding link_Create_def Let_def
    by (intro only_links.steps_bindE only_links.in_core same_core.external stepsI)
       (simp add: only_links_def no_task_written_def set_links_def)
  show "steps only_links (link_Update l)" for l
    unfolding link_Update_def
    by (intro only_links.steps_bindE only_links.in_core same_core.external same_core.time_Now stepsI)
       (simp add: only_links_def no_task_written_def set_links_def)
  show "steps only_links (link_Delete i)" for i
    unfolding link_Delete_def
    by (intro only_links.steps_bindE only_links.in_core same_core.external stepsI)
       (simp add: only_links_def no_task_written_def set_links_def)
qed

subsection \<open>Settling one item\<close>

text \<open>\<open>settled a b item x y\<close>: what becomes of the row \<open>x\<close> of an item between the instants \<open>a\<close> and \<open>b\<close>.\<close>

definition settled :: "time \<Rightarrow> time \<Rightarrow> sync_outbox \<Rightarrow> sync_outbox \<Rightarrow> sync_outbox \<Rightarrow> bool" where
  "settled a b item x y \<longleftrightarrow>
     item_le x y \<and>
     (y = x \<or>
      ob_Status y = SyncOutboxStatusDone \<and> ob_Attempts y = ob_Attempts x \<or>
      ob_Status y = SyncOutboxStatusFailed \<and> ob_Attempts y = ob_Attempts x \<and>
        maxOutboxAttempts \<le> ob_Attempts item + 1 \<or>
      ob_Status y = SyncOutboxStatusPending \<and> ob_Attempts y = ob_Attempts item + 1 \<and>
        ob_Attempts y < maxOutboxAttempts \<and>
        a + OutboxBackoff (ob_Attempts y) \<le> ob_NextRetryAt y \<and>
        ob_NextRetryAt y \<le> b + OutboxBackoff (ob_Attempts y))"

lemma settled_refl [simp]: "settled a b item x x"
  by (simp add: settled_def)

lemma settled_widen: "settled a b item x y \<Longrightarrow> a' \<le> a \<Longrightarrow> b \<le> b' \<Longrightarrow> settled a' b' item x y"
  by (auto simp: settled_def)

text \<open>Only the row of the item can have changed.\<close>

definition changes_row :: "int \<Rightarrow> (sync_outbox \<Rightarrow> sync_outbox \<Rightarrow> bool) \<Rightarrow> cal_world \<Rightarrow> cal_world \<Rightarrow> bool" where
  "changes_row i P v v' \<longleftrightarrow>
     no_task_written (core v) (core v') \<and> bindings v' = bindings v \<and> accounts v' = accounts v \<and>
     length (outbox v') = length (outbox v) \<and>
     (\<forall>k < length (outbox v).
        if ob_ID (outbox v ! k) = i then P (outbox v ! k) (outbox v' ! k)
        else outbox v' ! k = outbox v ! k)"

lemma changes_row_same: "only_links v v' \<Longrightarrow> (\<And>x. P x x) \<Longrightarrow> changes_row i P v v'"
  by (simp add: changes_row_def only_links_def)

lemma changes_row_before:
  "only_links u v \<Longrightarrow> changes_row i P v w \<Longrightarrow> changes_row i P u w"
  by (auto simp: changes_row_def only_links_def no_task_written_def)

lemma outbox_write_run:
  assumes "outbox_write i failure f v = (r, v')"
  shows "\<exists>now. clock (core v) \<le> now \<and> now \<le> clock (core v') \<and>
    changes_row i (\<lambda>x y. y = x \<or> y = f now x) v v'"
proof -
  have tick: "only_links v (v\<lparr>core := tick (core v)\<rparr>)"
    using stepsD [OF only_links.in_core [OF same_core.time_Now], of v]
    by (simp add: in_core_def time_Now_def)
  let ?u = "v\<lparr>core := tick (core v)\<rparr>"
  obtain z u where ext: "cal_external failure ?u = (z, u)" by fastforce
  then have u: "only_links ?u u"
    using stepsD [OF only_links.in_core [OF same_core.external]] by blast
  have "changes_row i (\<lambda>x y. y = x \<or> y = f (clock (tick (core v))) x) u v'"
    using assms ext
    by (cases z) (auto simp: outbox_write_def bindE_def in_core_def time_Now_def changes_row_def
        no_task_written_def update_key_def split: if_splits)
  then have "changes_row i (\<lambda>x y. y = x \<or> y = f (clock (tick (core v))) x) v v'"
    using changes_row_before [OF tick] changes_row_before [OF u] by blast
  moreover have "clock (tick (core v)) \<le> clock (core v')"
    using \<open>changes_row i _ u v'\<close> u by (simp add: changes_row_def only_links_def no_task_written_def)
  ultimately show ?thesis using clock_tick by blast
qed

lemma best_effort_run: "best_effort m v = (r, v') \<Longrightarrow> \<exists>z. m v = (z, v')"
  by (auto simp: best_effort_def bindE_def attempt_def ret_def split: prod.splits outcome.splits)

lemma changes_row_mono: "changes_row i P v w \<Longrightarrow> (\<And>x y. P x y \<Longrightarrow> Q x y) \<Longrightarrow> changes_row i Q v w"
  by (auto simp: changes_row_def split: if_splits)

lemma settle_item_run:
  assumes "settle_item E item v = (r, v')"
  shows "changes_row (ob_ID item) (settled (clock (core v)) (clock (core v')) item) v v'"
proof -
  obtain z u where p: "processOutboxItem E item v = (z, u)" by fastforce
  have u: "only_links v u" by (rule stepsD [OF only_links.export_steps(3) p])
  then have c: "clock (core v) \<le> clock (core u)" by (simp add: only_links_def no_task_written_def)
  have "changes_row (ob_ID item) (settled (clock (core v)) (clock (core v')) item) u v'"
  proof (cases z)
    case (Ok x)
    then have "best_effort (MarkDone (ob_ID item)) u = (r, v')"
      using assms p by (simp add: settle_item_def bindE_def attempt_def)
    then show ?thesis
      unfolding MarkDone_def updateStatus_def
      by (auto dest!: best_effort_run outbox_write_run elim!: changes_row_mono
          simp: settled_def item_le_def Let_def)
  next
    case (Panic x)
    then have "v' = u" using assms p by (simp add: settle_item_def bindE_def attempt_def)
    then show ?thesis by (simp add: changes_row_same only_links.run_refl)
  next
    case (Err e)
    show ?thesis
    proof (cases "maxOutboxAttempts \<le> ob_Attempts item + 1")
      case True
      then have "best_effort (MarkFailed (ob_ID item) (error_text e)) u = (r, v')"
        using assms p Err by (simp add: settle_item_def bindE_def attempt_def)
      then show ?thesis using True
        unfolding MarkFailed_def updateStatus_def
        by (auto dest!: best_effort_run outbox_write_run elim!: changes_row_mono
            simp: settled_def item_le_def Let_def)
    next
      case False
      let ?n = "ob_Attempts item + 1"
      let ?t = "u\<lparr>core := tick (core u)\<rparr>"
      have t: "only_links u ?t"
        using stepsD [OF only_links.in_core [OF same_core.time_Now], of u]
        by (simp add: in_core_def time_Now_def)
      have "best_effort (MarkRetry (ob_ID item) ?n (clock (tick (core u)) + OutboxBackoff ?n) (error_text e)) ?t = (r, v')"
        using assms p Err False
        by (simp add: settle_item_def bindE_def attempt_def in_core_def time_Now_def Let_def)
      then obtain now where mono: "clock (tick (core u)) \<le> now" "now \<le> clock (core v')"
        and row: "changes_row (ob_ID item) (\<lambda>x y. y = x \<or> y = x\<lparr>ob_Status := SyncOutboxStatusPending,
          ob_Attempts := ?n, ob_NextRetryAt := clock (tick (core u)) + OutboxBackoff ?n,
          ob_LastError := Some (error_text e), ob_UpdatedAt := now\<rparr>) ?t v'"
        unfolding MarkRetry_def by (auto dest!: best_effort_run outbox_write_run)
      from changes_row_before [OF t row] show ?thesis
        by (rule changes_row_mono)
           (use False c clock_tick [of "core u"] mono in \<open>auto simp: settled_def item_le_def\<close>)
    qed
  qed
  then show ?thesis by (rule changes_row_before [OF u])
qed

subsection \<open>Settling a batch\<close>

text \<open>
  A batch of rows: those the list names have become what \<open>P\<close> allows for their item, the others are as
  they were.
\<close>

definition changes_rows ::
  "sync_outbox list \<Rightarrow> (sync_outbox \<Rightarrow> sync_outbox \<Rightarrow> sync_outbox \<Rightarrow> bool) \<Rightarrow> cal_world \<Rightarrow> cal_world \<Rightarrow> bool" where
  "changes_rows items P v v' \<longleftrightarrow>
     no_task_written (core v) (core v') \<and> bindings v' = bindings v \<and> accounts v' = accounts v \<and>
     length (outbox v') = length (outbox v) \<and>
     (\<forall>k < length (outbox v).
        (\<forall>item \<in> set items. ob_ID (outbox v ! k) = ob_ID item \<longrightarrow> P item (outbox v ! k) (outbox v' ! k)) \<and>
        (ob_ID (outbox v ! k) \<notin> ob_ID ` set items \<longrightarrow> outbox v' ! k = outbox v ! k))"

lemma settle_batch_run:
  assumes "for_each (settle_item E) items v = (r, v')" and "distinct (map ob_ID items)"
  shows "changes_rows items (settled (clock (core v)) (clock (core v'))) v v'"
  using assms
proof (induction items arbitrary: v)
  case Nil
  then show ?case
    by (simp add: for_each_def ret_def changes_rows_def no_task_written_def)
next
  case (Cons x xs)
  obtain z u where x: "settle_item E x v = (z, u)" by fastforce
  note one = settle_item_run [OF x]
  have rest: "changes_rows xs (settled (clock (core u)) (clock (core v'))) u v'"
  proof (cases z)
    case (Ok y)
    then have "for_each (settle_item E) xs u = (r, v')"
      using Cons.prems(1) x by (simp add: for_each_def bindE_def)
    then show ?thesis using Cons by simp
  next
    case (Err e)
    then have "v' = u" using Cons.prems(1) x by (simp add: for_each_def bindE_def)
    then show ?thesis by (auto simp: changes_rows_def no_task_written_def)
  next
    case (Panic e)
    then have "v' = u" using Cons.prems(1) x by (simp add: for_each_def bindE_def)
    then show ?thesis by (auto simp: changes_rows_def no_task_written_def)
  qed
  have le: "clock (core v) \<le> clock (core u)" "clock (core u) \<le> clock (core v')"
    using one rest by (simp_all add: changes_row_def changes_rows_def no_task_written_def)
  have ids: "ob_ID (outbox u ! k) = ob_ID (outbox v ! k)" if "k < length (outbox v)" for k
    using one that by (cases "ob_ID (outbox v ! k) = ob_ID x") (auto simp: changes_row_def settled_def item_le_def)
  have fresh: "ob_ID x \<notin> ob_ID ` set xs" using Cons.prems(2) by simp
  show ?case
    unfolding changes_rows_def
  proof (intro conjI allI impI ballI)
    show "no_task_written (core v) (core v')" "bindings v' = bindings v" "accounts v' = accounts v"
      "length (outbox v') = length (outbox v)"
      using one rest by (auto simp: changes_row_def changes_rows_def no_task_written_def)
  next
    fix k item
    assume k: "k < length (outbox v)" and item: "item \<in> set (x # xs)"
      and id: "ob_ID (outbox v ! k) = ob_ID item"
    have len: "k < length (outbox u)" using one k by (simp add: changes_row_def)
    show "settled (clock (core v)) (clock (core v')) item (outbox v ! k) (outbox v' ! k)"
    proof (cases "item = x")
      case True
      then have "settled (clock (core v)) (clock (core u)) x (outbox v ! k) (outbox u ! k)"
        using one k id by (auto simp: changes_row_def)
      moreover have "outbox v' ! k = outbox u ! k"
        using rest len ids [OF k] id True fresh by (auto simp: changes_rows_def)
      ultimately show ?thesis using True le settled_widen by auto
    next
      case False
      then have xs: "item \<in> set xs" using item by simp
      then have "ob_ID item \<noteq> ob_ID x" using fresh by (metis imageI)
      then have "outbox u ! k = outbox v ! k" using one k id by (auto simp: changes_row_def)
      moreover have "settled (clock (core u)) (clock (core v')) item (outbox u ! k) (outbox v' ! k)"
        using rest len ids [OF k] id xs by (simp add: changes_rows_def)
      ultimately show ?thesis using le settled_widen by auto
    qed
  next
    fix k
    assume k: "k < length (outbox v)" and id: "ob_ID (outbox v ! k) \<notin> ob_ID ` set (x # xs)"
    then have "outbox u ! k = outbox v ! k" using one by (auto simp: changes_row_def)
    moreover have "k < length (outbox u)" using one k by (simp add: changes_row_def)
    ultimately show "outbox v' ! k = outbox v ! k" using rest id by (auto simp: changes_rows_def)
  qed
qed

subsection \<open>A round of the outbox\<close>

text \<open>The items a round takes: the first fifty that wait and are due.\<close>

definition outbox_batch :: "time \<Rightarrow> sync_outbox list \<Rightarrow> sync_outbox list" where
  "outbox_batch now xs = take 50 (sort_key ob_ID (filter (outbox_due now) xs))"

text \<open>What may become of an item a round has taken.\<close>

definition attempted :: "time \<Rightarrow> time \<Rightarrow> sync_outbox \<Rightarrow> sync_outbox \<Rightarrow> bool" where
  "attempted a b x y \<longleftrightarrow>
     item_le x y \<and>
     (ob_Status y = SyncOutboxStatusProcessing \<and> ob_Attempts y = ob_Attempts x \<or>
      ob_Status y = SyncOutboxStatusDone \<and> ob_Attempts y = ob_Attempts x \<or>
      ob_Status y = SyncOutboxStatusFailed \<and> ob_Attempts y = ob_Attempts x \<and>
        maxOutboxAttempts \<le> ob_Attempts x + 1 \<or>
      ob_Status y = SyncOutboxStatusPending \<and> ob_Attempts y = ob_Attempts x + 1 \<and>
        ob_Attempts y < maxOutboxAttempts \<and>
        a + OutboxBackoff (ob_Attempts y) \<le> ob_NextRetryAt y \<and>
        ob_NextRetryAt y \<le> b + OutboxBackoff (ob_Attempts y))"

definition claimed :: "time \<Rightarrow> sync_outbox \<Rightarrow> sync_outbox" where
  "claimed now x = x\<lparr>ob_Status := SyncOutboxStatusProcessing, ob_UpdatedAt := now\<rparr>"

lemma external_silent: "cal_external msg v = (r, v') \<Longrightarrow> only_links v v'"
  by (rule stepsD [OF only_links.in_core [OF same_core.external]])

lemma now_run:
  "cal_now v = (Ok t, v') \<Longrightarrow> only_links v v' \<and> t = clock (core v')"
  using stepsD [OF only_links.in_core [OF same_core.time_Now], of v]
  by (auto simp: in_core_def time_Now_def)

lemma only_links_trans: "only_links u v \<Longrightarrow> only_links v w \<Longrightarrow> only_links u w"
  by (rule only_links.run_trans)

lemma ClaimDue_run:
  assumes "ClaimDue 50 v = (r, u)"
  shows "only_links v u \<and> (\<forall>items. r = Ok items \<longrightarrow> items = []) \<or>
    (\<exists>now now2 w. only_links v w \<and> clock (core v) \<le> now \<and> now \<le> clock (core w) \<and>
       r = Ok (map (\<lambda>x. x\<lparr>ob_Status := SyncOutboxStatusProcessing\<rparr>) (outbox_batch now (outbox v))) \<and>
       u = w\<lparr>outbox := map (\<lambda>x. if ob_ID x \<in> ob_ID ` set (outbox_batch now (outbox v))
                               then claimed now2 x else x) (outbox v)\<rparr>)"
proof -
  obtain a v1 where 1: "cal_external ''failed to begin claim due transaction'' v = (a, v1)" by fastforce
  obtain now v2 where 2: "cal_now v1 = (Ok now, v2)" by (simp add: in_core_def time_Now_def)
  obtain b v3 where 3: "cal_external ''failed to select due outbox items'' v2 = (b, v3)" by fastforce
  note L1 = external_silent [OF 1] and L2 = now_run [OF 2] and L3 = external_silent [OF 3]
  have L: "only_links v v3" using L1 L2 L3 only_links_trans by blast
  have now: "clock (core v) \<le> now" "now \<le> clock (core v3)"
    using L1 L2 L3 by (auto simp: only_links_def no_task_written_def)
  have out: "outbox v3 = outbox v" using L by (simp add: only_links_def)
  show ?thesis
  proof (cases "\<exists>x y. a = Ok x \<and> b = Ok y \<and> outbox_batch now (outbox v) \<noteq> []")
    case False
    then have "only_links v u \<and> (\<forall>items. r = Ok items \<longrightarrow> items = [])"
      using assms 1 2 3 L1 L out
      by (cases a; cases b) (auto simp: ClaimDue_def Let_def bindE_def gets_def ret_def outbox_batch_def)
    then show ?thesis by simp
  next
    case True
    obtain now2 v4 where 4: "cal_now v3 = (Ok now2, v4)" by (simp add: in_core_def time_Now_def)
    obtain c v5 where 5: "cal_external ''failed to mark outbox items processing'' v4 = (c, v5)" by fastforce
    obtain d v6 where 6: "cal_external ''failed to commit claim due'' v5 = (d, v6)" by fastforce
    note L4 = now_run [OF 4] and L5 = external_silent [OF 5] and L6 = external_silent [OF 6]
    have L46: "only_links v v5" "only_links v v6" using L L4 L5 L6 only_links_trans by blast+
    have "clock (core v3) \<le> clock (core v6)"
      using L4 L5 L6 by (auto simp: only_links_def no_task_written_def)
    then have now': "now \<le> clock (core v6)" using now by simp
    have run: "(r, u) = (case (c, d) of
        (Ok _, Ok _) \<Rightarrow> (Ok (map (\<lambda>x. x\<lparr>ob_Status := SyncOutboxStatusProcessing\<rparr>) (outbox_batch now (outbox v))),
          v6\<lparr>outbox := map (\<lambda>x. if ob_ID x \<in> ob_ID ` set (outbox_batch now (outbox v))
                               then claimed now2 x else x) (outbox v6)\<rparr>)
      | (Ok _, Err e) \<Rightarrow> (Err e, v6) | (Ok _, Panic e) \<Rightarrow> (Panic e, v6)
      | (Err e, _) \<Rightarrow> (Err e, v5) | (Panic e, _) \<Rightarrow> (Panic e, v5))"
      using assms 1 2 3 4 5 6 True out
      by (auto simp: ClaimDue_def Let_def bindE_def gets_def ret_def modify_def outbox_batch_def claimed_def
          split: outcome.splits)
    show ?thesis
    proof (cases "\<exists>x y. c = Ok x \<and> d = Ok y")
      case True
      then show ?thesis using run L46 now now' by (auto simp: only_links_def)
    next
      case False
      then have "only_links v u \<and> (\<forall>items. r = Ok items \<longrightarrow> items = [])"
        using run L46 by (cases c; cases d) auto
      then show ?thesis by simp
    qed
  qed
qed

lemma batch_items:
  assumes "x \<in> set (outbox_batch now xs)"
  shows "x \<in> set xs" and "outbox_due now x"
  using assms set_take_subset [of 50 "sort_key ob_ID (filter (outbox_due now) xs)"]
  by (auto simp: outbox_batch_def)

lemma distinct_batch: "distinct (map ob_ID xs) \<Longrightarrow> distinct (map ob_ID (outbox_batch now xs))"
proof -
  assume d: "distinct (map ob_ID xs)"
  let ?ys = "sort_key ob_ID (filter (outbox_due now) xs)"
  have "distinct (filter (outbox_due now) xs)" using d by (simp add: distinct_map)
  moreover have "inj_on ob_ID (set ?ys)"
    using d by (auto simp: distinct_map intro: inj_on_subset)
  ultimately have "distinct (map ob_ID ?ys)" by (simp add: distinct_map)
  then show ?thesis unfolding outbox_batch_def take_map [symmetric] by (rule distinct_take)
qed

lemma batch_row:
  assumes d: "distinct (map ob_ID xs)" and x: "x \<in> set xs" and id: "ob_ID x \<in> ob_ID ` set (outbox_batch now xs)"
  shows "x \<in> set (outbox_batch now xs)"
proof -
  obtain y where y: "y \<in> set (outbox_batch now xs)" "ob_ID y = ob_ID x" using id by auto
  then have "y = x" using d x batch_items(1) by (metis distinct_map inj_onD)
  with y(1) show ?thesis by simp
qed

lemma ProcessOutbox_run:
  assumes run: "ProcessOutbox E v = (r, v')" and d: "distinct (map ob_ID (outbox v))"
  shows "no_task_written (core v) (core v') \<and> bindings v' = bindings v \<and> accounts v' = accounts v \<and>
    length (outbox v') = length (outbox v) \<and>
    (outbox v' = outbox v \<or>
     (\<exists>now. clock (core v) \<le> now \<and> now \<le> clock (core v') \<and>
        (\<forall>k < length (outbox v).
           if outbox v ! k \<in> set (outbox_batch now (outbox v))
           then attempted (clock (core v)) (clock (core v')) (outbox v ! k) (outbox v' ! k)
           else outbox v' ! k = outbox v ! k)))"
proof -
  obtain z u where claim: "ClaimDue 50 v = (z, u)" by fastforce
  show ?thesis
  proof (cases "\<exists>items. z = Ok items \<and> items \<noteq> []")
    case False
    then have "only_links v u" using ClaimDue_run [OF claim] by (auto simp: only_links_def)
    moreover have "only_links u v'"
    proof (cases z)
      case (Ok items)
      then have "items = []" using False by simp
      obtain c v2 where "attempt CountPending u = (Ok c, v2) \<or> (\<exists>p. attempt CountPending u = (Panic p, v2))"
        by (cases "CountPending u"; cases "fst (CountPending u)") (auto simp: attempt_def)
      moreover have "only_links u v2" if "attempt CountPending u = (x, v2)" for x
        by (rule stepsD [OF only_links.steps_attempt [OF only_links.outbox_reads(1)] that])
      ultimately show ?thesis
        using run claim Ok \<open>items = []\<close> by (auto simp: ProcessOutbox_def bindE_def for_each_def ret_def)
    qed (use run claim in \<open>auto simp: ProcessOutbox_def bindE_def only_links.run_refl\<close>)
    ultimately have "only_links v v'" by (rule only_links_trans)
    then show ?thesis by (simp add: only_links_def)
  next
    case True
    then obtain now now2 w where w: "only_links v w" and now: "clock (core v) \<le> now" "now \<le> clock (core w)"
      and z: "z = Ok (map (\<lambda>x. x\<lparr>ob_Status := SyncOutboxStatusProcessing\<rparr>) (outbox_batch now (outbox v)))"
      and u: "u = w\<lparr>outbox := map (\<lambda>x. if ob_ID x \<in> ob_ID ` set (outbox_batch now (outbox v))
                               then claimed now2 x else x) (outbox v)\<rparr>"
      using ClaimDue_run [OF claim] by auto
    let ?b = "outbox_batch now (outbox v)"
    let ?items = "map (\<lambda>x. x\<lparr>ob_Status := SyncOutboxStatusProcessing\<rparr>) ?b"
    have ids: "ob_ID ` set ?items = ob_ID ` set ?b" "map ob_ID ?items = map ob_ID ?b"
      by (auto simp: image_image)
    obtain c v2 where count: "attempt CountPending u = (c, v2)" by fastforce
    have v2: "only_links u v2"
      by (rule stepsD [OF only_links.steps_attempt [OF only_links.outbox_reads(1)] count])
    have batch: "changes_rows ?items (settled (clock (core v2)) (clock (core v'))) v2 v'"
    proof (cases c)
      case (Ok x)
      then have "for_each (settle_item E) ?items v2 = (r, v')"
        using run claim z count by (simp add: ProcessOutbox_def bindE_def)
      then show ?thesis
        by (rule settle_batch_run) (unfold ids(2), rule distinct_batch [OF d])
    qed (use run claim z count in \<open>auto simp: ProcessOutbox_def bindE_def changes_rows_def no_task_written_def\<close>)
    have le: "clock (core v) \<le> clock (core w)" "clock (core w) \<le> clock (core v2)"
      "clock (core v2) \<le> clock (core v')"
      using w v2 batch u by (auto simp: only_links_def no_task_written_def changes_rows_def)
    have out: "outbox v2 = outbox u" "length (outbox u) = length (outbox v)"
      using v2 u by (simp_all add: only_links_def)
    have row: "if outbox v ! k \<in> set ?b
        then attempted (clock (core v)) (clock (core v')) (outbox v ! k) (outbox v' ! k)
        else outbox v' ! k = outbox v ! k" if k: "k < length (outbox v)" for k
    proof (cases "outbox v ! k \<in> set ?b")
      case True
      then have "outbox v2 ! k = claimed now2 (outbox v ! k)" using k out u by auto
      moreover have "\<exists>item \<in> set ?items. ob_ID item = ob_ID (outbox v ! k) \<and> ob_Attempts item = ob_Attempts (outbox v ! k)"
        using True by auto
      ultimately have "\<exists>item. ob_Attempts item = ob_Attempts (outbox v ! k) \<and>
          settled (clock (core v2)) (clock (core v')) item (claimed now2 (outbox v ! k)) (outbox v' ! k)"
        using batch k out by (fastforce simp: changes_rows_def claimed_def)
      then show ?thesis using True le by (auto simp: settled_def attempted_def claimed_def item_le_def)
    next
      case False
      then have "ob_ID (outbox v ! k) \<notin> ob_ID ` set ?b" using batch_row [OF d] k by auto
      then have "outbox v2 ! k = outbox v ! k" "ob_ID (outbox v2 ! k) \<notin> ob_ID ` set ?items"
        using k out u ids by auto
      then have "outbox v' ! k = outbox v ! k" using batch k out by (simp add: changes_rows_def)
      with False show ?thesis by simp
    qed
    have "no_task_written (core v) (core v')" "bindings v' = bindings v" "accounts v' = accounts v"
      "length (outbox v') = length (outbox v)"
      using w v2 batch u out by (auto simp: only_links_def no_task_written_def changes_rows_def)
    moreover have "now \<le> clock (core v')" using now le by simp
    ultimately show ?thesis using row now(1) by blast
  qed
qed

subsection \<open>Items move forward\<close>

text \<open>The phases of an item, in the order in which it goes through them.\<close>

datatype item_phase = Waiting | Taken | Settled

primrec phase_rank :: "item_phase \<Rightarrow> nat" where
  "phase_rank Waiting = 0"
| "phase_rank Taken = 1"
| "phase_rank Settled = 2"

instantiation item_phase :: linorder
begin

definition less_eq_item_phase :: "item_phase \<Rightarrow> item_phase \<Rightarrow> bool" where
  "p \<le> q \<longleftrightarrow> phase_rank p \<le> phase_rank q"

definition less_item_phase :: "item_phase \<Rightarrow> item_phase \<Rightarrow> bool" where
  "p < q \<longleftrightarrow> phase_rank p < phase_rank q"

instance
proof
  fix p q :: item_phase
  assume "p \<le> q" "q \<le> p"
  then show "p = q" by (cases p; cases q) (simp_all add: less_eq_item_phase_def)
qed (auto simp: less_eq_item_phase_def less_item_phase_def)

end

definition phase_of :: "sync_outbox \<Rightarrow> item_phase" where
  "phase_of x =
     (if ob_Status x = SyncOutboxStatusPending then Waiting
      else if ob_Status x = SyncOutboxStatusProcessing then Taken else Settled)"

text \<open>More failed attempts, or as many and a later phase.\<close>

definition ahead_of :: "sync_outbox \<Rightarrow> sync_outbox \<Rightarrow> bool" where
  "ahead_of y x \<longleftrightarrow>
     ob_Attempts x < ob_Attempts y \<or> ob_Attempts x = ob_Attempts y \<and> phase_of x < phase_of y"

lemma attempted_ahead:
  assumes "attempted a b x y" and "outbox_due now x"
  shows "ahead_of y x"
  using assms by (auto simp: attempted_def ahead_of_def outbox_due_def phase_of_def less_item_phase_def)

text \<open>A round leaves an item as it is or moves it forward.\<close>

lemma round_moves_forward:
  assumes "ProcessOutbox E v = (r, v')" and "distinct (map ob_ID (outbox v))" and k: "k < length (outbox v)"
  shows "outbox v' ! k = outbox v ! k \<or> ahead_of (outbox v' ! k) (outbox v ! k)"
  using ProcessOutbox_run [OF assms(1,2)] k batch_items(2) attempted_ahead by metis

end
