(* ===== verification/Task_Atomicity.thy ===== *)
theory Task_Atomicity
  imports Service_Machine
begin

text \<open>
  What an error of the service leaves behind.  Operations that cannot return an error are collected
  first; a write followed by such operations is a write whose error means that nothing was written.
  The update of a recurrence parent needs one step more: while its transaction holds the row, even
  the pooled statements of the publishing helpers cannot change the table.
\<close>

subsection \<open>Total operations of the service\<close>

lemma total_service [total_rules]:
  "total (record_history i u action old new)" "total (notifyCalendarExport E i action)"
  "total (purgeAttachmentsBestEffort E i cs)" "total (shouldRepublishScheduleAfterUnmute t)"
  "total (with_task t m)"
proof -
  show "total (record_history i u action old new)"
    unfolding record_history_def by (intro total_rules)
  show "total (notifyCalendarExport E i action)"
    unfolding notifyCalendarExport_def by (intro total_rules)
  have "total (purge_attempts n k i cs)" for n k
  proof (induction n arbitrary: k)
    case (Suc n)
    then show ?case unfolding purge_attempts.simps by (intro total_rules)
  qed (simp add: total_ret)
  then show "total (purgeAttachmentsBestEffort E i cs)"
    unfolding purgeAttachmentsBestEffort_def by (intro total_rules)
  show "total (shouldRepublishScheduleAfterUnmute t)"
    unfolding shouldRepublishScheduleAfterUnmute_def by (intro total_rules)
  show "total (with_task t m)"
    unfolding with_task_def by (intro total_rules)
qed

lemma total_publishSchedule [total_rules]:
  "total (publishScheduleTaskEvent E in_tx t advance)"
  "total (publishScheduleForTaskAfterUnmute E t)"
  "total (prepareChildScheduleStartDate E in_tx t advance)"
  unfolding publishScheduleForTaskAfterUnmute_def publishScheduleTaskEvent_def
    prepareChildScheduleStartDate_def by (intro total_rules)+

lemma total_update [total_rules]:
  "total (publish_delete_logged E t)" "total (publish_if_due E t)"
  "total (publish_single_changes E old u t)" "total (publish_mute_change E old u t)"
  "total (publish_pending E t)" "total (publish_new_child E t)"
  "total (prepare_pending E advance t)" "total (update_history i old u t)"
  "total (add_confirmation_child E i t)"
proof -
  show d: "total (publish_delete_logged E t)" for t
    unfolding publish_delete_logged_def by (intro total_rules)
  show p: "total (publish_if_due E t)" for t
    unfolding publish_if_due_def by (intro total_rules)
  show n: "total (publish_new_child E t)" for t
    unfolding publish_new_child_def by (intro total_rules)
  show "total (publish_single_changes E old u t)" "total (publish_mute_change E old u t)"
    "total (publish_pending E t)" "total (prepare_pending E advance t)"
    "total (update_history i old u t)" "total (add_confirmation_child E i t)"
    unfolding publish_single_changes_def publish_mute_change_def publish_pending_def
      prepare_pending_def update_history_def add_confirmation_child_def
    by (intro total_rules d p n)+
qed

lemma total_lifecycle [total_rules]:
  "total (after_delete E t cs)" "total (mute_child E c)" "total (unmute_child E c)"
  "total (finish_mute E i old t)" "total (create_next_child E t shift)"
  "total (purgeAttachmentsAfterTaskDone E i)" "total (active_children i)"
  "total (recordCompletionShiftHistory s p)"
  unfolding after_delete_def mute_child_def unmute_child_def finish_mute_def create_next_child_def
    next_occurrence_def purgeAttachmentsAfterTaskDone_def active_children_def
    recordCompletionShiftHistory_def
  by (intro total_rules)+

subsection \<open>An error leaves the table as it was\<close>

lemma steps_same_publish [steps_rules]: "steps same_tasks (publishTaskEvent E t ev)"
  unfolding publishTaskEvent_def by (intro steps_rules same_tasks_publish)

lemma steps_same_publish_rescheduled [steps_rules]: "steps same_tasks (publish_rescheduled E t d)"
  unfolding publish_rescheduled_def by (intro steps_rules)

lemma unchanged_CreateTask: "unchanged_on_error (CreateTask E t)"
  unfolding CreateTask_def
  by (intro unchanged_then unchanged_write unchanged_rules steps_rules total_rules)

lemma unchanged_RescheduleTask: "unchanged_on_error (RescheduleTask E t)"
  unfolding RescheduleTask_def
  by (intro unchanged_then unchanged_write unchanged_rules steps_rules total_rules)

lemma unchanged_mute: "unchanged_on_error (MuteTask E i)" "unchanged_on_error (UnmuteTask E i)"
  unfolding MuteTask_def UnmuteTask_def
  by (intro unchanged_then unchanged_if unchanged_Let unchanged_write [OF unchanged_repo(1)]
      unchanged_same steps_rules total_rules)+

lemma unchanged_DeleteTask: "unchanged_on_error (DeleteTask E i)"
proof -
  have "unchanged_on_error (delete_in_tx E t)" for t
    unfolding delete_in_tx_def
    by (intro unchanged_then unchanged_write [OF unchanged_Commit] steps_rules total_rules)
  then have in_tx: "unchanged_on_error (bindE (delete_in_tx E t) (after_delete E t))" for t
    by (rule unchanged_write) (rule total_lifecycle)
  show ?thesis
    unfolding DeleteTask_def delete_without_db_def
    by (intro unchanged_then unchanged_if unchanged_rollback in_tx unchanged_same
        unchanged_write [OF unchanged_repo(2)] steps_rules total_rules)
qed
text \<open>
  An update inside a transaction.  While the transaction holds row \<open>i\<close>, a pooled write of that row
  waits until the request is cancelled; until the commit, then, the table stays as it is.
\<close>

definition holding :: "int \<Rightarrow> row list \<Rightarrow> world \<Rightarrow> bool" where
  "holding i rs w \<longleftrightarrow> tasks w = rs \<and>
     (cancelled w \<or>
      (case tx w of None \<Rightarrow> False
       | Some ov \<Rightarrow> \<forall>r \<in> set rs. live r \<and> row_id r = i \<longrightarrow> (\<exists>v \<in> set ov. row_id v = i)))"

definition holds_on :: "int \<Rightarrow> world \<Rightarrow> world \<Rightarrow> bool" where
  "holds_on i w w' \<longleftrightarrow> (\<forall>rs. holding i rs w \<longrightarrow> holding i rs w')"

lemma holds_on_same:
  "tasks w' = tasks w \<Longrightarrow> tx w' = tx w \<Longrightarrow> cancelled w' = cancelled w \<Longrightarrow> holds_on i w w'"
  by (simp add: holds_on_def holding_def)

interpretation holds_on: run_preorder "holds_on i" for i
  by unfold_locales (auto simp: holds_on_def)

lemma holds_on_basic [steps_rules]:
  "steps (holds_on i) time_Now" "steps (holds_on i) (external text)"
  by (auto simp: steps_def time_Now_def external_def holds_on_same holds_on.run_refl split: list.split)

interpretation holds_on: quiet_run "holds_on i" for i
proof
  show "steps (holds_on i) (CreateTaskHistory h)" for h
    unfolding CreateTaskHistory_def
    by (intro steps_rules holds_on.steps_modify) (simp add: holds_on_same)
  show "steps (holds_on i) (Touch a u at)" for a u at
    by (cases a) (auto simp: TouchLastActivity_def holds_on_same intro!: steps_rules holds_on.steps_modify)
  show "steps (holds_on i) (OnTaskChanged x j action)" for x j action
    by (cases x) (auto simp: holds_on_same intro!: steps_rules holds_on.steps_modify)
  show "steps (holds_on i) (PurgeByTask j cs)" for j cs
    unfolding PurgeByTask_def by (intro steps_rules holds_on.steps_modify) (simp add: holds_on_same)
  show "steps (holds_on i) (Sleep d)" for d
    unfolding Sleep_def by (intro holds_on.steps_modify) (simp add: holds_on_same)
  show "steps (holds_on i) (Publish p m)" for p m
    by (cases p) (auto simp: holds_on_same intro!: steps_rules holds_on.steps_modify)
qed (intro steps_rules)+

lemma holds_on_publish [steps_rules]:
  "steps (holds_on i) (Publish p m)" "steps (holds_on i) (publishTaskEvent E t ev)"
proof -
  show p: "steps (holds_on i) (Publish p m)" for p m
    by (cases p) (auto simp: holds_on_same intro!: steps_rules holds_on.steps_modify)
  show "steps (holds_on i) (publishTaskEvent E t ev)"
    unfolding publishTaskEvent_def by (intro steps_rules p)
qed

lemma holds_on_tx_write [steps_rules]: "steps (holds_on i) (tx_write P f failure)"
proof (rule stepsI, unfold holds_on_def, intro allI impI)
  fix w rs assume h: "holding i rs w"
  show "holding i rs (snd (tx_write P f failure w))"
  proof (cases "cancelled w")
    case True
    then show ?thesis using h by (simp add: tx_write_def bindE_def external_def)
  next
    case False
    then show ?thesis using h
      by (auto simp: tx_write_def bindE_def external_def holding_def
          split: list.splits option.splits)
  qed
qed

lemma holds_on_update [steps_rules]:
  "steps (holds_on i) (repo_UpdateTaskWithTx t)" "steps (holds_on i) (repo_DeleteTaskWithTx j)"
  "steps (holds_on i) (repo_DeleteChildTasksWithTx j)"
  unfolding repo_UpdateTaskWithTx_def repo_DeleteTaskWithTx_def repo_DeleteChildTasksWithTx_def
  by (intro steps_rules)+


lemma holding_pool_write:
  assumes h: "holding i rs w" and P: "\<And>r. P r \<Longrightarrow> live r \<and> row_id r = i"
  shows "holding i rs (snd (pool_write P f failure w))"
proof (cases "cancelled w")
  case True
  then show ?thesis using h by (simp add: pool_write_def bindE_def external_def)
next
  case False
  with h obtain ov where ov: "tx w = Some ov" "tasks w = rs"
    "\<And>r. r \<in> set rs \<Longrightarrow> live r \<Longrightarrow> row_id r = i \<Longrightarrow> \<exists>v \<in> set ov. row_id v = i"
    by (auto simp: holding_def split: option.splits)
  have lock: "lock_held (w\<lparr>faults := fs\<rparr>) P \<longleftrightarrow> (\<exists>r \<in> set rs. P r)" for fs
    using ov P by (fastforce simp: lock_held_def list_ex_iff)
  have same: "update_rows P f rs = rs" if "\<not> (\<exists>r \<in> set rs. P r)"
    using that by (auto simp: update_rows_def intro!: map_idI)
  have step: "holding i rs (snd (if lock_held v P then (Err e, wait_for_cancel v)
      else (Ok (), v\<lparr>tasks := update_rows P f (tasks v)\<rparr>)))" if "v = w\<lparr>faults := fs\<rparr>" for v fs e
    using h ov(2) same by (simp add: that lock) (auto simp: holding_def wait_for_cancel_def)
  have "external failure w = (Err (ErrOther failure), w\<lparr>faults := tl (faults w)\<rparr>) \<or>
      external failure w = (Ok (), w\<lparr>faults := tl (faults w)\<rparr>)"
    using False by (cases w) (auto simp: external_def split: list.split)
  then show ?thesis
    using h step [OF refl] by (auto simp: pool_write_def bindE_def) (auto simp: holding_def)
qed

lemma holds_on_pool_update [steps_rules]:
  assumes "ID t = i" shows "steps (holds_on i) (repo_UpdateTask t)"
  unfolding repo_UpdateTask_def
  by (intro steps_rules stepsI) (auto simp: holds_on_def assms intro!: holding_pool_write)

text \<open>Publishing gives back the task it was given, but for its start date.\<close>

abbreviation yields :: "'a wop \<Rightarrow> ('a \<Rightarrow> bool) \<Rightarrow> bool" where
  "yields m Q \<equiv> keeps (\<lambda>_. True) m Q"

lemma yields_any: "yields m (\<lambda>_. True)"
  by (simp add: keeps_def)

lemma yields_publish:
  "yields (publishScheduleTaskEvent E in_tx t advance) (\<lambda>(t', _). \<exists>d. t' = t\<lparr>StartDate := d\<rparr>)"
  "yields (publish_if_due E t) (\<lambda>t'. \<exists>d. t' = t\<lparr>StartDate := d\<rparr>)"
proof -
  have same: "\<exists>d. t = t\<lparr>StartDate := d\<rparr>" by (rule exI [of _ "StartDate t"]) simp
  show p: "yields (publishScheduleTaskEvent E in_tx t advance) (\<lambda>(t', _). \<exists>d. t' = t\<lparr>StartDate := d\<rparr>)"
    for in_tx advance
    unfolding publishScheduleTaskEvent_def
    by (intro keeps_then [OF yields_any] keeps_cases keeps_with_task [OF yields_any]) (auto intro: same)
  show "yields (publish_if_due E t) (\<lambda>t'. \<exists>d. t' = t\<lparr>StartDate := d\<rparr>)"
    unfolding publish_if_due_def publishScheduleForTaskAfterUnmute_def
    by (rule keeps_then [OF yields_any], rule keeps_if, rule keeps_bindE [OF p])
       (auto intro!: keeps_ret same)
qed

lemma yields_changes:
  "yields (publish_single_changes E old u t) (\<lambda>t'. \<exists>d. t' = t\<lparr>StartDate := d\<rparr>)"
  "yields (publish_mute_change E old u t) (\<lambda>t'. \<exists>d. t' = t\<lparr>StartDate := d\<rparr>)"
proof -
  have same: "\<exists>d. t = t\<lparr>StartDate := d\<rparr>" by (rule exI [of _ "StartDate t"]) simp
  show "yields (publish_single_changes E old u t) (\<lambda>t'. \<exists>d. t' = t\<lparr>StartDate := d\<rparr>)"
    "yields (publish_mute_change E old u t) (\<lambda>t'. \<exists>d. t' = t\<lparr>StartDate := d\<rparr>)"
    unfolding publish_single_changes_def publish_mute_change_def
    by (intro keeps_if yields_publish keeps_then [OF yields_any] keeps_ret same)+
qed

lemma holds_on_publishing:
  assumes "ID t = i"
  shows "steps (holds_on i) (publishScheduleTaskEvent E in_tx t advance)"
    "steps (holds_on i) (publish_if_due E t)"
    "steps (holds_on i) (publish_single_changes E old u t)"
    "steps (holds_on i) (publish_mute_change E old u t)"
proof -
  have u: "steps (holds_on i) (update_task in_tx (t\<lparr>StartDate := d\<rparr>))" for in_tx d
    unfolding update_task_def by (intro steps_rules) (simp add: assms)
  show p: "steps (holds_on i) (publishScheduleTaskEvent E in_tx t advance)" for in_tx advance
    unfolding publishScheduleTaskEvent_def by (intro steps_rules u)
  show d: "steps (holds_on i) (publish_if_due E t)"
    unfolding publish_if_due_def publishScheduleForTaskAfterUnmute_def by (intro steps_rules p)
  show "steps (holds_on i) (publish_single_changes E old u t)"
    "steps (holds_on i) (publish_mute_change E old u t)"
    unfolding publish_single_changes_def publish_mute_change_def by (intro steps_rules d)+
qed

lemma holds_on_children:
  "steps (holds_on i) (prepareChildScheduleStartDate E True c advance)"
  "steps (holds_on i) (sync_child E old u t c pending)"
  "steps (holds_on i) (delete_all_children E t cs)" "steps (holds_on i) (delete_active_children E t cs)"
proof -
  have u: "steps (holds_on i) (update_task True c)" for c
    by (simp add: update_task_def holds_on_update)
  show p: "steps (holds_on i) (prepareChildScheduleStartDate E True c advance)" for c advance
    unfolding prepareChildScheduleStartDate_def by (intro steps_rules u)
  have q: "steps (holds_on i) (prepare_pending E advance c)" for c advance
    unfolding prepare_pending_def by (intro steps_rules p)
  show "steps (holds_on i) (sync_child E old u t c pending)"
    unfolding sync_child_def by (intro steps_rules q)
  show "steps (holds_on i) (delete_all_children E t cs)" "steps (holds_on i) (delete_active_children E t cs)"
    unfolding delete_all_children_def delete_active_children_def by (intro steps_rules)+
qed

text \<open>\<open>safe_on i m\<close>: an error of \<open>m\<close>, run while the transaction holds row \<open>i\<close>, leaves the table as it was.\<close>

definition safe_on :: "int \<Rightarrow> 'a wop \<Rightarrow> bool" where
  "safe_on i m \<longleftrightarrow> (\<forall>rs w e w'. holding i rs w \<longrightarrow> m w = (Err e, w') \<longrightarrow> tasks w' = rs)"

lemma holding_table: "holding i rs w \<Longrightarrow> tasks w = rs"
  by (simp add: holding_def)

lemma safe_unchanged: "unchanged_on_error m \<Longrightarrow> safe_on i m"
  unfolding safe_on_def using holding_table unchangedD by fastforce

lemma safe_then:
  assumes m: "steps (holds_on i) m" "yields m Q" and k: "\<And>x. Q x \<Longrightarrow> safe_on i (k x)"
  shows "safe_on i (bindE m k)"
  unfolding safe_on_def
proof (intro allI impI)
  fix rs w e w' assume h: "holding i rs w" and "bindE m k w = (Err e, w')"
  from this(2) show "tasks w' = rs"
  proof (cases rule: bindE_ErrE)
    case 1
    then have "holding i rs w'" using stepsD [OF m(1)] h by (auto simp: holds_on_def)
    then show ?thesis by (rule holding_table)
  next
    case (2 x w1)
    then have "holding i rs w1" using stepsD [OF m(1)] h by (auto simp: holds_on_def)
    moreover have "Q x" by (rule keeps_result [OF m(2) TrueI 2(1)])
    ultimately show ?thesis using k 2(2) by (auto simp: safe_on_def)
  qed
qed

lemma safe_next: "steps (holds_on i) m \<Longrightarrow> (\<And>x. safe_on i (k x)) \<Longrightarrow> safe_on i (bindE m k)"
  by (rule safe_then [OF _ yields_any])

lemma safe_if: "safe_on i m \<Longrightarrow> safe_on i n \<Longrightarrow> safe_on i (if b then m else n)"
  by simp

lemma total_after_commit:
  "total (bindE (for_each (publish_pending E) pending) (\<lambda>_. k))" if "total k"
  using that by (intro total_rules)

lemma unchanged_commit_then: "total k \<Longrightarrow> unchanged_on_error (bindE Commit (\<lambda>_. k))"
  by (rule unchanged_write [OF unchanged_Commit])

lemma safe_finish_update:
  assumes "\<And>x. total (rest x)"
  shows "safe_on i (bindE (when_op b (publish_delete_logged E t)) (\<lambda>_.
     bindE (when_op (\<not> committed) Commit) (\<lambda>_. rest t)))"
proof (cases committed)
  case True
  then show ?thesis
    by (intro safe_unchanged unchanged_total) (simp add: when_op_def, intro total_rules conjI impI assms)
next
  case False
  then show ?thesis
    by (intro safe_next steps_rules safe_unchanged)
       (simp add: when_op_def unchanged_commit_then assms)
qed

lemma safe_update_children:
  assumes rest: "\<And>x. total (rest x)" and t: "ID t = i"
  shows "safe_on i (bindE (update_children E i old u t) rest)"
proof -
  define tail where "tail = (\<lambda>(t, committed).
    bindE (when_op (muteTransition old t u \<and> Muted t) (publish_delete_logged E t)) (\<lambda>_.
    bindE (when_op (\<not> committed) Commit) (\<lambda>_. rest t)))"
  have tail: "safe_on i (tail z)" for z
    by (cases z) (simp add: tail_def safe_finish_update rest)
  have tail_total: "total (tail (t, True))" for t
    by (simp add: tail_def when_op_def) (intro total_rules conjI impI rest)
  have committed: "safe_on i (bindE Commit (\<lambda>_. bindE (for_each (publish_pending E) ps) (\<lambda>_. tail (t, True))))" for ps
    by (intro safe_unchanged unchanged_commit_then total_after_commit tail_total)
  have sync: "safe_on i (bindE (sync_children E old u t cs) tail)" for cs
    unfolding sync_children_def if_distrib [of "\<lambda>m. bindE m tail"] bindE_assoc bindE_ret
    by (intro safe_if tail safe_next [OF holds_on_publishing(2)] safe_next [OF holds_on_children(3)]
        safe_next [OF holds_on_children(4)] t
        safe_next [OF holds_on.steps_fold_op] holds_on_children committed)
  have eq: "bindE (update_children E i old u t) rest =
      bindE (repo_GetChildTasksByParentID i) (\<lambda>cs. bindE (sync_children E old u t cs) tail)"
    by (simp add: update_children_def bindE_assoc tail_def case_prod_unfold)
  show ?thesis unfolding eq by (intro safe_next steps_rules sync)
qed

lemma tx_write_Ok:
  assumes "tx_write P f failure w = (Ok (), w')"
  shows "\<exists>ov. tx w = Some ov \<and> tasks w' = tasks w \<and>
     tx w' = Some (map f (filter P (map (tx_view ov) (tasks w))) @ ov)"
  using assms
  by (auto simp: tx_write_def bindE_def external_def split: if_splits list.splits option.splits)

lemma holding_after_update:
  assumes t: "ID t = i" and w: "tx w = Some []" and run: "repo_UpdateTaskWithTx t w = (Ok (), w')"
  shows "holding i (tasks w) w'"
proof -
  obtain now f w1 where w1: "tx w1 = Some []" "tasks w1 = tasks w"
    and run1: "tx_write (\<lambda>r. live r \<and> row_id r = ID t) (set_columns t now) f w1 = (Ok (), w')"
    by (rule that [OF _ _ run [unfolded repo_UpdateTaskWithTx_def time_Now_def bindE_def prod.case outcome.case]])
       (simp_all add: w)
  have w': "tasks w' = tasks w" "tx w' = Some (map (set_columns t now)
      (filter (\<lambda>r. live r \<and> row_id r = ID t) (tasks w)))"
    using tx_write_Ok [OF run1] w1 by (auto simp: tx_view_def map_idI)
  have "row_id (set_columns t now r) = row_id r" for r
    by (simp add: set_columns_def row_id_def)
  then show ?thesis using t by (auto simp: holding_def w')
qed

lemma unchanged_update_in_tx:
  assumes t: "ID t = i" and k: "\<And>x. safe_on i (k x)"
  shows "unchanged_on_error (bindE BeginTxx (\<lambda>_. bindE (repo_UpdateTaskWithTx t) k))"
  unfolding unchanged_on_error_def
proof (intro allI impI)
  fix w e w' assume "bindE BeginTxx (\<lambda>_. bindE (repo_UpdateTaskWithTx t) k) w = (Err e, w')"
  then show "tasks w' = tasks w"
  proof (cases rule: bindE_ErrE)
    case 1
    then show ?thesis using stepsD [OF same_tasks.state_BeginTxx] by (simp add: same_tasks_def)
  next
    case (2 x w1)
    then have w1: "tasks w1 = tasks w" "tx w1 = Some []"
      by (auto simp: BeginTxx_def bindE_def external_def modify_def split: if_splits list.splits)
    from 2(2) show ?thesis
    proof (cases rule: bindE_ErrE)
      case 1
      then show ?thesis using stepsD [OF same_tasks.update_in_tx] w1 by (simp add: same_tasks_def)
    next
      case (2 y w2)
      then have "repo_UpdateTaskWithTx t w1 = (Ok (), w2)" by (cases y) simp
      then have "holding i (tasks w1) w2" by (rule holding_after_update [OF t w1(2)])
      then show ?thesis using k [of y] 2(2) w1(1) unfolding safe_on_def by metis
    qed
  qed
qed

lemma unchanged_update_body:
  assumes t: "ID t = i"
  shows "unchanged_on_error (update_body E i old u t)"
proof -
  define rest where "rest = (\<lambda>t.
      bindE (when_op (u_RequiresConfirmation u \<noteq> None \<and> \<not> RequiresConfirmation old \<and>
                      RequiresConfirmation t \<and> hasRecurrenceRule t)
               (add_confirmation_child E i t)) (\<lambda>_.
      bindE (update_history i old u t) (\<lambda>_.
      bindE (touchUserActivity (activity E) (UserID t)) (\<lambda>_.
      bindE (notifyCalendarExport E i ''updated'') (\<lambda>_.
      ret t)))))"
  have rest: "total (rest t)" for t
    unfolding rest_def by (intro total_rules)
  define parent where "parent = isRecurrenceParentWithConfirmation t"
  define kids where "kids = (\<lambda>t. bindE (update_children E i old u t) rest)"
  define told where "told = (\<lambda>_ :: unit. bindE (if parent then ret t else publish_single_changes E old u t)
      (\<lambda>t. bindE (if parent then ret t else publish_mute_change E old u t) kids))"
  have kids: "safe_on i (kids t)" if "ID t = i" for t
    unfolding kids_def by (rule safe_update_children [OF rest that])
  have id: "yields (if parent then ret t else m) (\<lambda>t'. ID t' = i)"
    if "yields m (\<lambda>t'. \<exists>d. t' = t\<lparr>StartDate := d\<rparr>)" "ID t = i" for m t
  proof -
    have "yields m (\<lambda>t'. ID t' = i)"
      using that(2) by (intro keeps_weaken [OF that(1)]) auto
    then show ?thesis using that(2) by (simp add: keeps_ret)
  qed
  have told: "safe_on i (told x)" for x
    unfolding told_def
    by (rule safe_then [OF holds_on.steps_if [OF holds_on.steps_ret holds_on_publishing(3) [OF t]]
          id [OF yields_changes(1) t]],
        rule safe_then [OF holds_on.steps_if [OF holds_on.steps_ret holds_on_publishing(4)]
          id [OF yields_changes(2)]]) (simp_all add: kids)
  show ?thesis
  proof (cases "isRecurrenceParentWithConfirmation old \<or> parent")
    case True
    then have "update_body E i old u t = bindE (begin_parent_tx E) (\<lambda>_. bindE (repo_UpdateTaskWithTx t) told)"
      by (simp add: update_body_def parent_def when_op_def update_task_def told_def kids_def rest_def Let_def)
    then show ?thesis
      by (simp add: begin_parent_tx_def unchanged_update_in_tx [OF t told] unchanged_same same_tasks.steps_fail)
  next
    case False
    then have "update_body E i old u t = bindE (repo_UpdateTask t) (\<lambda>_.
        bindE (publish_single_changes E old u t) (\<lambda>t. bindE (publish_mute_change E old u t) rest))"
      by (simp add: update_body_def parent_def when_op_def update_task_def rest_def Let_def)
    then show ?thesis
      by (simp only:) (intro unchanged_write unchanged_repo total_rules rest)
  qed
qed

lemma ID_apply_update: "yields (apply_update old u) (\<lambda>t. ID t = ID old)"
proof -
  have "ID (apply_fields old u) = ID old" by (simp add: apply_fields_def)
  then show ?thesis
    unfolding apply_update_def
    by (intro keeps_then [OF yields_any] keeps_cases) (auto dest!: applyPreRemind_frame)
qed

lemma repo_get_ID: "yields (repo_GetTaskByID i) (\<lambda>t. ID t = i)"
  "yields (repo_GetTaskByIDWithoutStatusFilter i) (\<lambda>t. ID t = i)"
proof -
  have get: "yields (pool_get P missing failure) Q" if "\<And>r. P r \<Longrightarrow> Q (r_task r)" for P missing failure and Q :: "task \<Rightarrow> bool"
    unfolding pool_get_def
    by (intro keeps_then [OF yields_any] keeps_case_option keeps_ret keeps_fail) (auto simp: find_Some_iff that)
  show "yields (repo_GetTaskByID i) (\<lambda>t. ID t = i)"
    "yields (repo_GetTaskByIDWithoutStatusFilter i) (\<lambda>t. ID t = i)"
    unfolding repo_GetTaskByID_def repo_GetTaskByIDWithoutStatusFilter_def
    by (rule get, simp add: row_id_def)+
qed

lemma unchanged_keeps_then:
  "steps same_tasks m \<Longrightarrow> yields m Q \<Longrightarrow> (\<And>x. Q x \<Longrightarrow> unchanged_on_error (k x)) \<Longrightarrow>
     unchanged_on_error (bindE m k)"
  unfolding unchanged_on_error_def
  by (smt (verit) bindE_ErrE keeps_result same_tasks_def stepsD)

lemma unchanged_UpdateTask: "unchanged_on_error (UpdateTask E i u)"
proof -
  have body: "unchanged_on_error (bindE (update_checks E old t u) (\<lambda>_.
      deferred Rollback (update_body E i old u t)))" if "ID t = i" for old t
    by (intro unchanged_then unchanged_rollback unchanged_update_body that steps_rules)
  show ?thesis unfolding UpdateTask_def
    by (rule unchanged_keeps_then [OF _ repo_get_ID(1)], intro steps_rules,
        rule unchanged_keeps_then [OF _ ID_apply_update], intro steps_rules, simp add: body)
qed

lemma unchanged_finish_ruleless:
  assumes "\<not> hasRecurrenceRule t" and "unchanged_on_error m"
  shows "unchanged_on_error (bindE m (\<lambda>_. after_done E t s shift))"
proof (rule unchanged_write [OF assms(2)])
  show "total (after_done E t s shift)"
    unfolding after_done_def finish_children_def if_P [OF assms(1)]
    by (intro total_rules)
qed

lemma unchanged_done_in_tx: "unchanged_on_error (done_in_tx E t shift)"
  unfolding done_in_tx_def
  by (intro unchanged_then unchanged_Commit steps_rules)

lemma hasRecurrenceRule_done [simp]: "hasRecurrenceRule (done_task t now) = hasRecurrenceRule t"
  by (simp add: done_task_def hasRecurrenceRule_def)

lemma find_mem: "find P xs = Some x \<Longrightarrow> x \<in> set xs \<and> P x"
  by (induction xs) (auto split: if_splits)

lemma pool_get_row:
  assumes "pool_get P missing failure w = (Ok t, w')"
  shows "\<exists>r \<in> set (tasks w). P r \<and> r_task r = t" and "tasks w' = tasks w"
  using assms stepsD [OF same_tasks.external]
  by (auto simp: pool_get_def gets_def ret_def fail_def same_tasks_def split: option.splits
      elim!: bindE_OkE dest!: find_mem)

lemma unchanged_MarkTaskAsDone:
  assumes run: "MarkTaskAsDone E i b w = (Err e, w')"
    and "\<And>r. r \<in> set (tasks w) \<Longrightarrow> live r \<Longrightarrow> row_id r = i \<Longrightarrow> \<not> hasRecurrenceRule (r_task r)"
  shows "tasks w' = tasks w"
  using run unfolding MarkTaskAsDone_def
proof (cases rule: bindE_ErrE)
  case 1
  then show ?thesis using stepsD [OF same_tasks.repo_get(2)] by (simp add: same_tasks_def)
next
  case (2 t w1)
  then have w1: "tasks w1 = tasks w" using stepsD [OF same_tasks.repo_get(2)] by (simp add: same_tasks_def)
  have "\<exists>r \<in> set (tasks w). (live r \<and> row_id r = i) \<and> r_task r = t"
    using pool_get_row(1) [OF 2(1) [unfolded repo_GetTaskByIDWithoutStatusFilter_def]] .
  then have rule: "\<not> hasRecurrenceRule t" using assms(2) by blast
  have "unchanged_on_error (if Status t = TaskStatusDone then ret t
      else bindE time_Now (\<lambda>now. bindE (completion_shift E t b now) (\<lambda>shift.
        if \<not> hasDB E then fail no_database
        else bindE BeginTxx (\<lambda>_. deferred Rollback (bindE (done_in_tx E (done_task t now) shift)
          (\<lambda>_. after_done E (done_task t now) (Status t) shift))))))"
    by (intro unchanged_if unchanged_then unchanged_rollback unchanged_finish_ruleless
        unchanged_done_in_tx unchanged_same steps_rules same_tasks.state_BeginTxx) (simp add: rule)
  then show ?thesis using unchangedD 2(2) w1 by fastforce
qed

end
