(* ===== verification/Task_Results.thy ===== *)
theory Task_Results
  imports Task_Atomicity
begin

text \<open>
  What an operation of the service has done when it returns: the rows of the table afterwards, as
  updates of the rows before, and the messages that were queued.  The proofs take a run apart
  statement by statement; the interpretations of \<open>row_store\<close> say what a statement wrote, and those
  of \<open>silent_run\<close> and \<open>quiet_run\<close> that the calls in between wrote nothing.
\<close>

subsection \<open>Publishing\<close>

lemma same_store_publishTaskEvent [steps_rules]: "steps same_store (publishTaskEvent E t ev)"
  unfolding publishTaskEvent_def by (intro steps_rules)

text \<open>What a run that returned has left of the tables, and what one that was silent of the queue.\<close>

lemma store_keeps:
  "steps same_store m \<Longrightarrow> m w = (r, w') \<Longrightarrow> tasks w' = tasks w \<and> tx_table w' = tx_table w \<and> tx w' = tx w"
  by (rule same_storeD) (rule stepsD)

lemma queue_keeps: "steps same_queue m \<Longrightarrow> m w = (r, w') \<Longrightarrow> queue w' = queue w"
  using stepsD [of same_queue m w r w'] by (simp add: same_queue_def)

lemma tasks_keeps: "steps same_tasks m \<Longrightarrow> m w = (r, w') \<Longrightarrow> tasks w' = tasks w"
  using stepsD [of same_tasks m w r w'] by (simp add: same_tasks_def)

lemma publish_Ok:
  assumes "producer E = Producer" "publishTaskEvent E t ev w = (Ok (), w')"
    "\<not> (Muted t \<and> ev_Type ev = TaskEventSchedule)"
  shows "queue w' = queue w @ [ToTaskMessage ev]"
proof -
  have "Publish Producer (ToTaskMessage ev) w = (Ok (), w')"
    using assms unfolding publishTaskEvent_def if_not_P [OF assms(3)] by metis
  then show ?thesis by (rule producer.takes_all)
qed

lemma for_each_queue:
  assumes f: "\<And>x v v'. x \<in> set xs \<Longrightarrow> f x v = (Ok (), v') \<Longrightarrow> queue v' = queue v @ [g x]"
    and "for_each f xs w = (Ok (), w')"
  shows "queue w' = queue w @ map g xs"
  using assms
proof (induction xs arbitrary: w)
  case (Cons x xs)
  obtain y w1 where "f x w = (Ok y, w1)" "for_each f xs w1 = (Ok (), w')"
    using Cons.prems(2) by (auto simp: for_each_def elim!: bindE_OkE)
  then show ?case using Cons.IH [OF Cons.prems(1)] Cons.prems(1) by simp
qed (simp add: for_each_def ret_def)

subsection \<open>Deleting\<close>

definition delete_message :: "string \<Rightarrow> int \<Rightarrow> task_message" where
  "delete_message messengerName i = ToTaskMessage (delete_event i messengerName)"

definition child_of :: "int \<Rightarrow> row \<Rightarrow> bool" where
  "child_of p r \<longleftrightarrow> live r \<and> ParentID (r_task r) = Some p"

lemma publish_child_delete_Ok:
  "producer E = Producer \<Longrightarrow> publish_child_delete E failure n c w = (Ok (), w') \<Longrightarrow>
     queue w' = queue w @ [delete_message n (ID c)]"
  unfolding publish_child_delete_def delete_message_def
  by (drule map_err_OkD, erule publish_Ok) simp_all

lemma delete_all_children_Ok:
  assumes run: "delete_all_children E t cs w = (Ok (), w')" and "cs \<noteq> []"
    and d: "distinct (map row_id (tasks w))"
  shows "\<exists>now. tx_table w' = update_rows (child_of (ID t)) (soft_delete now) (tx_table w)"
    and "tasks w' = tasks w"
    and "producer E = Producer \<Longrightarrow> \<exists>n. queue w' = queue w @ map (\<lambda>c. delete_message n (ID c)) cs"
proof -
  obtain j n w1 w2 w3 where r: "related_user_of t w = (Ok j, w1)" "getMessengerName j w1 = (Ok n, w2)"
    "repo_DeleteChildTasksWithTx (ID t) w2 = (Ok (), w3)"
    "for_each (publish_child_delete E ''failed to queue delete_task message for child task'' n) cs w3 = (Ok (), w')"
    using run assms(2) by (auto simp: delete_all_children_def when_op_def elim!: bindE_OkE)
  have w2: "tasks w2 = tasks w" "tx_table w2 = tx_table w"
    using store_keeps [OF same_store.related_user_of r(1)] store_keeps [OF same_store.messenger_names(2) r(2)] by simp_all
  have each: "steps same_store (for_each (publish_child_delete E f n) cs)" for f
    by (intro steps_rules)
  have w': "tasks w' = tasks w3" "tx_table w' = tx_table w3"
    using store_keeps [OF each r(4)] by simp_all
  show "tasks w' = tasks w"
    using tasks_keeps [OF same_tasks.delete_children_in_tx r(3)] w' w2 by simp
  show "\<exists>now. tx_table w' = update_rows (child_of (ID t)) (soft_delete now) (tx_table w)"
    using repo_tx_writes(3) [OF r(3)] d w' w2 unfolding child_of_def by auto
  assume p: "producer E = Producer"
  have "queue w3 = queue w"
    using queue_keeps [OF same_queue.related_user_of r(1)] queue_keeps [OF same_queue.messenger_names(2) r(2)] queue_keeps [OF same_queue_statements(3) r(3)]
    by simp
  then show "\<exists>n. queue w' = queue w @ map (\<lambda>c. delete_message n (ID c)) cs"
    using for_each_queue [OF publish_child_delete_Ok [OF p] r(4)] by auto
qed

lemma queue_delete_Ok:
  assumes run: "queue_delete E t w = (Ok (), w')" and p: "producer E = Producer"
  shows "\<exists>n. queue w' = queue w @ [delete_message n (ID t)]"
proof -
  obtain j n w1 w2 where r: "related_user_of t w = (Ok j, w1)" "getMessengerName j w1 = (Ok n, w2)"
    and pub: "publishTaskEvent E t (delete_event (ID t) n) w2 = (Ok (), w')"
    using run by (auto simp: queue_delete_def dest!: map_err_OkD elim!: bindE_OkE)
  have "queue w2 = queue w"
    using queue_keeps [OF same_queue.related_user_of r(1)] queue_keeps [OF same_queue.messenger_names(2) r(2)] by simp
  moreover have "queue w' = queue w2 @ [delete_message n (ID t)]"
    unfolding delete_message_def by (rule publish_Ok [OF p pub]) simp
  ultimately show ?thesis by auto
qed

text \<open>The children the pool sees.\<close>

lemma get_children_Ok:
  assumes "repo_GetChildTasksByParentID i w = (Ok cs, w')"
  shows "cs = map r_task (filter (child_of i) (tasks w))"
proof -
  have "child_of i = (\<lambda>r. live r \<and> ParentID (r_task r) = Some i)"
    by (rule ext) (simp add: child_of_def)
  then show ?thesis using assms
    by (auto simp: repo_GetChildTasksByParentID_def pool_select_def gets_def
        dest!: external_world elim!: bindE_OkE)
qed

lemma update_rows_none: "(\<And>r. r \<in> set rs \<Longrightarrow> \<not> P r) \<Longrightarrow> update_rows P f rs = rs"
  by (simp add: update_rows_def map_idI)

lemma steps_same_store_queue_delete: "steps same_store (queue_delete E t)"
  by (rule same_store.queue_delete)

lemma get_children_store:
  "repo_GetChildTasksByParentID i w = (r, w') \<Longrightarrow> tasks w' = tasks w \<and> tx_table w' = tx_table w \<and> queue w' = queue w"
  using store_keeps [OF same_store.repo_get(3)] queue_keeps [OF same_queue.repo_get(3)] by blast

text \<open>The children go first, together, when the task has a rule.\<close>

definition kids_deleted :: "task \<Rightarrow> time \<Rightarrow> row list \<Rightarrow> row list" where
  "kids_deleted t now rs =
     (if hasRecurrenceRule t then update_rows (child_of (ID t)) (soft_delete now) rs else rs)"

definition kids_of :: "task \<Rightarrow> row list \<Rightarrow> int list" where
  "kids_of t rs = (if hasRecurrenceRule t then map row_id (filter (child_of (ID t)) rs) else [])"

lemma delete_kids_Ok:
  assumes run: "(if hasRecurrenceRule t then delete_children_in_tx E t else ret []) w = (Ok cs, w')"
    and w: "tx_table w = tasks w" and d: "distinct (map row_id (tasks w))"
  shows "\<exists>now. tx_table w' = kids_deleted t now (tasks w)" and "tasks w' = tasks w"
    and "producer E = Producer \<Longrightarrow> \<exists>n. queue w' = queue w @ map (delete_message n) (kids_of t (tasks w))"
proof -
  have "(\<exists>now. tx_table w' = kids_deleted t now (tasks w)) \<and> tasks w' = tasks w \<and>
      (producer E = Producer \<longrightarrow> (\<exists>n. queue w' = queue w @ map (delete_message n) (kids_of t (tasks w))))"
  proof (cases "hasRecurrenceRule t")
    case False
    then show ?thesis using run w by (simp add: ret_def kids_deleted_def kids_of_def)
  next
    case True
    then obtain children w1 where r: "repo_GetChildTasksByParentID (ID t) w = (Ok children, w1)"
      "delete_all_children E t children w1 = (Ok (), w')"
      using run by (auto simp: delete_children_in_tx_def ret_def elim!: bindE_OkE)
    note w1 = get_children_store [OF r(1)]
    have c: "children = map r_task (filter (child_of (ID t)) (tasks w))" by (rule get_children_Ok [OF r(1)])
    have ids: "map ID children = kids_of t (tasks w)"
      using True by (simp add: c kids_of_def row_id_def)
    show ?thesis
    proof (cases "children = []")
      case True
      then have "w' = w1" using r(2) by (simp add: delete_all_children_def when_op_def ret_def)
      moreover have "update_rows (child_of (ID t)) f (tasks w) = tasks w" for f
        using True c by (intro update_rows_none) (auto simp: filter_empty_conv)
      ultimately show ?thesis using w1 w ids True \<open>hasRecurrenceRule t\<close>
        by (simp add: kids_deleted_def)
    next
      case False
      note k = delete_all_children_Ok [OF r(2) False]
      have msgs: "map (\<lambda>c. delete_message n (ID c)) children = map (delete_message n) (kids_of t (tasks w))" for n
        by (simp add: ids [symmetric] comp_def)
      show ?thesis using k w1 w d True by (simp add: kids_deleted_def msgs)
    qed
  qed
  then show "\<exists>now. tx_table w' = kids_deleted t now (tasks w)" "tasks w' = tasks w"
    "producer E = Producer \<Longrightarrow> \<exists>n. queue w' = queue w @ map (delete_message n) (kids_of t (tasks w))"
    by blast+
qed

lemma delete_in_tx_Ok:
  assumes run: "delete_in_tx E t w = (Ok cs, w')"
    and w: "tx_table w = tasks w" and d: "distinct (map row_id (tasks w))"
  shows "\<exists>n1 n2. tasks w' = update_rows (\<lambda>r. live r \<and> row_id r = ID t) (soft_delete n2) (kids_deleted t n1 (tasks w))"
    and "producer E = Producer \<Longrightarrow> \<exists>n1 n2. queue w' = queue w @ map (delete_message n1) (kids_of t (tasks w))
           @ [delete_message n2 (ID t)]"
proof -
  obtain w1 w2 w3 where
    r: "(if hasRecurrenceRule t then delete_children_in_tx E t else ret []) w = (Ok cs, w1)"
    "repo_DeleteTaskWithTx (ID t) w1 = (Ok (), w2)" "queue_delete E t w2 = (Ok (), w3)" "Commit w3 = (Ok (), w')"
    using run by (auto simp: delete_in_tx_def ret_def elim!: bindE_OkE)
  note k = delete_kids_Ok [OF r(1) w d]
  have d1: "distinct (map row_id (tasks w1))" using k(2) d by simp
  have "tasks w' = tx_table w2"
    using Commit_Ok [OF r(4)] store_keeps [OF steps_same_store_queue_delete r(3)] by simp
  also have "\<dots> = update_rows (\<lambda>r. live r \<and> row_id r = ID t) (soft_delete (clock (tick w1))) (tx_table w1)"
    by (rule repo_tx_writes(2) [OF r(2) d1])
  finally have "tasks w' = update_rows (\<lambda>r. live r \<and> row_id r = ID t) (soft_delete (clock (tick w1))) (tx_table w1)" .
  then show "\<exists>n1 n2. tasks w' = update_rows (\<lambda>r. live r \<and> row_id r = ID t) (soft_delete n2) (kids_deleted t n1 (tasks w))"
    using k(1) by metis
  assume p: "producer E = Producer"
  have "queue w2 = queue w1" "queue w' = queue w3"
    using queue_keeps [OF same_queue_statements(2) r(2)] queue_keeps [OF same_queue_statements(8) r(4)] by simp_all
  then show "\<exists>n1 n2. queue w' = queue w @ map (delete_message n1) (kids_of t (tasks w)) @ [delete_message n2 (ID t)]"
    using k(3) [OF p] queue_delete_Ok [OF r(3) p] by auto
qed

lemma get_task_row:
  assumes "repo_GetTaskByIDWithoutStatusFilter i w = (Ok t, w')"
  shows "\<exists>r \<in> set (tasks w). live r \<and> row_id r = i \<and> r_task r = t" and "tasks w' = tasks w"
    "queue w' = queue w" "ID t = i"
  using pool_get_row [OF assms [unfolded repo_GetTaskByIDWithoutStatusFilter_def]]
    queue_keeps [OF same_queue.repo_get(2) assms] keeps_result [OF repo_get_ID(2) TrueI assms]
  by blast+

text \<open>A delete that returned: what is in the table and what is in the queue.\<close>

lemma DeleteTask_Ok:
  assumes run: "DeleteTask E i w = (Ok (), w')" and db: "hasDB E" and d: "distinct (map row_id (tasks w))"
  shows "\<exists>old \<in> set (tasks w). live old \<and> row_id old = i \<and>
    (\<exists>n1 n2. tasks w' = update_rows (\<lambda>r. live r \<and> row_id r = i) (soft_delete n2)
       (kids_deleted (r_task old) n1 (tasks w))) \<and>
    (producer E = Producer \<longrightarrow> (\<exists>n1 n2. queue w' = queue w @
       map (delete_message n1) (kids_of (r_task old) (tasks w)) @ [delete_message n2 i]))"
proof -
  obtain t w1 w2 where r: "repo_GetTaskByIDWithoutStatusFilter i w = (Ok t, w1)" "BeginTxx w1 = (Ok (), w2)"
    "deferred Rollback (bindE (delete_in_tx E t) (after_delete E t)) w2 = (Ok (), w')"
    using run db by (auto simp: DeleteTask_def elim!: bindE_OkE)
  obtain cs w3 w4 where b: "delete_in_tx E t w2 = (Ok cs, w3)" "after_delete E t cs w3 = (Ok (), w4)"
    "w' = Rollback w4"
    using r(3) by (auto dest!: deferred_split elim!: bindE_OkE)
  note t = get_task_row [OF r(1)] and bg = BeginTxx_Ok [OF r(2)]
  have w2: "tx_table w2 = tasks w2" "distinct (map row_id (tasks w2))" using bg t d by simp_all
  have w': "tasks w' = tasks w3" "queue w' = queue w3"
    using store_keeps [OF same_store.after_delete b(2)] queue_keeps [OF same_queue.after_delete b(2)]
    by (simp_all add: b(3) Rollback_def)
  show ?thesis
    using delete_in_tx_Ok [OF b(1) w2] t bg by (auto simp: w')
qed

subsection \<open>Creating\<close>

definition normal_task :: "task \<Rightarrow> task" where
  "normal_task t = t\<lparr>Status := (if Status t = [] then TaskStatusPending else Status t),
     PreRemindBeforeSeconds := (if PreRemindBeforeSeconds t = Some 0 then None else PreRemindBeforeSeconds t)\<rparr>"

lemma create_checks_result: "yields (create_checks E t0) (\<lambda>t. t = normal_task t0)"
proof -
  have status: "yields (check_status t0) (\<lambda>t. t = t0\<lparr>Status := (if Status t0 = [] then TaskStatusPending else Status t0)\<rparr>)"
    unfolding check_status_def by (intro keeps_cases keeps_then [OF yields_any]) simp_all
  show ?thesis
    unfolding create_checks_def
    by (rule keeps_then [OF yields_any], rule keeps_bindE [OF status], intro keeps_then [OF yields_any] keeps_ret)
       (auto simp: normal_task_def)
qed

lemma repo_CreateTask_Ok:
  "repo_CreateTask t w = (Ok i, w') \<Longrightarrow>
     i = next_id w \<and> next_id w' = next_id w + 1 \<and> tasks w' = tasks w @ [inserted_row t i (clock w)]"
  by (auto simp: repo_CreateTask_def pool_insert_def dest!: external_world elim!: bindE_OkE)

lemma repo_CreateTask_Err: "repo_CreateTask t w = (Err e, w') \<Longrightarrow> tasks w' = tasks w \<and> next_id w' = next_id w"
  by (auto simp: repo_CreateTask_def pool_insert_def dest!: external_world elim!: bindE_ErrE)

text \<open>The first child is inserted when the task asks for confirmation, if the database takes it.\<close>

lemma create_child_Ok:
  assumes run: "(if b then bindE (attempt (repo_CreateTask child)) (\<lambda>r.
      ret (case r of Inr j \<Rightarrow> j | Inl _ \<Rightarrow> 0)) else ret 0) w = (Ok c, w')" and n: "next_id w \<noteq> 0"
  shows "(c = 0 \<longrightarrow> tasks w' = tasks w) \<and>
     (c \<noteq> 0 \<longrightarrow> b \<and> c = next_id w \<and> (\<exists>now. tasks w' = tasks w @ [inserted_row child c now]))"
proof (cases b)
  case True
  then obtain r w1 where "attempt (repo_CreateTask child) w = (Ok r, w1)"
    and c: "c = (case r of Inr j \<Rightarrow> j | Inl _ \<Rightarrow> 0)" "w' = w1"
    using run by (auto simp: ret_def elim!: bindE_OkE)
  from attempt_Ok [OF this(1)] show ?thesis
    using c n True repo_CreateTask_Ok [of child w _ w1] repo_CreateTask_Err [of child w _ w1] by auto
qed (use run in \<open>simp add: ret_def\<close>)

lemma same_tasks_D: "same_tasks w w' \<Longrightarrow> tasks w' = tasks w \<and> next_id w' = next_id w"
  by (simp add: same_tasks_def)

lemma CreateTask_Ok:
  assumes run: "CreateTask E t0 w = (Ok (i, c), w')" and n: "0 < next_id w"
  shows "i = next_id w \<and>
    (\<exists>now now'. tasks w' = tasks w @ inserted_row (normal_task t0) i now #
       (if c = 0 then [] else [inserted_row (first_child ((normal_task t0)\<lparr>ID := i\<rparr>) i) c now'])) \<and>
    (c \<noteq> 0 \<longrightarrow> isRecurrenceParentWithConfirmation t0 \<and> c = i + 1)"
proof -
  obtain w1 w2 w3 w4 w5 where
    r: "create_checks E t0 w = (Ok (normal_task t0), w1)" "repo_CreateTask (normal_task t0) w1 = (Ok i, w2)"
    "record_history i (UserID t0) TaskHistoryActionCreated None
       (Some (taskToMap ((normal_task t0)\<lparr>ID := i\<rparr>))) w2 = (Ok (), w3)"
    "(if isRecurrenceParentWithConfirmation ((normal_task t0)\<lparr>ID := i\<rparr>)
      then bindE (attempt (repo_CreateTask (first_child ((normal_task t0)\<lparr>ID := i\<rparr>) i))) (\<lambda>r.
             ret (case r of Inr j \<Rightarrow> j | Inl _ \<Rightarrow> 0)) else ret 0) w3 = (Ok c, w4)"
    "touchUserActivity (activity E) (UserID t0) w4 = (Ok (), w5)"
    "notifyCalendarExport E i ''created'' w5 = (Ok (), w')"
  proof -
    obtain t w1 where c: "create_checks E t0 w = (Ok t, w1)"
      using run by (auto simp: CreateTask_def elim!: bindE_OkE)
    have t: "t = normal_task t0" by (rule keeps_result [OF create_checks_result TrueI c])
    have u: "UserID (normal_task t0) = UserID t0" by (simp add: normal_task_def)
    show thesis
      using run c unfolding CreateTask_def Let_def
      by (elim bindE_OkE) (rule that, auto simp: t u ret_def elim!: bindE_OkE)
  qed
  have p: "isRecurrenceParentWithConfirmation ((normal_task t0)\<lparr>ID := i\<rparr>) = isRecurrenceParentWithConfirmation t0"
    by (simp add: isRecurrenceParentWithConfirmation_def normal_task_def)
  have s1: "tasks w1 = tasks w" "next_id w1 = next_id w"
    using same_tasks_D [OF stepsD [OF same_tasks.create_checks r(1)]] by simp_all
  note s2 = repo_CreateTask_Ok [OF r(2)]
  have s3: "tasks w3 = tasks w2" "next_id w3 = next_id w2"
    using same_tasks_D [OF stepsD [OF same_tasks.record_history r(3)]] by simp_all
  have s5: "tasks w' = tasks w4"
    using same_tasks_D [OF stepsD [OF same_tasks.touchUserActivity r(5)]]
      same_tasks_D [OF stepsD [OF same_tasks.reading_steps(4) r(6)]] by simp
  have "next_id w3 \<noteq> 0" using s1 s2 s3 n by simp
  note child = create_child_Ok [OF r(4) this]
  show ?thesis using child s1 s2 s3 s5 p by auto
qed

subsection \<open>Completing\<close>

text \<open>The row of the task, the moved parent and the delete message: all of them, or none.\<close>

lemma done_in_tx_Ok:
  assumes run: "done_in_tx E t shift w = (Ok (), w')"
    and w: "tx_table w = tasks w" and d: "distinct (map row_id (tasks w))"
  shows "\<exists>n1 n2. tasks w' =
      (case shift of None \<Rightarrow> (\<lambda>rs. rs)
       | Some s \<Rightarrow> update_rows (\<lambda>r. live r \<and> row_id r = ID (shifted_parent s)) (set_columns (shifted_parent s) n2))
      (update_rows (\<lambda>r. live r \<and> row_id r = ID t) (set_columns t n1) (tasks w))"
    and "producer E = Producer \<Longrightarrow> \<exists>n. queue w' = queue w @ [delete_message n (ID t)]"
proof -
  obtain w1 w2 w3 where r: "repo_UpdateTaskWithTx t w = (Ok (), w1)"
    "(case shift of None \<Rightarrow> ret () | Some s \<Rightarrow> repo_UpdateTaskWithTx (shifted_parent s)) w1 = (Ok (), w2)"
    "queue_delete E t w2 = (Ok (), w3)" "Commit w3 = (Ok (), w')"
    using run by (auto simp: done_in_tx_def elim!: bindE_OkE)
  have w1: "tx_table w1 = update_rows (\<lambda>r. live r \<and> row_id r = ID t) (set_columns t (clock (tick w))) (tasks w)"
    "distinct (map row_id (tasks w1))"
    using repo_tx_writes(1) [OF r(1) d] tasks_keeps [OF same_tasks.update_in_tx r(1)] w d by simp_all
  have "tasks w' = tx_table w2"
    using Commit_Ok [OF r(4)] store_keeps [OF same_store.queue_delete r(3)] by simp
  also have "\<dots> = (case shift of None \<Rightarrow> (\<lambda>rs. rs)
       | Some s \<Rightarrow> update_rows (\<lambda>r. live r \<and> row_id r = ID (shifted_parent s))
           (set_columns (shifted_parent s) (clock (tick w1)))) (tx_table w1)"
    using r(2) w1(2) repo_tx_writes(1) by (cases shift) (auto simp: ret_def)
  finally show "\<exists>n1 n2. tasks w' =
      (case shift of None \<Rightarrow> (\<lambda>rs. rs)
       | Some s \<Rightarrow> update_rows (\<lambda>r. live r \<and> row_id r = ID (shifted_parent s)) (set_columns (shifted_parent s) n2))
      (update_rows (\<lambda>r. live r \<and> row_id r = ID t) (set_columns t n1) (tasks w))"
    unfolding w1 by blast
  assume p: "producer E = Producer"
  have "queue w2 = queue w"
    using queue_keeps [OF same_queue_statements(1) r(1)] r(2)
      queue_keeps [OF same_queue_statements(1), of _ w1 _ w2] by (cases shift) (auto simp: ret_def)
  moreover have "queue w' = queue w3" by (rule queue_keeps [OF same_queue_statements(8) r(4)])
  ultimately show "\<exists>n. queue w' = queue w @ [delete_message n (ID t)]"
    using queue_delete_Ok [OF r(3) p] by auto
qed

lemma MarkTaskAsDone_done:
  assumes "MarkTaskAsDone E i b w = (r, w')"
    and "repo_GetTaskByIDWithoutStatusFilter i w = (Ok t, w1)" and "Status t = TaskStatusDone"
  shows "r = Ok t \<and> w' = w1"
  using assms by (simp add: MarkTaskAsDone_def bindE_def ret_def)

subsection \<open>Rescheduling\<close>

lemma advance_days_spec:
  "\<exists>k::nat. advance_days now d = d + int k * day_ns \<and> now < advance_days now d \<and>
     (0 < k \<longrightarrow> advance_days now d - day_ns \<le> now)"
proof (induction now d rule: advance_days.induct)
  case (1 now d)
  show ?case
  proof (cases "now < d")
    case True
    then have "advance_days now d = d" by (subst advance_days.simps) simp
    with True show ?thesis by (intro exI [of _ 0]) simp
  next
    case False
    then have e: "advance_days now d = advance_days now (d + day_ns)"
      by (subst advance_days.simps) (simp add: day_ns_def)
    from 1 False obtain k :: nat where k: "advance_days now (d + day_ns) = d + day_ns + int k * day_ns"
      "now < advance_days now (d + day_ns)" "0 < k \<longrightarrow> advance_days now (d + day_ns) - day_ns \<le> now"
      by (auto simp: day_ns_def)
    show ?thesis
    proof (intro exI [of _ "Suc k"] conjI impI)
      show "advance_days now d = d + int (Suc k) * day_ns" using e k(1) by (simp add: algebra_simps)
      show "now < advance_days now d" using e k(2) by simp
      show "advance_days now d - day_ns \<le> now" using e k(1,3) False by (cases "k = 0") simp_all
    qed
  qed
qed

lemma mod_of_days: "u dvd day_ns \<Longrightarrow> (t + int k * day_ns) mod u = t mod u"
  by (simp add: mod_eq_dvd_iff)

lemma rescheduled_start_after:
  assumes L: "recur_laws (lib E)" and run: "rescheduled_start E t now w = (Ok d, w')"
  shows "now < d \<or> (d = 0 \<and> ParentID t \<noteq> None)"
proof -
  define new where "new = advance_days now (StartDate t + 24 * hour_ns)"
  have new: "now < new" using advance_days_spec unfolding new_def by blast
  show ?thesis
  proof (cases "ParentID t")
    case None
    then show ?thesis using run new by (simp add: rescheduled_start_def new_def Let_def ret_def)
  next
    case (Some p)
    have "d = new \<or> (\<exists>parent. nextRecurrenceAfter (lib E) parent now = Ok d)"
      using run Some
      by (auto simp: rescheduled_start_def new_def Let_def ret_def align_to_parent_def lift_outcome_def
          split: if_splits sum.splits elim!: bindE_OkE dest!: attempt_Ok)
    then show ?thesis using new nextRecurrenceAfter_after [OF L] Some by auto
  qed
qed

lemma publish_rescheduled_Ok:
  assumes run: "publish_rescheduled E t d w = (Ok (), w')" and p: "producer E = Producer" "\<not> Muted t"
  shows "\<exists>n chat. queue w' = queue w @ [ToTaskMessage (reschedule_event t d n chat)]"
proof -
  obtain i u n w1 w2 where
    r: "map_err not_found_to_unprocessable (GetMessengerRelatedUserByID i) w = (Ok u, w1)"
    "getMessengerNameFromRelatedUser (Some u) w1 = (Ok n, w2)"
    "publishTaskEvent E t (reschedule_event t d n (mru_ChatID u)) w2 = (Ok (), w')"
    using run by (auto simp: publish_rescheduled_def fail_def split: option.splits
        elim!: bindE_OkE dest!: map_err_OkD [of "wrap_err _"])
  have q: "queue w2 = queue w"
    using queue_keeps [OF same_queue.steps_map_err [OF same_queue.lookups(3)] r(1)]
      queue_keeps [OF same_queue.messenger_names(1) r(2)] by simp
  show ?thesis using publish_Ok [OF p(1) r(3)] p(2) q by auto
qed

text \<open>The message is queued before the row is written; the row carries the date of the message.\<close>

lemma RescheduleTask_Ok:
  assumes run: "RescheduleTask E t w = (Ok (), w')" and L: "recur_laws (lib E)"
    and d: "distinct (map row_id (tasks w))"
  shows "\<exists>start now. (clock w < start \<or> (start = 0 \<and> ParentID t \<noteq> None)) \<and>
     tasks w' = update_rows (\<lambda>r. live r \<and> row_id r = ID t)
       (set_columns (t\<lparr>StartDate := start, Status := TaskStatusRescheduled\<rparr>) now) (tasks w) \<and>
     (producer E = Producer \<and> \<not> Muted t \<longrightarrow>
        (\<exists>n chat. queue w' = queue w @ [ToTaskMessage (reschedule_event t start n chat)]))"
proof -
  obtain start w1 w2 w3 where
    r: "rescheduled_start E t (clock (tick w)) (tick w) = (Ok start, w1)"
    "publish_rescheduled E t start w1 = (Ok (), w2)"
    "repo_UpdateTask (t\<lparr>StartDate := start, Status := TaskStatusRescheduled\<rparr>) w2 = (Ok (), w3)"
    "record_history (ID t) (UserID t) TaskHistoryActionUpdated
       (Some [(''start_date'', HTime (StartDate t)), (''status'', HStr (Status t))])
       (Some [(''start_date'', HTime start), (''status'', HStr TaskStatusRescheduled)]) w3 = (Ok (), w')"
    using run by (auto simp: RescheduleTask_def time_Now_def elim!: bindE_OkE)
  have w2: "tasks w2 = tasks w"
    using tasks_keeps [OF same_tasks.rescheduled_start r(1)]
      tasks_keeps [OF steps_same_publish_rescheduled r(2)] by simp
  have w': "tasks w' = tasks w3" by (rule tasks_keeps [OF same_tasks.record_history r(4)])
  have q: "queue w1 = queue w" "queue w3 = queue w2" "queue w' = queue w3"
    using queue_keeps [OF same_queue.rescheduled_start r(1)] queue_keeps [OF same_queue_statements(4) r(3)]
      queue_keeps [OF same_queue.record_history r(4)] by simp_all
  have "clock w < start \<or> (start = 0 \<and> ParentID t \<noteq> None)"
    using rescheduled_start_after [OF L r(1)] clock_tick [of w] by auto
  moreover have "tasks w3 = update_rows (\<lambda>r. live r \<and> row_id r = ID t)
       (set_columns (t\<lparr>StartDate := start, Status := TaskStatusRescheduled\<rparr>) (clock (tick w2))) (tasks w2)"
    using repo_writes(1) [OF r(3)] d w2 by simp
  moreover have "producer E = Producer \<and> \<not> Muted t \<longrightarrow>
      (\<exists>n chat. queue w2 = queue w1 @ [ToTaskMessage (reschedule_event t start n chat)])"
    using publish_rescheduled_Ok [OF r(2)] by blast
  ultimately show ?thesis unfolding w' q w2 by blast
qed

lemma total_RescheduleTasks: "total (RescheduleTasks E ts)"
  unfolding RescheduleTasks_def by (intro total_rules)

lemma total_RescheduleCronTasks: "(\<And>t now. total (cron_next_start E t now)) \<Longrightarrow> total (RescheduleCronTasks E ts)"
  unfolding RescheduleCronTasks_def reschedule_cron_def by (intro total_rules)

text \<open>With no overdue task that is not a series, the daily run looks at nothing else.\<close>

lemma daily_run_nothing_overdue:
  assumes none: "\<And>r. r \<in> set (tasks w) \<Longrightarrow> \<not> needs_rescheduling (clock (tick w)) w r"
    and run: "RunScheduledRescheduling E w = (r, w')"
  shows "tasks w' = tasks w \<and> queue w' = queue w \<and> history w' = history w"
proof -
  define now where "now = clock (tick w)"
  have found: "map r_task (filter (needs_rescheduling now v) (tasks v)) = []"
    if "v = (tick w)\<lparr>faults := fs\<rparr>" for v fs
    using none by (simp add: that filter_empty_conv now_def needs_rescheduling_def imported_def)
  obtain r1 w1 where e: "external ''failed to get tasks needing rescheduling'' (tick w) = (r1, w1)" by fastforce
  then obtain fs where w1: "w1 = (tick w)\<lparr>faults := fs\<rparr>" using external_world by blast
  have "w' = w1"
    using run e found [OF w1] external_no_panic
    by (cases r1) (auto simp: RunScheduledRescheduling_def repo_GetTasksNeedingRescheduling_def
        time_Now_def pool_select_def bindE_def gets_def ret_def now_def)
  then show ?thesis by (simp add: w1)
qed

subsection \<open>What a schedule message says\<close>

lemma should_result:
  "shouldRepublishScheduleAfterUnmute t w = (Ok b, w') \<Longrightarrow>
     clock w \<le> clock w' \<and> queue w' = queue w \<and> tasks w' = tasks w \<and> (b \<longrightarrow> \<not> isRecurrenceParentWithConfirmation t)"
  using clock_tick [of w]
  by (auto simp: shouldRepublishScheduleAfterUnmute_def ret_def time_Now_def bindE_def split: if_splits)

lemma built_event:
  assumes "buildScheduleTaskEvent t w = (Ok ev, w')"
  shows "\<exists>n chat. ev = schedule_event t n chat" and "queue w' = queue w"
  using assms queue_keeps [OF same_queue.events(1) assms]
  by (auto simp: buildScheduleTaskEvent_def ret_def fail_def split: option.splits elim!: bindE_OkE)

lemma with_task_Ok: "with_task t m w = (Ok z, w') \<Longrightarrow> fst z = t \<and> (\<exists>r. m w = (r, w'))"
  unfolding with_task_def bindE_def attempt_def ret_def
  by (cases "m w"; cases "fst (m w)") auto

lemma send_schedule:
  assumes run: "with_task t (bindE (when_op b (update_task in_tx t)) (\<lambda>_.
      bindE (buildScheduleTaskEvent t) (publishTaskEvent E t))) w = (Ok z, w')"
  shows "fst z = t \<and> (queue w' = queue w \<or>
     (\<not> Muted t \<and> (\<exists>n chat. queue w' = queue w @ [ToTaskMessage (schedule_event t n chat)])))"
proof -
  let ?m = "bindE (when_op b (update_task in_tx t)) (\<lambda>_. bindE (buildScheduleTaskEvent t) (publishTaskEvent E t))"
  obtain r where m: "?m w = (r, w')" and z: "fst z = t"
    using with_task_Ok [OF run] by blast
  have upd: "steps same_queue (when_op b (update_task in_tx t))"
    unfolding update_task_def by (intro steps_rules)
  obtain r1 w1 where u: "when_op b (update_task in_tx t) w = (r1, w1)" by fastforce
  have q1: "queue w1 = queue w" by (rule queue_keeps [OF upd u])
  obtain r2 w2 where ev: "buildScheduleTaskEvent t w1 = (r2, w2)" by fastforce
  have q2: "queue w2 = queue w1" by (rule queue_keeps [OF same_queue.events(1) ev])
  show ?thesis
  proof (cases "\<exists>x e. r1 = Ok x \<and> r2 = Ok e")
    case False
    then have "queue w' = queue w" using m u ev q1 q2 by (cases r1; cases r2) (auto simp: bindE_def)
    then show ?thesis using z by simp
  next
    case True
    then obtain e where e: "r2 = Ok e" "publishTaskEvent E t e w2 = (r, w')"
      using m u ev by (auto simp: bindE_def)
    then obtain n chat where ev': "e = schedule_event t n chat" using built_event ev by blast
    show ?thesis
    proof (cases "Muted t \<or> producer E = NoopPublisher")
      case True
      then have "w' = w2" using e(2) by (auto simp: publishTaskEvent_def ev' schedule_event_def ret_def split: if_splits)
      then show ?thesis using z q1 q2 by simp
    next
      case False
      then have "Publish Producer (ToTaskMessage e) w2 = (r, w')"
        using e(2) by (cases "producer E") (auto simp: publishTaskEvent_def)
      then show ?thesis using producer.takes z q1 q2 False ev' by fastforce
    qed
  qed
qed

lemma publishSchedule_sends:
  assumes run: "publishScheduleTaskEvent E in_tx t advance w = (Ok (t', e), w')" and L: "recur_laws (lib E)"
  shows "queue w' = queue w \<or>
     (\<not> Muted t \<and> \<not> isRecurrenceParentWithConfirmation t \<and> clock w \<le> StartDate t' \<and> StartDate t' \<noteq> 0 \<and>
      (\<exists>d n chat. t' = t\<lparr>StartDate := d\<rparr> \<and> queue w' = queue w @ [ToTaskMessage (schedule_event t' n chat)]))"
proof -
  obtain b w1 where s: "shouldRepublishScheduleAfterUnmute t w = (Ok b, w1)"
    using run by (auto simp: publishScheduleTaskEvent_def elim!: bindE_OkE)
  note w1 = should_result [OF s]
  show ?thesis
  proof (cases "b \<and> \<not> (StartDate t < clock (tick w1) \<and> \<not> advance)")
    case False
    then have "w' = w1 \<or> w' = tick w1"
      using run s by (auto simp: publishScheduleTaskEvent_def bindE_def time_Now_def ret_def split: if_splits)
    then show ?thesis using w1 by auto
  next
    case True
    let ?now = "clock (tick w1)"
    obtain loaded w2 where l: "attempt (load_parent t (StartDate t < ?now)) (tick w1) = (Ok loaded, w2)"
      and rest: "(case loaded of Inl e \<Rightarrow> ret (t, Some e)
        | Inr parent \<Rightarrow> bindE (attempt (lift_outcome (nextExecutableStartDate (lib E) t parent ?now))) (\<lambda>next.
           case next of Inl e \<Rightarrow> ret (t, Some e)
           | Inr d \<Rightarrow> if IsZero d then ret (t, None)
               else let t' = t\<lparr>StartDate := d\<rparr> in with_task t'
                  (bindE (when_op (d \<noteq> StartDate t) (update_task in_tx t')) (\<lambda>_.
                   bindE (buildScheduleTaskEvent t') (publishTaskEvent E t'))))) w2 = (Ok (t', e), w')"
      using run s True
      by (auto simp: publishScheduleTaskEvent_def time_Now_def elim!: bindE_OkE)
    have q2: "queue w2 = queue w"
      using queue_keeps [OF same_queue.steps_attempt [OF same_queue.reading_steps(2)] l] w1 by simp
    show ?thesis
    proof (cases "\<exists>parent d. loaded = Inr parent \<and> nextExecutableStartDate (lib E) t parent ?now = Ok d \<and> d \<noteq> 0")
      case False
      then have "w' = w2"
        using rest by (auto simp: ret_def lift_outcome_def bindE_def attempt_def IsZero_def
            split: sum.splits outcome.splits prod.splits)
      then show ?thesis using q2 by simp
    next
      case True
      then obtain parent d where d: "loaded = Inr parent" "nextExecutableStartDate (lib E) t parent ?now = Ok d" "d \<noteq> 0"
        by blast
      then have "with_task (t\<lparr>StartDate := d\<rparr>) (bindE (when_op (d \<noteq> StartDate t) (update_task in_tx (t\<lparr>StartDate := d\<rparr>))) (\<lambda>_.
          bindE (buildScheduleTaskEvent (t\<lparr>StartDate := d\<rparr>)) (publishTaskEvent E (t\<lparr>StartDate := d\<rparr>)))) w2 = (Ok (t', e), w')"
        using rest by (simp add: lift_outcome_def attempt_def bindE_def IsZero_def Let_def)
      from send_schedule [OF this] have t': "t' = t\<lparr>StartDate := d\<rparr>"
        and q: "queue w' = queue w \<or> (\<not> Muted t \<and> (\<exists>n chat. queue w' = queue w @ [ToTaskMessage (schedule_event t' n chat)]))"
        using q2 by auto
      have "clock w \<le> d"
        using nextExecutableStartDate_not_past [OF L d(2)] d(3) w1 clock_tick [of w1] by linarith
      then show ?thesis using q t' d(3) w1 \<open>b \<and> _\<close> by auto
    qed
  qed
qed

subsection \<open>The prepared shift\<close>

definition same_links :: "world \<Rightarrow> world \<Rightarrow> bool" where
  "same_links w w' \<longleftrightarrow> sync_links w' = sync_links w"

interpretation same_links: state_run same_links
  by unfold_locales (simp_all add: same_links_def)

lemma reject_linked_Ok:
  assumes "reject_linked_parent E p w = (Ok (), w')" and "syncLinks E"
  shows "\<forall>l \<in> set (sync_links w). l_TaskID l \<noteq> p"
proof -
  have none: "filter (\<lambda>l. l_TaskID l = p) ls = []" if "latest_link (filter (\<lambda>l. l_TaskID l = p) ls) = None" for ls
  proof (rule ccontr)
    assume "filter (\<lambda>l. l_TaskID l = p) ls \<noteq> []"
    moreover have "sort_key (\<lambda>l. - l_ID l) (filter (\<lambda>l. l_TaskID l = p) ls) = []"
      using that by (simp add: latest_link_def split: list.splits)
    ultimately show False by (metis set_empty set_sort)
  qed
  obtain x w1 where a: "attempt (GetByTaskID p) w = (Ok x, w1)" and x: "\<exists>e. x = Inl e \<and> is_not_found e"
    using assms by (auto simp: reject_linked_parent_def fail_def elim!: bindE_OkE split: sum.splits if_splits)
  then obtain e where e: "GetByTaskID p w = (Err e, w1)" "is_not_found e" using attempt_Ok [OF a] by auto
  from e(1) show ?thesis unfolding GetByTaskID_def
  proof (cases rule: bindE_ErrE)
    case 1
    then have "\<not> is_not_found e"
      by (auto simp: external_def split: if_splits list.splits)
    then show ?thesis using e(2) by simp
  next
    case (2 y w2)
    have links: "sync_links w2 = sync_links w"
      using stepsD [OF same_links.state_external 2(1)] by (simp add: same_links_def)
    have "latest_link (filter (\<lambda>l. l_TaskID l = p) (sync_links w2)) = None"
    proof (cases "latest_link (filter (\<lambda>l. l_TaskID l = p) (sync_links w2))")
      case (Some l)
      then show ?thesis using 2(2) by (simp add: bindE_def gets_def ret_def)
    qed
    from none [OF this] show ?thesis by (simp add: filter_empty_conv links)
  qed
qed

lemma prepareCompletionShift_Ok:
  assumes run: "prepareCompletionShift E t at w = (Ok s, w')"
  shows "\<exists>p. ParentID t = Some p \<and>
    (\<exists>r \<in> set (tasks w). live r \<and> row_id r = p \<and> r_task r = ps_parent s) \<and>
    Status (ps_parent s) \<noteq> TaskStatusDone \<and> isRecurrenceParentWithConfirmation (ps_parent s) \<and>
    (\<forall>c \<in> set (tasks w). child_of p c \<and> row_id c \<noteq> ID t \<longrightarrow> \<not> active_child (r_task c)) \<and>
    (syncLinks E \<longrightarrow> (\<forall>l \<in> set (sync_links w). l_TaskID l \<noteq> p)) \<and>
    (\<exists>sh. shiftRecurrenceFromCompletion (lib E) (ps_parent s)
            (if IsZero (StartDate t) then StartDate (ps_parent s) else StartDate t) at = Ok sh \<and>
          ps_anchor s = cs_Anchor sh \<and> ps_nextStart s = cs_NextStart sh \<and> ps_cron s = cs_Cron sh \<and>
          ps_rrule s = cs_RRule sh)"
proof -
  obtain p where p: "ParentID t = Some p"
    using run by (auto simp: prepareCompletionShift_def fail_def split: option.splits)
  obtain parent w1 where g: "repo_GetTaskByIDWithoutStatusFilter p w = (Ok parent, w1)"
    and ok: "\<not> (Status parent = TaskStatusDone \<or> Status parent = TaskStatusDeleted \<or>
       \<not> isRecurrenceParentWithConfirmation parent)"
    and rest: "(let c = (if IsZero (StartDate t) then StartDate parent else StartDate t) in
          bindE (map_err shift_error (lift_outcome (shiftRecurrenceFromCompletion (lib E) parent c at))) (\<lambda>shifted.
          bindE (reject_linked_parent E (ID parent)) (\<lambda>_.
          bindE (repo_GetChildTasksByParentID (ID parent)) (\<lambda>children.
          if list_ex (\<lambda>child. ID child \<noteq> ID t \<and> active_child child) children
          then fail (ErrConflict ''another active child task already exists'')
          else ret \<lparr>ps_parent = parent, ps_anchor = cs_Anchor shifted,
                    ps_nextStart = cs_NextStart shifted, ps_cron = cs_Cron shifted,
                    ps_rrule = cs_RRule shifted, ps_oldStart = StartDate parent,
                    ps_oldCron = copyStringPtr (CronExpression parent),
                    ps_oldRRule = copyStringPtr (RRule parent)\<rparr>)))) w1 = (Ok s, w')"
    using run p by (auto simp: prepareCompletionShift_def fail_def split: if_splits elim!: bindE_OkE dest!: map_err_OkD)
  note parent = get_task_row [OF g]
  obtain sh w2 w3 cs where sh: "shiftRecurrenceFromCompletion (lib E) parent
        (if IsZero (StartDate t) then StartDate parent else StartDate t) at = Ok sh"
    and r: "map_err shift_error (lift_outcome (shiftRecurrenceFromCompletion (lib E) parent
        (if IsZero (StartDate t) then StartDate parent else StartDate t) at)) w1 = (Ok sh, w1)"
      "reject_linked_parent E (ID parent) w1 = (Ok (), w2)"
      "repo_GetChildTasksByParentID (ID parent) w2 = (Ok cs, w3)"
    and none: "\<not> list_ex (\<lambda>child. ID child \<noteq> ID t \<and> active_child child) cs"
    and s: "s = \<lparr>ps_parent = parent, ps_anchor = cs_Anchor sh,
                    ps_nextStart = cs_NextStart sh, ps_cron = cs_Cron sh,
                    ps_rrule = cs_RRule sh, ps_oldStart = StartDate parent,
                    ps_oldCron = copyStringPtr (CronExpression parent),
                    ps_oldRRule = copyStringPtr (RRule parent)\<rparr>"
    using rest by (auto simp: Let_def fail_def ret_def lift_outcome_def map_err_def
        split: if_splits outcome.splits prod.splits elim!: bindE_OkE)
  have w2: "tasks w2 = tasks w"
    using tasks_keeps [OF same_tasks.shift_steps(4) r(2)] parent by simp
  have l: "sync_links w1 = sync_links w"
    using stepsD [OF same_links.repo_get(2) g] by (simp add: same_links_def)
  have kids: "\<forall>c \<in> set (tasks w). child_of p c \<and> row_id c \<noteq> ID t \<longrightarrow> \<not> active_child (r_task c)"
    using none get_children_Ok [OF r(3)] w2 parent(4) by (auto simp: list_ex_iff row_id_def)
  show ?thesis
    using p parent ok sh kids reject_linked_Ok [OF r(2)] l by (auto simp: s)
qed

subsection \<open>A completed task stays completed\<close>

text \<open>Row \<open>i\<close> is done in the table, and in what the open transaction has written.\<close>

definition done_row :: "int \<Rightarrow> world \<Rightarrow> bool" where
  "done_row i w \<longleftrightarrow> (\<exists>r \<in> set (tasks w). row_id r = i \<and> Status (r_task r) = TaskStatusDone) \<and>
     (\<forall>ov v. tx w = Some ov \<longrightarrow> v \<in> set ov \<longrightarrow> row_id v = i \<longrightarrow> Status (r_task v) = TaskStatusDone)"

definition keeps_done :: "int \<Rightarrow> world \<Rightarrow> world \<Rightarrow> bool" where
  "keeps_done i w w' \<longleftrightarrow> (done_row i w \<longrightarrow> done_row i w')"

lemma keeps_done_same: "tasks w' = tasks w \<Longrightarrow> tx w' = tx w \<or> tx w' = None \<or> tx w' = Some [] \<Longrightarrow> keeps_done i w w'"
  by (auto simp: keeps_done_def done_row_def)

interpretation keeps_done: state_run "keeps_done i" for i
proof
  show "keeps_done i u w" if "keeps_done i u v" "keeps_done i v w" for u v w
    using that by (simp add: keeps_done_def)
qed (rule keeps_done_same; simp)+

lemma done_row_merge: "done_row i w \<Longrightarrow> done_row i (merge_tx w)"
proof (cases "tx w")
  case (Some ov)
  assume "done_row i w"
  then obtain r where r: "r \<in> set (tasks w)" "row_id r = i" "Status (r_task r) = TaskStatusDone"
    and ov: "\<And>v. v \<in> set ov \<Longrightarrow> row_id v = i \<Longrightarrow> Status (r_task v) = TaskStatusDone"
    using Some by (auto simp: done_row_def)
  have "Status (r_task (tx_view ov r)) = TaskStatusDone"
    using tx_view_cases [of ov r] r ov by auto
  then have "\<exists>s \<in> tx_view ov ` set (tasks w). row_id s = i \<and> Status (r_task s) = TaskStatusDone"
    using r by auto
  then show ?thesis using Some by (simp add: merge_tx_def done_row_def)
qed (simp add: merge_tx_def)

lemma keeps_done_statements [steps_rules]:
  "steps (keeps_done i) (Publish p m)" "steps (keeps_done i) (repo_CreateTask t)"
  "steps (keeps_done i) Commit" "Status t = TaskStatusDone \<Longrightarrow> steps (keeps_done i) (repo_UpdateTaskWithTx t)"
proof -
  show "steps (keeps_done i) (Publish p m)"
    by (cases p) (auto intro!: steps_rules keeps_done.steps_modify keeps_done_same)
  show "steps (keeps_done i) (repo_CreateTask t)"
    unfolding repo_CreateTask_def pool_insert_def
    by (intro steps_rules stepsI) (auto simp: keeps_done_def done_row_def)
  have "keeps_done i w (merge_tx w)" for w
    by (simp add: keeps_done_def done_row_merge)
  then show "steps (keeps_done i) Commit"
    unfolding Commit_def
    by (intro steps_rules stepsI)
       (auto simp: Rollback_def keeps_done.on_end keeps_done.run_refl split: sum.split)
  assume t: "Status t = TaskStatusDone"
  show "steps (keeps_done i) (repo_UpdateTaskWithTx t)"
    unfolding repo_UpdateTaskWithTx_def tx_write_def
    by (intro steps_rules stepsI)
       (auto simp: keeps_done_def done_row_def set_columns_def t split: option.split)
qed

lemma keeps_done_after: "steps (keeps_done i) (after_done E t s shift)"
proof -
  have pub: "steps (keeps_done i) (publishTaskEvent E t ev)" for t ev
    unfolding publishTaskEvent_def by (intro steps_rules)
  have child: "steps (keeps_done i) (create_next_child E t shift)"
    unfolding create_next_child_def publish_new_child_def by (intro steps_rules pub)
  have finish_child: "steps (keeps_done i) (finish_child E t n now c)" for t n now c
    unfolding finish_child_def by (intro steps_rules pub) (simp add: done_child_def Let_def)
  have rb: "keeps_done i w (Rollback w)" for w
    by (simp add: Rollback_def keeps_done.on_end)
  have "steps (keeps_done i) (finish_children E t)"
    unfolding finish_children_def finish_children_in_tx_def
    by (intro steps_rules keeps_done.steps_deferred [OF _ rb] keeps_done.state_BeginTxx finish_child)
  then show ?thesis
    unfolding after_done_def by (intro steps_rules child)
qed

lemma shifted_parent_ID: "ID (shifted_parent s) = ID (ps_parent s)"
  by (simp add: shifted_parent_def Let_def split: option.split)

lemma completion_shift_parent:
  assumes "completion_shift E t b now w = (Ok (Some s), w')"
  shows "ParentID t = Some (ID (ps_parent s))"
proof -
  obtain at w1 w2 where "prepareCompletionShift E t at w1 = (Ok s, w2)"
    using assms by (auto simp: completion_shift_def ret_def split: if_splits elim!: bindE_OkE)
  from prepareCompletionShift_Ok [OF this] show ?thesis by (auto simp: row_id_def)
qed

lemma update_rows_mem: "r \<in> set rs \<Longrightarrow> P r \<Longrightarrow> f r \<in> set (update_rows P f rs)"
  by (force simp: update_rows_def)

lemma update_rows_other: "r \<in> set rs \<Longrightarrow> \<not> P r \<Longrightarrow> r \<in> set (update_rows P f rs)"
  by (force simp: update_rows_def)

text \<open>A completion that returned: the row is done, whatever came after the commit.\<close>

lemma MarkTaskAsDone_Ok:
  assumes run: "MarkTaskAsDone E i b w = (Ok t', w')" and d: "distinct (map row_id (tasks w))"
    and own: "\<And>r. r \<in> set (tasks w) \<Longrightarrow> row_id r = i \<Longrightarrow> ParentID (r_task r) \<noteq> Some i"
  shows "ID t' = i \<and> Status t' = TaskStatusDone \<and>
    (\<exists>r \<in> set (tasks w'). row_id r = i \<and> Status (r_task r) = TaskStatusDone)"
proof -
  obtain t w1 where g: "repo_GetTaskByIDWithoutStatusFilter i w = (Ok t, w1)"
    and rest: "(if Status t = TaskStatusDone then ret t
      else bindE time_Now (\<lambda>now. bindE (completion_shift E t b now) (\<lambda>shift.
        if \<not> hasDB E then fail no_database
        else bindE BeginTxx (\<lambda>_. deferred Rollback (bindE (done_in_tx E (done_task t now) shift)
          (\<lambda>_. after_done E (done_task t now) (Status t) shift)))))) w1 = (Ok t', w')"
    using run by (auto simp: MarkTaskAsDone_def elim!: bindE_OkE)
  note t = get_task_row [OF g]
  then obtain r where r: "r \<in> set (tasks w)" "live r" "row_id r = i" "r_task r = t" by blast
  show ?thesis
  proof (cases "Status t = TaskStatusDone")
    case True
    then show ?thesis using rest r t by (auto simp: ret_def)
  next
    case False
    let ?now = "clock (tick w1)"
    obtain shift w2 w3 w4 w5 where s: "completion_shift E t b ?now (tick w1) = (Ok shift, w2)"
      and b: "BeginTxx w2 = (Ok (), w3)" and c: "done_in_tx E (done_task t ?now) shift w3 = (Ok (), w4)"
      and a: "after_done E (done_task t ?now) (Status t) shift w4 = (Ok t', w5)" and w': "w' = Rollback w5"
      using rest False
      by (auto simp: time_Now_def fail_def split: if_splits elim!: bindE_OkE dest!: deferred_split)
    have w3: "tasks w3 = tasks w" "tx_table w3 = tasks w3"
      using BeginTxx_Ok [OF b] tasks_keeps [OF same_tasks.completion_shift s] t(2) by simp_all
    then have d3: "distinct (map row_id (tasks w3))" using d by simp
    obtain n1 n2 where w4: "tasks w4 =
        (case shift of None \<Rightarrow> (\<lambda>rs. rs)
         | Some s \<Rightarrow> update_rows (\<lambda>r. live r \<and> row_id r = ID (shifted_parent s)) (set_columns (shifted_parent s) n2))
        (update_rows (\<lambda>r. live r \<and> row_id r = ID (done_task t ?now)) (set_columns (done_task t ?now) n1) (tasks w))"
      using done_in_tx_Ok(1) [OF c w3(2) d3] w3(1) by auto
    let ?r = "set_columns (done_task t ?now) n1 r"
    have id: "ID (done_task t ?now) = i" using t(4) by (simp add: done_task_def)
    have r1: "?r \<in> set (update_rows (\<lambda>r. live r \<and> row_id r = ID (done_task t ?now)) (set_columns (done_task t ?now) n1) (tasks w))"
      by (rule update_rows_mem) (use r id in simp_all)
    have other: "ID (shifted_parent s) \<noteq> i" if "shift = Some s" for s
      using completion_shift_parent [OF s [unfolded that]] own [OF r(1,3)] r(4) by (simp add: shifted_parent_ID)
    have "?r \<in> set (tasks w4)"
      unfolding w4 using r1 other r(3)
      by (cases shift) (simp_all add: update_rows_other)
    moreover have "tx w4 = None"
      using c Commit_Ok by (auto simp: done_in_tx_def elim!: bindE_OkE)
    ultimately have "done_row i w4"
      using r(3) by (auto simp: done_row_def set_columns_def done_task_def row_id_def intro!: bexI [of _ ?r])
    then have "done_row i w5"
      using stepsD [OF keeps_done_after a] by (simp add: keeps_done_def)
    moreover have "t' = done_task t ?now"
      using a by (auto simp: after_done_def ret_def elim!: bindE_OkE)
    ultimately show ?thesis using id by (simp add: w' Rollback_def done_row_def done_task_def)
  qed
qed

subsection \<open>Muting\<close>

lemma MuteTask_Ok:
  assumes run: "MuteTask E i w = (Ok t', w')" and d: "distinct (map row_id (tasks w))"
    and single: "\<And>r. r \<in> set (tasks w) \<Longrightarrow> live r \<Longrightarrow> row_id r = i \<Longrightarrow> \<not> isRecurrenceParentWithConfirmation (r_task r)"
  shows "\<exists>old \<in> set (tasks w). live old \<and> row_id old = i \<and> t' = (r_task old)\<lparr>Muted := True\<rparr> \<and>
    (if Muted (r_task old) then tasks w' = tasks w
     else \<exists>now. tasks w' = update_rows (\<lambda>r. live r \<and> row_id r = i) (set_columns t' now) (tasks w))"
proof -
  obtain old w1 where g: "repo_GetTaskByIDWithoutStatusFilter i w = (Ok old, w1)"
    and rest: "(if Status old = TaskStatusDeleted then fail (ErrNotFound ''task not found or deleted'')
     else if Muted old then ret old
     else (let t = old\<lparr>Muted := True\<rparr> in
       bindE (repo_UpdateTask t) (\<lambda>_.
       bindE (when_op (isRecurrenceParentWithConfirmation t)
                (bindE (active_children i) (\<lambda>children. for_each (mute_child E) children))) (\<lambda>_.
       bindE (best_effort (bindE (buildDeleteTaskEvent t) (\<lambda>delEv. publishTaskEvent E t delEv))) (\<lambda>_.
       finish_mute E i old t))))) w1 = (Ok t', w')"
    using run by (auto simp: MuteTask_def elim!: bindE_OkE)
  note t = get_task_row [OF g]
  then obtain r where r: "r \<in> set (tasks w)" "live r" "row_id r = i" "r_task r = old" by blast
  show ?thesis
  proof (cases "Muted old")
    case True
    then have "t' = old" "w' = w1" using rest by (auto simp: ret_def fail_def split: if_splits)
    then show ?thesis using r t True by (intro bexI [of _ r]) simp_all
  next
    case False
    let ?t = "old\<lparr>Muted := True\<rparr>"
    have p: "\<not> isRecurrenceParentWithConfirmation ?t"
      using single [OF r(1-3)] r(4) by (simp add: isRecurrenceParentWithConfirmation_def split: if_splits)
    obtain w2 w3 where u: "repo_UpdateTask ?t w1 = (Ok (), w2)"
      and b: "best_effort (bindE (buildDeleteTaskEvent ?t) (publishTaskEvent E ?t)) w2 = (Ok (), w3)"
      and f: "finish_mute E i old ?t w3 = (Ok t', w')"
      using rest False p by (auto simp: Let_def when_op_def fail_def split: if_splits elim!: bindE_OkE)
    have b': "steps same_tasks (best_effort (bindE (buildDeleteTaskEvent ?t) (publishTaskEvent E ?t)))"
      by (intro steps_rules)
    have "tasks w' = tasks w2"
      using tasks_keeps [OF same_tasks.finish_mute f] tasks_keeps [OF b' b] by simp
    moreover have "tasks w2 = update_rows (\<lambda>r. live r \<and> row_id r = i) (set_columns ?t (clock (tick w1))) (tasks w)"
      using repo_writes(1) [OF u] d t by simp
    moreover have "t' = ?t" using f by (auto simp: finish_mute_def ret_def elim!: bindE_OkE)
    ultimately show ?thesis using r False by (intro bexI [of _ r]) auto
  qed
qed

subsection \<open>An update that waits for itself\<close>

text \<open>
  Confirmation is taken off an overdue series: the transaction holds the row, the publishing helper
  wants to write the new start date on the pool, and the request ends with the cancelled context.
\<close>

lemma cancelled_Commit: "cancelled w \<Longrightarrow> Commit w = (Err (ErrOther ''context canceled''), Rollback w)"
  by (simp add: Commit_def bindE_def attempt_def external_def)

lemma blocked_update:
  assumes idle: "\<not> cancelled w" "faults w = []" and held: "lock_held w (\<lambda>r. live r \<and> row_id r = ID t)"
  shows "repo_UpdateTask t w = (Err (ErrOther ''failed to execute update query for task: context canceled''),
     wait_for_cancel (tick w))"
proof -
  have l: "lock_held (tick w) P = lock_held w P" for P
    by (cases "tx w") (simp_all add: lock_held_def)
  have ext: "external f (tick w) = (Ok (), tick w)" for f
    using idle by (simp add: external_def)
  show ?thesis
    by (simp add: repo_UpdateTask_def pool_write_def bindE_def time_Now_def ext l held [simplified])
qed

lemma update_children_blocked:
  assumes idle: "\<not> cancelled w" "faults w = []" and held: "lock_held w (\<lambda>r. live r \<and> row_id r = i)"
    and t: "ID t = i" "ParentID t = None" "StartDate t < clock w"
    and conf: "RequiresConfirmation old" "\<not> RequiresConfirmation t" "u_Muted u = None"
    and cron: "recurrenceFieldSet (CronExpression t)" "cron_Parse (lib E) (the (CronExpression t))"
      "\<And>now. 0 < now \<Longrightarrow> cron_Next (lib E) (the (CronExpression t)) now \<noteq> 0" "0 < clock w"
    and L: "recur_laws (lib E)" and kids: "\<And>r. r \<in> set (tasks w) \<Longrightarrow> \<not> child_of i r"
  shows "\<exists>e w'. update_children E i old u t w = (Err e, w') \<and> cancelled w' \<and> tasks w' = tasks w \<and> queue w' = queue w"
proof -
  define w3 where "w3 = tick (tick (tick w))"
  define d where "d = cron_Next (lib E) (the (CronExpression t)) (clock w3)"
  define t' where "t' = t\<lparr>StartDate := d\<rparr>"
  have w3: "cancelled w3 = cancelled w" "faults w3 = faults w" "tasks w3 = tasks w" "tx w3 = tx w" "queue w3 = queue w"
    by (simp_all add: w3_def)
  have past: "StartDate t < clock w3"
    using t(3) clock_tick [of w] clock_tick [of "tick w"] clock_tick [of "tick (tick w)"] by (simp add: w3_def)
  have "0 < clock w3"
    using cron(4) clock_tick [of w] clock_tick [of "tick w"] clock_tick [of "tick (tick w)"] by (simp add: w3_def)
  then have d: "d \<noteq> 0" "clock w3 < d"
    using cron(3) recur_laws_cron [OF L, of "the (CronExpression t)" "clock w3"] by (auto simp: d_def)
  have np: "\<not> isRecurrenceParentWithConfirmation t" and rule: "hasRecurrenceRule t"
    using conf cron by (simp_all add: isRecurrenceParentWithConfirmation_def hasRecurrenceRule_def)
  have should: "shouldRepublishScheduleAfterUnmute t v = (Ok True, tick v)" for v
    using np rule by (simp add: shouldRepublishScheduleAfterUnmute_def bindE_def time_Now_def ret_def)
  have nxt: "nextExecutableStartDate (lib E) t None (clock w3) = Ok d"
    using past np cron(1,2) by (simp add: nextExecutableStartDate_def cron_must_next_def d_def)
  have "lock_held w3 (\<lambda>r. live r \<and> row_id r = ID t')"
    using held t(1) by (cases "tx w") (simp_all add: lock_held_def w3 t'_def)
  then have blocked: "\<exists>e. repo_UpdateTask t' w3 = (Err e, wait_for_cancel (tick w3))"
    using blocked_update [of w3 t'] idle by (simp add: w3)
  have pub: "\<exists>e. publishScheduleTaskEvent E False t True (tick w) = (Ok (t', Some e), wait_for_cancel (tick w3))"
    using blocked past d np nxt t(2)
    by (auto simp: publishScheduleTaskEvent_def bindE_def should time_Now_def w3_def [symmetric]
        load_parent_def attempt_def ret_def lift_outcome_def IsZero_def Let_def with_task_def
        when_op_def update_task_def t'_def [symmetric])
  then have due: "publish_if_due E t w = (Ok t', wait_for_cancel (tick w3))"
    by (auto simp: publish_if_due_def publishScheduleForTaskAfterUnmute_def bindE_def should ret_def)
  have get: "repo_GetChildTasksByParentID i w = (Ok [], w)"
    using idle kids
    by (simp add: repo_GetChildTasksByParentID_def pool_select_def external_def bindE_def gets_def
        filter_empty_conv child_of_def)
  have sync: "sync_children E old u t [] w = (Ok (t', False), wait_for_cancel (tick w3))"
    using conf due by (simp add: sync_children_def delete_all_children_def when_op_def bindE_def ret_def)
  have "update_children E i old u t w = (Err (ErrOther ''context canceled''), Rollback (wait_for_cancel (tick w3)))"
    using conf(3) cancelled_Commit [of "wait_for_cancel (tick w3)"]
    by (simp add: update_children_def bindE_def get sync muteTransition_def when_op_def ret_def wait_for_cancel_def)
  then show ?thesis by (auto simp: Rollback_def wait_for_cancel_def w3)
qed

end
