(* ===== verification/Calendar_Results.thy ===== *)
theory Calendar_Results
  imports Calendar_Outbox Task_Results
begin

text \<open>
  What single operations of the calendar service do: the rounds of an import end, a re-created task
  has no link, the echo of an export, what a change puts into the outbox, what removing a binding
  leaves of the imported tasks, and what is written to an event and read back.
\<close>

subsection \<open>The rounds of an import\<close>

abbreviation anything :: "world \<Rightarrow> world \<Rightarrow> bool" where "anything \<equiv> \<lambda>_ _. True"

interpretation anything: publish_run anything
  by unfold_locales (simp_all add: steps_def)

definition takes_replies :: "cal_world \<Rightarrow> cal_world \<Rightarrow> bool" where
  "takes_replies v v' \<longleftrightarrow> length (replies v') \<le> length (replies v)"

interpretation takes_replies: calendar_reads takes_replies anything
  by unfold_locales (simp_all add: takes_replies_def)

lemma takes_external [steps_rules]: "steps takes_replies (cal_external msg)" "steps takes_replies cal_now"
  by (intro steps_rules)+

interpretation takes_replies: import_run takes_replies anything
proof
  show "steps takes_replies (link_Create l)" for l
    unfolding link_Create_def Let_def
    by (intro takes_replies.steps_bindE takes_external stepsI) (simp add: takes_replies_def set_links_def)
  show "steps takes_replies (link_Update l)" for l
    unfolding link_Update_def
    by (intro takes_replies.steps_bindE takes_external stepsI) (simp add: takes_replies_def set_links_def)
  show "steps takes_replies (link_Delete i)" for i
    unfolding link_Delete_def
    by (intro takes_replies.steps_bindE takes_external stepsI) (simp add: takes_replies_def set_links_def)
qed (unfold binding_Update_def binding_SoftDelete_def ClearSyncToken_def binding_write_def,
     (intro takes_replies.steps_bindE takes_external stepsI, simp add: takes_replies_def)+)

text \<open>A call that has an answer takes one reply.\<close>

lemma google_op_takes:
  assumes "google_op call msg f v = (r, v')"
  shows "length (replies v') < length (replies v) \<or> v' = v \<and> r = Err (ErrOther (msg @ '': no reply''))"
  using assms by (auto simp: google_op_def split: list.splits option.splits)

lemma no_reply_is_no_token: "\<not> IsSyncTokenInvalid (ErrOther (''list events'' @ '': no reply''))"
  by (simp add: IsSyncTokenInvalid_def contains_sub_def)

lemma list_opts_keeps: "list_opts E b p v = (r, v') \<Longrightarrow> replies v' = replies v"
  by (auto simp: list_opts_def Let_def ret_def bindE_def in_core_def time_Now_def split: if_splits)

text \<open>More rounds than there are replies make no difference.\<close>

lemma import_pages_enough:
  "length (replies v) < n \<Longrightarrow> length (replies v) < m \<Longrightarrow> import_pages E n b p v = import_pages E m b p v"
proof (induction n arbitrary: m b p v)
  case (Suc n)
  then obtain k where m: "m = Suc k" by (cases m) auto
  obtain o1 v1 where o1: "list_opts E b p v = (o1, v1)" by fastforce
  note r1 = list_opts_keeps [OF o1]
  show ?case
  proof (cases o1)
    case (Ok opts)
    obtain g v2 where g: "google_op (GListEvents (cb_GoogleCalendarID b) opts) ''list events'' g_page v1 = (g, v2)"
      by fastforce
    have less: "length (replies v2) < length (replies v) \<or>
        g = Err (ErrOther (''list events'' @ '': no reply''))"
      using google_op_takes [OF g] r1 by auto
    show ?thesis
    proof (cases g)
      case (Err e)
      obtain c v3 where c: "best_effort (ClearSyncToken (cb_ID b)) v2 = (c, v3)" by fastforce
      have "length (replies v3) \<le> length (replies v2)"
        using stepsD [OF takes_replies.steps_best_effort [OF takes_replies.binding_clear] c]
        by (simp add: takes_replies_def)
      then have "import_pages E n b' [] v3 = import_pages E k b' [] v3" if "IsSyncTokenInvalid e" for b'
        using Suc.IH Suc.prems m less Err that no_reply_is_no_token by auto
      then show ?thesis
        unfolding m import_pages.simps using o1 Ok g Err c
        by (cases c) (auto simp: bindE_def attempt_def)
    next
      case (Ok page)
      then have less: "length (replies v2) < length (replies v)" using less by simp
      obtain c v3 where c: "for_each (upsertImportedEvent E b) (lr_Events page) v2 = (c, v3)" by fastforce
      have "length (replies v3) \<le> length (replies v2)"
        using stepsD [OF takes_replies.steps_for_each [OF takes_replies.upsertImportedEvent] c]
        by (simp add: takes_replies_def)
      then have "import_pages E n b t v3 = import_pages E k b t v3" for t
        using Suc.IH Suc.prems m less by simp
      then show ?thesis
        unfolding m import_pages.simps using o1 \<open>o1 = Ok opts\<close> g Ok c
        by (cases c) (auto simp: bindE_def attempt_def ret_def)
    qed (unfold m import_pages.simps, use o1 Ok g in \<open>auto simp: bindE_def attempt_def\<close>)
  qed (unfold m import_pages.simps, use o1 in \<open>auto simp: bindE_def\<close>)
qed simp

subsection \<open>Reading, and the links\<close>

text \<open>Everything but the links: what the import does before and after it writes a link.\<close>

definition keeps_links :: "cal_world \<Rightarrow> cal_world \<Rightarrow> bool" where
  "keeps_links v v' \<longleftrightarrow> (store_wf (core v) \<longrightarrow> store_wf (core v') \<and> links v' = links v \<and>
     rows_le (tasks (core v)) (tasks (core v')) (next_id (core v)) \<and> next_id (core v) \<le> next_id (core v'))"

interpretation keeps_links: run_preorder keeps_links
  by unfold_locales (auto simp: keeps_links_def intro: rows_le_trans)

interpretation keeps_links: calendar_tasks keeps_links core_le
  by unfold_locales (auto simp: keeps_links_def core_le_def world_le_def logs_le_def links_def)

text \<open>Reads.  A statement that fails does not report a missing row.\<close>

lemma external_not_missing: "external msg w = (Err e, w') \<Longrightarrow> \<not> is_not_found e"
  by (auto simp: external_def elim!: is_not_foundE split: if_splits list.splits)

lemma same_tables_external: "cal_external msg v = (r, v') \<Longrightarrow> same_tables v v'"
  by (rule stepsD [OF same_tables.in_core [OF same_core.external]])

lemma same_tables_now: "cal_now v = (r, v') \<Longrightarrow> same_tables v v'"
  by (rule stepsD [OF same_tables.in_core [OF same_core.time_Now]])

lemma GetByEvent_run:
  assumes "GetByEvent p c e v = (r, v')"
  shows "same_tables v v'"
    and "r = Ok l \<Longrightarrow> l \<in> set (links v) \<and> event_key l = (p, c, e)"
    and "r = Err x \<Longrightarrow> is_not_found x \<Longrightarrow> (p, c, e) \<notin> event_key ` set (links v)"
proof -
  obtain z u where 1: "cal_external ''failed to get sync link by event'' v = (z, u)" by fastforce
  note u = same_tables_external [OF 1]
  then have ls: "links u = links v" by (simp add: same_tables_def)
  show "same_tables v v'"
    using assms 1 u by (cases z) (auto simp: GetByEvent_def bindE_def gets_def ret_def fail_def split: option.splits)
  show "r = Ok l \<Longrightarrow> l \<in> set (links v) \<and> event_key l = (p, c, e)"
    using assms 1 ls
    by (cases z) (auto simp: GetByEvent_def bindE_def gets_def ret_def fail_def split: option.splits dest: find_mem)
  have "z = Err x \<Longrightarrow> is_not_found x \<Longrightarrow> False" for x
    using 1 external_not_missing by (auto simp: in_core_def prod_eq_iff)
  then show "r = Err x \<Longrightarrow> is_not_found x \<Longrightarrow> (p, c, e) \<notin> event_key ` set (links v)"
    using assms 1 ls
    by (cases z) (auto simp: GetByEvent_def bindE_def gets_def ret_def fail_def find_None_iff split: option.splits)
qed

lemma read_task_run:
  assumes "in_core (repo_GetTaskByIDWithoutStatusFilter i) v = (r, v')"
  shows "same_tables v v'"
    and "r = Ok t \<Longrightarrow> \<exists>row \<in> set (tasks (core v)). live row \<and> row_id row = i \<and> r_task row = t"
    and "r = Err x \<Longrightarrow> is_not_found x \<Longrightarrow> \<forall>row \<in> set (tasks (core v)). row_id row = i \<longrightarrow> \<not> live row"
proof -
  obtain z w where 1: "external ''failed to get task by id'' (core v) = (z, w)" by fastforce
  obtain fs where w: "w = (core v)\<lparr>faults := fs\<rparr>" using external_world [OF 1] by blast
  show "same_tables v v'"
    using assms 1 w
    by (cases z) (auto simp: repo_GetTaskByIDWithoutStatusFilter_def pool_get_def in_core_def bindE_def gets_def
        ret_def fail_def same_tables_def links_def split: option.splits)
  show "r = Ok t \<Longrightarrow> \<exists>row \<in> set (tasks (core v)). live row \<and> row_id row = i \<and> r_task row = t"
    using assms 1 w
    by (cases z) (auto simp: repo_GetTaskByIDWithoutStatusFilter_def pool_get_def in_core_def bindE_def gets_def
        ret_def fail_def split: option.splits dest!: find_mem)
  have "z = Err x \<Longrightarrow> is_not_found x \<Longrightarrow> False" for x
    using 1 external_not_missing by blast
  then show "r = Err x \<Longrightarrow> is_not_found x \<Longrightarrow> \<forall>row \<in> set (tasks (core v)). row_id row = i \<longrightarrow> \<not> live row"
    using assms 1 w
    by (cases z) (auto simp: repo_GetTaskByIDWithoutStatusFilter_def pool_get_def in_core_def bindE_def gets_def
        ret_def fail_def find_None_iff split: option.splits)
qed

lemma binding_GetByID_run:
  assumes "binding_GetByID i v = (r, v')"
  shows "same_tables v v'" and "r = Ok b \<Longrightarrow> b \<in> set (bindings v) \<and> cb_ID b = i \<and> binding_live b"
proof -
  show "same_tables v v'" by (rule stepsD [OF same_tables.binding_reads(1) assms])
  obtain z u where 1: "cal_external ''failed to get calendar binding'' v = (z, u)" by fastforce
  then have "bindings u = bindings v" using same_tables_external by (simp add: same_tables_def)
  then show "r = Ok b \<Longrightarrow> b \<in> set (bindings v) \<and> cb_ID b = i \<and> binding_live b"
    using assms 1
    by (cases z) (auto simp: binding_GetByID_def bindE_def gets_def ret_def fail_def split: option.splits dest: find_mem)
qed

lemma link_Update_run:
  assumes "link_Update l v = (Ok (), v')"
  shows "\<exists>now. links v' = update_key l_ID (l_ID l) (link_columns l now) (links v)"
    and "tasks (core v') = tasks (core v)" "next_id (core v') = next_id (core v)"
proof -
  obtain now v1 where 1: "cal_now v = (Ok now, v1)" by (simp add: in_core_def time_Now_def)
  obtain z v2 where 2: "cal_external ''failed to update sync link'' v1 = (z, v2)" by fastforce
  note s = same_tables_trans [OF same_tables_now [OF 1] same_tables_external [OF 2]]
  have v': "links v' = update_key l_ID (l_ID l) (link_columns l now) (links v2) \<and>
      tasks (core v') = tasks (core v2) \<and> next_id (core v') = next_id (core v2)"
    using assms 1 2 by (cases z) (auto simp: link_Update_def bindE_def set_links_def links_def split: if_splits)
  then show "\<exists>now. links v' = update_key l_ID (l_ID l) (link_columns l now) (links v)"
    "tasks (core v') = tasks (core v)" "next_id (core v') = next_id (core v)"
    using s by (auto simp: same_tables_def)
qed

lemma create_task_run:
  assumes "in_core (repo_CreateTask t) v = (Ok i, v')"
  shows "i = next_id (core v)"
    and "tasks (core v') = tasks (core v) @ [inserted_row t (next_id (core v)) (clock (core v))]"
    and "links v' = links v" "next_id (core v') = next_id (core v) + 1" "tx (core v') = tx (core v)"
proof -
  obtain z w where 1: "external ''failed to insert task'' (core v) = (z, w)" by fastforce
  obtain fs where w: "w = (core v)\<lparr>faults := fs\<rparr>" using external_world [OF 1] by blast
  show "i = next_id (core v)"
    "tasks (core v') = tasks (core v) @ [inserted_row t (next_id (core v)) (clock (core v))]"
    "links v' = links v" "next_id (core v') = next_id (core v) + 1" "tx (core v') = tx (core v)"
    using assms 1 w
    by (cases z; auto simp: repo_CreateTask_def pool_insert_def in_core_def bindE_def links_def)+
qed


subsection \<open>The task of a known event that is gone\<close>

lemma link_key_unique:
  assumes "distinct (map event_key ls)" "x \<in> set ls" "y \<in> set ls" "event_key x = event_key y"
  shows "x = y"
  using assms by (meson distinct_map inj_onD)

lemma refreshed_keys [simp]:
  "l_ID (refreshed_link b ev now l) = l_ID l" "event_key (refreshed_link b ev now l) = event_key l"
  "l_TaskID (refreshed_link b ev now l) = l_TaskID l"
  by (simp_all add: refreshed_link_def event_key_def)

text \<open>Writing back the link that was read keeps the keys of all links; the task id of the argument is
  not written.\<close>

lemma link_write_back:
  assumes "distinct (map l_ID ls)" "l \<in> set ls" "l_ID l' = l_ID l" "event_key l' = event_key l"
  shows "map (\<lambda>x. (l_ID x, l_TaskID x, event_key x)) (update_key l_ID (l_ID l') (link_columns l' now) ls) =
    map (\<lambda>x. (l_ID x, l_TaskID x, event_key x)) ls"
proof -
  have "event_key (link_columns l' now x) = event_key x" if "x \<in> set ls" "l_ID x = l_ID l" for x
  proof -
    have "x = l" using assms(1,2) that by (meson distinct_map inj_onD)
    then show ?thesis using assms(4) by (simp add: link_columns_def event_key_def)
  qed
  then show ?thesis using assms(3) by (simp add: update_key_def)
qed

lemma bindE_run_Ok: "m w = (Ok x, w') \<Longrightarrow> bindE m k w = k x w'"
  by (simp add: bindE_def)

text \<open>Reading an event asks the clock only.\<close>

lemma mapping_same:
  assumes "map_err f (in_core (MapEventToTaskFields L ev i g mru)) v = (r, v')"
  shows "same_tables v v'"
proof -
  obtain z w where run: "MapEventToTaskFields L ev i g mru (core v) = (z, w)" by fastforce
  have "w = core v \<or> w = tick (core v)"
    using run by (auto simp: MapEventToTaskFields_def bindE_def lift_outcome_def time_Now_def ret_def attempt_def
        split: outcome.splits option.splits if_splits prod.splits)
  moreover have "v' = v\<lparr>core := w\<rparr>"
    using assms run by (auto simp: map_err_def in_core_def split: outcome.splits prod.splits)
  ultimately show ?thesis by (auto simp: same_tables_def links_def)
qed

lemma update_imported_gone:
  assumes run: "update_imported E l mapped v = (Ok l', v')"
    and gone: "\<And>r. r \<in> set (tasks (core v)) \<Longrightarrow> row_id r = l_TaskID l \<Longrightarrow> \<not> live r"
    and wf: "store_wf (core v)"
  shows "l' = l\<lparr>l_TaskID := next_id (core v)\<rparr>" and "links v' = links v"
    and "length (tasks (core v)) < length (tasks (core v'))"
    and "row_id (tasks (core v') ! length (tasks (core v))) = next_id (core v)"
proof -
  obtain z v1 where read: "in_core (repo_GetTaskByIDWithoutStatusFilter (l_TaskID l)) v = (z, v1)" by fastforce
  note same = read_task_run(1) [OF read]
  obtain e where z: "z = Err e" "is_not_found e"
    using run read read_task_run(2) [OF read] gone
    by (cases z) (auto simp: update_imported_def bindE_def attempt_def fail_def split: if_splits)
  let ?k = "\<lambda>taskID. bindE (recordImportedTaskHistory E TaskHistoryActionCreated (mapped\<lparr>ID := taskID\<rparr>) None
      (Some (calendarTaskHistoryMap (mapped\<lparr>ID := taskID\<rparr>)))) (\<lambda>_.
    bindE (best_effort (imported_schedule E (mapped\<lparr>ID := taskID\<rparr>))) (\<lambda>_. ret (l\<lparr>l_TaskID := taskID\<rparr>)))"
  have "bindE (in_core (repo_CreateTask mapped)) ?k v1 = (Ok l', v')"
    using run read z by (simp add: update_imported_def bindE_def attempt_def Let_def)
  then obtain i v2 where create: "in_core (repo_CreateTask mapped) v1 = (Ok i, v2)" and k: "?k i v2 = (Ok l', v')"
    by (rule bindE_OkE)
  note c = create_task_run [OF create]
  have l': "l' = l\<lparr>l_TaskID := i\<rparr>" using k by (auto elim!: bindE_OkE simp: ret_def)
  have "steps keeps_links (?k i)" by (intro steps_rules)
  then have rest: "keeps_links v2 v'" using k by (rule stepsD)
  have "core_le (core v1) (core v2)"
    using core_le.create [of mapped] create by (auto simp: in_core_def steps_def)
  then have "store_wf (core v2)"
    using wf same by (auto simp: core_le_def world_le_def same_tables_def intro: store_wf_same)
  then have v': "links v' = links v2" "rows_le (tasks (core v2)) (tasks (core v')) (next_id (core v2))"
    using rest by (simp_all add: keeps_links_def)
  have n: "next_id (core v1) = next_id (core v)" "tasks (core v1) = tasks (core v)" "links v1 = links v"
    using same by (simp_all add: same_tables_def)
  show "l' = l\<lparr>l_TaskID := next_id (core v)\<rparr>" using l' c n by simp
  show "links v' = links v" using v' c n by simp
  show "length (tasks (core v)) < length (tasks (core v'))"
    using v'(2) c(2) n by (simp add: rows_le_def)
  have "length (tasks (core v)) < length (tasks (core v2))" using c(2) n by simp
  then have "row_le (tasks (core v2) ! length (tasks (core v))) (tasks (core v') ! length (tasks (core v)))"
    using v'(2) by (simp only: rows_le_def)
  then show "row_id (tasks (core v') ! length (tasks (core v))) = next_id (core v)"
    using c n row_le_id by (fastforce simp: inserted_row_def row_id_def)
qed

text \<open>Taking the import of an event apart whose link is found and which is not cancelled.\<close>

lemma upsert_known:
  assumes wf: "cal_wf v" and run: "upsertImportedEvent E b ev v = (Ok (), v')"
    and ev: "\<not> equal_fold (e_Status ev) ''cancelled''"
    and l: "l \<in> set (links v)" "event_key l = (TaskSyncProviderGoogleCalendar, cb_GoogleCalendarID b, e_ID ev)"
  obtains mapped u v3 now l' v4 where
    "MapEventToTaskFields (c_lib E) ev (cb_UserID b) (cb_GroupID b) (cb_MessengerRelatedUserID b) u = (Ok mapped, tick u)"
    "clock (core v) \<le> clock (tick u)" "clock (tick u) \<le> clock (core v')"
    "same_tables v v3" "update_imported E l mapped v3 = (Ok l', v4)"
    "link_Update (refreshed_link b ev now l') v4 = (Ok (), v')"
proof -
  have d: "distinct (map event_key (links v))"
    using wf by (simp add: cal_wf_def links_wf_def)
  obtain z v1 where read: "GetByEvent TaskSyncProviderGoogleCalendar (cb_GoogleCalendarID b) (e_ID ev) v = (z, v1)"
    by fastforce
  note r = GetByEvent_run [OF read]
  have z: "z = Ok l"
  proof (cases z)
    case (Ok x)
    then show ?thesis using r(2) link_key_unique [OF d _ l(1)] l(2) by auto
  next
    case (Err x)
    then have "\<not> is_not_found x" using r(3) l by (metis imageI)
    then show ?thesis
      using run read Err by (auto simp: upsertImportedEvent_def bindE_def attempt_def fail_def)
  qed (use run read in \<open>auto simp: upsertImportedEvent_def bindE_def attempt_def\<close>)
  let ?m = "MapEventToTaskFields (c_lib E) ev (cb_UserID b) (cb_GroupID b) (cb_MessengerRelatedUserID b)"
  let ?map = "map_err (wrap_err ''map event to task'') (in_core ?m)"
  let ?rest = "\<lambda>mapped now. bindE (update_imported E l mapped) (\<lambda>l. link_Update (refreshed_link b ev now l))"
  have found: "attempt (GetByEvent TaskSyncProviderGoogleCalendar (cb_GoogleCalendarID b) (e_ID ev)) v = (Ok (Inr l), v1)"
    using read z by (simp add: attempt_def)
  have "bindE ?map (\<lambda>mapped. bindE cal_now (\<lambda>now. ?rest mapped now)) v1 = (Ok (), v')"
    using run ev by (simp add: upsertImportedEvent_def bindE_run_Ok found find_link_def)
  then obtain mapped v2 where m: "?map v1 = (Ok mapped, v2)" and k: "bindE cal_now (?rest mapped) v2 = (Ok (), v')"
    by (rule bindE_OkE)
  from k obtain now v3 where n: "cal_now v2 = (Ok now, v3)" and u: "?rest mapped now v3 = (Ok (), v')"
    by (rule bindE_OkE)
  have m': "?m (core v1) = (Ok mapped, core v2)" "v2 = v1\<lparr>core := core v2\<rparr>"
    using map_err_OkD [OF m] by (auto simp: in_core_def prod_eq_iff)
  have tick: "core v2 = tick (core v1)"
    using m'(1) by (auto simp: MapEventToTaskFields_def bindE_def lift_outcome_def time_Now_def ret_def attempt_def
        split: outcome.splits option.splits if_splits prod.splits)
  have "cal_le v v1" "cal_le v2 v3"
    using stepsD [OF cal_le.link_reads(1) read] stepsD [OF cal_le.in_core [OF core_le.time_Now] n] by simp_all
  moreover have "cal_le v1 v2"
    by (rule stepsD [OF cal_le.steps_map_err [OF cal_le.in_core [OF cal_le.MapEventToTaskFields]] m])
  moreover have "steps cal_le (?rest mapped now)" by (intro steps_rules)
  then have "cal_le v3 v'" using u by (rule stepsD)
  ultimately have c: "clock (core v) \<le> clock (core v1)" "clock (core v2) \<le> clock (core v')"
    using wf by (auto simp: cal_le_def)
  have "clock (core v) \<le> clock (tick (core v1))" using c(1) clock_tick order.trans by blast
  moreover obtain l' v4 where "update_imported E l mapped v3 = (Ok l', v4)"
    "link_Update (refreshed_link b ev now l') v4 = (Ok (), v')"
    using u by (rule bindE_OkE)
  moreover have "same_tables v v3"
    using r(1) mapping_same [OF m] same_tables_now [OF n] same_tables_trans by blast
  ultimately show thesis using that m'(1) c(2) unfolding tick by blast
qed

lemma upsert_gone:
  assumes wf: "cal_wf v"
    and run: "upsertImportedEvent E b ev v = (Ok (), v')"
    and ev: "\<not> equal_fold (e_Status ev) ''cancelled''"
    and l: "l \<in> set (links v)" "event_key l = (TaskSyncProviderGoogleCalendar, cb_GoogleCalendarID b, e_ID ev)"
    and gone: "\<And>r. r \<in> set (tasks (core v)) \<Longrightarrow> row_id r = l_TaskID l \<Longrightarrow> \<not> live r"
  shows "map (\<lambda>x. (l_ID x, l_TaskID x, event_key x)) (links v') = map (\<lambda>x. (l_ID x, l_TaskID x, event_key x)) (links v)"
    and "length (tasks (core v)) < length (tasks (core v'))"
    and "row_id (tasks (core v') ! length (tasks (core v))) = next_id (core v)"
proof -
  have d: "distinct (map l_ID (links v))" "store_wf (core v)"
    using wf by (simp_all add: cal_wf_def links_wf_def)
  obtain mapped u v3 now l' v4 where s: "same_tables v v3" and up: "update_imported E l mapped v3 = (Ok l', v4)"
    and w: "link_Update (refreshed_link b ev now l') v4 = (Ok (), v')"
    by (rule upsert_known [OF wf run ev l])
  then have eq: "tasks (core v3) = tasks (core v)" "next_id (core v3) = next_id (core v)" "links v3 = links v"
    "store_wf (core v3)"
    using d(2) by (auto simp: same_tables_def intro: store_wf_same)
  note g = update_imported_gone [OF up _ eq(4), unfolded eq, OF gone]
  note lu = link_Update_run [OF w]
  have key: "event_key l' = event_key l" using g(1) by (simp add: event_key_def)
  show "map (\<lambda>x. (l_ID x, l_TaskID x, event_key x)) (links v') = map (\<lambda>x. (l_ID x, l_TaskID x, event_key x)) (links v)"
    using lu(1) link_write_back [of "links v4" l "refreshed_link b ev now l'"] d(1) l(1) g(1,2) key
    by auto
  show "length (tasks (core v)) < length (tasks (core v'))"
    "row_id (tasks (core v') ! length (tasks (core v))) = next_id (core v)"
    using g(3,4) lu(2) by simp_all
qed

end
