(* ===== verification/App_Frame.thy ===== *)
theory App_Frame
  imports App_Ics Calendar_Machine Calendar_Results
begin

text \<open>
  What the task service and the calendar service leave alone: users, messengers and chats, but for
  the time of a user's last activity, which never goes back (\<open>people_le\<close>); and how a single run of an
  operation is taken apart, at a call to the outside and at a statement that reads.
\<close>

subsection \<open>Users, messengers and chats\<close>

definition people_le :: "world \<Rightarrow> world \<Rightarrow> bool" where
  "people_le w w' \<longleftrightarrow>
     list_all2 activity_le (users w) (users w') \<and> messengers w' = messengers w \<and>
     user_messengers w' = user_messengers w"

lemma activity_le_iff: "activity_le x y \<longleftrightarrow>
    ur_deleted y = ur_deleted x \<and>
    (ur_user y)\<lparr>user_LastActivityAt := None\<rparr> = (ur_user x)\<lparr>user_LastActivityAt := None\<rparr> \<and>
    (\<forall>t. user_LastActivityAt (ur_user x) = Some t \<longrightarrow> (\<exists>t'. user_LastActivityAt (ur_user y) = Some t' \<and> t \<le> t'))"
proof -
  have "ur_user y = (ur_user x)\<lparr>user_LastActivityAt := a\<rparr> \<longleftrightarrow>
      (ur_user y)\<lparr>user_LastActivityAt := None\<rparr> = (ur_user x)\<lparr>user_LastActivityAt := None\<rparr> \<and>
      a = user_LastActivityAt (ur_user y)" for a
    by (cases "ur_user x"; cases "ur_user y") auto
  then show ?thesis by (simp add: activity_le_def split: option.split)
qed

lemma activity_le_trans: "activity_le x y \<Longrightarrow> activity_le y z \<Longrightarrow> activity_le x z"
proof -
  assume xy: "activity_le x y" and yz: "activity_le y z"
  have "\<exists>t'. user_LastActivityAt (ur_user z) = Some t' \<and> t \<le> t'"
    if x: "user_LastActivityAt (ur_user x) = Some t" for t
  proof -
    obtain s where "user_LastActivityAt (ur_user y) = Some s" "t \<le> s"
      using xy x by (auto simp: activity_le_iff)
    moreover from this(1) obtain r where "user_LastActivityAt (ur_user z) = Some r" "s \<le> r"
      using yz by (auto simp: activity_le_iff)
    ultimately show ?thesis by (auto intro: order.trans)
  qed
  then show ?thesis using xy yz by (simp add: activity_le_iff)
qed

lemma people_le_refl [simp]: "people_le w w"
  by (simp add: people_le_def)

lemma people_le_trans: "people_le u v \<Longrightarrow> people_le v w \<Longrightarrow> people_le u w"
  using list_all2_trans [of activity_le activity_le activity_le "users u" "users v" "users w"]
  by (auto simp: people_le_def intro: activity_le_trans)

lemma people_le_same:
  "users w' = users w \<Longrightarrow> messengers w' = messengers w \<Longrightarrow> user_messengers w' = user_messengers w \<Longrightarrow>
     people_le w w'"
  by (simp add: people_le_def)

interpretation people_le: run_preorder people_le
  by unfold_locales (auto intro: people_le_trans)

lemma steps_people_basic [steps_rules]:
  "steps people_le time_Now" "steps people_le (external text)"
  by (auto simp: steps_def time_Now_def external_def tick_def people_le_same split: list.split)

lemma steps_people_Touch: "steps people_le (Touch a i at)"
proof (cases a)
  case PostgresActivityTracker
  have "list_all2 activity_le us (map (\<lambda>u. if user_ID (ur_user u) = i \<and> \<not> ur_deleted u
      then u\<lparr>ur_user := touched at (ur_user u)\<rparr> else u) us)" for us
    by (induction us) (simp_all add: activity_le_touched)
  then show ?thesis
    unfolding PostgresActivityTracker Touch.simps TouchLastActivity_def
    by (intro steps_rules people_le.steps_modify) (simp add: people_le_def)
qed (simp add: people_le.steps_ret)

interpretation people_le: service_run people_le
proof
  show "steps people_le (CreateTaskHistory h)" for h
    unfolding CreateTaskHistory_def by (intro steps_rules people_le.steps_modify people_le_same) simp_all
  show "steps people_le (Touch a u at)" for a u at by (rule steps_people_Touch)
  show "steps people_le (OnTaskChanged x i action)" for x i action
    by (cases x) (auto intro!: steps_rules people_le.steps_modify people_le_same)
  show "steps people_le (PurgeByTask i cs)" for i cs
    unfolding PurgeByTask_def by (intro steps_rules people_le.steps_modify people_le_same) simp_all
  show "steps people_le (Sleep d)" for d
    unfolding Sleep_def by (intro people_le.steps_modify people_le_same) simp_all
  have p: "steps people_le (Publish p m)" for p m
    by (cases p) (auto intro!: steps_rules people_le.steps_modify people_le_same)
  show "steps people_le (Publish p m)" if "msg_Task m = ''worker.delete_task''" for p m by (rule p)
  show "steps people_le (Publish p m)" for p m by (rule p)
  show "steps people_le (repo_CreateTask t)" for t
    unfolding repo_CreateTask_def pool_insert_def
    by (intro steps_rules stepsI) (simp add: people_le_same)
  show "steps people_le Commit"
    unfolding Commit_def
    by (intro steps_rules stepsI)
       (auto simp: Rollback_def merge_tx_def intro!: people_le_same split: sum.split option.split)
  show "people_le w (Rollback w)" for w
    by (simp add: Rollback_def people_le_same)
  show "steps people_le BeginTxx"
    unfolding BeginTxx_def by (intro steps_rules people_le.steps_modify people_le_same) simp_all
  show "steps people_le (repo_UpdateTask t)" "steps people_le (repo_DeleteTask i)" for t i
    unfolding repo_UpdateTask_def repo_DeleteTask_def pool_write_def
    by (intro steps_rules stepsI; simp add: people_le_same wait_for_cancel_def)+
qed (unfold repo_UpdateTaskWithTx_def repo_DeleteTaskWithTx_def repo_DeleteChildTasksWithTx_def
       tx_write_def, (intro steps_rules stepsI; simp add: people_le_same split: option.split)+)

definition cal_people :: "cal_world \<Rightarrow> cal_world \<Rightarrow> bool" where
  "cal_people v v' \<longleftrightarrow> people_le (core v) (core v')"

interpretation cal_people: calendar_reads cal_people people_le
  by unfold_locales (auto simp: cal_people_def intro: people_le_trans)

lemma cal_people_step: "users (core v') = users (core v) \<Longrightarrow> messengers (core v') = messengers (core v) \<Longrightarrow>
    user_messengers (core v') = user_messengers (core v) \<Longrightarrow> cal_people v v'"
  by (simp add: cal_people_def people_le_same)

lemma steps_cal_people_basic [steps_rules]: "steps cal_people cal_now" "steps cal_people (cal_external msg)"
  by (intro steps_rules)+

interpretation cal_people: calendar_run cal_people people_le
proof
  show "steps cal_people (link_Create l)" for l
    unfolding link_Create_def Let_def
    by (intro cal_people.steps_bindE steps_cal_people_basic stepsI) (simp add: cal_people_step set_links_def)
  show "steps cal_people (link_Update l)" for l
    unfolding link_Update_def
    by (intro cal_people.steps_bindE steps_cal_people_basic stepsI) (simp add: cal_people_step set_links_def)
  show "steps cal_people (link_Delete i)" for i
    unfolding link_Delete_def
    by (intro cal_people.steps_bindE steps_cal_people_basic stepsI) (simp add: cal_people_step set_links_def)
  show "steps cal_people (ClaimDue n)" for n
    unfolding ClaimDue_def by (intro steps_rules cal_people.steps_modify cal_people_step) simp_all
  show "steps cal_people (Enqueue k p)" for k p
    unfolding Enqueue_def
    by (intro cal_people.steps_bindE cal_people.steps_Let steps_cal_people_basic stepsI) (simp add: cal_people_step)
  show "steps cal_people (binding_Create b)" for b
    unfolding binding_Create_def
    by (intro cal_people.steps_bindE cal_people.steps_Let steps_cal_people_basic stepsI) (simp add: cal_people_step)
  show "steps cal_people (account_Revoke i)" for i
    unfolding account_Revoke_def
    by (intro cal_people.steps_bindE steps_cal_people_basic stepsI) (simp add: cal_people_step)
qed (unfold binding_Update_def binding_SoftDelete_def ClearSyncToken_def binding_write_def
       MarkDone_def MarkFailed_def MarkRetry_def updateStatus_def outbox_write_def,
     (intro cal_people.steps_bindE steps_cal_people_basic stepsI, simp add: cal_people_step)+)

lemma steps_people_handle: "steps cal_people (cal_handle S E q)"
  by (rule cal_people.cal_handle) (rule people_le.handle)

subsection \<open>One run at a time\<close>

text \<open>A run whose second part is allowed only because of what the first part returned.\<close>

context run_preorder begin

lemma run_bindE:
  assumes "m w = (r, w1)" and "R w w1" and "\<And>x. r = Ok x \<Longrightarrow> R w1 (snd (k x w1))"
  shows "R w (snd (bindE m k w))"
  using assms by (cases r) (auto simp: bindE_def intro: run_trans)

lemma run_at:
  "R w (snd (m w)) \<Longrightarrow> (\<And>x. fst (m w) = Ok x \<Longrightarrow> R (snd (m w)) (snd (k x (snd (m w))))) \<Longrightarrow>
     R w (snd (bindE m k w))"
  using run_bindE [of m w "fst (m w)" "snd (m w)" k] by simp

lemma run_attempt:
  assumes "m w = (r, w1)" and "R w w1" and "\<And>x. r = Ok x \<Longrightarrow> R w1 (snd (k (Inr x) w1))"
    and "\<And>e. r = Err e \<Longrightarrow> R w1 (snd (k (Inl e) w1))"
  shows "R w (snd (bindE (attempt m) k w))"
  using assms by (cases r) (auto simp: bindE_def attempt_def intro: run_trans)

end

lemma steps_at: "steps R m \<Longrightarrow> R w (snd (m w))"
  by (simp add: steps_def)

subsection \<open>A call to the outside\<close>

text \<open>It fails with an error that is not about a missing row, or what follows runs; either way only the
  list of failures to come has changed.\<close>

definition with_faults :: "bool list \<Rightarrow> app_world \<Rightarrow> app_world" where
  "with_faults fs u = set_core (\<lambda>w. w\<lparr>faults := fs\<rparr>) u"

lemma with_faults_same [simp]:
  "backlog_rows (with_faults fs u) = backlog_rows u" "target_rows (with_faults fs u) = target_rows u"
  "group_rows (with_faults fs u) = group_rows u" "digest_rows (with_faults fs u) = digest_rows u"
  "next_backlog (with_faults fs u) = next_backlog u" "next_target (with_faults fs u) = next_target u"
  "next_group (with_faults fs u) = next_group u" "next_digest (with_faults fs u) = next_digest u"
  "next_user (with_faults fs u) = next_user u" "next_messenger (with_faults fs u) = next_messenger u"
  "next_chat (with_faults fs u) = next_chat u" "users (app_core (with_faults fs u)) = users (app_core u)"
  "messengers (app_core (with_faults fs u)) = messengers (app_core u)"
  "user_messengers (app_core (with_faults fs u)) = user_messengers (app_core u)"
  "tasks (app_core (with_faults fs u)) = tasks (app_core u)" "queue (app_core (with_faults fs u)) = queue (app_core u)"
  "clock (app_core (with_faults fs u)) = clock (app_core u)" "bindings (cal (with_faults fs u)) = bindings (cal u)"
  by (simp_all add: with_faults_def set_core_def)

lemma external_cases:
  obtains (failed) m fs where "external msg w = (Err (ErrOther m), w\<lparr>faults := fs\<rparr>)"
  | (went) fs where "external msg w = (Ok (), w\<lparr>faults := fs\<rparr>)"
proof -
  obtain r w' where e: "external msg w = (r, w')" by fastforce
  then obtain fs where w': "w' = w\<lparr>faults := fs\<rparr>" using external_world by blast
  have "r = Ok () \<or> (\<exists>m. r = Err (ErrOther m))"
    using e by (auto simp: external_def split: if_splits list.splits)
  then show ?thesis using e w' that by auto
qed

lemma app_external_then:
  assumes "bindE (app_external msg) k u = (r, u')"
  obtains (failed) m fs where "r = Err (ErrOther m)" "u' = with_faults fs u"
  | (went) fs where "k () (with_faults fs u) = (r, u')"
  using assms
  by (cases rule: external_cases [of msg "app_core u"])
     (auto simp: bindE_def in_cal_def in_core_def with_faults_def set_core_def)

text \<open>A statement that reads: its result is decided by the tables.\<close>

lemma app_read_run:
  assumes "bindE (app_external msg) (\<lambda>_. bindE (gets f) k) u = (r, u')"
  obtains (failed) m fs where "r = Err (ErrOther m)" "u' = with_faults fs u"
  | (went) fs where "k (f (with_faults fs u)) (with_faults fs u) = (r, u')"
  using assms by (cases rule: app_external_then) (auto simp: bindE_def gets_def)

lemma app_find_run:
  assumes run: "bindE (app_external msg) (\<lambda>_. bindE (gets f) (\<lambda>xs.
      case find P xs of None \<Rightarrow> fail (ErrNotFound missing) | Some x \<Rightarrow> ret x)) u = (r, u')"
    and same: "\<And>fs. f (with_faults fs u) = f u"
  shows "(\<exists>fs. u' = with_faults fs u) \<and>
    (\<forall>x. r = Ok x \<longrightarrow> x \<in> set (f u) \<and> P x) \<and>
    (\<forall>e. r = Err e \<and> is_not_found e \<longrightarrow> (\<forall>x \<in> set (f u). \<not> P x))"
  using run
proof (cases rule: app_read_run)
  case (went fs)
  then show ?thesis
    by (cases "find P (f u)") (auto simp: same ret_def fail_def find_Some_iff find_None_iff)
qed auto

end
