(* ===== verification/App_Runs.thy ===== *)
theory App_Runs
  imports App_Frame
begin

text \<open>
  The requests of the whole application, and the interface a relation between the states before and
  after a run has to provide so that it can be followed through each of them.  A relation \<open>R\<close> on the
  application comes with one on the state of the calendar service (\<open>C\<close>) and one on the state of the
  task service (\<open>W\<close>).
\<close>

subsection \<open>Requests\<close>

datatype app_request =
    AppCalendar cal_request
  | AppCreateUser user
  | AppUpdateUser int user_update_request
  | AppDeleteUser int
  | AppCreateMessenger messenger
  | AppCreateChat messenger_related_user
  | AppCreateBacklog backlog
  | AppCreateBatch string string int "int option"
  | AppUpdateBacklog int backlog_update_request
  | AppDeleteBacklog int
  | AppCreateTarget target
  | AppUpdateTarget int target_update_request
  | AppDeleteTarget int
  | AppCreateGroup task_group
  | AppUpdateGroup int task_group_update_request
  | AppDeleteGroup int
  | AppCreateDigest digest_settings
  | AppUpdateDigest int "int option" digest_settings_update_request
  | AppDeleteDigest int "int option"
  | AppDigest int "int option" "string option" "time option" "time option"
  | AppImport "string + vcalendar" ics_options

definition app_drop :: "'a aop \<Rightarrow> unit aop" where
  "app_drop m = bindE m (\<lambda>_. ret ())"

fun app_handle :: "env \<Rightarrow> cal_env \<Rightarrow> app_env \<Rightarrow> app_request \<Rightarrow> unit aop" where
  "app_handle S E F (AppCalendar q) = in_cal (cal_handle S E q)"
| "app_handle S E F (AppCreateUser x) = app_drop (CreateUser F x)"
| "app_handle S E F (AppUpdateUser i r) = app_drop (UpdateUser F i r)"
| "app_handle S E F (AppDeleteUser i) = DeleteUser F i"
| "app_handle S E F (AppCreateMessenger m) = app_drop (CreateMessenger m)"
| "app_handle S E F (AppCreateChat m) = app_drop (CreateMessengerRelatedUser F m)"
| "app_handle S E F (AppCreateBacklog b) = app_drop (CreateBacklog F b)"
| "app_handle S E F (AppCreateBatch items sep i c) = app_drop (CreateBacklogsBatch F items sep i c)"
| "app_handle S E F (AppUpdateBacklog i r) = app_drop (UpdateBacklog F i r)"
| "app_handle S E F (AppDeleteBacklog i) = DeleteBacklog F i"
| "app_handle S E F (AppCreateTarget t) = app_drop (CreateTarget F t)"
| "app_handle S E F (AppUpdateTarget i r) = app_drop (UpdateTarget F i r)"
| "app_handle S E F (AppDeleteTarget i) = DeleteTarget F i"
| "app_handle S E F (AppCreateGroup g) = app_drop (CreateTaskGroup F g)"
| "app_handle S E F (AppUpdateGroup i r) = app_drop (UpdateTaskGroup F i r)"
| "app_handle S E F (AppDeleteGroup i) = DeleteTaskGroup F i"
| "app_handle S E F (AppCreateDigest d) = app_drop (CreateDigestSettings F d)"
| "app_handle S E F (AppUpdateDigest i c r) = app_drop (UpdateDigestSettings F i c r)"
| "app_handle S E F (AppDeleteDigest i c) = DeleteDigestSettings F i c"
| "app_handle S E F (AppDigest i c m a b) = app_drop (GetDigest F i c m a b)"
| "app_handle S E F (AppImport file opts) = app_drop (ics_Import S file opts)"

subsection \<open>Reading\<close>

locale app_reads = run_preorder R + cal: calendar_reads C W
  for R :: "app_world \<Rightarrow> app_world \<Rightarrow> bool" and C :: "cal_world \<Rightarrow> cal_world \<Rightarrow> bool"
    and W :: "world \<Rightarrow> world \<Rightarrow> bool" +
  assumes on_cal: "C (cal u) v' \<Longrightarrow> R u (u\<lparr>cal := v'\<rparr>)"
begin

lemma in_cal [steps_rules]: "steps C m \<Longrightarrow> steps R (in_cal m)"
  by (simp add: steps_def in_cal_def on_cal)

lemma touch_steps [steps_rules]: "steps R (app_touch F i)"
  unfolding app_touch_def by (intro steps_rules)

lemma page_steps [steps_rules]: "steps R (list_page rows order p n ob cf f)"
  unfolding list_page_def by (intro steps_rules)

lemma get_steps [steps_rules]: "steps R (soft_get T i m f)"
  unfolding soft_get_def by (intro steps_rules)

lemma people_reads [steps_rules]:
  "steps R CountActiveUsers" "steps R (repo_GetAllUsers F p n ob)" "steps R (ListRecentActivity n)"
  "steps R (GetMessengerIDByName m)" "steps R (repo_GetMessengerRelatedUser c m u g)"
  "steps R (repo_GetUserID m)" "steps R (repo_GetAllMessengers F p n ob)"
  "steps R (repo_GetAllMessengerRelatedUsers F p n ob u c')"
  unfolding CountActiveUsers_def repo_GetAllUsers_def ListRecentActivity_def GetMessengerIDByName_def
    repo_GetMessengerRelatedUser_def repo_GetUserID_def repo_GetAllMessengers_def
    repo_GetAllMessengerRelatedUsers_def
  by (intro steps_rules)+

lemma missing_steps [steps_rules]: "steps R m \<Longrightarrow> steps R (missing_is_unprocessable m)"
  by (simp add: missing_is_unprocessable_def steps_map_err)

lemma given_steps [steps_rules]: "(\<And>x. steps R (get x)) \<Longrightarrow> steps R (check_given get i)"
  unfolding check_given_def by (intro steps_rules)

lemma account_reads [steps_rules]:
  "steps R (user_getMessengerName i)" "steps R (check_user_limit F)" "steps R (GetUser i)"
  "steps R (GetMessenger i)" "steps R (check_user i)" "steps R (check_chat c)"
  unfolding user_getMessengerName_def check_user_limit_def GetUser_def GetMessenger_def check_user_def
    check_chat_def by (intro steps_rules)+

lemma account_gets [steps_rules]: "steps R (GetMessengerRelatedUser c m u g)"
  unfolding GetMessengerRelatedUser_def by (intro steps_rules)

lemma messenger_ids [steps_rules]: "steps W (GetMessengerRelatedUserIDsByMessengerUserID u m)"
  unfolding GetMessengerRelatedUserIDsByMessengerUserID_def by (intro steps_rules)

lemma list_reads [steps_rules]:
  "steps R (repo_GetBacklogByID i)" "steps R (repo_GetTargetByID i)" "steps R (repo_GetTaskGroupByID i)"
  "steps R (repo_GetAllBacklogs F p n ob u b c)" "steps R (repo_GetAllTargets F p n ob u c)"
  "steps R (repo_GetAllTaskGroups F p n ob u)" "steps R (GetCompletedBacklogsCount i a b')"
  "steps R (chats_of u m)"
  unfolding repo_GetBacklogByID_def repo_GetTargetByID_def repo_GetTaskGroupByID_def
    repo_GetAllBacklogs_def repo_GetAllTargets_def repo_GetAllTaskGroups_def
    GetCompletedBacklogsCount_def chats_of_def
  by (intro steps_rules)+

lemma digest_reads [steps_rules]:
  "steps R (check_clock t)" "steps R (GetDigestSettingsByUserID i c)" "steps R (GetDigestSettingsByID i)"
  "steps R (repo_GetAllDigestSettings F p n ob u cs)" "steps R (check_given_clock t')"
  unfolding check_clock_def GetDigestSettingsByUserID_def GetDigestSettingsByID_def digest_found_def
    repo_GetAllDigestSettings_def check_given_clock_def
  by (intro steps_rules)+

lemma page_of_tasks [steps_rules]: "steps W (repo_GetTasksByUserIDWithPagination D i q)"
  unfolding repo_GetTasksByUserIDWithPagination_def count_rows_def select_page_def by (intro steps_rules)

lemma chat_steps [steps_rules]: "steps R (resolve_chat i c m)" "steps R (chat_id_of c)"
  unfolding resolve_chat_def chat_id_of_def
  by (auto split: option.split list.split intro!: steps_rules)

lemma GetDigest [steps_rules]: "steps R (GetDigest F i c m a b)"
  unfolding GetDigest_def
  by (intro steps_rules; (cases a; cases b; simp)?; intro steps_rules)

lemma import_checks [steps_rules]: "steps R (check_group opts)" "steps R (check_import_chat opts)"
  unfolding check_group_def check_import_chat_def by (intro steps_rules)+

end

subsection \<open>Writing\<close>

text \<open>Whoever publishes; the loop over the tasks of a deleted user; the import of a file.\<close>

locale app_tasks = app_reads + cal: calendar_tasks C W
begin

lemma tell_worker [steps_rules]: "steps R (tell_worker F m)"
  unfolding tell_worker_def by (intro steps_rules)

lemma drop_task [steps_rules]: "steps R (drop_task F t)"
  unfolding drop_task_def by (intro steps_rules)

lemma CreateTask_checks [steps_rules]: "steps W (MapEventToTaskFields L ev i g m)"
  unfolding MapEventToTaskFields_def by (intro steps_rules)

lemma import_event [steps_rules]: "steps R (import_event S opts e res)"
  unfolding import_event_def by (cases e) (simp, intro steps_rules)

lemma ics_Import [steps_rules]: "steps R (ics_Import S file opts)"
  unfolding ics_Import_def by (intro steps_rules)

end

text \<open>The operations that check before they write, for a relation that allows the write as it is.\<close>

context app_tasks begin

lemma CreateUser_from: "steps R (repo_CreateUser x) \<Longrightarrow> steps R (CreateUser F x)"
  unfolding CreateUser_def by (intro steps_rules)

lemma CreateChat_from:
  "steps R (repo_CreateMessengerRelatedUser m) \<Longrightarrow> steps R (CreateMessengerRelatedUser F m)"
  by (cases "mru_UserID m"; cases "mru_MessengerID m")
     (auto simp: CreateMessengerRelatedUser_def intro!: steps_rules)

lemma drop_user_from:
  "steps R (DeleteMessengerRelatedUserByUserID i) \<Longrightarrow> steps R (repo_DeleteUser i) \<Longrightarrow>
     steps R (bindE (DeleteMessengerRelatedUserByUserID i) (\<lambda>_. repo_DeleteUser i))"
  by (intro steps_rules)

lemma UpdateGroup_from: "(\<And>g. steps R (repo_UpdateTaskGroup g)) \<Longrightarrow> steps R (UpdateTaskGroup F i r)"
  unfolding UpdateTaskGroup_def by (intro steps_rules)

lemma CreateDigest_from: "steps R (repo_CreateDigestSettings d) \<Longrightarrow> steps R (CreateDigestSettings F d)"
  unfolding CreateDigestSettings_def by (intro steps_rules)

lemma UpdateDigest_from:
  "(\<And>d. steps R (repo_UpdateDigestSettings d)) \<Longrightarrow> steps R (UpdateDigestSettings F j k r)"
  unfolding UpdateDigestSettings_def by (intro steps_rules)

end

text \<open>Statements of a table, from the changes of the state they make.\<close>

context app_reads begin

lemma soft_insert_from:
  "(\<And>u. R u (st_step T (st_put T (st_rows T u @
      [\<lparr>s_item = mk (st_next T u) (clock (app_core u)), s_deleted_at = None\<rparr>]) u))) \<Longrightarrow>
     steps R (soft_insert T mk failure)"
  unfolding soft_insert_def by (intro steps_bindE in_cal cal.in_core cal.core.external stepsI) simp

lemma soft_update_from:
  "(\<And>u now. R u (st_put T (map (\<lambda>x. if has_key T i x then x\<lparr>s_item := f now (s_item x)\<rparr> else x)
      (st_rows T u)) u)) \<Longrightarrow> steps R (soft_update T i f failure)"
  unfolding soft_update_def
  by (intro steps_bindE in_cal cal.in_core cal.core.external cal.core.time_Now steps_modify)

lemma soft_remove_from:
  "(\<And>u now. R u (st_put T (map (\<lambda>x. if has_key T i x then x\<lparr>s_deleted_at := Some now\<rparr> else x)
      (st_rows T u)) u)) \<Longrightarrow> steps R (soft_remove T i missing failure)"
  unfolding soft_remove_def
  by (intro steps_bindE in_cal cal.in_core cal.core.external cal.core.time_Now stepsI) (simp add: run_refl)

end

text \<open>Everything that changes state, for the environment \<open>F\<close> of the services.\<close>

locale app_run = app_tasks + cal: calendar_run C W +
  fixes F :: app_env
  assumes task_requests: "steps W (handle S q)"
    and create_user [steps_rules]: "steps R (CreateUser F x)"
    and update_user [steps_rules]: "steps R (repo_UpdateUser x)"
    and drop_user: "steps R (bindE (DeleteMessengerRelatedUserByUserID i) (\<lambda>_. repo_DeleteUser i))"
    and purge_user [steps_rules]: "steps R (PurgeByUser i)"
    and create_messenger [steps_rules]: "steps R (repo_CreateMessenger m)"
    and create_chat [steps_rules]: "steps R (CreateMessengerRelatedUser F c)"
    and backlog_writes [steps_rules]: "steps R (repo_CreateBacklog b)" "steps R (repo_UpdateBacklog b)"
      "steps R (repo_DeleteBacklog i)"
    and target_writes [steps_rules]: "steps R (repo_CreateTarget t)" "steps R (repo_UpdateTarget t)"
      "steps R (repo_DeleteTarget i)"
    and group_create: "gr_Name g \<noteq> [] \<Longrightarrow> steps R (repo_CreateTaskGroup g)"
    and group_update [steps_rules]: "steps R (UpdateTaskGroup F i r)"
    and group_delete [steps_rules]: "steps R (repo_DeleteTaskGroup i)"
    and digest_writes [steps_rules]: "steps R (CreateDigestSettings F d)"
      "steps R (UpdateDigestSettings F j k r')" "steps R (repo_DeleteDigestSettings j k)"
begin

lemma sleep_steps [steps_rules]: "0 \<le> d \<Longrightarrow> steps R (in_task (Sleep d))"
  by (intro in_cal cal.in_core cal.core.sleep)

lemma purge_steps [steps_rules]: "steps R (purgeUserAttachmentsBestEffort F i)"
proof -
  have "steps R (user_purge_attempts n k i)" for n k
  proof (induction n arbitrary: k)
    case (Suc n)
    show ?case unfolding user_purge_attempts.simps by (intro steps_rules Suc) simp
  qed (simp add: steps_ret)
  then show ?thesis by (simp add: purgeUserAttachmentsBestEffort_def steps_ret)
qed

text \<open>The two last writes of a deletion belong together.\<close>

lemma drop_user_then: "(\<And>x. steps R (k x)) \<Longrightarrow>
    steps R (bindE (DeleteMessengerRelatedUserByUserID i) (\<lambda>_. bindE (repo_DeleteUser i) k))"
  using drop_user by (simp add: bindE_assoc [symmetric] steps_bindE)

lemma DeleteUser [steps_rules]: "steps R (DeleteUser F i)"
  unfolding DeleteUser_def
proof (rule steps_bindE, goal_cases)
  case (2 x)
  show ?case
    by (rule steps_bindE, unfold repo_GetTasksByUserID_def, intro steps_rules,
        rule steps_bindE, intro steps_rules, rule drop_user_then, intro steps_rules)
qed (intro steps_rules)

lemma UpdateUser [steps_rules]: "steps R (UpdateUser F i r)"
  unfolding UpdateUser_def by (intro steps_rules)

lemma CreateMessenger [steps_rules]: "steps R (CreateMessenger m)"
  unfolding CreateMessenger_def by (intro steps_rules)

lemma backlog_steps [steps_rules]:
  "steps R (CreateBacklog F b)" "steps R (UpdateBacklog F i r)" "steps R (DeleteBacklog F i)"
  "steps R (CreateBacklogsBatch F items sep i c)"
  unfolding CreateBacklog_def UpdateBacklog_def DeleteBacklog_def CreateBacklogsBatch_def create_line_def
  by (intro steps_rules)+

lemma target_steps [steps_rules]:
  "steps R (CreateTarget F t)" "steps R (UpdateTarget F i r)" "steps R (DeleteTarget F i)"
  unfolding CreateTarget_def UpdateTarget_def DeleteTarget_def by (intro steps_rules)+

lemma group_steps [steps_rules]: "steps R (CreateTaskGroup F g)" "steps R (DeleteTaskGroup F i)"
proof -
  show "steps R (CreateTaskGroup F g)"
    unfolding CreateTaskGroup_def
    by (cases "gr_Name g = []") (simp_all, (intro steps_rules group_create; simp)+)
  show "steps R (DeleteTaskGroup F i)"
    unfolding DeleteTaskGroup_def by (intro steps_rules)
qed

lemma DeleteDigestSettings [steps_rules]: "steps R (DeleteDigestSettings F j k)"
  unfolding DeleteDigestSettings_def by (intro steps_rules)

lemma app_handle: "steps R (app_handle S E F q)"
  by (cases q) (auto simp: app_drop_def intro!: steps_rules cal.cal_handle task_requests)

end

end
