(* ===== verification/App_Invariant.thy ===== *)
theory App_Invariant
  imports App_Runs
begin

text \<open>
  What every request of the application keeps: the invariant of the calendar part, the tables of
  backlog items, targets, groups and digest settings, users with their chats, and the limit of
  users.  Each is an interpretation of \<open>app_run\<close>; the parts do not depend on each other.
\<close>

subsection \<open>The calendar part\<close>

definition app_cal :: "app_world \<Rightarrow> app_world \<Rightarrow> bool" where
  "app_cal u u' \<longleftrightarrow> cal_le (cal u) (cal u')"

lemma cal_le_people:
  "cal_le v (v\<lparr>core := (core v)\<lparr>users := us\<rparr>\<rparr>)" "cal_le v (v\<lparr>core := (core v)\<lparr>messengers := ms\<rparr>\<rparr>)"
  "cal_le v (v\<lparr>core := (core v)\<lparr>user_messengers := ums\<rparr>\<rparr>)"
  by (auto simp: cal_le_def tx_closed_def tables_wf grows_refl intro: store_wf_same)

interpretation app_cal: app_reads app_cal cal_le core_le
  by unfold_locales (auto simp: app_cal_def intro: cal_le_refl cal_le_trans)

interpretation app_cal: app_tasks app_cal cal_le core_le
  by unfold_locales

lemma app_cal_people:
  "app_cal u (set_core (\<lambda>w. w\<lparr>users := f w\<rparr>) u)" "app_cal u (set_core (\<lambda>w. w\<lparr>messengers := g w\<rparr>) u)"
  "app_cal u (set_core (\<lambda>w. w\<lparr>user_messengers := h w\<rparr>) u)"
  by (simp_all add: app_cal_def set_core_def cal_le_people)

lemma app_cal_same: "cal u' = cal u \<Longrightarrow> app_cal u u'"
  by (simp add: app_cal_def cal_le_refl)

lemma steps_app_cal_people:
  "steps app_cal (repo_CreateUser x)" "steps app_cal (repo_UpdateUser x)" "steps app_cal (repo_DeleteUser i)"
  "steps app_cal (repo_CreateMessenger m)" "steps app_cal (repo_CreateMessengerRelatedUser c)"
  "steps app_cal (DeleteMessengerRelatedUserByUserID i)" "steps app_cal (PurgeByUser i)"
proof -
  note basics = app_cal.steps_bindE app_cal.in_cal cal_le.in_core core_le.external core_le.time_Now
  have next_same: "app_cal u (u'\<lparr>next_user := n\<rparr>)" "app_cal u (u'\<lparr>next_messenger := n\<rparr>)"
    "app_cal u (u'\<lparr>next_chat := n\<rparr>)" if "app_cal u u'" for u u' n
    using that by (simp_all add: app_cal_def)
  show "steps app_cal (repo_CreateUser x)"
    unfolding repo_CreateUser_def by (intro basics stepsI) (simp add: next_same app_cal_people)
  show "steps app_cal (repo_UpdateUser x)" "steps app_cal (repo_DeleteUser i)"
    unfolding repo_UpdateUser_def repo_DeleteUser_def map_user_def
    by (intro basics app_cal.steps_modify app_cal_people)+
  show "steps app_cal (repo_CreateMessenger m)"
    unfolding repo_CreateMessenger_def
    by (intro basics stepsI) (simp add: next_same app_cal_people app_cal_same)
  show "steps app_cal (repo_CreateMessengerRelatedUser c)"
    unfolding repo_CreateMessengerRelatedUser_def
    by (intro basics stepsI) (simp add: next_same app_cal_people app_cal_same)
  show "steps app_cal (DeleteMessengerRelatedUserByUserID i)"
    unfolding DeleteMessengerRelatedUserByUserID_def drop_chats_def
    by (intro basics app_cal.steps_modify app_cal_people)
  show "steps app_cal (PurgeByUser i)"
    unfolding PurgeByUser_def by (intro basics app_cal.steps_modify app_cal_same) simp
qed

context table_laws begin

lemma soft_app_cal:
  "steps app_cal (soft_insert T mk f)" "steps app_cal (soft_update T i g f)" "steps app_cal (soft_remove T i m f)"
  by (auto intro!: app_cal.soft_insert_from app_cal.soft_update_from app_cal.soft_remove_from app_cal_same
      simp: table_simps)

end

lemma steps_app_cal_digests:
  "steps app_cal (repo_CreateDigestSettings d)" "steps app_cal (repo_UpdateDigestSettings d)"
  "steps app_cal (repo_DeleteDigestSettings j k)"
  unfolding repo_CreateDigestSettings_def repo_UpdateDigestSettings_def repo_DeleteDigestSettings_def
  by (intro app_cal.steps_bindE app_cal.in_cal cal_le.in_core core_le.external core_le.time_Now stepsI;
      simp add: app_cal_same)+

interpretation app_cal: app_run app_cal cal_le core_le F
proof
  show "steps core_le (handle S q)" for S q by (rule steps_core_handle)
  show "steps app_cal (CreateUser F x)" for x by (intro app_cal.CreateUser_from steps_app_cal_people)
  show "steps app_cal (bindE (DeleteMessengerRelatedUserByUserID i) (\<lambda>_. repo_DeleteUser i))" for i
    by (intro app_cal.drop_user_from steps_app_cal_people)
  show "steps app_cal (CreateMessengerRelatedUser F c)" for c
    by (intro app_cal.CreateChat_from steps_app_cal_people)
  show "steps app_cal (UpdateTaskGroup F i r)" for i r
    by (intro app_cal.UpdateGroup_from) (simp add: repo_UpdateTaskGroup_def groups.soft_app_cal)
  show "steps app_cal (CreateDigestSettings F d)" "steps app_cal (UpdateDigestSettings F j k r')" for d j k r'
    by (intro app_cal.CreateDigest_from app_cal.UpdateDigest_from steps_app_cal_digests)+
qed (simp_all add: steps_app_cal_people steps_app_cal_digests repo_CreateBacklog_def repo_UpdateBacklog_def
    repo_DeleteBacklog_def repo_CreateTarget_def repo_UpdateTarget_def repo_DeleteTarget_def
    repo_CreateTaskGroup_def repo_DeleteTaskGroup_def backlogs.soft_app_cal target_items.soft_app_cal
    groups.soft_app_cal)

subsection \<open>The tables\<close>

definition soft_wf :: "'a soft_table \<Rightarrow> app_world \<Rightarrow> bool" where
  "soft_wf T u \<longleftrightarrow>
     distinct (map (st_key T \<circ> s_item) (st_rows T u)) \<and> (\<forall>x \<in> set (st_rows T u). st_key T (s_item x) < st_next T u)"

text \<open>A row keeps its key, and a deleted row never changes.\<close>

definition soft_row_le :: "'a soft_table \<Rightarrow> 'a stored \<Rightarrow> 'a stored \<Rightarrow> bool" where
  "soft_row_le T x y \<longleftrightarrow> st_key T (s_item y) = st_key T (s_item x) \<and> (\<not> s_live x \<longrightarrow> y = x)"

definition soft_le :: "'a soft_table \<Rightarrow> app_world \<Rightarrow> app_world \<Rightarrow> bool" where
  "soft_le T u u' \<longleftrightarrow> grows (soft_row_le T) (st_rows T u) (st_rows T u')"

lemma soft_row_le_refl [simp]: "soft_row_le T x x"
  by (simp add: soft_row_le_def)

lemma soft_le_refl [simp]: "soft_le T u u"
  by (simp add: soft_le_def grows_refl)

lemma soft_le_trans: "soft_le T u v \<Longrightarrow> soft_le T v w \<Longrightarrow> soft_le T u w"
  unfolding soft_le_def by (rule grows_trans [of "soft_row_le T"]) (auto simp: soft_row_le_def s_live_def)

definition digest_ok :: "digest_settings \<Rightarrow> bool" where
  "digest_ok d \<longleftrightarrow> parse_clock (ds_WeekdayTime d) \<noteq> None \<and> parse_clock (ds_WeekendTime d) \<noteq> None"

definition digests_wf :: "app_world \<Rightarrow> bool" where
  "digests_wf u \<longleftrightarrow>
     distinct (map ds_ID (digest_rows u)) \<and> distinct (map digest_key (digest_rows u)) \<and>
     (\<forall>d \<in> set (digest_rows u). ds_ID d < next_digest u \<and> digest_ok d)"

definition lists_wf :: "app_world \<Rightarrow> bool" where
  "lists_wf u \<longleftrightarrow> soft_wf backlog_table u \<and> soft_wf target_table u \<and> soft_wf group_table u \<and>
     (\<forall>x \<in> set (group_rows u). gr_Name (s_item x) \<noteq> []) \<and> digests_wf u"

definition lists_le :: "app_world \<Rightarrow> app_world \<Rightarrow> bool" where
  "lists_le u u' \<longleftrightarrow> (lists_wf u \<longrightarrow> lists_wf u' \<and>
     soft_le backlog_table u u' \<and> soft_le target_table u u' \<and> soft_le group_table u u')"

abbreviation any_cal :: "cal_world \<Rightarrow> cal_world \<Rightarrow> bool" where "any_cal \<equiv> \<lambda>_ _. True"

interpretation any_cal: calendar_run any_cal anything
  by unfold_locales (simp_all add: steps_def)

text \<open>Two states with the same tables.\<close>

definition same_lists :: "app_world \<Rightarrow> app_world \<Rightarrow> bool" where
  "same_lists u u' \<longleftrightarrow> (\<exists>v. u' = u\<lparr>cal := v\<rparr>)"

interpretation same_lists: app_tasks same_lists any_cal anything
proof
  show "same_lists u u" for u unfolding same_lists_def by (rule exI [of _ "cal u"]) simp
qed (auto simp: same_lists_def)

lemma same_lists_wf: "same_lists u u' \<Longrightarrow> lists_wf u' = lists_wf u"
  by (auto simp: same_lists_def lists_wf_def soft_wf_def digests_wf_def backlogs.table_simps
      target_items.table_simps groups.table_simps)

lemma same_lists_le: "same_lists u u' \<Longrightarrow> lists_le u u'"
  using same_lists_wf [of u u']
  by (auto simp: same_lists_def lists_le_def soft_le_def grows_refl backlogs.table_simps
      target_items.table_simps groups.table_simps)

lemma lists_le_trans: "lists_le u v \<Longrightarrow> lists_le v w \<Longrightarrow> lists_le u w"
  by (auto simp: lists_le_def intro: soft_le_trans)

interpretation lists_le: app_tasks lists_le any_cal anything
proof
  show "lists_le u u" for u by (simp add: lists_le_def)
  show "lists_le u w" if "lists_le u v" "lists_le v w" for u v w using that by (rule lists_le_trans)
  show "lists_le u (u\<lparr>cal := v\<rparr>)" for u v
    by (rule same_lists_le) (auto simp: same_lists_def)
qed

text \<open>One table: the statements keep it well-formed.\<close>

context table_laws begin

lemma soft_wf_insert:
  assumes "st_key T (mk (st_next T u) now) = st_next T u" and "soft_wf T u"
  shows "soft_wf T (st_step T (st_put T (st_rows T u @ [\<lparr>s_item = mk (st_next T u) now, s_deleted_at = None\<rparr>]) u))"
  using assms by (auto simp: soft_wf_def table_simps)

lemma soft_wf_map:
  assumes "\<And>x. st_key T (s_item (f x)) = st_key T (s_item x)" and "soft_wf T u"
  shows "soft_wf T (st_put T (map f (st_rows T u)) u)"
proof -
  have "map (st_key T \<circ> s_item) (map f (st_rows T u)) = map (st_key T \<circ> s_item) (st_rows T u)"
    using assms(1) by simp
  then show ?thesis using assms unfolding soft_wf_def table_simps by (metis (no_types, lifting) imageE list.set_map)
qed

lemma soft_le_insert: "soft_le T u (st_step T (st_put T (st_rows T u @ xs) u))"
  by (simp add: soft_le_def table_simps grows_snoc)

lemma soft_le_map: "(\<And>x. soft_row_le T x (f x)) \<Longrightarrow> soft_le T u (st_put T (map f (st_rows T u)) u)"
  by (simp add: soft_le_def table_simps grows_map)

end

text \<open>A change of one table leaves the others as they are.\<close>

lemma lists_le_backlog:
  assumes "soft_wf backlog_table u \<Longrightarrow> soft_wf backlog_table u'" and "soft_le backlog_table u u'"
    and "\<exists>xs n. u' = u\<lparr>backlog_rows := xs, next_backlog := n\<rparr>"
  shows "lists_le u u'"
  using assms by (auto simp: lists_le_def lists_wf_def soft_wf_def soft_le_def digests_wf_def grows_refl
      target_table_def group_table_def)

lemma lists_le_target:
  assumes "soft_wf target_table u \<Longrightarrow> soft_wf target_table u'" and "soft_le target_table u u'"
    and "\<exists>xs n. u' = u\<lparr>target_rows := xs, next_target := n\<rparr>"
  shows "lists_le u u'"
  using assms by (auto simp: lists_le_def lists_wf_def soft_wf_def soft_le_def digests_wf_def grows_refl
      backlog_table_def group_table_def)

lemma lists_le_group:
  assumes "soft_wf group_table u \<Longrightarrow> soft_wf group_table u'" and "soft_le group_table u u'"
    and "\<forall>x \<in> set (group_rows u). gr_Name (s_item x) \<noteq> [] \<Longrightarrow> \<forall>x \<in> set (group_rows u'). gr_Name (s_item x) \<noteq> []"
    and "\<exists>xs n. u' = u\<lparr>group_rows := xs, next_group := n\<rparr>"
  shows "lists_le u u'"
  using assms by (auto simp: lists_le_def lists_wf_def soft_wf_def soft_le_def digests_wf_def grows_refl
      backlog_table_def target_table_def)

lemma lists_le_digests:
  assumes "lists_wf u \<Longrightarrow> digests_wf u'" and "\<exists>ds n. u' = u\<lparr>digest_rows := ds, next_digest := n\<rparr>"
  shows "lists_le u u'"
  using assms by (auto simp: lists_le_def lists_wf_def soft_wf_def soft_le_def grows_refl
      backlog_table_def target_table_def group_table_def)

text \<open>The statements on the three tables, and groups that keep a name.\<close>

lemma row_le_update:
  "(\<And>y. st_key T (f y) = st_key T y) \<Longrightarrow> soft_row_le T x (if has_key T i x then x\<lparr>s_item := f (s_item x)\<rparr> else x)"
  "soft_row_le T x (if has_key T i x then x\<lparr>s_deleted_at := d\<rparr> else x)"
  by (auto simp: soft_row_le_def has_key_def)

lemma steps_backlog_writes:
  "steps lists_le (repo_CreateBacklog b)" "steps lists_le (repo_UpdateBacklog b)" "steps lists_le (repo_DeleteBacklog i)"
proof -
  note put = backlog_table_def
  have put_only: "\<exists>ys n. st_put backlog_table xs u = u\<lparr>backlog_rows := ys, next_backlog := n\<rparr>" for xs u
    by (intro exI [of _ xs] exI [of _ "next_backlog u"]) (simp add: put)
  have step_only: "\<exists>ys n. st_step backlog_table (st_put backlog_table xs u) = u\<lparr>backlog_rows := ys, next_backlog := n\<rparr>" for xs u
    by (intro exI [of _ xs] exI [of _ "next_backlog u + 1"]) (simp add: put)
  show "steps lists_le (repo_CreateBacklog b)"
    unfolding repo_CreateBacklog_def
    by (intro lists_le.soft_insert_from lists_le_backlog step_only backlogs.soft_wf_insert backlogs.soft_le_insert)
       (simp_all add: put)
  show "steps lists_le (repo_UpdateBacklog b)" "steps lists_le (repo_DeleteBacklog i)"
    unfolding repo_UpdateBacklog_def repo_DeleteBacklog_def
    by (intro lists_le.soft_update_from lists_le.soft_remove_from lists_le_backlog put_only
        backlogs.soft_wf_map backlogs.soft_le_map row_le_update; simp add: put)+
qed

lemma steps_target_writes:
  "steps lists_le (repo_CreateTarget t)" "steps lists_le (repo_UpdateTarget t)" "steps lists_le (repo_DeleteTarget i)"
proof -
  note put = target_table_def
  have put_only: "\<exists>ys n. st_put target_table xs u = u\<lparr>target_rows := ys, next_target := n\<rparr>" for xs u
    by (intro exI [of _ xs] exI [of _ "next_target u"]) (simp add: put)
  have step_only: "\<exists>ys n. st_step target_table (st_put target_table xs u) = u\<lparr>target_rows := ys, next_target := n\<rparr>" for xs u
    by (intro exI [of _ xs] exI [of _ "next_target u + 1"]) (simp add: put)
  show "steps lists_le (repo_CreateTarget t)"
    unfolding repo_CreateTarget_def
    by (intro lists_le.soft_insert_from lists_le_target step_only target_items.soft_wf_insert
        target_items.soft_le_insert) (simp_all add: put)
  show "steps lists_le (repo_UpdateTarget t)" "steps lists_le (repo_DeleteTarget i)"
    unfolding repo_UpdateTarget_def repo_DeleteTarget_def
    by (intro lists_le.soft_update_from lists_le.soft_remove_from lists_le_target put_only
        target_items.soft_wf_map target_items.soft_le_map row_le_update; simp add: put)+
qed

lemma steps_group_writes:
  "gr_Name g \<noteq> [] \<Longrightarrow> steps lists_le (repo_CreateTaskGroup g)"
  "gr_Name g \<noteq> [] \<Longrightarrow> steps lists_le (repo_UpdateTaskGroup g)"
  "steps lists_le (repo_DeleteTaskGroup i)"
proof -
  note put = group_table_def
  have put_only: "\<exists>ys n. st_put group_table xs u = u\<lparr>group_rows := ys, next_group := n\<rparr>" for xs u
    by (intro exI [of _ xs] exI [of _ "next_group u"]) (simp add: put)
  have step_only: "\<exists>ys n. st_step group_table (st_put group_table xs u) = u\<lparr>group_rows := ys, next_group := n\<rparr>" for xs u
    by (intro exI [of _ xs] exI [of _ "next_group u + 1"]) (simp add: put)
  show "steps lists_le (repo_CreateTaskGroup g)" if "gr_Name g \<noteq> []"
    unfolding repo_CreateTaskGroup_def
    by (intro lists_le.soft_insert_from lists_le_group step_only groups.soft_wf_insert groups.soft_le_insert)
       (use that in \<open>auto simp: put\<close>)
  show "steps lists_le (repo_UpdateTaskGroup g)" if "gr_Name g \<noteq> []"
    unfolding repo_UpdateTaskGroup_def
    by (intro lists_le.soft_update_from lists_le_group put_only groups.soft_wf_map groups.soft_le_map
        row_le_update; use that in \<open>auto simp: put\<close>)
  show "steps lists_le (repo_DeleteTaskGroup i)"
    unfolding repo_DeleteTaskGroup_def
    by (intro lists_le.soft_remove_from lists_le_group put_only groups.soft_wf_map groups.soft_le_map
        row_le_update; auto simp: put)
qed

text \<open>A group is updated under the name it has, which is not empty in a well-formed state.\<close>

lemma soft_get_run:
  assumes "soft_get T i missing failure u = (r, u')" and "\<And>fs. st_rows T (with_faults fs u) = st_rows T u"
  shows "\<exists>fs. u' = with_faults fs u" and "r = Ok y \<Longrightarrow> y \<in> set (live_items T u) \<and> st_key T y = i"
proof -
  have "(\<exists>fs. u' = with_faults fs u) \<and> (\<forall>y. r = Ok y \<longrightarrow> y \<in> set (live_items T u) \<and> st_key T y = i)"
    using assms(1) unfolding soft_get_def
  proof (cases rule: app_read_run)
    case (went fs)
    then show ?thesis
      by (cases "find (has_key T i) (st_rows T u)")
         (auto simp: assms(2) fail_def ret_def find_Some_iff has_key_def live_items_def)
  qed auto
  then show "\<exists>fs. u' = with_faults fs u" "r = Ok y \<Longrightarrow> y \<in> set (live_items T u) \<and> st_key T y = i"
    by auto
qed

lemma same_lists_faults: "same_lists u (with_faults fs u)"
  unfolding same_lists_def with_faults_def set_core_def by (intro exI) (rule refl)

lemma steps_update_group: "steps lists_le (UpdateTaskGroup F i r)"
proof (rule stepsI)
  fix u
  obtain r1 u1 where get: "repo_GetTaskGroupByID i u = (r1, u1)" by fastforce
  note run = soft_get_run [OF get [unfolded repo_GetTaskGroupByID_def]]
  have u1: "\<exists>fs. u1 = with_faults fs u" by (rule run(1)) (simp add: group_table_def)
  show "lists_le u (snd (UpdateTaskGroup F i r u))"
  proof (cases "lists_wf u")
    case True
    show ?thesis unfolding UpdateTaskGroup_def
    proof (rule lists_le.run_bindE [where m = "repo_GetTaskGroupByID i"], rule get)
      show "lists_le u u1" using u1 same_lists_faults same_lists_le by blast
      fix old assume "r1 = Ok old"
      then have "old \<in> set (live_items group_table u)" using run(2) by (simp add: group_table_def)
      then have "gr_Name old \<noteq> []"
        using True by (auto simp: lists_wf_def live_items_def group_table_def)
      then have name: "gru_Name r \<noteq> Some [] \<Longrightarrow> given (gru_Name r) (gr_Name old) \<noteq> []"
        by (auto simp: given_def split: option.split)
      have "steps lists_le (bindE (repo_UpdateTaskGroup g) (\<lambda>_. bindE (app_touch F (gr_UserID old)) (\<lambda>_. ret g)))"
        if "gr_Name g \<noteq> []" for g
        by (intro lists_le.steps_bindE steps_group_writes that lists_le.touch_steps lists_le.steps_ret)
      then show "lists_le u1 (snd ((if gru_Name r = Some [] then fail (ErrValidation ''name cannot be empty'')
          else let g = old\<lparr>gr_Name := given (gru_Name r) (gr_Name old)\<rparr> in
            bindE (repo_UpdateTaskGroup g) (\<lambda>_. bindE (app_touch F (gr_UserID old)) (\<lambda>_. ret g))) u1))"
        using name by (cases "gru_Name r = Some []") (simp_all add: steps_at lists_le.steps_fail Let_def)
    qed
  qed (simp add: lists_le_def)
qed

subsection \<open>Digest settings\<close>

lemma digests_wf_snoc:
  assumes wf: "digests_wf u" and ok: "digest_ok s" and new: "\<forall>d \<in> set (digest_rows u). digest_key d \<noteq> digest_key s"
    and rows: "digest_rows u' = digest_rows u @ [s\<lparr>ds_ID := next_digest u, ds_CreatedAt := a, ds_UpdatedAt := b\<rparr>]"
    and nxt: "next_digest u' = next_digest u + 1"
  shows "digests_wf u'"
proof -
  let ?s = "s\<lparr>ds_ID := next_digest u, ds_CreatedAt := a, ds_UpdatedAt := b\<rparr>"
  have "digest_ok ?s" "digest_key ?s = digest_key s" using ok by (simp_all add: digest_ok_def digest_key_def)
  moreover have "digest_key s \<notin> digest_key ` set (digest_rows u)" using new by force
  moreover have "next_digest u \<notin> ds_ID ` set (digest_rows u)" using wf by (auto simp: digests_wf_def)
  ultimately show ?thesis using wf by (auto simp: digests_wf_def rows nxt)
qed

lemma digest_create_at:
  assumes "digest_ok s" and "\<forall>d \<in> set (digest_rows u). digest_key d \<noteq> digest_key s"
  shows "lists_le u (snd (repo_CreateDigestSettings s u))"
proof -
  obtain r u' where run: "repo_CreateDigestSettings s u = (r, u')" by fastforce
  show ?thesis
  proof (cases rule: app_external_then [OF run [unfolded repo_CreateDigestSettings_def]])
    case (1 m fs)
    then show ?thesis using run by (simp add: same_lists_le same_lists_faults)
  next
    case (2 fs)
    let ?u = "with_faults fs u"
    have "u' = ?u \<or> u' = ?u\<lparr>digest_rows := digest_rows ?u @ [s\<lparr>ds_ID := next_digest ?u,
        ds_CreatedAt := clock (app_core u), ds_UpdatedAt := clock (app_core u)\<rparr>], next_digest := next_digest ?u + 1\<rparr>"
      using 2 by (auto split: if_splits)
    then have "lists_le ?u u'"
    proof
      assume u': "u' = ?u\<lparr>digest_rows := digest_rows ?u @ [s\<lparr>ds_ID := next_digest ?u,
        ds_CreatedAt := clock (app_core u), ds_UpdatedAt := clock (app_core u)\<rparr>], next_digest := next_digest ?u + 1\<rparr>"
      show ?thesis
      proof (rule lists_le_digests)
        assume "lists_wf ?u"
        then have "digests_wf ?u" by (simp add: lists_wf_def)
        then show "digests_wf u'" by (rule digests_wf_snoc [OF _ assms(1)]) (simp_all add: u' assms(2))
      qed (use u' in blast)
    qed (simp add: lists_le.run_refl)
    then show ?thesis
      using run lists_le_trans [OF same_lists_le [OF same_lists_faults]] by simp
  qed
qed

lemma check_clock_iff: "check_clock t = (if parse_clock t = None then fail (ErrValidation (error_text
    (ErrOther ''time must be in HH:MM format (e.g., 07:00, 10:00)''))) else ret ())"
  by (simp add: check_clock_def validateTimeFormat_def)

lemma same_lists_rows: "same_lists u u' \<Longrightarrow> digest_rows u' = digest_rows u"
  by (auto simp: same_lists_def)

lemma GetDigestSettings_run:
  assumes "GetDigestSettingsByUserID i c u = (r, u')"
  shows "same_lists u u'" and "r = Ok d \<Longrightarrow> d \<in> set (digest_rows u) \<and> digest_key d = (i, c)"
    and "r = Err e \<Longrightarrow> is_not_found e \<Longrightarrow> \<forall>d \<in> set (digest_rows u). digest_key d \<noteq> (i, c)"
  using app_find_run [OF assms [unfolded GetDigestSettingsByUserID_def digest_found_def]]
  by (auto simp: same_lists_faults)

lemma steps_create_digest: "steps lists_le (CreateDigestSettings F s)"
proof -
  let ?key = "GetDigestSettingsByUserID (ds_UserID s) (ds_MessengerRelatedUserID s)"
  have rest: "steps lists_le (bindE (attempt ?key) (\<lambda>r. case r of
      Inr _ \<Rightarrow> fail x
    | Inl e \<Rightarrow> if \<not> is_not_found e then fail e else bindE (repo_CreateDigestSettings s) k))"
    if ok: "digest_ok s" and k: "\<And>i. steps lists_le (k i)" for x and k :: "int \<Rightarrow> int aop"
  proof (rule stepsI)
    fix u
    obtain r1 u1 where get: "?key u = (r1, u1)" by fastforce
    note run = GetDigestSettings_run [OF get]
    show "lists_le u (snd (bindE (attempt ?key) (\<lambda>r. case r of
        Inr _ \<Rightarrow> fail x
      | Inl e \<Rightarrow> if \<not> is_not_found e then fail e else bindE (repo_CreateDigestSettings s) k) u))"
    proof (rule lists_le.run_attempt [where m = ?key], rule get, goal_cases)
      case 1
      then show ?case by (rule same_lists_le [OF run(1)])
    next
      case (2 d)
      then show ?case by (simp add: fail_def lists_le.run_refl)
    next
      case (3 e)
      show ?case
      proof (cases "is_not_found e")
        case True
        then have "\<forall>d \<in> set (digest_rows u1). digest_key d \<noteq> digest_key s"
          using run(3) [OF 3] same_lists_rows [OF run(1)] by (simp add: digest_key_def)
        then have "lists_le u1 (snd (repo_CreateDigestSettings s u1))" by (rule digest_create_at [OF ok])
        then have "lists_le u1 (snd (bindE (repo_CreateDigestSettings s) k u1))"
          using lists_le.run_bindE [where m = "repo_CreateDigestSettings s" and w = u1, OF prod.collapse [symmetric]]
            steps_at [OF k] by blast
        then show ?thesis using True by simp
      qed (simp add: fail_def lists_le.run_refl)
    qed
  qed
  have clocks: "steps lists_le (bindE (check_clock (ds_WeekdayTime s)) (\<lambda>_. bindE (check_clock (ds_WeekendTime s)) (\<lambda>_. m)))"
    if "digest_ok s \<Longrightarrow> steps lists_le m" for m :: "int aop"
    using that by (simp add: check_clock_iff digest_ok_def lists_le.steps_fail)
  show ?thesis
    unfolding CreateDigestSettings_def
    by (rule lists_le.steps_bindE, rule lists_le.account_reads, rule lists_le.steps_bindE,
        rule lists_le.account_reads, rule clocks, rule rest, assumption,
        intro lists_le.steps_bindE lists_le.tell_worker lists_le.touch_steps lists_le.steps_ret)
qed

lemma distinct_update:
  assumes "distinct (map id_of xs)" and "distinct (map k xs)"
    and "\<And>x. x \<in> set xs \<Longrightarrow> id_of x = i \<Longrightarrow> k (f x) = key'"
    and "\<And>x. x \<in> set xs \<Longrightarrow> id_of x \<noteq> i \<Longrightarrow> k x \<noteq> key'"
  shows "distinct (map k (map (\<lambda>x. if id_of x = i then f x else x) xs))"
  using assms by (induction xs) (auto simp: image_iff)

lemma digests_wf_update:
  assumes wf: "digests_wf u" and old: "old \<in> set (digest_rows u)" and ok: "digest_ok new"
    and new: "ds_ID new = ds_ID old" "ds_UserID new = ds_UserID old"
    and keep: "ds_MessengerRelatedUserID new = None \<Longrightarrow> ds_MessengerRelatedUserID old = None"
    and free: "\<not> digest_conflict (digest_key new) (filter (\<lambda>x. ds_ID x \<noteq> ds_ID new) (digest_rows u))"
    and rows: "digest_rows u' = map (\<lambda>d. if ds_ID d = ds_ID new then digest_columns new now d else d) (digest_rows u)"
    and nxt: "next_digest u' = next_digest u"
  shows "digests_wf u'"
proof -
  have one: "d = old" if "d \<in> set (digest_rows u)" "ds_ID d = ds_ID new" for d
    using that old new wf by (auto simp: digests_wf_def distinct_map dest: inj_onD)
  have key: "digest_key (digest_columns new now d) = digest_key new" if "d \<in> set (digest_rows u)" "ds_ID d = ds_ID new" for d
    using one [OF that] new by (simp add: digest_columns_def digest_key_def)
  have other: "digest_key d \<noteq> digest_key new" if d: "d \<in> set (digest_rows u)" "ds_ID d \<noteq> ds_ID new" for d
  proof (cases "ds_MessengerRelatedUserID new")
    case None
    then have "digest_key new = digest_key old" using keep new by (simp add: digest_key_def)
    moreover have "d \<noteq> old" using d new by auto
    ultimately show ?thesis using wf d old by (auto simp: digests_wf_def distinct_map dest: inj_onD)
  next
    case (Some c)
    then show ?thesis using free d by (auto simp: digest_conflict_def digest_key_def list_ex_iff)
  qed
  have ids: "map ds_ID (digest_rows u') = map ds_ID (digest_rows u)"
    by (simp add: rows digest_columns_def)
  have "distinct (map digest_key (digest_rows u'))"
    unfolding rows using wf key other by (intro distinct_update [where key' = "digest_key new"]) (auto simp: digests_wf_def)
  moreover have "\<forall>d \<in> set (digest_rows u'). digest_ok d"
    using wf ok by (auto simp: rows digests_wf_def digest_ok_def digest_columns_def)
  moreover have "\<forall>d \<in> set (digest_rows u'). ds_ID d < next_digest u'"
  proof -
    have "\<forall>i \<in> set (map ds_ID (digest_rows u')). i < next_digest u'"
      unfolding ids nxt using wf by (simp add: digests_wf_def)
    then show ?thesis by simp
  qed
  moreover have "distinct (map ds_ID (digest_rows u'))" unfolding ids using wf by (simp add: digests_wf_def)
  ultimately show ?thesis by (simp add: digests_wf_def)
qed

lemma digest_update_at:
  assumes old: "old \<in> set (digest_rows u)" and ok: "digest_ok old \<Longrightarrow> digest_ok new"
    and new: "ds_ID new = ds_ID old" "ds_UserID new = ds_UserID old"
    and keep: "ds_MessengerRelatedUserID new = None \<Longrightarrow> ds_MessengerRelatedUserID old = None"
  shows "lists_le u (snd (repo_UpdateDigestSettings new u))"
proof -
  let ?f = "\<lambda>now d. if ds_ID d = ds_ID new then digest_columns new now d else d"
  let ?upd = "\<lambda>now u. if list_ex (\<lambda>d. ds_ID d = ds_ID new \<and>
            digest_conflict (digest_key (digest_columns new now d))
              (filter (\<lambda>x. ds_ID x \<noteq> ds_ID new) (digest_rows u))) (digest_rows u)
       then (Err (ErrOther ''failed to execute update query for digest settings: unique''), u)
       else (Ok (), u\<lparr>digest_rows := map (?f now) (digest_rows u)\<rparr>)"
  have at_rows: "lists_le v (snd (?upd now v))" if rows: "digest_rows v = digest_rows u" for v now
  proof (cases "list_ex (\<lambda>d. ds_ID d = ds_ID new \<and> digest_conflict (digest_key (digest_columns new now d))
              (filter (\<lambda>x. ds_ID x \<noteq> ds_ID new) (digest_rows v))) (digest_rows v)")
    case False
    have "digest_key (digest_columns new now old) = digest_key new"
      using new by (simp add: digest_columns_def digest_key_def)
    then have free: "\<not> digest_conflict (digest_key new) (filter (\<lambda>x. ds_ID x \<noteq> ds_ID new) (digest_rows v))"
      using False old new by (auto simp: rows list_ex_iff)
    have "lists_le v (v\<lparr>digest_rows := map (?f now) (digest_rows v)\<rparr>)"
    proof (rule lists_le_digests)
      assume "lists_wf v"
      then have wf: "digests_wf v" by (simp add: lists_wf_def)
      then have okn: "digest_ok new" using old ok by (auto simp: digests_wf_def rows)
      show "digests_wf (v\<lparr>digest_rows := map (?f now) (digest_rows v)\<rparr>)"
      proof (rule digests_wf_update [where now = now, OF wf _ okn new keep free])
        show "old \<in> set (digest_rows v)" using old by (simp only: rows)
      qed simp_all
    next
      show "\<exists>ds n. v\<lparr>digest_rows := map (?f now) (digest_rows v)\<rparr> = v\<lparr>digest_rows := ds, next_digest := n\<rparr>"
        by (intro exI [of _ "map (?f now) (digest_rows v)"] exI [of _ "next_digest v"]) simp
    qed
    then show ?thesis using False by simp
  qed (simp add: lists_le.run_refl)
  show ?thesis unfolding repo_UpdateDigestSettings_def
  proof (rule lists_le.run_at, goal_cases)
    case 1
    show ?case by (rule steps_at) (intro lists_le.in_cal any_cal.in_core anything.time_Now)
  next
    case (2 now)
    have same: "same_lists u (snd (app_now u))"
      by (rule steps_at) (intro same_lists.in_cal any_cal.in_core anything.time_Now)
    show ?case
    proof (rule lists_le.run_at, goal_cases)
      case 1
      show ?case by (rule steps_at) (intro lists_le.in_cal any_cal.in_core anything.external)
    next
      case (2 x)
      have "same_lists (snd (app_now u)) (snd (app_external msg (snd (app_now u))))" for msg
        by (rule steps_at) (intro same_lists.in_cal any_cal.in_core anything.external)
      then have "digest_rows (snd (app_external msg (snd (app_now u)))) = digest_rows u" for msg
        using same_lists_rows same by metis
      then show ?case by (rule at_rows)
    qed
  qed
qed

definition given_clock_ok :: "string option \<Rightarrow> bool" where
  "given_clock_ok t \<longleftrightarrow> (case t of None \<Rightarrow> True | Some s \<Rightarrow> parse_clock s \<noteq> None)"

lemma check_given_clock_fails: "\<not> given_clock_ok t \<Longrightarrow> \<exists>e. check_given_clock t = fail e"
  by (auto simp: given_clock_ok_def check_given_clock_def check_clock_iff split: option.splits)

lemma check_given_clock_ok: "given_clock_ok t \<Longrightarrow> check_given_clock t = ret ()"
  by (auto simp: given_clock_ok_def check_given_clock_def check_clock_iff split: option.splits)

lemma changed_digest_ok:
  "given_clock_ok (dsu_WeekdayTime r) \<Longrightarrow> given_clock_ok (dsu_WeekendTime r) \<Longrightarrow> digest_ok d \<Longrightarrow>
     digest_ok (changed_digest r d)"
  by (auto simp: given_clock_ok_def digest_ok_def changed_digest_def given_def split: option.splits)

lemma steps_update_digest: "steps lists_le (UpdateDigestSettings F i c r)"
proof (rule stepsI)
  fix u
  obtain r1 u1 where get: "GetDigestSettingsByUserID i c u = (r1, u1)" by fastforce
  note run = GetDigestSettings_run [OF get]
  show "lists_le u (snd (UpdateDigestSettings F i c r u))"
    unfolding UpdateDigestSettings_def
  proof (rule lists_le.run_bindE [where m = "GetDigestSettingsByUserID i c"], rule get, goal_cases)
    case 1
    then show ?case by (rule same_lists_le [OF run(1)])
  next
    case (2 old)
    show ?case
    proof (cases "given_clock_ok (dsu_WeekdayTime r) \<and> given_clock_ok (dsu_WeekendTime r)")
      case True
      let ?v = "snd (check_chat (dsu_MessengerRelatedUserID r) u1)" and ?new = "changed_digest r old"
      have "same_lists u1 ?v" by (rule steps_at) (rule same_lists.account_reads)
      then have rows: "digest_rows ?v = digest_rows u1" by (rule same_lists_rows)
      have upd: "lists_le ?v (snd (repo_UpdateDigestSettings ?new ?v))"
      proof (rule digest_update_at [where old = old])
        show "old \<in> set (digest_rows ?v)" using run(2) [OF 2] same_lists_rows [OF run(1)] rows by simp
        show "digest_ok old \<Longrightarrow> digest_ok ?new" using True changed_digest_ok by blast
      qed (auto simp: changed_digest_def given_ptr_def split: option.splits)
      have upd: "lists_le ?v (snd (bindE (repo_UpdateDigestSettings ?new) k ?v))"
        if "\<And>x. steps lists_le (k x)" for k :: "unit \<Rightarrow> digest_settings aop"
        using upd steps_at [OF that] by (rule lists_le.run_at)
      have "lists_le u1 (snd (bindE (check_chat (dsu_MessengerRelatedUserID r))
          (\<lambda>_. bindE (repo_UpdateDigestSettings ?new) k) u1))"
        if "\<And>x. steps lists_le (k x)" for k :: "unit \<Rightarrow> digest_settings aop"
        by (rule lists_le.run_at)
           (rule steps_at, rule lists_le.account_reads, rule upd, rule that)
      then show ?thesis
        using True by (simp add: check_given_clock_ok Let_def lists_le.steps_bindE lists_le.tell_worker
          lists_le.touch_steps lists_le.steps_ret)
    next
      case False
      have "steps lists_le (bindE (check_given_clock (dsu_WeekdayTime r)) (\<lambda>_.
          bindE (check_given_clock (dsu_WeekendTime r)) (\<lambda>_. m)))" for m :: "digest_settings aop"
      proof (cases "given_clock_ok (dsu_WeekdayTime r)")
        case True
        then have "\<not> given_clock_ok (dsu_WeekendTime r)" using False by simp
        then show ?thesis using True
          by (auto dest!: check_given_clock_fails simp: check_given_clock_ok lists_le.steps_fail)
      qed (auto dest!: check_given_clock_fails simp: lists_le.steps_fail)
      then show ?thesis by (rule steps_at)
    qed
  qed
qed

lemma steps_delete_digest: "steps lists_le (repo_DeleteDigestSettings i c)"
proof -
  have "lists_le u (u\<lparr>digest_rows := filter P (digest_rows u)\<rparr>)" for u P
  proof (rule lists_le_digests)
    show "digests_wf (u\<lparr>digest_rows := filter P (digest_rows u)\<rparr>)" if "lists_wf u"
      using that by (auto simp: lists_wf_def digests_wf_def distinct_map_filter)
    show "\<exists>ds n. u\<lparr>digest_rows := filter P (digest_rows u)\<rparr> = u\<lparr>digest_rows := ds, next_digest := n\<rparr>"
      by (intro exI [of _ "filter P (digest_rows u)"] exI [of _ "next_digest u"]) simp
  qed
  then show ?thesis
    unfolding repo_DeleteDigestSettings_def
    by (intro lists_le.steps_bindE lists_le.in_cal any_cal.in_core anything.external stepsI)
       (simp add: lists_le.run_refl)
qed

text \<open>Users, messengers and chats are not in these tables.\<close>

lemma lists_le_people:
  "lists_le u (set_core f u)" "lists_le u ((set_core f u)\<lparr>next_user := n\<rparr>)"
  "lists_le u ((set_core f u)\<lparr>next_messenger := n\<rparr>)" "lists_le u ((set_core f u)\<lparr>next_chat := n\<rparr>)"
  "lists_le u (u\<lparr>user_purges := ps\<rparr>)"
  by (auto simp: lists_le_def lists_wf_def soft_wf_def soft_le_def digests_wf_def grows_refl set_core_def
      backlog_table_def target_table_def group_table_def)

lemma steps_lists_people:
  "steps lists_le (repo_CreateUser x)" "steps lists_le (repo_UpdateUser x)" "steps lists_le (repo_DeleteUser i)"
  "steps lists_le (repo_CreateMessenger m)" "steps lists_le (repo_CreateMessengerRelatedUser c)"
  "steps lists_le (DeleteMessengerRelatedUserByUserID i)" "steps lists_le (PurgeByUser i)"
  unfolding repo_CreateUser_def repo_UpdateUser_def repo_DeleteUser_def repo_CreateMessenger_def
    repo_CreateMessengerRelatedUser_def DeleteMessengerRelatedUserByUserID_def PurgeByUser_def
  by (intro lists_le.steps_bindE lists_le.in_cal any_cal.in_core anything.external anything.time_Now
      lists_le.steps_modify stepsI; simp add: lists_le_people lists_le.run_refl)+

interpretation lists_le: app_run lists_le any_cal anything F
proof
  show "steps anything (handle S q)" for S q by (simp add: steps_def)
  show "steps lists_le (CreateUser F x)" for x by (intro lists_le.CreateUser_from steps_lists_people)
  show "steps lists_le (bindE (DeleteMessengerRelatedUserByUserID i) (\<lambda>_. repo_DeleteUser i))" for i
    by (intro lists_le.drop_user_from steps_lists_people)
  show "steps lists_le (CreateMessengerRelatedUser F c)" for c
    by (intro lists_le.CreateChat_from steps_lists_people)
qed (simp_all add: steps_lists_people steps_backlog_writes steps_target_writes steps_group_writes
    steps_update_group steps_create_digest steps_update_digest steps_delete_digest)

end
