(* ===== verification/App_Users.thy ===== *)
theory App_Users
  imports App_Invariant
begin

text \<open>
  Users, messengers and chats across every request of the application: identifiers are unique, a chat
  names a user and a messenger there are, and a chat that is not deleted belongs to a user who is not
  deleted (\<open>people_wf\<close>); nothing is dropped and nothing comes back to life (\<open>people_grow\<close>); the limit
  of users is kept (\<open>within_limit\<close>).  A deletion of a user is two statements, chats first; the chats
  of a user are checked against the users before they are stored.  Both are followed one run at a time.
\<close>

subsection \<open>The invariant\<close>

definition user_ids :: "world \<Rightarrow> (int \<times> bool) list" where
  "user_ids w = map (\<lambda>x. (user_ID (ur_user x), user_live x)) (users w)"

definition chat_placed :: "world \<Rightarrow> user_messenger_row \<Rightarrow> bool" where
  "chat_placed w c \<longleftrightarrow>
     (\<exists>i l m. mru_UserID (um_related c) = Some i \<and> (i, l) \<in> set (user_ids w) \<and> (um_deleted c \<or> l) \<and>
        mru_MessengerID (um_related c) = Some (m_ID m) \<and> m \<in> set (messengers w))"

definition users_wf :: "app_world \<Rightarrow> bool" where
  "users_wf u \<longleftrightarrow> distinct (map fst (user_ids (app_core u))) \<and> (\<forall>x \<in> set (user_ids (app_core u)). fst x < next_user u)"

definition messengers_wf :: "app_world \<Rightarrow> bool" where
  "messengers_wf u \<longleftrightarrow> distinct (map m_ID (messengers (app_core u))) \<and> distinct (map m_Name (messengers (app_core u))) \<and>
     (\<forall>m \<in> set (messengers (app_core u)). m_ID m < next_messenger u)"

definition chats_wf :: "app_world \<Rightarrow> bool" where
  "chats_wf u \<longleftrightarrow> distinct (map (mru_ID \<circ> um_related) (user_messengers (app_core u))) \<and>
     distinct (map (chat_key \<circ> um_related) (user_messengers (app_core u))) \<and>
     (\<forall>c \<in> set (user_messengers (app_core u)). mru_ID (um_related c) < next_chat u \<and> chat_placed (app_core u) c)"

definition people_wf :: "app_world \<Rightarrow> bool" where
  "people_wf u \<longleftrightarrow> users_wf u \<and> messengers_wf u \<and> chats_wf u"

text \<open>A user keeps the identifier, a deleted user stays deleted; a chat is never changed but marked.\<close>

definition id_le :: "int \<times> bool \<Rightarrow> int \<times> bool \<Rightarrow> bool" where
  "id_le x y \<longleftrightarrow> fst y = fst x \<and> (snd y \<longrightarrow> snd x)"

definition chat_le :: "user_messenger_row \<Rightarrow> user_messenger_row \<Rightarrow> bool" where
  "chat_le c d \<longleftrightarrow> um_related d = um_related c \<and> (um_deleted c \<longrightarrow> um_deleted d)"

definition people_grow :: "app_world \<Rightarrow> app_world \<Rightarrow> bool" where
  "people_grow u u' \<longleftrightarrow> (people_wf u \<longrightarrow> people_wf u' \<and>
     grows id_le (user_ids (app_core u)) (user_ids (app_core u')) \<and>
     grows chat_le (user_messengers (app_core u)) (user_messengers (app_core u')) \<and>
     grows (=) (messengers (app_core u)) (messengers (app_core u')))"

text \<open>Two states with the same accounts; what the task service does leaves them alone.\<close>

definition same_people :: "app_world \<Rightarrow> app_world \<Rightarrow> bool" where
  "same_people u u' \<longleftrightarrow> user_ids (app_core u') = user_ids (app_core u) \<and>
     messengers (app_core u') = messengers (app_core u) \<and>
     user_messengers (app_core u') = user_messengers (app_core u) \<and>
     next_user u' = next_user u \<and> next_messenger u' = next_messenger u \<and> next_chat u' = next_chat u"

lemma people_le_ids: "people_le w w' \<Longrightarrow> user_ids w' = user_ids w"
  unfolding people_le_def user_ids_def
  by (auto simp: list_all2_conv_all_nth activity_le_def touched_def user_live_def intro!: nth_equalityI)

interpretation same_people: app_tasks same_people cal_people people_le
proof
  show "same_people u u" for u by (simp add: same_people_def)
  show "same_people u w" if "same_people u v" "same_people v w" for u v w
    using that by (simp add: same_people_def)
  show "same_people u (u\<lparr>cal := v\<rparr>)" if "cal_people (cal u) v" for u v
    using that people_le_ids [of "app_core u" "core v"]
    by (simp add: same_people_def cal_people_def people_le_def)
qed

lemma chat_placed_same:
  "user_ids w' = user_ids w \<Longrightarrow> messengers w' = messengers w \<Longrightarrow> chat_placed w' c = chat_placed w c"
  by (simp add: chat_placed_def)

lemma same_people_wf: "same_people u u' \<Longrightarrow> people_wf u' = people_wf u"
  using chat_placed_same [of "app_core u'" "app_core u"]
  by (simp add: same_people_def people_wf_def users_wf_def messengers_wf_def chats_wf_def)

lemma id_le_refl [simp]: "id_le x x" and chat_le_refl [simp]: "chat_le c c"
  by (simp_all add: id_le_def chat_le_def)

lemma same_people_grow: "same_people u u' \<Longrightarrow> people_grow u u'"
  using same_people_wf [of u u'] by (simp add: same_people_def people_grow_def grows_refl)

lemma people_grow_trans: "people_grow u v \<Longrightarrow> people_grow v w \<Longrightarrow> people_grow u w"
proof -
  have ids: "grows id_le xs ys \<Longrightarrow> grows id_le ys zs \<Longrightarrow> grows id_le xs zs" for xs ys zs
    by (rule grows_trans [of id_le]) (auto simp: id_le_def)
  have chats: "grows chat_le xs ys \<Longrightarrow> grows chat_le ys zs \<Longrightarrow> grows chat_le xs zs" for xs ys zs
    by (rule grows_trans [of chat_le]) (auto simp: chat_le_def)
  have rows: "grows (=) xs ys \<Longrightarrow> grows (=) ys zs \<Longrightarrow> grows (=) xs zs" for xs ys zs :: "messenger list"
    by (rule grows_trans [of "(=)"]) auto
  assume "people_grow u v" "people_grow v w"
  then show ?thesis unfolding people_grow_def by (metis ids chats rows)
qed

interpretation people_grow: app_tasks people_grow cal_people people_le
proof
  show "people_grow u u" for u by (rule same_people_grow [OF same_people.run_refl])
  show "people_grow u w" if "people_grow u v" "people_grow v w" for u v w using that by (rule people_grow_trans)
  show "people_grow u (u\<lparr>cal := v\<rparr>)" if "cal_people (cal u) v" for u v
    using that by (intro same_people_grow same_people.on_cal)
qed

subsection \<open>One statement\<close>

text \<open>The time is read, the statement is sent, the rows change.\<close>

lemma people_stamped:
  assumes "\<And>v. same_people u v \<Longrightarrow> people_grow v (f v)"
  shows "people_grow u (snd (bindE app_now (\<lambda>_. bindE (app_external msg) (\<lambda>_. modify f)) u))"
proof -
  let ?v = "snd (app_now u)"
  let ?w = "snd (app_external msg ?v)"
  note reads = same_people.in_cal cal_people.in_core people_le.external people_le.time_Now
  have v: "same_people u ?v" and w: "same_people ?v ?w" by (rule steps_at, intro reads)+
  show ?thesis
    by (intro people_grow.run_at same_people_grow [OF v] same_people_grow [OF w])
       (simp add: modify_def assms same_people.run_trans [OF v w])
qed

lemma people_inserted:
  assumes "\<And>v. same_people u v \<Longrightarrow> people_grow v (snd (f v))"
  shows "people_grow u (snd (bindE (app_external msg) (\<lambda>_. f) u))"
proof -
  let ?v = "snd (app_external msg u)"
  have v: "same_people u ?v" by (rule steps_at, intro same_people.in_cal cal_people.in_core people_le.external)
  show ?thesis
    by (intro people_grow.run_at same_people_grow [OF v] assms [OF v])
qed

lemma set_core_simps [simp]:
  "app_core (set_core f u) = f (app_core u)" "next_user (set_core f u) = next_user u"
  "next_messenger (set_core f u) = next_messenger u" "next_chat (set_core f u) = next_chat u"
  by (simp_all add: set_core_def)

subsection \<open>Users\<close>

lemma steps_grow_create_user: "steps people_grow (repo_CreateUser x)"
  unfolding repo_CreateUser_def
proof (rule stepsI, rule people_inserted)
  fix v :: app_world
  let ?u' = "(set_core (\<lambda>w. w\<lparr>users := users w @ [\<lparr>ur_user = x\<lparr>user_ID := next_user v, user_CreatedAt := clock w,
    user_DeletedAt := 0, user_LastActivityAt := None\<rparr>, ur_deleted = False\<rparr>]\<rparr>) v)\<lparr>next_user := next_user v + 1\<rparr>"
  have ids: "user_ids (app_core ?u') = user_ids (app_core v) @ [(next_user v, True)]"
    by (simp add: user_ids_def user_live_def)
  have "users_wf v \<Longrightarrow> users_wf ?u'"
    unfolding users_wf_def ids by auto
  moreover have "messengers_wf v \<Longrightarrow> messengers_wf ?u'"
    by (simp add: messengers_wf_def)
  moreover have "chat_placed (app_core v) c \<Longrightarrow> chat_placed (app_core ?u') c" for c
    unfolding chat_placed_def ids by (simp, blast)
  then have "chats_wf v \<Longrightarrow> chats_wf ?u'" unfolding chats_wf_def by simp
  moreover have "grows id_le (user_ids (app_core v)) (user_ids (app_core ?u'))"
    unfolding ids by (rule grows_snoc) simp
  ultimately show "people_grow v (snd (Ok (next_user v), ?u'))"
    by (simp add: people_grow_def people_wf_def grows_refl)
qed

lemma user_ids_map_user:
  "user_ids (map_user i f w) = map (\<lambda>x. if user_live x \<and> user_ID (ur_user x) = i
     then (user_ID (ur_user (f x)), user_live (f x)) else (user_ID (ur_user x), user_live x)) (users w)"
  by (simp add: user_ids_def map_user_def)

lemma steps_grow_update_user: "steps people_grow (repo_UpdateUser x)"
proof -
  have "user_ids (map_user i (\<lambda>y. y\<lparr>ur_user := user_columns x (ur_user y)\<rparr>) w) = user_ids w" for i w
    unfolding user_ids_map_user unfolding user_ids_def
    by (rule map_cong) (simp_all add: user_columns_def user_live_def)
  then show ?thesis unfolding repo_UpdateUser_def
    by (intro stepsI people_stamped same_people_grow)
       (simp add: same_people_def, simp add: map_user_def)
qed

text \<open>Chats are marked for a user at any time; the user only once there is no chat left.\<close>

definition chatless :: "int \<Rightarrow> app_world \<Rightarrow> bool" where
  "chatless i u \<longleftrightarrow> (\<forall>c \<in> set (user_messengers (app_core u)). um_deleted c \<or> mru_UserID (um_related c) \<noteq> Some i)"

lemma drop_chats_grow: "people_grow u (set_core (drop_chats i) u)"
proof -
  define f where "f = (\<lambda>x :: user_messenger_row. if \<not> um_deleted x \<and> mru_UserID (um_related x) = Some i then x\<lparr>um_deleted := True\<rparr> else x)"
  have same: "users (drop_chats i w) = users w" "messengers (drop_chats i w) = messengers w"
    "user_messengers (drop_chats i w) = map f (user_messengers w)" for w
    by (simp_all add: drop_chats_def f_def)
  have related: "um_related (f c) = um_related c" for c by (simp add: f_def)
  have ids: "user_ids (drop_chats i w) = user_ids w" for w by (simp add: user_ids_def same)
  have "chat_placed w c \<Longrightarrow> chat_placed (drop_chats i w) (f c)" for w c
    unfolding chat_placed_def ids same by (auto simp: f_def)
  then have "chats_wf u \<Longrightarrow> chats_wf (set_core (drop_chats i) u)"
    by (simp add: chats_wf_def same comp_def related)
  moreover have "grows chat_le (user_messengers (app_core u)) (map f (user_messengers (app_core u)))"
    by (rule grows_map) (simp add: chat_le_def f_def)
  ultimately show ?thesis
    by (simp add: people_grow_def people_wf_def users_wf_def messengers_wf_def ids same grows_refl)
qed

lemma drop_user_grow:
  assumes "chatless i u" shows "people_grow u (set_core (map_user i (\<lambda>x. x\<lparr>ur_deleted := True\<rparr>)) u)"
proof -
  let ?w = "map_user i (\<lambda>x. x\<lparr>ur_deleted := True\<rparr>) (app_core u)"
  let ?g = "\<lambda>y. if fst y = i then (i, False) else y"
  have ids: "user_ids ?w = map ?g (user_ids (app_core u))"
    unfolding user_ids_map_user unfolding user_ids_def
    by (auto simp: user_live_def)
  have same: "messengers ?w = messengers (app_core u)" "user_messengers ?w = user_messengers (app_core u)"
    by (simp_all add: map_user_def)
  have fst: "map fst (user_ids ?w) = map fst (user_ids (app_core u))" by (simp add: ids)
  have "users_wf u \<Longrightarrow> users_wf (set_core (map_user i (\<lambda>x. x\<lparr>ur_deleted := True\<rparr>)) u)"
    unfolding users_wf_def set_core_simps fst by (auto simp: ids)
  moreover have placed: "chat_placed ?w c" if c: "c \<in> set (user_messengers (app_core u))" "chat_placed (app_core u) c" for c
  proof -
    obtain j l m where j: "mru_UserID (um_related c) = Some j" "(j, l) \<in> set (user_ids (app_core u))" "um_deleted c \<or> l"
        "mru_MessengerID (um_related c) = Some (m_ID m)" "m \<in> set (messengers (app_core u))"
      using c(2) unfolding chat_placed_def by blast
    have "?g (j, l) \<in> set (user_ids ?w)" using j(2) unfolding ids set_map by (rule imageI)
    moreover have "um_deleted c \<or> j \<noteq> i" using assms c(1) j(1) by (auto simp: chatless_def)
    ultimately have "\<exists>l'. (j, l') \<in> set (user_ids ?w) \<and> (um_deleted c \<or> l')"
      using j(3) by (cases "j = i") auto
    then show ?thesis using j unfolding chat_placed_def same by blast
  qed
  ultimately show ?thesis
    by (auto simp: people_grow_def people_wf_def chats_wf_def messengers_wf_def same ids grows_refl id_le_def
        intro!: grows_map)
qed

lemma steps_grow_drop_user:
  "steps people_grow (bindE (DeleteMessengerRelatedUserByUserID i) (\<lambda>_. repo_DeleteUser i))"
proof (rule stepsI)
  fix u
  obtain r u1 where run: "DeleteMessengerRelatedUserByUserID i u = (r, u1)" by fastforce
  show "people_grow u (snd (bindE (DeleteMessengerRelatedUserByUserID i) (\<lambda>_. repo_DeleteUser i) u))"
  proof (rule people_grow.run_bindE, rule run)
    have "people_grow u (snd (DeleteMessengerRelatedUserByUserID i u))"
      unfolding DeleteMessengerRelatedUserByUserID_def by (intro people_stamped drop_chats_grow)
    then show "people_grow u u1" by (simp add: run)
  next
    fix x assume "r = Ok x"
    with run obtain v where "u1 = set_core (drop_chats i) v"
      unfolding DeleteMessengerRelatedUserByUserID_def
      by (auto elim!: bindE_OkE simp: modify_def)
    then have "chatless i u1" by (auto simp: chatless_def drop_chats_def)
    then have "chatless i v" if "same_people u1 v" for v using that by (simp add: chatless_def same_people_def)
    then show "people_grow u1 (snd (repo_DeleteUser i u1))"
      unfolding repo_DeleteUser_def by (intro people_stamped drop_user_grow)
  qed
qed

subsection \<open>Messengers and chats\<close>

lemma steps_grow_create_messenger: "steps people_grow (repo_CreateMessenger m)"
  unfolding repo_CreateMessenger_def
proof (rule stepsI, rule people_inserted)
  fix v :: app_world
  let ?new = "m\<lparr>m_ID := next_messenger v, m_CreatedAt := clock (app_core v)\<rparr>"
  let ?u' = "(set_core (\<lambda>w. w\<lparr>messengers := messengers w @
      [m\<lparr>m_ID := next_messenger v, m_CreatedAt := clock w\<rparr>]\<rparr>) v)\<lparr>next_messenger := next_messenger v + 1\<rparr>"
  show "people_grow v (snd (if list_ex (\<lambda>x. m_Name x = m_Name m) (messengers (app_core v))
      then (Err (ErrOther ''failed to insert messenger: unique''), v) else (Ok (next_messenger v), ?u')))"
  proof (cases "list_ex (\<lambda>x. m_Name x = m_Name m) (messengers (app_core v))")
    case False
    have ids: "user_ids (app_core ?u') = user_ids (app_core v)" by (simp add: user_ids_def)
    have "messengers_wf v \<Longrightarrow> messengers_wf ?u'"
      using False by (auto simp: messengers_wf_def list_ex_iff)
    moreover have "chat_placed (app_core v) c \<Longrightarrow> chat_placed (app_core ?u') c" for c
      unfolding chat_placed_def ids by (simp, blast)
    then have "chats_wf v \<Longrightarrow> chats_wf ?u'" unfolding chats_wf_def by simp
    moreover have "users_wf v \<Longrightarrow> users_wf ?u'" unfolding users_wf_def ids by simp
    ultimately show ?thesis
      using False by (simp add: people_grow_def people_wf_def grows_refl grows_snoc user_ids_def)
  qed (simp add: people_grow.run_refl)
qed

lemma GetUserByID_Ok: "GetUserByID i w = (Ok x, w') \<Longrightarrow> (i, True) \<in> set (user_ids w)"
  unfolding GetUserByID_def
  by (cases rule: external_cases [of "''failed to get user by id''" w])
     (auto simp: bindE_def gets_def user_ids_def user_live_def find_Some_iff fail_def ret_def image_iff
       split: option.splits, blast?)

lemma GetMessengerByID_Ok: "GetMessengerByID i w = (Ok x, w') \<Longrightarrow> \<exists>m \<in> set (messengers w). m_ID m = i"
  unfolding GetMessengerByID_def
  by (cases rule: external_cases [of "''failed to get messenger by id''" w])
     (auto simp: bindE_def gets_def find_Some_iff fail_def ret_def split: option.splits)

lemma missing_is_unprocessable_Ok: "missing_is_unprocessable m u = (Ok x, u') \<Longrightarrow> m u = (Ok x, u')"
  by (auto simp: missing_is_unprocessable_def map_err_def split: prod.splits outcome.splits)

lemma in_task_Ok: "in_task m u = (Ok x, u') \<Longrightarrow> \<exists>w'. m (app_core u) = (Ok x, w')"
  by (auto simp: in_cal_def in_core_def split: prod.splits) (metis prod.collapse)+

lemma check_user_Ok: "check_user i u = (Ok x, u') \<Longrightarrow> (i, True) \<in> set (user_ids (app_core u))"
  unfolding check_user_def by (auto elim!: bindE_OkE dest!: missing_is_unprocessable_Ok in_task_Ok GetUserByID_Ok)

lemma check_messenger_Ok:
  "missing_is_unprocessable (GetMessenger i) u = (Ok x, u') \<Longrightarrow> \<exists>m \<in> set (messengers (app_core u)). m_ID m = i"
  unfolding GetMessenger_def by (auto dest!: missing_is_unprocessable_Ok in_task_Ok GetMessengerByID_Ok)

lemma create_chat_grow:
  assumes "mru_UserID m = Some i" "(i, True) \<in> set (user_ids (app_core u))"
    and "mru_MessengerID m = Some j" "x \<in> set (messengers (app_core u))" "m_ID x = j"
  shows "people_grow u (snd (repo_CreateMessengerRelatedUser m u))"
  unfolding repo_CreateMessengerRelatedUser_def
proof (rule people_inserted)
  fix v assume uv: "same_people u v"
  let ?u' = "(set_core (\<lambda>w. w\<lparr>user_messengers := user_messengers w @ [\<lparr>um_related = m\<lparr>mru_ID := next_chat v,
      mru_CreatedAt := clock w, mru_UpdatedAt := None\<rparr>, um_deleted = False\<rparr>]\<rparr>) v)\<lparr>next_chat := next_chat v + 1\<rparr>"
  show "people_grow v (snd (if chat_rejected m (app_core v)
      then (Err (ErrOther ''failed to insert messenger-related user: constraint''), v) else (Ok (next_chat v), ?u')))"
  proof (cases "chat_rejected m (app_core v)")
    case False
    have ids: "user_ids (app_core ?u') = user_ids (app_core v)" by (simp add: user_ids_def)
    have placed: "chat_placed (app_core ?u') c \<longleftrightarrow> chat_placed (app_core v) c" for c
      by (rule chat_placed_same [OF ids]) simp
    have new: "chat_placed (app_core v) \<lparr>um_related = m\<lparr>mru_ID := a, mru_CreatedAt := b, mru_UpdatedAt := c\<rparr>,
        um_deleted = False\<rparr>" for a b c
      unfolding chat_placed_def using assms uv by (auto simp: same_people_def)
    have key: "chat_key m \<notin> (chat_key \<circ> um_related) ` set (user_messengers (app_core v))"
      using False by (auto simp: chat_rejected_def list_ex_iff)
    have [simp]: "chat_key (m\<lparr>mru_ID := a, mru_CreatedAt := b, mru_UpdatedAt := c\<rparr>) = chat_key m" for a b c
      by (simp add: chat_key_def)
    have "chats_wf v \<Longrightarrow> chats_wf ?u'"
      using key new unfolding chats_wf_def placed by auto
    moreover have "users_wf v \<Longrightarrow> users_wf ?u'" "messengers_wf v \<Longrightarrow> messengers_wf ?u'"
      unfolding users_wf_def messengers_wf_def ids by simp_all
    ultimately show ?thesis
      using False by (simp add: people_grow_def people_wf_def grows_refl grows_snoc user_ids_def)
  qed (simp add: people_grow.run_refl)
qed

lemma steps_grow_create_chat: "steps people_grow (CreateMessengerRelatedUser F m)"
proof (cases "mru_UserID m = None \<or> mru_MessengerID m = None")
  case True
  then show ?thesis
    by (cases "mru_UserID m") (auto simp: CreateMessengerRelatedUser_def people_grow.steps_fail)
next
  case False
  then obtain i j where ij: "mru_UserID m = Some i" "mru_MessengerID m = Some j" by auto
  have "steps people_grow (bindE (check_user i) (\<lambda>_. bindE (missing_is_unprocessable (GetMessenger j)) (\<lambda>_.
      bindE (repo_CreateMessengerRelatedUser m) k)))" if k: "\<And>x. steps people_grow (k x)" for k :: "int \<Rightarrow> int aop"
  proof (rule stepsI)
    fix u
    let ?v = "snd (check_user i u)"
    let ?w = "snd (missing_is_unprocessable (GetMessenger j) ?v)"
    have v: "same_people u ?v" and w: "same_people ?v ?w"
      by (rule steps_at, intro same_people.account_reads same_people.missing_steps)+
    show "people_grow u (snd (bindE (check_user i) (\<lambda>_. bindE (missing_is_unprocessable (GetMessenger j)) (\<lambda>_.
      bindE (repo_CreateMessengerRelatedUser m) k)) u))"
    proof (rule people_grow.run_at, rule same_people_grow [OF v], rule people_grow.run_at,
        rule same_people_grow [OF w], rule people_grow.run_at, goal_cases)
      case (1 x y)
      have "(i, True) \<in> set (user_ids (app_core u))"
        using 1(1) by (intro check_user_Ok [of i u x ?v]) (simp add: prod_eq_iff)
      moreover obtain z where "z \<in> set (messengers (app_core ?v))" "m_ID z = j"
        using 1(2) check_messenger_Ok [of j ?v y ?w] by (auto simp: prod_eq_iff)
      ultimately show ?case
        using v w by (intro create_chat_grow [OF ij(1) _ ij(2)]) (simp_all add: same_people_def)
    next
      case (2 x y z)
      show ?case by (rule steps_at [OF k])
    qed
  qed
  then show ?thesis
    by (simp add: CreateMessengerRelatedUser_def ij people_grow.steps_fail people_grow.steps_bindE
        people_grow.touch_steps people_grow.steps_ret)
qed

subsection \<open>Every request\<close>

lemma same_people_other: "cal u' = cal u \<Longrightarrow> next_user u' = next_user u \<Longrightarrow> next_messenger u' = next_messenger u \<Longrightarrow>
    next_chat u' = next_chat u \<Longrightarrow> same_people u u'"
  by (simp add: same_people_def)

lemma steps_same_lists:
  "steps same_people (repo_CreateBacklog b)" "steps same_people (repo_UpdateBacklog b)"
  "steps same_people (repo_DeleteBacklog i)"
  "steps same_people (repo_CreateTarget t)" "steps same_people (repo_UpdateTarget t)"
  "steps same_people (repo_DeleteTarget i)"
  "steps same_people (repo_CreateTaskGroup g)" "steps same_people (repo_UpdateTaskGroup g)"
  "steps same_people (repo_DeleteTaskGroup i)" "steps same_people (PurgeByUser i)"
  "steps same_people (repo_CreateDigestSettings d)" "steps same_people (repo_UpdateDigestSettings d)"
  "steps same_people (repo_DeleteDigestSettings j k)"
  unfolding repo_CreateBacklog_def repo_UpdateBacklog_def repo_DeleteBacklog_def repo_CreateTarget_def
    repo_UpdateTarget_def repo_DeleteTarget_def repo_CreateTaskGroup_def repo_UpdateTaskGroup_def
    repo_DeleteTaskGroup_def repo_CreateDigestSettings_def repo_UpdateDigestSettings_def
    repo_DeleteDigestSettings_def PurgeByUser_def
  by (intro same_people.soft_insert_from same_people.soft_update_from same_people.soft_remove_from
      same_people.steps_bindE same_people.in_cal cal_people.in_core people_le.external people_le.time_Now
      same_people.steps_modify stepsI same_people_other;
      simp add: backlog_table_def target_table_def group_table_def same_people_other)+

lemma steps_grow: "steps same_people m \<Longrightarrow> steps people_grow m"
  by (auto simp: steps_def same_people_grow)

interpretation people_grow: app_run people_grow cal_people people_le F
proof
  show "steps people_le (handle S q)" for S q by (rule people_le.handle)
  show "steps people_grow (CreateUser F x)" for x by (intro people_grow.CreateUser_from steps_grow_create_user)
  show "steps people_grow (UpdateTaskGroup F i r)" for i r
    by (intro steps_grow same_people.UpdateGroup_from steps_same_lists)
  show "steps people_grow (CreateDigestSettings F d)" "steps people_grow (UpdateDigestSettings F j k r')" for d j k r'
    by (intro steps_grow same_people.CreateDigest_from same_people.UpdateDigest_from steps_same_lists)+
qed (simp_all add: steps_grow steps_same_lists steps_grow_update_user steps_grow_drop_user
    steps_grow_create_messenger steps_grow_create_chat)

subsection \<open>The limit of users\<close>

definition live_count :: "app_world \<Rightarrow> int" where "live_count u = int (length (live_users u))"

definition within_limit :: "app_env \<Rightarrow> app_world \<Rightarrow> bool" where
  "within_limit F u \<longleftrightarrow> (0 < maxUsers F \<longrightarrow> live_count u \<le> maxUsers F)"

definition limit_kept :: "app_env \<Rightarrow> app_world \<Rightarrow> app_world \<Rightarrow> bool" where
  "limit_kept F u u' \<longleftrightarrow> (within_limit F u \<longrightarrow> within_limit F u')"

lemma live_count_ids: "live_count u = int (length (filter snd (user_ids (app_core u))))"
  by (simp add: live_count_def live_users_def user_ids_def filter_map comp_def)

lemma same_people_count: "same_people u u' \<Longrightarrow> live_count u' = live_count u"
  by (simp add: live_count_ids same_people_def)

lemma limit_kept_fewer: "live_count u' \<le> live_count u \<Longrightarrow> limit_kept F u u'"
  by (auto simp: limit_kept_def within_limit_def)

lemma same_people_limit: "same_people u u' \<Longrightarrow> limit_kept F u u'"
  by (simp add: limit_kept_fewer same_people_count)

interpretation limit_kept: app_tasks "limit_kept F" cal_people people_le
proof
  show "limit_kept F u w" if "limit_kept F u v" "limit_kept F v w" for u v w using that by (simp add: limit_kept_def)
  show "limit_kept F u (u\<lparr>cal := v\<rparr>)" if "cal_people (cal u) v" for u v
    using that by (intro same_people_limit same_people.on_cal)
qed (simp add: limit_kept_def)

lemma check_user_limit_Ok:
  assumes "check_user_limit F u = (Ok x, u')" and "0 < maxUsers F" shows "live_count u' < maxUsers F"
proof -
  obtain v where "CountActiveUsers u = (Ok v, u')" "v < maxUsers F"
    using assms by (auto simp: check_user_limit_def when_op_def fail_def ret_def elim!: bindE_OkE split: if_splits)
  then show ?thesis by (auto simp: CountActiveUsers_def gets_def live_count_def elim!: bindE_OkE)
qed

lemma create_user_count: "live_count (snd (repo_CreateUser x u)) \<le> live_count u + 1"
proof -
  let ?v = "snd (app_external ''failed to insert user'' u)"
  have "same_people u ?v"
    by (rule steps_at, intro same_people.in_cal cal_people.in_core people_le.external)
  then have "live_count ?v = live_count u" by (rule same_people_count)
  then show ?thesis
    unfolding repo_CreateUser_def
    by (cases "fst (app_external ''failed to insert user'' u)")
       (auto simp: bindE_def live_count_def live_users_def user_live_def split: prod.splits)
qed

lemma steps_limit_create_user: "steps (limit_kept F) (CreateUser F x)"
proof -
  have "steps (limit_kept F) (bindE (check_user_limit F) (\<lambda>_. bindE (repo_CreateUser x) k))"
    if k: "\<And>i. steps (limit_kept F) (k i)" for k :: "int \<Rightarrow> int aop"
  proof (rule stepsI, rule limit_kept.run_at, goal_cases)
    case (1 u)
    show ?case by (rule steps_at) (rule limit_kept.account_reads)
  next
    case (2 u y)
    let ?v = "snd (check_user_limit F u)"
    have "live_count ?v < maxUsers F" if "0 < maxUsers F"
      using check_user_limit_Ok [of F u y ?v] 2 that by (simp add: prod_eq_iff)
    then have "limit_kept F ?v (snd (repo_CreateUser x ?v))"
      using create_user_count [of x ?v] by (auto simp: limit_kept_def within_limit_def)
    then show ?case by (rule limit_kept.run_at) (rule steps_at [OF k])
  qed
  then show ?thesis
    by (simp add: CreateUser_def limit_kept.steps_fail limit_kept.steps_bindE limit_kept.touch_steps limit_kept.steps_ret)
qed

lemma steps_limit: "steps same_people m \<Longrightarrow> steps (limit_kept F) m"
  by (auto simp: steps_def same_people_limit)

lemma limit_kept_map_user:
  assumes "\<And>x. user_live (f x) \<Longrightarrow> user_live x" shows "limit_kept F u (set_core (map_user i f) u)"
proof (rule limit_kept_fewer)
  have "length (filter user_live (map (\<lambda>x. if P x then f x else x) xs)) \<le> length (filter user_live xs)" for P xs
    using assms by (induction xs) (auto intro: le_SucI)
  then show "live_count (set_core (map_user i f) u) \<le> live_count u"
    by (simp add: live_count_def live_users_def map_user_def)
qed

lemma limit_kept_others:
  "limit_kept F u (set_core (drop_chats i) u)"
  "limit_kept F u ((set_core (\<lambda>w. w\<lparr>messengers := f w\<rparr>) u)\<lparr>next_messenger := n\<rparr>)"
  "limit_kept F u ((set_core (\<lambda>w. w\<lparr>user_messengers := g w\<rparr>) u)\<lparr>next_chat := n\<rparr>)"
  by (rule limit_kept_fewer, simp add: live_count_def live_users_def drop_chats_def)+

lemma steps_limit_people:
  "steps (limit_kept F) (repo_UpdateUser x)" "steps (limit_kept F) (repo_DeleteUser i)"
  "steps (limit_kept F) (DeleteMessengerRelatedUserByUserID i)"
  "steps (limit_kept F) (repo_CreateMessenger m)" "steps (limit_kept F) (repo_CreateMessengerRelatedUser c)"
  unfolding repo_UpdateUser_def repo_DeleteUser_def DeleteMessengerRelatedUserByUserID_def repo_CreateMessenger_def
    repo_CreateMessengerRelatedUser_def
  by (intro limit_kept.steps_bindE limit_kept.in_cal cal_people.in_core people_le.external people_le.time_Now
      limit_kept.steps_modify limit_kept_map_user limit_kept_others stepsI;
      simp add: user_live_def limit_kept_others limit_kept.run_refl)+

interpretation limit_kept: app_run "limit_kept F" cal_people people_le F
proof
  show "steps people_le (handle S q)" for S q by (rule people_le.handle)
  show "steps (limit_kept F) (bindE (DeleteMessengerRelatedUserByUserID i) (\<lambda>_. repo_DeleteUser i))" for i
    by (intro limit_kept.drop_user_from steps_limit_people)
  show "steps (limit_kept F) (CreateMessengerRelatedUser F c)" for c
    by (intro limit_kept.CreateChat_from steps_limit_people)
  show "steps (limit_kept F) (UpdateTaskGroup F i r)" for i r
    by (intro steps_limit same_people.UpdateGroup_from steps_same_lists)
  show "steps (limit_kept F) (CreateDigestSettings F d)" "steps (limit_kept F) (UpdateDigestSettings F j k r')" for d j k r'
    by (intro steps_limit same_people.CreateDigest_from same_people.UpdateDigest_from steps_same_lists)+
qed (simp_all add: steps_limit steps_same_lists steps_limit_people steps_limit_create_user)

end
