(* ===== verification/App_Machine.thy ===== *)
theory App_Machine
  imports App_Users
begin

text \<open>
  The application as one state machine: every request of every service, on the state of all of them.
  Between requests the clock goes on, failures and replies of Google to come are chosen anew, and
  accounts are connected; users, messengers and chats change by requests only.

  What holds of every reachable state (\<open>app_inv\<close>) and what every step leaves (\<open>app_grows\<close>) is put
  together from the relations each request keeps.
\<close>

definition app_arrive :: "app_world \<Rightarrow> app_world" where
  "app_arrive u = u\<lparr>cal := cal_arrive (cal u)\<rparr>"

inductive app_step :: "env \<Rightarrow> cal_env \<Rightarrow> app_env \<Rightarrow> app_world \<Rightarrow> app_world \<Rightarrow> bool" for S E F where
  app_serve: "app_handle S E F q (app_arrive u) = (r, u') \<Longrightarrow> app_step S E F u u'"
| app_outside: "0 \<le> d \<Longrightarrow> app_step S E F u (u\<lparr>cal := (cal u)\<lparr>core := (app_core u)\<lparr>clock := clock (app_core u) + d,
     ticks := ts, faults := fs\<rparr>, accounts := as, replies := rs\<rparr>\<rparr>)"

inductive_simps app_step_simps: "app_step S E F u u'"

definition app_initial :: "app_world \<Rightarrow> bool" where
  "app_initial u \<longleftrightarrow> cal_initial (cal u) \<and> users (app_core u) = [] \<and> messengers (app_core u) = [] \<and>
     user_messengers (app_core u) = [] \<and> backlog_rows u = [] \<and> target_rows u = [] \<and> group_rows u = [] \<and>
     digest_rows u = []"

inductive app_reachable :: "env \<Rightarrow> cal_env \<Rightarrow> app_env \<Rightarrow> app_world \<Rightarrow> bool" for S E F where
  app_start: "app_initial u \<Longrightarrow> app_reachable S E F u"
| app_next: "app_reachable S E F u \<Longrightarrow> app_step S E F u u' \<Longrightarrow> app_reachable S E F u'"

subsection \<open>The invariant\<close>

definition app_inv :: "app_env \<Rightarrow> app_world \<Rightarrow> bool" where
  "app_inv F u \<longleftrightarrow> cal_inv (cal u) \<and> lists_wf u \<and> people_wf u \<and> within_limit F u"

definition app_grows :: "app_world \<Rightarrow> app_world \<Rightarrow> bool" where
  "app_grows u u' \<longleftrightarrow> cal_grows (cal u) (cal u') \<and>
     soft_le backlog_table u u' \<and> soft_le target_table u u' \<and> soft_le group_table u u' \<and>
     grows id_le (user_ids (app_core u)) (user_ids (app_core u')) \<and>
     grows chat_le (user_messengers (app_core u)) (user_messengers (app_core u')) \<and>
     grows (=) (messengers (app_core u)) (messengers (app_core u'))"

lemma app_inv_initial: "app_initial u \<Longrightarrow> app_inv F u"
  by (simp add: app_initial_def app_inv_def cal_inv_initial lists_wf_def soft_wf_def digests_wf_def people_wf_def
      users_wf_def messengers_wf_def chats_wf_def user_ids_def within_limit_def live_count_def live_users_def
      backlog_table_def target_table_def group_table_def)

lemma same_people_cal:
  "users (core v) = users (app_core u) \<Longrightarrow> messengers (core v) = messengers (app_core u) \<Longrightarrow>
     user_messengers (core v) = user_messengers (app_core u) \<Longrightarrow> same_people u (u\<lparr>cal := v\<rparr>)"
  by (simp add: same_people_def user_ids_def)

lemma app_inv_cal:
  assumes "cal_inv v" and "same_people u (u\<lparr>cal := v\<rparr>)" and "app_inv F u"
  shows "app_inv F (u\<lparr>cal := v\<rparr>)"
proof -
  have "same_lists u (u\<lparr>cal := v\<rparr>)" by (auto simp: same_lists_def)
  then show ?thesis
    using assms same_lists_wf same_people_wf [OF assms(2)] same_people_count [OF assms(2)]
    by (auto simp: app_inv_def within_limit_def)
qed

lemma app_arrive_inv: "app_inv F u \<Longrightarrow> app_inv F (app_arrive u)"
  unfolding app_arrive_def
  by (intro app_inv_cal same_people_cal cal_arrive_inv)
     (simp_all add: cal_arrive_def arrive_def app_inv_def)

lemma app_grows_arrive: "app_grows (app_arrive u) u' \<Longrightarrow> app_grows u u'"
  by (simp add: app_grows_def app_arrive_def cal_grows_def cal_arrive_def arrive_def soft_le_def user_ids_def
      backlog_table_def target_table_def group_table_def)

lemma cal_le_grows: "cal_le v v' \<Longrightarrow> cal_inv v \<Longrightarrow> cal_inv v' \<and> cal_grows v v'"
  by (simp add: cal_le_def cal_inv_def cal_grows_def tx_closed_def)

lemma app_run_grows:
  assumes run: "app_handle S E F q u = (r, u')" and inv: "app_inv F u"
  shows "app_inv F u' \<and> app_grows u u'"
  using stepsD [OF app_cal.app_handle run] stepsD [OF lists_le.app_handle run]
    stepsD [OF people_grow.app_handle run] stepsD [OF limit_kept.app_handle run] inv
    cal_le_grows [of "cal u" "cal u'"]
  by (simp add: app_cal_def lists_le_def people_grow_def limit_kept_def app_inv_def app_grows_def)

lemma app_step_grows:
  assumes step: "app_step S E F u u'" and inv: "app_inv F u"
  shows "app_inv F u' \<and> app_grows u u'"
  using step
proof cases
  case (app_serve q r)
  then show ?thesis using app_run_grows app_arrive_inv [OF inv] app_grows_arrive by blast
next
  case (app_outside d rs as fs ts)
  let ?v = "(cal u)\<lparr>core := (app_core u)\<lparr>clock := clock (app_core u) + d, ticks := ts, faults := fs\<rparr>,
     accounts := as, replies := rs\<rparr>"
  have step: "cal_step S E (cal u) ?v"
    using cal_step.cal_outside [OF app_outside(2), where v = "cal u" and ts = ts and fs = fs and
        us = "users (app_core u)" and ms = "messengers (app_core u)" and ums = "user_messengers (app_core u)" and
        as = as and rs = rs] by simp
  then have v: "cal_inv ?v \<and> cal_grows (cal u) ?v"
    using inv by (intro cal_step_grows) (simp_all add: app_inv_def)
  then have "app_inv F u'"
    unfolding app_outside(1) by (intro app_inv_cal same_people_cal) (simp_all add: inv)
  then show ?thesis using v
    by (simp add: app_outside(1) app_grows_def soft_le_def grows_refl user_ids_def backlog_table_def
        target_table_def group_table_def)
qed

lemma app_reachable_inv: "app_reachable S E F u \<Longrightarrow> app_inv F u"
  by (induction rule: app_reachable.induct) (auto intro: app_inv_initial dest: app_step_grows)

lemma app_grows_refl: "app_grows u u"
  by (simp add: app_grows_def cal_grows_refl grows_refl)

lemma app_grows_trans:
  assumes "app_grows u v" and "app_grows v w" shows "app_grows u w"
proof -
  have "grows id_le xs ys \<Longrightarrow> grows id_le ys zs \<Longrightarrow> grows id_le xs zs" for xs ys zs
    by (rule grows_trans [of id_le]) (auto simp: id_le_def)
  moreover have "grows chat_le xs ys \<Longrightarrow> grows chat_le ys zs \<Longrightarrow> grows chat_le xs zs" for xs ys zs
    by (rule grows_trans [of chat_le]) (auto simp: chat_le_def)
  moreover have "grows (=) xs ys \<Longrightarrow> grows (=) ys zs \<Longrightarrow> grows (=) xs zs" for xs ys zs :: "messenger list"
    by (rule grows_trans [of "(=)"]) auto
  ultimately show ?thesis
    using assms unfolding app_grows_def by (intro conjI; (elim conjE)?; blast intro: cal_grows_trans soft_le_trans)
qed

lemma app_steps_grow:
  assumes "(app_step S E F)\<^sup>*\<^sup>* u u'" and "app_inv F u"
  shows "app_inv F u' \<and> app_grows u u'"
  using assms
proof (induction rule: rtranclp_induct)
  case base
  then show ?case by (simp add: app_grows_refl)
next
  case (step v w)
  then show ?case using app_step_grows [OF step(2)] app_grows_trans by blast
qed

text \<open>A row of a table with soft deletion that was deleted is still there, as it was.\<close>

lemma soft_le_deleted:
  "soft_le T u u' \<Longrightarrow> k < length (st_rows T u) \<Longrightarrow> \<not> s_live (st_rows T u ! k) \<Longrightarrow>
     k < length (st_rows T u') \<and> st_rows T u' ! k = st_rows T u ! k"
  by (auto simp: soft_le_def grows_def soft_row_le_def)

end
