(* ===== verification/Http_Tasks.thy ===== *)
theory Http_Tasks
  imports Http_Replies App_Machine
begin

text \<open>
  \<open>TaskHandler\<close> (\<open>internal/api/handlers/task_handler.go\<close>), handler by handler: the validators in the order of the
  code, the call of the service, the status of each of its errors, and the body of the answer.

  \<open>http_server\<close> holds what the handlers are built with in \<open>cmd/core/main.go\<close>: the services, the validation
  libraries, the client of the attachment service, and the switches of the configuration.
\<close>

record http_server =
  sv_task :: env
  sv_sync :: cal_env
  sv_app :: app_env
  sv_lib :: http_lib
  sv_oauth :: oauth_config
  sv_calendar :: bool
  sv_attachments :: bool
  sv_client :: att_client
  sv_directUploadMaxBytes :: int
  sv_proxyDownloadEnabled :: bool
  sv_proxyDownloadMaxBytes :: int
  sv_version :: string

text \<open>\<open>GetTaskExternal\<close> of the calendar service, and the badge of a task: an error leaves it out.\<close>

definition GetTaskExternal :: "int \<Rightarrow> task_sync_link aop" where
  "GetTaskExternal taskID = in_task (GetByTaskID taskID)"

definition task_badge :: "http_server \<Rightarrow> int \<Rightarrow> task_external_response option aop" where
  "task_badge V taskID =
     (if sv_calendar V
      then bindE (attempt (GetTaskExternal taskID)) (\<lambda>r.
             ret (case r of Inl _ \<Rightarrow> None | Inr l \<Rightarrow> Some (TaskSyncLinkToExternalResponse l)))
      else ret None)"

subsection \<open>Creating, reading, updating, deleting\<close>

definition http_CreateTask :: "http_server \<Rightarrow> create_task_request json \<Rightarrow> handler" where
  "http_CreateTask V body =
     with_body (validation_text (sv_lib V)) (create_task_rules (sv_lib V)) body (\<lambda>req.
     answer create_error (in_task (CreateTask (sv_task V) (CreateTaskRequestToModel req))) (\<lambda>(taskID, childTaskID).
     ok 201 (BTaskCreated taskID childTaskID)))"

definition http_GetTask :: "http_server \<Rightarrow> http_request \<Rightarrow> handler" where
  "http_GetTask V c =
     checked (ValidateInt64Param (sv_lib V) c ''id'') (\<lambda>taskID.
     answer (get_error (missing_row ''task'' taskID)) (in_task (GetTask taskID)) (\<lambda>task.
     let atts = (if sv_attachments V
                 then (case ListAttachments (sv_client V) taskID of
                         Inl _ \<Rightarrow> [] | Inr xs \<Rightarrow> AttachmentsToResponse xs)
                 else []) in
     bindE (task_badge V taskID) (\<lambda>badge.
     ok 200 (BTaskDetail ((TaskModelToDetailResponse task atts)\<lparr>tdr_External := badge\<rparr>)))))"

definition http_UpdateTask :: "http_server \<Rightarrow> http_request \<Rightarrow> update_task_request json \<Rightarrow> handler" where
  "http_UpdateTask V c body =
     checked (ValidateInt64Param (sv_lib V) c ''id'') (\<lambda>taskID.
     with_body (validation_text (sv_lib V)) (update_task_rules (sv_lib V)) body (\<lambda>req.
     answer (\<lambda>e. case e of
               ErrValidation _ \<Rightarrow> refused_with 400 e
             | ErrNotFound _ \<Rightarrow> refused 404 (missing_row ''task'' taskID)
             | ErrConflict _ \<Rightarrow> refused_with 409 e
             | ErrUnprocessableEntity _ \<Rightarrow> refused_with 422 e
             | ErrOther _ \<Rightarrow> refused_with 500 e)
       (in_task (UpdateTask (sv_task V) taskID (UpdateTaskRequestToModel req))) (\<lambda>task.
     ok 200 (BTask (TaskModelToResponse task)))))"

definition http_DeleteTask :: "http_server \<Rightarrow> http_request \<Rightarrow> handler" where
  "http_DeleteTask V c =
     checked (ValidateInt64Param (sv_lib V) c ''id'') (\<lambda>taskID.
     answer (get_error (missing_row ''task'' taskID)) (in_task (DeleteTask (sv_task V) taskID)) (\<lambda>_.
     ok 204 BNone))"

text \<open>\<open>ErrValidation\<close>, which \<open>QueueTask\<close> returns for an unknown action, has no case here.\<close>

fun queue_error :: "err \<Rightarrow> reply" where
  "queue_error (ErrNotFound m) = refused_with 404 (ErrNotFound m)"
| "queue_error (ErrUnprocessableEntity m) = refused_with 422 (ErrUnprocessableEntity m)"
| "queue_error e = refused_with 500 e"

definition http_QueueTask :: "http_server \<Rightarrow> queue_task_request json \<Rightarrow> handler" where
  "http_QueueTask V body =
     with_body (validation_text (sv_lib V)) queue_task_rules body (\<lambda>req.
     answer queue_error (in_task (QueueTask (sv_task V) (QueueTaskRequestToModel req))) (\<lambda>_.
     ok 201 (BId (qt_TaskID req))))"

subsection \<open>Done, muted, unmuted\<close>

text \<open>The body of a request: none, one that cannot be read, or bytes with what \<open>json.Unmarshal\<close> makes of
  them.\<close>

datatype 'd raw_body = NoBody | Unreadable string | Bytes string "'d json"

fun parseMarkTaskDoneBody :: "bool option raw_body \<Rightarrow> bool option json" where
  "parseMarkTaskDoneBody NoBody = Inr None"
| "parseMarkTaskDoneBody (Unreadable m) = Inl m"
| "parseMarkTaskDoneBody (Bytes raw decoded) = (if trim_space raw = [] then Inr None else decoded)"

definition http_MarkTaskAsDone :: "http_server \<Rightarrow> http_request \<Rightarrow> bool option raw_body \<Rightarrow> handler" where
  "http_MarkTaskAsDone V c body =
     checked (ValidateInt64Param (sv_lib V) c ''id'') (\<lambda>taskID.
     checked (parseMarkTaskDoneBody body) (\<lambda>shiftFromCompletion.
     answer (\<lambda>e. case e of
               ErrNotFound _ \<Rightarrow> refused 404 (missing_row ''task'' taskID)
             | ErrConflict _ \<Rightarrow> refused_with 409 e
             | _ \<Rightarrow> refused_with 500 e)
       (in_task (MarkTaskAsDone (sv_task V) taskID shiftFromCompletion)) (\<lambda>task.
     ok 200 (BTaskDone (TaskModelToMarkedDoneResponse task)))))"

fun mute_error :: "err \<Rightarrow> reply" where
  "mute_error (ErrNotFound m) = refused_with 404 (ErrNotFound m)"
| "mute_error e = refused_with 500 e"

definition http_MuteTask :: "http_server \<Rightarrow> http_request \<Rightarrow> handler" where
  "http_MuteTask V c =
     checked (ValidateInt64Param (sv_lib V) c ''id'') (\<lambda>taskID.
     answer mute_error (in_task (MuteTask (sv_task V) taskID)) (\<lambda>task.
     ok 200 (BTask (TaskModelToResponse task))))"

definition http_UnmuteTask :: "http_server \<Rightarrow> http_request \<Rightarrow> handler" where
  "http_UnmuteTask V c =
     checked (ValidateInt64Param (sv_lib V) c ''id'') (\<lambda>taskID.
     answer mute_error (in_task (UnmuteTask (sv_task V) taskID)) (\<lambda>task.
     ok 200 (BTask (TaskModelToResponse task))))"

subsection \<open>History and inventory\<close>

definition http_GetTaskHistory :: "http_server \<Rightarrow> http_request \<Rightarrow> handler" where
  "http_GetTaskHistory V c =
     checked (ValidateInt64Param (sv_lib V) c ''id'') (\<lambda>taskID.
     answer (get_error (missing_row ''task'' taskID)) (in_task (GetTaskHistory taskID)) (\<lambda>hs.
     ok 200 (BHistory (TaskHistoriesModelToResponse hs))))"

fun user_error :: "int \<Rightarrow> err \<Rightarrow> reply" where
  "user_error userID (ErrUnprocessableEntity m) = refused 422 (missing_row ''user'' userID)"
| "user_error userID e = refused_with 500 e"

text \<open>The models are answered as they are, not mapped to responses.\<close>

definition http_GetUserTaskHistory :: "http_server \<Rightarrow> http_request \<Rightarrow> handler" where
  "http_GetUserTaskHistory V c =
     checked (ValidateInt64Param (sv_lib V) c ''user_id'') (\<lambda>userID.
     checked (ValidateInt64Query (sv_lib V) c ''limit'' 50 1) (\<lambda>limit.
     checked (ValidateInt64Query (sv_lib V) c ''offset'' 0 0) (\<lambda>offset.
     answer (user_error userID) (in_task (GetUserTaskHistory userID limit offset)) (\<lambda>hs.
     ok 200 (BHistoryModels hs)))))"

definition http_GetSchedulableInventory :: handler where
  "http_GetSchedulableInventory =
     answer (\<lambda>_. refused 500 ''failed to get schedulable inventory'') (in_task GetSchedulableInventory) (\<lambda>items.
     ok 200 (BInventory items (int (length items))))"

subsection \<open>Listings\<close>

definition with_badge :: "http_server \<Rightarrow> task_response \<Rightarrow> task_response list \<Rightarrow> task_response list aop" where
  "with_badge V r done_so_far =
     bindE (task_badge V (tr_ID r)) (\<lambda>badge.
     ret (done_so_far @ [case badge of None \<Rightarrow> r | Some b \<Rightarrow> r\<lparr>tr_External := Some b\<rparr>]))"

definition http_GetUserTasks :: "http_server \<Rightarrow> http_request \<Rightarrow> handler" where
  "http_GetUserTasks V c =
     (let L = sv_lib V in
     checked (ValidateInt64Param L c ''user_id'') (\<lambda>userID.
     with_page L c (\<lambda>page pageSize.
     with_order L c (\<lambda>orderBy.
     checked (ValidateOptionalTimeQuery L c ''start_date_from'') (\<lambda>startDateFrom.
     checked (ValidateOptionalTimeQuery L c ''start_date_to'') (\<lambda>startDateTo.
     checked (ValidateOptionalTimeQuery L c ''created_at_from'') (\<lambda>createdAtFrom.
     checked (ValidateOptionalTimeQuery L c ''created_at_to'') (\<lambda>createdAtTo.
     checked (ValidateOptionalBoolQuery L c ''requires_confirmation'') (\<lambda>requiresConfirmation.
     checked (ValidateOptionalStringQuery L c ''status'') (\<lambda>status.
     checked (ValidateOptionalStringQuery L c ''status_not'') (\<lambda>statusNot.
     checked (ValidateOptionalStringQuery L c ''cron_expression'') (\<lambda>cronExpression.
     checked (ValidateOptionalBoolQuery L c ''cron_expression_is_null'') (\<lambda>cronExpressionIsNull.
     checked (ValidateOptionalBoolQuery L c ''exclude_cron_with_confirmation'') (\<lambda>excludeCronWithConfirmation.
     checked (opt_int_or ''invalid messenger_related_user_id parameter'' (rq_Query c ''messenger_related_user_id''))
       (\<lambda>messengerRelatedUserID.
     checked (ValidateOptionalStringQuery L c ''messenger_user_id'') (\<lambda>messengerUserID.
     checked (ValidateOptionalStringQuery L c ''external_provider'') (\<lambda>externalProvider.
     checked (ValidateOptionalUTF8StringQuery L c ''title'') (\<lambda>title.
     answer (user_error userID)
       (in_task (GetUserTasks (sv_task V) userID
          \<lparr>q_page = page, q_pageSize = pageSize, q_orderBy = orderBy, q_UserID = None,
           q_startDateFrom = startDateFrom, q_startDateTo = startDateTo, q_createdAtFrom = createdAtFrom,
           q_createdAtTo = createdAtTo, q_requiresConfirmation = requiresConfirmation,
           q_status = filter_text status, q_statusNot = filter_text statusNot,
           q_cronExpression = filter_text cronExpression, q_cronExpressionIsNull = cronExpressionIsNull,
           q_excludeCronWithConfirmation = excludeCronWithConfirmation, q_messengerRelatedUserIDs = None,
           q_externalProvider = filter_text externalProvider, q_title = filter_text title,
           q_excludeSkipDigest = None\<rparr> messengerRelatedUserID (filter_text messengerUserID)))
       (\<lambda>(ts, totalCount).
     bindE (fold_op (with_badge V) (TasksModelToResponse ts) []) (\<lambda>responses.
     ok 200 (BTasks responses (page_of page pageSize totalCount))))))))))))))))))))))"

definition http_GetAllTasks :: "http_server \<Rightarrow> http_request \<Rightarrow> handler" where
  "http_GetAllTasks V c =
     (let L = sv_lib V in
     with_page L c (\<lambda>page pageSize.
     with_order L c (\<lambda>orderBy.
     checked (ValidateOptionalStringQuery L c ''status'') (\<lambda>status.
     checked (ValidateOptionalStringQuery L c ''status_not'') (\<lambda>statusNot.
     checked (ValidateOptionalTimeQuery L c ''start_date_from'') (\<lambda>startDateFrom.
     checked (ValidateOptionalTimeQuery L c ''start_date_to'') (\<lambda>startDateTo.
     checked (ValidateOptionalInt64Query L c ''user_id'' 1) (\<lambda>userID.
     checked (ValidateOptionalStringQuery L c ''cron_expression'') (\<lambda>cronExpression.
     checked (ValidateOptionalBoolQuery L c ''cron_expression_is_null'') (\<lambda>cronExpressionIsNull.
     checked (ValidateOptionalBoolQuery L c ''requires_confirmation'') (\<lambda>requiresConfirmation.
     checked (ValidateOptionalBoolQuery L c ''exclude_cron_with_confirmation'') (\<lambda>excludeCronWithConfirmation.
     checked (ValidateOptionalStringQuery L c ''external_provider'') (\<lambda>externalProvider.
     answer any_error
       (in_task (GetAllTasks (sv_task V)
          \<lparr>q_page = page, q_pageSize = pageSize, q_orderBy = orderBy, q_UserID = userID,
           q_startDateFrom = startDateFrom, q_startDateTo = startDateTo, q_createdAtFrom = None,
           q_createdAtTo = None, q_requiresConfirmation = requiresConfirmation,
           q_status = filter_text status, q_statusNot = filter_text statusNot,
           q_cronExpression = filter_text cronExpression, q_cronExpressionIsNull = cronExpressionIsNull,
           q_excludeCronWithConfirmation = excludeCronWithConfirmation, q_messengerRelatedUserIDs = None,
           q_externalProvider = filter_text externalProvider, q_title = None,
           q_excludeSkipDigest = None\<rparr>)) (\<lambda>(ts, totalCount).
     ok 200 (BTasks (TasksModelToResponse ts) (page_of page pageSize totalCount))))))))))))))))"

end
