(* ===== verification/Http_People.thy ===== *)
theory Http_People
  imports Http_Tasks
begin

text \<open>
  \<open>UserHandler\<close> and \<open>MessengerHandler\<close> (\<open>internal/api/handlers/user_handler.go\<close>,
  \<open>messenger_handler.go\<close>).  A body that does not pass is answered with the text of the validator library.
\<close>

subsection \<open>Users\<close>

fun user_create_error :: "err \<Rightarrow> reply" where
  "user_create_error (ErrConflict m) = refused_with 409 (ErrConflict m)"
| "user_create_error e = refused_with 500 e"

definition http_CreateUser :: "http_server \<Rightarrow> create_user_request json \<Rightarrow> handler" where
  "http_CreateUser V body =
     with_body (bind_error_text (sv_lib V)) create_user_rules body (\<lambda>req.
     answer user_create_error (CreateUser (sv_app V) (CreateUserRequestToModel req)) (\<lambda>userID.
     ok 201 (BId userID)))"

definition http_GetUser :: "http_server \<Rightarrow> http_request \<Rightarrow> handler" where
  "http_GetUser V c =
     checked (ValidateInt64Param (sv_lib V) c ''user_id'') (\<lambda>userID.
     answer (get_error (missing_row ''user'' userID)) (GetUser userID) (\<lambda>user.
     ok 200 (BUser (UserModelToResponse user))))"

fun user_change_error :: "int \<Rightarrow> err \<Rightarrow> reply" where
  "user_change_error userID (ErrNotFound m) = refused 404 (missing_row ''user'' userID)"
| "user_change_error userID (ErrUnprocessableEntity m) = refused_with 422 (ErrUnprocessableEntity m)"
| "user_change_error userID e = refused_with 500 e"

definition http_UpdateUser :: "http_server \<Rightarrow> http_request \<Rightarrow> update_user_body json \<Rightarrow> handler" where
  "http_UpdateUser V c body =
     checked (ValidateInt64Param (sv_lib V) c ''user_id'') (\<lambda>userID.
     with_body (bind_error_text (sv_lib V)) (update_user_rules (sv_lib V)) body (\<lambda>req.
     answer (user_change_error userID) (UpdateUser (sv_app V) userID (UpdateUserRequestToModel req)) (\<lambda>user.
     ok 200 (BUser (UserModelToResponse user)))))"

definition http_DeleteUser :: "http_server \<Rightarrow> http_request \<Rightarrow> handler" where
  "http_DeleteUser V c =
     checked (ValidateInt64Param (sv_lib V) c ''user_id'') (\<lambda>userID.
     answer (user_change_error userID) (DeleteUser (sv_app V) userID) (\<lambda>_. ok 204 BNone))"

definition http_GetAllUsers :: "http_server \<Rightarrow> http_request \<Rightarrow> handler" where
  "http_GetAllUsers V c =
     with_page (sv_lib V) c (\<lambda>page pageSize.
     with_order (sv_lib V) c (\<lambda>orderBy.
     answer any_error (GetAllUsers (sv_app V) page pageSize orderBy) (\<lambda>(us, totalCount).
     ok 200 (BUsers (map UserModelToResponse us) (page_of page pageSize totalCount)))))"

definition http_GetRecentUserActivity :: "http_server \<Rightarrow> http_request \<Rightarrow> handler" where
  "http_GetRecentUserActivity V c =
     checked (ValidateInt64Query (sv_lib V) c ''limit'' 100 1) (\<lambda>limit.
     let limit = (if limit > 100 then 100 else limit) in
     answer any_error (GetRecentUserActivity (sv_app V) limit) (\<lambda>activities.
     ok 200 (BActivity (map UserActivityModelToResponse activities))))"

subsection \<open>Messengers and chats\<close>

definition http_CreateMessenger :: "http_server \<Rightarrow> create_messenger_request json \<Rightarrow> handler" where
  "http_CreateMessenger V body =
     with_body (bind_error_text (sv_lib V)) create_messenger_rules body (\<lambda>req.
     answer any_error (CreateMessenger (CreateMessengerRequestToModel req)) (\<lambda>messengerID.
     ok 201 (BId messengerID)))"

definition http_GetMessenger :: "http_server \<Rightarrow> http_request \<Rightarrow> handler" where
  "http_GetMessenger V c =
     checked (ValidateInt64Param (sv_lib V) c ''messenger_id'') (\<lambda>messengerID.
     answer (get_error (missing_row ''messenger'' messengerID)) (GetMessenger messengerID) (\<lambda>m.
     ok 200 (BMessenger (MessengerModelToResponse m))))"

definition http_GetMessengerIDByName :: "http_server \<Rightarrow> http_request \<Rightarrow> handler" where
  "http_GetMessengerIDByName V c =
     checked (ValidateStringParam (sv_lib V) c ''messenger_name'' True) (\<lambda>messengerName.
     answer (get_error (''messenger with name '' @ backquoted messengerName @ '' not found''))
       (GetMessengerIDByName messengerName) (\<lambda>messengerID.
     ok 200 (BId messengerID)))"

fun chat_create_error :: "err \<Rightarrow> reply" where
  "chat_create_error (ErrUnprocessableEntity m) = refused_with 422 (ErrUnprocessableEntity m)"
| "chat_create_error e = refused_with 500 e"

definition http_CreateMessengerRelatedUser :: "http_server \<Rightarrow> create_chat_request json \<Rightarrow> handler" where
  "http_CreateMessengerRelatedUser V body =
     with_body (bind_error_text (sv_lib V)) create_chat_rules body (\<lambda>req.
     answer chat_create_error
       (CreateMessengerRelatedUser (sv_app V) (CreateMessengerRelatedUserRequestToModel req)) (\<lambda>i.
     ok 201 (BId i)))"

definition http_GetMessengerRelatedUser :: "http_server \<Rightarrow> http_request \<Rightarrow> handler" where
  "http_GetMessengerRelatedUser V c =
     (let L = sv_lib V in
     checked (ValidateStringQuery L c ''chat_id'' True) (\<lambda>chatID.
     checked (ValidateStringQuery L c ''messenger_user_id'' True) (\<lambda>messengerUserID.
     checked (ValidateOptionalInt64Query L c ''user_id'' 1) (\<lambda>userID.
     checked (ValidateOptionalInt64Query L c ''messenger_id'' 1) (\<lambda>messengerID.
     answer queue_error (GetMessengerRelatedUser chatID messengerUserID userID messengerID) (\<lambda>m.
     ok 200 (BChat (MessengerRelatedUserModelToResponse m))))))))"

definition http_GetUserID :: "http_server \<Rightarrow> http_request \<Rightarrow> handler" where
  "http_GetUserID V c =
     checked (ValidateStringParam (sv_lib V) c ''messenger_user_id'' True) (\<lambda>messengerUserID.
     answer mute_error (GetUserID messengerUserID) (\<lambda>userID.
     ok 200 (BUserId userID)))"

definition http_GetAllMessengers :: "http_server \<Rightarrow> http_request \<Rightarrow> handler" where
  "http_GetAllMessengers V c =
     with_page (sv_lib V) c (\<lambda>page pageSize.
     with_order (sv_lib V) c (\<lambda>orderBy.
     answer any_error (GetAllMessengers (sv_app V) page pageSize orderBy) (\<lambda>(ms, totalCount).
     ok 200 (BMessengers (map MessengerModelToResponse ms) (page_of page pageSize totalCount)))))"

definition http_GetAllMessengerRelatedUsers :: "http_server \<Rightarrow> http_request \<Rightarrow> handler" where
  "http_GetAllMessengerRelatedUsers V c =
     with_page (sv_lib V) c (\<lambda>page pageSize.
     with_order (sv_lib V) c (\<lambda>orderBy.
     checked (ValidateOptionalInt64Query (sv_lib V) c ''user_id'' 1) (\<lambda>userID.
     checked (ValidateOptionalStringQuery (sv_lib V) c ''chat_id'') (\<lambda>chatID.
     answer any_error (GetAllMessengerRelatedUsers (sv_app V) page pageSize orderBy userID (filter_text chatID))
       (\<lambda>(ms, totalCount).
     ok 200 (BChats (map MessengerRelatedUserModelToResponse ms) (page_of page pageSize totalCount)))))))"

end
