(* ===== verification/Http_Lists.thy ===== *)
theory Http_Lists
  imports Http_People
begin

text \<open>
  \<open>BacklogHandler\<close>, \<open>TargetHandler\<close>, \<open>TaskGroupHandler\<close> and \<open>DigestHandler\<close>
  (\<open>internal/api/handlers/backlog_handler.go\<close>, \<open>target_handler.go\<close>, \<open>task_group_handler.go\<close>,
  \<open>digest_handler.go\<close>).  A key in the path is read by \<open>strconv.ParseInt\<close>, so a negative one reaches the
  service.
\<close>

definition key_param :: "string \<Rightarrow> http_request \<Rightarrow> string + int" where
  "key_param what c = int_or (''invalid '' @ what @ '' id: '' @ rq_Param c ''id'') (rq_Param c ''id'')"

definition user_filter :: "http_request \<Rightarrow> string + int option" where
  "user_filter c = opt_int_or ''invalid user_id parameter'' (rq_Query c ''user_id'')"

subsection \<open>Backlog items\<close>

definition http_CreateBacklog :: "http_server \<Rightarrow> create_backlog_request json \<Rightarrow> handler" where
  "http_CreateBacklog V body =
     with_body (validation_text (sv_lib V)) create_backlog_rules body (\<lambda>req.
     answer create_error (CreateBacklog (sv_app V) (CreateBacklogRequestToModel req)) (\<lambda>i.
     ok 201 (BId i)))"

definition http_CreateBacklogsBatch :: "http_server \<Rightarrow> create_batch_request json \<Rightarrow> handler" where
  "http_CreateBacklogsBatch V body =
     with_body (validation_text (sv_lib V)) create_batch_rules body (\<lambda>req.
     answer create_error
       (CreateBacklogsBatch (sv_app V) (cbt_Items req) (cbt_Separator req) (cbt_UserID req)
          (cbt_MessengerRelatedUserID req)) (\<lambda>ids.
     ok 201 (BIds ids (int (length ids)))))"

definition http_GetBacklog :: "http_server \<Rightarrow> http_request \<Rightarrow> handler" where
  "http_GetBacklog V c =
     checked (key_param ''backlog'' c) (\<lambda>i.
     answer (get_error (missing_row ''backlog'' i)) (GetBacklogByID i) (\<lambda>b.
     ok 200 (BBacklog (BacklogModelToResponse b))))"

definition http_GetAllBacklogs :: "http_server \<Rightarrow> http_request \<Rightarrow> handler" where
  "http_GetAllBacklogs V c =
     with_page (sv_lib V) c (\<lambda>page pageSize.
     checked (ValidateOptionalBoolQuery (sv_lib V) c ''completed'') (\<lambda>completed.
     with_order (sv_lib V) c (\<lambda>orderBy.
     checked (user_filter c) (\<lambda>userID.
     checked (ValidateOptionalStringQuery (sv_lib V) c ''messenger_user_id'') (\<lambda>messengerUserID.
     answer any_error
       (GetAllBacklogs (sv_app V) page pageSize orderBy userID completed (filter_text messengerUserID))
       (\<lambda>(bs, totalCount).
     ok 200 (BBacklogs (BacklogsModelToResponse bs) (page_of page pageSize totalCount))))))))"

definition http_UpdateBacklog :: "http_server \<Rightarrow> http_request \<Rightarrow> update_backlog_body json \<Rightarrow> handler" where
  "http_UpdateBacklog V c body =
     checked (key_param ''backlog'' c) (\<lambda>i.
     with_body (validation_text (sv_lib V)) no_rules body (\<lambda>req.
     answer (update_error (missing_row ''backlog'' i))
       (UpdateBacklog (sv_app V) i (UpdateBacklogRequestToModel req)) (\<lambda>b.
     ok 200 (BBacklog (BacklogModelToResponse b)))))"

definition http_DeleteBacklog :: "http_server \<Rightarrow> http_request \<Rightarrow> handler" where
  "http_DeleteBacklog V c =
     checked (key_param ''backlog'' c) (\<lambda>i.
     answer (get_error (missing_row ''backlog'' i)) (DeleteBacklog (sv_app V) i) (\<lambda>_. ok 204 BNone))"

subsection \<open>Targets\<close>

definition http_CreateTarget :: "http_server \<Rightarrow> create_target_request json \<Rightarrow> handler" where
  "http_CreateTarget V body =
     with_body (validation_text (sv_lib V)) create_target_rules body (\<lambda>req.
     answer create_error (CreateTarget (sv_app V) (CreateTargetRequestToModel req)) (\<lambda>i.
     ok 201 (BId i)))"

definition http_GetTarget :: "http_server \<Rightarrow> http_request \<Rightarrow> handler" where
  "http_GetTarget V c =
     checked (key_param ''target'' c) (\<lambda>i.
     answer (get_error (missing_row ''target'' i)) (GetTargetByID i) (\<lambda>t.
     ok 200 (BTarget (TargetModelToResponse t))))"

definition http_GetAllTargets :: "http_server \<Rightarrow> http_request \<Rightarrow> handler" where
  "http_GetAllTargets V c =
     with_page (sv_lib V) c (\<lambda>page pageSize.
     with_order (sv_lib V) c (\<lambda>orderBy.
     checked (user_filter c) (\<lambda>userID.
     checked (ValidateOptionalStringQuery (sv_lib V) c ''messenger_user_id'') (\<lambda>messengerUserID.
     answer any_error (GetAllTargets (sv_app V) page pageSize orderBy userID (filter_text messengerUserID))
       (\<lambda>(ts, totalCount).
     ok 200 (BTargets (TargetsModelToResponse ts) (page_of page pageSize totalCount)))))))"

definition http_UpdateTarget :: "http_server \<Rightarrow> http_request \<Rightarrow> update_target_body json \<Rightarrow> handler" where
  "http_UpdateTarget V c body =
     checked (key_param ''target'' c) (\<lambda>i.
     with_body (validation_text (sv_lib V)) no_rules body (\<lambda>req.
     answer (update_error (missing_row ''target'' i))
       (UpdateTarget (sv_app V) i (UpdateTargetRequestToModel req)) (\<lambda>t.
     ok 200 (BTarget (TargetModelToResponse t)))))"

definition http_DeleteTarget :: "http_server \<Rightarrow> http_request \<Rightarrow> handler" where
  "http_DeleteTarget V c =
     checked (key_param ''target'' c) (\<lambda>i.
     answer (get_error (missing_row ''target'' i)) (DeleteTarget (sv_app V) i) (\<lambda>_. ok 204 BNone))"

subsection \<open>Task groups\<close>

definition http_CreateTaskGroup :: "http_server \<Rightarrow> create_group_request json \<Rightarrow> handler" where
  "http_CreateTaskGroup V body =
     with_body (validation_text (sv_lib V)) create_group_rules body (\<lambda>req.
     answer create_error (CreateTaskGroup (sv_app V) (CreateTaskGroupRequestToModel req)) (\<lambda>i.
     ok 201 (BId i)))"

definition http_GetTaskGroup :: "http_server \<Rightarrow> http_request \<Rightarrow> handler" where
  "http_GetTaskGroup V c =
     checked (key_param ''task group'' c) (\<lambda>i.
     answer (get_error (missing_row ''task group'' i)) (GetTaskGroupByID i) (\<lambda>g.
     ok 200 (BGroup (TaskGroupModelToResponse g))))"

definition http_GetAllTaskGroups :: "http_server \<Rightarrow> http_request \<Rightarrow> handler" where
  "http_GetAllTaskGroups V c =
     with_page (sv_lib V) c (\<lambda>page pageSize.
     with_order (sv_lib V) c (\<lambda>orderBy.
     checked (user_filter c) (\<lambda>userID.
     answer any_error (GetAllTaskGroups (sv_app V) page pageSize orderBy userID) (\<lambda>(gs, totalCount).
     ok 200 (BGroups (TaskGroupsModelToResponse gs) (page_of page pageSize totalCount))))))"

definition http_UpdateTaskGroup :: "http_server \<Rightarrow> http_request \<Rightarrow> update_group_body json \<Rightarrow> handler" where
  "http_UpdateTaskGroup V c body =
     checked (key_param ''task group'' c) (\<lambda>i.
     with_body (validation_text (sv_lib V)) no_rules body (\<lambda>req.
     answer (update_error (missing_row ''task group'' i))
       (UpdateTaskGroup (sv_app V) i (UpdateTaskGroupRequestToModel req)) (\<lambda>g.
     ok 200 (BGroup (TaskGroupModelToResponse g)))))"

fun group_delete_error :: "int \<Rightarrow> err \<Rightarrow> reply" where
  "group_delete_error i (ErrNotFound m) = refused 404 (missing_row ''task group'' i)"
| "group_delete_error i (ErrConflict m) = refused_with 409 (ErrConflict m)"
| "group_delete_error i e = refused_with 500 e"

definition http_DeleteTaskGroup :: "http_server \<Rightarrow> http_request \<Rightarrow> handler" where
  "http_DeleteTaskGroup V c =
     checked (key_param ''task group'' c) (\<lambda>i.
     answer (group_delete_error i) (DeleteTaskGroup (sv_app V) i) (\<lambda>_. ok 204 BNone))"

subsection \<open>Digests\<close>

definition no_settings :: "int \<Rightarrow> string" where
  "no_settings userID = ''digest settings for user id '' @ backquoted (itoa userID) @ '' not found''"

text \<open>The user and the chat four handlers begin with.\<close>

definition with_settings_key :: "http_server \<Rightarrow> http_request \<Rightarrow> (int \<Rightarrow> int option \<Rightarrow> handler) \<Rightarrow> handler" where
  "with_settings_key V c k =
     checked (ValidateInt64Query (sv_lib V) c ''user_id'' 0 1) (\<lambda>userID.
     checked (opt_int_or ''invalid messenger_related_user_id parameter''
                (rq_Query c ''messenger_related_user_id'')) (\<lambda>chat. k userID chat))"

definition http_CreateDigestSettings :: "http_server \<Rightarrow> create_digest_request json \<Rightarrow> handler" where
  "http_CreateDigestSettings V body =
     with_body (validation_text (sv_lib V)) create_digest_rules body (\<lambda>req.
     answer create_error (CreateDigestSettings (sv_app V) (CreateDigestSettingsRequestToModel req)) (\<lambda>i.
     ok 201 (BId i)))"

definition http_GetDigestSettings :: "http_server \<Rightarrow> http_request \<Rightarrow> handler" where
  "http_GetDigestSettings V c =
     with_settings_key V c (\<lambda>userID chat.
     answer (get_error (no_settings userID)) (GetDigestSettings userID chat) (\<lambda>d.
     ok 200 (BDigestSettings (DigestSettingsModelToResponse d))))"

definition http_UpdateDigestSettings :: "http_server \<Rightarrow> http_request \<Rightarrow> update_digest_body json \<Rightarrow> handler" where
  "http_UpdateDigestSettings V c body =
     with_settings_key V c (\<lambda>userID chat.
     with_body (validation_text (sv_lib V)) no_rules body (\<lambda>req.
     answer (update_error (no_settings userID))
       (UpdateDigestSettings (sv_app V) userID chat (UpdateDigestSettingsRequestToModel req)) (\<lambda>d.
     ok 200 (BDigestSettings (DigestSettingsModelToResponse d)))))"

definition check_range :: "time option \<Rightarrow> time option \<Rightarrow> string + unit" where
  "check_range startDateFrom startDateTo =
     (case (startDateFrom, startDateTo) of
        (Some a, Some b) \<Rightarrow>
          (if a > b then Inl ''start_date_from must be before or equal to start_date_to''
           else if time_Sub b a > 365 * 24 * hour_ns then Inl ''date range cannot exceed 365 days''
           else Inr ())
      | _ \<Rightarrow> Inr ())"

definition http_GetDigest :: "http_server \<Rightarrow> http_request \<Rightarrow> handler" where
  "http_GetDigest V c =
     with_settings_key V c (\<lambda>userID chat.
     checked (ValidateOptionalStringQuery (sv_lib V) c ''messenger_user_id'') (\<lambda>messengerUserID.
     checked (ValidateOptionalTimeQuery (sv_lib V) c ''start_date_from'') (\<lambda>startDateFrom.
     checked (ValidateOptionalTimeQuery (sv_lib V) c ''start_date_to'') (\<lambda>startDateTo.
     checked (check_range startDateFrom startDateTo) (\<lambda>_.
     answer chat_create_error
       (GetDigest (sv_app V) userID chat (filter_text messengerUserID) startDateFrom startDateTo) (\<lambda>d.
     ok 200 (BDigest (DigestServiceResponseToDTO d))))))))"

definition http_GetAllDigestSettings :: "http_server \<Rightarrow> http_request \<Rightarrow> handler" where
  "http_GetAllDigestSettings V c =
     with_page (sv_lib V) c (\<lambda>page pageSize.
     with_order (sv_lib V) c (\<lambda>orderBy.
     checked (user_filter c) (\<lambda>userID.
     checked (ValidateOptionalStringQuery (sv_lib V) c ''messenger_user_id'') (\<lambda>messengerUserID.
     answer any_error
       (GetAllDigestSettings (sv_app V) page pageSize orderBy userID (filter_text messengerUserID))
       (\<lambda>(ds, totalCount).
     ok 200 (BAllDigestSettings (DigestSettingsModelsToResponse ds) (page_of page pageSize totalCount)))))))"

definition http_DeleteDigestSettings :: "http_server \<Rightarrow> http_request \<Rightarrow> handler" where
  "http_DeleteDigestSettings V c =
     with_settings_key V c (\<lambda>userID chat.
     answer (get_error (no_settings userID)) (DeleteDigestSettings (sv_app V) userID chat) (\<lambda>_.
     ok 204 BNone))"

end
