(* ===== verification/Http_Calendar.thy ===== *)
theory Http_Calendar
  imports Http_Lists
begin

text \<open>
  \<open>CalendarHandler\<close>, \<open>ICSHandler\<close> and \<open>AttachmentHandler\<close> (\<open>internal/api/handlers/calendar_handler.go\<close>,
  \<open>ics_handler.go\<close>, \<open>attachment_handler.go\<close>), and the probes of \<open>system_handler.go\<close>.
\<close>

subsection \<open>Google Calendar\<close>

text \<open>\<open>writeErr\<close>: a conflict has no case.\<close>

fun writeErr :: "err \<Rightarrow> reply" where
  "writeErr (ErrValidation m) = refused_with 400 (ErrValidation m)"
| "writeErr (ErrNotFound m) = refused_with 404 (ErrNotFound m)"
| "writeErr (ErrUnprocessableEntity m) = refused_with 422 (ErrUnprocessableEntity m)"
| "writeErr e = refused_with 500 e"

definition with_user :: "http_request \<Rightarrow> (int \<Rightarrow> handler) \<Rightarrow> handler" where
  "with_user c k = checked (positive_or ''invalid user_id'' (rq_Param c ''user_id'')) k"

definition http_StartOAuth :: "http_server \<Rightarrow> http_request \<Rightarrow> handler" where
  "http_StartOAuth V c =
     with_user c (\<lambda>userID.
     answer writeErr (in_cal (StartOAuth (sv_oauth V) userID)) (\<lambda>url. ok 200 (BUrl url)))"

text \<open>The code goes to Google, whose answers are \<open>A\<close>.\<close>

definition http_OAuthCallback :: "http_server \<Rightarrow> http_request \<Rightarrow> (string \<Rightarrow> oauth_answers) \<Rightarrow> handler" where
  "http_OAuthCallback V c A =
     (let code = rq_Query c ''code''; state = rq_Query c ''state'' in
      if code = [] \<or> state = [] then ret (refused 400 ''code and state are required'')
      else answer writeErr (in_cal (HandleOAuthCallback (sv_oauth V) (A code) state)) (\<lambda>account.
           ok 200 (BAccount (GoogleAccountToResponse account))))"

definition http_ListCalendars :: "http_server \<Rightarrow> http_request \<Rightarrow> handler" where
  "http_ListCalendars V c =
     with_user c (\<lambda>userID.
     answer writeErr (in_cal (ListGoogleCalendars (sv_sync V) userID)) (\<lambda>cs.
     ok 200 (BCalendars (GoogleCalendarsToResponse cs))))"

definition binding_request :: "int \<Rightarrow> create_binding_body \<Rightarrow> create_binding_request" where
  "binding_request userID r =
     \<lparr>cr_UserID = userID, cr_GoogleCalendarID = cbb_GoogleCalendarID r,
      cr_CalendarSummary = cbb_CalendarSummary r,
      cr_Direction = (if cbb_Direction r = [] then CalendarBindingDirectionImport else cbb_Direction r),
      cr_GroupID = cbb_GroupID r, cr_MessengerRelatedUserID = cbb_MessengerRelatedUserID r,
      cr_DeletePolicy = (if cbb_DeletePolicy r = [] then CalendarDeletePolicySoftDeleteImported
                         else cbb_DeletePolicy r)\<rparr>"

definition http_CreateBinding :: "http_server \<Rightarrow> http_request \<Rightarrow> create_binding_body json \<Rightarrow> handler" where
  "http_CreateBinding V c body =
     with_user c (\<lambda>userID.
     with_body (validation_text (sv_lib V)) create_binding_rules body (\<lambda>req.
     answer writeErr (in_cal (CreateBinding (binding_request userID req))) (\<lambda>b.
     ok 201 (BBinding (CalendarBindingToResponse b)))))"

definition http_ListBindings :: "http_server \<Rightarrow> http_request \<Rightarrow> handler" where
  "http_ListBindings V c =
     with_user c (\<lambda>userID.
     answer writeErr (in_cal (binding_ListByUserID userID)) (\<lambda>bs.
     ok 200 (BBindings (CalendarBindingsToResponse bs))))"

text \<open>A binding of the path has to be one of the user of the path.\<close>

definition with_own_binding :: "http_request \<Rightarrow> (int \<Rightarrow> handler) \<Rightarrow> handler" where
  "with_own_binding c k =
     with_user c (\<lambda>userID.
     checked (positive_or ''invalid binding_id'' (rq_Param c ''binding_id'')) (\<lambda>bindingID.
     answer writeErr (in_cal (binding_ListByUserID userID)) (\<lambda>bs.
     if \<not> list_ex (\<lambda>b. cb_ID b = bindingID) bs then ret (refused 404 ''binding not found for user'')
     else k bindingID)))"

definition http_DeleteBinding :: "http_server \<Rightarrow> http_request \<Rightarrow> handler" where
  "http_DeleteBinding V c =
     with_own_binding c (\<lambda>bindingID.
     answer writeErr (in_cal (DeleteBinding (sv_sync V) bindingID)) (\<lambda>_. ok 204 BNone))"

definition http_ForceSync :: "http_server \<Rightarrow> http_request \<Rightarrow> handler" where
  "http_ForceSync V c =
     with_own_binding c (\<lambda>bindingID.
     answer writeErr (in_cal (SyncBinding (sv_sync V) bindingID)) (\<lambda>_. ok 202 (BStatus ''synced'')))"

definition http_GetSyncStatus :: "http_server \<Rightarrow> http_request \<Rightarrow> handler" where
  "http_GetSyncStatus V c =
     with_user c (\<lambda>userID.
     answer writeErr (in_cal (GetSyncStatus userID)) (\<lambda>s.
     ok 200 (BSyncStatus (CalendarBindingsToResponse (cs_Bindings s)) (cs_Pending s) (cs_Processing s)
               (cs_Failed s))))"

definition http_Disconnect :: "http_server \<Rightarrow> http_request \<Rightarrow> handler" where
  "http_Disconnect V c =
     with_user c (\<lambda>userID.
     answer writeErr (in_cal (DisconnectGoogle (sv_sync V) userID)) (\<lambda>_. ok 204 BNone))"

definition http_EnableTaskExport :: "http_server \<Rightarrow> http_request \<Rightarrow> enable_export_body json \<Rightarrow> handler" where
  "http_EnableTaskExport V c body =
     checked (positive_or ''invalid task id'' (rq_Param c ''id'')) (\<lambda>taskID.
     with_body (validation_text (sv_lib V)) enable_export_rules body (\<lambda>req.
     answer writeErr (in_cal (EnableTaskExport (sv_sync V) taskID (eeb_CalendarBindingID req))) (\<lambda>l.
     ok 200 (BExternal (TaskSyncLinkToExternalResponse l)))))"

definition http_GetTaskExternal :: "http_server \<Rightarrow> http_request \<Rightarrow> handler" where
  "http_GetTaskExternal V c =
     checked (positive_or ''invalid task id'' (rq_Param c ''id'')) (\<lambda>taskID.
     answer writeErr (GetTaskExternal taskID) (\<lambda>l.
     ok 200 (BExternal (TaskSyncLinkToExternalResponse l))))"

subsection \<open>ICS import\<close>

text \<open>The uploaded file: missing, one that cannot be opened, or its parse by the calendar library.\<close>

datatype ics_upload = NoFile | NotOpened | Opened "string + vcalendar"

definition positive_field :: "string \<Rightarrow> string \<Rightarrow> string + int option" where
  "positive_field m raw =
     (if raw = [] then Inr None
      else (case positive_or m raw of Inl e \<Rightarrow> Inl e | Inr n \<Rightarrow> Inr (Some n)))"

definition opened :: "ics_upload \<Rightarrow> string + (string + vcalendar)" where
  "opened f = (case f of
      NoFile \<Rightarrow> Inl ''file is required'' | NotOpened \<Rightarrow> Inl ''unable to open uploaded file'' | Opened x \<Rightarrow> Inr x)"

definition http_Import :: "http_server \<Rightarrow> http_request \<Rightarrow> ics_upload \<Rightarrow> handler" where
  "http_Import V c file =
     with_user c (\<lambda>userID.
     checked (if file = NoFile then Inl ''file is required'' else Inr ()) (\<lambda>_.
     checked (positive_field ''invalid group_id'' (rq_PostForm c ''group_id'')) (\<lambda>gid.
     checked (positive_field ''invalid messenger_related_user_id'' (rq_PostForm c ''messenger_related_user_id''))
       (\<lambda>mru.
     checked (opened file) (\<lambda>f.
     answer writeErr
       (ics_Import (sv_task V) f
          \<lparr>io_UserID = userID, io_GroupID = gid, io_MessengerRelatedUserID = mru\<rparr>) (\<lambda>res.
     ok 200 (BImport (im_CreatedTaskIDs res) (im_SkippedTODO res) (im_Errors res)
               (int (length (im_CreatedTaskIDs res))))))))))"

subsection \<open>Attachments\<close>

definition attachments_disabled :: reply where
  "attachments_disabled =
     Reply 503 (BProblem ''attachments_disabled'' ''Attachment storage is disabled in this deployment'')"

definition proxy_download_disabled :: reply where
  "proxy_download_disabled =
     Reply 503 (BProblem ''proxy_download_disabled''
       ''Proxy download is disabled; use GET .../attachments/{attachment_id}/download for a presigned URL'')"

definition attachments_unavailable :: reply where
  "attachments_unavailable =
     Reply 503 (BProblem ''attachments_unavailable'' ''Attachment service is temporarily unavailable'')"

definition too_large :: "string \<Rightarrow> reply" where
  "too_large m = Reply 413 (BProblem ''file_too_large'' m)"

fun mapAttachmentError :: "att_error \<Rightarrow> reply" where
  "mapAttachmentError AttDisabled = attachments_disabled"
| "mapAttachmentError (AttUnavailable m) = attachments_unavailable"
| "mapAttachmentError AttNotFound = refused 404 (att_error_text AttNotFound)"
| "mapAttachmentError (AttPayloadTooLarge m) = too_large ''use GET .../download for presigned download''"
| "mapAttachmentError (AttValidation m) = refused 400 (att_error_text (AttValidation m))"
| "mapAttachmentError (AttConflict m) = refused 409 (att_error_text (AttConflict m))"

definition withTask :: "http_server \<Rightarrow> http_request \<Rightarrow> (int \<Rightarrow> handler) \<Rightarrow> handler" where
  "withTask V c k =
     (if \<not> sv_attachments V then ret attachments_disabled
      else checked (int_or ''invalid task id'' (rq_Param c ''id'')) k)"

text \<open>A call of the client.\<close>

definition asked :: "att_error + 'a \<Rightarrow> ('a \<Rightarrow> handler) \<Rightarrow> handler" where
  "asked r k = (case r of Inl e \<Rightarrow> ret (mapAttachmentError e) | Inr x \<Rightarrow> k x)"

definition initPresigned :: "http_server \<Rightarrow> http_request \<Rightarrow> init_attachment_request json \<Rightarrow> handler" where
  "initPresigned V c body =
     withTask V c (\<lambda>taskID.
     with_body (validation_text (sv_lib V)) init_attachment_rules body (\<lambda>req.
     answer mute_error (in_task (GetTask taskID)) (\<lambda>task.
     asked (InitUpload (sv_client V)
              \<lparr>iu_TaskID = taskID, iu_UserID = UserID task, iu_OriginalName = ia_OriginalName req,
               iu_ContentType = ia_ContentType req, iu_SizeBytes = ia_SizeBytes req,
               iu_IdempotencyKey = ia_IdempotencyKey req\<rparr>) (\<lambda>res.
     ok 201 (BUpload res)))))"

text \<open>The file of a multipart upload, with the size its header states and what reading it gives.\<close>

record upload_file =
  uf_Filename :: string
  uf_Size :: int
  uf_ContentType :: string
  uf_opened :: "string + string json"

definition history_meta :: "attachment option \<Rightarrow> AttachmentHistoryMeta" where
  "history_meta a = AttachmentHistoryMetaFromModel
     (map_option (\<lambda>x. (at_ID x, at_OriginalName x, at_ContentType x, at_SizeBytes x)) a)"

text \<open>\<open>attachmentResponse\<close> dereferences the pointer.\<close>

definition attachmentResponse :: "int \<Rightarrow> attachment option \<Rightarrow> handler" where
  "attachmentResponse status a =
     (case a of
        None \<Rightarrow> lift_outcome (Panic ''nil pointer dereference'')
      | Some x \<Rightarrow> ok status (BAttachment (attachment_to_response x)))"

definition default_type :: "string \<Rightarrow> string" where
  "default_type ct = (if ct = [] then ''application/octet-stream'' else ct)"

definition upload_too_large :: reply where
  "upload_too_large =
     too_large ''use JSON init + presigned upload for files larger than direct upload limit''"

text \<open>\<open>io.LimitReader\<close> stops one byte behind the limit.\<close>

definition limited :: "int \<Rightarrow> string \<Rightarrow> string" where
  "limited n s = take (nat n) s"

definition uploadDirect :: "http_server \<Rightarrow> http_request \<Rightarrow> upload_file option \<Rightarrow> handler" where
  "uploadDirect V c file =
     withTask V c (\<lambda>taskID.
     case file of
       None \<Rightarrow> ret (refused 400 ''file field is required'')
     | Some f \<Rightarrow>
         (if uf_Size f > sv_directUploadMaxBytes V then ret upload_too_large
          else checked (uf_opened f) (\<lambda>reading.
          checked (map_sum id (limited (sv_directUploadMaxBytes V + 1)) reading) (\<lambda>payload.
          if int (length payload) > sv_directUploadMaxBytes V then ret upload_too_large
          else answer mute_error (in_task (GetTask taskID)) (\<lambda>task.
          asked (UploadDirect (sv_client V)
                   \<lparr>ud_TaskID = taskID, ud_UserID = UserID task, ud_OriginalName = uf_Filename f,
                    ud_ContentType = default_type (uf_ContentType f), ud_Data = payload,
                    ud_IdempotencyKey = rq_PostForm c ''idempotency_key''\<rparr>) (\<lambda>att.
          bindE (in_task (RecordAttachmentAdded (sv_task V) taskID (UserID task) (history_meta att))) (\<lambda>_.
          attachmentResponse 201 att)))))))"

definition http_CreateAttachment ::
  "http_server \<Rightarrow> http_request \<Rightarrow> init_attachment_request json \<Rightarrow> upload_file option \<Rightarrow> handler" where
  "http_CreateAttachment V c body file =
     (if prefix ''multipart/form-data'' (rq_Header c ''Content-Type'') then uploadDirect V c file
      else initPresigned V c body)"

definition http_CompleteUpload :: "http_server \<Rightarrow> http_request \<Rightarrow> handler" where
  "http_CompleteUpload V c =
     withTask V c (\<lambda>taskID.
     answer mute_error (in_task (GetTask taskID)) (\<lambda>task.
     asked (CompleteUpload (sv_client V) taskID (rq_Param c ''attachment_id'')) (\<lambda>att.
     bindE (in_task (RecordAttachmentAdded (sv_task V) taskID (UserID task) (history_meta att))) (\<lambda>_.
     attachmentResponse 200 att))))"

definition http_ListAttachments :: "http_server \<Rightarrow> http_request \<Rightarrow> handler" where
  "http_ListAttachments V c =
     withTask V c (\<lambda>taskID.
     answer mute_error (in_task (GetTask taskID)) (\<lambda>_.
     asked (ListAttachments (sv_client V) taskID) (\<lambda>xs.
     ok 200 (BAttachments (AttachmentsToResponse xs)))))"

definition http_GetDownloadURL :: "http_server \<Rightarrow> http_request \<Rightarrow> handler" where
  "http_GetDownloadURL V c =
     withTask V c (\<lambda>taskID.
     asked (GetDownloadURL (sv_client V) taskID (rq_Param c ''attachment_id'')) (\<lambda>u.
     ok 200 (BDownload (du_DownloadURL u) (du_ExpiresAt u))))"

text \<open>The body is the file with its name and type; how a name is printed in a header is \<open>mime\<close>'s.\<close>

definition http_GetAttachmentContent :: "http_server \<Rightarrow> http_request \<Rightarrow> handler" where
  "http_GetAttachmentContent V c =
     (if \<not> sv_attachments V then ret attachments_disabled
      else if \<not> sv_proxyDownloadEnabled V then ret proxy_download_disabled
      else withTask V c (\<lambda>taskID.
        answer mute_error (in_task (GetTask taskID)) (\<lambda>_.
        asked (DownloadDirect (sv_client V) taskID (rq_Param c ''attachment_id'')) (\<lambda>res.
        if dl_SizeBytes res > sv_proxyDownloadMaxBytes V
        then ret (too_large ''use GET .../download for presigned download'')
        else ok 200 (BContent (if dl_OriginalName res = [] then ''attachment'' else dl_OriginalName res)
               (default_type (dl_ContentType res)) (dl_Data res))))))"

text \<open>What is recorded of a removed attachment is looked up before it is removed.\<close>

definition attachmentHistoryMeta :: "http_server \<Rightarrow> int \<Rightarrow> string \<Rightarrow> AttachmentHistoryMeta" where
  "attachmentHistoryMeta V taskID attID =
     (let meta = \<lparr>AttachmentID = attID, OriginalName = [], ContentType = [], SizeBytes = 0\<rparr> in
      case ListAttachments (sv_client V) taskID of
        Inl _ \<Rightarrow> meta
      | Inr xs \<Rightarrow> (case find (\<lambda>a. at_ID a = attID) xs of
                    None \<Rightarrow> meta | Some a \<Rightarrow> history_meta (Some a)))"

definition http_DeleteAttachment :: "http_server \<Rightarrow> http_request \<Rightarrow> handler" where
  "http_DeleteAttachment V c =
     withTask V c (\<lambda>taskID.
     let attID = rq_Param c ''attachment_id'' in
     answer mute_error (in_task (GetTask taskID)) (\<lambda>task.
     let meta = attachmentHistoryMeta V taskID attID in
     case DeleteAttachment (sv_client V) taskID attID of
       Some e \<Rightarrow> ret (mapAttachmentError e)
     | None \<Rightarrow>
         bindE (in_task (RecordAttachmentRemoved (sv_task V) taskID (UserID task) meta)) (\<lambda>_.
         ok 204 BNone)))"

subsection \<open>Probes\<close>

definition http_Version :: "http_server \<Rightarrow> handler" where
  "http_Version V = ok 200 (BVersion (sv_version V))"

definition http_HealthCheck :: handler where
  "http_HealthCheck = ok 200 (BStatus ''alive'')"

text \<open>The check: none, passed, or failed with a text.\<close>

definition http_Ready :: "string option option \<Rightarrow> handler" where
  "http_Ready check =
     (case check of
        None \<Rightarrow> ok 200 (BStatus ''ready'')
      | Some None \<Rightarrow> ok 200 (BStatus ''ready'')
      | Some (Some reason) \<Rightarrow> ok 503 (BNotReady reason))"

end
