(* ===== verification/Http_Server.thy ===== *)
theory Http_Server
  imports Http_Calendar
begin

text \<open>
  The server: the middleware of \<open>internal/api/middleware\<close>, the routes of \<open>internal/api/routes\<close>, and one
  request from the first middleware to the reply.

  A call is a route with the body the client sent; \<open>route_of\<close> is the method and the pattern it is registered
  under.  Finding the route of a path, and reading the parameters in it, is left to Gin.  The order of the
  middleware is the one of \<open>cmd/core/main.go\<close>.  Access logs, traces and metrics change neither state nor
  reply; the rate limiter is a library, of which the parameters it is made with are given.
\<close>

subsection \<open>Calls and routes\<close>

datatype (plugins only:) call =
    CallCreateTask "create_task_request json"
  | CallGetTask
  | CallGetAllTasks
  | CallGetUserTasks
  | CallUpdateTask "update_task_request json"
  | CallDeleteTask
  | CallQueueTask "queue_task_request json"
  | CallMarkTaskAsDone "bool option raw_body"
  | CallMuteTask
  | CallUnmuteTask
  | CallGetTaskHistory
  | CallGetUserTaskHistory
  | CallInventory
  | CallCreateUser "create_user_request json"
  | CallGetUser
  | CallUpdateUser "update_user_body json"
  | CallDeleteUser
  | CallGetAllUsers
  | CallActivity
  | CallCreateMessenger "create_messenger_request json"
  | CallGetMessenger
  | CallGetMessengerIDByName
  | CallCreateChat "create_chat_request json"
  | CallGetChat
  | CallGetUserID
  | CallGetAllMessengers
  | CallGetAllChats
  | CallCreateBacklog "create_backlog_request json"
  | CallCreateBatch "create_batch_request json"
  | CallGetBacklog
  | CallGetAllBacklogs
  | CallUpdateBacklog "update_backlog_body json"
  | CallDeleteBacklog
  | CallCreateTarget "create_target_request json"
  | CallGetTarget
  | CallGetAllTargets
  | CallUpdateTarget "update_target_body json"
  | CallDeleteTarget
  | CallCreateGroup "create_group_request json"
  | CallGetGroup
  | CallGetAllGroups
  | CallUpdateGroup "update_group_body json"
  | CallDeleteGroup
  | CallCreateDigest "create_digest_request json"
  | CallGetDigestSettings
  | CallUpdateDigest "update_digest_body json"
  | CallGetDigest
  | CallGetAllDigests
  | CallDeleteDigest
  | CallImport ics_upload
  | CallAttachments
  | CallCreateAttachment "init_attachment_request json" "upload_file option"
  | CallCompleteUpload
  | CallDownloadURL
  | CallContent
  | CallDeleteAttachment
  | CallStartOAuth
  | CallOAuthCallback "string \<Rightarrow> oauth_answers"
  | CallListCalendars
  | CallCreateBinding "create_binding_body json"
  | CallListBindings
  | CallDeleteBinding
  | CallForceSync
  | CallSyncStatus
  | CallDisconnect
  | CallEnableExport "enable_export_body json"
  | CallTaskExternal
  | CallVersion
  | CallHealth
  | CallReady "string option option"

fun is_calendar_call :: "call \<Rightarrow> bool" where
  "is_calendar_call CallStartOAuth = True"
| "is_calendar_call (CallOAuthCallback A) = True"
| "is_calendar_call CallListCalendars = True"
| "is_calendar_call (CallCreateBinding b) = True"
| "is_calendar_call CallListBindings = True"
| "is_calendar_call CallDeleteBinding = True"
| "is_calendar_call CallForceSync = True"
| "is_calendar_call CallSyncStatus = True"
| "is_calendar_call CallDisconnect = True"
| "is_calendar_call (CallEnableExport b) = True"
| "is_calendar_call CallTaskExternal = True"
| "is_calendar_call _ = False"

definition api :: "string \<Rightarrow> string" where "api p = ''/api/v1'' @ p"

primrec route_of :: "call \<Rightarrow> string \<times> string" where
  "route_of (CallCreateTask b) = (''POST'', api ''/tasks'')"
| "route_of CallGetTask = (''GET'', api ''/tasks/:id'')"
| "route_of CallGetAllTasks = (''GET'', api ''/tasks'')"
| "route_of CallGetUserTasks = (''GET'', api ''/users/:user_id/tasks'')"
| "route_of (CallUpdateTask b) = (''PUT'', api ''/tasks/:id'')"
| "route_of CallDeleteTask = (''DELETE'', api ''/tasks/:id'')"
| "route_of (CallQueueTask b) = (''POST'', api ''/tasks/queue'')"
| "route_of (CallMarkTaskAsDone b) = (''POST'', api ''/tasks/:id/done'')"
| "route_of CallMuteTask = (''POST'', api ''/tasks/:id/mute'')"
| "route_of CallUnmuteTask = (''POST'', api ''/tasks/:id/unmute'')"
| "route_of CallGetTaskHistory = (''GET'', api ''/tasks/:id/history'')"
| "route_of CallGetUserTaskHistory = (''GET'', api ''/users/:user_id/tasks/history'')"
| "route_of CallInventory = (''GET'', api ''/internal/schedulable-inventory'')"
| "route_of (CallCreateUser b) = (''POST'', api ''/users'')"
| "route_of CallGetUser = (''GET'', api ''/users/:user_id'')"
| "route_of (CallUpdateUser b) = (''PUT'', api ''/users/:user_id'')"
| "route_of CallDeleteUser = (''DELETE'', api ''/users/:user_id'')"
| "route_of CallGetAllUsers = (''GET'', api ''/users'')"
| "route_of CallActivity = (''GET'', api ''/users/activity'')"
| "route_of (CallCreateMessenger b) = (''POST'', api ''/messengers'')"
| "route_of CallGetMessenger = (''GET'', api ''/messengers/:messenger_id'')"
| "route_of CallGetMessengerIDByName = (''GET'', api ''/messengers/by-name/:messenger_name'')"
| "route_of (CallCreateChat b) = (''POST'', api ''/messengerRelatedUsers'')"
| "route_of CallGetChat = (''GET'', api ''/messengerRelatedUsers'')"
| "route_of CallGetUserID = (''GET'', api ''/messengerRelatedUsers/:messenger_user_id/user'')"
| "route_of CallGetAllMessengers = (''GET'', api ''/messengers'')"
| "route_of CallGetAllChats = (''GET'', api ''/messengerRelatedUsers/all'')"
| "route_of (CallCreateBacklog b) = (''POST'', api ''/backlogs'')"
| "route_of (CallCreateBatch b) = (''POST'', api ''/backlogs/batch'')"
| "route_of CallGetBacklog = (''GET'', api ''/backlogs/:id'')"
| "route_of CallGetAllBacklogs = (''GET'', api ''/backlogs'')"
| "route_of (CallUpdateBacklog b) = (''PUT'', api ''/backlogs/:id'')"
| "route_of CallDeleteBacklog = (''DELETE'', api ''/backlogs/:id'')"
| "route_of (CallCreateTarget b) = (''POST'', api ''/targets'')"
| "route_of CallGetTarget = (''GET'', api ''/targets/:id'')"
| "route_of CallGetAllTargets = (''GET'', api ''/targets'')"
| "route_of (CallUpdateTarget b) = (''PUT'', api ''/targets/:id'')"
| "route_of CallDeleteTarget = (''DELETE'', api ''/targets/:id'')"
| "route_of (CallCreateGroup b) = (''POST'', api ''/task-groups'')"
| "route_of CallGetGroup = (''GET'', api ''/task-groups/:id'')"
| "route_of CallGetAllGroups = (''GET'', api ''/task-groups'')"
| "route_of (CallUpdateGroup b) = (''PUT'', api ''/task-groups/:id'')"
| "route_of CallDeleteGroup = (''DELETE'', api ''/task-groups/:id'')"
| "route_of (CallCreateDigest b) = (''POST'', api ''/digests/settings'')"
| "route_of CallGetDigestSettings = (''GET'', api ''/digests/settings'')"
| "route_of (CallUpdateDigest b) = (''PUT'', api ''/digests/settings'')"
| "route_of CallGetDigest = (''GET'', api ''/digests'')"
| "route_of CallGetAllDigests = (''GET'', api ''/digests/settings/all'')"
| "route_of CallDeleteDigest = (''DELETE'', api ''/digests/settings'')"
| "route_of (CallImport f) = (''POST'', api ''/users/:user_id/ics/import'')"
| "route_of CallAttachments = (''GET'', api ''/tasks/:id/attachments'')"
| "route_of (CallCreateAttachment b f) = (''POST'', api ''/tasks/:id/attachments'')"
| "route_of CallCompleteUpload = (''POST'', api ''/tasks/:id/attachments/:attachment_id/complete'')"
| "route_of CallDownloadURL = (''GET'', api ''/tasks/:id/attachments/:attachment_id/download'')"
| "route_of CallContent = (''GET'', api ''/tasks/:id/attachments/:attachment_id/content'')"
| "route_of CallDeleteAttachment = (''DELETE'', api ''/tasks/:id/attachments/:attachment_id'')"
| "route_of CallStartOAuth = (''GET'', api ''/users/:user_id/calendar/oauth/start'')"
| "route_of (CallOAuthCallback A) = (''GET'', api ''/calendar/oauth/callback'')"
| "route_of CallListCalendars = (''GET'', api ''/users/:user_id/calendar/calendars'')"
| "route_of (CallCreateBinding b) = (''POST'', api ''/users/:user_id/calendar/bindings'')"
| "route_of CallListBindings = (''GET'', api ''/users/:user_id/calendar/bindings'')"
| "route_of CallDeleteBinding = (''DELETE'', api ''/users/:user_id/calendar/bindings/:binding_id'')"
| "route_of CallForceSync = (''POST'', api ''/users/:user_id/calendar/bindings/:binding_id/sync'')"
| "route_of CallSyncStatus = (''GET'', api ''/users/:user_id/calendar/sync-status'')"
| "route_of CallDisconnect = (''DELETE'', api ''/users/:user_id/calendar/disconnect'')"
| "route_of (CallEnableExport b) = (''POST'', api ''/tasks/:id/calendar/export'')"
| "route_of CallTaskExternal = (''GET'', api ''/tasks/:id/calendar/external'')"
| "route_of CallVersion = (''GET'', ''/version'')"
| "route_of CallHealth = (''GET'', ''/healthcheck'')"
| "route_of (CallReady check) = (''GET'', ''/ready'')"

primrec dispatch :: "http_server \<Rightarrow> http_request \<Rightarrow> call \<Rightarrow> handler" where
  "dispatch V c (CallCreateTask b) = http_CreateTask V b"
| "dispatch V c CallGetTask = http_GetTask V c"
| "dispatch V c CallGetAllTasks = http_GetAllTasks V c"
| "dispatch V c CallGetUserTasks = http_GetUserTasks V c"
| "dispatch V c (CallUpdateTask b) = http_UpdateTask V c b"
| "dispatch V c CallDeleteTask = http_DeleteTask V c"
| "dispatch V c (CallQueueTask b) = http_QueueTask V b"
| "dispatch V c (CallMarkTaskAsDone b) = http_MarkTaskAsDone V c b"
| "dispatch V c CallMuteTask = http_MuteTask V c"
| "dispatch V c CallUnmuteTask = http_UnmuteTask V c"
| "dispatch V c CallGetTaskHistory = http_GetTaskHistory V c"
| "dispatch V c CallGetUserTaskHistory = http_GetUserTaskHistory V c"
| "dispatch V c CallInventory = http_GetSchedulableInventory"
| "dispatch V c (CallCreateUser b) = http_CreateUser V b"
| "dispatch V c CallGetUser = http_GetUser V c"
| "dispatch V c (CallUpdateUser b) = http_UpdateUser V c b"
| "dispatch V c CallDeleteUser = http_DeleteUser V c"
| "dispatch V c CallGetAllUsers = http_GetAllUsers V c"
| "dispatch V c CallActivity = http_GetRecentUserActivity V c"
| "dispatch V c (CallCreateMessenger b) = http_CreateMessenger V b"
| "dispatch V c CallGetMessenger = http_GetMessenger V c"
| "dispatch V c CallGetMessengerIDByName = http_GetMessengerIDByName V c"
| "dispatch V c (CallCreateChat b) = http_CreateMessengerRelatedUser V b"
| "dispatch V c CallGetChat = http_GetMessengerRelatedUser V c"
| "dispatch V c CallGetUserID = http_GetUserID V c"
| "dispatch V c CallGetAllMessengers = http_GetAllMessengers V c"
| "dispatch V c CallGetAllChats = http_GetAllMessengerRelatedUsers V c"
| "dispatch V c (CallCreateBacklog b) = http_CreateBacklog V b"
| "dispatch V c (CallCreateBatch b) = http_CreateBacklogsBatch V b"
| "dispatch V c CallGetBacklog = http_GetBacklog V c"
| "dispatch V c CallGetAllBacklogs = http_GetAllBacklogs V c"
| "dispatch V c (CallUpdateBacklog b) = http_UpdateBacklog V c b"
| "dispatch V c CallDeleteBacklog = http_DeleteBacklog V c"
| "dispatch V c (CallCreateTarget b) = http_CreateTarget V b"
| "dispatch V c CallGetTarget = http_GetTarget V c"
| "dispatch V c CallGetAllTargets = http_GetAllTargets V c"
| "dispatch V c (CallUpdateTarget b) = http_UpdateTarget V c b"
| "dispatch V c CallDeleteTarget = http_DeleteTarget V c"
| "dispatch V c (CallCreateGroup b) = http_CreateTaskGroup V b"
| "dispatch V c CallGetGroup = http_GetTaskGroup V c"
| "dispatch V c CallGetAllGroups = http_GetAllTaskGroups V c"
| "dispatch V c (CallUpdateGroup b) = http_UpdateTaskGroup V c b"
| "dispatch V c CallDeleteGroup = http_DeleteTaskGroup V c"
| "dispatch V c (CallCreateDigest b) = http_CreateDigestSettings V b"
| "dispatch V c CallGetDigestSettings = http_GetDigestSettings V c"
| "dispatch V c (CallUpdateDigest b) = http_UpdateDigestSettings V c b"
| "dispatch V c CallGetDigest = http_GetDigest V c"
| "dispatch V c CallGetAllDigests = http_GetAllDigestSettings V c"
| "dispatch V c CallDeleteDigest = http_DeleteDigestSettings V c"
| "dispatch V c (CallImport f) = http_Import V c f"
| "dispatch V c CallAttachments = http_ListAttachments V c"
| "dispatch V c (CallCreateAttachment b f) = http_CreateAttachment V c b f"
| "dispatch V c CallCompleteUpload = http_CompleteUpload V c"
| "dispatch V c CallDownloadURL = http_GetDownloadURL V c"
| "dispatch V c CallContent = http_GetAttachmentContent V c"
| "dispatch V c CallDeleteAttachment = http_DeleteAttachment V c"
| "dispatch V c CallStartOAuth = http_StartOAuth V c"
| "dispatch V c (CallOAuthCallback A) = http_OAuthCallback V c A"
| "dispatch V c CallListCalendars = http_ListCalendars V c"
| "dispatch V c (CallCreateBinding b) = http_CreateBinding V c b"
| "dispatch V c CallListBindings = http_ListBindings V c"
| "dispatch V c CallDeleteBinding = http_DeleteBinding V c"
| "dispatch V c CallForceSync = http_ForceSync V c"
| "dispatch V c CallSyncStatus = http_GetSyncStatus V c"
| "dispatch V c CallDisconnect = http_Disconnect V c"
| "dispatch V c (CallEnableExport b) = http_EnableTaskExport V c b"
| "dispatch V c CallTaskExternal = http_GetTaskExternal V c"
| "dispatch V c CallVersion = http_Version V"
| "dispatch V c CallHealth = http_HealthCheck"
| "dispatch V c (CallReady check) = http_Ready check"

subsection \<open>Middleware\<close>

record api_key_config =
  ak_Enabled :: bool
  ak_APIKey :: string

definition APIKeyMiddleware :: "api_key_config \<Rightarrow> http_request \<Rightarrow> handler \<Rightarrow> handler" where
  "APIKeyMiddleware cfg c continue =
     (if \<not> ak_Enabled cfg then continue
      else if rq_Path c \<in> {''/healthcheck'', ''/ready'', ''/version''} then continue
      else (let got = rq_Header c ''X-API-Key'' in
        if got = [] \<or> got \<noteq> ak_APIKey cfg then ret (refused 401 ''invalid or missing API key'')
        else continue))"

record cors_config =
  co_Enabled :: bool
  co_AllowOrigins :: "string list"
  co_AllowMethods :: "string list"
  co_AllowHeaders :: "string list"
  co_ExposeHeaders :: "string list"
  co_AllowCredentials :: bool
  co_MaxAge :: int

text \<open>\<open>joinStrings\<close>: a loop that appends to the first string.\<close>

definition joinStrings :: "string list \<Rightarrow> string \<Rightarrow> string" where
  "joinStrings strs sep = (case strs of [] \<Rightarrow> [] | s # rest \<Rightarrow> foldl (\<lambda>acc x. acc @ sep @ x) s rest)"

definition cors_origin :: "cors_config \<Rightarrow> string \<Rightarrow> string option" where
  "cors_origin cfg origin =
     (case find (\<lambda>allowed. allowed = ''*'' \<or> allowed = origin) (co_AllowOrigins cfg) of
        Some allowed \<Rightarrow> Some allowed
      | None \<Rightarrow> (if co_AllowOrigins cfg = [] then None else Some (hd (co_AllowOrigins cfg))))"

definition cors_headers :: "cors_config \<Rightarrow> http_request \<Rightarrow> (string \<times> string) list" where
  "cors_headers cfg c =
     (case cors_origin cfg (rq_Header c ''Origin'') of
        None \<Rightarrow> [] | Some allowed \<Rightarrow> [(''Access-Control-Allow-Origin'', allowed)]) @
     [(''Access-Control-Allow-Methods'',
       joinStrings (if co_AllowMethods cfg = [] then [''GET'', ''POST'', ''PUT'', ''DELETE'', ''OPTIONS'', ''PATCH'']
                    else co_AllowMethods cfg) '', ''),
      (''Access-Control-Allow-Headers'',
       joinStrings (if co_AllowHeaders cfg = [] then [''Content-Type'', ''Authorization'', ''X-Request-ID'']
                    else co_AllowHeaders cfg) '', '')] @
     (if co_ExposeHeaders cfg = [] then []
      else [(''Access-Control-Expose-Headers'', joinStrings (co_ExposeHeaders cfg) '', '')]) @
     (if co_AllowCredentials cfg then [(''Access-Control-Allow-Credentials'', ''true'')] else []) @
     (if co_MaxAge cfg > 0 then [(''Access-Control-Max-Age'', itoa (co_MaxAge cfg))] else [])"

text \<open>A preflight request ends here.\<close>

definition CorsMiddleware :: "cors_config \<Rightarrow> http_request \<Rightarrow> handler \<Rightarrow> handler" where
  "CorsMiddleware cfg c continue =
     (if \<not> co_Enabled cfg then continue
      else if rq_Method c = ''OPTIONS'' then ret (Reply 204 BNone)
      else continue)"

record rate_limit_config =
  rl_Enabled :: bool
  rl_Requests :: int
  rl_Window :: int

text \<open>What the token bucket is made with; \<open>None\<close> is a middleware that does nothing.\<close>

definition RateLimitMiddleware :: "rate_limit_config \<Rightarrow> (int \<times> int) option" where
  "RateLimitMiddleware cfg =
     (if \<not> rl_Enabled cfg then None
      else Some (if rl_Requests cfg \<le> 0 then 100 else rl_Requests cfg,
                 if rl_Window cfg \<le> 0 then minute_ns else rl_Window cfg))"

text \<open>The identifier of a request, given the one that would be drawn.\<close>

definition RequestIDMiddleware :: "http_request \<Rightarrow> string \<Rightarrow> string" where
  "RequestIDMiddleware c drawn =
     (let requestID = rq_Header c ''X-Request-ID'' in if requestID = [] then drawn else requestID)"

datatype log_level = LogInfo | LogWarn | LogError

definition access_level :: "int \<Rightarrow> log_level" where
  "access_level status = (if status \<ge> 500 then LogError else if status \<ge> 400 then LogWarn else LogInfo)"

subsection \<open>A request\<close>

record http_config =
  hc_cors :: cors_config
  hc_key :: api_key_config

text \<open>\<open>gin.Default\<close> comes with a middleware that answers a panic.\<close>

definition Recovery :: "handler \<Rightarrow> handler" where
  "Recovery h = (\<lambda>u. case h u of
      (Panic p, u') \<Rightarrow> (Ok (Reply 500 BNone), u')
    | (r, u') \<Rightarrow> (r, u'))"

text \<open>The calendar routes exist when the integration is switched on.\<close>

definition serve :: "http_config \<Rightarrow> http_server \<Rightarrow> http_request \<Rightarrow> call \<Rightarrow> handler" where
  "serve cfg V c q =
     Recovery (CorsMiddleware (hc_cors cfg) c
       (APIKeyMiddleware (hc_key cfg) c
         (if is_calendar_call q \<and> \<not> sv_calendar V then ret (Reply 404 BNone) else dispatch V c q)))"

end
