(* ===== verification/Http_Runs.thy ===== *)
theory Http_Runs
  imports Http_Server App_Machine
begin

text \<open>
  Following a relation on the state of the application through a request.  \<open>http_run\<close> is the interface of
  \<open>App_Runs\<close> with the one write the services' requests do not make, the account a callback stores.  Inside
  it every handler is followed once; the relations of \<open>App_Invariant\<close> and \<open>App_Users\<close> provide it, so what
  they say of a service's request holds of a request to the server.
\<close>

subsection \<open>Dropping results\<close>

lemma steps_app_drop: "steps R (app_drop m) \<longleftrightarrow> steps R m"
  by (simp add: steps_def app_drop_def bindE_def ret_def split: prod.split outcome.split) (metis prod.exhaust_sel outcome.exhaust snd_conv)

lemma steps_discard: "steps R (discard m) \<longleftrightarrow> steps R m"
  by (simp add: steps_def discard_def bindE_def ret_def split: prod.split outcome.split) (metis prod.exhaust_sel outcome.exhaust snd_conv)

lemma steps_Recovery: "steps R m \<Longrightarrow> steps R (Recovery m)"
  by (simp add: steps_def Recovery_def split: prod.split outcome.split) (metis snd_conv)

subsection \<open>The shapes of handlers\<close>

locale http_reads = app_reads
begin

lemma shape_steps [steps_rules]:
  "(\<And>x. steps R (k x)) \<Longrightarrow> steps R (checked v k)"
  "steps R m \<Longrightarrow> (\<And>x. steps R (k x)) \<Longrightarrow> steps R (answer on_error m k)"
  "(\<And>x. steps R (k x)) \<Longrightarrow> steps R (asked r k)"
  "steps R (ok status b)"
  unfolding checked_def answer_def asked_def ok_def by (intro steps_rules; simp)+

lemma body_steps [steps_rules]:
  "(\<And>d. steps R (rules d)) \<Longrightarrow> (\<And>d. steps R (k d)) \<Longrightarrow> steps R (with_body explain rules body k)"
  unfolding with_body_def bind_json_def by (intro steps_rules)

lemma parameter_steps [steps_rules]:
  "(\<And>page pageSize. steps R (k page pageSize)) \<Longrightarrow> steps R (with_page L c k)"
  "(\<And>orderBy. steps R (j orderBy)) \<Longrightarrow> steps R (with_order L c j)"
  "(\<And>i. steps R (h i)) \<Longrightarrow> steps R (with_user c h)"
  "(\<And>i. steps R (h i)) \<Longrightarrow> steps R (withTask V c h)"
  "(\<And>i ch. steps R (g i ch)) \<Longrightarrow> steps R (with_settings_key V c g)"
  "(\<And>i. steps R (h i)) \<Longrightarrow> steps R (with_own_binding c h)"
  unfolding with_page_def with_order_def with_user_def withTask_def with_settings_key_def with_own_binding_def
  by (intro steps_rules; simp)+

lemma future_steps [steps_rules]: "steps R (future_enough d)" "steps R (validateFutureDate f)"
proof -
  show future: "steps R (future_enough d)" for d
    unfolding future_enough_def by (intro steps_rules)
  show "steps R (validateFutureDate f)"
    by (induction f rule: validateFutureDate.induct) (auto intro!: steps_rules future)
qed

lemma rule_steps [steps_rules]:
  "steps R (create_task_rules L a)" "steps R (update_task_rules L b)" "steps R (queue_task_rules c')"
  "steps R (create_user_rules d)" "steps R (update_user_rules L e)" "steps R (create_messenger_rules f)"
  "steps R (create_chat_rules g)" "steps R (create_backlog_rules h)" "steps R (create_batch_rules i)"
  "steps R (create_target_rules j)" "steps R (create_group_rules k)" "steps R (create_digest_rules l)"
  "steps R (create_binding_rules m)" "steps R (enable_export_rules n)" "steps R (init_attachment_rules p)"
  "steps R (no_rules q)"
  unfolding create_task_rules_def update_task_rules_def queue_task_rules_def create_user_rules_def
    update_user_rules_def create_messenger_rules_def create_chat_rules_def create_backlog_rules_def
    create_batch_rules_def create_target_rules_def create_group_rules_def create_digest_rules_def
    create_binding_rules_def enable_export_rules_def init_attachment_rules_def no_rules_def
  by (intro steps_rules)+

lemma badge_steps [steps_rules]: "steps R (GetTaskExternal i)" "steps R (task_badge V i)" "steps R (with_badge V r rs)"
  unfolding GetTaskExternal_def task_badge_def with_badge_def by (intro steps_rules)+

lemma recent_steps [steps_rules]: "steps R (ListRecent t n)"
  by (cases t) (auto intro!: steps_rules)

lemma row_reads [steps_rules]:
  "steps W (repo_GetAllTasks D q)" "steps W (GetTaskHistoryByTaskID i)" "steps W (GetTaskHistoryByUserID i l f)"
  unfolding repo_GetAllTasks_def count_rows_def select_page_def GetTaskHistoryByTaskID_def
    GetTaskHistoryByUserID_def by (intro steps_rules)+

lemma task_reads [steps_rules]:
  "steps W (GetTask i)" "steps W (GetUserTasks S i q c m)" "steps W (GetAllTasks S q)"
  "steps W (GetTaskHistory i)" "steps W (GetUserTaskHistory i l f)" "steps W GetSchedulableInventory"
  unfolding GetTask_def GetUserTasks_def GetAllTasks_def GetTaskHistory_def GetUserTaskHistory_def
    GetSchedulableInventory_def
  by (intro steps_rules)+

lemma response_steps [steps_rules]: "steps R (attachmentResponse status a)"
  unfolding attachmentResponse_def by (intro steps_rules)

text \<open>Everything that is asked with \<open>GET\<close>, but for the callback of Google.\<close>

lemma read_handlers [steps_rules]:
  "steps R (http_GetTask V c)" "steps R (http_GetAllTasks V c)" "steps R (http_GetUserTasks V c)"
  "steps R (http_GetTaskHistory V c)" "steps R (http_GetUserTaskHistory V c)"
  "steps R (http_GetSchedulableInventory)" "steps R (http_GetUser V c)" "steps R (http_GetAllUsers V c)"
  "steps R (http_GetRecentUserActivity V c)" "steps R (http_GetMessenger V c)"
  "steps R (http_GetMessengerIDByName V c)" "steps R (http_GetMessengerRelatedUser V c)"
  "steps R (http_GetUserID V c)" "steps R (http_GetAllMessengers V c)"
  "steps R (http_GetAllMessengerRelatedUsers V c)" "steps R (http_GetBacklog V c)"
  "steps R (http_GetAllBacklogs V c)" "steps R (http_GetTarget V c)" "steps R (http_GetAllTargets V c)"
  "steps R (http_GetTaskGroup V c)" "steps R (http_GetAllTaskGroups V c)"
  "steps R (http_GetDigestSettings V c)" "steps R (http_GetDigest V c)"
  "steps R (http_GetAllDigestSettings V c)" "steps R (http_ListAttachments V c)"
  "steps R (http_GetDownloadURL V c)" "steps R (http_GetAttachmentContent V c)"
  "steps R (http_StartOAuth V c)" "steps R (http_ListCalendars V c)" "steps R (http_ListBindings V c)"
  "steps R (http_GetSyncStatus V c)" "steps R (http_GetTaskExternal V c)" "steps R (http_Version V)"
  "steps R (http_HealthCheck)" "steps R (http_Ready check)"
  unfolding http_GetTask_def http_GetAllTasks_def http_GetUserTasks_def http_GetTaskHistory_def
    http_GetUserTaskHistory_def http_GetSchedulableInventory_def http_GetUser_def http_GetAllUsers_def
    http_GetRecentUserActivity_def http_GetMessenger_def http_GetMessengerIDByName_def
    http_GetMessengerRelatedUser_def http_GetUserID_def http_GetAllMessengers_def
    http_GetAllMessengerRelatedUsers_def http_GetBacklog_def http_GetAllBacklogs_def http_GetTarget_def
    http_GetAllTargets_def http_GetTaskGroup_def http_GetAllTaskGroups_def http_GetDigestSettings_def
    http_GetDigest_def http_GetAllDigestSettings_def http_ListAttachments_def http_GetDownloadURL_def
    http_GetAttachmentContent_def http_StartOAuth_def http_ListCalendars_def http_ListBindings_def
    http_GetSyncStatus_def http_GetTaskExternal_def http_Version_def http_HealthCheck_def http_Ready_def
    GetAllUsers_def GetRecentUserActivity_def GetUserID_def GetAllMessengers_def
    GetAllMessengerRelatedUsers_def GetBacklogByID_def GetAllBacklogs_def GetTargetByID_def
    GetAllTargets_def GetTaskGroupByID_def GetAllTaskGroups_def GetDigestSettings_def
    GetAllDigestSettings_def GetSyncStatus_def StartOAuth_def
  by (intro steps_rules)+

end

subsection \<open>The interface\<close>

locale http_run = app_run + http_reads +
  assumes connects: "C v (v\<lparr>accounts := as\<rparr>)"
begin

lemma account_upsert [steps_rules]: "steps C (account_Upsert serial a)"
proof -
  have "steps C (\<lambda>v. case find (same_account a) (accounts v) of
         Some x \<Rightarrow>
           (Ok (a\<lparr>ga_ID := ga_ID x, ga_CreatedAt := ga_CreatedAt x, ga_UpdatedAt := now\<rparr>),
            v\<lparr>accounts := map (\<lambda>y. if same_account a y then reconnected a now y else y) (accounts v)\<rparr>)
       | None \<Rightarrow>
           (let new = a\<lparr>ga_ID := serial, ga_RevokedAt := None, ga_CreatedAt := now, ga_UpdatedAt := now\<rparr> in
            (Ok (a\<lparr>ga_ID := serial, ga_CreatedAt := now, ga_UpdatedAt := now\<rparr>),
             v\<lparr>accounts := accounts v @ [new]\<rparr>)))" for now
    by (rule stepsI) (simp add: connects Let_def split: option.split)
  then show ?thesis unfolding account_Upsert_def by (intro steps_rules)
qed

lemma task_operations [steps_rules]:
  "steps W (CreateTask S t)" "steps W (UpdateTask S i r)" "steps W (DeleteTask S i)" "steps W (MuteTask S i)"
  "steps W (UnmuteTask S i)" "steps W (MarkTaskAsDone S i b)" "steps W (QueueTask S st)"
  "steps W (RecordAttachmentAdded S i u m)" "steps W (RecordAttachmentRemoved S i u m)"
  using task_requests [of S "ReqCreate t"] task_requests [of S "ReqUpdate i r"] task_requests [of S "ReqDelete i"]
    task_requests [of S "ReqMute i"] task_requests [of S "ReqUnmute i"] task_requests [of S "ReqDone i b"]
    task_requests [of S "ReqQueue st"] task_requests [of S "ReqAttachmentAdded i u m"]
    task_requests [of S "ReqAttachmentRemoved i u m"]
  by (simp_all add: steps_discard)

lemma task_handlers [steps_rules]:
  "steps R (http_CreateTask V b1)" "steps R (http_UpdateTask V c b2)" "steps R (http_DeleteTask V c)"
  "steps R (http_QueueTask V b3)" "steps R (http_MarkTaskAsDone V c b4)" "steps R (http_MuteTask V c)"
  "steps R (http_UnmuteTask V c)"
  unfolding http_CreateTask_def http_UpdateTask_def http_DeleteTask_def http_QueueTask_def
    http_MarkTaskAsDone_def http_MuteTask_def http_UnmuteTask_def
  by (intro steps_rules)+

lemma user_handlers:
  assumes "sv_app V = F"
  shows "steps R (http_CreateUser V b1)" "steps R (http_UpdateUser V c b2)" "steps R (http_DeleteUser V c)"
    "steps R (http_CreateMessenger V b3)" "steps R (http_CreateMessengerRelatedUser V b4)"
  unfolding http_CreateUser_def http_UpdateUser_def http_DeleteUser_def http_CreateMessenger_def
    http_CreateMessengerRelatedUser_def assms
  by (intro steps_rules)+

lemma list_handlers:
  assumes "sv_app V = F"
  shows "steps R (http_CreateBacklog V b1)" "steps R (http_CreateBacklogsBatch V b2)"
    "steps R (http_UpdateBacklog V c b3)" "steps R (http_DeleteBacklog V c)"
    "steps R (http_CreateTarget V b4)" "steps R (http_UpdateTarget V c b5)" "steps R (http_DeleteTarget V c)"
    "steps R (http_CreateTaskGroup V b6)" "steps R (http_UpdateTaskGroup V c b7)"
    "steps R (http_DeleteTaskGroup V c)"
  unfolding http_CreateBacklog_def http_CreateBacklogsBatch_def http_UpdateBacklog_def http_DeleteBacklog_def
    http_CreateTarget_def http_UpdateTarget_def http_DeleteTarget_def http_CreateTaskGroup_def
    http_UpdateTaskGroup_def http_DeleteTaskGroup_def assms
  by (intro steps_rules)+

lemma digest_handlers:
  assumes "sv_app V = F"
  shows "steps R (http_CreateDigestSettings V b1)" "steps R (http_UpdateDigestSettings V c b2)"
    "steps R (http_DeleteDigestSettings V c)"
  unfolding http_CreateDigestSettings_def http_UpdateDigestSettings_def http_DeleteDigestSettings_def assms
  by (intro steps_rules)+

lemma oauth_steps [steps_rules]: "steps C (HandleOAuthCallback conf A state)"
proof -
  have [steps_rules]: "steps C (fetchUserInfo reply)" for reply
    unfolding fetchUserInfo_def by (auto split: user_info_reply.split sum.split intro!: steps_rules)
  show ?thesis unfolding HandleOAuthCallback_def encrypted_def by (intro steps_rules)
qed

lemma calendar_handlers [steps_rules]:
  "steps R (http_OAuthCallback V c A)" "steps R (http_CreateBinding V c b1)" "steps R (http_DeleteBinding V c)"
  "steps R (http_ForceSync V c)" "steps R (http_Disconnect V c)" "steps R (http_EnableTaskExport V c b2)"
  unfolding http_OAuthCallback_def http_CreateBinding_def http_DeleteBinding_def http_ForceSync_def
    http_Disconnect_def http_EnableTaskExport_def
  by (intro steps_rules)+

lemma attachment_handlers [steps_rules]:
  "steps R (http_Import V c file)" "steps R (http_CreateAttachment V c b up)" "steps R (http_CompleteUpload V c)"
  "steps R (http_DeleteAttachment V c)"
  unfolding http_Import_def http_CreateAttachment_def initPresigned_def uploadDirect_def http_CompleteUpload_def
    http_DeleteAttachment_def
  by (intro steps_rules)+

lemma dispatch_steps: "sv_app V = F \<Longrightarrow> steps R (dispatch V c q)"
  by (cases q) (auto intro!: steps_rules user_handlers list_handlers digest_handlers)

lemma serve_steps: "sv_app V = F \<Longrightarrow> steps R (serve cfg V c q)"
  unfolding serve_def CorsMiddleware_def APIKeyMiddleware_def Let_def
  by (intro steps_Recovery steps_if steps_ret dispatch_steps)

end

end
