(* ===== verification/Http_Status.thy ===== *)
theory Http_Status
  imports Http_Server
begin

text \<open>
  The status of every reply.  \<open>documented\<close> is the list of the \<open>@Success\<close> and \<open>@Failure\<close> lines above each
  handler; \<open>undocumented\<close> the statuses a handler can also answer.  \<open>answers S m\<close> says of a handler that it
  returns no Go error and that its replies have a status in \<open>S\<close>; there is a rule for each shape.
\<close>

named_theorems status_rules "handlers whose replies have a status of a set"
named_theorems errless_rules "operations that return no error"

subsection \<open>The tables\<close>

primrec documented :: "call \<Rightarrow> int list" where
  "documented (CallCreateTask b) = [201, 400, 422, 500]"
| "documented CallGetTask = [200, 400, 404, 500]"
| "documented CallGetAllTasks = [200, 400, 500]"
| "documented CallGetUserTasks = [200, 400, 422, 500]"
| "documented (CallUpdateTask b) = [200, 400, 404, 409, 422, 500]"
| "documented CallDeleteTask = [204, 400, 404, 500]"
| "documented (CallQueueTask b) = [201, 400, 404, 422, 500]"
| "documented (CallMarkTaskAsDone b) = [200, 400, 404, 409, 500]"
| "documented CallMuteTask = [200, 400, 404, 500]"
| "documented CallUnmuteTask = [200, 400, 404, 500]"
| "documented CallGetTaskHistory = [200, 400, 404, 500]"
| "documented CallGetUserTaskHistory = [200, 400, 422, 500]"
| "documented CallInventory = [200, 500]"
| "documented (CallCreateUser b) = [201, 400, 409, 500]"
| "documented CallGetUser = [200, 400, 404, 500]"
| "documented (CallUpdateUser b) = [200, 400, 404, 422, 500]"
| "documented CallDeleteUser = [204, 400, 404, 422, 500]"
| "documented CallGetAllUsers = [200, 400, 500]"
| "documented CallActivity = [200, 400, 500]"
| "documented (CallCreateMessenger b) = [201, 400, 500]"
| "documented CallGetMessenger = [200, 400, 404, 500]"
| "documented CallGetMessengerIDByName = [200, 400, 404, 500]"
| "documented (CallCreateChat b) = [201, 400, 422, 500]"
| "documented CallGetChat = [200, 400, 404, 422, 500]"
| "documented CallGetUserID = [200, 400, 404, 500]"
| "documented CallGetAllMessengers = [200, 400, 500]"
| "documented CallGetAllChats = [200, 400, 500]"
| "documented (CallCreateBacklog b) = [201, 400, 422, 500]"
| "documented (CallCreateBatch b) = [201, 400, 422, 500]"
| "documented CallGetBacklog = [200, 404, 500]"
| "documented CallGetAllBacklogs = [200, 400, 500]"
| "documented (CallUpdateBacklog b) = [200, 400, 404, 422, 500]"
| "documented CallDeleteBacklog = [204, 404, 500]"
| "documented (CallCreateTarget b) = [201, 400, 422, 500]"
| "documented CallGetTarget = [200, 404, 500]"
| "documented CallGetAllTargets = [200, 400, 500]"
| "documented (CallUpdateTarget b) = [200, 400, 404, 422, 500]"
| "documented CallDeleteTarget = [204, 404, 500]"
| "documented (CallCreateGroup b) = [201, 400, 422, 500]"
| "documented CallGetGroup = [200, 404, 500]"
| "documented CallGetAllGroups = [200, 400, 500]"
| "documented (CallUpdateGroup b) = [200, 400, 404, 422, 500]"
| "documented CallDeleteGroup = [204, 404, 409, 500]"
| "documented (CallCreateDigest b) = [201, 400, 422, 500]"
| "documented CallGetDigestSettings = [200, 400, 404, 500]"
| "documented (CallUpdateDigest b) = [200, 400, 404, 422, 500]"
| "documented CallGetDigest = [200, 400, 422, 500]"
| "documented CallGetAllDigests = [200, 400, 500]"
| "documented CallDeleteDigest = [204, 400, 404, 500]"
| "documented (CallImport f) = [200, 400, 422, 500]"
| "documented CallAttachments = [200]"
| "documented (CallCreateAttachment b f) = [201, 400, 404, 413, 503]"
| "documented CallCompleteUpload = [200]"
| "documented CallDownloadURL = [200]"
| "documented CallContent = [200, 404, 413, 503]"
| "documented CallDeleteAttachment = [204]"
| "documented CallStartOAuth = [200]"
| "documented (CallOAuthCallback A) = [200]"
| "documented CallListCalendars = [200]"
| "documented (CallCreateBinding b) = [201]"
| "documented CallListBindings = [200]"
| "documented CallDeleteBinding = [204]"
| "documented CallForceSync = [202]"
| "documented CallSyncStatus = [200]"
| "documented CallDisconnect = [204]"
| "documented (CallEnableExport b) = [200]"
| "documented CallTaskExternal = [200]"
| "documented CallVersion = [200]"
| "documented CallHealth = [200]"
| "documented (CallReady check) = [200, 503]"

fun undocumented :: "call \<Rightarrow> int list" where
  "undocumented CallGetBacklog = [400]"
| "undocumented CallDeleteBacklog = [400]"
| "undocumented CallGetTarget = [400]"
| "undocumented CallDeleteTarget = [400]"
| "undocumented CallGetGroup = [400]"
| "undocumented CallDeleteGroup = [400]"
| "undocumented (CallImport f) = [404]"
| "undocumented CallAttachments = [400, 404, 409, 413, 500, 503]"
| "undocumented (CallCreateAttachment b f) = [409, 500]"
| "undocumented CallCompleteUpload = [400, 404, 409, 413, 500, 503]"
| "undocumented CallDownloadURL = [400, 404, 409, 413, 500, 503]"
| "undocumented CallContent = [400, 409, 500]"
| "undocumented CallDeleteAttachment = [400, 404, 409, 413, 500, 503]"
| "undocumented CallStartOAuth = [400, 404, 422, 500]"
| "undocumented (CallOAuthCallback A) = [400, 404, 422, 500]"
| "undocumented CallListCalendars = [400, 404, 422, 500]"
| "undocumented (CallCreateBinding b) = [400, 404, 422, 500]"
| "undocumented CallListBindings = [400, 404, 422, 500]"
| "undocumented CallDeleteBinding = [400, 404, 422, 500]"
| "undocumented CallForceSync = [400, 404, 422, 500]"
| "undocumented CallSyncStatus = [400, 404, 422, 500]"
| "undocumented CallDisconnect = [400, 404, 422, 500]"
| "undocumented (CallEnableExport b) = [400, 404, 422, 500]"
| "undocumented CallTaskExternal = [400, 404, 422, 500]"
| "undocumented _ = []"

definition statuses :: "call \<Rightarrow> int set" where
  "statuses q = set (documented q) \<union> set (undocumented q)"

subsection \<open>Operations that return no error\<close>

definition errless :: "('w, 'a) op \<Rightarrow> bool" where
  "errless m \<longleftrightarrow> (\<forall>u e. fst (m u) \<noteq> Err e)"

lemma errless_basic [errless_rules]: "errless (ret x)" "errless (gets f)" "errless (attempt m)" "errless (best_effort n)"
  by (auto simp: errless_def ret_def gets_def attempt_def best_effort_def bindE_def split: prod.split outcome.split)

lemma errless_bindE [errless_rules]: "errless m \<Longrightarrow> (\<And>x. errless (k x)) \<Longrightarrow> errless (bindE m k)"
  by (auto simp: errless_def bindE_def split: prod.split outcome.split) (metis fst_conv)

lemma errless_split [errless_rules]:
  "errless m \<Longrightarrow> errless n \<Longrightarrow> errless (if b then m else n)"
  "(a = None \<Longrightarrow> errless m) \<Longrightarrow> (\<And>x. a = Some x \<Longrightarrow> errless (k x)) \<Longrightarrow> errless (case a of None \<Rightarrow> m | Some x \<Rightarrow> k x)"
  "(\<And>x. errless (f x)) \<Longrightarrow> (\<And>y. errless (g y)) \<Longrightarrow> errless (case s of Inl x \<Rightarrow> f x | Inr y \<Rightarrow> g y)"
  by (auto split: option.split sum.split)

lemma errless_fold [errless_rules]: "(\<And>x a. errless (f x a)) \<Longrightarrow> errless (fold_op f xs a)"
  by (induction xs arbitrary: a) (auto intro!: errless_rules)

lemma errless_in_core [errless_rules]: "errless m \<Longrightarrow> errless (in_task m)"
  by (auto simp: errless_def in_cal_def in_core_def split: prod.split)

lemma errless_clock [errless_rules]: "errless time_Now"
  by (simp add: errless_def time_Now_def split: list.split)

lemma errless_future [errless_rules]: "errless (future_enough d)" "errless (validateFutureDate f)"
proof -
  show future: "errless (future_enough d)" for d
    unfolding future_enough_def by (intro errless_rules)
  show "errless (validateFutureDate f)"
    by (induction f rule: validateFutureDate.induct) (auto intro!: errless_rules future)
qed

lemma errless_rules_of [errless_rules]:
  "errless (create_task_rules L a)" "errless (update_task_rules L b)" "errless (queue_task_rules c')"
  "errless (create_user_rules d)" "errless (update_user_rules L e)" "errless (create_messenger_rules f)"
  "errless (create_chat_rules g)" "errless (create_backlog_rules h)" "errless (create_batch_rules i)"
  "errless (create_target_rules j)" "errless (create_group_rules k)" "errless (create_digest_rules l)"
  "errless (create_binding_rules m)" "errless (enable_export_rules n)" "errless (init_attachment_rules p)"
  "errless (no_rules q)"
  unfolding create_task_rules_def update_task_rules_def queue_task_rules_def create_user_rules_def
    update_user_rules_def create_messenger_rules_def create_chat_rules_def create_backlog_rules_def
    create_batch_rules_def create_target_rules_def create_group_rules_def create_digest_rules_def
    create_binding_rules_def enable_export_rules_def init_attachment_rules_def no_rules_def
  by (intro errless_rules)+

lemma errless_history [errless_rules]:
  "errless (RecordAttachmentAdded E i u m)" "errless (RecordAttachmentRemoved E i u m)"
  unfolding RecordAttachmentAdded_def RecordAttachmentRemoved_def recordAttachmentHistory_def
    record_history_def touchUserActivity_def
  by (intro errless_rules)+

lemma errless_badge [errless_rules]: "errless (task_badge V i)" "errless (with_badge V r rs)"
  unfolding task_badge_def with_badge_def by (intro errless_rules)+

subsection \<open>Handlers\<close>

definition answers :: "int set \<Rightarrow> handler \<Rightarrow> bool" where
  "answers S m \<longleftrightarrow> errless m \<and> (\<forall>u r. fst (m u) = Ok r \<longrightarrow> reply_status r \<in> S)"

lemma answers_ret [status_rules]: "reply_status r \<in> S \<Longrightarrow> answers S (ret r)"
  by (simp add: answers_def errless_basic) (simp add: ret_def)

lemma answers_ok [status_rules]: "n \<in> S \<Longrightarrow> answers S (ok n b)"
  unfolding ok_def by (rule answers_ret) simp

lemma answers_bindE [status_rules]: "errless m \<Longrightarrow> (\<And>x. answers S (k x)) \<Longrightarrow> answers S (bindE m k)"
  by (auto simp: answers_def errless_bindE) (auto simp: bindE_def split: prod.splits outcome.splits)

lemma answers_split [status_rules]:
  "answers S m \<Longrightarrow> answers S n \<Longrightarrow> answers S (if b then m else n)"
  "(a = None \<Longrightarrow> answers S m) \<Longrightarrow> (\<And>x. a = Some x \<Longrightarrow> answers S (k x)) \<Longrightarrow> answers S (case a of None \<Rightarrow> m | Some x \<Rightarrow> k x)"
  "(\<And>x y. answers S (h x y)) \<Longrightarrow> answers S (case p of (x, y) \<Rightarrow> h x y)"
  "answers S (j x) \<Longrightarrow> answers S (Let x j)"
  by (auto split: option.split prod.split)

lemma answers_checked [status_rules]: "400 \<in> S \<Longrightarrow> (\<And>x. answers S (k x)) \<Longrightarrow> answers S (checked v k)"
  unfolding checked_def by (auto simp: refused_def intro!: status_rules split: sum.split)

lemma answers_body [status_rules]:
  "400 \<in> S \<Longrightarrow> (\<And>d. errless (rules d)) \<Longrightarrow> (\<And>d. answers S (k d)) \<Longrightarrow> answers S (with_body explain rules body k)"
  unfolding with_body_def bind_json_def
  by (auto simp: refused_def intro!: status_rules errless_rules split: sum.split)

lemma answers_answer [status_rules]:
  "(\<And>e. reply_status (f e) \<in> S) \<Longrightarrow> (\<And>x. answers S (k x)) \<Longrightarrow> answers S (answer f m k)"
  unfolding answer_def by (auto intro!: status_rules errless_rules split: sum.split)

lemma answers_asked [status_rules]:
  "(\<And>e. reply_status (mapAttachmentError e) \<in> S) \<Longrightarrow> (\<And>x. answers S (k x)) \<Longrightarrow> answers S (asked r k)"
  unfolding asked_def by (auto intro!: status_rules split: sum.split)

lemma error_statuses [status_rules]:
  "{400, 404, 422, 500} \<subseteq> S \<Longrightarrow> reply_status (writeErr e) \<in> S"
  "{400, 422, 500} \<subseteq> S \<Longrightarrow> reply_status (create_error e) \<in> S"
  "{404, 500} \<subseteq> S \<Longrightarrow> reply_status (get_error m e) \<in> S"
  "{400, 404, 422, 500} \<subseteq> S \<Longrightarrow> reply_status (update_error m e) \<in> S"
  "500 \<in> S \<Longrightarrow> reply_status (any_error e) \<in> S"
  "{404, 422, 500} \<subseteq> S \<Longrightarrow> reply_status (queue_error e) \<in> S"
  "{404, 500} \<subseteq> S \<Longrightarrow> reply_status (mute_error e) \<in> S"
  "{422, 500} \<subseteq> S \<Longrightarrow> reply_status (user_error i e) \<in> S"
  "{409, 500} \<subseteq> S \<Longrightarrow> reply_status (user_create_error e) \<in> S"
  "{404, 422, 500} \<subseteq> S \<Longrightarrow> reply_status (user_change_error i e) \<in> S"
  "{422, 500} \<subseteq> S \<Longrightarrow> reply_status (chat_create_error e) \<in> S"
  "{404, 409, 500} \<subseteq> S \<Longrightarrow> reply_status (group_delete_error i e) \<in> S"
  by (cases e; simp add: refused_def refused_with_def any_error_def)+

lemma attachment_statuses [status_rules]:
  "{400, 404, 409, 413, 503} \<subseteq> S \<Longrightarrow> reply_status (mapAttachmentError a) \<in> S"
  by (cases a) (simp_all add: refused_def too_large_def attachments_disabled_def attachments_unavailable_def)

lemma answers_parameters [status_rules]:
  "400 \<in> S \<Longrightarrow> (\<And>page pageSize. answers S (k page pageSize)) \<Longrightarrow> answers S (with_page L c k)"
  "400 \<in> S \<Longrightarrow> (\<And>orderBy. answers S (j orderBy)) \<Longrightarrow> answers S (with_order L c j)"
  "400 \<in> S \<Longrightarrow> (\<And>i. answers S (h i)) \<Longrightarrow> answers S (with_user c h)"
  "400 \<in> S \<Longrightarrow> 503 \<in> S \<Longrightarrow> (\<And>i. answers S (h i)) \<Longrightarrow> answers S (withTask V c h)"
  "400 \<in> S \<Longrightarrow> (\<And>i ch. answers S (g i ch)) \<Longrightarrow> answers S (with_settings_key V c g)"
  "{400, 404, 422, 500} \<subseteq> S \<Longrightarrow> (\<And>i. answers S (h i)) \<Longrightarrow> answers S (with_own_binding c h)"
  unfolding with_page_def with_order_def with_user_def withTask_def with_settings_key_def with_own_binding_def
  by (intro status_rules; simp add: attachments_disabled_def refused_def)+

subsection \<open>The routes\<close>

lemma task_statuses:
  "answers (statuses (CallCreateTask b1)) (http_CreateTask V b1)"
  "answers (statuses CallGetTask) (http_GetTask V c)"
  "answers (statuses CallGetAllTasks) (http_GetAllTasks V c)"
  "answers (statuses CallGetUserTasks) (http_GetUserTasks V c)"
  "answers (statuses (CallUpdateTask b5)) (http_UpdateTask V c b5)"
  "answers (statuses CallDeleteTask) (http_DeleteTask V c)"
  "answers (statuses (CallQueueTask b7)) (http_QueueTask V b7)"
  "answers (statuses (CallMarkTaskAsDone b8)) (http_MarkTaskAsDone V c b8)"
  "answers (statuses CallMuteTask) (http_MuteTask V c)"
  "answers (statuses CallUnmuteTask) (http_UnmuteTask V c)"
  "answers (statuses CallGetTaskHistory) (http_GetTaskHistory V c)"
  "answers (statuses CallGetUserTaskHistory) (http_GetUserTaskHistory V c)"
  "answers (statuses CallInventory) (http_GetSchedulableInventory)"
  unfolding http_CreateTask_def http_GetTask_def http_GetAllTasks_def http_GetUserTasks_def
    http_UpdateTask_def http_DeleteTask_def http_QueueTask_def http_MarkTaskAsDone_def http_MuteTask_def
    http_UnmuteTask_def http_GetTaskHistory_def http_GetUserTaskHistory_def http_GetSchedulableInventory_def
  by (intro status_rules errless_rules; simp add: statuses_def refused_def refused_with_def split: err.split)+

lemma people_statuses:
  "answers (statuses (CallCreateUser b14)) (http_CreateUser V b14)"
  "answers (statuses CallGetUser) (http_GetUser V c)"
  "answers (statuses (CallUpdateUser b16)) (http_UpdateUser V c b16)"
  "answers (statuses CallDeleteUser) (http_DeleteUser V c)"
  "answers (statuses CallGetAllUsers) (http_GetAllUsers V c)"
  "answers (statuses CallActivity) (http_GetRecentUserActivity V c)"
  "answers (statuses (CallCreateMessenger b20)) (http_CreateMessenger V b20)"
  "answers (statuses CallGetMessenger) (http_GetMessenger V c)"
  "answers (statuses CallGetMessengerIDByName) (http_GetMessengerIDByName V c)"
  "answers (statuses (CallCreateChat b23)) (http_CreateMessengerRelatedUser V b23)"
  "answers (statuses CallGetChat) (http_GetMessengerRelatedUser V c)"
  "answers (statuses CallGetUserID) (http_GetUserID V c)"
  "answers (statuses CallGetAllMessengers) (http_GetAllMessengers V c)"
  "answers (statuses CallGetAllChats) (http_GetAllMessengerRelatedUsers V c)"
  unfolding http_CreateUser_def http_GetUser_def http_UpdateUser_def http_DeleteUser_def
    http_GetAllUsers_def http_GetRecentUserActivity_def http_CreateMessenger_def http_GetMessenger_def
    http_GetMessengerIDByName_def http_CreateMessengerRelatedUser_def http_GetMessengerRelatedUser_def
    http_GetUserID_def http_GetAllMessengers_def http_GetAllMessengerRelatedUsers_def
  by (intro status_rules errless_rules; simp add: statuses_def refused_def refused_with_def split: err.split)+

lemma list_statuses:
  "answers (statuses (CallCreateBacklog b28)) (http_CreateBacklog V b28)"
  "answers (statuses (CallCreateBatch b29)) (http_CreateBacklogsBatch V b29)"
  "answers (statuses CallGetBacklog) (http_GetBacklog V c)"
  "answers (statuses CallGetAllBacklogs) (http_GetAllBacklogs V c)"
  "answers (statuses (CallUpdateBacklog b32)) (http_UpdateBacklog V c b32)"
  "answers (statuses CallDeleteBacklog) (http_DeleteBacklog V c)"
  "answers (statuses (CallCreateTarget b34)) (http_CreateTarget V b34)"
  "answers (statuses CallGetTarget) (http_GetTarget V c)"
  "answers (statuses CallGetAllTargets) (http_GetAllTargets V c)"
  "answers (statuses (CallUpdateTarget b37)) (http_UpdateTarget V c b37)"
  "answers (statuses CallDeleteTarget) (http_DeleteTarget V c)"
  "answers (statuses (CallCreateGroup b39)) (http_CreateTaskGroup V b39)"
  "answers (statuses CallGetGroup) (http_GetTaskGroup V c)"
  "answers (statuses CallGetAllGroups) (http_GetAllTaskGroups V c)"
  "answers (statuses (CallUpdateGroup b42)) (http_UpdateTaskGroup V c b42)"
  "answers (statuses CallDeleteGroup) (http_DeleteTaskGroup V c)"
  "answers (statuses (CallCreateDigest b44)) (http_CreateDigestSettings V b44)"
  "answers (statuses CallGetDigestSettings) (http_GetDigestSettings V c)"
  "answers (statuses (CallUpdateDigest b46)) (http_UpdateDigestSettings V c b46)"
  "answers (statuses CallGetDigest) (http_GetDigest V c)"
  "answers (statuses CallGetAllDigests) (http_GetAllDigestSettings V c)"
  "answers (statuses CallDeleteDigest) (http_DeleteDigestSettings V c)"
  unfolding http_CreateBacklog_def http_CreateBacklogsBatch_def http_GetBacklog_def http_GetAllBacklogs_def
    http_UpdateBacklog_def http_DeleteBacklog_def http_CreateTarget_def http_GetTarget_def
    http_GetAllTargets_def http_UpdateTarget_def http_DeleteTarget_def http_CreateTaskGroup_def
    http_GetTaskGroup_def http_GetAllTaskGroups_def http_UpdateTaskGroup_def http_DeleteTaskGroup_def
    http_CreateDigestSettings_def http_GetDigestSettings_def http_UpdateDigestSettings_def
    http_GetDigest_def http_GetAllDigestSettings_def http_DeleteDigestSettings_def
  by (intro status_rules errless_rules; simp add: statuses_def refused_def refused_with_def split: err.split)+

lemma calendar_statuses:
  "answers (statuses (CallImport f50)) (http_Import V c f50)"
  "answers (statuses CallStartOAuth) (http_StartOAuth V c)"
  "answers (statuses (CallOAuthCallback A52)) (http_OAuthCallback V c A52)"
  "answers (statuses CallListCalendars) (http_ListCalendars V c)"
  "answers (statuses (CallCreateBinding b54)) (http_CreateBinding V c b54)"
  "answers (statuses CallListBindings) (http_ListBindings V c)"
  "answers (statuses CallDeleteBinding) (http_DeleteBinding V c)"
  "answers (statuses CallForceSync) (http_ForceSync V c)"
  "answers (statuses CallSyncStatus) (http_GetSyncStatus V c)"
  "answers (statuses CallDisconnect) (http_Disconnect V c)"
  "answers (statuses (CallEnableExport b60)) (http_EnableTaskExport V c b60)"
  "answers (statuses CallTaskExternal) (http_GetTaskExternal V c)"
  "answers (statuses CallVersion) (http_Version V)"
  "answers (statuses CallHealth) (http_HealthCheck)"
  "answers (statuses (CallReady check64)) (http_Ready check64)"
  unfolding http_Import_def http_StartOAuth_def http_OAuthCallback_def http_ListCalendars_def
    http_CreateBinding_def http_ListBindings_def http_DeleteBinding_def http_ForceSync_def
    http_GetSyncStatus_def http_Disconnect_def http_EnableTaskExport_def http_GetTaskExternal_def
    http_Version_def http_HealthCheck_def http_Ready_def
  by (intro status_rules errless_rules; simp add: statuses_def refused_def refused_with_def split: err.split)+

lemma answers_response [status_rules]: "n \<in> S \<Longrightarrow> answers S (attachmentResponse n a)"
  unfolding attachmentResponse_def
  by (auto simp: answers_def errless_def ok_def ret_def lift_outcome_def split: option.split)

lemma attachment_handler_statuses:
  "answers (statuses CallAttachments) (http_ListAttachments V c)"
  "answers (statuses (CallCreateAttachment b66 f66)) (http_CreateAttachment V c b66 f66)"
  "answers (statuses CallCompleteUpload) (http_CompleteUpload V c)"
  "answers (statuses CallDownloadURL) (http_GetDownloadURL V c)"
  "answers (statuses CallContent) (http_GetAttachmentContent V c)"
  "answers (statuses CallDeleteAttachment) (http_DeleteAttachment V c)"
  unfolding http_ListAttachments_def http_CreateAttachment_def http_CompleteUpload_def
    http_GetDownloadURL_def http_GetAttachmentContent_def http_DeleteAttachment_def initPresigned_def
    uploadDirect_def
  by (intro status_rules errless_rules; simp add: statuses_def refused_def too_large_def attachments_disabled_def
      proxy_download_disabled_def upload_too_large_def Let_def refused_with_def split: err.split)+

lemma dispatch_statuses: "answers (statuses q) (dispatch V c q)"
  by (cases q) (simp_all only: dispatch.simps task_statuses people_statuses list_statuses calendar_statuses
      attachment_handler_statuses)

subsection \<open>The server\<close>

text \<open>The statuses the server adds: of a preflight, a missing key, a route that is not there, and a panic.\<close>

definition server_statuses :: "http_config \<Rightarrow> http_server \<Rightarrow> call \<Rightarrow> int set" where
  "server_statuses cfg V q = statuses q \<union> {500} \<union> (if co_Enabled (hc_cors cfg) then {204} else {}) \<union>
     (if ak_Enabled (hc_key cfg) then {401} else {}) \<union> (if is_calendar_call q \<and> \<not> sv_calendar V then {404} else {})"

lemma Recovery_answers:
  assumes "answers S m" and "500 \<in> S"
  shows "\<exists>r u'. Recovery m u = (Ok r, u') \<and> reply_status r \<in> S"
proof (cases "m u")
  case (Pair r u')
  then have fst: "fst (m u) = r" by simp
  have "fst (m u) \<noteq> Err e" "fst (m u) = Ok x \<Longrightarrow> reply_status x \<in> S" for e x
    using assms(1) by (simp_all add: answers_def errless_def)
  note this [unfolded fst]
  then show ?thesis using Pair assms(2) by (cases r) (auto simp: Recovery_def)
qed

lemma serve_total:
  obtains r u' where "serve cfg V c q u = (Ok r, u')" and "reply_status r \<in> server_statuses cfg V q"
proof -
  let ?S = "server_statuses cfg V q"
  let ?route = "if is_calendar_call q \<and> \<not> sv_calendar V then ret (Reply 404 BNone) else dispatch V c q"
  let ?m = "CorsMiddleware (hc_cors cfg) c (APIKeyMiddleware (hc_key cfg) c ?route)"
  have own: "co_Enabled (hc_cors cfg) \<Longrightarrow> 204 \<in> ?S" "ak_Enabled (hc_key cfg) \<Longrightarrow> 401 \<in> ?S" "500 \<in> ?S"
    "is_calendar_call q \<and> \<not> sv_calendar V \<Longrightarrow> 404 \<in> ?S"
    by (simp_all add: server_statuses_def)
  have "answers ?S (dispatch V c q)"
    using dispatch_statuses [of q V c] by (auto simp: answers_def server_statuses_def)
  then have "answers ?S ?route" using own(4) by (simp add: answers_ret)
  then have "answers ?S (APIKeyMiddleware (hc_key cfg) c ?route)"
    unfolding APIKeyMiddleware_def Let_def refused_def using own(2) by (simp add: answers_ret)
  then have "answers ?S ?m" unfolding CorsMiddleware_def using own(1) by (simp add: answers_ret)
  then have "\<exists>r u'. Recovery ?m u = (Ok r, u') \<and> reply_status r \<in> ?S"
    using own(3) by (rule Recovery_answers)
  then show ?thesis using that by (auto simp: serve_def)
qed

end
