(* ===== verification/Task_Queries.thy ===== *)
theory Task_Queries
  imports Task_Results "HOL-Library.Multiset"
begin

text \<open>
  What the queries of \<open>internal/repository/task_repository.go\<close> return: the escaped search pattern
  means "contains", the order of a page always has the key as its last resort, the pages of a query
  are the query cut into pieces, a row that was written is read back and a deleted one is not, and
  what the inventory of schedulable tasks lists.
\<close>

subsection \<open>The search pattern\<close>

text \<open>What the code relies on: letter case does not make or unmake one of the three characters.\<close>

definition db_laws :: "db_lib \<Rightarrow> bool" where
  "db_laws D \<longleftrightarrow>
     (\<forall>c. lower_char D c \<in> {CHR ''%'', CHR ''_'', CHR 0x5C} \<or> c \<in> {CHR ''%'', CHR ''_'', CHR 0x5C} \<longrightarrow>
          lower_char D c = c) \<and>
     (\<forall>clause ts. mset (order_by D clause ts) = mset ts)"

definition escape_char :: "char \<Rightarrow> string" where
  "escape_char c = (if c \<in> {CHR ''%'', CHR ''_'', CHR 0x5C} then [CHR 0x5C, c] else [c])"

lemma escapeLikePattern_chars: "escapeLikePattern s = concat (map escape_char s)"
proof -
  have app: "replace_char c b (x @ y) = replace_char c b x @ replace_char c b y" for c b x y
    by (simp add: replace_char_def)
  have one: "escapeLikePattern (c # s) = escape_char c @ escapeLikePattern s" for c s
    by (simp add: escapeLikePattern_def replace_char_def escape_char_def)
  show ?thesis
    by (induction s) (simp add: escapeLikePattern_def replace_char_def, simp add: one)
qed

lemma like_escape_char:
  "like_match (escape_char c @ p) s = (case s of [] \<Rightarrow> False | x # xs \<Rightarrow> x = c \<and> like_match p xs)"
  by (auto simp: escape_char_def split: list.split)

lemma like_escaped: "like_match (concat (map escape_char t) @ p) s \<longleftrightarrow> (\<exists>r. s = t @ r \<and> like_match p r)"
  by (induction t arbitrary: s) (auto simp: like_escape_char split: list.split)

lemma like_rest: "like_match ''%'' s"
proof -
  have "[] \<in> set (suffixes s)" by simp
  then show ?thesis by (simp add: list_ex_iff)
qed

lemma like_contains:
  "like_match (CHR ''%'' # concat (map escape_char t) @ ''%'') s \<longleftrightarrow> (\<exists>a b. s = a @ t @ b)"
proof -
  have "like_match (concat (map escape_char t) @ ''%'') x \<longleftrightarrow> (\<exists>b. x = t @ b)" for x
    using like_rest by (simp only: like_escaped) blast
  then have "like_match (CHR ''%'' # concat (map escape_char t) @ ''%'') s \<longleftrightarrow>
      (\<exists>x. suffix x s \<and> (\<exists>b. x = t @ b))"
    by (simp add: list_ex_iff Bex_def)
  then show ?thesis by (auto simp: suffix_def)
qed

lemma ilike_contains:
  assumes "db_laws D"
  shows "ilike D (''%'' @ escapeLikePattern t @ ''%'') s \<longleftrightarrow>
    (\<exists>a b. map (lower_char D) s = a @ map (lower_char D) t @ b)"
proof -
  let ?l = "lower_char D"
  have keep: "?l (CHR ''%'') = CHR ''%''" using assms by (auto simp: db_laws_def)
  have esc: "map ?l (escape_char c) = escape_char (?l c)" for c
    using assms unfolding db_laws_def escape_char_def by auto
  have "map ?l (concat (map escape_char t)) = concat (map escape_char (map ?l t))"
    by (induction t) (simp_all add: esc)
  then show ?thesis
    using like_contains [of "map ?l t" "map ?l s"]
    by (simp add: ilike_def escapeLikePattern_chars keep)
qed

subsection \<open>The order of a page\<close>

lemma order_terms_append: "order_terms_include (xs @ ys) c \<longleftrightarrow> order_terms_include xs c \<or> order_terms_include ys c"
  by (induction xs) (auto simp: Let_def)

lemma split_char_comma: "split_char c (a @ c # b) = split_char c a @ split_char c b"
  by (induction a) (auto split: list.split simp: neq_Nil_conv)

lemma order_id_asc: "order_terms_include ['' id ASC''] ''id''"
proof -
  have letters: "\<not> space_byte c" if "c \<in> set ''idASC''" for c
    using that by (auto dest!: space_byte_range)
  then have plain: "list_all plain_field [''id'', ''ASC'']"
    by (simp add: plain_field_def)
  have j: "join '' '' [''id'', ''ASC''] = ''id ASC''" by simp
  have "strip_with go_spaces '' id ASC'' = strip_with go_spaces ''id ASC''"
    by (subst strip_with.simps) (simp add: blank_in_go_spaces)
  then have "trim_space '' id ASC'' = trim_space ''id ASC''" by (simp add: trim_space_def)
  then have t: "trim_space '' id ASC'' = ''id ASC''"
    using trim_space_join [OF plain] unfolding j by simp
  have "split_fields ''id ASC'' = [''id'', ''ASC'']"
    using split_fields_join [OF plain] unfolding j .
  then show ?thesis
    by (simp add: t order_term_name_def trim_char_def after_last_def equal_fold_def)
qed

lemma stableOrderBy_id: "orderByIncludesColumn (stableOrderBy s) ''id''"
proof -
  have "orderByIncludesColumn (t @ '', id ASC'') ''id''" for t
    using order_id_asc split_char_comma [of "CHR '',''" t "'' id ASC''"]
    by (simp add: orderByIncludesColumn_def order_terms_append del: order_terms_include.simps)
  then show ?thesis by (simp add: stableOrderBy_def Let_def)
qed

lemma stableOrderBy_prefix: "prefix (if trim_space s = [] then ''created_at DESC'' else trim_space s) (stableOrderBy s)"
  by (simp add: stableOrderBy_def Let_def)

subsection \<open>Pages\<close>

lemma page_offset_exact:
  assumes "1 \<le> page" "0 \<le> n" "(page - 1) * n < 2 ^ 63"
  shows "page_offset page n = (page - 1) * n"
proof -
  have "0 \<le> (page - 1) * n" using assms by simp
  moreover have "- (2 ^ 63) \<le> (0 :: int)" by simp
  ultimately have "- (2 ^ 63) \<le> (page - 1) * n" by (rule order.trans [rotated])
  then show ?thesis unfolding page_offset_def using assms(3) by (rule duration_of_exact)
qed

lemma take_pages: "concat (map (\<lambda>k. take n (drop (k * n) xs)) [0..<m]) = take (m * n) xs"
proof (induction m)
  case (Suc m)
  have "take (Suc m * n) xs = take (m * n) xs @ take n (drop (m * n) xs)"
    by (simp only: mult_Suc add.commute [of n] take_add)
  with Suc show ?case by simp
qed simp

lemma pool_select_rows:
  "pool_select P failure w = (Ok ts, w') \<Longrightarrow> ts = map r_task (filter (P w') (tasks w)) \<and> (\<exists>fs. w' = w\<lparr>faults := fs\<rparr>)"
  by (auto simp: pool_select_def gets_def dest!: external_world elim!: bindE_OkE)

definition clause_of :: "task_query \<Rightarrow> string" where
  "clause_of q = stableOrderBy (if q_orderBy q = [] then ''created_at DESC'' else q_orderBy q)"

definition reads_links :: "(world \<Rightarrow> row \<Rightarrow> bool) \<Rightarrow> bool" where
  "reads_links P \<longleftrightarrow> (\<forall>w fs. P (w\<lparr>faults := fs\<rparr>) = P w)"

lemma filters_read_links: "reads_links (user_tasks_filter D u q)" "reads_links (all_tasks_filter q)"
proof -
  have "linked_to (w\<lparr>faults := fs\<rparr>) i p = linked_to w i p" for w fs i p
    by (simp add: linked_to_def)
  then have links: "linked_to (w\<lparr>faults := fs\<rparr>) = linked_to w" for w fs
    by (intro ext)
  have "common_filter q (w\<lparr>faults := fs\<rparr>) = common_filter q w" for w fs
    by (rule ext) (simp add: common_filter_def links)
  then show "reads_links (user_tasks_filter D u q)" "reads_links (all_tasks_filter q)"
    by (simp_all add: reads_links_def user_tasks_filter_def all_tasks_filter_def fun_eq_iff Let_def)
qed

lemma select_page_rows:
  assumes run: "select_page D q P failure w = (Ok ts, w')" and P: "reads_links P"
    and bound: "(page_or_first (q_page q) - 1) * size_or_default (q_pageSize q) < 2 ^ 63"
  shows "ts = take (nat (size_or_default (q_pageSize q)))
    (drop (nat ((page_or_first (q_page q) - 1) * size_or_default (q_pageSize q)))
      (order_by D (clause_of q) (map r_task (filter (P w) (tasks w)))))"
proof -
  let ?size = "size_or_default (q_pageSize q)" and ?page = "page_or_first (q_page q)"
  have pos: "1 \<le> ?page" "0 \<le> ?size" by (simp_all add: page_or_first_def size_or_default_def)
  have off: "page_offset ?page ?size = (?page - 1) * ?size" by (rule page_offset_exact [OF pos bound])
  obtain rows w1 where r: "pool_select P failure w = (Ok rows, w1)"
    and ts: "ts = take (nat ?size) (drop (nat ((?page - 1) * ?size)) (order_by D (clause_of q) rows))"
    using run by (auto simp: select_page_def Let_def off ret_def fail_def clause_of_def
        split: if_splits elim!: bindE_OkE)
  have "rows = map r_task (filter (P w) (tasks w))"
    using pool_select_rows [OF r] P by (auto simp: reads_links_def)
  then show ?thesis by (simp add: ts)
qed

subsection \<open>Reading back what was written\<close>

definition calm :: "world \<Rightarrow> bool" where
  "calm w \<longleftrightarrow> \<not> cancelled w \<and> faults w = []"

lemma calm_external: "calm w \<Longrightarrow> external text w = (Ok (), w)"
  by (simp add: calm_def external_def)

lemma pool_get_calm:
  "calm w \<Longrightarrow> pool_get P missing failure w =
     (case find P (tasks w) of Some r \<Rightarrow> (Ok (r_task r), w) | None \<Rightarrow> (Err (ErrNotFound missing), w))"
  by (simp add: pool_get_def bindE_def calm_external gets_def ret_def fail_def split: option.split)

lemma find_unique:
  assumes "r \<in> set rs" "P r" "\<And>s. s \<in> set rs \<Longrightarrow> P s \<Longrightarrow> s = r"
  shows "find P rs = Some r"
proof (cases "find P rs")
  case None
  then have "\<not> (\<exists>x. x \<in> set rs \<and> P x)" by (simp add: find_None_iff)
  then show ?thesis using assms(1,2) by blast
next
  case (Some x)
  then show ?thesis using find_mem [OF Some] assms(3) by simp
qed

lemma get_row:
  assumes "calm w" "distinct (map row_id (tasks w))" "r \<in> set (tasks w)" "live r" "row_id r = i"
  shows "repo_GetTaskByIDWithoutStatusFilter i w = (Ok (r_task r), w)"
    and "Status (r_task r) \<noteq> TaskStatusDone \<Longrightarrow> repo_GetTaskByID i w = (Ok (r_task r), w)"
proof -
  have u: "s = r" if "s \<in> set (tasks w)" "row_id s = i" for s
    using same_row [OF assms(2) assms(3) that(1)] assms(5) that(2) by simp
  have "find (\<lambda>s. live s \<and> row_id s = i) (tasks w) = Some r"
    by (rule find_unique [OF assms(3)]) (use assms(4,5) u in blast)+
  then show "repo_GetTaskByIDWithoutStatusFilter i w = (Ok (r_task r), w)"
    by (simp add: repo_GetTaskByIDWithoutStatusFilter_def pool_get_calm [OF assms(1)])
  assume s: "Status (r_task r) \<noteq> TaskStatusDone"
  have "find (\<lambda>s. live s \<and> row_id s = i \<and> Status (r_task s) \<noteq> ''done'') (tasks w) = Some r"
    by (rule find_unique [OF assms(3)]) (use assms(4,5) s u in \<open>unfold TaskStatusDone_def, blast\<close>)+
  then show "repo_GetTaskByID i w = (Ok (r_task r), w)"
    by (simp add: repo_GetTaskByID_def pool_get_calm [OF assms(1)])
qed

lemma get_missing:
  assumes "calm w" "\<And>r. r \<in> set (tasks w) \<Longrightarrow> row_id r = i \<Longrightarrow> \<not> live r"
  shows "repo_GetTaskByIDWithoutStatusFilter i w = (Err (ErrNotFound no_task_found), w)"
    and "repo_GetTaskByID i w = (Err (ErrNotFound no_task_found), w)"
proof -
  have none: "find P (tasks w) = None" if "\<And>r. P r \<Longrightarrow> live r \<and> row_id r = i" for P
    using that assms(2) by (fastforce simp: find_None_iff)
  have "find (\<lambda>r. live r \<and> row_id r = i) (tasks w) = None"
    "find (\<lambda>r. live r \<and> row_id r = i \<and> Status (r_task r) \<noteq> ''done'') (tasks w) = None"
    by (rule none, simp)+
  then show "repo_GetTaskByIDWithoutStatusFilter i w = (Err (ErrNotFound no_task_found), w)"
    "repo_GetTaskByID i w = (Err (ErrNotFound no_task_found), w)"
    unfolding repo_GetTaskByIDWithoutStatusFilter_def repo_GetTaskByID_def pool_get_calm [OF assms(1)]
    by simp_all
qed

lemma deleted_rows:
  "r \<in> set (update_rows (\<lambda>r. live r \<and> row_id r = i) (soft_delete now) rs) \<Longrightarrow> row_id r = i \<Longrightarrow> \<not> live r"
proof -
  assume "r \<in> set (update_rows (\<lambda>r. live r \<and> row_id r = i) (soft_delete now) rs)" and id: "row_id r = i"
  then obtain s where "r = (if live s \<and> row_id s = i then soft_delete now s else s)"
    unfolding update_rows_def set_map by blast
  then show "\<not> live r" using id by (cases "live s \<and> row_id s = i") simp_all
qed

subsection \<open>The inventory\<close>

definition before_start :: "int option \<Rightarrow> time \<Rightarrow> time \<Rightarrow> bool" where
  "before_start offset start now \<longleftrightarrow> (\<exists>n. offset = Some n \<and> 0 < n \<and> now \<le> start - n * second_ns)"

lemma inventory_has_pre:
  assumes "pre_remind_ok (ir_PreRemindBeforeSeconds row)"
  shows "ii_HasPre (inventory_item now row) = before_start (ir_PreRemindBeforeSeconds row) (ir_StartDate row) now"
proof (cases "ir_PreRemindBeforeSeconds row")
  case (Some n)
  have "duration_of (- n) second_ns = - n * second_ns"
    using assms Some
    by (intro duration_of_exact) (simp_all add: pre_remind_ok_def maxPreRemindBeforeSeconds_def second_ns_def)
  then show ?thesis using Some assms
    by (auto simp: inventory_item_def before_start_def pre_remind_ok_def Let_def)
qed (simp add: inventory_item_def before_start_def)

lemma inventory_join_from:
  "x \<in> set (inventory_join w t) \<Longrightarrow>
     ir_TaskID x = ID t \<and> ir_StartDate x = StartDate t \<and> ir_Title x = Title t \<and>
     ir_PreRemindBeforeSeconds x = PreRemindBeforeSeconds t"
  by (auto simp: inventory_join_def)

lemma sorted_join: "sorted (map ID ts) \<Longrightarrow> sorted (map ir_TaskID (concat (map (inventory_join w) ts)))"
proof (induction ts)
  case (Cons t ts)
  have same: "map ir_TaskID (inventory_join w t) = replicate (length (inventory_join w t)) (ID t)"
    by (rule replicate_eqI) (auto dest: inventory_join_from)
  have later: "ID t \<le> y" if "y \<in> set (map ir_TaskID (concat (map (inventory_join w) ts)))" for y
    using that Cons.prems by (auto dest: inventory_join_from)
  show ?case
    using Cons.IH Cons.prems later by (simp add: same sorted_append)
qed simp

lemma GetSchedulableInventory_Ok:
  assumes run: "GetSchedulableInventory w = (Ok items, w')"
  shows "sorted (map ii_TaskID items) \<and>
    (\<forall>x \<in> set items. \<exists>r \<in> set (tasks w). schedulable (clock (tick w)) r \<and> ii_TaskID x = row_id r \<and>
       ii_StartDate x = StartDate (r_task r) \<and>
       (pre_remind_ok (PreRemindBeforeSeconds (r_task r)) \<longrightarrow>
          ii_HasPre x = before_start (PreRemindBeforeSeconds (r_task r)) (StartDate (r_task r)) (clock w')))"
proof -
  obtain rows w1 where r: "repo_GetSchedulableInventory w = (Ok rows, w1)"
    and items: "items = map (inventory_item (clock (tick w1))) rows" and w': "w' = tick w1"
    using run by (auto simp: GetSchedulableInventory_def time_Now_def ret_def elim!: bindE_OkE)
  let ?ts = "sort_key ID (map r_task (filter (schedulable (clock (tick w))) (tasks w)))"
  obtain v where rows: "rows = concat (map (inventory_join v) ?ts)"
    using r by (auto simp: repo_GetSchedulableInventory_def time_Now_def gets_def
        dest!: external_world elim!: bindE_OkE)
  have keep: "map ii_TaskID items = map ir_TaskID rows"
    by (simp add: items inventory_item_def Let_def)
  have "sorted (map ii_TaskID items)" unfolding keep rows by (rule sorted_join) simp
  moreover have "\<exists>r \<in> set (tasks w). schedulable (clock (tick w)) r \<and> ii_TaskID x = row_id r \<and>
       ii_StartDate x = StartDate (r_task r) \<and>
       (pre_remind_ok (PreRemindBeforeSeconds (r_task r)) \<longrightarrow>
          ii_HasPre x = before_start (PreRemindBeforeSeconds (r_task r)) (StartDate (r_task r)) (clock w'))"
    if "x \<in> set items" for x
  proof -
    from that obtain row where row: "row \<in> set rows" "x = inventory_item (clock w') row"
      by (auto simp: items w')
    then obtain s where s: "s \<in> set (tasks w)" "schedulable (clock (tick w)) s" "row \<in> set (inventory_join v (r_task s))"
      by (auto simp: rows)
    note j = inventory_join_from [OF s(3)]
    show ?thesis
      using s j inventory_has_pre [of row "clock w'"]
      by (intro bexI [of _ s]) (simp_all add: row(2), simp_all add: inventory_item_def row_id_def Let_def)
  qed
  ultimately show ?thesis by blast
qed

lemma schedulable_spec:
  "schedulable now r \<Longrightarrow> live r \<and> \<not> Muted (r_task r) \<and> MessengerRelatedUserID (r_task r) \<noteq> None \<and>
     Status (r_task r) \<notin> {TaskStatusDone, TaskStatusDeleted, TaskStatusPending} \<and>
     (ParentID (r_task r) = None \<longrightarrow> \<not> isRecurrenceParentWithConfirmation (r_task r))"
  by (auto simp: schedulable_def Let_def isRecurrenceParentWithConfirmation_def status_defs
      dest: recurrenceFieldSet_Some split: if_splits)

subsection \<open>Purging attachments\<close>

lemma purge_three:
  assumes "\<not> cancelled w"
  shows "fst (purge_attempts maxAttempts 0 i cs w) = Ok () \<and>
    purges (snd (purge_attempts maxAttempts 0 i cs w)) =
      purges w @ (if length (faults w) \<ge> 3 \<and> list_all id (take 3 (faults w)) then [] else [(i, cs)])"
proof -
  have fs: "faults w = [] \<or> (\<exists>a. faults w = [a]) \<or> (\<exists>a b. faults w = [a, b]) \<or>
      (\<exists>a b c ds. faults w = a # b # c # ds)"
    by (metis list.exhaust)
  have three: "maxAttempts = Suc (Suc (Suc 0))" by (simp add: maxAttempts_def)
  show ?thesis
    using assms fs
    by (auto simp: three bindE_def when_op_def ret_def attempt_def
        PurgeByTask_def external_def modify_def Sleep_def)
qed

lemma select_page_calm:
  assumes w: "calm w" and bound: "int m * size_or_default (q_pageSize q) < 2 ^ 63" and k: "k < m"
  shows "fst (select_page D (q\<lparr>q_page := int k + 1\<rparr>) P failure w) =
    Ok (take (nat (size_or_default (q_pageSize q))) (drop (k * nat (size_or_default (q_pageSize q)))
      (order_by D (clause_of q) (map r_task (filter (P w) (tasks w))))))"
proof -
  let ?n = "size_or_default (q_pageSize q)"
  have n: "0 \<le> ?n" by (simp add: size_or_default_def)
  have "int k * ?n \<le> int m * ?n" using k n by (intro mult_right_mono) simp_all
  then have b: "(int k + 1 - 1) * ?n < 2 ^ 63" using bound by simp
  have off: "page_offset (page_or_first (int k + 1)) ?n = int k * ?n"
    using page_offset_exact [OF _ n b] by (simp add: page_or_first_def)
  have "nat (int k * ?n) = k * nat ?n" by (simp add: nat_mult_distrib n)
  moreover have "\<not> int k * ?n < 0" using n by (simp add: not_less)
  ultimately show ?thesis
    by (simp add: select_page_def off Let_def pool_select_def bindE_def calm_external [OF w] gets_def ret_def clause_of_def)
qed

end
