(* ===== verification/App_Lists.thy ===== *)
theory App_Lists
  imports App_Machine Task_Queries
begin

text \<open>
  Backlog items, targets and groups: what each statement of a table does, seen as an operation of the
  finite map from keys to rows that are not deleted (\<open>live_map\<close>), proved once for every table and
  handed to the three repositories; and what is left of a text that is cut into backlog items.
\<close>

subsection \<open>A table is a finite map\<close>

definition live_map :: "'a soft_table \<Rightarrow> app_world \<Rightarrow> int \<Rightarrow> 'a option" where
  "live_map T u i = map_option s_item (find (has_key T i) (st_rows T u))"

lemma map_find: "(\<And>x. x \<in> set xs \<Longrightarrow> Q (f x) = P x) \<Longrightarrow> find Q (map f xs) = map_option f (find P xs)"
  by (induction xs) auto

lemma find_all_same: "(\<And>x. x \<in> set xs \<Longrightarrow> P x = Q x) \<Longrightarrow> find P xs = find Q xs"
  by (induction xs) auto

lemma find_append: "find P (xs @ ys) = (case find P xs of None \<Rightarrow> find P ys | Some x \<Rightarrow> Some x)"
  by (induction xs) auto

text \<open>The time is read first.\<close>

lemma app_now_then:
  assumes "bindE app_now k u = (r, u')"
  obtains now c where "k now (u\<lparr>cal := c\<rparr>) = (r, u')"
  using assms by (auto simp: bindE_def in_cal_def in_core_def time_Now_def)

lemma has_keyD: "find (has_key T j) xs = Some x \<Longrightarrow> has_key T j x"
  by (auto simp: find_Some_iff)

context table_laws begin

lemma live_map_rows: "st_rows T v = st_rows T u \<Longrightarrow> live_map T v = live_map T u"
  by (rule ext) (simp add: live_map_def)

lemma rows_faults [simp]: "st_rows T (with_faults fs u) = st_rows T u" "st_next T (with_faults fs u) = st_next T u"
  by (simp_all add: with_faults_def set_core_def table_simps)

lemma live_map_faults [simp]: "live_map T (with_faults fs u) = live_map T u"
  by (rule live_map_rows) simp

lemma live_map_fresh: "soft_wf T u \<Longrightarrow> live_map T u (st_next T u) = None"
  by (force simp: live_map_def soft_wf_def find_None_iff has_key_def)

lemma soft_insert_map:
  assumes run: "soft_insert T mk failure u = (Ok i, u')" and wf: "soft_wf T u"
    and key: "\<And>now. st_key T (mk (st_next T u) now) = st_next T u"
  shows "i = st_next T u \<and> live_map T u i = None \<and> live_map T u' = (live_map T u)(i \<mapsto> mk i (clock (app_core u)))"
  using run unfolding soft_insert_def
proof (cases rule: app_external_then)
  case (went fs)
  let ?n = "st_next T u"
  have u': "u' = st_step T (st_put T (st_rows T u @ [\<lparr>s_item = mk ?n (clock (app_core u)), s_deleted_at = None\<rparr>])
      (with_faults fs u))" and i: "i = ?n"
    using went by auto
  have "live_map T u' j = ((live_map T u)(?n \<mapsto> mk ?n (clock (app_core u)))) j" for j
  proof (cases "j = ?n")
    case True
    then have "find (has_key T j) (st_rows T u) = None" using live_map_fresh [OF wf] by (simp add: live_map_def)
    then show ?thesis using True key by (simp add: live_map_def u' table_simps find_append has_key_def s_live_def)
  next
    case False
    then show ?thesis using key
      by (simp add: live_map_def u' table_simps find_append has_key_def split: option.split)
  qed
  then show ?thesis using i live_map_fresh [OF wf] by auto
qed simp

lemma soft_get_map:
  assumes "soft_get T i missing failure u = (r, u')"
  shows "live_map T u' = live_map T u \<and> (\<forall>x. r = Ok x \<longrightarrow> live_map T u i = Some x) \<and>
    (\<forall>e. r = Err e \<longrightarrow> is_not_found e \<longrightarrow> live_map T u i = None)"
  using assms unfolding soft_get_def
proof (cases rule: app_read_run)
  case (failed m fs)
  then show ?thesis by simp
next
  case (went fs)
  then show ?thesis
    by (cases "find (has_key T i) (st_rows T u)") (auto simp: fail_def ret_def live_map_def)
qed

lemma soft_update_map:
  assumes run: "soft_update T i f failure u = (Ok x, u')" and key: "\<And>now y. st_key T (f now y) = st_key T y"
  shows "\<exists>now. live_map T u' = (live_map T u)(i := map_option (f now) (live_map T u i))"
proof -
  obtain now c where
    rest: "bindE (app_external failure) (\<lambda>_. modify (\<lambda>u. st_put T (map (\<lambda>x. if has_key T i x
      then x\<lparr>s_item := f now (s_item x)\<rparr> else x) (st_rows T u)) u)) (u\<lparr>cal := c\<rparr>) = (Ok x, u')"
    using run unfolding soft_update_def by (rule app_now_then)
  let ?g = "\<lambda>x. if has_key T i x then x\<lparr>s_item := f now (s_item x)\<rparr> else x"
  from rest have u': "st_rows T u' = map ?g (st_rows T u)"
    by (cases rule: app_external_then) (auto simp: modify_def table_simps)
  have keys: "has_key T j (?g x) = has_key T j x" for j x by (simp add: has_key_def key s_live_def)
  have "live_map T u' j = ((live_map T u)(i := map_option (f now) (live_map T u i))) j" for j
  proof -
    have "find (has_key T j) (map ?g (st_rows T u)) = map_option ?g (find (has_key T j) (st_rows T u))"
      by (rule map_find) (rule keys)
    then have found: "live_map T u' j = map_option (s_item \<circ> ?g) (find (has_key T j) (st_rows T u))"
      by (simp add: live_map_def u' option.map_comp)
    show ?thesis
    proof (cases "find (has_key T j) (st_rows T u)")
      case (Some x)
      then show ?thesis unfolding found using has_keyD [OF Some]
        by (auto simp: live_map_def has_key_def)
    qed (simp add: found, auto simp: live_map_def)
  qed
  then show ?thesis by blast
qed

lemma soft_remove_map:
  assumes run: "soft_remove T i missing failure u = (r, u')"
  shows "(\<forall>x. r = Ok x \<longrightarrow> live_map T u i \<noteq> None \<and> live_map T u' = (live_map T u)(i := None)) \<and>
    (\<forall>e. r = Err e \<longrightarrow> live_map T u' = live_map T u)"
proof -
  let ?g = "\<lambda>now x. if has_key T i x then x\<lparr>s_deleted_at := Some now\<rparr> else x"
  obtain now c where
    rest: "bindE (app_external failure) (\<lambda>_ u. if list_ex (has_key T i) (st_rows T u)
       then (Ok (), st_put T (map (?g now) (st_rows T u)) u)
       else (Err (ErrNotFound missing), u)) (u\<lparr>cal := c\<rparr>) = (r, u')"
    using run unfolding soft_remove_def by (rule app_now_then)
  have v: "live_map T (u\<lparr>cal := c\<rparr>) = live_map T u" by (rule live_map_rows) (simp add: table_simps)
  from rest show ?thesis
  proof (cases rule: app_external_then)
    case (failed m fs)
    then show ?thesis by (simp add: v)
  next
    case (went fs)
    show ?thesis
    proof (cases "list_ex (has_key T i) (st_rows T u)")
      case True
      with went have out: "r = Ok ()"
        "u' = st_put T (map (?g now) (st_rows T u)) (with_faults fs (u\<lparr>cal := c\<rparr>))"
        by (simp_all only: rows_faults rows_cal if_True prod.inject)
      then have r: "r = Ok ()" and u': "st_rows T u' = map (?g now) (st_rows T u)"
        by (simp_all add: rows_put)
      have removed: "\<not> has_key T i (?g now x)" for x
        by (cases "has_key T i x") (simp_all add: has_key_def s_live_def)
      have gone: "find (has_key T i) (map (?g now) (st_rows T u)) = None"
        unfolding find_None_iff set_map using removed by blast
      have "live_map T u' j = ((live_map T u)(i := None)) j" for j
      proof (cases "j = i")
        case False
        have "find (has_key T j) (map (?g now) (st_rows T u)) = map_option (?g now) (find (has_key T j) (st_rows T u))"
          using False by (intro map_find) (auto simp: has_key_def)
        then have found: "live_map T u' j = map_option (s_item \<circ> ?g now) (find (has_key T j) (st_rows T u))"
          by (simp add: live_map_def u' option.map_comp)
        show ?thesis
        proof (cases "find (has_key T j) (st_rows T u)")
          case (Some x)
          then show ?thesis unfolding found using False has_keyD [OF Some]
            by (auto simp: live_map_def has_key_def)
        qed (simp add: found, simp add: live_map_def)
      qed (simp add: live_map_def u' gone)
      moreover have "live_map T u i \<noteq> None"
        using True by (auto simp: live_map_def list_ex_iff find_None_iff)
      ultimately show ?thesis using r by auto
    qed (use went in \<open>auto simp: v table_simps\<close>)
  qed
qed

text \<open>A statement that reports an error has changed no row.\<close>

lemma soft_write_Err:
  "soft_insert T mk failure u = (Err e, u') \<Longrightarrow> live_map T u' = live_map T u"
  "soft_update T i f failure u = (Err e, u') \<Longrightarrow> live_map T u' = live_map T u"
proof -
  show "live_map T u' = live_map T u" if "soft_insert T mk failure u = (Err e, u')"
    using that unfolding soft_insert_def
    by (cases rule: app_external_then) simp_all
next
  assume "soft_update T i f failure u = (Err e, u')"
  then obtain now c where
    rest: "bindE (app_external failure) (\<lambda>_. modify (\<lambda>u. st_put T (map (\<lambda>x. if has_key T i x
      then x\<lparr>s_item := f now (s_item x)\<rparr> else x) (st_rows T u)) u)) (u\<lparr>cal := c\<rparr>) = (Err e, u')"
    unfolding soft_update_def by (rule app_now_then)
  have "live_map T (u\<lparr>cal := c\<rparr>) = live_map T u" by (rule live_map_rows) (simp add: table_simps)
  with rest show "live_map T u' = live_map T u"
    by (cases rule: app_external_then) (simp_all add: modify_def)
qed

end

text \<open>The repository of backlog items.\<close>

lemma backlog_key [simp]: "st_key backlog_table = bl_ID"
  by (simp add: backlog_table_def)

lemma backlog_statements:
  "repo_CreateBacklog b u = (Ok i, u') \<Longrightarrow> soft_wf backlog_table u \<Longrightarrow> live_map backlog_table u i = None \<and>
     live_map backlog_table u' = (live_map backlog_table u)(i \<mapsto> b\<lparr>bl_ID := i, bl_CreatedAt := clock (app_core u),
       bl_UpdatedAt := clock (app_core u), bl_CompletedAt := None\<rparr>)"
  "repo_GetBacklogByID i u = (r, u') \<Longrightarrow> live_map backlog_table u' = live_map backlog_table u \<and>
     (\<forall>b. r = Ok b \<longrightarrow> live_map backlog_table u i = Some b) \<and>
     (\<forall>e. r = Err e \<longrightarrow> is_not_found e \<longrightarrow> live_map backlog_table u i = None)"
  "repo_UpdateBacklog b u = (Ok (), u') \<Longrightarrow> \<exists>now. live_map backlog_table u' =
     (live_map backlog_table u)(bl_ID b := map_option (\<lambda>x. x\<lparr>bl_Title := bl_Title b, bl_Description := bl_Description b,
       bl_CompletedAt := bl_CompletedAt b, bl_UpdatedAt := now\<rparr>) (live_map backlog_table u (bl_ID b)))"
  "repo_DeleteBacklog i u = (Ok (), u') \<Longrightarrow> live_map backlog_table u i \<noteq> None \<and>
     live_map backlog_table u' = (live_map backlog_table u)(i := None)"
  "repo_CreateBacklog b u = (Err e, u') \<or> repo_UpdateBacklog b u = (Err e, u') \<or> repo_DeleteBacklog i u = (Err e, u') \<Longrightarrow>
     live_map backlog_table u' = live_map backlog_table u"
  unfolding repo_CreateBacklog_def repo_GetBacklogByID_def repo_UpdateBacklog_def repo_DeleteBacklog_def
  subgoal by (drule backlogs.soft_insert_map) auto
  subgoal by (rule backlogs.soft_get_map)
  subgoal by (drule backlogs.soft_update_map) simp_all
  subgoal by (drule backlogs.soft_remove_map) simp
  subgoal using backlogs.soft_write_Err backlogs.soft_remove_map by blast
  done

subsection \<open>Cutting a text and putting it together\<close>

lemma split_on_nonempty [simp]: "split_on sep acc s \<noteq> []"
  by (induction sep acc s rule: split_on.induct) simp_all

lemma join_split_on: "sep \<noteq> [] \<Longrightarrow> join sep (split_on sep acc s) = acc @ s"
proof (induction sep acc s rule: split_on.induct)
  case (2 sep acc c s)
  show ?case
  proof (cases "prefix sep (c # s)")
    case True
    then show ?thesis using 2 by (auto simp: join_Cons elim!: prefixE)
  next
    case False
    then show ?thesis using 2 by simp
  qed
qed simp

text \<open>No part contains the separator: it is found at the first place it occurs at.\<close>

lemma split_on_parts:
  assumes "sep \<noteq> []" and "\<And>a b. acc = a @ b \<Longrightarrow> b \<noteq> [] \<Longrightarrow> \<not> prefix sep (b @ s)" and "p \<in> set (split_on sep acc s)"
  shows "\<not> sublist sep p"
  using assms
proof (induction sep acc s rule: split_on.induct)
  case (1 sep acc)
  show ?case
  proof
    assume "sublist sep p"
    then obtain a b where "acc = a @ sep @ b" using 1(3) by (auto simp: sublist_def)
    then show False using 1(1) 1(2) [of a "sep @ b"] by simp
  qed
next
  case (2 sep acc c s)
  show ?case
  proof (cases "prefix sep (c # s)")
    case True
    have "\<not> sublist sep acc"
    proof
      assume "sublist sep acc"
      then obtain a b where "acc = a @ sep @ b" by (auto simp: sublist_def)
      then show False using 2(3) 2(4) [of a "sep @ b"] by simp
    qed
    then show ?thesis using True 2(1) 2(3,5) by auto
  next
    case False
    have "\<not> prefix sep (b @ s)" if ab: "acc @ [c] = a @ b" "b \<noteq> []" for a b
    proof (cases "acc = a")
      case True
      then show ?thesis using ab \<open>\<not> prefix sep (c # s)\<close> by auto
    next
      case False
      then obtain b' where "acc = a @ b'" "b = b' @ [c]" "b' \<noteq> []"
        using ab by (cases b rule: rev_cases) auto
      then show ?thesis using 2(4) [of a b'] by simp
    qed
    then show ?thesis using False 2(2) 2(3,5) by simp
  qed
qed

subsection \<open>A batch of backlog items\<close>

definition batch_titles :: "string \<Rightarrow> string \<Rightarrow> string list" where
  "batch_titles items separator =
     filter (\<lambda>t. t \<noteq> []) (map trim_space (strings_Split items (if separator = [] then [CHR 0x0A] else separator)))"

lemma app_external_calm: "calm (app_core u) \<Longrightarrow> app_external msg u = (Ok (), u)"
  by (simp add: in_cal_def in_core_def calm_external)

text \<open>The rows \<open>new\<close> are what the lines \<open>ls\<close> left.\<close>

definition batch_rows :: "int \<Rightarrow> int option \<Rightarrow> backlog stored list \<Rightarrow> bool" where
  "batch_rows i c new \<longleftrightarrow> (\<forall>x \<in> set new. s_live x \<and> bl_UserID (s_item x) = i \<and>
     bl_MessengerRelatedUserID (s_item x) = c \<and> bl_CompletedAt (s_item x) = None)"

lemma create_backlog_run:
  assumes "repo_CreateBacklog b u = (r, u')"
  obtains (lost) e fs where "r = Err e" "u' = with_faults fs u" "\<not> calm (app_core u)"
  | (stored) x where "r = Ok (bl_ID (s_item x))" "backlog_rows u' = backlog_rows u @ [x]" "s_live x"
      "bl_Title (s_item x) = bl_Title b" "bl_UserID (s_item x) = bl_UserID b"
      "bl_MessengerRelatedUserID (s_item x) = bl_MessengerRelatedUserID b" "bl_CompletedAt (s_item x) = None"
      "calm (app_core u) \<Longrightarrow> calm (app_core u')"
  using assms [unfolded repo_CreateBacklog_def soft_insert_def]
proof (cases rule: app_external_then)
  case (failed m fs)
  have "\<not> calm (app_core u)"
    using assms failed(1) by (auto simp: repo_CreateBacklog_def soft_insert_def bindE_def app_external_calm)
  then show ?thesis using failed lost by blast
next
  case (went fs)
  let ?x = "\<lparr>s_item = b\<lparr>bl_ID := next_backlog u, bl_CreatedAt := clock (app_core u), bl_UpdatedAt := clock (app_core u),
      bl_CompletedAt := None\<rparr>, s_deleted_at = None\<rparr>"
  have u': "r = Ok (next_backlog u)" "backlog_rows u' = backlog_rows u @ [?x]" "app_core u' = (app_core u)\<lparr>faults := fs\<rparr>"
    using went by (auto simp: backlog_table_def with_faults_def set_core_def)
  have "faults (app_core u') = []" if "calm (app_core u)"
    using assms that by (auto simp: repo_CreateBacklog_def soft_insert_def bindE_def app_external_calm
        backlog_table_def calm_def)
  then have "calm (app_core u')" if "calm (app_core u)"
    using that u'(3) by (simp add: calm_def)
  then show ?thesis using u' by (intro stored [of ?x]) (simp_all add: s_live_def)
qed

lemma create_lines_run:
  "\<exists>new. fst (fold_op (create_line i c) ls ids u) = Ok (ids @ map (bl_ID \<circ> s_item) new) \<and>
     backlog_rows (snd (fold_op (create_line i c) ls ids u)) = backlog_rows u @ new \<and> batch_rows i c new \<and>
     subseq (map (bl_Title \<circ> s_item) new) (filter (\<lambda>t. t \<noteq> []) (map trim_space ls)) \<and>
     (calm (app_core u) \<longrightarrow> map (bl_Title \<circ> s_item) new = filter (\<lambda>t. t \<noteq> []) (map trim_space ls))"
proof (induction ls arbitrary: ids u)
  case Nil
  show ?case by (intro exI [of _ "[]"]) (simp add: ret_def batch_rows_def)
next
  case (Cons l ls)
  let ?t = "trim_space l"
  show ?case
  proof (cases "?t = []")
    case True
    then show ?thesis using Cons [of ids u] by (simp add: create_line_def)
  next
    case False
    obtain r u1 where run: "repo_CreateBacklog (batch_item i c ?t) u = (r, u1)" by fastforce
    then show ?thesis
    proof (cases rule: create_backlog_run)
      case (lost e fs)
      have "fold_op (create_line i c) (l # ls) ids u = fold_op (create_line i c) ls ids u1"
        using lost run False by (simp add: create_line_def bindE_def attempt_def ret_def)
      moreover have "backlog_rows u1 = backlog_rows u" by (simp add: lost(2))
      ultimately show ?thesis using Cons [of ids u1] lost(3) False by (auto intro: subseq_Cons')
    next
      case (stored x)
      let ?ids = "ids @ [bl_ID (s_item x)]"
      have fold: "fold_op (create_line i c) (l # ls) ids u = fold_op (create_line i c) ls ?ids u1"
        using stored(1) run False by (simp add: create_line_def bindE_def attempt_def ret_def)
      obtain new where new: "fst (fold_op (create_line i c) ls ?ids u1) = Ok (?ids @ map (bl_ID \<circ> s_item) new)"
        "backlog_rows (snd (fold_op (create_line i c) ls ?ids u1)) = backlog_rows u1 @ new" "batch_rows i c new"
        "subseq (map (bl_Title \<circ> s_item) new) (filter (\<lambda>t. t \<noteq> []) (map trim_space ls))"
        "calm (app_core u1) \<longrightarrow> map (bl_Title \<circ> s_item) new = filter (\<lambda>t. t \<noteq> []) (map trim_space ls)"
        using Cons [of ?ids u1] by blast
      have "batch_rows i c (x # new)" using stored new(3) by (simp add: batch_rows_def batch_item_def)
      moreover have "bl_Title (s_item x) = ?t" using stored(4) by (simp add: batch_item_def)
      ultimately show ?thesis unfolding fold
        using new stored(2,8) False by (intro exI [of _ "x # new"]) (auto simp: comp_def)
    qed
  qed
qed

end
