(* ===== verification/App_Deletion.thy ===== *)
theory App_Deletion
  imports App_Lists
begin

text \<open>
  Deleting a user and deleting a task group: which rows each touches (\<open>user_left\<close>), what is gone when
  it has succeeded, and what is left behind.
\<close>

subsection \<open>Which tasks a deletion touches\<close>

text \<open>The tasks \<open>GetTasksByUserID\<close> lists: a recurrence parent is not among them.\<close>

definition listed_task :: "int \<Rightarrow> row \<Rightarrow> bool" where
  "listed_task i r \<longleftrightarrow> live r \<and> UserID (r_task r) = i \<and>
     ((CronExpression (r_task r) = None \<and> RRule (r_task r) = None) \<or> ParentID (r_task r) \<noteq> None)"

definition dropped_row :: "int set \<Rightarrow> row \<Rightarrow> row \<Rightarrow> bool" where
  "dropped_row K r r' \<longleftrightarrow> r' = r \<or> (live r \<and> row_id r \<in> K \<and> (\<exists>now. r' = soft_delete now r))"

definition drops :: "int set \<Rightarrow> world \<Rightarrow> world \<Rightarrow> bool" where
  "drops K w w' \<longleftrightarrow> list_all2 (dropped_row K) (tasks w) (tasks w')"

lemma dropped_row_refl [simp]: "dropped_row K r r"
  by (simp add: dropped_row_def)

lemma dropped_row_trans: "dropped_row K r s \<Longrightarrow> dropped_row K s t \<Longrightarrow> dropped_row K r t"
  by (auto simp: dropped_row_def live_def soft_delete_def)

lemma drops_same: "tasks w' = tasks w \<Longrightarrow> drops K w w'"
  by (simp add: drops_def list_all2_refl)

interpretation drops: state_run "drops K"
proof
  show "drops K u w" if "drops K u v" "drops K v w" for u v w
    using that list_all2_trans [of "dropped_row K" "dropped_row K" "dropped_row K"]
    unfolding drops_def by (metis dropped_row_trans)
qed (simp_all add: drops_same)

lemma steps_drops_delete: "i \<in> K \<Longrightarrow> steps (drops K) (repo_DeleteTask i)"
  unfolding repo_DeleteTask_def pool_write_def
  by (intro drops.steps_bindE drops.time_Now drops.external stepsI)
     (auto simp: drops_same wait_for_cancel_def drops_def update_rows_def list.rel_map dropped_row_def intro!: list.rel_refl_strong)

lemma steps_drops_publish: "steps (drops K) (Publish p m)"
  by (cases p) (auto intro!: steps_rules drops.steps_modify simp: drops_same)

text \<open>The rest of the application as it was.\<close>

definition cal_left :: "int set \<Rightarrow> cal_world \<Rightarrow> cal_world \<Rightarrow> bool" where
  "cal_left K v v' \<longleftrightarrow> drops K (core v) (core v') \<and> bindings v' = bindings v"

definition user_left :: "int set \<Rightarrow> app_world \<Rightarrow> app_world \<Rightarrow> bool" where
  "user_left K u u' \<longleftrightarrow> cal_left K (cal u) (cal u') \<and> backlog_rows u' = backlog_rows u \<and>
     target_rows u' = target_rows u \<and> group_rows u' = group_rows u \<and> digest_rows u' = digest_rows u"

interpretation user_left: app_reads "user_left K" "cal_left K" "drops K"
  by unfold_locales (auto simp: user_left_def cal_left_def drops.run_refl intro: drops.run_trans)

lemma drops_core_same:
  "drops K w (w\<lparr>users := us\<rparr>)" "drops K w (w\<lparr>user_messengers := ums\<rparr>)"
  by (simp_all add: drops_same)

lemma steps_left_delete:
  "steps (user_left K) (DeleteMessengerRelatedUserByUserID i)" "steps (user_left K) (repo_DeleteUser i)"
  "steps (user_left K) (PurgeByUser i)"
  unfolding DeleteMessengerRelatedUserByUserID_def repo_DeleteUser_def PurgeByUser_def
  by (intro user_left.steps_bindE user_left.in_cal user_left.cal.in_core drops.external drops.time_Now
      user_left.steps_modify;
      simp add: user_left_def cal_left_def set_core_def drops_same drop_chats_def map_user_def)+

lemma steps_left_drop: "ID t \<in> K \<Longrightarrow> steps (user_left K) (drop_task F t)"
  unfolding drop_task_def
  by (intro user_left.steps_bindE user_left.steps_best_effort user_left.in_cal user_left.cal.in_core
      steps_drops_delete user_left.steps_case_option user_left.steps_ret user_left.steps_attempt
      user_left.account_reads user_left.steps_case_sum steps_drops_publish)

lemma steps_left_purge: "steps (user_left K) (purgeUserAttachmentsBestEffort F i)"
proof -
  have "steps (user_left K) (user_purge_attempts n k i)" for n k
  proof (induction n arbitrary: k)
    case (Suc n)
    show ?case unfolding user_purge_attempts.simps
      by (intro user_left.steps_bindE user_left.steps_when_op user_left.in_cal user_left.cal.in_core
          drops.sleep user_left.steps_attempt steps_left_delete user_left.steps_case_sum user_left.steps_ret Suc)
         simp
  qed (simp add: user_left.steps_ret)
  then show ?thesis by (simp add: purgeUserAttachmentsBestEffort_def user_left.steps_ret)
qed

lemma steps_for_each_set:
  assumes "run_preorder R" and "\<And>x. x \<in> set xs \<Longrightarrow> steps R (f x)" shows "steps R (for_each f xs)"
proof -
  note laws = run_preorder.steps_bindE [OF assms(1)] run_preorder.steps_ret [OF assms(1)]
  have "steps R (fold_op (\<lambda>x _. f x) xs s)" for s
    using assms(2) by (induction xs arbitrary: s) (simp_all add: laws)
  then show ?thesis by (simp add: for_each_def)
qed

lemma steps_people_purge: "steps same_people (purgeUserAttachmentsBestEffort F i)"
proof -
  have "steps same_people (user_purge_attempts n k i)" for n k
  proof (induction n arbitrary: k)
    case (Suc n)
    show ?case unfolding user_purge_attempts.simps
      by (intro same_people.steps_bindE same_people.steps_when_op same_people.in_cal cal_people.in_core
          people_le.sleep same_people.steps_attempt steps_same_lists same_people.steps_case_sum same_people.steps_ret Suc)
         simp
  qed (simp add: same_people.steps_ret)
  then show ?thesis by (simp add: purgeUserAttachmentsBestEffort_def same_people.steps_ret)
qed

text \<open>The tasks that are listed, and the state the deletion goes on with.\<close>

lemma drops_none: "drops {} w w' \<longleftrightarrow> tasks w' = tasks w"
  by (auto simp: drops_def dropped_row_def list_all2_conv_all_nth intro: nth_equalityI)

lemma GetTasksByUserID_run:
  "repo_GetTasksByUserID i w = (Ok ts, w') \<Longrightarrow>
     ts = map r_task (filter (listed_task i) (tasks w)) \<and> (\<exists>fs. w' = w\<lparr>faults := fs\<rparr>)"
  unfolding repo_GetTasksByUserID_def
  by (drule pool_select_rows) (simp add: listed_task_def [abs_def])

subsection \<open>With nothing going wrong\<close>

text \<open>No call fails and no transaction is open.\<close>

definition at_rest :: "world \<Rightarrow> bool" where
  "at_rest w \<longleftrightarrow> calm w \<and> tx w = None"

definition calmly :: "world \<Rightarrow> world \<Rightarrow> bool" where
  "calmly w w' \<longleftrightarrow> tasks w' = tasks w \<and> (at_rest w \<longrightarrow> at_rest w')"

interpretation calmly: run_preorder calmly
  by unfold_locales (auto simp: calmly_def)

lemma calmly_same:
  "tasks w' = tasks w \<Longrightarrow> faults w' = faults w \<Longrightarrow> cancelled w' = cancelled w \<Longrightarrow> tx w' = tx w \<Longrightarrow> calmly w w'"
  by (simp add: calmly_def at_rest_def calm_def)

lemma steps_calmly_basic [steps_rules]: "steps calmly time_Now" "steps calmly (external text)"
  by (auto simp: steps_def time_Now_def external_def calmly_same calmly_def at_rest_def calm_def split: list.split)

lemma steps_calmly_publish: "steps calmly (Publish p m)"
  by (cases p) (auto intro!: steps_rules calmly.steps_modify simp: calmly_same)

interpretation calmly: silent_run calmly
proof
  show "steps calmly (CreateTaskHistory h)" for h
    unfolding CreateTaskHistory_def by (intro steps_rules calmly.steps_modify calmly_same) simp_all
  show "steps calmly (Touch a i at)" for a i at
    by (cases a) (auto simp: TouchLastActivity_def intro!: steps_rules calmly.steps_modify calmly_same)
  show "steps calmly (OnTaskChanged x i action)" for x i action
    by (cases x) (auto intro!: steps_rules calmly.steps_modify calmly_same)
  show "steps calmly (PurgeByTask i cs)" for i cs
    unfolding PurgeByTask_def by (intro steps_rules calmly.steps_modify calmly_same) simp_all
  show "steps calmly (Sleep d)" for d
    unfolding Sleep_def by (intro calmly.steps_modify calmly_same) simp_all
qed (intro steps_rules)+

definition cal_calmly :: "cal_world \<Rightarrow> cal_world \<Rightarrow> bool" where
  "cal_calmly v v' \<longleftrightarrow> calmly (core v) (core v')"

definition app_calmly :: "app_world \<Rightarrow> app_world \<Rightarrow> bool" where
  "app_calmly u u' \<longleftrightarrow> calmly (app_core u) (app_core u')"

interpretation app_calmly: app_reads app_calmly cal_calmly calmly
  by unfold_locales (auto simp: app_calmly_def cal_calmly_def calmly.run_refl intro: calmly.run_trans)

text \<open>No live row has the key \<open>j\<close>.\<close>

definition dead :: "int \<Rightarrow> world \<Rightarrow> bool" where
  "dead j w \<longleftrightarrow> (\<forall>r \<in> set (tasks w). row_id r = j \<longrightarrow> \<not> live r)"

lemma dropped_row_live: "dropped_row K r r' \<Longrightarrow> row_id r' = row_id r \<and> (live r' \<longrightarrow> r' = r)"
  by (auto simp: dropped_row_def soft_delete_def row_id_def live_def)

lemma drops_rows: "drops K w w' \<Longrightarrow> r' \<in> set (tasks w') \<Longrightarrow> \<exists>r \<in> set (tasks w). dropped_row K r r'"
  unfolding drops_def by (auto simp: list_all2_conv_all_nth set_conv_nth)

lemma drops_dead: "drops K w w' \<Longrightarrow> dead j w \<Longrightarrow> dead j w'"
  unfolding dead_def by (metis drops_rows dropped_row_live)

lemma delete_at_rest:
  assumes "at_rest w"
  shows "\<exists>w'. repo_DeleteTask i w = (Ok (), w') \<and> at_rest w' \<and> dead i w'"
proof -
  let ?w = "(tick w)\<lparr>tasks := update_rows (\<lambda>r. live r \<and> row_id r = i) (soft_delete (clock (tick w))) (tasks w)\<rparr>"
  have calm: "calm (tick w)" using assms by (simp add: at_rest_def calm_def)
  have "repo_DeleteTask i w = (Ok (), ?w)"
    using assms calm by (simp add: repo_DeleteTask_def time_Now_def pool_write_def bindE_def calm_external lock_held_def at_rest_def)
  moreover have "dead i ?w"
  proof -
    have "\<not> (row_id (if live r \<and> row_id r = i then soft_delete n r else r) = i \<and>
        live (if live r \<and> row_id r = i then soft_delete n r else r))" for r n
      by (cases "live r \<and> row_id r = i") (auto simp: soft_delete_def live_def row_id_def)
    moreover have "tasks ?w = map (\<lambda>r. if live r \<and> row_id r = i then soft_delete (clock (tick w)) r else r) (tasks w)"
      by (simp add: update_rows_def)
    ultimately show ?thesis unfolding dead_def by (metis (no_types, lifting) imageE set_map)
  qed
  ultimately show ?thesis using assms by (auto simp: at_rest_def calm_def)
qed

lemma drop_task_at_rest:
  assumes "at_rest (app_core u)" and run: "drop_task F t u = (r, u')"
  shows "at_rest (app_core u') \<and> dead (ID t) (app_core u')"
proof -
  obtain w' where w': "repo_DeleteTask (ID t) (app_core u) = (Ok (), w')" "at_rest w'" "dead (ID t) w'"
    using delete_at_rest [OF assms(1)] by blast
  let ?u = "u\<lparr>cal := (cal u)\<lparr>core := w'\<rparr>\<rparr>"
  have deleted: "best_effort (in_task (repo_DeleteTask (ID t))) u = (Ok (), ?u)"
    using w'(1) by (simp add: best_effort_def attempt_def bindE_def in_cal_def in_core_def ret_def)
  let ?m = "case MessengerRelatedUserID t of None \<Rightarrow> ret () | Some i \<Rightarrow>
      bindE (attempt (user_getMessengerName i)) (\<lambda>r. case r of Inl _ \<Rightarrow> ret ()
        | Inr messengerName \<Rightarrow>
            in_task (Publish (a_producer F) (ToTaskMessage (delete_event (ID t) messengerName))))"
  have rest: "?m ?u = (r, u')" using run deleted by (simp add: drop_task_def bindE_def)
  have "steps app_calmly ?m"
    by (intro app_calmly.steps_case_option app_calmly.steps_ret app_calmly.steps_bindE app_calmly.steps_attempt
        app_calmly.account_reads app_calmly.steps_case_sum app_calmly.in_cal app_calmly.cal.in_core steps_calmly_publish)
  then have "app_calmly ?u u'" using rest by (rule stepsD)
  then show ?thesis using w' by (simp add: app_calmly_def calmly_def dead_def)
qed

lemma drop_tasks_at_rest:
  assumes "at_rest (app_core u)" and "fold_op (\<lambda>t _. drop_task F t) ts () u = (Ok (), u')"
  shows "at_rest (app_core u') \<and> (\<forall>t \<in> set ts. dead (ID t) (app_core u'))"
  using assms
proof (induction ts arbitrary: u)
  case Nil
  then show ?case by (simp add: ret_def)
next
  case (Cons t ts)
  obtain v where v: "drop_task F t u = (Ok (), v)" "fold_op (\<lambda>t _. drop_task F t) ts () v = (Ok (), u')"
    using Cons(3) by (auto elim!: bindE_OkE)
  have rest: "at_rest (app_core v)" "dead (ID t) (app_core v)" using drop_task_at_rest [OF Cons(2) v(1)] by auto
  have "steps (user_left (ID ` set ts)) (for_each (drop_task F) ts)"
    by (rule steps_for_each_set [OF user_left.run_preorder_axioms]) (simp add: steps_left_drop)
  then have "user_left (ID ` set ts) v u'" using v(2) unfolding for_each_def by (rule stepsD)
  then have "dead (ID t) (app_core u')"
    using rest(2) by (auto simp: user_left_def cal_left_def intro: drops_dead)
  then show ?case using Cons(1) [OF rest(1) v(2)] by simp
qed

subsection \<open>A user is deleted\<close>

lemma stamped_Ok:
  assumes "bindE app_now (\<lambda>_. bindE (app_external msg) (\<lambda>_. modify f)) u = (Ok x, u')"
  obtains v where "same_people u v" "u' = f v"
proof -
  obtain now v where 1: "app_now u = (Ok now, v)" and 2: "bindE (app_external msg) (\<lambda>_. modify f) v = (Ok x, u')"
    using assms by (rule bindE_OkE)
  obtain y w where 3: "app_external msg v = (Ok y, w)" and 4: "modify f w = (Ok x, u')"
    using 2 by (rule bindE_OkE)
  have "same_people u v" "same_people v w"
    using stepsD [OF same_people.in_cal [OF cal_people.in_core [OF people_le.time_Now]] 1]
      stepsD [OF same_people.in_cal [OF cal_people.in_core [OF people_le.external]] 3] by simp_all
  then have "same_people u w" by (rule same_people.run_trans)
  then show ?thesis using 4 that by (simp add: modify_def)
qed

text \<open>What the deletion of the user \<open>i\<close> makes of the accounts.\<close>

definition without_user :: "int \<Rightarrow> (int \<times> bool) list \<Rightarrow> (int \<times> bool) list" where
  "without_user i ids = map (\<lambda>x. if fst x = i then (i, False) else x) ids"

lemma repo_DeleteUser_Ok:
  assumes "repo_DeleteUser i u = (Ok x, u')"
  shows "user_ids (app_core u') = without_user i (user_ids (app_core u)) \<and>
    user_messengers (app_core u') = user_messengers (app_core u)"
  using assms [unfolded repo_DeleteUser_def]
proof (rule stamped_Ok)
  fix v assume v: "same_people u v" "u' = set_core (map_user i (\<lambda>x. x\<lparr>ur_deleted := True\<rparr>)) v"
  have "user_ids (map_user i (\<lambda>x. x\<lparr>ur_deleted := True\<rparr>) w) = without_user i (user_ids w)" for w
    unfolding user_ids_map_user unfolding user_ids_def without_user_def by (auto simp: user_live_def)
  then show ?thesis using v by (simp add: same_people_def) (simp add: map_user_def)
qed

lemma DeleteChats_Ok:
  assumes "DeleteMessengerRelatedUserByUserID i u = (Ok x, u')"
  shows "user_ids (app_core u') = user_ids (app_core u) \<and>
    user_messengers (app_core u') = user_messengers (drop_chats i (app_core u))"
  using assms [unfolded DeleteMessengerRelatedUserByUserID_def]
proof (rule stamped_Ok)
  fix v assume v: "same_people u v" "u' = set_core (drop_chats i) v"
  then show ?thesis by (simp add: same_people_def drop_chats_def) (simp add: user_ids_def)
qed

lemma GetUserByID_run: "in_task (GetUserByID i) u = (Ok x, u') \<Longrightarrow>
    (i, True) \<in> set (user_ids (app_core u)) \<and> same_people u u' \<and> user_left {} u u' \<and> app_calmly u u'"
  using in_task_Ok [of "GetUserByID i" u x u'] GetUserByID_Ok
    stepsD [OF same_people.account_reads(3) [unfolded GetUser_def]]
    stepsD [OF user_left.account_reads(3) [unfolded GetUser_def]]
    stepsD [OF app_calmly.account_reads(3) [unfolded GetUser_def]] by blast

lemma steps_list_tasks:
  "steps same_people (in_task (repo_GetTasksByUserID i))" "steps (user_left K) (in_task (repo_GetTasksByUserID i))"
  "steps app_calmly (in_task (repo_GetTasksByUserID i))"
  unfolding repo_GetTasksByUserID_def
  by (intro same_people.in_cal cal_people.in_core people_le.pool_select user_left.in_cal user_left.cal.in_core
      drops.pool_select app_calmly.in_cal app_calmly.cal.in_core calmly.pool_select)+

lemma DeleteUser_Ok:
  assumes run: "DeleteUser F i u = (Ok (), u')"
  shows "(i, True) \<in> set (user_ids (app_core u))"
    and "user_ids (app_core u') = without_user i (user_ids (app_core u))"
    and "user_messengers (app_core u') = user_messengers (drop_chats i (app_core u))"
    and "user_left (row_id ` {r \<in> set (tasks (app_core u)). listed_task i r}) u u'"
    and "at_rest (app_core u) \<Longrightarrow> \<forall>r \<in> set (tasks (app_core u')). \<not> listed_task i r"
proof -
  let ?K = "row_id ` {r \<in> set (tasks (app_core u)). listed_task i r}"
  obtain x u1 ts u2 u3 u4 u5 where 1: "in_task (GetUserByID i) u = (Ok x, u1)"
    and 2: "in_task (repo_GetTasksByUserID i) u1 = (Ok ts, u2)"
    and 3: "for_each (drop_task F) ts u2 = (Ok (), u3)"
    and 4: "DeleteMessengerRelatedUserByUserID i u3 = (Ok (), u4)"
    and 5: "repo_DeleteUser i u4 = (Ok (), u5)" and 6: "purgeUserAttachmentsBestEffort F i u5 = (Ok (), u')"
    using run unfolding DeleteUser_def by (auto elim!: bindE_OkE)
  note first = GetUserByID_run [OF 1]
  show "(i, True) \<in> set (user_ids (app_core u))" using first by blast
  have tasks1: "tasks (app_core u1) = tasks (app_core u)"
    using first by (simp add: user_left_def cal_left_def drops_none)
  obtain w2 where get: "repo_GetTasksByUserID i (app_core u1) = (Ok ts, w2)" "u2 = u1\<lparr>cal := (cal u1)\<lparr>core := w2\<rparr>\<rparr>"
    using 2 by (auto simp: in_cal_def in_core_def) (metis prod.collapse)
  have ts: "ts = map r_task (filter (listed_task i) (tasks (app_core u)))"
    using GetTasksByUserID_run [OF get(1)] tasks1 by simp
  then have keys: "ID ` set ts = ?K" by (auto simp: row_id_def)
  have step2: "same_people u1 u2" "user_left {} u1 u2" "app_calmly u1 u2"
    using stepsD [OF steps_list_tasks(1) 2] stepsD [OF steps_list_tasks(2) 2] stepsD [OF steps_list_tasks(3) 2]
    by simp_all
  have p3: "same_people u2 u3"
    using 3 by (rule stepsD [rotated]) (intro same_people.steps_for_each same_people.drop_task)
  have l3: "user_left ?K u2 u3"
    using 3 by (rule stepsD [rotated])
      (rule steps_for_each_set [OF user_left.run_preorder_axioms], rule steps_left_drop, unfold keys [symmetric], rule imageI)
  have p6: "same_people u5 u'" by (rule stepsD [OF steps_people_purge 6])
  have rest: "user_left ?K u3 u'"
    using stepsD [OF steps_left_delete(1) 4] stepsD [OF steps_left_delete(2) 5] stepsD [OF steps_left_purge 6]
    by (blast intro: user_left.run_trans)
  have wider: "user_left {} a b \<Longrightarrow> user_left ?K a b" for a b
    by (simp add: user_left_def cal_left_def drops_none drops_same)
  show "user_left ?K u u'"
    using wider first wider [OF step2(2)] l3 rest by (blast intro: user_left.run_trans)
  show "user_ids (app_core u') = without_user i (user_ids (app_core u))"
    using p6 repo_DeleteUser_Ok [OF 5] DeleteChats_Ok [OF 4] p3 step2(1) first by (simp add: same_people_def)
  show "user_messengers (app_core u') = user_messengers (drop_chats i (app_core u))"
    using p6 repo_DeleteUser_Ok [OF 5] DeleteChats_Ok [OF 4] p3 step2(1) first
    by (simp add: same_people_def drop_chats_def)
  show "\<forall>r \<in> set (tasks (app_core u')). \<not> listed_task i r" if "at_rest (app_core u)"
  proof
    fix r' assume r': "r' \<in> set (tasks (app_core u'))"
    have "at_rest (app_core u2)" using that first step2(3) by (simp add: app_calmly_def calmly_def)
    from drop_tasks_at_rest [OF this 3 [unfolded for_each_def]]
    have gone: "dead (ID t) (app_core u3)" if "t \<in> set ts" for t using that by blast
    have drop: "drops ?K (app_core u) (app_core u')" "drops ?K (app_core u3) (app_core u')"
      using \<open>user_left ?K u u'\<close> rest by (simp_all add: user_left_def cal_left_def)
    show "\<not> listed_task i r'"
    proof
      assume listed: "listed_task i r'"
      obtain r where r: "r \<in> set (tasks (app_core u))" "dropped_row ?K r r'" using drops_rows [OF drop(1) r'] by blast
      then have "r' = r" using listed dropped_row_live [OF r(2)] by (simp add: listed_task_def)
      then have "r_task r' \<in> set ts" using r(1) listed by (simp add: ts)
      then have "dead (row_id r') (app_core u')" using gone drops_dead [OF drop(2)] by (simp add: row_id_def)
      then show False using r' listed by (simp add: dead_def listed_task_def)
    qed
  qed
qed

text \<open>With unique keys the rows that were dropped are listed ones.\<close>

lemma user_left_rows:
  assumes left: "user_left (row_id ` {r \<in> set (tasks (app_core u)). listed_task i r}) u u'"
    and ids: "distinct (map row_id (tasks (app_core u)))"
  shows "list_all2 (\<lambda>r r'. r' = r \<or> listed_task i r \<and> (\<exists>now. r' = soft_delete now r))
    (tasks (app_core u)) (tasks (app_core u'))"
proof (rule list.rel_mono_strong)
  show "list_all2 (dropped_row (row_id ` {r \<in> set (tasks (app_core u)). listed_task i r}))
      (tasks (app_core u)) (tasks (app_core u'))"
    using left by (simp add: user_left_def cal_left_def drops_def)
next
  fix r r' assume r: "r \<in> set (tasks (app_core u))"
    and drop: "dropped_row (row_id ` {r \<in> set (tasks (app_core u)). listed_task i r}) r r'"
  have "s = r" if "s \<in> set (tasks (app_core u))" "row_id s = row_id r" for s
    using ids r that by (auto simp: distinct_map dest: inj_onD)
  then show "r' = r \<or> listed_task i r \<and> (\<exists>now. r' = soft_delete now r)"
    using drop by (auto simp: dropped_row_def)
qed

subsection \<open>A task group is deleted\<close>

definition group_bound :: "int \<Rightarrow> app_world \<Rightarrow> bool" where
  "group_bound i u \<longleftrightarrow> (\<exists>b \<in> set (bindings (cal u)). binding_live b \<and> cb_GroupID b = Some i)"

lemma CountByGroupID_run:
  assumes "in_cal (CountByGroupID i) u = (Ok n, u')"
  shows "(\<exists>fs. u' = with_faults fs u) \<and> (n > 0 \<longleftrightarrow> group_bound i u)"
proof -
  have split: "in_cal (bindE m k) = bindE (in_cal m) (\<lambda>x. in_cal (k x))" for m :: "'x cop" and k :: "'x \<Rightarrow> int cop"
    by (rule ext) (simp add: in_cal_def bindE_def split: prod.split outcome.split)
  have "bindE (app_external ''failed to count bindings by group'') (\<lambda>_. in_cal (gets (\<lambda>v.
      int (length (filter (\<lambda>b. cb_GroupID b = Some i \<and> binding_live b) (bindings v)))))) u = (Ok n, u')"
    using assms by (simp add: CountByGroupID_def split)
  then show ?thesis
  proof (cases rule: app_external_then)
    case (went fs)
    then show ?thesis
      by (auto simp: in_cal_def gets_def group_bound_def filter_empty_conv)
  qed simp
qed

lemma group_deletion_run:
  assumes "DeleteTaskGroup F i u = (r, u')" and "a_bindings F" and "group_bound i u"
  shows "r \<noteq> Ok () \<and> same_lists u u'"
proof -
  let ?guard = "when_op (a_bindings F) (bindE (in_cal (CountByGroupID i)) (\<lambda>n.
    if n > 0 then fail (ErrConflict ''cannot delete task group while calendar bindings reference it; delete or reassign those bindings first'')
    else ret ()))"
  obtain z u1 where 1: "repo_GetTaskGroupByID i u = (z, u1)" by fastforce
  have u1: "\<exists>fs. u1 = with_faults fs u"
    using soft_get_run(1) [OF 1 [unfolded repo_GetTaskGroupByID_def]] by (simp add: group_table_def)
  then have same1: "same_lists u u1" using same_lists_faults by blast
  show ?thesis
  proof (cases "\<exists>old. z = Ok old")
    case True
    then obtain old where old: "z = Ok old" by blast
    have "steps same_lists ?guard"
      by (intro same_lists.steps_when_op same_lists.steps_bindE same_lists.in_cal
        any_cal.binding_reads same_lists.steps_if same_lists.steps_fail same_lists.steps_ret)
    then have same: "same_lists u1 (snd (?guard u1))" by (rule steps_at)
    have bound: "group_bound i u1" using u1 assms(3) by (auto simp: group_bound_def)
    have stops: "fst (?guard u1) \<noteq> Ok ()"
    proof
      assume "fst (?guard u1) = Ok ()"
      then obtain n u3 where n: "in_cal (CountByGroupID i) u1 = (Ok n, u3)" "\<not> n > 0"
        using assms(2) by (auto simp: when_op_def fail_def bindE_def split: prod.splits outcome.splits if_splits)
      then show False using CountByGroupID_run [OF n(1)] bound by simp
    qed
    then have "fst (DeleteTaskGroup F i u) \<noteq> Ok () \<and> snd (DeleteTaskGroup F i u) = snd (?guard u1)"
      using 1 old by (cases "fst (?guard u1)") (auto simp: DeleteTaskGroup_def bindE_def split: prod.splits)
    then show ?thesis using assms(1) same_lists.run_trans [OF same1 same] by auto
  next
    case False
    then have "fst (DeleteTaskGroup F i u) \<noteq> Ok () \<and> snd (DeleteTaskGroup F i u) = u1"
      using 1 by (cases z) (auto simp: DeleteTaskGroup_def bindE_def)
    then show ?thesis using assms(1) same1 by auto
  qed
qed

text \<open>A group that was deleted is gone from the table, and no calendar binding refers to it.\<close>

lemma DeleteTaskGroup_Ok:
  assumes run: "DeleteTaskGroup F i u = (Ok (), u')"
  shows "live_map group_table u i \<noteq> None \<and> live_map group_table u' = (live_map group_table u)(i := None) \<and>
    (a_bindings F \<longrightarrow> \<not> group_bound i u)"
proof -
  obtain old u1 u2 u3 where 1: "repo_GetTaskGroupByID i u = (Ok old, u1)"
    and 2: "when_op (a_bindings F) (bindE (in_cal (CountByGroupID i)) (\<lambda>n. if n > 0 then fail (ErrConflict
        ''cannot delete task group while calendar bindings reference it; delete or reassign those bindings first'')
        else ret ())) u1 = (Ok (), u2)"
    and 3: "repo_DeleteTaskGroup i u2 = (Ok (), u3)" and 4: "app_touch F (gr_UserID old) u3 = (Ok (), u')"
    using run unfolding DeleteTaskGroup_def by (auto elim!: bindE_OkE)
  have same: "live_map group_table v = live_map group_table w" if "same_lists w v" for v w
    using that by (intro groups.live_map_rows) (auto simp: same_lists_def group_table_def)
  have "same_lists u u1" using soft_get_run(1) [OF 1 [unfolded repo_GetTaskGroupByID_def]] same_lists_faults
    by (auto simp: group_table_def)
  moreover have "steps same_lists (when_op (a_bindings F) (bindE (in_cal (CountByGroupID i)) (\<lambda>n. if n > 0 then fail e else ret ())))" for e
    by (intro same_lists.steps_when_op same_lists.steps_bindE same_lists.in_cal
        any_cal.binding_reads same_lists.steps_if same_lists.steps_fail same_lists.steps_ret)
  then have "same_lists u1 u2" using 2 by (rule stepsD)
  moreover have "same_lists u3 u'" by (rule stepsD [OF same_lists.touch_steps 4])
  ultimately have maps: "live_map group_table u2 = live_map group_table u" "live_map group_table u' = live_map group_table u3"
    by (simp_all add: same)
  show ?thesis
    using groups.soft_remove_map [OF 3 [unfolded repo_DeleteTaskGroup_def]] group_deletion_run [OF run] maps by auto
qed

end
