(* ===== verification/App_Contents.thy ===== *)
theory App_Contents
  imports App_Deletion
begin

text \<open>
  Digests and imported files: what exactly is in a digest, when settings are refused, and that an
  import accounts for every event of the file.
\<close>

subsection \<open>A page, read in one piece\<close>

lemma list_page_Ok:
  assumes run: "list_page rows order p n ob cf f u = (Ok (xs, cnt), u')"
    and same: "\<And>fs v. rows (with_faults fs v) = rows v" and first: "page_or_first p = 1"
  shows "xs = take (nat (size_or_default n)) (order (if ob = [] then ''created_at DESC'' else ob) (rows u)) \<and>
    cnt = int (length (rows u))"
proof -
  have "0 \<le> size_or_default n" by (simp add: size_or_default_def)
  then have off: "page_offset 1 (size_or_default n) = 0" using page_offset_exact [of 1 "size_or_default n"] by simp
  let ?ob = "if ob = [] then ''created_at DESC'' else ob"
  have "bindE (app_external cf) (\<lambda>_. bindE (gets (\<lambda>u. int (length (rows u)))) (\<lambda>c. bindE (app_external f) (\<lambda>_.
      gets (\<lambda>u. (take (nat (size_or_default n)) (order ?ob (rows u)), c))))) u = (Ok (xs, cnt), u')"
    using run by (simp add: list_page_def Let_def first off)
  then show ?thesis
  proof (cases rule: app_read_run)
    case (went fs)
    then show ?thesis by (cases rule: app_external_then) (simp_all add: same gets_def)
  qed simp
qed

subsection \<open>A digest\<close>

text \<open>The rows a digest for the dates \<open>a\<close> and \<open>b\<close> is about.\<close>

definition digest_row :: "int \<Rightarrow> time option \<Rightarrow> time option \<Rightarrow> row \<Rightarrow> bool" where
  "digest_row i a b r \<longleftrightarrow> live r \<and> UserID (r_task r) = i \<and> \<not> SkipDigest (r_task r) \<and>
     (\<forall>t. a = Some t \<longrightarrow> t \<le> StartDate (r_task r)) \<and> (\<forall>t. b = Some t \<longrightarrow> StartDate (r_task r) \<le> t)"

definition digest_count :: "int \<Rightarrow> time option \<Rightarrow> time option \<Rightarrow> app_world \<Rightarrow> int" where
  "digest_count i a b u = (case (a, b) of
      (Some x, Some y) \<Rightarrow> int (length (filter (completed_between i x y) (live_items backlog_table u)))
    | _ \<Rightarrow> 0)"

lemma digest_filter: "user_tasks_filter D i (digest_query a b) w = digest_row i a b"
  by (rule ext) (auto simp: user_tasks_filter_def common_filter_def digest_query_def digest_row_def
      value_given_def text_given_def Let_def split: option.splits)

text \<open>What the reading steps of a digest leave alone.\<close>

definition digest_reads :: "app_world \<Rightarrow> app_world \<Rightarrow> bool" where
  "digest_reads u u' \<longleftrightarrow> same_lists u u' \<and> same_people u u' \<and> user_left {} u u'"

definition cal_digest_reads :: "cal_world \<Rightarrow> cal_world \<Rightarrow> bool" where
  "cal_digest_reads v v' \<longleftrightarrow> cal_people v v' \<and> cal_left {} v v'"

definition core_digest_reads :: "world \<Rightarrow> world \<Rightarrow> bool" where
  "core_digest_reads w w' \<longleftrightarrow> people_le w w' \<and> drops {} w w'"

lemma steps_both: "steps R m \<Longrightarrow> steps S m \<Longrightarrow> steps (\<lambda>u u'. R u u' \<and> S u u') m"
  by (simp add: steps_def)

interpretation digest_reads: app_reads digest_reads cal_digest_reads core_digest_reads
proof
  show "core_digest_reads w w" for w by (simp add: core_digest_reads_def drops.run_refl)
  show "core_digest_reads u w" if "core_digest_reads u v" "core_digest_reads v w" for u v w
    using that by (auto simp: core_digest_reads_def intro: people_le_trans drops.run_trans)
  note both = steps_both [of people_le _ "drops {}", folded core_digest_reads_def [abs_def]]
  show "steps core_digest_reads time_Now" "steps core_digest_reads (external msg)"
    "steps core_digest_reads (CreateTaskHistory h)" "steps core_digest_reads (Touch a i at)"
    "steps core_digest_reads (OnTaskChanged x i act)" "steps core_digest_reads (PurgeByTask i cs)" for msg h a i at x act cs
    by (intro both people_le.time_Now drops.time_Now people_le.external drops.external people_le.history drops.history
        people_le.touch drops.touch people_le.hook drops.hook people_le.purge drops.purge)+
  show "steps core_digest_reads (Sleep d)" if "0 \<le> d" for d
    using that by (intro both people_le.sleep drops.sleep)
qed (auto simp: digest_reads_def cal_digest_reads_def core_digest_reads_def drops.run_refl same_lists.run_refl
    same_people.run_refl user_left.run_refl
    intro: people_le_trans drops.run_trans cal_people.run_trans cal_people.run_refl
      cal_people.on_core cal_people.on_reply cal_people.on_call user_left.cal.run_refl user_left.cal.run_trans
      user_left.cal.on_core user_left.cal.on_reply user_left.cal.on_call
      same_lists.run_trans same_people.run_trans user_left.run_trans
      same_lists.on_cal same_people.on_cal user_left.on_cal)

lemma digest_reads_tables:
  assumes "digest_reads u u'"
  shows "tasks (app_core u') = tasks (app_core u)" "live_items target_table u' = live_items target_table u" "live_items backlog_table u' = live_items backlog_table u"
    "user_ids (app_core u') = user_ids (app_core u)"
  using assms by (auto simp: digest_reads_def user_left_def cal_left_def drops_none live_items_def backlog_table_def
      target_table_def same_people_def)

lemma completed_count_run:
  assumes "GetCompletedBacklogsCount i a b u = (Ok n, u')"
  shows "n = int (length (filter (completed_between i a b) (live_items backlog_table u)))"
  using assms [unfolded GetCompletedBacklogsCount_def]
  by (cases rule: app_external_then) (auto simp: gets_def live_items_def backlog_table_def)

lemma digest_tasks_run:
  assumes "in_task (repo_GetTasksByUserIDWithPagination D i (digest_query a b)) u = (Ok (ts, n), u')"
  shows "ts = take 1000 (order_by D (clause_of (digest_query a b))
    (map r_task (filter (digest_row i a b) (tasks (app_core u)))))"
proof -
  have query: "q_page (digest_query a b) = 1" "q_pageSize (digest_query a b) = 1000"
    by (simp_all add: digest_query_def)
  obtain w' where "repo_GetTasksByUserIDWithPagination D i (digest_query a b) (app_core u) = (Ok (ts, n), w')"
    using in_task_Ok [OF assms] by blast
  then obtain c w1 w2 where c: "count_rows (user_tasks_filter D i (digest_query a b)) (app_core u) = (Ok c, w1)"
    and page: "select_page D (digest_query a b) (user_tasks_filter D i (digest_query a b))
      ''failed to get tasks by user id'' w1 = (Ok ts, w2)"
    by (auto simp: repo_GetTasksByUserIDWithPagination_def ret_def elim!: bindE_OkE)
  have "tasks w1 = tasks (app_core u)"
    using c by (auto simp: count_rows_def ret_def elim!: bindE_OkE dest!: pool_select_rows)
  moreover have "ts = take (nat (size_or_default 1000)) (drop (nat ((page_or_first 1 - 1) * size_or_default 1000))
      (order_by D (clause_of (digest_query a b)) (map r_task (filter (digest_row i a b) (tasks w1)))))"
    using select_page_rows [OF page] by (simp add: digest_filter reads_links_def page_or_first_def size_or_default_def query)
  ultimately show ?thesis by (simp add: page_or_first_def size_or_default_def)
qed

lemma digest_targets_run:
  assumes "repo_GetAllTargets F 1 1000 ''created_at DESC'' (Some i) None u = (Ok (ts, n), u')"
  shows "ts = take 1000 (a_target_order F ''created_at DESC'' (filter (\<lambda>t. tg_UserID t = i) (live_items target_table u)))"
  using list_page_Ok [OF assms [unfolded repo_GetAllTargets_def]]
  by (simp add: live_items_def target_table_def page_or_first_def size_or_default_def value_given_def chat_filter_def)

lemma ret_Ok: "ret x w = (Ok y, w') \<longleftrightarrow> y = x \<and> w' = w"
  by (auto simp: ret_def)

definition midnight :: "time \<Rightarrow> bool" where "midnight t \<longleftrightarrow> t mod day_ns = 0"

lemma midnight_Truncate [simp]: "midnight (Truncate_day t)"
  by (simp add: midnight_def Truncate_day_def)

lemma GetDigest_Ok:
  assumes run: "GetDigest F i c m a b u = (Ok d, u')"
  shows "digest_reads u u'" and "(i, True) \<in> set (user_ids (app_core u))"
    and "dr_UserID d = i" and "dr_CompletedBacklogsCount d = digest_count i a b u"
    and "dr_Tasks d = take 1000 (order_by (a_db F) (clause_of (digest_query a b))
      (map r_task (filter (digest_row i a b) (tasks (app_core u)))))"
    and "dr_Targets d = take 1000 (a_target_order F ''created_at DESC''
      (filter (\<lambda>t. tg_UserID t = i) (live_items target_table u)))"
    and "case a of Some t \<Rightarrow> dr_StartDateFrom d = t | None \<Rightarrow> midnight (dr_StartDateFrom d)"
    and "\<And>t. b = Some t \<Longrightarrow> dr_StartDateTo d = t"
proof -
  show "digest_reads u u'" by (rule stepsD [OF digest_reads.GetDigest run])
  let ?count = "case (a, b) of (Some x, Some y) \<Rightarrow> GetCompletedBacklogsCount i x y | _ \<Rightarrow> ret 0"
  let ?from = "case a of Some x \<Rightarrow> ret x | None \<Rightarrow> bindE app_now (\<lambda>now. ret (Truncate_day now))"
  let ?to = "case b of Some x \<Rightarrow> ret x | None \<Rightarrow> app_now"
  obtain user cnt ts n tgs k since until chat u1 u2 u3 u4 u5 u6 u7
    where 1: "missing_is_unprocessable (GetUser i) u = (Ok user, u1)" and 2: "?count u1 = (Ok cnt, u2)"
      and 3: "in_task (repo_GetTasksByUserIDWithPagination (a_db F) i (digest_query a b)) u2 = (Ok (ts, n), u3)"
      and 4: "repo_GetAllTargets F 1 1000 ''created_at DESC'' (Some i) None u3 = (Ok (tgs, k), u4)"
      and 5: "?from u4 = (Ok since, u5)" and 6: "?to u5 = (Ok until, u6)" and 7: "resolve_chat i c m u6 = (Ok chat, u7)"
      and d: "dr_UserID d = i" "dr_CompletedBacklogsCount d = cnt" "dr_Tasks d = ts" "dr_Targets d = tgs"
        "dr_StartDateFrom d = since" "dr_StartDateTo d = until"
    using run unfolding GetDigest_def by (auto simp: ret_Ok elim!: bindE_OkE)
  have r1: "digest_reads u u1" by (rule stepsD [OF digest_reads.missing_steps [OF digest_reads.account_reads(3)] 1])
  have "steps digest_reads ?count" by (cases a; cases b) (auto intro!: digest_reads.list_reads digest_reads.steps_ret)
  then have r2: "digest_reads u1 u2" using 2 by (rule stepsD)
  have r3: "digest_reads u2 u3"
    by (rule stepsD [OF digest_reads.in_cal [OF digest_reads.cal.in_core [OF digest_reads.page_of_tasks]] 3])
  note u2 = digest_reads.run_trans [OF r1 r2] and u3 = digest_reads.run_trans [OF digest_reads.run_trans [OF r1 r2] r3]
  show "(i, True) \<in> set (user_ids (app_core u))"
    using missing_is_unprocessable_Ok [OF 1] by (auto simp: GetUser_def dest!: in_task_Ok GetUserByID_Ok)
  show "dr_UserID d = i" by (rule d(1))
  show "dr_CompletedBacklogsCount d = digest_count i a b u"
    using 2 digest_reads_tables(3) [OF r1] d(2)
    by (cases a; cases b) (auto simp: digest_count_def ret_def dest: completed_count_run)
  show "dr_Tasks d = take 1000 (order_by (a_db F) (clause_of (digest_query a b))
      (map r_task (filter (digest_row i a b) (tasks (app_core u)))))"
    using digest_tasks_run [OF 3] digest_reads_tables(1) [OF u2] d(3) by simp
  show "dr_Targets d = take 1000 (a_target_order F ''created_at DESC''
      (filter (\<lambda>t. tg_UserID t = i) (live_items target_table u)))"
    using digest_targets_run [OF 4] digest_reads_tables(2) [OF u3] d(4) by simp
  show "case a of Some t \<Rightarrow> dr_StartDateFrom d = t | None \<Rightarrow> midnight (dr_StartDateFrom d)"
  proof (cases a)
    case None
    then obtain now where "since = Truncate_day now" using 5 by (auto simp: ret_Ok elim!: bindE_OkE)
    then show ?thesis using None d(5) by simp
  qed (use 5 d(5) in \<open>simp add: ret_Ok\<close>)
  show "dr_StartDateTo d = t" if "b = Some t" for t using 6 d(6) that by (simp add: ret_def)
qed

subsection \<open>Settings for a user and a chat that has some\<close>

lemma keeps_same_lists: "steps same_lists m \<Longrightarrow> keeps (\<lambda>u. digest_rows u = ds) m (\<lambda>_. True)"
  by (auto simp: keeps_def steps_def) (metis same_lists_rows)

lemma keeps_duplicate:
  assumes old: "old \<in> set ds" "digest_key old = digest_key s"
  shows "keeps (\<lambda>u. digest_rows u = ds) (CreateDigestSettings F s) (\<lambda>_. False)"
proof -
  let ?I = "\<lambda>u. digest_rows u = ds"
  let ?key = "GetDigestSettingsByUserID (ds_UserID s) (ds_MessengerRelatedUserID s)"
  let ?found = "\<lambda>r :: err + digest_settings. case r of Inl e \<Rightarrow> \<not> is_not_found e | Inr _ \<Rightarrow> True"
  have key: "keeps ?I (attempt ?key) ?found"
  proof (rule keepsI)
    fix u r u' assume u: "?I u" and run: "attempt ?key u = (r, u')"
    obtain z v where get: "?key u = (z, v)" by fastforce
    note res = GetDigestSettings_run [OF get]
    have "?I v" using same_lists_rows [OF res(1)] u by simp
    moreover have "\<not> is_not_found e" if "z = Err e" for e
      using res(3) [OF that] old u by (auto simp: digest_key_def)
    ultimately show "?I u' \<and> (\<forall>x. r = Ok x \<longrightarrow> ?found x)"
      using run get by (cases z) (auto simp: attempt_def)
  qed
  have checks: "keeps ?I (check_user i) (\<lambda>_. True)" "keeps ?I (check_chat c) (\<lambda>_. True)" "keeps ?I (check_clock t) (\<lambda>_. True)" for i c t
    by (intro keeps_same_lists same_lists.account_reads same_lists.digest_reads)+
  have last: "keeps ?I (case r of Inr _ \<Rightarrow> fail x | Inl e \<Rightarrow> if \<not> is_not_found e then fail e else m) (\<lambda>_. False)"
    if "?found r" for r x and m :: "int aop"
    using that by (cases r) (simp_all add: keeps_fail)
  show ?thesis
    unfolding CreateDigestSettings_def
    by (rule keeps_bindE, rule checks, rule keeps_bindE, rule checks, rule keeps_bindE, rule checks,
        rule keeps_bindE, rule checks, rule keeps_bindE, rule key, rule last)
qed

subsection \<open>An imported file\<close>

text \<open>Every event of the file is read or reported.\<close>

lemma map_events_count: "length (fst (map_events k evs)) + length (snd (map_events k evs)) = length evs"
proof (induction evs arbitrary: k)
  case (Cons ev evs)
  have "length (fst (map_events (Suc k) evs)) + length (snd (map_events (Suc k) evs)) = length evs" by (rule Cons)
  then show ?case by (auto simp: split: prod.split sum.split)
qed simp

text \<open>The key \<open>i\<close> is the key of a task row of the user for the chat, and it was not there when the next
  key was \<open>n\<close>.\<close>

definition owned_task :: "ics_options \<Rightarrow> int \<Rightarrow> world \<Rightarrow> int \<Rightarrow> bool" where
  "owned_task opts n w i \<longleftrightarrow> n \<le> i \<and> (\<exists>r \<in> set (tasks w). row_id r = i \<and> UserID (r_task r) = io_UserID opts \<and>
     MessengerRelatedUserID (r_task r) = io_MessengerRelatedUserID opts)"

definition app_store :: "app_world \<Rightarrow> app_world \<Rightarrow> bool" where
  "app_store u u' \<longleftrightarrow> core_le (app_core u) (app_core u')"

definition cal_store :: "cal_world \<Rightarrow> cal_world \<Rightarrow> bool" where
  "cal_store v v' \<longleftrightarrow> core_le (core v) (core v')"

interpretation app_store: app_tasks app_store cal_store core_le
  by unfold_locales (auto simp: app_store_def cal_store_def core_le.run_refl intro: core_le.run_trans)

definition store_ready :: "world \<Rightarrow> bool" where
  "store_ready w \<longleftrightarrow> store_wf w \<and> 0 < next_id w"

lemma core_le_ready: "core_le w w' \<Longrightarrow> store_ready w \<Longrightarrow> store_ready w' \<and> next_id w \<le> next_id w'"
  by (simp add: core_le_def world_le_def store_ready_def)

lemma core_le_owned:
  assumes "core_le w w'" and "store_ready w" and "owned_task opts n w i" shows "owned_task opts n w' i"
proof -
  obtain r where r: "r \<in> set (tasks w)" "row_id r = i" "UserID (r_task r) = io_UserID opts"
      "MessengerRelatedUserID (r_task r) = io_MessengerRelatedUserID opts" "n \<le> i"
    using assms(3) by (auto simp: owned_task_def)
  then obtain k where k: "k < length (tasks w)" "tasks w ! k = r" by (auto simp: in_set_conv_nth)
  have "rows_le (tasks w) (tasks w') (next_id w)"
    using assms(1,2) by (simp add: core_le_def world_le_def store_ready_def)
  then have "k < length (tasks w')" "row_le r (tasks w' ! k)" using k by (auto simp: rows_le_def)
  then show ?thesis using r by (auto simp: owned_task_def row_le_def)
qed

lemma mapped_owner:
  assumes "MapEventToTaskFields L ev i g c w = (Ok t, w')"
  shows "UserID t = i \<and> MessengerRelatedUserID t = c"
  using assms unfolding MapEventToTaskFields_def
  by (elim bindE_OkE) (auto simp: ret_def event_task_def Let_def zero_task_def)

lemma ics_created_owned:
  assumes run: "in_task (CreateTask S t) u = (Ok (i, c), u')" and ready: "store_ready (app_core u)"
    and owner: "UserID t = io_UserID opts" "MessengerRelatedUserID t = io_MessengerRelatedUserID opts"
  shows "owned_task opts (next_id (app_core u)) (app_core u') i"
proof -
  have "CreateTask S t (app_core u) = (Ok (i, c), app_core u')"
    using run by (auto simp: in_cal_def in_core_def prod_eq_iff)
  from CreateTask_Ok [OF this] ready
  have i: "i = next_id (app_core u)" and "\<exists>now. inserted_row (normal_task t) i now \<in> set (tasks (app_core u'))"
    by (auto simp: store_ready_def)
  then obtain now where row: "inserted_row (normal_task t) i now \<in> set (tasks (app_core u'))" by blast
  show ?thesis unfolding owned_task_def
    by (intro conjI bexI [OF _ row])
       (use i owner in \<open>simp_all add: inserted_row_def normal_task_def row_id_def\<close>)
qed

text \<open>An event ends as a task of the user or as an error.\<close>

lemma import_event_run:
  assumes run: "import_event S opts (k, ev) res u = (Ok res', u')" and ready: "store_ready (app_core u)"
  shows "(\<exists>i. res' = res\<lparr>im_CreatedTaskIDs := im_CreatedTaskIDs res @ [i]\<rparr> \<and>
           owned_task opts (next_id (app_core u)) (app_core u') i) \<or> (\<exists>e. res' = item_failed k ev e res)"
proof -
  let ?map = "in_task (MapEventToTaskFields (lib S) (icsEventToGoogle ev) (io_UserID opts)
              (io_GroupID opts) (io_MessengerRelatedUserID opts))"
  obtain r u1 where 1: "attempt ?map u = (Ok r, u1)"
    and k1: "(case r of Inl e \<Rightarrow> ret (item_failed k ev e res)
     | Inr mapped \<Rightarrow> (let t = imported_task mapped in bindE (attempt (in_task (CreateTask S t))) (\<lambda>c.
          case c of Inl e \<Rightarrow> ret (item_failed k ev e res)
          | Inr (taskID, _) \<Rightarrow>
              bindE (best_effort (in_task (PublishImportedTaskSchedule S (Some (t\<lparr>ID := taskID\<rparr>))))) (\<lambda>_.
              ret (res\<lparr>im_CreatedTaskIDs := im_CreatedTaskIDs res @ [taskID]\<rparr>))))) u1 = (Ok res', u')"
    using run by (auto simp: import_event_def elim!: bindE_OkE)
  show ?thesis
  proof (cases r)
    case (Inr mapped)
    let ?t = "imported_task mapped"
    have m: "?map u = (Ok mapped, u1)" using attempt_Ok [OF 1] Inr by auto
    have "app_store u u1" by (rule stepsD [OF app_store.in_cal [OF app_store.cal.in_core [OF app_store.CreateTask_checks]] m])
    then have ready1: "store_ready (app_core u1)" and next1: "next_id (app_core u) \<le> next_id (app_core u1)"
      using core_le_ready ready by (auto simp: app_store_def)
    have owner: "UserID ?t = io_UserID opts" "MessengerRelatedUserID ?t = io_MessengerRelatedUserID opts"
      using in_task_Ok [OF m] mapped_owner by (auto simp: imported_task_def)
    obtain c u2 where 2: "attempt (in_task (CreateTask S ?t)) u1 = (Ok c, u2)"
      and k2: "(case c of Inl e \<Rightarrow> ret (item_failed k ev e res)
          | Inr (taskID, _) \<Rightarrow>
              bindE (best_effort (in_task (PublishImportedTaskSchedule S (Some (?t\<lparr>ID := taskID\<rparr>))))) (\<lambda>_.
              ret (res\<lparr>im_CreatedTaskIDs := im_CreatedTaskIDs res @ [taskID]\<rparr>))) u2 = (Ok res', u')"
      using k1 Inr by (auto simp: Let_def elim!: bindE_OkE)
    show ?thesis
    proof (cases c)
      case (Inr ij)
      then obtain i j where c: "c = Inr (i, j)" by (cases ij) auto
      have create: "in_task (CreateTask S ?t) u1 = (Ok (i, j), u2)" using attempt_Ok [OF 2] c by auto
      have "app_store u1 u2"
        by (rule stepsD [OF app_store.in_cal [OF app_store.cal.in_core [OF core_le.CreateTask]] create])
      then have ready2: "store_ready (app_core u2)" using core_le_ready ready1 by (auto simp: app_store_def)
      have own: "owned_task opts (next_id (app_core u1)) (app_core u2) i"
        by (rule ics_created_owned [OF create ready1 owner])
      obtain x where "best_effort (in_task (PublishImportedTaskSchedule S (Some (?t\<lparr>ID := i\<rparr>)))) u2 = (Ok x, u')"
        and res': "res' = res\<lparr>im_CreatedTaskIDs := im_CreatedTaskIDs res @ [i]\<rparr>"
        using k2 c by (auto simp: ret_Ok elim!: bindE_OkE)
      then have "app_store u2 u'"
        by (intro stepsD [OF app_store.steps_best_effort [OF app_store.in_cal [OF app_store.cal.in_core [OF core_le.imported_steps(1)]]]])
      then have "owned_task opts (next_id (app_core u1)) (app_core u') i"
        using core_le_owned ready2 own by (simp add: app_store_def)
      then have "owned_task opts (next_id (app_core u)) (app_core u') i" using next1 by (auto simp: owned_task_def)
      then show ?thesis using res' by blast
    qed (use k2 in \<open>auto simp: ret_Ok\<close>)
  qed (use k1 in \<open>auto simp: ret_Ok\<close>)
qed

lemma import_events_run:
  assumes "fold_op (import_event S opts) evs res u = (Ok res', u')" and "store_ready (app_core u)"
    and "\<forall>i \<in> set (im_CreatedTaskIDs res). owned_task opts n (app_core u) i" and "n \<le> next_id (app_core u)"
  shows "length (im_CreatedTaskIDs res') + length (im_Errors res') =
      length (im_CreatedTaskIDs res) + length (im_Errors res) + length evs \<and>
    im_SkippedTODO res' = im_SkippedTODO res \<and>
    (\<forall>i \<in> set (im_CreatedTaskIDs res'). owned_task opts n (app_core u') i)"
  using assms
proof (induction evs arbitrary: res u)
  case Nil
  then show ?case by (simp add: ret_Ok)
next
  case (Cons e evs)
  obtain k ev where e: "e = (k, ev)" by (cases e)
  obtain res1 u1 where 1: "import_event S opts (k, ev) res u = (Ok res1, u1)"
    and rest: "fold_op (import_event S opts) evs res1 u1 = (Ok res', u')"
    using Cons(2) e by (auto elim!: bindE_OkE)
  have le: "core_le (app_core u) (app_core u1)"
    using stepsD [OF app_store.import_event 1] by (simp add: app_store_def)
  then have ready: "store_ready (app_core u1)" "n \<le> next_id (app_core u1)"
    using core_le_ready Cons(3,5) by fastforce+
  have old: "\<forall>i \<in> set (im_CreatedTaskIDs res). owned_task opts n (app_core u1) i"
    using core_le_owned [OF le Cons(3)] Cons(4) by blast
  from import_event_run [OF 1 Cons(3)] show ?case
  proof
    assume "\<exists>i. res1 = res\<lparr>im_CreatedTaskIDs := im_CreatedTaskIDs res @ [i]\<rparr> \<and>
      owned_task opts (next_id (app_core u)) (app_core u1) i"
    then obtain i where i: "res1 = res\<lparr>im_CreatedTaskIDs := im_CreatedTaskIDs res @ [i]\<rparr>"
      "owned_task opts (next_id (app_core u)) (app_core u1) i" by blast
    then have "owned_task opts n (app_core u1) i" using Cons(5) by (auto simp: owned_task_def)
    then have "\<forall>i \<in> set (im_CreatedTaskIDs res1). owned_task opts n (app_core u1) i" using old i(1) by simp
    from Cons(1) [OF rest ready(1) this ready(2)] i(1) show ?thesis by simp
  next
    assume "\<exists>x. res1 = item_failed k ev x res"
    then have res1: "im_CreatedTaskIDs res1 = im_CreatedTaskIDs res" "im_SkippedTODO res1 = im_SkippedTODO res"
      "length (im_Errors res1) = Suc (length (im_Errors res))"
      by (auto simp: item_failed_def)
    from Cons(1) [OF rest ready(1) _ ready(2)] old res1 show ?thesis by simp
  qed
qed

lemma ics_Import_Ok:
  assumes run: "ics_Import S (Inr c) opts u = (Ok res, u')" and ready: "store_ready (app_core u)"
  shows "length (im_CreatedTaskIDs res) + length (im_Errors res) = length (vc_Events c) \<and>
    im_SkippedTODO res = vc_Todos c \<and>
    (\<forall>i \<in> set (im_CreatedTaskIDs res). owned_task opts (next_id (app_core u)) (app_core u') i)"
proof -
  obtain es xs where events: "map_events 0 (vc_Events c) = (es, xs)" by fastforce
  obtain x u1 y u2 z u3 where 1: "check_user (io_UserID opts) u = (Ok x, u1)" and 2: "check_group opts u1 = (Ok y, u2)"
    and 3: "check_import_chat opts u2 = (Ok z, u3)"
    and 4: "fold_op (import_event S opts) (List.enumerate 0 es)
      \<lparr>im_CreatedTaskIDs = [], im_SkippedTODO = vc_Todos c, im_Errors = xs\<rparr> u3 = (Ok res, u')"
    using run by (auto simp: ics_Import_def ics_Parse_def events fail_def elim!: bindE_OkE split: if_splits)
  have "app_store u u3"
    using stepsD [OF app_store.account_reads(5) 1] stepsD [OF app_store.import_checks(1) 2]
      stepsD [OF app_store.import_checks(2) 3] by (blast intro: app_store.run_trans)
  then have at: "store_ready (app_core u3)" "next_id (app_core u) \<le> next_id (app_core u3)"
    using core_le_ready ready by (auto simp: app_store_def)
  have "length es + length xs = length (vc_Events c)" using map_events_count [of 0 "vc_Events c"] events by simp
  then show ?thesis using import_events_run [OF 4 at(1) _ at(2)] by simp
qed

subsection \<open>A batch of backlog items\<close>

lemma batch_run:
  assumes run: "CreateBacklogsBatch F items separator i c u = (Ok ids, u')"
  shows "\<exists>new. backlog_rows u' = backlog_rows u @ new \<and> ids = map (bl_ID \<circ> s_item) new \<and> new \<noteq> [] \<and>
    batch_rows i c new \<and> subseq (map (bl_Title \<circ> s_item) new) (batch_titles items separator) \<and>
    (at_rest (app_core u) \<longrightarrow> map (bl_Title \<circ> s_item) new = batch_titles items separator)"
proof -
  let ?lines = "strings_Split items (if separator = [] then [CHR 0x0A] else separator)"
  obtain x u1 y u2 u3 where 1: "check_user i u = (Ok x, u1)" and 2: "check_chat c u1 = (Ok y, u2)"
    and 3: "fold_op (create_line i c) ?lines [] u2 = (Ok ids, u3)" and ids: "ids \<noteq> []"
    and 4: "app_touch F i u3 = (Ok (), u')"
    using run by (auto simp: CreateBacklogsBatch_def Let_def ret_Ok fail_def elim!: bindE_OkE split: if_splits)
  have "same_lists u u2"
    using stepsD [OF same_lists.account_reads(5) 1] stepsD [OF same_lists.account_reads(6) 2] by (rule same_lists.run_trans)
  then have rows: "backlog_rows u2 = backlog_rows u" by (auto simp: same_lists_def)
  have "same_lists u3 u'" by (rule stepsD [OF same_lists.touch_steps 4])
  then have rows': "backlog_rows u' = backlog_rows u3" by (auto simp: same_lists_def)
  have calm: "calm (app_core u2)" if "at_rest (app_core u)"
    using stepsD [OF app_calmly.account_reads(5) 1] stepsD [OF app_calmly.account_reads(6) 2] that
    by (simp add: app_calmly_def calmly_def at_rest_def)
  show ?thesis
    using create_lines_run [of i c ?lines "[]" u2] 3 rows rows' ids calm by (auto simp: batch_titles_def)
qed

subsection \<open>Times of day, and chats without a user\<close>

lemma getnum_bounds: "getnum fixed s = Some (n, rest) \<Longrightarrow> 0 \<le> n \<and> n < 100"
  by (induction fixed s rule: getnum.induct) (auto simp: digit_of_def is_digit_def split: if_splits)

lemma parse_clock_bounds: "parse_clock s = Some (h, m) \<Longrightarrow> 0 \<le> h \<and> h < 24 \<and> 0 \<le> m \<and> m < 60"
  by (auto simp: parse_clock_def split: option.splits list.splits char.splits bool.splits if_splits)

lemma chat_lookup_run:
  assumes run: "GetMessengerRelatedUser chatID messengerUserID userID messengerID u = (Ok x, u')"
    and wf: "people_wf u"
  shows "\<exists>i j. userID = Some i \<and> messengerID = Some j"
proof -
  obtain a u1 b u2 where 1: "check_given GetUser userID u = (Ok a, u1)" and 2: "check_given GetMessenger messengerID u1 = (Ok b, u2)"
    and 3: "repo_GetMessengerRelatedUser chatID messengerUserID userID messengerID u2 = (Ok x, u')"
    using run unfolding GetMessengerRelatedUser_def by (auto elim!: bindE_OkE)
  have "steps same_people (check_given GetUser userID)" "steps same_people (check_given GetMessenger messengerID)"
    by (intro same_people.given_steps same_people.account_reads)+
  then have "same_people u u2" using 1 2 by (blast intro: same_people.run_trans dest: stepsD)
  then have "people_wf u2" using wf same_people_wf by blast
  moreover have "x \<in> set (live_chats u2)" "mru_UserID x = userID" "mru_MessengerID x = messengerID"
    using app_find_run [OF 3 [unfolded repo_GetMessengerRelatedUser_def]] by (auto simp: live_chats_def)
  ultimately show ?thesis
    by (auto simp: live_chats_def people_wf_def chats_wf_def chat_placed_def)
qed

end
