(* ===== verification/Http_Machine.thy ===== *)
theory Http_Machine
  imports Http_Runs Http_Status App_Contents
begin

text \<open>
  The server as one state machine: requests of clients, and what the application does on its own (its rounds,
  and what happens outside).  The relations \<open>App_Machine\<close> is put together from are followed through a request
  by interpretation of \<open>http_run\<close>.
\<close>

interpretation app_cal: http_run app_cal cal_le core_le F
  by unfold_locales (auto simp: cal_le_def tx_closed_def tables_wf grows_refl)

interpretation lists_le: http_run lists_le any_cal anything F
  by unfold_locales simp

interpretation people_grow: http_run people_grow cal_people people_le F
  by unfold_locales (simp add: cal_people_step)

interpretation limit_kept: http_run "limit_kept F" cal_people people_le F
  by unfold_locales (simp add: cal_people_step)

subsection \<open>The machine\<close>

inductive http_step :: "http_config \<Rightarrow> http_server \<Rightarrow> app_world \<Rightarrow> app_world \<Rightarrow> bool" for cfg V where
  http_serve: "serve cfg V c q (app_arrive u) = (r, u') \<Longrightarrow> http_step cfg V u u'"
| http_inside: "app_step (sv_task V) (sv_sync V) (sv_app V) u u' \<Longrightarrow> http_step cfg V u u'"

inductive_simps http_step_simps: "http_step cfg V u u'"

inductive http_reachable :: "http_config \<Rightarrow> http_server \<Rightarrow> app_world \<Rightarrow> bool" for cfg V where
  http_start: "app_initial u \<Longrightarrow> http_reachable cfg V u"
| http_next: "http_reachable cfg V u \<Longrightarrow> http_step cfg V u u' \<Longrightarrow> http_reachable cfg V u'"

lemma serve_grows:
  assumes run: "serve cfg V c q u = (r, u')" and inv: "app_inv (sv_app V) u"
  shows "app_inv (sv_app V) u' \<and> app_grows u u'"
  using stepsD [OF app_cal.serve_steps [OF refl] run] stepsD [OF lists_le.serve_steps [OF refl] run]
    stepsD [OF people_grow.serve_steps [OF refl] run] stepsD [OF limit_kept.serve_steps [OF refl] run] inv
    cal_le_grows [of "cal u" "cal u'"]
  by (simp add: app_cal_def lists_le_def people_grow_def limit_kept_def app_inv_def app_grows_def)

lemma http_step_grows:
  assumes step: "http_step cfg V u u'" and inv: "app_inv (sv_app V) u"
  shows "app_inv (sv_app V) u' \<and> app_grows u u'"
  using step
proof cases
  case (http_serve c q r)
  then show ?thesis using serve_grows app_arrive_inv [OF inv] app_grows_arrive by blast
qed (rule app_step_grows [OF _ inv])

lemma http_reachable_inv: "http_reachable cfg V u \<Longrightarrow> app_inv (sv_app V) u"
  by (induction rule: http_reachable.induct) (auto intro: app_inv_initial dest: http_step_grows)

lemma http_steps_grow:
  assumes "(http_step cfg V)\<^sup>*\<^sup>* u u'" and "app_inv (sv_app V) u"
  shows "app_inv (sv_app V) u' \<and> app_grows u u'"
  using assms
proof (induction rule: rtranclp_induct)
  case base
  then show ?case by (simp add: app_grows_refl)
next
  case (step v w)
  then show ?case using http_step_grows [OF step(2)] app_grows_trans by blast
qed

subsection \<open>Reading\<close>

interpretation digest_reads: http_reads digest_reads cal_digest_reads core_digest_reads
  by unfold_locales

text \<open>A call that only asks: its method is \<open>GET\<close>, and it is not the callback of Google.\<close>

fun only_asks :: "call \<Rightarrow> bool" where
  "only_asks (CallOAuthCallback A) = False"
| "only_asks q = (fst (route_of q) = ''GET'')"

lemma dispatch_reads: "only_asks q \<Longrightarrow> steps digest_reads (dispatch V c q)"
  by (cases q) (auto intro: digest_reads.read_handlers)

lemma serve_reads: "only_asks q \<Longrightarrow> steps digest_reads (serve cfg V c q)"
  unfolding serve_def CorsMiddleware_def APIKeyMiddleware_def Let_def
  by (intro steps_Recovery digest_reads.steps_if digest_reads.steps_ret dispatch_reads)

end
