(* ===== verification/Sample_State.thy ===== *)
theory Sample_State
  imports Task_Queries
begin

text \<open>
  One small database, one environment and one instance of the third-party packages, at which the
  theorems with hypotheses are instantiated.  The packages are the simplest that satisfy the laws
  the theorems assume: a rule fires every day.
\<close>

definition daily :: "time \<Rightarrow> time" where
  "daily t = (if t = 0 then 0 else t + day_ns)"

definition sample_option :: roption where
  "sample_option = \<lparr>o_Freq = DAILY, o_Dtstart = 0, o_Interval = 1, o_Count = 0, o_Until = 0,
     o_Bysetpos = [], o_Bymonth = [], o_Bymonthday = [], o_Byyearday = [], o_Byweekno = [],
     o_Byweekday = [], o_Byhour = [], o_Byminute = [], o_Bysecond = [], o_Byeaster = []\<rparr>"

definition sample_lib :: recur_lib where
  "sample_lib = \<lparr>cron_Parse = (\<lambda>e. e \<noteq> []), cron_Next = (\<lambda>e. daily),
     StrToROption = (\<lambda>s. if s = [] then None else Some sample_option), NewRRule = (\<lambda>r. True),
     rule_After = (\<lambda>r. daily)\<rparr>"

lemma sample_laws: "recur_laws sample_lib"
  by (simp add: recur_laws_def sample_lib_def daily_def)

definition sample_db :: db_lib where
  "sample_db = \<lparr>order_by = (\<lambda>clause ts. sort_key ID ts), lower_char = (\<lambda>c. c)\<rparr>"

lemma sample_db_laws: "db_laws sample_db"
  by (simp add: db_laws_def sample_db_def)

definition sample_env :: env where
  "sample_env = \<lparr>lib = sample_lib, dblib = sample_db, producer = Producer,
     activity = Some PostgresActivityTracker, exportHook = Some CalendarSyncHook, attachments = True,
     attachmentsPurgeOnTaskDone = False, syncLinks = True, hasDB = True\<rparr>"

definition day_number_of :: "int \<Rightarrow> time" where "day_number_of n = n * day_ns"

definition sample_task :: task where
  "sample_task = zero_task\<lparr>ID := 1, Title := ''water the plants'', UserID := 7,
     MessengerRelatedUserID := Some 3, StartDate := day_number_of 100, Status := ''scheduled''\<rparr>"

definition sample_parent :: task where
  "sample_parent = sample_task\<lparr>ID := 2, CronExpression := Some ''0 9 * * *'', RequiresConfirmation := True\<rparr>"

definition sample_child :: task where
  "sample_child = sample_task\<lparr>ID := 3, ParentID := Some 2, RequiresConfirmation := True\<rparr>"

definition sample_row :: "task \<Rightarrow> row" where
  "sample_row t = \<lparr>r_task = t, r_updated_at = None, r_deleted_at = None\<rparr>"

definition sample_user :: user_row where
  "sample_user = \<lparr>ur_user = \<lparr>user_ID = 7, user_Name = ''ann'', user_Email = ''ann@example.org'',
     user_PasswordHash = [], user_CreatedAt = 0, user_DeletedAt = 0, user_Timezone = None,
     user_LanguageCode = None, user_Role = None, user_LastActivityAt = None\<rparr>, ur_deleted = False\<rparr>"

definition sample_world :: world where
  "sample_world = \<lparr>tasks = [sample_row sample_task, sample_row sample_parent, sample_row sample_child],
     tx = None, cancelled = False, next_id = 4, users = [sample_user],
     messengers = [\<lparr>m_ID = 5, m_Name = ''telegram'', m_CreatedAt = 0\<rparr>],
     user_messengers = [\<lparr>um_related = \<lparr>mru_ID = 3, mru_UserID = Some 7, mru_MessengerID = Some 5,
        mru_MessengerUserID = ''u'', mru_ChatID = ''c'', mru_CreatedAt = 0, mru_UpdatedAt = None\<rparr>,
        um_deleted = False\<rparr>],
     sync_links = [], history = [], queue = [], exports = [], purges = [],
     clock = day_number_of 200, ticks = [], faults = []\<rparr>"

lemma sample_rule: "recurrenceFieldSet (Some ''0 9 * * *'')"
proof -
  have c: "\<not> space_byte c" if "c \<in> set ''09*''" for c
    using that by (auto dest!: space_byte_range)
  then have "list_all plain_field [''0'', ''9'', ''*'', ''*'', ''*'']"
    by (simp add: plain_field_def)
  from trim_space_join [OF this] show ?thesis by (simp add: recurrenceFieldSet_def)
qed

lemma sample_ids: "distinct (map row_id (tasks sample_world))"
  by (simp add: sample_world_def sample_row_def row_id_def sample_task_def sample_parent_def sample_child_def)

fun failed :: "'a outcome \<Rightarrow> bool" where
  "failed (Ok x) = False"
| "failed (Err e) = True"
| "failed (Panic p) = False"

lemma failed_run: "failed (fst p) \<Longrightarrow> \<exists>e. p = (Err e, snd p)"
  by (cases p; cases "fst p") auto

lemma ok_run: "fst p = Ok x \<Longrightarrow> p = (Ok x, snd p)"
  by (simp add: prod_eq_iff)

definition empty_world :: world where
  "empty_world = sample_world\<lparr>tasks := [], next_id := 1\<rparr>"

text \<open>The database after its first task.\<close>

definition first_world :: world where
  "first_world = snd (handle sample_env (ReqCreate sample_task) (arrive empty_world))"

lemma first_world_reachable: "reachable sample_env first_world"
proof -
  have "reachable sample_env empty_world"
    by (rule reachable.start) (simp add: initial_def empty_world_def sample_world_def)
  moreover have "machine_step sample_env empty_world first_world"
    unfolding first_world_def
    by (rule machine_step.serve [of _ "ReqCreate sample_task" _ "fst (handle sample_env (ReqCreate sample_task) (arrive empty_world))"]) simp
  ultimately show ?thesis by (rule reachable.step)
qed

subsection \<open>Runs at the sample\<close>

lemmas run_defs = bindE_def ret_def fail_def attempt_def map_err_def gets_def modify_def when_op_def
  best_effort_def lift_outcome_def time_Now_def tick_def external_def deferred_def for_each_def
lemmas run_lookups = GetUserByID_def GetMessengerRelatedUserByID_def getMessengerNameFromRelatedUser_def
  getMessengerName_def GetMessengerByID_def touchUserActivity_def TouchLastActivity_def record_history_def
  CreateTaskHistory_def notifyCalendarExport_def
lemmas run_repo = pool_get_def pool_select_def pool_write_def pool_insert_def tx_write_def BeginTxx_def
  Commit_def Rollback_def merge_tx_def tx_view_def lock_held_def wait_for_cancel_def update_rows_def
  live_def row_id_def set_columns_def soft_delete_def inserted_row_def
  repo_CreateTask_def repo_GetTaskByID_def repo_GetTaskByIDWithoutStatusFilter_def
  repo_GetChildTasksByParentID_def repo_UpdateTask_def repo_UpdateTaskWithTx_def repo_DeleteTask_def
  repo_DeleteTaskWithTx_def repo_DeleteChildTasksWithTx_def
lemmas run_checks = create_checks_def check_status_def check_messenger_def check_recurrence_def
  as_validation_def validateCronExpressionAndRRuleExclusive_def validatePreRemindBeforeSeconds_def
  validateShiftFromCompletionSeries_def ValidateTaskStatus_def IsValid_iff ValidTaskStatuses_def
  isRecurrenceParentWithConfirmation_def hasRecurrenceRule_def
lemmas run_publish = related_user_of_def queue_delete_def publish_child_delete_def publishTaskEvent_def
  buildDeleteTaskEvent_def buildScheduleTaskEvent_def publish_rescheduled_def
lemmas sample_defs = sample_world_def sample_env_def sample_lib_def sample_task_def sample_parent_def
  sample_child_def sample_row_def sample_user_def sample_db_def zero_task_def day_number_of_def
  empty_world_def

lemma sample_create:
  "fst (CreateTask sample_env sample_task empty_world) = Ok (1, 0)"
  "map row_id (tasks (snd (CreateTask sample_env sample_task empty_world))) = [1]"
  by (simp_all add: CreateTask_def Let_def status_defs run_checks run_defs run_lookups run_repo sample_defs)

lemma sample_create_unknown_user:
  "failed (fst (CreateTask sample_env (sample_task\<lparr>UserID := 8\<rparr>) sample_world))"
  by (simp add: CreateTask_def not_found_to_unprocessable_def run_checks run_defs run_lookups sample_defs)

lemma sample_delete: "fst (DeleteTask sample_env 1 sample_world) = Ok ()"
  by (simp add: DeleteTask_def delete_in_tx_def after_delete_def purgeAttachmentsBestEffort_def
      maxAttempts_def numeral_3_eq_3 PurgeByTask_def
      Let_def run_checks run_defs run_lookups run_repo run_publish sample_defs)

lemma sample_delete_parent: "fst (DeleteTask sample_env 2 sample_world) = Ok ()"
  by (simp add: DeleteTask_def delete_in_tx_def delete_children_in_tx_def delete_all_children_def
      after_delete_def purgeAttachmentsBestEffort_def
      maxAttempts_def numeral_3_eq_3 PurgeByTask_def sample_rule
      Let_def run_checks run_defs run_lookups run_repo run_publish sample_defs)

lemma sample_delete_missing: "failed (fst (DeleteTask sample_env 9 sample_world))"
  by (simp add: DeleteTask_def run_defs run_repo sample_defs)

lemma sample_update_bad: "failed (fst (UpdateTask sample_env 1 (no_update\<lparr>u_Status := Some ''x''\<rparr>) sample_world))"
  by (simp add: UpdateTask_def apply_update_def no_update_def status_defs run_checks run_defs run_repo sample_defs)

lemma sample_done: "\<exists>t. fst (MarkTaskAsDone sample_env 1 None sample_world) = Ok t"
  by (simp add: MarkTaskAsDone_def completion_shift_def parentStoresCompletionShift_def done_in_tx_def
      done_task_def after_done_def create_next_child_def finish_children_def status_defs
      Let_def run_checks run_defs run_lookups run_repo run_publish sample_defs)

lemma sample_done_shift: "failed (fst (MarkTaskAsDone sample_env 1 (Some True) sample_world))"
  by (simp add: MarkTaskAsDone_def completion_shift_def prepareCompletionShift_def status_defs
      run_defs run_repo sample_defs)

lemma sample_mute: "\<exists>t. fst (MuteTask sample_env 1 sample_world) = Ok t"
  by (simp add: MuteTask_def finish_mute_def status_defs Let_def run_checks run_defs run_lookups run_repo run_publish sample_defs)

lemma sample_reschedule: "fst (RescheduleTask sample_env sample_task sample_world) = Ok ()"
  by (simp add: RescheduleTask_def rescheduled_start_def 
      Let_def run_checks run_defs run_lookups run_repo run_publish sample_defs)

lemma sample_reschedule_unreachable:
  "failed (fst (RescheduleTask sample_env (sample_task\<lparr>MessengerRelatedUserID := None\<rparr>) sample_world))"
  by (simp add: RescheduleTask_def rescheduled_start_def
      Let_def run_checks run_defs run_lookups run_repo run_publish sample_defs)

lemma sample_done_in_tx: "fst (done_in_tx sample_env sample_task None (sample_world\<lparr>tx := Some []\<rparr>)) = Ok ()"
  by (simp add: done_in_tx_def run_checks run_defs run_lookups run_repo run_publish sample_defs)

definition done_sample :: task where
  "done_sample = sample_task\<lparr>ID := 4, Status := TaskStatusDone\<rparr>"

definition done_world :: world where
  "done_world = sample_world\<lparr>tasks := [sample_row sample_task, sample_row done_sample]\<rparr>"

text \<open>A series without confirmation that is overdue, and a task whose date lies ahead.\<close>

definition series_task :: task where
  "series_task = sample_task\<lparr>ID := 4, CronExpression := Some ''0 9 * * *''\<rparr>"

definition series_world :: world where
  "series_world = sample_world\<lparr>tasks := [sample_row series_task]\<rparr>"

definition future_task :: task where
  "future_task = sample_task\<lparr>StartDate := day_number_of 300\<rparr>"

lemma sample_publish:
  "\<exists>t' e. fst (publishScheduleTaskEvent sample_env False future_task True sample_world) = Ok (t', e)"
  "queue (snd (publishScheduleTaskEvent sample_env False future_task True sample_world)) \<noteq> []"
  by (simp_all add: publishScheduleTaskEvent_def shouldRepublishScheduleAfterUnmute_def future_task_def
      nextExecutableStartDate_def load_parent_def IsZero_def with_task_def day_ns_def hour_ns_def minute_ns_def
      second_ns_def schedule_event_def
      Let_def run_checks run_defs run_lookups run_repo run_publish sample_defs)

definition held_world :: world where
  "held_world = series_world\<lparr>tx := Some [sample_row series_task]\<rparr>"

subsection \<open>Rules at the sample\<close>

lemma plain_text: "list_all plain_field fs \<Longrightarrow> fs \<noteq> [] \<Longrightarrow> split_fields (trim_space (join '' '' fs)) = fs"
  by (simp add: trim_space_join split_fields_join)

lemma trim_plain: "plain_field s \<Longrightarrow> trim_space s = s"
  using trim_space_join [of "[s]"] by simp

lemma sample_plain:
  "list_all plain_field [''0'', ''9'', ''*'', ''*'', ''*'']"
  "list_all plain_field [''30'', ''9'', ''*'', ''*'', ''1'']"
  "plain_field ''FREQ=WEEKLY;BYDAY=MO''" "plain_field ''FREQ=WEEKLY''" "plain_field ''BYDAY=MO''"
  "plain_field ''FREQ''" "plain_field ''BYDAY''"
proof -
  have c: "\<not> space_byte c" if "c \<in> set ''0193*FREQ=WEEKLY;BYDAY=MO''" for c
    using that by (auto dest!: space_byte_range)
  then show "list_all plain_field [''0'', ''9'', ''*'', ''*'', ''*'']"
    "list_all plain_field [''30'', ''9'', ''*'', ''*'', ''1'']"
    "plain_field ''FREQ=WEEKLY;BYDAY=MO''" "plain_field ''FREQ=WEEKLY''" "plain_field ''BYDAY=MO''"
    "plain_field ''FREQ''" "plain_field ''BYDAY''"
    by (simp_all add: plain_field_def)
qed

lemma sample_moved_fields: "split_fields (trim_space ''30 9 * * 1'') = [''30'', ''9'', ''*'', ''*'', ''1'']"
  using plain_text [OF sample_plain(2)] by simp

lemma sample_moved: "shiftCronFromCompletion ''30 9 * * 1'' day_ns = Some ''30 9 * * 2''"
proof -
  have "singleCronNumber ''30'' 0 59" "singleCronNumber ''9'' 0 23" "singleCronNumber ''1'' 0 7"
    by code_simp+
  moreover have "itoa (Weekday day_ns) = ''2''" by code_simp
  ultimately show ?thesis by (simp add: shiftCronFromCompletion_def sample_moved_fields)
qed

lemma sample_daily_moved: "shiftCronFromCompletion ''0 9 * * *'' a = Some ''0 9 * * *''"
proof -
  have "singleCronNumber ''0'' 0 59" "singleCronNumber ''9'' 0 23" by code_simp+
  moreover have "split_fields (trim_space ''0 9 * * *'') = [''0'', ''9'', ''*'', ''*'', ''*'']"
    using plain_text [OF sample_plain(1)] by simp
  ultimately show ?thesis by (simp add: shiftCronFromCompletion_def)
qed

lemma sample_rewritten:
  "replaceRRuleParts ''FREQ=WEEKLY;BYDAY=MO'' [(''BYDAY'', ''TU'')] = Some ''FREQ=WEEKLY;BYDAY=TU''"
  "\<forall>(k, v) \<in> set [(''BYDAY'', ''TU'')]. CHR '';'' \<notin> set k \<and> CHR '';'' \<notin> set v"
proof -
  have up: "to_upper ''FREQ'' = ''FREQ''" "to_upper ''BYDAY'' = ''BYDAY''"
    and ascii: "upper_char c = c" if "c \<in> set ''ABDEFQRY''" for c
    using that by (code_simp, code_simp, auto simp: upper_char_def)
  show "replaceRRuleParts ''FREQ=WEEKLY;BYDAY=MO'' [(''BYDAY'', ''TU'')] = Some ''FREQ=WEEKLY;BYDAY=TU''"
    by (simp add: replaceRRuleParts_def trim_plain sample_plain trim_prefix_def up ascii)
qed simp

lemma sample_prepare: "\<exists>s. fst (prepareCompletionShift sample_env sample_child (day_number_of 200) sample_world) = Ok s"
  using sample_rule
  by (simp add: prepareCompletionShift_def shiftRecurrenceFromCompletion_def shift_next_def sample_daily_moved
      nextRecurrenceAfter_def cron_must_next_def reject_linked_parent_def GetByTaskID_def latest_link_def
      active_child_def status_defs daily_def IsZero_def copyStringPtr_def
      Let_def run_checks run_defs run_lookups run_repo sample_defs)

text \<open>A query without filters.\<close>

definition all_pages :: task_query where
  "all_pages = \<lparr>q_page = 1, q_pageSize = 0, q_orderBy = [], q_UserID = None, q_startDateFrom = None,
     q_startDateTo = None, q_createdAtFrom = None, q_createdAtTo = None, q_requiresConfirmation = None,
     q_status = None, q_statusNot = None, q_cronExpression = None, q_cronExpressionIsNull = None,
     q_excludeCronWithConfirmation = None, q_messengerRelatedUserIDs = None, q_externalProvider = None,
     q_title = None, q_excludeSkipDigest = None\<rparr>"

end
