(* ===== verification/Calendar_Removal.thy ===== *)
theory Calendar_Removal
  imports Calendar_Results
begin

text \<open>
  What removing a binding leaves (\<open>DeleteBinding\<close>): the binding is gone, and under the default policy so
  are the tasks that were imported through it.
\<close>

text \<open>No live row has the key any more, and none will get it.\<close>

definition task_gone :: "int \<Rightarrow> cal_world \<Rightarrow> bool" where
  "task_gone i v \<longleftrightarrow> i < next_id (core v) \<and> (\<forall>r \<in> set (tasks (core v)). row_id r = i \<longrightarrow> \<not> live r)"

lemma task_gone_stays:
  assumes le: "keeps_links v v'" and wf: "store_wf (core v)" and gone: "task_gone i v"
  shows "task_gone i v'"
proof -
  have rows: "rows_le (tasks (core v)) (tasks (core v')) (next_id (core v))" "next_id (core v) \<le> next_id (core v')"
    using le wf by (simp_all add: keeps_links_def)
  have "\<not> live r" if r: "r \<in> set (tasks (core v'))" "row_id r = i" for r
  proof -
    obtain k where k: "k < length (tasks (core v'))" "r = tasks (core v') ! k"
      using r(1) by (auto simp: in_set_conv_nth)
    have "k < length (tasks (core v))"
      using rows(1) k r(2) gone by (auto simp: rows_le_def task_gone_def not_less [symmetric])
    then have "row_le (tasks (core v) ! k) r" using rows(1) k by (simp add: rows_le_def)
    moreover have "\<not> live (tasks (core v) ! k)"
      using gone \<open>k < length (tasks (core v))\<close> row_le_id [OF calculation] r(2) by (simp add: task_gone_def)
    ultimately show ?thesis by (auto simp: row_le_def)
  qed
  then show ?thesis using gone rows(2) by (simp add: task_gone_def)
qed

lemma repo_DeleteTask_gone:
  assumes run: "in_core (repo_DeleteTask i) v = (Ok (), v')" and wf: "store_wf (core v)" and "i < next_id (core v)"
  shows "task_gone i v'"
proof -
  have "fst (repo_DeleteTask i (core v)) = Ok ()" "snd (repo_DeleteTask i (core v)) = core v'"
    using run by (auto simp: in_core_def)
  then have run': "repo_DeleteTask i (core v) = (Ok (), core v')" by (metis prod.collapse)
  then have rows: "tasks (core v') = update_rows (\<lambda>r. live r \<and> row_id r = i) (soft_delete (clock (tick (core v)))) (tasks (core v))"
    by (rule repo_writes(2)) (use wf in \<open>simp add: store_wf_def\<close>)
  have "\<not> live r" if "r \<in> set (tasks (core v'))" "row_id r = i" for r
    using update_rows_live [OF _ that(1) [unfolded rows]] that(2) not_live_soft_delete by blast
  moreover have "next_id (core v) \<le> next_id (core v')"
    using stepsD [OF core_le.delete run'] wf by (simp add: core_le_def world_le_def)
  ultimately show ?thesis using assms(3) by (simp add: task_gone_def)
qed

definition soft_policy :: "string \<Rightarrow> bool" where
  "soft_policy p \<longleftrightarrow> p \<noteq> CalendarDeletePolicyMuteImported \<and> p \<noteq> CalendarDeletePolicyKeep"

lemma delete_policy_gone:
  assumes run: "applyImportedDeletePolicy E p t v = (Ok (), v')" and p: "soft_policy p"
    and wf: "store_wf (core v)" and "ID t < next_id (core v)"
  shows "task_gone (ID t) v'"
proof -
  let ?h = "recordImportedTaskHistory E TaskHistoryActionDeleted t (Some (calendarTaskHistoryMap t))
          (Some [(''status'', HStr TaskStatusDeleted)])"
  obtain x v1 v2 where 1: "best_effort (imported_delete E t) v = (Ok x, v1)"
    and 2: "in_core (repo_DeleteTask (ID t)) v1 = (Ok (), v2)" and 3: "?h v2 = (Ok (), v')"
    using run p by (auto simp: applyImportedDeletePolicy_def ApplyDeletePolicy_def soft_policy_def elim!: bindE_OkE)
  have "keeps_links v v1"
    using stepsD [OF keeps_links.steps_best_effort [OF keeps_links.imported_steps(2)] 1] .
  then have v1: "store_wf (core v1)" "ID t < next_id (core v1)"
    using wf assms(4) by (auto simp: keeps_links_def)
  have "task_gone (ID t) v2" by (rule repo_DeleteTask_gone [OF 2 v1])
  moreover have "store_wf (core v2)"
    using stepsD [OF keeps_links.in_core [OF core_le.delete] 2] v1 by (simp add: keeps_links_def)
  ultimately show ?thesis
    using task_gone_stays stepsD [OF keeps_links.recordImportedTaskHistory 3] by blast
qed

lemma drop_imported_gone:
  assumes run: "drop_imported E b l v = (Ok (), v')" and p: "soft_policy (cb_DeletePolicy b)"
    and l: "l_Origin l = TaskSyncLinkOriginImported" and wf: "store_wf (core v)" and "l_TaskID l < next_id (core v)"
  shows "task_gone (l_TaskID l) v'"
proof -
  obtain z u where read: "in_core (repo_GetTaskByIDWithoutStatusFilter (l_TaskID l)) v = (z, u)" by fastforce
  note rd = read_task_run [OF read]
  have u: "store_wf (core u)" "l_TaskID l < next_id (core u)"
    using rd(1) wf assms(5) by (auto simp: same_tables_def intro: store_wf_same)
  show ?thesis
  proof (cases z)
    case (Ok t)
    then obtain r where "r \<in> set (tasks (core v))" "row_id r = l_TaskID l" "r_task r = t" using rd(2) by blast
    then have "ID t = l_TaskID l" by (simp add: row_id_def)
    moreover have "applyImportedDeletePolicy E (cb_DeletePolicy b) t u = (Ok (), v')"
      using run read Ok l by (simp add: drop_imported_def bindE_def attempt_def)
    ultimately show ?thesis using delete_policy_gone [OF _ p u(1)] u(2) by metis
  next
    case (Err e)
    then have "is_not_found e" "v' = u"
      using run read l by (auto simp: drop_imported_def bindE_def attempt_def ret_def fail_def split: if_splits)
    then show ?thesis using rd(3) [OF Err] rd(1) u(2) by (simp add: task_gone_def same_tables_def)
  qed (use run read l in \<open>simp add: drop_imported_def bindE_def attempt_def\<close>)
qed

lemma drop_all_gone:
  assumes "for_each (drop_imported E b) ls v = (Ok (), v')" and p: "soft_policy (cb_DeletePolicy b)"
    and "store_wf (core v)" and "\<And>l. l \<in> set ls \<Longrightarrow> l_TaskID l < next_id (core v)"
  shows "\<forall>l \<in> set ls. l_Origin l = TaskSyncLinkOriginImported \<longrightarrow> task_gone (l_TaskID l) v'"
  using assms
proof (induction ls arbitrary: v)
  case (Cons x xs)
  obtain u where x: "drop_imported E b x v = (Ok (), u)" and xs: "for_each (drop_imported E b) xs u = (Ok (), v')"
    using Cons.prems(1) by (auto simp: for_each_def elim!: bindE_OkE)
  have le: "keeps_links v u" by (rule stepsD [OF keeps_links.drop_imported x])
  then have u: "store_wf (core u)" "next_id (core v) \<le> next_id (core u)"
    using Cons.prems(3) by (simp_all add: keeps_links_def)
  have "keeps_links u v'"
    by (rule stepsD [OF keeps_links.steps_for_each [OF keeps_links.drop_imported] xs])
  then have "task_gone (l_TaskID x) v'" if "l_Origin x = TaskSyncLinkOriginImported"
    using task_gone_stays u(1) drop_imported_gone [OF x p that Cons.prems(3)] Cons.prems(4) by auto
  moreover have "\<forall>l \<in> set xs. l_Origin l = TaskSyncLinkOriginImported \<longrightarrow> task_gone (l_TaskID l) v'"
    by (rule Cons.IH [OF xs p u(1)]) (use Cons.prems(4) u(2) in force)
  ultimately show ?case by simp
qed simp

lemma binding_write_run:
  assumes "binding_write i failure missing f v = (Ok (), v')"
  shows "\<exists>now. bindings v' = update_key cb_ID i (\<lambda>b. if binding_live b then f now b else b) (bindings v)"
    and "tasks (core v') = tasks (core v)" "next_id (core v') = next_id (core v)" "links v' = links v"
proof -
  obtain now v1 where 1: "cal_now v = (Ok now, v1)" by (simp add: in_core_def time_Now_def)
  obtain z v2 where 2: "cal_external failure v1 = (z, v2)" by fastforce
  note s = same_tables_trans [OF same_tables_now [OF 1] same_tables_external [OF 2]]
  have v': "v' = v2\<lparr>bindings := update_key cb_ID i (\<lambda>b. if binding_live b then f now b else b) (bindings v2)\<rparr>"
    using assms 1 2 by (cases z) (auto simp: binding_write_def bindE_def split: if_splits)
  show "\<exists>now. bindings v' = update_key cb_ID i (\<lambda>b. if binding_live b then f now b else b) (bindings v)"
    unfolding v' using s by (auto simp: same_tables_def)
  show "tasks (core v') = tasks (core v)" "next_id (core v') = next_id (core v)" "links v' = links v"
    unfolding v' using s by (simp_all add: same_tables_def links_def)
qed

lemma binding_SoftDelete_run:
  assumes "binding_SoftDelete i v = (Ok (), v')"
  shows "\<forall>b \<in> set (bindings v'). cb_ID b = i \<longrightarrow> \<not> binding_live b"
    and "tasks (core v') = tasks (core v)" "next_id (core v') = next_id (core v)" "links v' = links v"
proof -
  note w = binding_write_run [OF assms [unfolded binding_SoftDelete_def]]
  show "\<forall>b \<in> set (bindings v'). cb_ID b = i \<longrightarrow> \<not> binding_live b"
  proof (intro ballI impI)
    fix b assume b: "b \<in> set (bindings v')" "cb_ID b = i"
    obtain now where n: "bindings v' = map (\<lambda>c. if cb_ID c = i then (if binding_live c then c\<lparr>cb_DeletedAt := Some now,
        cb_Status := CalendarBindingStatusDisconnected, cb_UpdatedAt := now\<rparr> else c) else c) (bindings v)"
      using w(1) unfolding update_key_def by blast
    obtain c where c: "b = (if cb_ID c = i then (if binding_live c then c\<lparr>cb_DeletedAt := Some now,
        cb_Status := CalendarBindingStatusDisconnected, cb_UpdatedAt := now\<rparr> else c) else c)"
      using b(1) unfolding n set_map by (rule imageE) (rule that)
    then show "\<not> binding_live b" using b(2) by (cases "cb_ID c = i"; cases "binding_live c") (simp_all add: binding_live_def)
  qed
qed (rule binding_write_run [OF assms [unfolded binding_SoftDelete_def]])+

lemma ListByBindingID_run:
  assumes "ListByBindingID i v = (Ok ls, v')"
  shows "set ls = {l \<in> set (links v). l_CalendarBindingID l = Some i}"
proof -
  obtain z u where 1: "cal_external ''failed to list sync links by binding'' v = (z, u)" by fastforce
  then have "links u = links v" using same_tables_external by (simp add: same_tables_def)
  then show ?thesis using assms 1
    by (cases z) (auto simp: ListByBindingID_def bindE_def gets_def)
qed

lemma DeleteBinding_run:
  assumes run: "DeleteBinding E i v = (Ok (), v')" and wf: "cal_wf v"
  shows "\<forall>b \<in> set (bindings v'). cb_ID b = i \<longrightarrow> \<not> binding_live b"
    and "\<exists>b \<in> set (bindings v). cb_ID b = i \<and> binding_live b \<and>
      (soft_policy (cb_DeletePolicy b) \<longrightarrow>
        (\<forall>l \<in> set (links v). l_CalendarBindingID l = Some i \<and> l_Origin l = TaskSyncLinkOriginImported \<longrightarrow>
           task_gone (l_TaskID l) v'))"
proof -
  obtain b v1 ls v2 v3 where 1: "binding_GetByID i v = (Ok b, v1)" and 2: "ListByBindingID i v1 = (Ok ls, v2)"
    and 3: "for_each (drop_imported E b) ls v2 = (Ok (), v3)" and 4: "binding_SoftDelete i v3 = (Ok (), v')"
    using run by (auto simp: DeleteBinding_def elim!: bindE_OkE)
  have "same_tables v1 v2" by (rule stepsD [OF same_tables.link_reads(2) 2])
  then have s: "same_tables v v1" "same_tables v v2"
    using binding_GetByID_run(1) [OF 1] same_tables_trans by blast+
  have ls: "set ls = {l \<in> set (links v). l_CalendarBindingID l = Some i}"
    using ListByBindingID_run [OF 2] s(1) by (simp add: same_tables_def)
  have keys: "row_id r < next_id (core v)" if "r \<in> set (tasks (core v))" for r
    using wf that by (auto simp: cal_wf_def store_wf_def)
  have below: "l_TaskID l < next_id (core v)" if "l \<in> set (links v)" for l
  proof -
    have "l_TaskID l \<in> row_id ` set (tasks (core v))" using wf that by (simp add: cal_wf_def links_wf_def)
    then show ?thesis using keys by auto
  qed
  have v2: "store_wf (core v2)" "next_id (core v2) = next_id (core v)"
    using wf s(2) by (auto simp: same_tables_def cal_wf_def intro: store_wf_same)
  note d = binding_SoftDelete_run [OF 4]
  show "\<forall>b \<in> set (bindings v'). cb_ID b = i \<longrightarrow> \<not> binding_live b" by (rule d(1))
  have "task_gone j v'" if "task_gone j v3" for j
    using that d by (simp add: task_gone_def)
  then have "soft_policy (cb_DeletePolicy b) \<longrightarrow> (\<forall>l \<in> set (links v).
      l_CalendarBindingID l = Some i \<and> l_Origin l = TaskSyncLinkOriginImported \<longrightarrow> task_gone (l_TaskID l) v')"
    using drop_all_gone [OF 3 _ v2(1)] ls below v2(2) by auto
  then show "\<exists>b \<in> set (bindings v). cb_ID b = i \<and> binding_live b \<and>
      (soft_policy (cb_DeletePolicy b) \<longrightarrow>
        (\<forall>l \<in> set (links v). l_CalendarBindingID l = Some i \<and> l_Origin l = TaskSyncLinkOriginImported \<longrightarrow>
           task_gone (l_TaskID l) v'))"
    using binding_GetByID_run(2) [OF 1] by blast
qed

end
