(* ===== verification/Calendar_Enqueue.thy ===== *)
theory Calendar_Enqueue
  imports Calendar_Results
begin

text \<open>
  What a change of a task puts into the outbox (\<open>EnqueueExport\<close>): the items that are inserted, the
  bindings they name, and that every binding of the owner that wants the task gets one.
\<close>

subsection \<open>What a change puts into the outbox\<close>

text \<open>\<open>appends P\<close>: the outbox has got new items, each of which satisfies \<open>P\<close>.\<close>

definition appends :: "(sync_outbox \<Rightarrow> bool) \<Rightarrow> cal_world \<Rightarrow> cal_world \<Rightarrow> bool" where
  "appends P v v' \<longleftrightarrow>
     (\<exists>new. outbox v' = outbox v @ new \<and> (\<forall>x \<in> set new. P x)) \<and>
     tasks (core v') = tasks (core v) \<and> links v' = links v \<and> bindings v' = bindings v \<and>
     queue (core v') = queue (core v)"

lemma appends_refl: "appends P v v"
  by (simp add: appends_def)

lemma appends_trans:
  assumes "appends P u v" and "appends P v w"
  shows "appends P u w"
proof -
  obtain new new' where "outbox v = outbox u @ new" "outbox w = outbox v @ new'"
    "\<forall>x \<in> set new. P x" "\<forall>x \<in> set new'. P x"
    using assms by (auto simp: appends_def)
  then have "outbox w = outbox u @ (new @ new') \<and> (\<forall>x \<in> set (new @ new'). P x)" by auto
  then show ?thesis using assms unfolding appends_def by metis
qed

interpretation appends: run_preorder "appends P" for P
  by unfold_locales (rule appends_refl, rule appends_trans)

interpretation appends: calendar_reads "appends P" same_core for P
  by unfold_locales (auto simp: appends_def same_core_def links_def)

text \<open>An item for the task, as it is inserted.\<close>

definition fresh_item :: "int \<Rightarrow> int set \<Rightarrow> int set \<Rightarrow> sync_outbox \<Rightarrow> bool" where
  "fresh_item taskID ups dels x \<longleftrightarrow>
     pl_TaskID (ob_Payload x) = taskID \<and> ob_Status x = SyncOutboxStatusPending \<and> ob_Attempts x = 0 \<and>
     (ob_Kind x = OutboxKindExportUpsert \<and> pl_BindingID (ob_Payload x) \<in> ups \<or>
      ob_Kind x = OutboxKindExportDelete \<and> pl_BindingID (ob_Payload x) \<in> dels)"

lemma steps_Enqueue_appends:
  assumes "kind = OutboxKindExportUpsert \<and> i \<in> ups \<or> kind = OutboxKindExportDelete \<and> i \<in> dels"
  shows "steps (appends (fresh_item taskID ups dels)) (Enqueue kind (payload taskID i l action))"
  unfolding Enqueue_def
  by (intro appends.steps_bindE appends.in_core same_core.external same_core.time_Now stepsI)
     (use assms in \<open>auto simp: appends_def fresh_item_def payload_def links_def\<close>)

lemma steps_enqueue_all_appends:
  assumes "\<And>i. i \<in> set ids \<Longrightarrow> kind = OutboxKindExportUpsert \<and> i \<in> ups \<or> kind = OutboxKindExportDelete \<and> i \<in> dels"
  shows "steps (appends (fresh_item taskID ups dels)) (enqueue_all kind taskID action ids)"
  using assms
proof (induction ids)
  case Nil
  then show ?case by (simp add: enqueue_all_def for_each_def appends.steps_ret)
next
  case (Cons i ids)
  have "steps (appends (fresh_item taskID ups dels)) (Enqueue kind (payload taskID i 0 action))"
    by (rule steps_Enqueue_appends) (use Cons.prems in auto)
  moreover have "steps (appends (fresh_item taskID ups dels)) (enqueue_all kind taskID action ids)"
    by (rule Cons.IH) (use Cons.prems in auto)
  ultimately show ?case
    unfolding enqueue_all_def for_each_def fold_op.simps bindE_assoc bindE_ret
    by (intro appends.steps_bindE)
qed

lemma steps_gone_appends:
  "steps (appends (fresh_item i {} UNIV)) (enqueueExportDeleteForGoneTask i)"
  "steps (appends (fresh_item i {} UNIV)) (enqueueExportDeleteByExportedLink i)"
  unfolding enqueueExportDeleteForGoneTask_def enqueueExportDeleteByExportedLink_def
  by (intro appends.steps_bindE appends.steps_attempt appends.steps_case_sum appends.steps_if
      appends.steps_ret appends.steps_fail appends.steps_case_option appends.in_core
      same_core.lookups appends.export_reads steps_Enqueue_appends; simp)+

text \<open>The bindings of live rows that export.\<close>

definition export_ids :: "cal_world \<Rightarrow> int set" where
  "export_ids v = cb_ID ` {b \<in> set (bindings v). binding_live b \<and> bindingAllowsTaskExport (cb_Direction b)}"

lemma exporting_binding_run:
  assumes "exporting_binding l v = (Ok (Some b), v')"
  shows "cb_ID b \<in> export_ids v"
  using assms
  by (auto simp: exporting_binding_def export_ids_def ret_def attempt_def bindE_def
      split: bool.splits option.splits prod.splits outcome.splits sum.splits if_splits
      dest!: binding_GetByID_run(2))

lemma link_targets_run:
  assumes "link_targets t i action v = (Ok (ups, dels), v')"
  shows "set ups \<subseteq> export_ids v" and "action = ''deleted'' \<Longrightarrow> ups = []"
proof -
  obtain z u where 1: "in_core (GetByTaskID i) v = (z, u)" by fastforce
  have u: "export_ids u = export_ids v"
    using stepsD [OF same_tables.in_core [OF same_core.lookups(4)] 1] by (simp add: same_tables_def export_ids_def)
  show "set ups \<subseteq> export_ids v" "action = ''deleted'' \<Longrightarrow> ups = []"
    using assms 1 u exporting_binding_run
    by (cases z; auto simp: link_targets_def bindE_def attempt_def ret_def split: prod.splits outcome.splits
        option.splits if_splits; fail)+
qed


lemma Enqueue_run:
  assumes "Enqueue kind p v = (Ok n, v')"
  shows "\<exists>x. outbox v' = outbox v @ [x] \<and> ob_Kind x = kind \<and> ob_Payload x = p"
proof -
  obtain now u where 1: "cal_now v = (Ok now, u)" by (simp add: in_core_def time_Now_def)
  obtain z w where 2: "cal_external ''failed to enqueue outbox item'' u = (z, w)" by fastforce
  have "outbox w = outbox v"
    using same_tables_now [OF 1] same_tables_external [OF 2] by (simp add: same_tables_def)
  then show ?thesis using assms 1 2 by (cases z) (auto simp: Enqueue_def bindE_def)
qed

lemma enqueue_all_run:
  assumes "enqueue_all kind taskID action ids v = (Ok (), v')"
  shows "\<exists>new. outbox v' = outbox v @ new \<and>
    map (\<lambda>x. (ob_Kind x, pl_BindingID (ob_Payload x))) new = map (\<lambda>i. (kind, i)) ids"
  using assms
proof (induction ids arbitrary: v)
  case Nil
  then show ?case by (simp add: enqueue_all_def for_each_def ret_def)
next
  case (Cons i ids)
  obtain n u where 1: "Enqueue kind (payload taskID i 0 action) v = (Ok n, u)"
    and 2: "enqueue_all kind taskID action ids u = (Ok (), v')"
    using Cons.prems by (auto simp: enqueue_all_def for_each_def bindE_assoc elim!: bindE_OkE)
  obtain x where x: "outbox u = outbox v @ [x]" "ob_Kind x = kind" "ob_Payload x = payload taskID i 0 action"
    using Enqueue_run [OF 1] by blast
  obtain new where new: "outbox v' = outbox u @ new"
    "map (\<lambda>x. (ob_Kind x, pl_BindingID (ob_Payload x))) new = map (\<lambda>i. (kind, i)) ids"
    using Cons.IH [OF 2] by blast
  have "outbox v' = outbox v @ (x # new)" using x new by simp
  moreover have "map (\<lambda>x. (ob_Kind x, pl_BindingID (ob_Payload x))) (x # new) = map (\<lambda>i. (kind, i)) (i # ids)"
    using x new by (simp add: payload_def)
  ultimately show ?case by blast
qed

text \<open>The bindings of the owner that want the task.\<close>

definition wanting :: "task \<Rightarrow> calendar_binding \<Rightarrow> bool" where
  "wanting t b \<longleftrightarrow> bindingAllowsTaskExport (cb_Direction b) \<and> taskMatchesExportBindingGroup t b"

lemma set_insert_id [simp]: "set (insert_id i xs) = insert i (set xs)"
  by (auto simp: insert_id_def)

lemma binding_targets_sets:
  "set (fst (binding_targets t action bs acc)) = set (fst acc) \<union>
     (if action = ''deleted'' then {} else cb_ID ` {b \<in> set bs. wanting t b})"
  "set (snd (binding_targets t action bs acc)) = set (snd acc) \<union>
     (if action = ''deleted'' then cb_ID ` {b \<in> set bs. wanting t b} else {})"
  by (induction t action bs acc rule: binding_targets.induct)
     (auto simp: wanting_def image_iff)

lemma binding_ListByUserID_run:
  assumes "binding_ListByUserID i v = (Ok bs, v')"
  shows "set bs = {b \<in> set (bindings v). cb_UserID b = i \<and> binding_live b}"
proof -
  obtain z u where 1: "cal_external ''failed to list calendar bindings'' v = (z, u)" by fastforce
  then have "bindings u = bindings v" using same_tables_external by (simp add: same_tables_def)
  then show ?thesis using assms 1
    by (cases z) (auto simp: binding_ListByUserID_def bindE_def gets_def)
qed

text \<open>The items of a change, kinds and bindings.\<close>

definition targets :: "sync_outbox list \<Rightarrow> (string \<times> int) set" where
  "targets xs = (\<lambda>x. (ob_Kind x, pl_BindingID (ob_Payload x))) ` set xs"

lemma targets_append: "targets (xs @ ys) = targets xs \<union> targets ys"
  by (simp add: targets_def image_Un)

lemma kinds_differ: "OutboxKindExportUpsert \<noteq> OutboxKindExportDelete"
  by (simp add: OutboxKindExportUpsert_def OutboxKindExportDelete_def)

lemma targets_of_map:
  assumes "map (\<lambda>x. (ob_Kind x, pl_BindingID (ob_Payload x))) new = map (\<lambda>i. (kind, i)) ids"
  shows "targets new = Pair kind ` set ids"
proof -
  have "targets new = set (map (\<lambda>x. (ob_Kind x, pl_BindingID (ob_Payload x))) new)" by (simp add: targets_def)
  then show ?thesis unfolding assms by simp
qed

lemma EnqueueExport_run:
  assumes run: "EnqueueExport E i action v = (Ok (), v')"
    and row: "row \<in> set (tasks (core v))" "live row" "row_id row = i" "distinct (map row_id (tasks (core v)))"
    and top: "ParentID (r_task row) = None"
    and range: "\<And>xs. set (c_range E xs) = set xs"
  shows "\<exists>new. outbox v' = outbox v @ new \<and>
    (\<forall>b \<in> set (bindings v). cb_UserID b = UserID (r_task row) \<and> binding_live b \<and> wanting (r_task row) b \<longrightarrow>
       (OutboxKindExportUpsert, cb_ID b) \<in> targets new \<or> (OutboxKindExportDelete, cb_ID b) \<in> targets new) \<and>
    (\<forall>j. (OutboxKindExportUpsert, j) \<in> targets new \<longrightarrow>
       action \<noteq> ''deleted'' \<and> j \<in> export_ids v \<and> (OutboxKindExportDelete, j) \<notin> targets new)"
proof -
  let ?t = "r_task row"
  obtain z v1 where read: "in_core (repo_GetTaskByIDWithoutStatusFilter i) v = (z, v1)" by fastforce
  note rd = read_task_run [OF read]
  have z: "z = Ok ?t"
  proof (cases z)
    case (Ok t)
    then obtain r where "r \<in> set (tasks (core v))" "row_id r = i" "r_task r = t" using rd(2) by blast
    moreover have "r = row" using same_row [OF row(4)] row calculation by blast
    ultimately show ?thesis using Ok by simp
  next
    case (Err e)
    then have "\<not> is_not_found e" using rd(3) row by blast
    then show ?thesis using run read Err by (simp add: EnqueueExport_def bindE_def attempt_def fail_def)
  qed (use run read in \<open>simp add: EnqueueExport_def bindE_def attempt_def\<close>)
  have att: "attempt (in_core (repo_GetTaskByIDWithoutStatusFilter i)) v = (Ok (Inr ?t), v1)"
    using read z by (simp add: attempt_def)
  let ?ups = "\<lambda>by_link bs. filter (\<lambda>i. i \<notin> set (snd (binding_targets ?t action bs by_link))) (fst (binding_targets ?t action bs by_link))"
  let ?dels = "\<lambda>by_link bs. snd (binding_targets ?t action bs by_link)"
  obtain by_link v2 bs v3 v4 v5 where link: "link_targets ?t i action v1 = (Ok by_link, v2)"
    and list: "binding_ListByUserID (UserID ?t) v2 = (Ok bs, v3)"
    and e1: "enqueue_all OutboxKindExportUpsert i action (c_range E (?ups by_link bs)) v3 = (Ok (), v4)"
    and e2: "enqueue_all OutboxKindExportDelete i ''deleted'' (c_range E (?dels by_link bs)) v4 = (Ok (), v5)"
    and e3: "when_op (?ups by_link bs = [] \<and> ?dels by_link bs = [] \<and> action = ''deleted'')
               (enqueueExportDeleteByExportedLink i) v5 = (Ok (), v')"
    using run top
    by (auto simp: EnqueueExport_def bindE_run_Ok att ShouldExportTask_def case_prod_beta Let_def elim!: bindE_OkE)
  let ?U = "set (?ups by_link bs)" and ?D = "set (?dels by_link bs)"
  note st = binding_targets_sets [of ?t action bs by_link]
  have v1: "bindings v1 = bindings v" "outbox v1 = outbox v" using rd(1) by (simp_all add: same_tables_def)
  have v2: "bindings v2 = bindings v1" "outbox v2 = outbox v1"
    using stepsD [OF same_tables.export_reads(2) link] by (simp_all add: same_tables_def)
  have v3: "outbox v3 = outbox v2"
    using stepsD [OF same_tables.binding_reads(2) list] by (simp add: same_tables_def)
  have bs: "set bs = {b \<in> set (bindings v). cb_UserID b = UserID ?t \<and> binding_live b}"
    using binding_ListByUserID_run [OF list] v1 v2 by simp
  have ids: "export_ids v1 = export_ids v" using v1 by (simp add: export_ids_def)
  have lt: "set (fst by_link) \<subseteq> export_ids v" "action = ''deleted'' \<Longrightarrow> fst by_link = []"
    using link_targets_run [of ?t i action v1 "fst by_link" "snd by_link" v2] link ids by simp_all
  have U: "?U \<subseteq> export_ids v" "action = ''deleted'' \<Longrightarrow> ?U = {}" "?U \<inter> ?D = {}"
    using st lt bs by (auto simp: export_ids_def wanting_def)
  have W: "cb_ID b \<in> ?U \<union> ?D"
    if "b \<in> set (bindings v)" "cb_UserID b = UserID ?t" "binding_live b" "wanting ?t b" for b
    using st bs that by (auto simp: image_iff)
  obtain new1 where n1: "outbox v4 = outbox v3 @ new1" "targets new1 = Pair OutboxKindExportUpsert ` ?U"
    using enqueue_all_run [OF e1] targets_of_map range by metis
  obtain new2 where n2: "outbox v5 = outbox v4 @ new2" "targets new2 = Pair OutboxKindExportDelete ` ?D"
    using enqueue_all_run [OF e2] targets_of_map range by metis
  obtain new3 where n3: "outbox v' = outbox v5 @ new3" "\<forall>x \<in> set new3. fresh_item i {} UNIV x"
    using stepsD [OF appends.steps_when_op [OF steps_gone_appends(2)] e3] by (auto simp: appends_def)
  have none: "?D = {}" "?U = {}" if "new3 \<noteq> []"
  proof -
    have "?ups by_link bs = [] \<and> ?dels by_link bs = []"
    proof (rule ccontr)
      assume "\<not> ?thesis"
      then have "v' = v5" using e3 by (auto simp: when_op_def ret_def)
      then show False using n3 that by simp
    qed
    then show "?D = {}" "?U = {}" by (metis empty_set)+
  qed
  have T: "targets (new1 @ new2 @ new3) = Pair OutboxKindExportUpsert ` ?U \<union> Pair OutboxKindExportDelete ` ?D \<union> targets new3"
    unfolding targets_append n1(2) n2(2) by (simp add: Un_assoc)
  have T3: "(OutboxKindExportUpsert, j) \<notin> targets new3" for j
    using n3(2) kinds_differ by (auto simp: targets_def fresh_item_def)
  let ?new = "new1 @ new2 @ new3"
  have up: "j \<in> ?U \<and> (OutboxKindExportDelete, j) \<notin> targets ?new"
    if "(OutboxKindExportUpsert, j) \<in> targets ?new" for j
  proof -
    have j: "j \<in> ?U" using that T T3 kinds_differ by auto
    then have "?U \<noteq> {}" by (metis empty_iff)
    then have "new3 = []" using none(2) by (metis (no_types, lifting))
    then have "targets new3 = {}" by (simp add: targets_def)
    then show ?thesis using j T U(3) kinds_differ by auto
  qed
  show ?thesis
  proof (intro exI [of _ ?new] conjI ballI allI impI; (elim conjE)?)
    show "outbox v' = outbox v @ ?new" using n1(1) n2(1) n3(1) v1 v2 v3 by simp
  next
    fix b assume "b \<in> set (bindings v)" "cb_UserID b = UserID ?t" "binding_live b" "wanting ?t b"
    from W [OF this] show "(OutboxKindExportUpsert, cb_ID b) \<in> targets ?new \<or>
        (OutboxKindExportDelete, cb_ID b) \<in> targets ?new"
      unfolding T by (elim UnE) simp_all
  next
    fix j assume j: "(OutboxKindExportUpsert, j) \<in> targets ?new"
    note up [OF j]
    then show "action \<noteq> ''deleted''" "j \<in> export_ids v" "(OutboxKindExportDelete, j) \<notin> targets ?new"
      using U(1,2) by (metis empty_iff, meson subsetD, simp)
  qed
qed

end
