(* ===== verification/Calendar_Translation.thy ===== *)
theory Calendar_Translation
  imports Calendar_Fields
begin

text \<open>
  What the translations between tasks and events keep: the rule a cron expression becomes, what is
  read back from an event written for a task, and the retry delays.
\<close>

subsection \<open>Cron expressions\<close>

lemma expand_pieces_bounds: "expand_pieces lo hi ps = Some ns \<Longrightarrow> n \<in> set ns \<Longrightarrow> lo \<le> n \<and> n \<le> hi"
  by (induction lo hi ps arbitrary: ns rule: expand_pieces.induct)
     (auto simp: Let_def split: if_splits list.splits option.splits)

lemma cronFieldToCSV_Some:
  assumes "cronFieldToCSV field lo hi = Some s"
  shows "\<exists>ns. s = join '','' (map itoa ns) \<and> ns \<noteq> [] \<and> (\<forall>n \<in> set ns. lo \<le> n \<and> n \<le> hi)"
  using assms expand_pieces_bounds
  by (auto simp: cronFieldToCSV_def expandCronIntList_def split: option.splits if_splits)

lemma dow_number_bounds: "cronDowTokenToNumber t = Some n \<Longrightarrow> 0 \<le> n \<and> n \<le> 7"
  by (auto simp: cronDowTokenToNumber_def Let_def split: if_splits option.splits)

lemma dow_pieces_bounds: "dow_pieces ps = Some ns \<Longrightarrow> n \<in> set ns \<Longrightarrow> 0 \<le> n \<and> n \<le> 7"
proof (induction ps arbitrary: ns rule: dow_pieces.induct)
  case (2 p ps)
  then show ?case
    by (auto simp: Let_def split: if_splits list.splits option.splits dest!: dow_number_bounds)
qed simp

definition day_name :: "int \<Rightarrow> string" where
  "day_name n = cronDowByDay ! nat (n mod 7)"

lemma seven_is_sunday: "0 \<le> n \<Longrightarrow> n \<le> 7 \<Longrightarrow> (if n = 7 then 0 else n) = n mod 7" for n :: int
  by auto

lemma dow_names_run:
  assumes "\<And>n. n \<in> set ns \<Longrightarrow> 0 \<le> n \<and> n \<le> 7" and "distinct names"
  shows "\<exists>out. dow_names ns names = Some out \<and> distinct out \<and> set out = set names \<union> day_name ` set ns"
  using assms
proof (induction ns arbitrary: names)
  case (Cons n ns)
  have n: "0 \<le> n" "n \<le> 7" using Cons.prems(1) by auto
  then have m: "(if n = 7 then 0 else n) = n mod 7" "\<not> (n mod 7 < 0 \<or> n mod 7 > 6)"
    using seven_is_sunday [OF n] by auto
  show ?case
  proof (cases "day_name n \<in> set names")
    case True
    obtain out where "dow_names ns names = Some out \<and> distinct out \<and> set out = set names \<union> day_name ` set ns"
      using Cons by (metis list.set_intros(2))
    then show ?thesis using True m by (auto simp: Let_def day_name_def)
  next
    case False
    have "distinct (names @ [day_name n])" using Cons.prems(2) False by simp
    then obtain out where "dow_names ns (names @ [day_name n]) = Some out \<and> distinct out \<and>
        set out = set (names @ [day_name n]) \<union> day_name ` set ns"
      using Cons.IH Cons.prems(1) by (metis list.set_intros(2))
    then show ?thesis using False m by (auto simp: Let_def day_name_def)
  qed
qed simp

lemma cronDowToByDay_Some:
  assumes "cronDowToByDay field = Some s"
  shows "\<exists>ns names. dow_pieces (split_char (CHR '','') field) = Some ns \<and> ns \<noteq> [] \<and>
    s = join '','' names \<and> distinct names \<and> set names = day_name ` set ns"
proof -
  obtain ns where ns: "dow_pieces (split_char (CHR '','') field) = Some ns" "ns \<noteq> []"
    and s: "map_option (join '','') (dow_names ns []) = Some s"
    using assms by (auto simp: cronDowToByDay_def split: if_splits option.splits)
  obtain out where "dow_names ns [] = Some out" "distinct out" "set out = day_name ` set ns"
    using dow_names_run [of ns "[]"] dow_pieces_bounds [OF ns(1)] by auto
  then show ?thesis using ns s by auto
qed

text \<open>What the rule of a translated expression says.\<close>

definition rule_of_fields :: "string \<Rightarrow> string \<Rightarrow> string \<Rightarrow> string \<Rightarrow> bool" where
  "rule_of_fields mday month dow rule \<longleftrightarrow>
     (if mday = ''*'' \<and> month = ''*'' \<and> dow = ''*'' then rule = ''FREQ=DAILY''
      else if mday = ''*'' \<and> month = ''*'' then
        (\<exists>ns names. dow_pieces (split_char (CHR '','') dow) = Some ns \<and> ns \<noteq> [] \<and> distinct names \<and>
           set names = day_name ` set ns \<and> rule = ''FREQ=WEEKLY;BYDAY='' @ join '','' names)
      else if month = ''*'' then
        (\<exists>days. days \<noteq> [] \<and> (\<forall>d \<in> set days. 1 \<le> d \<and> d \<le> 31) \<and>
           rule = ''FREQ=MONTHLY;BYMONTHDAY='' @ join '','' (map itoa days))
      else
        (\<exists>days months. days \<noteq> [] \<and> months \<noteq> [] \<and> (\<forall>d \<in> set days. 1 \<le> d \<and> d \<le> 31) \<and>
           (\<forall>m \<in> set months. 1 \<le> m \<and> m \<le> 12) \<and>
           rule = ''FREQ=YEARLY;BYMONTH='' @ join '','' (map itoa months) @ '';BYMONTHDAY='' @
             join '','' (map itoa days)))"

lemma cron_rule_Some:
  assumes "cron_rule mday month dow = Some rule"
  shows "rule_of_fields mday month dow rule \<and> (dow = ''*'' \<or> mday = ''*'' \<and> month = ''*'')"
proof -
  consider "mday = ''*''" "month = ''*''" "dow = ''*''" | "mday = ''*''" "month = ''*''" "dow \<noteq> ''*''"
    | "mday \<noteq> ''*''" "month = ''*''" "dow = ''*''" | "mday \<noteq> ''*''" "month \<noteq> ''*''" "dow = ''*''"
    using assms by (auto simp: cron_rule_def split: if_splits)
  then show ?thesis
  proof cases
    case 1
    then show ?thesis using assms by (simp add: cron_rule_def rule_of_fields_def)
  next
    case 2
    then obtain s where "cronDowToByDay dow = Some s" "rule = ''FREQ=WEEKLY;BYDAY='' @ s"
      using assms by (auto simp: cron_rule_def)
    then show ?thesis using 2 cronDowToByDay_Some [of dow s] by (auto simp: rule_of_fields_def)
  next
    case 3
    then obtain s where "cronFieldToCSV mday 1 31 = Some s" "rule = ''FREQ=MONTHLY;BYMONTHDAY='' @ s"
      using assms by (auto simp: cron_rule_def)
    then show ?thesis using 3 cronFieldToCSV_Some [of mday 1 31 s] by (auto simp: rule_of_fields_def)
  next
    case 4
    then obtain s s' where "cronFieldToCSV mday 1 31 = Some s" "cronFieldToCSV month 1 12 = Some s'"
      "rule = ''FREQ=YEARLY;BYMONTH='' @ s' @ '';BYMONTHDAY='' @ s"
      using assms by (auto simp: cron_rule_def split: option.splits)
    then show ?thesis
      using 4 cronFieldToCSV_Some [of mday 1 31 s] cronFieldToCSV_Some [of month 1 12 s']
      by (auto simp: rule_of_fields_def)
  qed
qed

lemma CronExpressionToRRule_Some:
  assumes "CronExpressionToRRule standard expr = Some rule"
  shows "\<exists>minute hour mday month dow. split_fields (trim_space expr) = [minute, hour, mday, month, dow] \<and>
    standard (trim_space expr) \<and> rule_of_fields mday month dow rule"
  using assms cron_rule_Some
  by (auto simp: CronExpressionToRRule_def Let_def split: if_splits list.splits)

subsection \<open>Events\<close>

lemma rrule_plain: "\<not> space_byte (CHR ''R'')" "\<not> space_byte (CHR '':'')"
  by (auto dest: space_byte_range)

text \<open>Nothing is trimmed from a text that starts with the prefix of a rule and ends with a trimmed one.\<close>

lemma trim_rrule_line:
  assumes "trim_space r = r" "r \<noteq> []"
  shows "trim_space (''RRULE:'' @ r) = ''RRULE:'' @ r"
proof -
  have "first_prefix go_spaces (''RRULE:'' @ r) = None"
    by (simp add: first_prefix_plain rrule_plain)
  then have lead: "strip_with go_spaces (''RRULE:'' @ r) = ''RRULE:'' @ r"
    by (rule strip_with_none)
  have "first_prefix (map rev go_spaces) (rev (''RRULE:'' @ r)) = None"
  proof (rule ccontr)
    assume "first_prefix (map rev go_spaces) (rev (''RRULE:'' @ r)) \<noteq> None"
    then obtain w where "first_prefix (map rev go_spaces) (rev (''RRULE:'' @ r)) = Some w" by auto
    then have w: "rev w \<in> set go_spaces" "w \<noteq> []" "prefix w (rev r @ rev ''RRULE:'')"
      by (auto dest!: first_prefix_Some)
    have "prefix w (rev r)"
    proof (rule ccontr)
      assume "\<not> prefix w (rev r)"
      then obtain us where "w = rev r @ us" "prefix us (rev ''RRULE:'')" "us \<noteq> []"
        using w(3) by (auto simp: prefix_append)
      then have "CHR '':'' \<in> set (rev w)" by (auto simp: prefix_Cons)
      then show False using rrule_plain(2) w(1) by (auto simp: space_byte_def)
    qed
    then have "first_prefix (map rev go_spaces) (rev r) \<noteq> None"
      using w(1,2) by (auto simp: first_prefix_None rev_swap image_iff)
    moreover have "first_prefix (map rev go_spaces) (rev r) = None"
      using strip_with_done [of "map rev go_spaces" "rev (strip_with go_spaces r)"] assms(1)
      by (metis rev_rev_ident trim_space_def)
    ultimately show False by simp
  qed
  then show ?thesis by (simp only: trim_space_def lead strip_with_none rev_rev_ident)
qed

lemma to_upper_rrule: "to_upper (''RRULE:'' @ s) = ''RRULE:'' @ to_upper s"
  by (cases s) (simp_all add: upper_char_def)

lemma rrule_roundtrip:
  assumes "\<And>r. rrule = Some r \<Longrightarrow> \<not> prefix ''RRULE:'' (to_upper (trim_space r))"
  shows "RecurrenceToRRule (RRuleToRecurrence rrule) =
    (case rrule of None \<Rightarrow> None | Some r \<Rightarrow> if trim_space r = [] then None else Some (trim_space r))"
proof (cases rrule)
  case (Some r)
  show ?thesis
  proof (cases "trim_space r = []")
    case False
    then have "trim_space (''RRULE:'' @ trim_space r) = ''RRULE:'' @ trim_space r"
      by (intro trim_rrule_line) simp_all
    moreover have "RRuleToRecurrence rrule = [''RRULE:'' @ trim_space r]"
      using Some False assms by (simp add: RRuleToRecurrence_def)
    ultimately show ?thesis
      using Some False to_upper_rrule [of "trim_space r"] by simp
  qed (simp add: Some RRuleToRecurrence_def)
qed (simp add: RRuleToRecurrence_def)

text \<open>The rule an exported event carries.\<close>

definition exported_rule :: "(string \<Rightarrow> bool) \<Rightarrow> task \<Rightarrow> string option" where
  "exported_rule standard t =
     (if \<not> recurrenceFieldSet (RRule t) \<and> recurrenceFieldSet (CronExpression t)
      then CronExpressionToRRule standard (the (CronExpression t)) else RRule t)"

lemma exported_event:
  "e_Summary (BuildExportEvent standard t n d) = Title t"
  "e_Description (BuildExportEvent standard t n d) = Description t"
  "EventStartTime (BuildExportEvent standard t n d) = Ok (StartDate t)"
  "e_Recurrence (BuildExportEvent standard t n d) = RRuleToRecurrence (exported_rule standard t)"
  "e_ExtendedProperties (BuildExportEvent standard t n d) = Some [(PrivateExtendedPropertyTaskID, itoa (ID t))]"
  by (simp_all add: BuildExportEvent_def Let_def EventStartTime_def exported_rule_def)

lemma itoa_not_Nil [simp]: "itoa n \<noteq> []"
  by (simp add: itoa_def)

lemma exported_task_id:
  "- (2 ^ 63) \<le> ID t \<Longrightarrow> ID t < 2 ^ 63 \<Longrightarrow>
     TaskIDFromExtendedProperties (e_ExtendedProperties (BuildExportEvent standard t n d)) = Some (ID t)"
  by (simp add: exported_event TaskIDFromExtendedProperties_def atoi_itoa)

lemma import_of_export:
  assumes future: "clock (tick w) < StartDate t"
    and rule: "\<And>r. exported_rule standard t = Some r \<Longrightarrow> \<not> prefix ''RRULE:'' (to_upper (trim_space r))"
  shows "MapEventToTaskFields L (BuildExportEvent standard t n d) userID groupID mru w =
    (Ok (zero_task\<lparr>Title := (if trim_space (Title t) = [] then untitled else trim_space (Title t)),
       Description := Description t, UserID := userID, GroupID := groupID, MessengerRelatedUserID := mru,
       StartDate := StartDate t, Status := TaskStatusScheduled,
       RRule := (case exported_rule standard t of
           None \<Rightarrow> None | Some r \<Rightarrow> if trim_space r = [] then None else Some (trim_space r))\<rparr>), tick w)"
  using future
  by (simp add: MapEventToTaskFields_def event_task_def Let_def bindE_def lift_outcome_def time_Now_def ret_def
      exported_event rrule_roundtrip [OF rule] split: option.split)

subsection \<open>Delays\<close>

lemma backoff_values:
  "OutboxBackoff n = (if n \<le> 1 then minute_ns else if n = 2 then 5 * minute_ns
     else if n = 3 then 30 * minute_ns else 2 * hour_ns)"
proof -
  have "n \<le> 0 \<or> n = 1 \<or> n = 2 \<or> n = 3 \<or> n = 4 \<or> 5 \<le> n" by linarith
  then show ?thesis by (elim disjE) (simp_all add: OutboxBackoff_def outboxBackoffSteps_def Let_def numeral_3_eq_3)
qed

lemma backoff_mono: "m \<le> n \<Longrightarrow> OutboxBackoff m \<le> OutboxBackoff n"
  by (simp add: backoff_values minute_ns_def hour_ns_def)

end
