(* ===== verification/Calendar_Echo.thy ===== *)
theory Calendar_Echo
  imports Calendar_Results Calendar_Translation
begin

text \<open>
  What the import of a known event leaves in the row of its task: the fields of the merged task, the
  cron expression the row had.  Two cases matter for events the service has written itself: the echo
  of a reminder that has passed, and the echo of a task with a cron expression.
\<close>

subsection \<open>The mapped task\<close>

lemma mapping_fields:
  assumes "MapEventToTaskFields L ev u g mru w = (Ok t, w')"
  shows "\<exists>s start. EventStartTime ev = Ok s \<and> t = event_task ev start (clock (tick w)) u g mru \<and>
    (RecurrenceToRRule (e_Recurrence ev) = None \<or> clock (tick w) < s \<longrightarrow> start = s) \<and> w' = tick w"
proof -
  obtain s where s: "EventStartTime ev = Ok s"
    using assms by (cases "EventStartTime ev") (auto simp: MapEventToTaskFields_def bindE_def lift_outcome_def)
  show ?thesis
  proof (cases "RecurrenceToRRule (e_Recurrence ev) = None \<or> clock (tick w) < s")
    case True
    then have "t = event_task ev s (clock (tick w)) u g mru \<and> w' = tick w"
      using assms s by (auto simp: MapEventToTaskFields_def bindE_def lift_outcome_def time_Now_def ret_def
          split: option.splits)
    then show ?thesis using s by blast
  next
    case False
    then obtain r where r: "RecurrenceToRRule (e_Recurrence ev) = Some r" by auto
    show ?thesis
    proof (cases "nextStartFromRRule L (clock (tick w)) r s")
      case (Ok x)
      then have "t = event_task ev x (clock (tick w)) u g mru \<and> w' = tick w"
        using assms s r False by (auto simp: MapEventToTaskFields_def bindE_def lift_outcome_def time_Now_def
            ret_def attempt_def)
      then show ?thesis using s False by blast
    next
      case (Err e)
      then have "t = event_task ev s (clock (tick w)) u g mru \<and> w' = tick w"
        using assms s r False by (auto simp: MapEventToTaskFields_def bindE_def lift_outcome_def time_Now_def
            ret_def attempt_def)
      then show ?thesis using s False by blast
    next
      case (Panic p)
      then show ?thesis using assms s r False
        by (simp add: MapEventToTaskFields_def bindE_def lift_outcome_def time_Now_def ret_def attempt_def)
    qed
  qed
qed

lemma event_task_fields [simp]:
  "RRule (event_task ev start now u g mru) = RecurrenceToRRule (e_Recurrence ev)"
  "StartDate (event_task ev start now u g mru) = start"
  "Status (event_task ev start now u g mru) = (if now < start then TaskStatusScheduled else TaskStatusDone)"
  "MessengerRelatedUserID (event_task ev start now u g mru) = mru"
  by (auto simp: event_task_def Let_def)

subsection \<open>The row of the task\<close>

text \<open>The row \<open>r\<close> holds the fields of \<open>t\<close> an import writes, and the cron expression of \<open>old\<close>.\<close>

definition holds_import :: "task \<Rightarrow> task \<Rightarrow> row \<Rightarrow> bool" where
  "holds_import t old r \<longleftrightarrow>
     live r \<and> Title (r_task r) = Title t \<and> Description (r_task r) = Description t \<and>
     StartDate (r_task r) = StartDate t \<and> RRule (r_task r) = RRule t \<and> Status (r_task r) = Status t \<and>
     FinishDate (r_task r) = FinishDate t \<and> CronExpression (r_task r) = CronExpression old"

lemma recurrencePtrsEqual_iff [simp]: "recurrencePtrsEqual a b \<longleftrightarrow> a = b"
  by (cases a; cases b) (simp_all add: recurrencePtrsEqual_def)

lemma ptr_differs_iff [simp]: "ptr_differs a b \<longleftrightarrow> a \<noteq> b"
  by (cases a; cases b) (simp_all add: ptr_differs_def)

lemma merge_event_keeps [simp]:
  "ID (merge_event k mapped t) = ID t" "CronExpression (merge_event k mapped t) = CronExpression t"
  by (auto simp: merge_event_def applyImportedDeliveryChat_def Let_def)

lemma bindE_unitE:
  assumes "bindE m (\<lambda>_ :: unit. k) w = (Ok y, w')"
  obtains w1 where "m w = (Ok (), w1)" "k w1 = (Ok y, w')"
  using assms by (rule bindE_OkE) simp

lemma save_imported_run:
  assumes run: "save_imported E old t v = (Ok (), v')"
    and d: "distinct (map row_id (tasks (core v)))"
    and row: "row \<in> set (tasks (core v))" "live row" "r_task row = old"
    and t: "ID t = ID old" "CronExpression t = CronExpression old"
  shows "\<exists>r \<in> set (tasks (core v')). row_id r = row_id row \<and> holds_import t old r"
proof (cases "calendarImportedFieldsChanged old t")
  case False
  then have "v' = v" using run by (simp add: save_imported_def ret_def)
  then show ?thesis using False row t
    by (auto simp: holds_import_def calendarImportedFieldsChanged_def)
next
  case True
  let ?rest = "bindE (when_op (Status old \<noteq> Status t)
         (recordImportedTaskHistory E TaskHistoryActionStatusChanged t
            (Some [(''status'', HStr (Status old))]) (Some [(''status'', HStr (Status t))]))) (\<lambda>_.
      when_op (non_status_changed old t \<or> Status old = Status t)
        (recordImportedTaskHistory E TaskHistoryActionUpdated t
           (Some (calendarTaskHistoryMap old)) (Some (calendarTaskHistoryMap t))))"
  have "bindE (in_core (repo_UpdateTask t)) (\<lambda>_. ?rest) v = (Ok (), v')"
    using run True by (simp add: save_imported_def)
  then obtain v1 where up: "in_core (repo_UpdateTask t) v = (Ok (), v1)" and rest: "?rest v1 = (Ok (), v')"
    by (rule bindE_unitE)
  have "steps same_tables ?rest" by (intro steps_rules)
  then have "same_tables v1 v'" using rest by (rule stepsD)
  then have v': "tasks (core v') = tasks (core v1)" by (simp add: same_tables_def)
  have "fst (repo_UpdateTask t (core v)) = Ok ()" "snd (repo_UpdateTask t (core v)) = core v1"
    using up by (auto simp: in_core_def)
  then have "repo_UpdateTask t (core v) = (Ok (), core v1)" by (metis prod.collapse)
  from repo_writes(1) [OF this d] have rows: "tasks (core v1) =
      update_rows (\<lambda>r. live r \<and> row_id r = ID t) (set_columns t (clock (tick (core v)))) (tasks (core v))" .
  have "set_columns t (clock (tick (core v))) row \<in> set (tasks (core v'))"
    unfolding v' rows using row t(1) by (force simp: update_rows_def row_id_def)
  moreover have "holds_import t old (set_columns t (clock (tick (core v))) row)"
    using row(2) t(2) by (simp add: holds_import_def) (simp add: set_columns_def)
  ultimately show ?thesis using row_id_set_columns by blast
qed

subsection \<open>Importing a known event\<close>

text \<open>When nothing is published, saving is all that is written.\<close>

lemma republish_silent:
  assumes "republish_imported E k old mapped t v = (Ok (), v')" and "k \<or> c_scheduler E = None"
  shows "v' = v"
  using assms
  by (auto simp: republish_imported_def imported_schedule_def imported_delete_def best_effort_def attempt_def
      bindE_def ret_def split: if_splits)

lemma update_imported_known:
  assumes run: "update_imported E l mapped v = (Ok l', v')"
    and d: "distinct (map row_id (tasks (core v)))"
    and row: "row \<in> set (tasks (core v))" "live row" "row_id row = l_TaskID l"
    and quiet: "keepExportedReminderOpen (l_Origin l) (Status mapped) \<or> c_scheduler E = None"
  shows "l' = l" and "\<exists>r \<in> set (tasks (core v')). row_id r = l_TaskID l \<and>
    holds_import (merge_event (keepExportedReminderOpen (l_Origin l) (Status mapped)) mapped (r_task row)) (r_task row) r"
proof -
  let ?k = "keepExportedReminderOpen (l_Origin l) (Status mapped)"
  obtain z v1 where read: "in_core (repo_GetTaskByIDWithoutStatusFilter (l_TaskID l)) v = (z, v1)" by fastforce
  note rd = read_task_run [OF read]
  have same: "tasks (core v1) = tasks (core v)" using rd(1) by (simp add: same_tables_def)
  have z: "z = Ok (r_task row)"
  proof (cases z)
    case (Ok t)
    then obtain r where "r \<in> set (tasks (core v))" "row_id r = l_TaskID l" "r_task r = t" using rd(2) by blast
    then show ?thesis using Ok same_row [OF d _ row(1)] row(3) by simp
  next
    case (Err e)
    then have "\<not> is_not_found e" using rd(3) row by blast
    then show ?thesis using run read Err by (simp add: update_imported_def bindE_def attempt_def fail_def)
  qed (use run read in \<open>simp add: update_imported_def bindE_def attempt_def\<close>)
  let ?t = "merge_event ?k mapped (r_task row)"
  have "bindE (save_imported E (r_task row) ?t) (\<lambda>_. bindE (republish_imported E ?k (r_task row) mapped ?t)
      (\<lambda>_. ret l)) v1 = (Ok l', v')"
    using run read z by (simp add: update_imported_def bindE_def attempt_def Let_def)
  then obtain v2 v3 where save: "save_imported E (r_task row) ?t v1 = (Ok (), v2)"
    and pub: "republish_imported E ?k (r_task row) mapped ?t v2 = (Ok (), v3)" and l: "ret l v3 = (Ok l', v')"
    by (elim bindE_unitE)
  show "l' = l" using l by (simp add: ret_def)
  have "v' = v2" using l republish_silent [OF pub quiet] by (simp add: ret_def)
  then show "\<exists>r \<in> set (tasks (core v')). row_id r = l_TaskID l \<and> holds_import ?t (r_task row) r"
    using save_imported_run [OF save _ _ row(2) refl] d row same by auto
qed

lemma upsert_known_row:
  assumes wf: "cal_wf v" and run: "upsertImportedEvent E b ev v = (Ok (), v')"
    and ev: "\<not> equal_fold (e_Status ev) ''cancelled''"
    and l: "l \<in> set (links v)" "event_key l = (TaskSyncProviderGoogleCalendar, cb_GoogleCalendarID b, e_ID ev)"
    and row: "row \<in> set (tasks (core v))" "live row" "row_id row = l_TaskID l"
    and s: "EventStartTime ev = Ok s"
    and quiet: "c_scheduler E = None \<or> l_Origin l = TaskSyncLinkOriginExported \<and>
      s \<le> clock (core v) \<and> RecurrenceToRRule (e_Recurrence ev) = None"
  shows "\<exists>now start r. clock (core v) \<le> now \<and> now \<le> clock (core v') \<and>
    (RecurrenceToRRule (e_Recurrence ev) = None \<or> now < s \<longrightarrow> start = s) \<and>
    r \<in> set (tasks (core v')) \<and> row_id r = l_TaskID l \<and>
    holds_import (merge_event (l_Origin l = TaskSyncLinkOriginExported \<and> \<not> now < start)
      (event_task ev start now (cb_UserID b) (cb_GroupID b) (cb_MessengerRelatedUserID b)) (r_task row)) (r_task row) r"
proof -
  have d: "distinct (map row_id (tasks (core v)))" using wf by (simp add: cal_wf_def store_wf_def)
  obtain mapped u v3 now l' v4 where
    m: "MapEventToTaskFields (c_lib E) ev (cb_UserID b) (cb_GroupID b) (cb_MessengerRelatedUserID b) u = (Ok mapped, tick u)"
    and c: "clock (core v) \<le> clock (tick u)" "clock (tick u) \<le> clock (core v')"
    and same: "same_tables v v3" and up: "update_imported E l mapped v3 = (Ok l', v4)"
    and w: "link_Update (refreshed_link b ev now l') v4 = (Ok (), v')"
    by (rule upsert_known [OF wf run ev l])
  obtain start where mapped: "mapped = event_task ev start (clock (tick u)) (cb_UserID b) (cb_GroupID b) (cb_MessengerRelatedUserID b)"
    and start: "RecurrenceToRRule (e_Recurrence ev) = None \<or> clock (tick u) < s \<longrightarrow> start = s"
    using mapping_fields [OF m] s by auto
  have keep: "keepExportedReminderOpen (l_Origin l) (Status mapped) =
      (l_Origin l = TaskSyncLinkOriginExported \<and> \<not> clock (tick u) < start)"
    by (simp add: mapped keepExportedReminderOpen_def TaskStatusScheduled_def TaskStatusDone_def)
  have q: "keepExportedReminderOpen (l_Origin l) (Status mapped) \<or> c_scheduler E = None"
    using quiet start c unfolding keep by auto
  have tasks: "tasks (core v3) = tasks (core v)" using same by (simp add: same_tables_def)
  obtain r where "r \<in> set (tasks (core v4))" "row_id r = l_TaskID l"
    and holds: "holds_import (merge_event (keepExportedReminderOpen (l_Origin l) (Status mapped)) mapped (r_task row)) (r_task row) r"
    using update_imported_known(2) [OF up _ _ row(2,3) q] d row(1) tasks by auto
  moreover note holds [unfolded keep, unfolded mapped]
  ultimately show ?thesis
    using c start link_Update_run(2) [OF w] by metis
qed

lemma RecurrenceToRRule_Some: "RecurrenceToRRule ls = Some r \<Longrightarrow> trim_space r = r \<and> r \<noteq> []"
  by (induction ls) (auto simp: Let_def split: if_splits)

lemma echo_two_rules:
  assumes "cal_wf v" "upsertImportedEvent E b ev v = (Ok (), v')"
    "\<not> equal_fold (e_Status ev) ''cancelled''"
    "l \<in> set (links v)" "event_key l = (TaskSyncProviderGoogleCalendar, cb_GoogleCalendarID b, e_ID ev)"
    "row \<in> set (tasks (core v))" "live row" "row_id row = l_TaskID l"
    "EventStartTime ev = Ok s"
    and future: "clock (core v') < s" and rule: "RecurrenceToRRule (e_Recurrence ev) = Some r"
    and "c_scheduler E = None"
  shows "\<exists>row' \<in> set (tasks (core v')). row_id row' = l_TaskID l \<and> live row' \<and>
    CronExpression (r_task row') = CronExpression (r_task row) \<and> RRule (r_task row') = Some r"
proof -
  obtain now start r' where "now \<le> clock (core v')" "now < s \<longrightarrow> start = s"
    "r' \<in> set (tasks (core v'))" "row_id r' = l_TaskID l"
    "holds_import (merge_event (l_Origin l = TaskSyncLinkOriginExported \<and> \<not> now < start)
      (event_task ev start now (cb_UserID b) (cb_GroupID b) (cb_MessengerRelatedUserID b)) (r_task row)) (r_task row) r'"
    using upsert_known_row [OF assms(1-9)] assms(12) by auto
  then show ?thesis
    using future rule by (intro bexI [of _ r']) (auto simp: holds_import_def merge_event_def Let_def)
qed

lemma passed_echo:
  assumes "cal_wf v" "upsertImportedEvent E b ev v = (Ok (), v')"
    "\<not> equal_fold (e_Status ev) ''cancelled''"
    "l \<in> set (links v)" "event_key l = (TaskSyncProviderGoogleCalendar, cb_GoogleCalendarID b, e_ID ev)"
    "row \<in> set (tasks (core v))" "live row" "row_id row = l_TaskID l"
    "EventStartTime ev = Ok s"
    and past: "l_Origin l = TaskSyncLinkOriginExported" "s \<le> clock (core v)"
      "RecurrenceToRRule (e_Recurrence ev) = None"
  shows "\<exists>row' \<in> set (tasks (core v')). row_id row' = l_TaskID l \<and> live row' \<and>
    Status (r_task row') = Status (r_task row) \<and> StartDate (r_task row') = StartDate (r_task row) \<and>
    FinishDate (r_task row') = FinishDate (r_task row) \<and> RRule (r_task row') = RRule (r_task row) \<and>
    CronExpression (r_task row') = CronExpression (r_task row) \<and>
    Description (r_task row') = e_Description ev"
proof -
  obtain now r' where now: "clock (core v) \<le> now"
    "r' \<in> set (tasks (core v'))" "row_id r' = l_TaskID l"
    "holds_import (merge_event (\<not> now < s)
      (event_task ev s now (cb_UserID b) (cb_GroupID b) (cb_MessengerRelatedUserID b)) (r_task row)) (r_task row) r'"
    using upsert_known_row [OF assms(1-9)] past by auto
  then have "\<not> now < s" using past(2) by simp
  then show ?thesis
    using now by (intro bexI [of _ r'])
      (auto simp: holds_import_def merge_event_def applyImportedDeliveryChat_def event_task_def Let_def)
qed

end
