(* ===== verification/Calendar_Sample.thy ===== *)
theory Calendar_Sample
  imports Sample_State Calendar_Removal Calendar_Enqueue Calendar_Echo
begin

text \<open>
  One small state of the calendar service and one instance of its environment, at which the theorems
  about it are instantiated: a binding in both directions, an exported and an imported link, one item
  that waits.
\<close>

definition sample_cal_env :: cal_env where
  "sample_cal_env = \<lparr>c_lib = sample_lib, c_standard = (\<lambda>e. e \<noteq> []), c_decrypt = (\<lambda>s. Some s),
     c_windowDays = 90, c_durationMinutes = 30, c_scheduler = None, c_history = True, c_range = (\<lambda>is. is)\<rparr>"

definition sample_binding :: calendar_binding where
  "sample_binding = \<lparr>cb_ID = 1, cb_UserID = 7, cb_GoogleAccountID = 4, cb_GoogleCalendarID = ''cal'',
     cb_CalendarSummary = None, cb_Direction = CalendarBindingDirectionBoth, cb_GroupID = None,
     cb_MessengerRelatedUserID = None, cb_SyncToken = None, cb_LastSyncedAt = None, cb_LastError = None,
     cb_Status = CalendarBindingStatusActive, cb_DeletePolicy = CalendarDeletePolicySoftDeleteImported,
     cb_SyncAttempts = 0, cb_NextRetryAt = None, cb_CreatedAt = 0, cb_UpdatedAt = 0, cb_DeletedAt = None\<rparr>"

definition sample_link :: "int \<Rightarrow> int \<Rightarrow> string \<Rightarrow> string \<Rightarrow> task_sync_link" where
  "sample_link i taskID eventID origin =
     \<lparr>l_ID = i, l_TaskID = taskID, l_Provider = TaskSyncProviderGoogleCalendar,
      l_GoogleCalendarID = ''cal'', l_GoogleEventID = eventID, l_ETag = None, l_GoogleUpdatedAt = None,
      l_Origin = origin, l_SyncEnabled = True, l_ExportOptIn = False, l_CalendarBindingID = Some 1,
      l_DurationSeconds = None, l_LastSyncedAt = None, l_LastError = None, l_CreatedAt = 0,
      l_UpdatedAt = 0\<rparr>"

definition sample_item :: sync_outbox where
  "sample_item = \<lparr>ob_ID = 1, ob_Kind = OutboxKindExportUpsert,
     ob_Payload = \<lparr>pl_TaskID = 1, pl_BindingID = 1, pl_LinkID = 0, pl_Action = ''updated''\<rparr>,
     ob_Attempts = 0, ob_NextRetryAt = 0, ob_LastError = None, ob_Status = SyncOutboxStatusPending,
     ob_CreatedAt = 0, ob_UpdatedAt = 0\<rparr>"

definition cal_core :: world where
  "cal_core = sample_world\<lparr>tasks := [sample_row sample_task, sample_row series_task,
       (sample_row (sample_task\<lparr>ID := 5\<rparr>))\<lparr>r_deleted_at := Some 1\<rparr>], next_id := 6,
     sync_links := [sample_link 1 1 ''a'' TaskSyncLinkOriginImported,
       sample_link 2 4 ''b'' TaskSyncLinkOriginExported, sample_link 3 5 ''c'' TaskSyncLinkOriginImported]\<rparr>"

definition sample_cal :: cal_world where
  "sample_cal = \<lparr>core = cal_core, bindings = [sample_binding], accounts = [], outbox = [sample_item],
     next_binding = 2, next_link = 4, next_outbox = 2, replies = [], google = []\<rparr>"

definition sample_event :: "string \<Rightarrow> time \<Rightarrow> string option \<Rightarrow> event" where
  "sample_event i start rrule = no_event\<lparr>e_ID := i, e_Description := ''every day'',
     e_Start := \<lparr>dt_DateTime = Some start, dt_Date = [], dt_TimeZone = ''UTC''\<rparr>,
     e_Recurrence := RRuleToRecurrence rrule\<rparr>"

lemmas sample_cal_defs = sample_cal_def cal_core_def sample_cal_env_def sample_binding_def sample_link_def
  sample_item_def sample_event_def series_task_def no_event_def

lemma sample_cal_ids:
  "distinct (map row_id (tasks cal_core))" "distinct (map ob_ID (outbox sample_cal))"
  by (simp_all add: sample_cal_defs sample_defs row_id_def)

lemma sample_cal_wf: "cal_wf sample_cal"
  by (simp add: tables_wf store_wf_def sample_cal_defs sample_defs row_id_def event_key_def task_key_def
      item_ok_def maxOutboxAttempts_def)

lemma sample_not_cancelled: "\<not> equal_fold (e_Status (sample_event i s r)) ''cancelled''"
  by (simp add: sample_event_def no_event_def equal_fold_def)

text \<open>What the theorems about known events ask of links and rows.\<close>

definition exported_sample :: task_sync_link where
  "exported_sample = sample_link 2 4 ''b'' TaskSyncLinkOriginExported"

definition orphan_sample :: task_sync_link where
  "orphan_sample = sample_link 3 5 ''c'' TaskSyncLinkOriginImported"

lemma exported_sample_facts:
  "exported_sample \<in> set (links sample_cal)"
  "event_key exported_sample =
     (TaskSyncProviderGoogleCalendar, cb_GoogleCalendarID sample_binding, e_ID (sample_event ''b'' s r))"
  "sample_row series_task \<in> set (tasks (core sample_cal))" "live (sample_row series_task)"
  "row_id (sample_row series_task) = l_TaskID exported_sample"
  "l_Origin exported_sample = TaskSyncLinkOriginExported" "l_TaskID exported_sample = 4"
  by (simp_all add: exported_sample_def links_def event_key_def live_def row_id_def sample_cal_defs sample_defs)

lemma orphan_sample_facts:
  "orphan_sample \<in> set (links sample_cal)"
  "event_key orphan_sample =
     (TaskSyncProviderGoogleCalendar, cb_GoogleCalendarID sample_binding, e_ID (sample_event ''c'' s r))"
  "r' \<in> set (tasks (core sample_cal)) \<Longrightarrow> row_id r' = l_TaskID orphan_sample \<Longrightarrow> \<not> live r'"
  by (auto simp: orphan_sample_def links_def event_key_def live_def row_id_def sample_cal_defs sample_defs)

lemma sample_event_start: "EventStartTime (sample_event i s r) = Ok s"
  by (simp add: sample_event_def EventStartTime_def)

lemma sample_event_rules: "e_Recurrence (sample_event i s r) = RRuleToRecurrence r"
  by (simp add: sample_event_def)

lemma sample_days: "day_number_of 100 \<le> clock (core sample_cal)" "day_number_of 200 < day_number_of 300"
  by (simp_all add: sample_cal_def cal_core_def sample_world_def day_number_of_def day_ns_def hour_ns_def
      minute_ns_def second_ns_def)

lemmas cal_runs = in_core_def upsertImportedEvent_def GetByEvent_def MapEventToTaskFields_def
  EventStartTime_def EventEndTime_def event_task_def untitled_def update_imported_def save_imported_def
  republish_imported_def refreshed_link_def link_Update_def update_key_def link_columns_def
  recordImportedTaskHistory_def imported_schedule_def imported_delete_def find_link_def links_def
  set_links_def event_key_def link_conflict_def task_key_def keepExportedReminderOpen_def
  binding_GetByID_def ListByBindingID_def drop_imported_def applyImportedDeletePolicy_def
  ApplyDeletePolicy_def binding_SoftDelete_def binding_write_def binding_live_def

text \<open>The event of the deleted task is imported again.\<close>

lemma sample_gone_event:
  "fst (upsertImportedEvent sample_cal_env sample_binding (sample_event ''c'' (day_number_of 300) None) sample_cal) = Ok ()"
  by (simp add: cal_runs RRuleToRecurrence_def Let_def run_defs run_lookups run_repo
      sample_cal_defs sample_defs equal_fold_def TaskSyncProviderGoogleCalendar_def EventDurationSeconds_def)

lemma sample_daily_rule: "RecurrenceToRRule (RRuleToRecurrence (Some ''FREQ=DAILY'')) = Some ''FREQ=DAILY''"
proof -
  have c: "\<not> space_byte c" if "c \<in> set ''FREQ=DAILY''" for c
    using that by (auto dest!: space_byte_range)
  then have "plain_field ''FREQ=DAILY''" by (simp add: plain_field_def)
  then have t: "trim_space ''FREQ=DAILY'' = ''FREQ=DAILY''" by (rule trim_plain)
  have "to_upper ''FREQ=DAILY'' = ''FREQ=DAILY''" by code_simp
  then show ?thesis using rrule_roundtrip [of "Some ''FREQ=DAILY''"] t by simp
qed

text \<open>The event of the exported task with a cron expression comes back with a rule.\<close>

lemma sample_two_rules:
  "fst (upsertImportedEvent sample_cal_env sample_binding
     (sample_event ''b'' (day_number_of 300) (Some ''FREQ=DAILY'')) sample_cal) = Ok ()"
  "clock (core (snd (upsertImportedEvent sample_cal_env sample_binding
     (sample_event ''b'' (day_number_of 300) (Some ''FREQ=DAILY'')) sample_cal))) = day_number_of 200"
  using sample_daily_rule
  by (simp_all add: cal_runs Let_def run_defs run_lookups run_repo status_defs merge_event_def
      applyImportedDeliveryChat_def calendarImportedFieldsChanged_def non_status_changed_def
      TaskSyncLinkOriginImported_def TaskSyncLinkOriginExported_def
      sample_cal_defs sample_defs equal_fold_def TaskSyncProviderGoogleCalendar_def EventDurationSeconds_def)

lemma sample_quiet: "c_scheduler sample_cal_env = None"
  by (simp add: sample_cal_env_def)

lemma sample_cron: "CronExpression (r_task (sample_row series_task)) = Some ''0 9 * * *''"
  by (simp add: sample_row_def series_task_def)

text \<open>The echo of an exported task that has passed.\<close>

lemma sample_passed_echo:
  "fst (upsertImportedEvent sample_cal_env sample_binding
     (sample_event ''b'' (day_number_of 100) None) sample_cal) = Ok ()"
  by (simp add: cal_runs RRuleToRecurrence_def Let_def run_defs run_lookups run_repo status_defs merge_event_def
      applyImportedDeliveryChat_def calendarImportedFieldsChanged_def non_status_changed_def
      TaskSyncLinkOriginImported_def TaskSyncLinkOriginExported_def
      sample_cal_defs sample_defs equal_fold_def TaskSyncProviderGoogleCalendar_def EventDurationSeconds_def)

lemma sample_remove_binding: "fst (DeleteBinding sample_cal_env 1 sample_cal) = Ok ()"
  by (simp add: DeleteBinding_def cal_runs policy_defs Let_def run_defs run_lookups run_repo status_defs
      TaskSyncLinkOriginImported_def TaskSyncLinkOriginExported_def sample_cal_defs sample_defs)

lemma sample_export: "fst (EnqueueExport sample_cal_env 1 ''updated'' sample_cal) = Ok ()"
  by (simp add: EnqueueExport_def cal_runs link_targets_def exporting_binding_def GetByTaskID_def latest_link_def
      ShouldExportTask_def bindingAllowsTaskExport_def taskMatchesExportBindingGroup_def direction_defs
      binding_ListByUserID_def insert_id_def enqueue_all_def Enqueue_def Let_def run_defs run_repo
      sample_cal_defs sample_defs)

lemma sample_cron_rule:
  "CronExpressionToRRule (c_standard sample_cal_env) ''30 9 * * 1'' = Some ''FREQ=WEEKLY;BYDAY=MO''"
proof -
  have t: "trim_space ''30 9 * * 1'' = ''30 9 * * 1''"
    using trim_space_join [OF sample_plain(2)] by simp
  have "plain_field ''1''" using sample_plain(2) by simp
  then have one: "trim_space ''1'' = ''1''" by (rule trim_plain)
  then have "cronDowTokenToNumber ''1'' = Some 1"
    by (simp add: cronDowTokenToNumber_def Let_def lower_byte_def)
  then have "cronDowToByDay ''1'' = Some ''MO''"
    using one by (simp add: cronDowToByDay_def Let_def cronDowByDay_def)
  then have "cron_rule ''*'' ''*'' ''1'' = Some ''FREQ=WEEKLY;BYDAY=MO''" by (simp add: cron_rule_def)
  then show ?thesis using sample_moved_fields t
    by (simp add: CronExpressionToRRule_def Let_def sample_cal_env_def contains_any_def)
qed

text \<open>A state the two services reach.\<close>

definition empty_cal :: cal_world where
  "empty_cal = sample_cal\<lparr>core := empty_world, bindings := [], outbox := []\<rparr>"

definition first_cal :: cal_world where
  "first_cal = snd (cal_handle sample_env sample_cal_env (CalTask (ReqCreate sample_task)) (cal_arrive empty_cal))"

lemma first_cal_reachable: "cal_reachable sample_env sample_cal_env first_cal"
proof -
  have "cal_reachable sample_env sample_cal_env empty_cal"
    by (rule cal_start) (simp add: cal_initial_def initial_def links_def empty_cal_def empty_world_def sample_world_def)
  moreover have "cal_step sample_env sample_cal_env empty_cal first_cal"
    unfolding first_cal_def
    by (rule cal_serve [of _ _ "CalTask (ReqCreate sample_task)" _
      "fst (cal_handle sample_env sample_cal_env (CalTask (ReqCreate sample_task)) (cal_arrive empty_cal))"]) simp
  ultimately show ?thesis by (rule cal_next)
qed

end
