(* ===== verification/Further_Results.thy ===== *)
theory Further_Results
  imports Calendar_Sample
begin

text \<open>
  Further theorems on the task service, each with an instance: what stays from a reachable state on,
  operations that keep the table when they fail, and the results of single operations and functions.
\<close>

subsection \<open>What stays\<close>

text \<open>From a reachable state on, however long the service runs: a stored task keeps its place, its key,
  its owner, its messenger and its creation time; a deleted row never changes again; and a key that
  has been given out is not given out to another row.\<close>

lemma rows_survive:
  assumes "reachable E w" and "(machine_step E)\<^sup>*\<^sup>* w w'"
  shows "length (tasks w) \<le> length (tasks w') \<and>
    (\<forall>k < length (tasks w). row_id (tasks w' ! k) = row_id (tasks w ! k) \<and>
       UserID (r_task (tasks w' ! k)) = UserID (r_task (tasks w ! k)) \<and>
       MessengerRelatedUserID (r_task (tasks w' ! k)) = MessengerRelatedUserID (r_task (tasks w ! k)) \<and>
       CreatedAt (r_task (tasks w' ! k)) = CreatedAt (r_task (tasks w ! k)) \<and>
       (\<not> live (tasks w ! k) \<longrightarrow> tasks w' ! k = tasks w ! k)) \<and>
    (\<forall>k < length (tasks w'). length (tasks w) \<le> k \<longrightarrow> next_id w \<le> row_id (tasks w' ! k))"
  using steps_rows [OF assms(2) reachable_inv [OF assms(1)]]
  by (simp add: rows_le_def row_le_def)

lemma rows_survive_witness:
  "length (tasks first_world) \<le> length (tasks (first_world\<lparr>clock := clock first_world + 1, ticks := [], faults := [],
     users := [], messengers := [], user_messengers := [], sync_links := []\<rparr>))"
  using rows_survive [OF first_world_reachable r_into_rtranclp [where r = "machine_step sample_env",
      OF machine_step.outside [of 1 sample_env first_world "[]" "[]" "[]" "[]" "[]" "[]"]]]
  by simp

text \<open>Whatever a request does and however it ends, the history, the queue, the calendar notifications and
  the attachment purges are only appended to, the clock does not go back, and the links and
  messengers are not touched.\<close>

lemma requests_append:
  assumes "handle E q w = (r, w')" and "store_wf w"
  shows "prefix (history w) (history w') \<and> prefix (queue w) (queue w') \<and>
    prefix (exports w) (exports w') \<and> prefix (purges w) (purges w') \<and> clock w \<le> clock w' \<and>
    messengers w' = messengers w \<and> sync_links w' = sync_links w"
  using stepsD [OF world_le.handle assms(1)] assms(2) by (simp add: world_le_def logs_le_def)

lemma requests_append_witness:
  "prefix (queue sample_world) (queue (snd (handle sample_env (ReqDelete 1) sample_world)))"
proof -
  have "store_wf sample_world"
    using sample_ids by (simp add: store_wf_def) (simp add: sample_defs row_id_def)
  then show ?thesis
    using requests_append [of sample_env "ReqDelete 1" sample_world, OF prod.collapse [symmetric]] by blast
qed

text \<open>Muting or deleting, whatever happens on the way, sends the workers delete messages only: no
  reminder is scheduled.\<close>

lemma silencing_only_deletes:
  "only_deletes w (snd (MuteTask E i w)) \<and> only_deletes w (snd (DeleteTask E i w))"
  using only_deletes.mute_steps(2) only_deletes.DeleteTask by (simp add: steps_def)

subsection \<open>Errors\<close>

text \<open>A completion of a task without a recurrence rule that returns an error has written no row: the
  task, the shift of its series and the delete message are committed together or not at all.\<close>

lemma done_error_keeps_tasks:
  assumes "MarkTaskAsDone E i b w = (Err e, w')"
    and "\<And>r. r \<in> set (tasks w) \<Longrightarrow> live r \<Longrightarrow> row_id r = i \<Longrightarrow> \<not> hasRecurrenceRule (r_task r)"
  shows "tasks w' = tasks w"
  by (rule unchanged_MarkTaskAsDone [OF assms])

lemma done_error_keeps_tasks_witness:
  "tasks (snd (MarkTaskAsDone sample_env 1 (Some True) sample_world)) = tasks sample_world"
proof -
  have plain: "\<not> hasRecurrenceRule (r_task r)"
    if "r \<in> set (tasks sample_world)" "live r" "row_id r = 1" for r
    using that by (auto simp: sample_defs row_id_def hasRecurrenceRule_def)
  obtain e where "MarkTaskAsDone sample_env 1 (Some True) sample_world =
      (Err e, snd (MarkTaskAsDone sample_env 1 (Some True) sample_world))"
    using failed_run [OF sample_done_shift] by blast
  then show ?thesis using plain by (rule done_error_keeps_tasks)
qed

text \<open>A task whose new date could not be announced to the workers, or that could not be rescheduled for
  any other reason, keeps its row.\<close>

lemma reschedule_error_keeps_tasks:
  assumes "RescheduleTask E t w = (Err e, w')"
  shows "tasks w' = tasks w"
  using unchanged_RescheduleTask assms by (rule unchangedD)

lemma reschedule_error_keeps_tasks_witness:
  "tasks (snd (RescheduleTask sample_env (sample_task\<lparr>MessengerRelatedUserID := None\<rparr>) sample_world)) =
     tasks sample_world"
  using failed_run [OF sample_reschedule_unreachable] reschedule_error_keeps_tasks by blast

subsection \<open>Results of single operations\<close>

text \<open>Muting a task that is no recurrence parent with confirmation sets the flag in its row and changes
  no other row; a muted task is returned as it is.\<close>

lemma mute_result:
  assumes "MuteTask E i w = (Ok t', w')" and "distinct (map row_id (tasks w))"
    and "\<And>r. r \<in> set (tasks w) \<Longrightarrow> live r \<Longrightarrow> row_id r = i \<Longrightarrow> \<not> isRecurrenceParentWithConfirmation (r_task r)"
  shows "\<exists>old \<in> set (tasks w). live old \<and> row_id old = i \<and> t' = (r_task old)\<lparr>Muted := True\<rparr> \<and>
    (if Muted (r_task old) then tasks w' = tasks w
     else \<exists>now. tasks w' = update_rows (\<lambda>r. live r \<and> row_id r = i) (set_columns t' now) (tasks w))"
  by (rule MuteTask_Ok [OF assms])

lemma mute_result_witness:
  "\<exists>now. tasks (snd (MuteTask sample_env 1 sample_world)) =
     update_rows (\<lambda>r. live r \<and> row_id r = 1) (set_columns (sample_task\<lparr>Muted := True\<rparr>) now) (tasks sample_world)"
proof -
  have plain: "\<not> isRecurrenceParentWithConfirmation (r_task r)"
    if "r \<in> set (tasks sample_world)" "live r" "row_id r = 1" for r
    using that by (auto simp: sample_defs row_id_def isRecurrenceParentWithConfirmation_def)
  obtain t where "fst (MuteTask sample_env 1 sample_world) = Ok t" using sample_mute by blast
  from mute_result [OF ok_run [OF this] sample_ids plain]
  obtain old where old: "old \<in> set (tasks sample_world)" "row_id old = 1" "t = (r_task old)\<lparr>Muted := True\<rparr>"
    and rows: "if Muted (r_task old) then tasks (snd (MuteTask sample_env 1 sample_world)) = tasks sample_world
     else \<exists>now. tasks (snd (MuteTask sample_env 1 sample_world)) =
       update_rows (\<lambda>r. live r \<and> row_id r = 1) (set_columns t now) (tasks sample_world)" by blast
  have "r_task old = sample_task" using old(1,2) by (auto simp: sample_defs row_id_def)
  then show ?thesis using rows old(3) by (simp add: sample_task_def zero_task_def)
qed

text \<open>A task that is created and not done is read back by its key as it was stored; after it is deleted,
  no read finds it.\<close>

lemma created_read_deleted:
  assumes "repo_CreateTask t w = (Ok i, w')" and "store_wf w" and "calm w'"
  shows "(Status t \<noteq> TaskStatusDone \<longrightarrow>
      repo_GetTaskByID i w' = (Ok (t\<lparr>ID := i, CreatedAt := clock w, DeletedAt := 0, HistorySource := []\<rparr>), w')) \<and>
    (\<forall>w2. repo_DeleteTask i w' = (Ok (), w2) \<and> calm w2 \<longrightarrow>
      repo_GetTaskByIDWithoutStatusFilter i w2 = (Err (ErrNotFound no_task_found), w2))"
proof (intro conjI allI)
  note c = repo_CreateTask_Ok [OF assms(1)]
  let ?r = "inserted_row t i (clock w)"
  have d: "distinct (map row_id (tasks w'))"
    using assms(2) c by (auto simp: store_wf_def inserted_row_def row_id_def)
  have r: "?r \<in> set (tasks w')" "live ?r" "row_id ?r = i" using c by (simp_all add: inserted_row_def live_def row_id_def)
  show "Status t \<noteq> TaskStatusDone \<longrightarrow>
      repo_GetTaskByID i w' = (Ok (t\<lparr>ID := i, CreatedAt := clock w, DeletedAt := 0, HistorySource := []\<rparr>), w')"
    using get_row(2) [OF assms(3) d r] by (simp add: inserted_row_def)
  fix w2
  have "repo_GetTaskByIDWithoutStatusFilter i w2 = (Err (ErrNotFound no_task_found), w2)"
    if del: "repo_DeleteTask i w' = (Ok (), w2)" and w2: "calm w2"
  proof -
    have "tasks w2 = update_rows (\<lambda>r. live r \<and> row_id r = i) (soft_delete (clock (tick w'))) (tasks w')"
      by (rule repo_writes(2) [OF del d])
    then show ?thesis using get_missing(1) [OF w2] deleted_rows by metis
  qed
  then show "repo_DeleteTask i w' = (Ok (), w2) \<and> calm w2 \<longrightarrow>
      repo_GetTaskByIDWithoutStatusFilter i w2 = (Err (ErrNotFound no_task_found), w2)" by blast
qed

lemma created_read_deleted_witness:
  "repo_GetTaskByID 4 (snd (repo_CreateTask sample_task sample_world)) =
     (Ok (sample_task\<lparr>ID := 4, CreatedAt := clock sample_world, DeletedAt := 0, HistorySource := []\<rparr>),
      snd (repo_CreateTask sample_task sample_world))"
proof -
  have run: "fst (repo_CreateTask sample_task sample_world) = Ok 4"
    by (simp add: run_repo run_defs sample_defs)
  have wf: "store_wf sample_world"
    using sample_ids by (simp add: store_wf_def) (simp add: sample_defs row_id_def)
  have calm: "calm (snd (repo_CreateTask sample_task sample_world))"
    by (simp add: calm_def run_repo run_defs sample_defs)
  have "Status sample_task \<noteq> TaskStatusDone" by (simp add: sample_task_def status_defs)
  then show ?thesis using created_read_deleted [OF ok_run [OF run] wf calm] by blast
qed

text \<open>The inventory lists tasks in the order of their keys, and only ones a worker may remind of: live, not
  muted, with a messenger, in one of the three scheduled statuses and no recurrence parent with
  confirmation; a listed task has a preliminary reminder exactly when its instant is not past.\<close>

lemma inventory_lists:
  assumes "GetSchedulableInventory w = (Ok items, w')"
  shows "sorted (map ii_TaskID items) \<and>
    (\<forall>x \<in> set items. \<exists>r \<in> set (tasks w). ii_TaskID x = row_id r \<and> live r \<and> \<not> Muted (r_task r) \<and>
       MessengerRelatedUserID (r_task r) \<noteq> None \<and>
       Status (r_task r) \<notin> {TaskStatusDone, TaskStatusDeleted, TaskStatusPending} \<and>
       (ParentID (r_task r) = None \<longrightarrow> \<not> isRecurrenceParentWithConfirmation (r_task r)) \<and>
       (pre_remind_ok (PreRemindBeforeSeconds (r_task r)) \<longrightarrow>
          ii_HasPre x = (\<exists>n. PreRemindBeforeSeconds (r_task r) = Some n \<and> 0 < n \<and>
             clock w' \<le> StartDate (r_task r) - n * second_ns)))"
proof (intro conjI ballI)
  note inv = GetSchedulableInventory_Ok [OF assms, unfolded before_start_def]
  show "sorted (map ii_TaskID items)" using inv by blast
  fix x assume "x \<in> set items"
  then obtain r where "r \<in> set (tasks w)" "schedulable (clock (tick w)) r" "ii_TaskID x = row_id r"
    "pre_remind_ok (PreRemindBeforeSeconds (r_task r)) \<longrightarrow>
          ii_HasPre x = (\<exists>n. PreRemindBeforeSeconds (r_task r) = Some n \<and> 0 < n \<and>
             clock w' \<le> StartDate (r_task r) - n * second_ns)"
    using inv by blast
  then show "\<exists>r \<in> set (tasks w). ii_TaskID x = row_id r \<and> live r \<and> \<not> Muted (r_task r) \<and>
       MessengerRelatedUserID (r_task r) \<noteq> None \<and>
       Status (r_task r) \<notin> {TaskStatusDone, TaskStatusDeleted, TaskStatusPending} \<and>
       (ParentID (r_task r) = None \<longrightarrow> \<not> isRecurrenceParentWithConfirmation (r_task r)) \<and>
       (pre_remind_ok (PreRemindBeforeSeconds (r_task r)) \<longrightarrow>
          ii_HasPre x = (\<exists>n. PreRemindBeforeSeconds (r_task r) = Some n \<and> 0 < n \<and>
             clock w' \<le> StartDate (r_task r) - n * second_ns))"
    using schedulable_spec by (intro bexI [of _ r]) blast+
qed

lemma inventory_lists_witness:
  "sorted (map ii_TaskID (case fst (GetSchedulableInventory sample_world) of Ok items \<Rightarrow> items | _ \<Rightarrow> []))"
proof -
  obtain items where "fst (GetSchedulableInventory sample_world) = Ok items"
    by (simp add: GetSchedulableInventory_def repo_GetSchedulableInventory_def run_defs sample_world_def)
  then show ?thesis using inventory_lists [OF ok_run] by simp
qed

subsection \<open>Recurrence rules and reminders\<close>

text \<open>A cron expression that is moved to the completion day keeps its minute and hour, keeps every star,
  and has the day of the anchor in each field that was a number.\<close>

lemma moved_cron:
  assumes "shiftCronFromCompletion expr anchor = Some e"
  shows "\<exists>minute hour mday month wday.
    split_fields (trim_space expr) = [minute, hour, mday, month, wday] \<and>
    split_fields (trim_space e) =
      [minute, hour,
       (if mday = ''*'' then ''*'' else itoa (Day anchor)),
       (if month = ''*'' then ''*'' else itoa (Month anchor)),
       (if wday = ''*'' then ''*'' else itoa (Weekday anchor))]"
proof -
  have star: "day_field f n = (if f = ''*'' then ''*'' else itoa n)" for f n
    by (simp add: day_field_def)
  obtain minute hour mday month wday where
    "split_fields (trim_space expr) = [minute, hour, mday, month, wday]"
    "split_fields (trim_space e) = [minute, hour, day_field mday (Day anchor),
       day_field month (Month anchor), day_field wday (Weekday anchor)]"
    by (rule shiftCron_split [OF assms])
  then show ?thesis unfolding star by blast
qed

lemma moved_cron_witness:
  "split_fields (trim_space ''30 9 * * 2'') =
     [''30'', ''9'', ''*'', ''*'', itoa (Weekday day_ns)]"
proof -
  obtain minute hour mday month wday where
    f: "split_fields (trim_space ''30 9 * * 1'') = [minute, hour, mday, month, wday]"
      "split_fields (trim_space ''30 9 * * 2'') =
      [minute, hour,
       (if mday = ''*'' then ''*'' else itoa (Day day_ns)),
       (if month = ''*'' then ''*'' else itoa (Month day_ns)),
       (if wday = ''*'' then ''*'' else itoa (Weekday day_ns))]"
    using moved_cron [OF sample_moved] by blast
  have v: "minute = ''30''" "hour = ''9''" "mday = ''*''" "month = ''*''" "wday = ''1''"
    using f(1) unfolding sample_moved_fields by blast+
  show ?thesis using f(2) by (simp add: v)
qed

text \<open>Rewriting an RRULE gives a rule with as many parts: the first part with a replaced key has the new
  value, every other part is kept up to the white space around it, and every key that was to be
  replaced is there.\<close>

lemma rewritten_rrule:
  assumes "replaceRRuleParts raw repl = Some e"
    and "\<forall>(k, v) \<in> set repl. CHR '';'' \<notin> set k \<and> CHR '';'' \<notin> set v"
  shows "split_char (CHR '';'') e =
      map (\<lambda>i. replaced_part repl
                 (take i (split_char (CHR '';'') (trim_prefix ''RRULE:'' (trim_space raw))))
                 (split_char (CHR '';'') (trim_prefix ''RRULE:'' (trim_space raw)) ! i))
          [0..<length (split_char (CHR '';'') (trim_prefix ''RRULE:'' (trim_space raw)))] \<and>
    fst ` set repl \<subseteq> part_key ` set (split_char (CHR '';'') (trim_prefix ''RRULE:'' (trim_space raw)))"
  using replaceRRuleParts_parts [OF assms] by blast

lemma rewritten_rrule_witness:
  "length (split_char (CHR '';'') ''FREQ=WEEKLY;BYDAY=TU'') =
     length (split_char (CHR '';'') (trim_prefix ''RRULE:'' (trim_space ''FREQ=WEEKLY;BYDAY=MO'')))"
  using rewritten_rrule [OF sample_rewritten] by simp

text \<open>A request for a preliminary reminder is taken exactly when it is between zero and thirty days; zero
  clears it; and a reminder that is kept can be subtracted from a start date without overflow of the
  64-bit nanoseconds.\<close>

lemma pre_remind_request:
  "((\<exists>t'. applyPreRemindBeforeSecondsUpdate t (Some n) = (t', None)) \<longleftrightarrow> 0 \<le> n \<and> n \<le> 30 * 24 * 60 * 60) \<and>
   (0 \<le> n \<and> n \<le> 30 * 24 * 60 * 60 \<longrightarrow>
     applyPreRemindBeforeSecondsUpdate t (Some n) =
       (t\<lparr>PreRemindBeforeSeconds := (if n = 0 then None else Some n)\<rparr>, None) \<and>
     duration_of n second_ns = n * second_ns)"
proof (intro conjI impI)
  show "(\<exists>t'. applyPreRemindBeforeSecondsUpdate t (Some n) = (t', None)) \<longleftrightarrow> 0 \<le> n \<and> n \<le> 30 * 24 * 60 * 60"
    by (auto simp: applyPreRemindBeforeSecondsUpdate_def validatePreRemindBeforeSeconds_def
        maxPreRemindBeforeSeconds_def split: if_splits)
  assume n: "0 \<le> n \<and> n \<le> 30 * 24 * 60 * 60"
  then show "duration_of n second_ns = n * second_ns"
    by (intro duration_of_exact) (simp_all add: second_ns_def)
  show "applyPreRemindBeforeSecondsUpdate t (Some n) =
       (t\<lparr>PreRemindBeforeSeconds := (if n = 0 then None else Some n)\<rparr>, None)"
    using n by (simp add: applyPreRemindBeforeSecondsUpdate_def validatePreRemindBeforeSeconds_def
        maxPreRemindBeforeSeconds_def)
qed

lemma pre_remind_request_witness:
  "applyPreRemindBeforeSecondsUpdate sample_task (Some 600) = (sample_task\<lparr>PreRemindBeforeSeconds := Some 600\<rparr>, None)"
  using pre_remind_request [of sample_task 600] by simp

end
