(* ===== verification/Http_Results.thy ===== *)
theory Http_Results
  imports Http_Machine Further_Results
begin

text \<open>
  What replies say: a refused request for a task has written none, a task that was posted is read back, a
  binding of another user is out of reach, and the number of pages.
\<close>

subsection \<open>Runs of handlers\<close>

lemma checked_runE:
  assumes "checked v k u = (Ok r, u')"
  obtains m where "v = Inl m" "r = refused 400 m" "u' = u" | x where "v = Inr x" "k x u = (Ok r, u')"
  using assms by (cases v) (auto simp: checked_def ret_def)

lemma answer_runE:
  assumes "answer f m k u = (Ok r, u')"
  obtains e where "m u = (Err e, u')" "r = f e" | x v where "m u = (Ok x, v)" "k x v = (Ok r, u')"
  using assms by (auto simp: answer_def bindE_def attempt_def ret_def split: prod.splits outcome.splits)

lemma with_body_runE:
  assumes "with_body explain rules body k u = (Ok r, u')"
  obtains m where "body = Inl m" "r = refused 400 (explain (Malformed m))" "u' = u"
    | d es where "body = Inr d" "rules d u = (Ok es, u')" "r = refused 400 (explain (FieldErrors es))"
    | d v where "body = Inr d" "rules d u = (Ok [], v)" "k d v = (Ok r, u')"
  using assms by (auto simp: with_body_def bind_json_def bindE_def ret_def split: sum.splits prod.splits outcome.splits if_splits)

lemma ok_handler_run: "ok n b u = (Ok r, u') \<longleftrightarrow> r = Reply n b \<and> u' = u"
  by (auto simp: ok_def ret_def)

lemma in_task_run: "in_task m u = (r, u') \<longleftrightarrow> (\<exists>w. m (app_core u) = (r, w) \<and> u' = u\<lparr>cal := (cal u)\<lparr>core := w\<rparr>\<rparr>)"
  by (cases "m (app_core u)") (auto simp: in_cal_def in_core_def)

text \<open>What happens before a service is asked.\<close>

lemma rules_read:
  "create_task_rules L a u = (r, u') \<Longrightarrow> tasks (app_core u') = tasks (app_core u)"
  "update_task_rules L b u = (r', u') \<Longrightarrow> tasks (app_core u') = tasks (app_core u)"
  using digest_reads.rule_steps(1,2) by (meson digest_reads_tables(1) stepsD)+

subsection \<open>A refused request has written no task\<close>

fun changes_task :: "call \<Rightarrow> bool" where
  "changes_task (CallCreateTask b) = True"
| "changes_task (CallUpdateTask b) = True"
| "changes_task CallDeleteTask = True"
| "changes_task CallMuteTask = True"
| "changes_task CallUnmuteTask = True"
| "changes_task q = False"

lemma refused_keeps:
  assumes un: "unchanged_on_error m" and run: "answer f (in_task m) (\<lambda>x. ok (n x) (b x)) u = (Ok (Reply s (BError e)), u')"
    and ok: "\<And>x. b x \<noteq> BError e"
  shows "tasks (app_core u') = tasks (app_core u)"
  using run by (cases rule: answer_runE) (use un ok in \<open>auto simp: in_task_run ok_handler_run dest: unchangedD\<close>)

lemma dispatch_refused:
  assumes run: "dispatch V c q u = (Ok (Reply s (BError e)), u')" and q: "changes_task q"
  shows "tasks (app_core u') = tasks (app_core u)"
proof (cases q)
  case (CallCreateTask b)
  show ?thesis
    using run [unfolded CallCreateTask dispatch.simps http_CreateTask_def]
    by (cases rule: with_body_runE)
      (auto simp: case_prod_unfold dest: rules_read dest!: refused_keeps [OF unchanged_CreateTask])
next
  case (CallUpdateTask b)
  show ?thesis
    using run [unfolded CallUpdateTask dispatch.simps http_UpdateTask_def]
    by (elim checked_runE with_body_runE; (simp add: rules_read)?)
      (drule refused_keeps [OF unchanged_UpdateTask], simp, simp add: rules_read)
qed (use run q in \<open>auto simp: http_DeleteTask_def http_MuteTask_def http_UnmuteTask_def elim!: checked_runE
      dest!: refused_keeps [OF unchanged_DeleteTask] refused_keeps [OF unchanged_mute(1)]
        refused_keeps [OF unchanged_mute(2)]\<close>)

subsection \<open>The middleware\<close>

text \<open>A reply of the server is one of the middleware, on a state that has not changed, or one of the route.\<close>

lemma serve_runE:
  assumes "serve cfg V c q u = (Ok r, u')"
  obtains "r = Reply 204 BNone" "u' = u" "co_Enabled (hc_cors cfg)" "rq_Method c = ''OPTIONS''"
    | "r = refused 401 ''invalid or missing API key''" "u' = u" "ak_Enabled (hc_key cfg)"
    | "r = Reply 404 BNone" "u' = u" "is_calendar_call q" "\<not> sv_calendar V"
    | "r = Reply 500 BNone"
    | "dispatch V c q u = (Ok r, u')"
  using assms
  by (auto simp: serve_def Recovery_def CorsMiddleware_def APIKeyMiddleware_def Let_def ret_def
      split: if_splits prod.splits outcome.splits)

lemma serve_refused:
  assumes "serve cfg V c q u = (Ok (Reply s (BError e)), u')" and "changes_task q"
  shows "tasks (app_core u') = tasks (app_core u)"
  using assms(1) by (cases rule: serve_runE) (auto dest: dispatch_refused [OF _ assms(2)])

lemma serve_locked:
  assumes "ak_Enabled (hc_key cfg)" and "rq_Path c \<notin> {''/healthcheck'', ''/ready'', ''/version''}"
    and "rq_Header c ''X-API-Key'' = [] \<or> rq_Header c ''X-API-Key'' \<noteq> ak_APIKey (hc_key cfg)"
  shows "serve cfg V c q u =
    (Ok (if co_Enabled (hc_cors cfg) \<and> rq_Method c = ''OPTIONS'' then Reply 204 BNone
         else refused 401 ''invalid or missing API key''), u)"
  using assms by (auto simp: serve_def Recovery_def CorsMiddleware_def APIKeyMiddleware_def Let_def ret_def)

subsection \<open>Bindings of others\<close>

text \<open>Whatever is to be done with the binding \<open>i\<close> of the path, it is not done for a user without a binding
  \<open>i\<close>.\<close>

lemma foreign_binding:
  assumes run: "with_own_binding c k u = (Ok r, u')"
    and i: "atoi (rq_Param c ''user_id'') = Some userID" "atoi (rq_Param c ''binding_id'') = Some i"
    and none: "\<And>b. b \<in> set (bindings (cal u)) \<Longrightarrow> binding_live b \<Longrightarrow> cb_ID b = i \<Longrightarrow> cb_UserID b \<noteq> userID"
  shows "reply_status r \<in> {400, 404, 422, 500} \<and> (\<exists>fs. u' = u\<lparr>cal := (cal u)\<lparr>core := (app_core u)\<lparr>faults := fs\<rparr>\<rparr>\<rparr>)"
proof -
  have same: "\<exists>fs. u = u\<lparr>cal := (cal u)\<lparr>core := (app_core u)\<lparr>faults := fs\<rparr>\<rparr>\<rparr>"
    by (rule exI [of _ "faults (app_core u)"]) simp
  have listed: "\<exists>fs. u1 = u\<lparr>cal := (cal u)\<lparr>core := (app_core u)\<lparr>faults := fs\<rparr>\<rparr>\<rparr> \<and>
      (\<forall>bs. x = Ok bs \<longrightarrow> set bs = {b \<in> set (bindings (cal u)). cb_UserID b = userID \<and> binding_live b})"
    if "in_cal (binding_ListByUserID userID) u = (x, u1)" for x u1
    using that external_world [OF surjective_pairing, of "''failed to list calendar bindings''" "app_core u"]
    by (auto simp: in_cal_def binding_ListByUserID_def bindE_def in_core_def gets_def
        split: prod.splits outcome.splits)
  have w: "reply_status (writeErr e) \<in> {400, 404, 422, 500}" for e by (rule error_statuses) simp
  from run i show ?thesis
    unfolding with_own_binding_def with_user_def
    by (auto simp: positive_or_def refused_def same list_ex_iff ret_def split: if_splits elim!: checked_runE answer_runE
        dest!: listed none) (use w in blast)
qed

lemma foreign_requests:
  assumes "http_DeleteBinding V c u = (Ok r, u') \<or> http_ForceSync V c u = (Ok r, u')"
    and "atoi (rq_Param c ''user_id'') = Some userID" "atoi (rq_Param c ''binding_id'') = Some i"
    and "\<And>b. b \<in> set (bindings (cal u)) \<Longrightarrow> binding_live b \<Longrightarrow> cb_ID b = i \<Longrightarrow> cb_UserID b \<noteq> userID"
  shows "400 \<le> reply_status r \<and> bindings (cal u') = bindings (cal u) \<and> google (cal u') = google (cal u) \<and>
    tasks (app_core u') = tasks (app_core u) \<and> sync_links (app_core u') = sync_links (app_core u)"
  using assms(1) unfolding http_DeleteBinding_def http_ForceSync_def
  by (auto dest!: foreign_binding [OF _ assms(2-4)])

subsection \<open>Numbers of pages\<close>

lemma int64_small: "- (2 ^ 63) \<le> n \<Longrightarrow> n < 2 ^ 63 \<Longrightarrow> int64 n = n"
  by (simp add: int64_def signed_take_bit_int_eq_self sint_sbintrunc')

text \<open>Below the overflow the number of pages is the least that holds all rows, and one when there are none.\<close>

lemma total_pages_exact:
  assumes "0 \<le> n" and "1 \<le> s" and "n + s - 1 < 2 ^ 63"
  shows "1 \<le> total_pages n s \<and> n \<le> total_pages n s * s \<and> (0 < n \<longrightarrow> (total_pages n s - 1) * s < n)"
proof -
  let ?q = "(n + s - 1) div s"
  have "int64 (n + s - 1) = n + s - 1" using assms by (intro int64_small) auto
  then have p: "total_pages n s = (if ?q = 0 then 1 else ?q)"
    using assms by (simp add: total_pages_def quot_def)
  have m: "0 \<le> (n + s - 1) mod s" "(n + s - 1) mod s < s" using assms(2) by simp_all
  have e: "?q * s + (n + s - 1) mod s = n + s - 1" by (rule div_mult_mod_eq)
  have q: "?q * s \<le> n + s - 1" "n + s - 1 < ?q * s + s" using e m by linarith+
  have q0: "0 \<le> ?q" using assms by (simp add: pos_imp_zdiv_nonneg_iff)
  show ?thesis
  proof (cases "?q = 0")
    case True
    then show ?thesis using p q(2) assms by simp
  next
    case False
    then have "1 \<le> ?q" using q0 by linarith
    then show ?thesis using p False q(1,2) by (simp add: left_diff_distrib)
  qed
qed

lemma total_pages_overflow: "total_pages 2 (2 ^ 63 - 1) = - 1"
  by (simp add: total_pages_def int64_def quot_def)

subsection \<open>Connecting an account\<close>

lemma callback_stores:
  assumes run: "http_OAuthCallback V c A u = (Ok (Reply 200 b), u')" and laws: "gcm_laws (oc_cipher (sv_oauth V))"
  obtains userID token where "atoi (rq_Query c ''state'') = Some userID" "0 < userID"
    "oa_exchange (A (rq_Query c ''code'')) = Inr token"
    "\<exists>x \<in> set (accounts (cal u')). ga_UserID x = userID \<and> ga_RevokedAt x = None \<and>
       Decrypt (oc_cipher (sv_oauth V)) (ga_AccessTokenEnc x) = Some (ot_AccessToken token) \<and>
       Decrypt (oc_cipher (sv_oauth V)) (ga_RefreshTokenEnc x) = Some (ot_RefreshToken token)"
    "filter (\<lambda>x. ga_UserID x \<noteq> userID) (accounts (cal u')) = filter (\<lambda>x. ga_UserID x \<noteq> userID) (accounts (cal u))"
proof -
  have bad: "reply_status (writeErr e) \<noteq> 200" for e by (cases e) (auto simp: refused_with_def refused_def)
  let ?A = "A (rq_Query c ''code'')"
  have "answer writeErr (in_cal (HandleOAuthCallback (sv_oauth V) ?A (rq_Query c ''state'')))
      (\<lambda>account. ok 200 (BAccount (GoogleAccountToResponse account))) u = (Ok (Reply 200 b), u')"
    using run by (simp add: http_OAuthCallback_def Let_def ret_def refused_def split: if_splits)
  then obtain a where "in_cal (HandleOAuthCallback (sv_oauth V) ?A (rq_Query c ''state'')) u = (Ok a, u')"
  proof (cases rule: answer_runE)
    case (1 e)
    then show ?thesis using bad [of e] by (metis reply.sel(1))
  qed (use that in \<open>simp add: ok_handler_run\<close>)
  then obtain v where call: "HandleOAuthCallback (sv_oauth V) ?A (rq_Query c ''state'') (cal u) = (Ok a, v)" and u': "cal u' = v"
    by (cases "HandleOAuthCallback (sv_oauth V) ?A (rq_Query c ''state'') (cal u)") (auto simp: in_cal_def)
  from HandleOAuthCallback_Ok [OF call laws] show ?thesis using that u' by metis
qed

subsection \<open>An action that is not known\<close>

text \<open>The comment of the handler says 400 for it.\<close>

lemma unsupported_action_is_500:
  assumes "qt_Action req \<notin> {[], ScheduledTaskActionSchedule, ScheduledTaskActionDelete}" and "qt_QueueName req \<noteq> []"
    and "calm (app_core u)" "distinct (map row_id (tasks (app_core u)))" "r \<in> set (tasks (app_core u))" "live r"
      "Status (r_task r) \<noteq> TaskStatusDone" "row_id r = qt_TaskID req" "qt_TaskID req \<noteq> 0"
  shows "\<exists>m. dispatch V c (CallQueueTask (Inr req)) u = (Ok (refused 500 m), u)"
proof -
  have get: "repo_GetTaskByID (qt_TaskID req) (app_core u) = (Ok (r_task r), app_core u)"
    using get_row(2) [OF assms(3-6) assms(8) assms(7)] .
  show ?thesis
    using assms(1,2,9)
    by (simp add: http_QueueTask_def with_body_def bind_json_def queue_task_rules_def required_def answer_def
        attempt_def QueueTask_def QueueTaskRequestToModel_def in_cal_def in_core_def get bindE_def fail_def
        ret_def refused_with_def) blast
qed

subsection \<open>Posted and read\<close>

text \<open>The request a client sent, as far as the answer to a later \<open>GET\<close> repeats it.\<close>

definition answers_request :: "create_task_request \<Rightarrow> int \<Rightarrow> task_response \<Rightarrow> bool" where
  "answers_request req i t \<longleftrightarrow>
     tr_ID t = i \<and> tr_Title t = ct_Title req \<and> tr_Description t = ct_Description req \<and> tr_UserID t = ct_UserID req \<and>
     tr_StartDate t = ct_StartDate req \<and> tr_CronExpression t = ct_CronExpression req \<and>
     tr_RRule t = ct_RRule req \<and> tr_RequiresConfirmation t = ct_RequiresConfirmation req \<and>
     tr_Status t = (if ct_Status req = [] then TaskStatusPending else ct_Status req)"

lemma create_rules_next: "create_task_rules L req u = (r, u') \<Longrightarrow> next_id (app_core u') = next_id (app_core u)"
  by (auto simp: create_task_rules_def future_enough_def bindE_def ret_def in_cal_def in_core_def time_Now_def
      split: if_splits list.splits)

lemma create_error_body: "Reply s (BTaskCreated i k) = create_error e \<Longrightarrow> False"
  by (cases e) (auto simp: refused_with_def refused_def)

lemma posted_task_row:
  assumes run: "dispatch V c (CallCreateTask body) u = (Ok (Reply s (BTaskCreated i k)), u')" and n: "0 < next_id (app_core u)"
  obtains req now rs where "body = Inr req" "s = 201" "i = next_id (app_core u)"
    "tasks (app_core u') = tasks (app_core u) @ inserted_row (normal_task (CreateTaskRequestToModel req)) i now # rs"
    "distinct (map row_id rs)" "\<And>r. r \<in> set rs \<Longrightarrow> row_id r = i + 1"
proof -
  from run obtain req v where req: "body = Inr req" and rules: "create_task_rules (sv_lib V) req u = (Ok [], v)"
    and rest: "answer create_error (in_task (CreateTask (sv_task V) (CreateTaskRequestToModel req)))
        (\<lambda>(taskID, childTaskID). ok 201 (BTaskCreated taskID childTaskID)) v = (Ok (Reply s (BTaskCreated i k)), u')"
    unfolding dispatch.simps http_CreateTask_def by (cases rule: with_body_runE) (auto simp: refused_def)
  from rest obtain w where create: "CreateTask (sv_task V) (CreateTaskRequestToModel req) (app_core v) = (Ok (i, k), w)"
    and u': "u' = v\<lparr>cal := (cal v)\<lparr>core := w\<rparr>\<rparr>" and s: "s = 201"
    by (cases rule: answer_runE) (auto simp: in_task_run ok_handler_run dest: create_error_body)
  have same: "tasks (app_core v) = tasks (app_core u)" by (rule rules_read(1) [OF rules])
  have nid: "next_id (app_core v) = next_id (app_core u)" by (rule create_rules_next [OF rules])
  let ?t = "normal_task (CreateTaskRequestToModel req)"
  obtain now now' where
    rows: "tasks w = tasks (app_core v) @ inserted_row ?t i now #
      (if k = 0 then [] else [inserted_row (first_child (?t\<lparr>ID := i\<rparr>) i) k now'])"
    and i: "i = next_id (app_core v)" "k \<noteq> 0 \<longrightarrow> k = i + 1"
    using CreateTask_Ok [OF create] n nid by auto
  show ?thesis
  proof (rule that [OF req s])
    show "tasks (app_core u') = tasks (app_core u) @ inserted_row ?t i now #
        (if k = 0 then [] else [inserted_row (first_child (?t\<lparr>ID := i\<rparr>) i) k now'])"
      using rows same by (simp add: u')
  qed (use i nid in \<open>auto simp: inserted_row_def row_id_def split: if_splits\<close>)
qed

text \<open>The answer to a \<open>GET\<close> in a state in which no call fails.\<close>

lemma get_task_reply:
  assumes i: "ValidateInt64Param (sv_lib V) c ''id'' = Inr i"
    and r: "calm (app_core u)" "distinct (map row_id (tasks (app_core u)))" "r \<in> set (tasks (app_core u))" "live r"
      "row_id r = i" "Status (r_task r) \<noteq> TaskStatusDone"
  shows "\<exists>d. fst (dispatch V c CallGetTask u) = Ok (Reply 200 (BTaskDetail d)) \<and>
    tdr_Task d = TaskModelToResponse (r_task r)"
proof -
  have get: "repo_GetTaskByID i (app_core u) = (Ok (r_task r), app_core u)"
    using get_row(2) [OF r(1-5) r(6)] .
  have badge: "\<exists>b w. task_badge V i u = (Ok b, w)"
    by (auto simp: task_badge_def GetTaskExternal_def GetByTaskID_def in_cal_def in_core_def attempt_def bindE_def
        calm_external [OF r(1)] gets_def ret_def fail_def split: option.splits prod.splits)
  then obtain b w where b: "task_badge V i u = (Ok b, w)" by blast
  have read: "in_task (GetTask i) u = (Ok (r_task r), u)" by (simp add: GetTask_def in_cal_def in_core_def get)
  let ?atts = "if sv_attachments V then (case ListAttachments (sv_client V) i of Inl _ \<Rightarrow> [] | Inr xs \<Rightarrow> AttachmentsToResponse xs) else []"
  have "fst (dispatch V c CallGetTask u) =
      Ok (Reply 200 (BTaskDetail ((TaskModelToDetailResponse (r_task r) ?atts)\<lparr>tdr_External := b\<rparr>)))"
    by (simp only: dispatch.simps http_GetTask_def i checked_def sum.case answer_def attempt_def bindE_def read
        Let_def b ok_def ret_def prod.case outcome.case fst_conv)
  then show ?thesis by (simp add: TaskModelToDetailResponse_def)
qed

lemma posted_then_read:
  assumes post: "dispatch V c (CallCreateTask body) u = (Ok (Reply s (BTaskCreated i k)), u')"
    and wf: "store_wf (app_core u)" and n: "0 < next_id (app_core u)" and calm: "calm (app_core u')"
    and undone: "\<And>req. body = Inr req \<Longrightarrow> ct_Status req \<noteq> TaskStatusDone"
    and param: "ValidateInt64Param (sv_lib V) c' ''id'' = Inr i"
  shows "\<exists>req d. body = Inr req \<and> fst (dispatch V c' CallGetTask u') = Ok (Reply 200 (BTaskDetail d)) \<and>
    answers_request req i (tdr_Task d)"
proof -
  from posted_task_row [OF post n] obtain req now rs where req: "body = Inr req" and i: "i = next_id (app_core u)"
    and rows: "tasks (app_core u') = tasks (app_core u) @ inserted_row (normal_task (CreateTaskRequestToModel req)) i now # rs"
    and more: "distinct (map row_id rs)" "\<And>r. r \<in> set rs \<Longrightarrow> row_id r = i + 1" by metis
  let ?r = "inserted_row (normal_task (CreateTaskRequestToModel req)) i now"
  have d: "distinct (map row_id (tasks (app_core u')))"
  proof -
    have own: "row_id ?r = i" by (simp add: inserted_row_def row_id_def)
    have "row_id x < i" if "x \<in> set (tasks (app_core u))" for x using wf that i by (simp add: store_wf_def)
    then have "row_id x \<noteq> i" "row_id x \<noteq> i + 1" if "x \<in> set (tasks (app_core u))" for x using that by fastforce+
    then show ?thesis using wf more own unfolding rows by (auto simp: store_wf_def)
  qed
  have r: "?r \<in> set (tasks (app_core u'))" "live ?r" "row_id ?r = i"
    using rows by (simp_all add: inserted_row_def live_def row_id_def)
  have st: "Status (r_task ?r) \<noteq> TaskStatusDone"
    using undone [OF req] by (simp add: inserted_row_def normal_task_def CreateTaskRequestToModel_def status_defs)
  have "answers_request req i (TaskModelToResponse (r_task ?r))"
    by (simp add: answers_request_def TaskModelToResponse_def inserted_row_def normal_task_def
        CreateTaskRequestToModel_def status_defs zero_task_def)
  with get_task_reply [OF param calm d r st] req show ?thesis by metis
qed

end
