(* ===== verification/Http_Dates.thy ===== *)
theory Http_Dates
  imports Http_Validation
begin

text \<open>
  The text of an instant in a reply reads back as the instant, cut to the second.
\<close>

lemma getnum_digits: "a < 10 \<Longrightarrow> b < 10 \<Longrightarrow> getnum f (digit a # digit b # s) = Some (10 * int a + int b, s)"
  by (simp add: digit_of_def)

lemma two_digits_read:
  assumes "0 \<le> n" and "n < 100" and "lo \<le> n" and "n \<le> hi"
  shows "number_in f lo hi (two_digits n @ s) = Some (n, s)" and "getnum f (two_digits n @ s) = Some (n, s)"
proof -
  have "getnum f (two_digits n @ s) = Some (10 * int (nat n div 10) + int (nat n mod 10), s)"
    unfolding two_digits_def using assms by (subst append_Cons append_Nil, subst append_Cons append_Nil, subst append_Nil)
      (rule getnum_digits, linarith, simp)
  moreover have "10 * int (nat n div 10) + int (nat n mod 10) = n"
    using assms(1) by (simp add: zdiv_int zmod_int)
  ultimately show get: "getnum f (two_digits n @ s) = Some (n, s)" by simp
  show "number_in f lo hi (two_digits n @ s) = Some (n, s)" using assms by (simp add: number_in_def get)
qed

lemma nat_text_length: "n < 10 ^ k \<Longrightarrow> 0 < k \<Longrightarrow> length (nat_text n) \<le> k"
proof (induction k arbitrary: n)
  case (Suc k)
  show ?case
  proof (cases "n < 10")
    case True
    then show ?thesis by (subst nat_text.simps) simp
  next
    case False
    then have "0 < k" using Suc.prems(1) by (cases k) auto
    moreover have "n div 10 < 10 ^ k" using Suc.prems(1) by (simp add: less_mult_imp_div_less mult.commute)
    ultimately show ?thesis using Suc.IH False by (subst nat_text.simps) simp
  qed
qed simp

lemma digits_value_zeros: "digits_value (replicate k CHR ''0'' @ s) = digits_value s"
  by (induction k) (simp_all add: digits_value_def)

lemma pad_year_read:
  assumes "0 \<le> y" and "y \<le> 9999"
  shows "parse_year (pad_year y @ s) = Some (y, s)"
proof -
  have "length (nat_text (nat y)) \<le> 4" using assms by (intro nat_text_length) simp_all
  then have len: "length (pad_year y) = 4" by (simp add: pad_year_def)
  have "list_all is_digit (pad_year y)"
    using nat_text_digits [of "nat y"] by (auto simp: pad_year_def list_all_iff is_digit_def)
  moreover have "digits_value (pad_year y) = nat y" by (simp add: pad_year_def digits_value_zeros)
  ultimately show ?thesis using len assms(1) by (simp add: parse_year_def)
qed

lemma Day_in_month: "Day t \<le> month_lengths (is_leap (Year t)) ! nat (Month t - 1)"
proof -
  let ?r = "day_number t - days_before_year (Year t)"
  have r: "0 \<le> ?r" "?r < sum_list (month_lengths (is_leap (Year t)))"
    using year_of_day_bounds [of "day_number t"] year_length [of "Year t"] by (auto simp: Year_def sum_month_lengths)
  have "month_day (month_lengths (is_leap (Year t))) 1 ?r = (Month t, Day t)"
    by (simp add: Month_def Day_def month_and_day_def Let_def)
  from month_day_sound [OF r this] show ?thesis by simp
qed

lemma instant_seconds:
  "Date (Year t) (Month t) (Day t) (Clock_Hour t) (Clock_Minute t) (Clock_Second t) = t - t mod second_ns"
proof -
  have split: "t mod (k * u) = (t mod (k * u)) div u * u + t mod u" if "0 < k" "0 < u" for k u
  proof -
    have "t mod (k * u) mod u = t mod u" by (simp add: mod_mod_cancel)
    then show ?thesis using div_mult_mod_eq [of "t mod (k * u)" u] by simp
  qed
  have "t = t div day_ns * day_ns + t mod day_ns" by simp
  moreover have "t mod day_ns = Clock_Hour t * hour_ns + t mod hour_ns"
    using split [of 24 hour_ns] by (simp add: Clock_Hour_def day_ns_def)
  moreover have "t mod hour_ns = Clock_Minute t * minute_ns + t mod minute_ns"
    using split [of 60 minute_ns] by (simp add: Clock_Minute_def hour_ns_def)
  moreover have "t mod minute_ns = Clock_Second t * second_ns + t mod second_ns"
    using split [of 60 second_ns] by (simp add: Clock_Second_def minute_ns_def)
  ultimately show ?thesis unfolding Date_of_instant day_number_def by linarith
qed

lemma rfc3339_reads_back:
  assumes "0 \<le> Year t" and "Year t \<le> 9999"
  shows "parse_rfc3339 (format_rfc3339 t) = Some (t - t mod second_ns)"
proof -
  note md = Month_Day_range [of t] and ck = clock_range [of t]
  have day: "parse_rfc3339_day (pad_year (Year t) @ ''-'' @ two_digits (Month t) @ ''-'' @ two_digits (Day t) @ s) =
      Some ((Year t, Month t, Day t), s)" for s
    using md by (simp add: parse_rfc3339_day_def pad_year_read [OF assms] two_digits_read)
  have clock: "parse_time_of_day (two_digits (Clock_Hour t) @ '':'' @ two_digits (Clock_Minute t) @ '':'' @
      two_digits (Clock_Second t) @ s) = Some ((Clock_Hour t, Clock_Minute t, Clock_Second t), s)" for s
    using ck by (simp add: parse_time_of_day_def two_digits_read)
  have zone: "parse_fraction ''Z'' = (0, ''Z'')" "parse_zone ''Z'' = Some 0"
    by (simp_all add: parse_fraction_def parse_zone_def)
  have expect: "expect c ([c] @ s) = Some s" for c s by simp
  show ?thesis
    unfolding parse_rfc3339_def format_rfc3339_def
    using Day_in_month [of t] md by (simp add: day clock zone expect instant_seconds del: append_Cons)
qed

end
