(* ===== verification/App_Sample.thy ===== *)
theory App_Sample
  imports Calendar_Sample App_Contents
begin

text \<open>
  One small state of the application, the states some requests lead to from empty tables, and one
  instance of its environment, at which the theorems about the application are instantiated.
\<close>

definition sample_app_env :: app_env where
  "sample_app_env = \<lparr>a_db = sample_db, a_backlog_order = (\<lambda>c xs. xs), a_target_order = (\<lambda>c xs. xs),
     a_group_order = (\<lambda>c xs. xs), a_digest_order = (\<lambda>c xs. xs), a_user_order = (\<lambda>c xs. xs),
     a_messenger_order = (\<lambda>c xs. xs), a_chat_order = (\<lambda>c xs. xs), a_producer = Producer,
     a_activity = NoopActivityTracker, a_attachments = False, a_bindings = True, maxUsers = 1\<rparr>"

definition sample_settings :: digest_settings where
  "sample_settings = \<lparr>ds_ID = 1, ds_UserID = 7, ds_MessengerRelatedUserID = None, ds_Enabled = True,
     ds_WeekdayTime = ''07:30'', ds_WeekendTime = ''9:00'', ds_CreatedAt = 0, ds_UpdatedAt = 0\<rparr>"

definition sample_backlog :: "int \<Rightarrow> string \<Rightarrow> time option \<Rightarrow> backlog stored" where
  "sample_backlog i t done_at = \<lparr>s_item = \<lparr>bl_ID = i, bl_Title = t, bl_Description = [], bl_UserID = 7,
     bl_MessengerRelatedUserID = None, bl_CreatedAt = 0, bl_UpdatedAt = 0, bl_CompletedAt = done_at\<rparr>,
     s_deleted_at = None\<rparr>"

definition sample_group :: task_group where
  "sample_group = \<lparr>gr_ID = 1, gr_UserID = 7, gr_Name = ''home'', gr_CreatedAt = 0, gr_UpdatedAt = 0\<rparr>"

text \<open>One user with a chat, three tasks (one of them a series), a binding that refers to the group, two
  backlog items and digest settings.\<close>

definition sample_app :: app_world where
  "sample_app = \<lparr>cal = sample_cal\<lparr>core := sample_world, bindings := [sample_binding\<lparr>cb_GroupID := Some 1\<rparr>]\<rparr>,
     backlog_rows = [sample_backlog 1 ''tea'' (Some 5), sample_backlog 2 ''milk'' None], target_rows = [],
     group_rows = [\<lparr>s_item = sample_group, s_deleted_at = None\<rparr>], digest_rows = [sample_settings],
     next_backlog = 3, next_target = 1, next_group = 2, next_digest = 2, next_user = 8, next_messenger = 6,
     next_chat = 4, user_purges = []\<rparr>"

definition empty_app :: app_world where
  "empty_app = \<lparr>cal = sample_cal\<lparr>core := empty_world\<lparr>users := [], messengers := [], user_messengers := []\<rparr>,
       bindings := [], outbox := []\<rparr>,
     backlog_rows = [], target_rows = [], group_rows = [], digest_rows = [], next_backlog = 1, next_target = 1,
     next_group = 1, next_digest = 1, next_user = 1, next_messenger = 1, next_chat = 1, user_purges = []\<rparr>"

fun served :: "app_request list \<Rightarrow> app_world \<Rightarrow> app_world" where
  "served [] u = u"
| "served (q # qs) u = served qs (snd (app_handle sample_env sample_cal_env sample_app_env q (app_arrive u)))"

lemma served_steps: "(app_step sample_env sample_cal_env sample_app_env)\<^sup>*\<^sup>* u (served qs u)"
proof (induction qs arbitrary: u)
  case (Cons q qs)
  have "app_step sample_env sample_cal_env sample_app_env u
      (snd (app_handle sample_env sample_cal_env sample_app_env q (app_arrive u)))"
    by (rule app_serve [OF prod.collapse [symmetric]])
  then show ?case unfolding served.simps using Cons by (rule converse_rtranclp_into_rtranclp)
qed simp

lemma app_reachable_steps:
  "(app_step S E F)\<^sup>*\<^sup>* u v \<Longrightarrow> app_reachable S E F u \<Longrightarrow> app_reachable S E F v"
  by (induction rule: rtranclp_induct) (auto intro: app_next)

lemma served_reachable: "app_reachable sample_env sample_cal_env sample_app_env (served qs empty_app)"
proof (rule app_reachable_steps [OF served_steps], rule app_start)
  show "app_initial empty_app"
    by (simp add: app_initial_def cal_initial_def initial_def empty_app_def sample_cal_defs sample_defs links_def)
qed

definition sample_person :: user where
  "sample_person = ur_user sample_user"

definition sample_requests :: "app_request list" where
  "sample_requests = [AppCreateUser sample_person,
     AppCreateMessenger \<lparr>m_ID = 0, m_Name = ''telegram'', m_CreatedAt = 0\<rparr>,
     AppCreateChat \<lparr>mru_ID = 0, mru_UserID = Some 1, mru_MessengerID = Some 1, mru_MessengerUserID = ''u'',
        mru_ChatID = ''c'', mru_CreatedAt = 0, mru_UpdatedAt = None\<rparr>,
     AppCreateDigest (sample_settings\<lparr>ds_UserID := 1\<rparr>), AppDeleteUser 1]"

definition served_app :: app_world where "served_app = served (take 4 sample_requests) empty_app"

lemmas app_runs = in_cal_def in_core_def set_core_def app_drop_def app_arrive_def cal_arrive_def arrive_def
  CreateUser_def check_user_limit_def CountActiveUsers_def live_users_def user_live_def repo_CreateUser_def
  app_touch_def touchUserActivity_def CreateMessenger_def repo_CreateMessenger_def
  CreateMessengerRelatedUser_def check_user_def missing_is_unprocessable_def GetMessenger_def
  repo_CreateMessengerRelatedUser_def chat_rejected_def chat_key_def
  CreateDigestSettings_def check_chat_def check_given_def check_clock_def validateTimeFormat_def
  GetDigestSettingsByUserID_def digest_found_def repo_CreateDigestSettings_def digest_conflict_def digest_key_def
  tell_worker_def

lemma sample_clock: "parse_clock ''07:30'' = Some (7, 30)" "parse_clock ''9:00'' = Some (9, 0)"
  by (simp_all add: parse_clock_def is_digit_def digit_of_def)

lemmas sample_app_defs = sample_app_env_def sample_settings_def sample_backlog_def sample_group_def
  sample_person_def

lemma served_app_rows:
  "user_ids (app_core served_app) = [(1, True)]" "live_count served_app = 1"
  "map (mru_UserID \<circ> um_related) (user_messengers (app_core served_app)) = [Some 1]"
  "map digest_key (digest_rows served_app) = [(1, None)]"
  by (simp_all add: served_app_def sample_requests_def empty_app_def app_runs run_defs run_lookups sample_app_defs
      sample_cal_defs sample_defs sample_clock live_count_def user_ids_def)

subsection \<open>Runs\<close>

lemma sample_app_delete:
  "fst (DeleteUser sample_app_env 7 sample_app) = Ok ()" "at_rest (app_core sample_app)"
  by (simp_all add: DeleteUser_def repo_GetTasksByUserID_def drop_task_def user_getMessengerName_def
      DeleteMessengerRelatedUserByUserID_def drop_chats_def repo_DeleteUser_def map_user_def
      purgeUserAttachmentsBestEffort_def missing_is_unprocessable_def sample_app_def app_runs run_defs run_lookups
      run_repo sample_app_defs sample_defs at_rest_def calm_def)

lemma sample_app_digest:
  "\<exists>d. fst (GetDigest sample_app_env 7 None None (Some 1) (Some (day_number_of 300)) sample_app) = Ok d"
  by (simp add: GetDigest_def missing_is_unprocessable_def GetUser_def GetCompletedBacklogsCount_def
      repo_GetTasksByUserIDWithPagination_def count_rows_def select_page_def page_offset_def duration_of_def
      repo_GetAllTargets_def list_page_def resolve_chat_def chat_id_of_def Let_def page_or_first_def size_or_default_def
      digest_query_def sample_app_def app_runs run_defs run_lookups run_repo sample_app_defs sample_defs)

lemma sample_app_group:
  "failed (fst (DeleteTaskGroup sample_app_env 1 sample_app))"
  "fst (DeleteTaskGroup (sample_app_env\<lparr>a_bindings := False\<rparr>) 1 sample_app) = Ok ()"
  by (simp_all add: DeleteTaskGroup_def repo_GetTaskGroupByID_def soft_get_def repo_DeleteTaskGroup_def
      soft_remove_def has_key_def s_live_def group_table_def CountByGroupID_def binding_live_def
      sample_app_def app_runs run_defs run_lookups run_repo sample_app_defs sample_cal_defs sample_defs)

definition sample_vevent :: "string + time \<times> int \<Rightarrow> vevent" where
  "sample_vevent start = \<lparr>ve_UniqueId = None, ve_DtStart = None, ve_DtEnd = None, ve_Summary = None,
     ve_Description = None, ve_Rrules = [], ve_StartAt = start, ve_EndAt = Inl []\<rparr>"

definition sample_file :: vcalendar where
  "sample_file = \<lparr>vc_Todos = 1, vc_Events = [sample_vevent (Inl ''missing''), sample_vevent (Inr (day_number_of 300, 0))]\<rparr>"

definition sample_import :: ics_options where
  "sample_import = \<lparr>io_UserID = 7, io_GroupID = Some 1, io_MessengerRelatedUserID = None\<rparr>"

text \<open>The same with no tasks yet.\<close>

definition import_app :: app_world where
  "import_app = sample_app\<lparr>cal := sample_cal\<lparr>core := empty_world\<rparr>\<rparr>"

lemma sample_app_import:
  "\<exists>res. fst (ics_Import sample_env (Inr sample_file) sample_import import_app) = Ok res \<and> im_CreatedTaskIDs res = [1]"
  "store_ready (app_core import_app)"
proof -
  show "store_ready (app_core import_app)"
    by (simp add: store_ready_def store_wf_def import_app_def empty_world_def) (simp add: sample_world_def)
  have trim: "trim_space [] = []" by simp
  let ?start = "day_number_of 300"
  define ev where "ev = \<lparr>ie_UID = [], ie_Summary = [], ie_Description = [], ie_Start = ?start, ie_End = None,
    ie_AllDay = False, ie_Recurrence = []\<rparr>"
  define t where "t = zero_task\<lparr>Title := ''(untitled event)'', UserID := 7, GroupID := Some 1, StartDate := ?start,
    Status := TaskStatusScheduled\<rparr>"
  have events: "map_events 0 (vc_Events sample_file) = ([ev], [\<lparr>ix_Index = 0, ix_UID = [], ix_Message = ''DTSTART: missing''\<rparr>])"
    by (simp add: sample_file_def sample_vevent_def mapVEvent_def event_start_def event_end_def isAllDayDTStart_def
        value_of_def Let_def trim ev_def)
  have map: "MapEventToTaskFields (lib sample_env) (icsEventToGoogle ev) 7 (Some 1) None (app_core import_app) =
      (Ok t, app_core import_app)"
    by (simp add: MapEventToTaskFields_def EventStartTime_def event_task_def untitled_def trim Let_def ev_def t_def
        icsEventToGoogle_def google_date_time_def import_app_def empty_world_def sample_world_def run_defs
        day_number_of_def day_ns_def hour_ns_def minute_ns_def second_ns_def sample_cal_def zero_task_def)
  define w where "w = snd (CreateTask sample_env (imported_task t) (app_core import_app))"
  have create: "CreateTask sample_env (imported_task t) (app_core import_app) = (Ok (1, 0), w)"
    unfolding w_def
    by (rule ok_run) (simp add: CreateTask_def Let_def imported_task_def t_def status_defs run_checks run_defs run_lookups
        run_repo sample_defs import_app_def sample_cal_def)
  have publish: "PublishImportedTaskSchedule sample_env (Some ((imported_task t)\<lparr>ID := 1\<rparr>)) w' =
      (Ok (Some ((imported_task t)\<lparr>ID := 1\<rparr>), None), w')" for w'
    by (simp add: PublishImportedTaskSchedule_def imported_task_def t_def zero_task_def ret_def)
  have checks: "check_user 7 import_app = (Ok (), import_app)" "check_group sample_import import_app = (Ok (), import_app)"
    by (simp_all add: check_group_def repo_GetTaskGroupByID_def soft_get_def has_key_def s_live_def group_table_def
        import_app_def sample_app_def sample_import_def sample_cal_def app_runs run_defs run_lookups sample_app_defs sample_defs)
  have chat: "check_import_chat sample_import = ret ()" by (simp add: check_import_chat_def sample_import_def)
  have opts: "io_UserID sample_import = 7" "io_GroupID sample_import = Some 1" "io_MessengerRelatedUserID sample_import = None"
    by (simp_all add: sample_import_def)
  have parse: "ics_Parse (Inr sample_file) = Inr \<lparr>pr_Events = [ev], pr_SkippedTODO = vc_Todos sample_file,
      pr_Errors = [\<lparr>ix_Index = 0, ix_UID = [], ix_Message = ''DTSTART: missing''\<rparr>]\<rparr>"
    by (simp add: ics_Parse_def events)
  have event: "fst (import_event sample_env sample_import (0, ev) res import_app) =
      Ok (res\<lparr>im_CreatedTaskIDs := im_CreatedTaskIDs res @ [1]\<rparr>)" for res
    using map create by (simp add: import_event_def opts publish in_cal_def in_core_def run_defs Let_def)
  show "\<exists>res. fst (ics_Import sample_env (Inr sample_file) sample_import import_app) = Ok res \<and> im_CreatedTaskIDs res = [1]"
  proof -
    let ?res = "\<lparr>im_CreatedTaskIDs = [], im_SkippedTODO = vc_Todos sample_file,
      im_Errors = [\<lparr>ix_Index = 0, ix_UID = [], ix_Message = ''DTSTART: missing''\<rparr>]\<rparr>"
    obtain v where run: "import_event sample_env sample_import (0, ev) ?res import_app =
        (Ok (?res\<lparr>im_CreatedTaskIDs := im_CreatedTaskIDs ?res @ [1]\<rparr>), v)"
      using ok_run [OF event [of ?res]] by blast
    show ?thesis
      by (simp add: ics_Import_def opts checks chat parse bindE_def) (simp add: ret_def run)
  qed
qed

lemma sample_batch_text:
  "strings_Split ''eggs;;bread'' '';'' = [''eggs'', [], ''bread'']"
  "trim_space ''eggs'' = ''eggs''" "trim_space [] = []" "trim_space ''bread'' = ''bread''"
proof -
  show "strings_Split ''eggs;;bread'' '';'' = [''eggs'', [], ''bread'']" by (simp add: strings_Split_def)
  have "\<not> space_byte c" if "c \<in> set ''eggsbread''" for c
    using that by (auto dest!: space_byte_range)
  then have "plain_field ''eggs''" "plain_field ''bread''" by (auto simp: plain_field_def)
  then show "trim_space ''eggs'' = ''eggs''" "trim_space ''bread'' = ''bread''" by (simp_all add: trim_plain)
  show "trim_space [] = []" by simp
qed

lemma sample_app_batch:
  "fst (CreateBacklogsBatch sample_app_env ''eggs;;bread'' '';'' 7 None sample_app) = Ok [3, 4]"
  by (simp add: CreateBacklogsBatch_def Let_def create_line_def batch_item_def repo_CreateBacklog_def soft_insert_def
      backlog_table_def sample_app_def app_runs run_defs run_lookups sample_app_defs sample_defs sample_batch_text)

lemma sample_app_duplicate:
  "sample_settings \<in> set (digest_rows sample_app)"
  by (simp add: sample_app_def)

lemma sample_app_tables: "soft_wf backlog_table sample_app"
  by (simp add: soft_wf_def backlog_table_def sample_app_def sample_backlog_def)

end
