(* ===== verification/Http_Sample.thy ===== *)
theory Http_Sample
  imports Http_Results Http_Dates App_Sample
begin

text \<open>
  One server with a key, and the requests at which the theorems about it are instantiated.  The libraries are the
  simplest that do what the theorems assume of them.
\<close>

definition sample_http_lib :: http_lib where
  "sample_http_lib = \<lparr>hl_IsInt = (\<lambda>s. atoi s \<noteq> None), hl_IsPrintableASCII = (\<lambda>s. True), hl_IsEmail = (\<lambda>s. True),
     hl_IsURL = (\<lambda>s. True), hl_IsUUID = (\<lambda>s. True), hl_IsPrint = (\<lambda>n. True), hl_cron = (\<lambda>s. True),
     hl_email = (\<lambda>s. True), hl_deref = True, hl_error = (\<lambda>f s. s), hl_field_errors = (\<lambda>es. ''invalid'')\<rparr>"

text \<open>A cipher that only puts the nonce before the text.\<close>

definition sample_gcm :: gcm where
  "sample_gcm = \<lparr>gcm_seal = (\<lambda>nonce p. p), gcm_open = (\<lambda>nonce c. Some c), gcm_nonce_size = 1\<rparr>"

lemma sample_gcm_laws: "gcm_laws sample_gcm"
  by (simp add: gcm_laws_def sample_gcm_def)

definition sample_server :: http_server where
  "sample_server = \<lparr>sv_task = sample_env, sv_sync = sample_cal_env, sv_app = sample_app_env, sv_lib = sample_http_lib,
     sv_oauth = \<lparr>oc_url = (\<lambda>s. s), oc_Scopes = [''calendar''], oc_cipher = sample_gcm\<rparr>, sv_calendar = True,
     sv_attachments = False, sv_client = noopClient, sv_directUploadMaxBytes = 1024,
     sv_proxyDownloadEnabled = False, sv_proxyDownloadMaxBytes = 1024, sv_version = ''1''\<rparr>"

definition sample_config :: http_config where
  "sample_config = \<lparr>hc_cors = \<lparr>co_Enabled = False, co_AllowOrigins = [], co_AllowMethods = [], co_AllowHeaders = [],
       co_ExposeHeaders = [], co_AllowCredentials = False, co_MaxAge = 0\<rparr>,
     hc_key = \<lparr>ak_Enabled = True, ak_APIKey = ''key''\<rparr>\<rparr>"

definition sample_get :: "string \<Rightarrow> string \<Rightarrow> http_request" where
  "sample_get user i = \<lparr>rq_Method = ''GET'', rq_Path = ''/api/v1'',
     rq_Param = (\<lambda>n. if n = ''user_id'' then user else i),
     rq_Query = (\<lambda>n. if n = ''state'' then user else i), rq_Header = (\<lambda>n. []), rq_PostForm = (\<lambda>n. [])\<rparr>"

definition sample_post :: create_task_request where
  "sample_post = \<lparr>ct_Title = ''call'', ct_Description = [], ct_UserID = 7, ct_MessengerRelatedUserID = Some 3,
     ct_GroupID = None, ct_StartDate = day_number_of 300, ct_FinishDate = None, ct_CronExpression = None,
     ct_RRule = None, ct_RequiresConfirmation = False, ct_Muted = False, ct_ShiftFromCompletion = False,
     ct_SkipDigest = False, ct_PreRemindBeforeSeconds = None, ct_Status = []\<rparr>"

lemmas sample_http_defs = sample_http_lib_def sample_gcm_def sample_server_def sample_config_def sample_get_def
  sample_post_def

lemma sample_texts [simp]: "atoi ''1'' = Some 1" "atoi ''4'' = Some 4" "atoi ''7'' = Some 7" "atoi ''8'' = Some 8"
  by (simp_all add: atoi_def is_digit_def digits_value_def)

lemma app_reachable_served: "app_reachable (sv_task V) (sv_sync V) (sv_app V) u \<Longrightarrow> http_reachable cfg V u"
  by (induction rule: app_reachable.induct) (auto intro: http_start http_next http_inside)

lemma sample_posted:
  "fst (dispatch sample_server c (CallCreateTask (Inr sample_post)) sample_app) = Ok (Reply 201 (BTaskCreated 4 0))"
  "calm (app_core (snd (dispatch sample_server c (CallCreateTask (Inr sample_post)) sample_app)))"
  by (simp_all add: http_CreateTask_def with_body_def bind_json_def create_task_rules_def sample_http_defs
      validateFutureDate.simps future_enough_def IsZero_def required_def cron_tag_rule_def when_given_def
      answer_def attempt_def in_cal_def in_core_def calm_def sample_app_def sample_cal_def
      CreateTaskRequestToModel_def normalizePreRemindBeforeSeconds_def ok_def
      CreateTask_def Let_def status_defs run_checks run_defs run_lookups run_repo sample_defs)

lemma served_http: "http_reachable cfg sample_server (served qs empty_app)"
  by (rule app_reachable_served) (simp add: sample_server_def served_reachable)

lemma served_http_steps: "(http_step cfg sample_server)\<^sup>*\<^sup>* u (served qs u)"
proof -
  have "app_step sample_env sample_cal_env sample_app_env \<le> http_step cfg sample_server"
    by (auto simp: sample_server_def intro: http_inside)
  from rtranclp_mono [OF this] served_steps show ?thesis by blast
qed

text \<open>A request to delete the binding of somebody else, and a callback that goes through.\<close>

lemma sample_foreign:
  "http_DeleteBinding sample_server (sample_get ''8'' ''1'') sample_app =
     (Ok (refused 404 ''binding not found for user''), sample_app)"
  by (simp add: http_DeleteBinding_def with_own_binding_def with_user_def checked_def positive_or_def sample_get_def
      answer_def attempt_def in_cal_def in_core_def binding_ListByUserID_def bindE_def external_def gets_def ret_def
      sample_app_def sample_cal_def sample_defs sample_binding_def)

definition sample_answers :: oauth_answers where
  "sample_answers = \<lparr>oa_exchange = Inr \<lparr>ot_AccessToken = ''a'', ot_RefreshToken = ''r'', ot_Expiry = 9\<rparr>,
     oa_userinfo = UserInfoReply 200 [] (Inr \<lparr>ui_ID = ''sub'', ui_Email = ''ann@example.org''\<rparr>),
     oa_random_access = Some ''x'', oa_random_refresh = Some ''y'', oa_next_id = 9\<rparr>"

lemma sample_callback:
  "\<exists>b. fst (http_OAuthCallback sample_server (sample_get ''7'' ''code'') (\<lambda>_. sample_answers) sample_app) = Ok (Reply 200 b)"
  by (simp add: http_OAuthCallback_def HandleOAuthCallback_def fetchUserInfo_def encrypted_def Encrypt_def
      account_Upsert_def sample_answers_def sample_get_def sample_server_def sample_gcm_def ok_def answer_def
      in_cal_def in_core_def run_lookups run_defs sample_app_def sample_cal_def sample_defs Let_def)

end
