(* ===== verification/App_Further.thy ===== *)
theory App_Further
  imports App_Sample Further_Results
begin

text \<open>
  More theorems about the calendar service, the lists and the schedules, each instantiated.
\<close>

text \<open>The import of a changed event whose task was deleted creates a task again and leaves every link
  on the task it named before: the new task, with the key the table gives next, is in no link, so
  the next change of the event creates another one.\<close>

lemma recreated_task_unlinked:
  assumes "cal_wf v" and "upsertImportedEvent E b ev v = (Ok (), v')"
    and "\<not> equal_fold (e_Status ev) ''cancelled''"
    and "l \<in> set (links v)" "event_key l = (TaskSyncProviderGoogleCalendar, cb_GoogleCalendarID b, e_ID ev)"
    and "\<And>r. r \<in> set (tasks (core v)) \<Longrightarrow> row_id r = l_TaskID l \<Longrightarrow> \<not> live r"
  shows "(\<exists>r \<in> set (tasks (core v')). row_id r = next_id (core v)) \<and>
    (\<forall>x \<in> set (links v'). l_TaskID x \<noteq> next_id (core v)) \<and>
    (\<exists>x \<in> set (links v'). event_key x = event_key l \<and> l_TaskID x = l_TaskID l)"
proof -
  note g = upsert_gone [OF assms]
  have keys: "set (map (\<lambda>x. (l_ID x, l_TaskID x, event_key x)) (links v')) =
      set (map (\<lambda>x. (l_ID x, l_TaskID x, event_key x)) (links v))" by (simp only: g(1))
  have below: "l_TaskID x < next_id (core v)" if "x \<in> set (links v)" for x
  proof -
    have "l_TaskID x \<in> row_id ` set (tasks (core v))"
      using assms(1) that by (simp add: cal_wf_def links_wf_def)
    then show ?thesis using assms(1) by (auto simp: cal_wf_def store_wf_def)
  qed
  have "l_TaskID x \<noteq> next_id (core v)" if "x \<in> set (links v')" for x
  proof -
    have "(l_ID x, l_TaskID x, event_key x) \<in> set (map (\<lambda>x. (l_ID x, l_TaskID x, event_key x)) (links v))"
      using that keys by force
    then show ?thesis using below by force
  qed
  moreover have "\<exists>x \<in> set (links v'). event_key x = event_key l \<and> l_TaskID x = l_TaskID l"
  proof -
    have "(l_ID l, l_TaskID l, event_key l) \<in> set (map (\<lambda>x. (l_ID x, l_TaskID x, event_key x)) (links v'))"
      using assms(4) keys by force
    then show ?thesis by auto
  qed
  ultimately show ?thesis using nth_mem [OF g(2)] g(3) by blast
qed

lemma recreated_task_unlinked_witness:
  "\<exists>r \<in> set (tasks (core (snd (upsertImportedEvent sample_cal_env sample_binding
     (sample_event ''c'' (day_number_of 300) None) sample_cal)))). row_id r = next_id (core sample_cal)"
  using recreated_task_unlinked [OF sample_cal_wf ok_run [OF sample_gone_event] sample_not_cancelled
      orphan_sample_facts] by blast

text \<open>The echo of a reminder that has passed, sent back by Google for a task this service exported,
  leaves the status, the start, the end and the rules of the task as they are; only title,
  description and group follow the event.\<close>

lemma passed_echo_keeps:
  assumes "cal_wf v" "upsertImportedEvent E b ev v = (Ok (), v')"
    "\<not> equal_fold (e_Status ev) ''cancelled''"
    "l \<in> set (links v)" "event_key l = (TaskSyncProviderGoogleCalendar, cb_GoogleCalendarID b, e_ID ev)"
    "row \<in> set (tasks (core v))" "live row" "row_id row = l_TaskID l"
    "EventStartTime ev = Ok s"
    "l_Origin l = TaskSyncLinkOriginExported" "s \<le> clock (core v)"
    "RecurrenceToRRule (e_Recurrence ev) = None"
  shows "\<exists>row' \<in> set (tasks (core v')). row_id row' = l_TaskID l \<and> live row' \<and>
    Status (r_task row') = Status (r_task row) \<and> StartDate (r_task row') = StartDate (r_task row) \<and>
    FinishDate (r_task row') = FinishDate (r_task row) \<and> RRule (r_task row') = RRule (r_task row) \<and>
    CronExpression (r_task row') = CronExpression (r_task row) \<and>
    Description (r_task row') = e_Description ev"
  by (rule passed_echo [OF assms])

lemma passed_echo_keeps_witness:
  "\<exists>row' \<in> set (tasks (core (snd (upsertImportedEvent sample_cal_env sample_binding
     (sample_event ''b'' (day_number_of 100) None) sample_cal)))).
     Status (r_task row') = Status (r_task (sample_row series_task))"
  using passed_echo_keeps [OF sample_cal_wf ok_run [OF sample_passed_echo] sample_not_cancelled
      exported_sample_facts(1-5) sample_event_start exported_sample_facts(6) sample_days(1)]
  by (auto simp: sample_event_rules RRuleToRecurrence_def)

text \<open>However long the two services run on from a reachable state: a task row keeps its key, owner and
  messenger and a deleted one never changes; a binding keeps its owner, account and calendar and a
  removed one never changes; an outbox item keeps what it asks for; and calls that Google has
  answered are not forgotten.\<close>

lemma calendar_rows_survive:
  assumes "cal_reachable S E v" and "(cal_step S E)\<^sup>*\<^sup>* v v'"
  shows "length (tasks (core v)) \<le> length (tasks (core v')) \<and>
    (\<forall>k < length (tasks (core v)). row_le (tasks (core v) ! k) (tasks (core v') ! k)) \<and>
    length (bindings v) \<le> length (bindings v') \<and>
    (\<forall>k < length (bindings v). binding_le (bindings v ! k) (bindings v' ! k)) \<and>
    length (outbox v) \<le> length (outbox v') \<and>
    (\<forall>k < length (outbox v). item_le (outbox v ! k) (outbox v' ! k)) \<and> prefix (google v) (google v')"
  using cal_steps_grow [OF assms(2) cal_reachable_inv [OF assms(1)]]
  by (simp add: cal_grows_def rows_le_def grows_def)

lemma calendar_rows_survive_witness: "length (outbox first_cal) \<le> length (outbox first_cal)"
  using calendar_rows_survive [OF first_cal_reachable rtranclp.rtrancl_refl] by blast

text \<open>Settings for a user and a chat, or for a user without a chat, that already has settings are refused,
  whatever else happens on the way, and the stored settings stay as they are.\<close>

lemma duplicate_digest:
  assumes "CreateDigestSettings F s u = (r, u')" and "old \<in> set (digest_rows u)" and "digest_key old = digest_key s"
  shows "(\<forall>i. r \<noteq> Ok i) \<and> digest_rows u' = digest_rows u"
  using keeps_inv [OF keeps_duplicate [OF assms(2,3)] _ assms(1)] keeps_result [OF keeps_duplicate [OF assms(2,3)]] assms(1)
  by (cases r) auto

lemma duplicate_digest_witness:
  "digest_rows (snd (CreateDigestSettings sample_app_env sample_settings sample_app)) = digest_rows sample_app"
  using duplicate_digest [OF prod.collapse [symmetric] sample_app_duplicate] by blast

text \<open>The loop that moves an overdue start date ahead terminates with the first date after the present
  that has the old time of day.\<close>

lemma advanced_date:
  "now < advance_days now d \<and> Clock_Hour (advance_days now d) = Clock_Hour d \<and>
   Clock_Minute (advance_days now d) = Clock_Minute d \<and> Clock_Second (advance_days now d) = Clock_Second d \<and>
   (advance_days now d = d \<or> advance_days now d - day_ns \<le> now)"
proof -
  obtain k :: nat where k: "advance_days now d = d + int k * day_ns" "now < advance_days now d"
    "0 < k \<longrightarrow> advance_days now d - day_ns \<le> now"
    using advance_days_spec by blast
  have "Clock_Hour (d + int k * day_ns) = Clock_Hour d" "Clock_Minute (d + int k * day_ns) = Clock_Minute d"
    "Clock_Second (d + int k * day_ns) = Clock_Second d"
    unfolding Clock_Hour_def Clock_Minute_def Clock_Second_def
    by (subst mod_of_days; simp add: time_units)+
  then show ?thesis using k by (cases "k = 0") simp_all
qed

text \<open>The daily run does nothing at all, not even for overdue recurring tasks, when no other task is
  overdue: it returns before it asks for them.\<close>

lemma daily_run_skips_series:
  assumes "\<And>r. r \<in> set (tasks w) \<Longrightarrow> \<not> needs_rescheduling (clock (tick w)) w r"
  shows "tasks (snd (RunScheduledRescheduling E w)) = tasks w \<and>
    queue (snd (RunScheduledRescheduling E w)) = queue w"
  using daily_run_nothing_overdue [OF assms prod.collapse [symmetric]] by blast

lemma daily_run_skips_series_witness:
  "\<exists>r \<in> set (tasks series_world). cron_needs_rescheduling (clock (tick series_world)) series_world r \<and>
     tasks (snd (RunScheduledRescheduling sample_env series_world)) = tasks series_world"
proof -
  have overdue: "cron_needs_rescheduling (clock (tick series_world)) series_world (sample_row series_task)"
    "sample_row series_task \<in> set (tasks series_world)"
    by (simp_all add: cron_needs_rescheduling_def imported_def tick_def series_world_def series_task_def
        sample_defs live_def status_defs Let_def day_ns_def hour_ns_def minute_ns_def second_ns_def)
  have none: "\<not> needs_rescheduling (clock (tick series_world)) series_world r" if "r \<in> set (tasks series_world)" for r
    using that
    by (simp add: needs_rescheduling_def series_world_def series_task_def sample_defs Let_def)
  show ?thesis using daily_run_skips_series [OF none] overdue by blast
qed

text \<open>The pages of a query, read in a state in which no call fails, are the ordered list of the matching
  tasks cut into pieces: put together they give its beginning, with nothing left out or repeated.\<close>

lemma pages_cover:
  assumes "calm w" and "reads_links P" and "int m * size_or_default (q_pageSize q) < 2 ^ 63"
  shows "concat (map (\<lambda>k. case fst (select_page D (q\<lparr>q_page := int k + 1\<rparr>) P failure w) of Ok ts \<Rightarrow> ts | _ \<Rightarrow> []) [0..<m]) =
    take (m * nat (size_or_default (q_pageSize q)))
      (order_by D (clause_of q) (map r_task (filter (P w) (tasks w))))"
proof -
  let ?n = "size_or_default (q_pageSize q)"
  let ?rows = "order_by D (clause_of q) (map r_task (filter (P w) (tasks w)))"
  have page: "fst (select_page D (q\<lparr>q_page := int k + 1\<rparr>) P failure w) = Ok (take (nat ?n) (drop (k * nat ?n) ?rows))"
    if "k < m" for k
    by (rule select_page_calm [OF assms(1) _ that]) (rule assms(3))
  have "concat (map (\<lambda>k. case fst (select_page D (q\<lparr>q_page := int k + 1\<rparr>) P failure w) of Ok ts \<Rightarrow> ts | _ \<Rightarrow> []) [0..<m]) =
      concat (map (\<lambda>k. take (nat ?n) (drop (k * nat ?n) ?rows)) [0..<m])"
    by (intro arg_cong [where f = concat] map_cong refl) (simp add: page)
  then show ?thesis by (simp add: take_pages)
qed

lemma pages_cover_witness:
  "concat (map (\<lambda>k. case fst (select_page sample_db (all_pages\<lparr>q_page := int k + 1\<rparr>) (all_tasks_filter all_pages) [] sample_world)
      of Ok ts \<Rightarrow> ts | _ \<Rightarrow> []) [0..<2]) =
    take 100 (order_by sample_db (clause_of all_pages) (map r_task (filter (all_tasks_filter all_pages sample_world) (tasks sample_world))))"
  using pages_cover [of sample_world "all_tasks_filter all_pages" 2 all_pages sample_db "[]"]
    filters_read_links(2) [of all_pages]
  by (simp add: calm_def sample_world_def size_or_default_def all_pages_def)

text \<open>A batch of backlog items that is stored adds, at the end of the table, items of the user for the
  chat that are not done, whose titles are pieces between separators, trimmed and not empty, in their
  order; their keys are what is returned.  If no call fails, every such piece has become an item.\<close>

lemma batch_result:
  assumes "CreateBacklogsBatch F items separator i c u = (Ok ids, u')"
  shows "\<exists>new. backlog_rows u' = backlog_rows u @ new \<and> ids = map (bl_ID \<circ> s_item) new \<and> new \<noteq> [] \<and>
    (\<forall>x \<in> set new. s_deleted_at x = None \<and> bl_UserID (s_item x) = i \<and> bl_MessengerRelatedUserID (s_item x) = c \<and>
       bl_CompletedAt (s_item x) = None) \<and>
    subseq (map (bl_Title \<circ> s_item) new) (batch_titles items separator) \<and>
    (at_rest (app_core u) \<longrightarrow> map (bl_Title \<circ> s_item) new = batch_titles items separator)"
  using batch_run [OF assms] by (simp add: batch_rows_def s_live_def)

lemma batch_result_witness:
  "map (bl_Title \<circ> s_item) (drop 2 (backlog_rows (snd (CreateBacklogsBatch sample_app_env ''eggs;;bread'' '';'' 7 None sample_app)))) =
     [''eggs'', ''bread'']"
proof -
  have "batch_titles ''eggs;;bread'' '';'' = [''eggs'', ''bread'']"
    by (simp add: batch_titles_def sample_batch_text)
  moreover have "length (backlog_rows sample_app) = 2" by (simp add: sample_app_def)
  ultimately show ?thesis
    using batch_result [OF ok_run [OF sample_app_batch]] sample_app_delete(2) by auto
qed

text \<open>The shift of a series never panics, and when it succeeds its next start lies after the completion
  (or is the zero time, when the moved cron expression never fires again) and exactly the kind of
  rule the parent has is rewritten.\<close>

lemma shift_ahead:
  assumes "recur_laws L"
  shows "shiftRecurrenceFromCompletion L parent clk at \<noteq> Panic x \<and>
    (\<forall>s. shiftRecurrenceFromCompletion L parent clk at = Ok s \<longrightarrow>
       cs_Anchor s = completionAnchor at clk \<and> (cs_NextStart s = 0 \<or> at < cs_NextStart s) \<and>
       (recurrenceFieldSet (CronExpression parent) \<longleftrightarrow> cs_Cron s \<noteq> None) \<and>
       (recurrenceFieldSet (CronExpression parent) \<longleftrightarrow> cs_RRule s = None))"
proof (intro conjI allI impI)
  show "shiftRecurrenceFromCompletion L parent clk at \<noteq> Panic x" by (rule shiftRecurrence_no_panic)
  fix s assume "shiftRecurrenceFromCompletion L parent clk at = Ok s"
  note s = shiftRecurrence_Ok [OF this]
  show "cs_Anchor s = completionAnchor at clk" using s by blast
  show "cs_NextStart s = 0 \<or> at < cs_NextStart s" using s nextRecurrenceAfter_after [OF assms] by blast
  show "recurrenceFieldSet (CronExpression parent) \<longleftrightarrow> cs_Cron s \<noteq> None"
    "recurrenceFieldSet (CronExpression parent) \<longleftrightarrow> cs_RRule s = None" using s by auto
qed

lemma shift_ahead_witness: "shiftRecurrenceFromCompletion sample_lib sample_parent 0 0 \<noteq> Panic ''cronexpr.MustParse''"
  using shift_ahead [OF sample_laws] by blast

end
