(* ===== verification/Spec2Isabelle.thy ===== *)
theory Spec2Isabelle
  imports Http_Sample App_Further
begin

text \<open>
  A model of goreminder: the services that keep tasks and reminders, announce them to the workers
  through a queue, keep them in step with Google calendars, and hold what belongs to them: users,
  messengers, backlog items, targets, task groups, digests, and imports of calendar files; and the
  server in front of them, from the middleware to the body of a reply.

  \<^bold>\<open>The program.\<close>  Handlers and schedulers call \<open>TaskService\<close> (\<open>internal/service/task_service.go\<close>) and
  \<open>CalendarSyncService\<close> (\<open>internal/service/calendar_sync_service.go\<close>); both work on tables through the
  repositories of \<open>internal/repository\<close>.  The task service publishes \<open>schedule\<close> and \<open>delete\<close> messages
  (\<open>pkg/queue\<close>), writes a history, and tells the calendar service about each change (\<open>OnTaskChanged\<close>).
  The calendar service imports events as tasks, puts exports into an outbox, and works the outbox off
  in the rounds of \<open>calendar_sync_scheduler.go\<close>.  A nightly run moves overdue tasks
  (\<open>task_scheduler.go\<close>).  \<open>UserService\<close> and \<open>MessengerService\<close> keep the accounts, \<open>BacklogService\<close>,
  \<open>TargetService\<close> and \<open>TaskGroupService\<close> simple lists, \<open>DigestService\<close> the settings of digests and the
  digests; \<open>ICSImportService\<close> creates tasks from the events of a file through the task service.  Clients
  reach the services through the handlers of \<open>internal/api/handlers\<close>, behind the middleware and routes
  of \<open>internal/api\<close>; a handler validates, maps the request to a model, calls one service, and maps its
  result or error to a reply.  A user connects a Google account in two requests (\<open>StartOAuth\<close>, the
  callback), whose tokens are stored encrypted (\<open>pkg/crypto\<close>).

  \<^bold>\<open>The theories of the model\<close>, in the order of the code:
  \<^item> \<open>Go_Time\<close>, \<open>Go_Strings\<close>: what the program uses of Go's \<open>time\<close>, \<open>strings\<close> and \<open>strconv\<close>;
  \<^item> \<open>Models\<close>, \<open>Calendar_Models\<close>: the structs of \<open>internal/models\<close> and of the Google client as records;
  \<^item> \<open>Pre_Remind\<close>, \<open>Recurrence\<close>: \<open>task_pre_remind.go\<close> and \<open>task_recurrence.go\<close>, pure functions;
  \<^item> \<open>Queue_Events\<close>: events, messages and their conversion (\<open>pkg/queue\<close>);
  \<^item> \<open>World\<close>: the state of the task service and the statements of the database;
  \<^item> \<open>Task_Repository\<close>: \<open>task_repository.go\<close>; \<open>Collaborators\<close>: what else the task service calls (users,
    messengers, history, links, activity tracker, publisher, calendar hook, attachments);
  \<^item> \<open>Task_Publish\<close>, \<open>Task_Completion\<close>, \<open>Task_Create\<close>, \<open>Task_Update\<close>, \<open>Task_Lifecycle\<close>, \<open>Task_Reschedule\<close>:
    \<open>task_service.go\<close>, one operation of the service a definition with the name of the Go method and
    its stages as smaller definitions; \<open>Task_Queries\<close>: paging and the listing of tasks;
  \<^item> \<open>Service_Machine\<close>: the requests of the task service as a step relation;
  \<^item> \<open>Calendar_Fields\<close>: \<open>calendar_sync_helpers.go\<close> and \<open>calendar_sync_history.go\<close>; \<open>Calendar_Store\<close>: the
    repositories of bindings, accounts, links and the outbox; \<open>Calendar_Import\<close>, \<open>Calendar_Export\<close>:
    \<open>calendar_sync_service.go\<close> and a round of its scheduler; \<open>Calendar_Machine\<close>: both services as one
    step relation;
  \<^item> \<open>App_Models\<close>: the other structs of \<open>internal/models\<close>; \<open>App_Store\<close>: the state of the whole
    application, and the statements the repositories of lists share, written once for a table with
    soft deletion and for a page with its count; \<open>App_People\<close>: \<open>user_repository.go\<close> and
    \<open>messenger_repository.go\<close>; \<open>App_Accounts\<close>: \<open>user_service.go\<close> and \<open>messenger_service.go\<close>;
    \<open>App_Backlogs\<close>, \<open>App_Targets\<close> (targets and task groups), \<open>App_Digests\<close>: the repository and the
    service of each; \<open>App_Ics\<close>: \<open>pkg/ics/parse.go\<close> and \<open>ics_import_service.go\<close>; \<open>App_Machine\<close>: the
    requests of all services as one step relation;
  \<^item> \<open>Token_Cipher\<close>: \<open>pkg/crypto/token_cipher.go\<close>; \<open>Calendar_OAuth\<close>: the connection of an account in
    \<open>calendar_sync_service.go\<close> and \<open>google_account_repository.go\<close>; \<open>Attachments_Client\<close>:
    \<open>pkg/attachments\<close>;
  \<^item> \<open>Http_Validation\<close>: \<open>internal/api/validation\<close>; \<open>Http_Forms\<close>, \<open>Http_Replies\<close>: the structs of
    \<open>internal/api/dto\<close> with their mappers, and the shapes the handlers share (\<open>checked\<close>, \<open>with_body\<close>,
    \<open>answer\<close>); \<open>Http_Tasks\<close>, \<open>Http_People\<close>, \<open>Http_Lists\<close>, \<open>Http_Calendar\<close>: the handlers, \<open>http_\<close> before the
    name of the Go method; \<open>Http_Server\<close>: middleware, routes, and \<open>serve\<close>, one request to its reply;
    \<open>Http_Machine\<close>: the server as a step relation.

  \<^bold>\<open>How a run is modelled.\<close>  An operation is a function from a state to an outcome (a value, an error of
  the kinds of \<open>internal/errors\<close>, or a panic) and a state (\<open>Prelude\<close>).  \<open>bindE\<close> is Go's early return on
  an error, \<open>attempt\<close> looks at the error, \<open>best_effort\<close> logs it, \<open>deferred\<close> is a deferred rollback.
  \<^item> Failures: each call that leaves the process takes the next entry of \<open>faults\<close> and fails if it is true.
    A theorem about all states is about all patterns of failures.  References between tables that the
    model does not keep (to users, groups, messengers) are among these failures.
  \<^item> The clock: each \<open>time.Now()\<close> takes the next entry of \<open>ticks\<close> and moves the clock on by that many
    microseconds; times are nanoseconds since the zero time of Go.
  \<^item> One request runs at a time.  A pooled \<open>UPDATE\<close> of a row that the open transaction of the same request
    holds waits until the request is cancelled; the model returns that error and rolls back.
  \<^item> Integers of the program are mathematical integers except where a product can overflow
    (\<open>duration_of\<close> in \<open>Go_Time\<close> multiplies as 64-bit words) or saturates (\<open>time_Sub\<close>).
  \<^item> Google is the list of its next replies (\<open>replies\<close>).  Go's map order is the parameter \<open>c_range\<close>.

  \<^bold>\<open>Parameters.\<close>  The libraries for cron expressions and recurrence rules are the functions of
  \<open>recur_lib\<close>; the few theorems that need it assume \<open>recur_laws\<close> (the next occurrence, if there is one,
  lies after the given time).  Ordering and letter case of the database are \<open>db_lib\<close> with \<open>db_laws\<close>.
  \<open>standard\<close> is \<open>cron.ParseStandard\<close>, \<open>c_decrypt\<close> the decryption of tokens.  The iCalendar library is
  what it returns for a file, an error or to-dos and events.  The order of a listing is a function of
  the clause and the rows (the fields \<open>a_..._order\<close> of \<open>app_env\<close>).  The predicates of the validation
  libraries are \<open>http_lib\<close>; what \<open>encoding/json\<close> makes of a body is the type \<open>json\<close>, an error or the struct.
  AES-GCM is \<open>gcm\<close> with \<open>gcm_laws\<close> (opening what was sealed gives it back), the OAuth library and Google's
  user information are \<open>oauth_answers\<close>, the attachment service is \<open>grpc_api\<close>, one answer for each request.

  \<^bold>\<open>Lemmas.\<close>  A relation between states is followed through every operation once, inside locales that
  name what the relation has to allow (\<open>run_preorder\<close> in \<open>Prelude\<close>, the locales of \<open>Runs\<close> and
  \<open>Calendar_Runs\<close>); the interpretations give the theorems:
  \<^item> \<open>Runs\<close>: rows keep their identity, logs only grow, no transaction stays open; \<open>Task_Store\<close>: what a
    statement writes, on the pool and in a transaction, behind one interface;
  \<^item> \<open>Task_Invariant\<close>: every stored task has at most one rule, a valid status and reminder;
    \<open>Service_Machine\<close>: this holds in every reachable state of the task service;
  \<^item> \<open>Task_Atomicity\<close>: an operation that returns an error has written no task; \<open>Task_Results\<close>: what the
    operations leave when they return;
  \<^item> \<open>Calendar_Invariant\<close>, \<open>Calendar_Machine\<close>: the unique keys of links, bindings and items in every
    reachable state of both services; \<open>Calendar_Outbox\<close>: a round of the outbox; \<open>Calendar_Results\<close>,
    \<open>Calendar_Enqueue\<close>, \<open>Calendar_Removal\<close>, \<open>Calendar_Echo\<close>: single operations of the calendar service;
    \<open>Calendar_Translation\<close>: the translations between tasks and events;
  \<^item> \<open>App_Frame\<close>, \<open>App_Runs\<close>: which operation of the application touches which part of the state, as
    locales over relations between states; \<open>App_Invariant\<close>, \<open>App_Users\<close>: the invariants of the lists,
    the digest settings and the accounts, by interpretation of these locales; \<open>App_Machine\<close>: all
    invariants in every reachable state of the application, and how its tables grow;
  \<^item> \<open>App_Lists\<close>: a table with soft deletion implements a finite map, proved once in the locale
    \<open>table_laws\<close> for backlog items, targets and groups; batches of items; \<open>App_Deletion\<close>: the deletion
    of users and groups; \<open>App_Contents\<close>: digests, duplicate settings, the import of a file;
  \<^item> \<open>Http_Runs\<close>: the relations of \<open>App_Runs\<close> followed through every handler, handlers that only read
    apart (\<open>http_reads\<close>, \<open>http_run\<close>); \<open>Http_Machine\<close>: its interpretations, so that the invariants hold in
    every state the server reaches; \<open>Http_Status\<close>: the statuses of every route; \<open>Http_Dates\<close>: the text of
    an instant; \<open>Http_Results\<close>: what replies say of the state;
  \<^item> \<open>Further_Results\<close>, \<open>App_Further\<close>: more theorems about the services, each instantiated;
  \<^item> \<open>Sample_State\<close>, \<open>Calendar_Sample\<close>, \<open>App_Sample\<close>, \<open>Http_Sample\<close>: small states at which theorems with
    hypotheses are instantiated.

  The invariant of \<open>Task_Invariant\<close> is proved for the task service alone: the import of an event can
  store two rules (\<open>import_stores_two_rules\<close>).

  \<^bold>\<open>Bounds and fuel.\<close>  Every loop of the program is structural, has a measure (\<open>advance_days\<close>), or is bounded
  by the code (\<open>purge_attempts\<close>, \<open>user_purge_attempts\<close>).  The one exception is the loop over the pages of a calendar, which
  runs with fuel: each round takes a reply of Google, and \<open>import_rounds_suffice\<close> shows that one round
  more than there are replies is enough.

  \<^bold>\<open>Not modelled\<close>: logging, audit logs, metrics and tracing, which nothing reads back; the text of JSON;
  the matching of a path against the patterns of the routes, and the token bucket of the rate limiter
  (both are libraries); the calls of the Google client beyond their answers; configuration, database
  and start-up.  The generated code (\<open>docs\<close>, \<open>api/gen\<close>) and the mocks are left out.  The widths of text
  columns are not checked.
\<close>

subsection \<open>Every reachable state\<close>

text \<open>C1: In every state the service can reach from an empty table, whatever requests were served, whatever
  failed on the way: no transaction is open, the keys of the tasks are distinct and below the next
  key, and every stored task has at most one recurrence rule, a preliminary reminder within the cap
  and one of the six statuses.\<close>

theorem reachable_store:
  assumes "reachable E w"
  shows "tx w = None \<and> distinct (map row_id (tasks w)) \<and>
    (\<forall>r \<in> set (tasks w). row_id r < next_id w \<and>
       \<not> (recurrenceFieldSet (CronExpression (r_task r)) \<and> recurrenceFieldSet (RRule (r_task r))) \<and>
       pre_remind_ok (PreRemindBeforeSeconds (r_task r)) \<and> IsValid (Status (r_task r)))"
  using reachable_inv [OF assms]
  by (auto simp: machine_inv_def store_wf_def store_ok_def rows_ok_def task_ok_def)

theorem reachable_store_witness: "distinct (map row_id (tasks first_world)) \<and> tx first_world = None"
  using reachable_store [OF first_world_reachable] by blast

subsection \<open>An error leaves the table as it was\<close>

text \<open>C3: An update that returns an error has not changed a single row, also when the task is a recurrence
  parent whose children are synchronised and whose publishing helpers write on the pool while the
  transaction is open.\<close>

theorem update_error_keeps_tasks:
  assumes "UpdateTask E i u w = (Err e, w')"
  shows "tasks w' = tasks w"
  using unchanged_UpdateTask assms by (rule unchangedD)

theorem update_error_keeps_tasks_witness:
  "tasks (snd (UpdateTask sample_env 1 (no_update\<lparr>u_Status := Some ''x''\<rparr>) sample_world)) = tasks sample_world"
  using failed_run [OF sample_update_bad] update_error_keeps_tasks by blast

text \<open>C12: A delete that returns an error has deleted nothing: the row, the children and their delete messages
  are in one transaction that ends with the messages.\<close>

theorem delete_error_keeps_tasks:
  assumes "DeleteTask E i w = (Err e, w')"
  shows "tasks w' = tasks w"
  using unchanged_DeleteTask assms by (rule unchangedD)

theorem delete_error_keeps_tasks_witness:
  "tasks (snd (DeleteTask sample_env 9 sample_world)) = tasks sample_world"
  using failed_run [OF sample_delete_missing] delete_error_keeps_tasks by blast

subsection \<open>What an operation has done when it returns\<close>

text \<open>C5: A delete that returns has marked the row as deleted, and before it, when the task has a recurrence
  rule, every live child; no other row is touched.  The workers were sent one delete message per
  child and one for the task, in that order, and nothing else.\<close>

theorem delete_result:
  assumes "DeleteTask E i w = (Ok (), w')" and "hasDB E" and "distinct (map row_id (tasks w))"
  shows "\<exists>old \<in> set (tasks w). live old \<and> row_id old = i \<and>
    (\<exists>n1 n2. tasks w' = update_rows (\<lambda>r. live r \<and> row_id r = i) (soft_delete n2)
       (if hasRecurrenceRule (r_task old)
        then update_rows (\<lambda>r. live r \<and> ParentID (r_task r) = Some i) (soft_delete n1) (tasks w)
        else tasks w)) \<and>
    (producer E = Producer \<longrightarrow> (\<exists>n1 n2. queue w' = queue w @
       map (\<lambda>c. ToTaskMessage (delete_event c n1)) (kids_of (r_task old) (tasks w)) @
       [ToTaskMessage (delete_event i n2)]))"
proof -
  have kid: "child_of j = (\<lambda>r. live r \<and> ParentID (r_task r) = Some j)" for j
    by (rule ext) (simp add: child_of_def)
  obtain old where old: "old \<in> set (tasks w)" "live old" "row_id old = i"
    and rest: "\<exists>n1 n2. tasks w' = update_rows (\<lambda>r. live r \<and> row_id r = i) (soft_delete n2)
       (kids_deleted (r_task old) n1 (tasks w))"
      "producer E = Producer \<longrightarrow> (\<exists>n1 n2. queue w' = queue w @
         map (delete_message n1) (kids_of (r_task old) (tasks w)) @ [delete_message n2 i])"
    using DeleteTask_Ok [OF assms] by blast
  have "kids_deleted (r_task old) n (tasks w) = (if hasRecurrenceRule (r_task old)
      then update_rows (\<lambda>r. live r \<and> ParentID (r_task r) = Some i) (soft_delete n) (tasks w) else tasks w)" for n
    using old(3) by (simp add: kids_deleted_def kid row_id_def)
  moreover have "delete_message n = (\<lambda>c. ToTaskMessage (delete_event c n))" for n
    by (rule ext) (simp add: delete_message_def)
  ultimately show ?thesis using old rest by (intro bexI [of _ old]) simp_all
qed

theorem delete_result_witness:
  "\<exists>n1 n2. queue (snd (DeleteTask sample_env 2 sample_world)) =
     [ToTaskMessage (delete_event 3 n1), ToTaskMessage (delete_event 2 n2)]"
proof -
  have env: "hasDB sample_env" "producer sample_env = Producer" "queue sample_world = []"
    by (simp_all add: sample_env_def sample_world_def)
  obtain old where old: "old \<in> set (tasks sample_world)" "row_id old = 2"
    and q: "\<exists>n1 n2. queue (snd (DeleteTask sample_env 2 sample_world)) = queue sample_world @
      map (\<lambda>c. ToTaskMessage (delete_event c n1)) (kids_of (r_task old) (tasks sample_world)) @
      [ToTaskMessage (delete_event 2 n2)]"
    using delete_result [OF ok_run [OF sample_delete_parent] env(1) sample_ids] env(2) by blast
  have "old = sample_row sample_parent" using old by (auto simp: sample_defs row_id_def)
  then have "kids_of (r_task old) (tasks sample_world) = [3]"
    using sample_rule by (simp add: kids_of_def hasRecurrenceRule_def child_of_def live_def row_id_def sample_defs)
  then show ?thesis using q env(3) by simp
qed



text \<open>C7: A completion that returns has left the task's row with the status \<open>done\<close>, whatever happened after
  the commit, to the next child, to the children of the task or to its attachments.\<close>

theorem done_result:
  assumes "MarkTaskAsDone E i b w = (Ok t', w')" and "distinct (map row_id (tasks w))"
    and "\<And>r. r \<in> set (tasks w) \<Longrightarrow> row_id r = i \<Longrightarrow> ParentID (r_task r) \<noteq> Some i"
  shows "ID t' = i \<and> Status t' = TaskStatusDone \<and>
    (\<exists>r \<in> set (tasks w'). row_id r = i \<and> Status (r_task r) = TaskStatusDone)"
  by (rule MarkTaskAsDone_Ok [OF assms])

theorem done_result_witness:
  "\<exists>r \<in> set (tasks (snd (MarkTaskAsDone sample_env 1 None sample_world))).
     row_id r = 1 \<and> Status (r_task r) = TaskStatusDone"
proof -
  have own: "ParentID (r_task r) \<noteq> Some 1" if "r \<in> set (tasks sample_world)" "row_id r = 1" for r
    using that by (auto simp: sample_defs row_id_def)
  obtain t where "fst (MarkTaskAsDone sample_env 1 None sample_world) = Ok t" using sample_done by blast
  from done_result [OF ok_run [OF this] sample_ids own] show ?thesis by blast
qed

text \<open>C6: The transaction of a completion: when it commits, the row of the task, the row of its moved series
  and the delete message are all there.\<close>

theorem done_together:
  assumes "done_in_tx E t shift w = (Ok (), w')" and "tx w = Some []" and "distinct (map row_id (tasks w))"
  shows "(\<exists>n1 n2. tasks w' =
      (case shift of None \<Rightarrow> (\<lambda>rs. rs)
       | Some s \<Rightarrow> update_rows (\<lambda>r. live r \<and> row_id r = ID (ps_parent s)) (set_columns (shifted_parent s) n2))
      (update_rows (\<lambda>r. live r \<and> row_id r = ID t) (set_columns t n1) (tasks w))) \<and>
    (producer E = Producer \<longrightarrow> (\<exists>n. queue w' = queue w @ [ToTaskMessage (delete_event (ID t) n)]))"
proof -
  have "tx_table w = tasks w" using assms(2) by (simp add: tx_table_def tx_view_def map_idI)
  from done_in_tx_Ok [OF assms(1) this assms(3)] show ?thesis
    unfolding shifted_parent_ID delete_message_def by blast
qed

theorem done_together_witness:
  "\<exists>n. queue (snd (done_in_tx sample_env sample_task None (sample_world\<lparr>tx := Some []\<rparr>))) =
     [ToTaskMessage (delete_event 1 n)]"
proof -
  have w: "tx (sample_world\<lparr>tx := Some []\<rparr>) = Some []" "producer sample_env = Producer"
    "distinct (map row_id (tasks (sample_world\<lparr>tx := Some []\<rparr>)))" "queue sample_world = []" "ID sample_task = 1"
    using sample_ids by (simp_all add: sample_env_def) (simp_all add: sample_defs)
  show ?thesis
    using done_together [OF ok_run [OF sample_done_in_tx] w(1,3)] w(2,4,5) by simp
qed

text \<open>Completing a task that is done already changes nothing and sends nothing.\<close>

theorem done_twice:
  assumes "calm w" and "distinct (map row_id (tasks w))" and "r \<in> set (tasks w)" and "live r"
    and "Status (r_task r) = TaskStatusDone"
  shows "MarkTaskAsDone E (row_id r) b w = (Ok (r_task r), w)"
  using MarkTaskAsDone_done [OF prod.collapse [symmetric] get_row(1) [OF assms(1-4) refl] assms(5)]
  by (metis prod.collapse)

theorem done_twice_witness:
  "MarkTaskAsDone sample_env 4 None done_world = (Ok (r_task (sample_row done_sample)), done_world)"
proof -
  have w: "calm done_world" "distinct (map row_id (tasks done_world))"
    "sample_row done_sample \<in> set (tasks done_world)" "live (sample_row done_sample)"
    "Status (r_task (sample_row done_sample)) = TaskStatusDone" "row_id (sample_row done_sample) = 4"
    by (simp_all add: calm_def done_world_def done_sample_def sample_defs row_id_def live_def)
  show ?thesis using done_twice [OF w(1-5)] w(6) by simp
qed

subsection \<open>Rescheduling and scheduling\<close>



text \<open>Rescheduling a batch of overdue tasks never returns an error: the failure of one task does not keep
  the others from being tried.\<close>

theorem reschedule_batch_total:
  "fst (RescheduleTasks E ts w) \<noteq> Err e"
  using total_RescheduleTasks by (metis prod.collapse totalD)





subsection \<open>Following the completion date\<close>

text \<open>C15: A shift of a series to the completion date is prepared only for the live, unfinished recurrence
  parent with confirmation of the task, when the parent is not linked to a calendar and has no other
  active child; the shift is the one computed from the parent and the clock of the completed task.\<close>

theorem prepared_shift:
  assumes "prepareCompletionShift E t at w = (Ok s, w')"
  shows "\<exists>p. ParentID t = Some p \<and>
    (\<exists>r \<in> set (tasks w). live r \<and> row_id r = p \<and> r_task r = ps_parent s) \<and>
    Status (ps_parent s) \<noteq> TaskStatusDone \<and> isRecurrenceParentWithConfirmation (ps_parent s) \<and>
    (\<forall>c \<in> set (tasks w). live c \<and> ParentID (r_task c) = Some p \<and> row_id c \<noteq> ID t \<longrightarrow> \<not> active_child (r_task c)) \<and>
    (syncLinks E \<longrightarrow> (\<forall>l \<in> set (sync_links w). l_TaskID l \<noteq> p)) \<and>
    (\<exists>sh. shiftRecurrenceFromCompletion (lib E) (ps_parent s)
            (if IsZero (StartDate t) then StartDate (ps_parent s) else StartDate t) at = Ok sh \<and>
          ps_anchor s = cs_Anchor sh \<and> ps_nextStart s = cs_NextStart sh \<and> ps_cron s = cs_Cron sh \<and>
          ps_rrule s = cs_RRule sh)"
  using prepareCompletionShift_Ok [OF assms] by (simp add: child_of_def)

theorem prepared_shift_witness:
  "\<exists>s. fst (prepareCompletionShift sample_env sample_child (day_number_of 200) sample_world) = Ok s \<and>
     ParentID sample_child = Some 2 \<and> isRecurrenceParentWithConfirmation (ps_parent s)"
proof -
  obtain s where s: "fst (prepareCompletionShift sample_env sample_child (day_number_of 200) sample_world) = Ok s"
    using sample_prepare by blast
  have "ParentID sample_child = Some 2" by (simp add: sample_child_def)
  then show ?thesis using prepared_shift [OF ok_run [OF s]] s by blast
qed

text \<open>The anchor of a moved series is on the calendar day of the completion and has the time of day of
  the completed task.\<close>

theorem anchor_day_and_clock:
  "day_number (completionAnchor at clk) = day_number at \<and>
   Clock_Hour (completionAnchor at clk) = Clock_Hour clk \<and>
   Clock_Minute (completionAnchor at clk) = Clock_Minute clk \<and>
   Clock_Second (completionAnchor at clk) = Clock_Second clk"
  by (simp add: completionAnchor_day completionAnchor_hour completionAnchor_minute completionAnchor_second)

text \<open>A moved cron expression can be moved again, and to any instant of the same day it moves to itself.\<close>

theorem moved_cron_stable:
  assumes "shiftCronFromCompletion expr anchor = Some e" and "day_number a = day_number anchor"
  shows "shiftCronFromCompletion e a = Some e"
  by (rule shiftCron_stable [OF assms])

theorem moved_cron_stable_witness:
  "shiftCronFromCompletion ''30 9 * * 2'' (day_ns + hour_ns) = Some ''30 9 * * 2''"
proof -
  have "day_number (day_ns + hour_ns) = day_number day_ns"
    by (simp add: day_number_def time_units)
  with sample_moved show ?thesis by (rule moved_cron_stable)
qed

subsection \<open>Messages, reminders, activity, attachments\<close>

text \<open>C36: A worker that reads a schedule message by position gets back everything the event said but the
  owner: the optional preliminary reminder is there exactly when it is positive.\<close>

theorem schedule_roundtrip:
  "decode_schedule (ToTaskMessage (schedule_event t n chat)) =
     Some ((schedule_event t n chat)\<lparr>ev_UserID := 0,
       ev_PreRemindBeforeSeconds := (case PreRemindBeforeSeconds t of
          Some k \<Rightarrow> if k > 0 then Some k else None | None \<Rightarrow> None)\<rparr>) \<and>
   decode_delete (ToTaskMessage (delete_event i n)) = Some (i, n)"
  using decode_ToTaskMessage [of "schedule_event t n chat"] decode_delete_ToTaskMessage [of "delete_event i n"]
  by (simp add: schedule_event_def delete_event_def)

text \<open>Telling the tracker about a user's request, whatever tracker it is and whatever fails, never lowers
  anybody's last activity and changes nothing else about a user.\<close>

theorem activity_monotone:
  assumes "touchUserActivity a i w = (r, w')"
  shows "list_all2 (\<lambda>u v. ur_deleted v = ur_deleted u \<and> user_ID (ur_user v) = user_ID (ur_user u) \<and>
     (\<forall>t. user_LastActivityAt (ur_user u) = Some t \<longrightarrow>
        (\<exists>t'. user_LastActivityAt (ur_user v) = Some t' \<and> t \<le> t'))) (users w) (users w')"
  using touchUserActivity_raises [OF assms]
  by (rule list.rel_mono_strong) (auto simp: activity_le_def split: option.splits)

theorem activity_monotone_witness:
  "length (users (snd (touchUserActivity (Some PostgresActivityTracker) 7 sample_world))) = length (users sample_world)"
  using list_all2_lengthD [OF activity_monotone [OF prod.collapse [symmetric]]] by simp

text \<open>Purging the attachments of a task never fails its caller; the attachment service is asked until it
  takes the request, and after three failures no more.\<close>

theorem purge_three_times:
  assumes "\<not> cancelled w" and "attachments E"
  shows "fst (purgeAttachmentsBestEffort E i cs w) = Ok () \<and>
    purges (snd (purgeAttachmentsBestEffort E i cs w)) =
      purges w @ (if length (faults w) \<ge> 3 \<and> list_all id (take 3 (faults w)) then [] else [(i, cs)])"
  using purge_three [OF assms(1)] assms(2) by (simp add: purgeAttachmentsBestEffort_def)

theorem purge_three_times_witness:
  "purges (snd (purgeAttachmentsBestEffort sample_env 1 [] (sample_world\<lparr>faults := [True, True, False]\<rparr>))) = [(1, [])]"
  using purge_three_times [of "sample_world\<lparr>faults := [True, True, False]\<rparr>" sample_env 1 "[]"]
  by (simp add: sample_env_def sample_world_def)

subsection \<open>The database\<close>



text \<open>C40: Searching a title with the escaped pattern finds exactly the titles that contain the text, letter
  case aside, also when the text has the wild cards or the escape character of \<open>LIKE\<close> in it.\<close>

theorem search_contains:
  assumes "db_laws D"
  shows "ilike D (''%'' @ escapeLikePattern t @ ''%'') s \<longleftrightarrow>
    (\<exists>a b. map (lower_char D) s = a @ map (lower_char D) t @ b)"
  by (rule ilike_contains [OF assms])

theorem search_contains_witness:
  "ilike sample_db (''%'' @ escapeLikePattern ''50%'' @ ''%'') ''save 50% now''"
proof -
  have "\<exists>a b. map (lower_char sample_db) ''save 50% now'' = a @ map (lower_char sample_db) ''50%'' @ b"
    by (rule exI [of _ "''save ''"], rule exI [of _ "'' now''"]) (simp add: sample_db_def)
  then show ?thesis using search_contains [OF sample_db_laws, of "''50%''" "''save 50% now''"] by blast
qed

text \<open>Whatever order a caller asks for, the clause that is sent begins with it (or with the default) and
  sorts by the key in the end, so that the order is total.\<close>

theorem order_has_key:
  "orderByIncludesColumn (stableOrderBy s) ''id'' \<and>
   prefix (if trim_space s = [] then ''created_at DESC'' else trim_space s) (stableOrderBy s)"
  by (simp add: stableOrderBy_id stableOrderBy_prefix)

subsection \<open>Calendar synchronisation\<close>

text \<open>C17: In every state that the task service and the calendar service reach together from empty tables,
  whatever was requested, whatever Google replied and whatever failed: no transaction is open, no two
  links name the same event of a calendar, every link names a task row, an account has a calendar
  bound at most once, and every outbox item has one of the four statuses and fewer than eight failed
  attempts behind it.\<close>

theorem calendar_reachable_state:
  assumes "cal_reachable S E v"
  shows "tx (core v) = None \<and> distinct (map row_id (tasks (core v))) \<and>
    distinct (map event_key (links v)) \<and>
    (\<forall>l \<in> set (links v). \<exists>r \<in> set (tasks (core v)). row_id r = l_TaskID l) \<and>
    distinct (map (\<lambda>b. (cb_GoogleAccountID b, cb_GoogleCalendarID b)) (bindings v)) \<and>
    (\<forall>x \<in> set (outbox v). ob_Attempts x < maxOutboxAttempts \<and>
       ob_Status x \<in> {SyncOutboxStatusPending, SyncOutboxStatusProcessing, SyncOutboxStatusDone,
                      SyncOutboxStatusFailed})"
  using cal_reachable_inv [OF assms]
  by (fastforce simp: cal_inv_def cal_wf_def store_wf_def links_wf_def bindings_wf_def outbox_wf_def item_ok_def)

theorem calendar_reachable_state_witness: "distinct (map event_key (links first_cal))"
  using calendar_reachable_state [OF first_cal_reachable] by blast

text \<open>C20: One round of the outbox takes the first fifty items that wait and are due, in the order of their
  keys, and touches no other: an item that is done, failed or being processed stays as it is.  A
  taken item is done, waits for its next attempt with one more attempt counted and the delay of that
  attempt kept, has failed for good after the eighth, or is still being processed because the last
  write failed.  No task, no binding and no account changes and nothing is queued.\<close>

theorem outbox_round:
  assumes "ProcessOutbox E v = (r, v')" and "distinct (map ob_ID (outbox v))"
  shows "tasks (core v') = tasks (core v) \<and> queue (core v') = queue (core v) \<and> bindings v' = bindings v \<and>
    accounts v' = accounts v \<and> length (outbox v') = length (outbox v) \<and>
    (outbox v' = outbox v \<or>
     (\<exists>now. clock (core v) \<le> now \<and> now \<le> clock (core v') \<and>
        (\<forall>k < length (outbox v).
           if outbox v ! k \<in> set (outbox_batch now (outbox v))
           then attempted (clock (core v)) (clock (core v')) (outbox v ! k) (outbox v' ! k)
           else outbox v' ! k = outbox v ! k)))"
  using ProcessOutbox_run [OF assms] by (simp add: no_task_written_def)

theorem outbox_round_witness:
  "tasks (core (snd (ProcessOutbox sample_cal_env sample_cal))) = tasks cal_core"
  using outbox_round [OF surjective_pairing sample_cal_ids(2), of sample_cal_env] by (simp add: sample_cal_def)

text \<open>C21: What a change of a live top-level task puts into the outbox: every binding of the owner that
  exports and accepts the group of the task gets an item, an upsert goes only to a binding that
  exports and never after a deletion, and no binding gets both an upsert and a delete.\<close>

theorem export_targets:
  assumes "EnqueueExport E i action v = (Ok (), v')"
    and "row \<in> set (tasks (core v))" "live row" "row_id row = i" "distinct (map row_id (tasks (core v)))"
    and "ParentID (r_task row) = None" and "\<And>xs. set (c_range E xs) = set xs"
  shows "\<exists>new. outbox v' = outbox v @ new \<and>
    (\<forall>b \<in> set (bindings v). cb_UserID b = UserID (r_task row) \<and> binding_live b \<and>
       bindingAllowsTaskExport (cb_Direction b) \<and> taskMatchesExportBindingGroup (r_task row) b \<longrightarrow>
       (OutboxKindExportUpsert, cb_ID b) \<in> targets new \<or> (OutboxKindExportDelete, cb_ID b) \<in> targets new) \<and>
    (\<forall>j. (OutboxKindExportUpsert, j) \<in> targets new \<longrightarrow>
       action \<noteq> ''deleted'' \<and> j \<in> export_ids v \<and> (OutboxKindExportDelete, j) \<notin> targets new)"
  using EnqueueExport_run [OF assms] by (auto simp: wanting_def)

theorem export_targets_witness:
  "\<exists>new. outbox (snd (EnqueueExport sample_cal_env 1 ''updated'' sample_cal)) = outbox sample_cal @ new \<and>
    ((OutboxKindExportUpsert, 1) \<in> targets new \<or> (OutboxKindExportDelete, 1) \<in> targets new)"
  using export_targets [OF ok_run [OF sample_export], of "sample_row sample_task"]
  by (auto simp: sample_cal_defs sample_defs live_def row_id_def bindingAllowsTaskExport_def
      taskMatchesExportBindingGroup_def binding_live_def direction_defs)

text \<open>C22: When removing a binding succeeds, the binding is gone, and under the default delete policy no task
  that was imported through it is live any more.\<close>

theorem removed_binding:
  assumes "DeleteBinding E i v = (Ok (), v')" and "cal_wf v"
  shows "(\<forall>b \<in> set (bindings v'). cb_ID b = i \<longrightarrow> \<not> binding_live b) \<and>
    (\<exists>b \<in> set (bindings v). cb_ID b = i \<and> binding_live b \<and>
      (cb_DeletePolicy b \<noteq> CalendarDeletePolicyMuteImported \<and> cb_DeletePolicy b \<noteq> CalendarDeletePolicyKeep \<longrightarrow>
        (\<forall>l \<in> set (links v). l_CalendarBindingID l = Some i \<and> l_Origin l = TaskSyncLinkOriginImported \<longrightarrow>
           (\<forall>r \<in> set (tasks (core v')). row_id r = l_TaskID l \<longrightarrow> \<not> live r))))"
  using DeleteBinding_run [OF assms] by (auto simp: soft_policy_def task_gone_def)

theorem removed_binding_witness:
  "filter (\<lambda>r. row_id r = 1 \<and> live r) (tasks (core (snd (DeleteBinding sample_cal_env 1 sample_cal)))) = []"
  using removed_binding [OF ok_run [OF sample_remove_binding] sample_cal_wf]
  by (auto simp: sample_cal_defs sample_defs links_def policy_defs filter_empty_conv)









subsection \<open>Users, lists, digests and files\<close>

text \<open>C18: In every state the server can reach from empty tables, whatever clients requested, whatever the
  application did on its own and whatever failed: identifiers of users, names of messengers and the triples of user, messenger and
  chat are unique; every chat names a user and a messenger there are; and a chat that is not deleted
  belongs to a user who is not deleted, although the chats and the user are deleted by two statements.\<close>

theorem app_accounts:
  assumes "http_reachable cfg V u"
  shows "distinct (map fst (user_ids (app_core u))) \<and> distinct (map m_Name (messengers (app_core u))) \<and>
    distinct (map (chat_key \<circ> um_related) (user_messengers (app_core u))) \<and>
    (\<forall>c \<in> set (user_messengers (app_core u)). \<exists>i l. \<exists>m \<in> set (messengers (app_core u)).
       mru_UserID (um_related c) = Some i \<and> (i, l) \<in> set (user_ids (app_core u)) \<and> (um_deleted c \<or> l) \<and>
       mru_MessengerID (um_related c) = Some (m_ID m))"
  using http_reachable_inv [OF assms]
  unfolding app_inv_def people_wf_def users_wf_def messengers_wf_def chats_wf_def chat_placed_def by blast

theorem app_accounts_witness:
  "\<exists>c \<in> set (user_messengers (app_core served_app)). mru_UserID (um_related c) = Some 1 \<and>
     (1, True) \<in> set (user_ids (app_core served_app)) \<and> distinct (map (chat_key \<circ> um_related) (user_messengers (app_core served_app)))"
proof -
  obtain c where "c \<in> set (user_messengers (app_core served_app))" "mru_UserID (um_related c) = Some 1"
    using served_app_rows(3) by (cases "user_messengers (app_core served_app)") auto
  moreover have "distinct (map (chat_key \<circ> um_related) (user_messengers (app_core served_app)))"
    unfolding served_app_def using app_accounts [OF served_http] by blast
  ultimately show ?thesis using served_app_rows(1) by auto
qed

text \<open>C32: In every state the server can reach the settings of digests hold times of day only, an hour below 24 and a
  minute below 60, with at most one row for a user and a chat; every task group has a name; and the
  keys of backlog items, targets and groups are unique, deleted rows counted.\<close>

theorem stored_lists_typed:
  assumes "http_reachable cfg V u"
  shows "(\<forall>d \<in> set (digest_rows u). \<exists>h m h' m'.
      parse_clock (ds_WeekdayTime d) = Some (h, m) \<and> 0 \<le> h \<and> h < 24 \<and> 0 \<le> m \<and> m < 60 \<and>
      parse_clock (ds_WeekendTime d) = Some (h', m') \<and> 0 \<le> h' \<and> h' < 24 \<and> 0 \<le> m' \<and> m' < 60) \<and>
    distinct (map digest_key (digest_rows u)) \<and> (\<forall>g \<in> set (group_rows u). gr_Name (s_item g) \<noteq> []) \<and>
    distinct (map (bl_ID \<circ> s_item) (backlog_rows u)) \<and> distinct (map (tg_ID \<circ> s_item) (target_rows u)) \<and>
    distinct (map (gr_ID \<circ> s_item) (group_rows u))"
proof -
  have wf: "lists_wf u" using http_reachable_inv [OF assms] by (simp add: app_inv_def)
  have "\<exists>h m. parse_clock s = Some (h, m) \<and> 0 \<le> h \<and> h < 24 \<and> 0 \<le> m \<and> m < 60" if "parse_clock s \<noteq> None" for s
    using that parse_clock_bounds [of s] by force
  then show ?thesis using wf
    by (simp add: lists_wf_def digests_wf_def digest_ok_def soft_wf_def backlog_table_def target_table_def group_table_def)
qed

theorem stored_lists_typed_witness:
  "\<exists>d \<in> set (digest_rows served_app). parse_clock (ds_WeekdayTime d) \<noteq> None"
proof -
  obtain d where d: "d \<in> set (digest_rows served_app)"
    using served_app_rows(4) by (cases "digest_rows served_app") auto
  then show ?thesis using stored_lists_typed [OF served_http [of _ "take 4 sample_requests"]]
    unfolding served_app_def by (metis option.distinct(1))
qed

text \<open>C31: When a limit of users is set and requests run one after the other, no state the server can reach has more
  users than the limit that are not deleted: a registration counts them before it inserts, and all
  other requests leave the number of users as it is or lower it.\<close>

theorem user_limit:
  assumes "http_reachable cfg V u" and "0 < maxUsers (sv_app V)"
  shows "live_count u \<le> maxUsers (sv_app V)"
  using http_reachable_inv [OF assms(1)] assms(2) by (simp add: app_inv_def within_limit_def)

theorem user_limit_witness:
  "live_count (served [AppCreateUser sample_person, AppCreateUser sample_person] empty_app) \<le> 1"
proof -
  have limit: "maxUsers (sv_app sample_server) = 1" by (simp add: sample_server_def sample_app_env_def)
  then have "0 < maxUsers (sv_app sample_server)" by (simp only:)
  from user_limit [OF served_http this] show ?thesis by (simp only: limit)
qed

text \<open>C33: From a state the server can reach on, however long it runs: backlog items, targets and groups keep
  their place and key, and one that was deleted is never changed again; a user keeps the identifier
  and stays deleted once deleted; a chat keeps user, messenger and chat and stays deleted; messengers
  never change.\<close>

theorem app_rows_survive:
  assumes "http_reachable cfg V u" and "(http_step cfg V)\<^sup>*\<^sup>* u u'"
  shows "grows (\<lambda>x y. bl_ID (s_item y) = bl_ID (s_item x) \<and> (s_deleted_at x \<noteq> None \<longrightarrow> y = x)) (backlog_rows u) (backlog_rows u') \<and>
    grows (\<lambda>x y. tg_ID (s_item y) = tg_ID (s_item x) \<and> (s_deleted_at x \<noteq> None \<longrightarrow> y = x)) (target_rows u) (target_rows u') \<and>
    grows (\<lambda>x y. gr_ID (s_item y) = gr_ID (s_item x) \<and> (s_deleted_at x \<noteq> None \<longrightarrow> y = x)) (group_rows u) (group_rows u') \<and>
    grows (\<lambda>x y. fst y = fst x \<and> (snd y \<longrightarrow> snd x)) (user_ids (app_core u)) (user_ids (app_core u')) \<and>
    grows (\<lambda>c d. um_related d = um_related c \<and> (um_deleted c \<longrightarrow> um_deleted d))
      (user_messengers (app_core u)) (user_messengers (app_core u')) \<and>
    grows (=) (messengers (app_core u)) (messengers (app_core u'))"
  using http_steps_grow [OF assms(2) http_reachable_inv [OF assms(1)]]
  by (simp add: app_grows_def soft_le_def soft_row_le_def [abs_def] s_live_def id_le_def [abs_def] chat_le_def [abs_def]
      backlog_table_def target_table_def group_table_def)

theorem app_rows_survive_witness:
  "\<exists>l. user_ids (app_core (served [AppDeleteUser 1] served_app)) ! 0 = (1, l)"
proof -
  have "grows (\<lambda>x y. fst y = fst x \<and> (snd y \<longrightarrow> snd x)) (user_ids (app_core served_app))
      (user_ids (app_core (served [AppDeleteUser 1] served_app)))"
    using app_rows_survive [OF served_http [of _ "take 4 sample_requests", folded served_app_def] served_http_steps] by blast
  then have "fst (user_ids (app_core (served [AppDeleteUser 1] served_app)) ! 0) = 1"
    by (simp add: grows_def served_app_rows(1))
  then show ?thesis by (metis prod.collapse)
qed

text \<open>C19: The deletion of a user that returns has marked the user and every chat of the user and no other;
  it has deleted no task but those \<open>GetTasksByUserID\<close> lists, and if no call failed it has deleted all of
  these.  A recurrence parent is not among them: it stays as it is, and so do the backlog items,
  targets, groups, digest settings and calendar bindings.\<close>

theorem delete_user_result:
  assumes "DeleteUser F i u = (Ok (), u')" and "distinct (map row_id (tasks (app_core u)))"
  shows "(i, True) \<in> set (user_ids (app_core u)) \<and>
    user_ids (app_core u') = map (\<lambda>x. if fst x = i then (i, False) else x) (user_ids (app_core u)) \<and>
    user_messengers (app_core u') = user_messengers (drop_chats i (app_core u)) \<and>
    list_all2 (\<lambda>r r'. r' = r \<or> live r \<and> UserID (r_task r) = i \<and>
        ((CronExpression (r_task r) = None \<and> RRule (r_task r) = None) \<or> ParentID (r_task r) \<noteq> None) \<and>
        (\<exists>now. r' = soft_delete now r)) (tasks (app_core u)) (tasks (app_core u')) \<and>
    (at_rest (app_core u) \<longrightarrow> (\<forall>r \<in> set (tasks (app_core u')). \<not> listed_task i r)) \<and>
    backlog_rows u' = backlog_rows u \<and> target_rows u' = target_rows u \<and> group_rows u' = group_rows u \<and>
    digest_rows u' = digest_rows u \<and> bindings (cal u') = bindings (cal u)"
  using DeleteUser_Ok [OF assms(1)] user_left_rows [OF DeleteUser_Ok(4) [OF assms(1)] assms(2)]
  by (simp add: without_user_def user_left_def cal_left_def listed_task_def)

theorem delete_user_result_witness:
  "\<exists>r \<in> set (tasks (app_core (snd (DeleteUser sample_app_env 7 sample_app)))). live r \<and> UserID (r_task r) = 7"
proof -
  let ?u = "snd (DeleteUser sample_app_env 7 sample_app)"
  have ids: "distinct (map row_id (tasks (app_core sample_app)))" using sample_ids by (simp add: sample_app_def)
  have rows: "tasks (app_core sample_app) ! 1 = sample_row sample_parent" "length (tasks (app_core sample_app)) = 3"
    by (simp_all add: sample_app_def sample_world_def)
  have "list_all2 (\<lambda>r r'. r' = r \<or> live r \<and> UserID (r_task r) = 7 \<and>
        ((CronExpression (r_task r) = None \<and> RRule (r_task r) = None) \<or> ParentID (r_task r) \<noteq> None) \<and>
        (\<exists>now. r' = soft_delete now r)) (tasks (app_core sample_app)) (tasks (app_core ?u))"
    using delete_user_result [OF ok_run [OF sample_app_delete(1)] ids] by blast
  then have "length (tasks (app_core ?u)) = 3" "tasks (app_core ?u) ! 1 = sample_row sample_parent"
    using rows by (auto simp: list_all2_conv_all_nth sample_defs dest: spec [of _ 1])
  then have "sample_row sample_parent \<in> set (tasks (app_core ?u))" by (metis nth_mem numeral_3_eq_3 One_nat_def lessI less_SucI)
  then show ?thesis by (rule bexI [rotated]) (simp add: sample_defs live_def)
qed

text \<open>C30: Deleting a task group succeeds only when no calendar binding that is not deleted refers to the
  group (the repository of bindings being there), and then the table of groups has lost that group
  and no other; with such a binding the deletion fails and the groups stay as they are.\<close>

theorem group_deletion:
  assumes "DeleteTaskGroup F i u = (r, u')" and "a_bindings F"
  shows "(group_bound i u \<longrightarrow> r \<noteq> Ok () \<and> group_rows u' = group_rows u) \<and>
    (r = Ok () \<longrightarrow> \<not> group_bound i u \<and> live_map group_table u i \<noteq> None \<and>
       live_map group_table u' = (live_map group_table u)(i := None))"
  using group_deletion_run [OF assms] DeleteTaskGroup_Ok [of F i u u'] assms by (auto simp: same_lists_def)

theorem group_deletion_witness:
  "group_bound 1 sample_app \<and> group_rows (snd (DeleteTaskGroup sample_app_env 1 sample_app)) = group_rows sample_app"
proof -
  have "group_bound 1 sample_app"
    by (simp add: group_bound_def sample_app_def binding_live_def sample_binding_def)
  moreover have "a_bindings sample_app_env" by (simp add: sample_app_env_def)
  ultimately show ?thesis
    using group_deletion [of sample_app_env 1 sample_app, OF prod.collapse [symmetric]] by blast
qed



text \<open>C26: The import of a file accounts for every event of it: the events are as many as the tasks created
  and the errors reported together, the to-dos are counted as skipped, and every key that is returned
  is a new one, of a task stored for the user and the chat the import was for.\<close>

theorem ics_accounting:
  assumes "ics_Import S (Inr c) opts u = (Ok res, u')" and "store_wf (app_core u)" and "0 < next_id (app_core u)"
  shows "length (im_CreatedTaskIDs res) + length (im_Errors res) = length (vc_Events c) \<and>
    im_SkippedTODO res = vc_Todos c \<and>
    (\<forall>i \<in> set (im_CreatedTaskIDs res). next_id (app_core u) \<le> i \<and>
       (\<exists>r \<in> set (tasks (app_core u')). row_id r = i \<and> UserID (r_task r) = io_UserID opts \<and>
          MessengerRelatedUserID (r_task r) = io_MessengerRelatedUserID opts))"
  using ics_Import_Ok [OF assms(1)] assms(2,3) by (simp add: store_ready_def owned_task_def)

theorem ics_accounting_witness:
  "\<exists>res. fst (ics_Import sample_env (Inr sample_file) sample_import import_app) = Ok res \<and>
     im_CreatedTaskIDs res = [1] \<and> length (im_Errors res) = 1"
proof -
  obtain res where res: "fst (ics_Import sample_env (Inr sample_file) sample_import import_app) = Ok res"
      "im_CreatedTaskIDs res = [1]"
    using sample_app_import(1) by blast
  have ready: "store_wf (app_core import_app)" "0 < next_id (app_core import_app)"
    using sample_app_import(2) by (simp_all add: store_ready_def)
  have "length (vc_Events sample_file) = 2" by (simp add: sample_file_def)
  then show ?thesis using ics_accounting [OF ok_run [OF res(1)] ready] res by simp
qed

text \<open>C29: The table of backlog items implements a finite map from keys to items: an insert that succeeds puts
  an item under a key that was not there, a read returns the item under the key, and reports it
  missing only if there is none, an update maps the item under the key, a removal that succeeds takes
  away a key that was there; and no statement that fails changes the map.\<close>

theorem backlog_table_map:
  assumes "soft_wf backlog_table u"
  shows "(\<forall>b i u'. repo_CreateBacklog b u = (Ok i, u') \<longrightarrow> live_map backlog_table u i = None \<and>
      live_map backlog_table u' = (live_map backlog_table u)(i \<mapsto> b\<lparr>bl_ID := i, bl_CreatedAt := clock (app_core u),
        bl_UpdatedAt := clock (app_core u), bl_CompletedAt := None\<rparr>)) \<and>
    (\<forall>i r u'. repo_GetBacklogByID i u = (r, u') \<longrightarrow> live_map backlog_table u' = live_map backlog_table u \<and>
      (\<forall>b. r = Ok b \<longrightarrow> live_map backlog_table u i = Some b) \<and>
      (\<forall>e. r = Err e \<longrightarrow> is_not_found e \<longrightarrow> live_map backlog_table u i = None)) \<and>
    (\<forall>b u'. repo_UpdateBacklog b u = (Ok (), u') \<longrightarrow> (\<exists>now. live_map backlog_table u' =
      (live_map backlog_table u)(bl_ID b := map_option (\<lambda>x. x\<lparr>bl_Title := bl_Title b, bl_Description := bl_Description b,
        bl_CompletedAt := bl_CompletedAt b, bl_UpdatedAt := now\<rparr>) (live_map backlog_table u (bl_ID b))))) \<and>
    (\<forall>i u'. repo_DeleteBacklog i u = (Ok (), u') \<longrightarrow> live_map backlog_table u i \<noteq> None \<and>
      live_map backlog_table u' = (live_map backlog_table u)(i := None)) \<and>
    (\<forall>b i e u'. repo_CreateBacklog b u = (Err e, u') \<or> repo_UpdateBacklog b u = (Err e, u') \<or>
      repo_DeleteBacklog i u = (Err e, u') \<longrightarrow> live_map backlog_table u' = live_map backlog_table u)"
proof -
  note insert = backlog_statements(1) [OF _ assms] and read = backlog_statements(2)
  show ?thesis
    by (intro conjI allI impI;
        ((rule insert [THEN conjunct1], assumption) | (rule insert [THEN conjunct2], assumption) |
         (rule read [THEN conjunct1], assumption) | (rule read [THEN conjunct2, THEN conjunct1, rule_format], assumption+) |
         (rule read [THEN conjunct2, THEN conjunct2, rule_format], assumption+) | (rule backlog_statements(3), assumption) |
         (rule backlog_statements(4) [THEN conjunct1], assumption) | (rule backlog_statements(4) [THEN conjunct2], assumption) |
         (rule backlog_statements(5), assumption)))
qed

theorem backlog_table_map_witness:
  "live_map backlog_table sample_app 3 = None \<and>
     live_map backlog_table (snd (repo_CreateBacklog (batch_item 7 None ''eggs'') sample_app)) 3 \<noteq> None"
proof -
  have "repo_CreateBacklog (batch_item 7 None ''eggs'') sample_app =
      (Ok 3, snd (repo_CreateBacklog (batch_item 7 None ''eggs'') sample_app))"
    by (rule ok_run) (simp add: repo_CreateBacklog_def soft_insert_def backlog_table_def sample_app_def app_runs
        run_defs sample_defs)
  then show ?thesis using backlog_table_map [OF sample_app_tables] by (metis fun_upd_same option.distinct(1))
qed

subsection \<open>Requests to the server\<close>




text \<open>C2: A request to create, update, delete, mute or unmute a task that is answered with an error text has
  written no task, wherever it was refused: by the middleware, a validator, the service or the
  database.\<close>

theorem refused_writes_no_task:
  assumes "serve cfg V c q u = (Ok (Reply s (BError e)), u')" and "changes_task q"
  shows "tasks (app_core u') = tasks (app_core u)"
  using assms by (rule serve_refused)

theorem refused_writes_no_task_witness:
  "tasks (app_core (snd (serve sample_config sample_server (sample_get ''7'' ''1'') CallDeleteTask sample_app))) =
     tasks (app_core sample_app)"
proof -
  have run: "serve sample_config sample_server (sample_get ''7'' ''1'') CallDeleteTask sample_app =
      (Ok (Reply 401 (BError ''invalid or missing API key'')), sample_app)"
    by (subst serve_locked) (simp_all add: sample_config_def sample_get_def refused_def)
  have "changes_task CallDeleteTask" by simp
  from refused_writes_no_task [OF run this] show ?thesis by (simp add: run)
qed





text \<open>C23: Deleting or synchronising a binding through the path of a user who has no such binding is refused:
  no binding, link or task changes and nothing is sent to Google.\<close>

theorem foreign_binding_untouched:
  assumes "http_DeleteBinding V c u = (Ok r, u') \<or> http_ForceSync V c u = (Ok r, u')"
    and "atoi (rq_Param c ''user_id'') = Some userID" and "atoi (rq_Param c ''binding_id'') = Some i"
    and "\<And>b. b \<in> set (bindings (cal u)) \<Longrightarrow> binding_live b \<Longrightarrow> cb_ID b = i \<Longrightarrow> cb_UserID b \<noteq> userID"
  shows "400 \<le> reply_status r \<and> bindings (cal u') = bindings (cal u) \<and> google (cal u') = google (cal u) \<and>
    tasks (app_core u') = tasks (app_core u) \<and> sync_links (app_core u') = sync_links (app_core u)"
  by (rule foreign_requests [OF assms])

theorem foreign_binding_untouched_witness:
  "400 \<le> reply_status (refused 404 ''binding not found for user'')"
proof -
  have run: "http_DeleteBinding sample_server (sample_get ''8'' ''1'') sample_app =
      (Ok (refused 404 ''binding not found for user''), sample_app) \<or>
    http_ForceSync sample_server (sample_get ''8'' ''1'') sample_app =
      (Ok (refused 404 ''binding not found for user''), sample_app)"
    using sample_foreign by blast
  have param: "atoi (rq_Param (sample_get ''8'' ''1'') ''user_id'') = Some 8"
    "atoi (rq_Param (sample_get ''8'' ''1'') ''binding_id'') = Some 1"
    by (simp_all add: sample_get_def)
  have "cb_UserID b \<noteq> 8" if "b \<in> set (bindings (cal sample_app))" for b
    using that by (simp add: sample_app_def sample_binding_def)
  then show ?thesis using foreign_binding_untouched [OF run param] by blast
qed

text \<open>C24: What a callback that is answered with 200 leaves behind: the user its state names has an account
  that is not revoked and whose two stored tokens decrypt to the ones Google gave; the accounts of
  all other users are as they were.\<close>

theorem account_connected:
  assumes "http_OAuthCallback V c A u = (Ok (Reply 200 b), u')" and "gcm_laws (oc_cipher (sv_oauth V))"
  shows "\<exists>userID token. atoi (rq_Query c ''state'') = Some userID \<and> 0 < userID \<and>
    oa_exchange (A (rq_Query c ''code'')) = Inr token \<and>
    (\<exists>x \<in> set (accounts (cal u')). ga_UserID x = userID \<and> ga_RevokedAt x = None \<and>
       Decrypt (oc_cipher (sv_oauth V)) (ga_AccessTokenEnc x) = Some (ot_AccessToken token) \<and>
       Decrypt (oc_cipher (sv_oauth V)) (ga_RefreshTokenEnc x) = Some (ot_RefreshToken token)) \<and>
    filter (\<lambda>x. ga_UserID x \<noteq> userID) (accounts (cal u')) = filter (\<lambda>x. ga_UserID x \<noteq> userID) (accounts (cal u))"
  by (rule callback_stores [OF assms]) blast

theorem account_connected_witness:
  "\<exists>x \<in> set (accounts (cal (snd (http_OAuthCallback sample_server (sample_get ''7'' ''code'') (\<lambda>_. sample_answers) sample_app)))).
     ga_UserID x = 7 \<and> Decrypt sample_gcm (ga_AccessTokenEnc x) = Some ''a''"
proof -
  obtain b where "fst (http_OAuthCallback sample_server (sample_get ''7'' ''code'') (\<lambda>_. sample_answers) sample_app) =
      Ok (Reply 200 b)"
    using sample_callback by blast
  then have run: "http_OAuthCallback sample_server (sample_get ''7'' ''code'') (\<lambda>_. sample_answers) sample_app =
      (Ok (Reply 200 b), snd (http_OAuthCallback sample_server (sample_get ''7'' ''code'') (\<lambda>_. sample_answers) sample_app))"
    by (rule Sample_State.ok_run)
  have laws: "gcm_laws (oc_cipher (sv_oauth sample_server))" by (simp add: sample_server_def sample_gcm_laws)
  from account_connected [OF run laws] show ?thesis
    by (auto simp: sample_server_def sample_get_def sample_answers_def)
qed





end
